(* ===== verification/Prelude.thy ===== *)
theory Prelude
  imports Main "HOL-Library.State_Monad" "HOL-Library.AList"
begin

text \<open>
  What every component of the development shares: Go's errors, times and strings as HOL values,
  string maps, the outcome of code that may dereference a nil pointer, and a small program logic
  for effectful code.

  Effectful Go code is written in the state monad of \<open>HOL-Library.State_Monad\<close>; its state is a
  trace, the list (newest first) of what the code has asked of its environment.
  \<open>emits P m Q\<close> says that \<open>m\<close> only ever adds calls satisfying \<open>P\<close> to the trace and that every
  result satisfies \<open>Q\<close>; the rules for it are collected in \<open>emits_rules\<close>.
\<close>

named_theorems emits_rules "introduction rules for emits, one per monad construct"
named_theorems go_defs "definitions of the pure Go helpers, unfolded together"

section \<open>Times and durations\<close>

text \<open>
  A \<open>time.Time\<close> is a number of nanoseconds since Go's zero time, so \<open>Time.IsZero\<close> is equality
  with 0. A \<open>*metav1.Time\<close> is an option. A \<open>time.Duration\<close> is an int64 number of nanoseconds, and
  \<open>Time.Sub\<close> saturates at its two ends.
\<close>

type_synonym gtime = int
type_synonym duration = int

definition second :: duration where "second = 1000000000"
definition minute :: duration where "minute = 60 * second"
definition hour :: duration where "hour = 60 * minute"

definition maxDuration :: duration where "maxDuration = 2 ^ 63 - 1"
definition minDuration :: duration where "minDuration = - (2 ^ 63)"

definition time_Sub :: "gtime \<Rightarrow> gtime \<Rightarrow> duration" where
  "time_Sub t u = max minDuration (min maxDuration (t - u))"

definition time_Add :: "gtime \<Rightarrow> duration \<Rightarrow> gtime" where
  "time_Add t d = t + d"

definition time_After :: "gtime \<Rightarrow> gtime \<Rightarrow> bool" where
  "time_After t u \<longleftrightarrow> u < t"

definition time_Before :: "gtime \<Rightarrow> gtime \<Rightarrow> bool" where
  "time_Before t u \<longleftrightarrow> t < u"

definition IsZero :: "gtime option \<Rightarrow> bool" where
  "IsZero t = (case t of None \<Rightarrow> True | Some v \<Rightarrow> v = 0)"

lemma IsZero_simps [simp]: "IsZero None" "IsZero (Some t) = (t = 0)"
  by (simp_all add: IsZero_def)

lemma time_Sub_bounds: "minDuration \<le> time_Sub t u \<and> time_Sub t u \<le> maxDuration"
  by (auto simp: time_Sub_def minDuration_def maxDuration_def)

lemma time_Sub_exact:
  "minDuration \<le> t - u \<Longrightarrow> t - u \<le> maxDuration \<Longrightarrow> time_Sub t u = t - u"
  by (simp add: time_Sub_def)

lemma time_Sub_pos_iff: "0 < time_Sub t u \<longleftrightarrow> u < t"
  by (auto simp: time_Sub_def minDuration_def maxDuration_def)

lemma time_Sub_nonneg_iff: "0 \<le> time_Sub t u \<longleftrightarrow> u \<le> t"
  by (auto simp: time_Sub_def minDuration_def maxDuration_def)

text \<open>Arithmetic on a \<open>time.Duration\<close>, an \<open>int64\<close> or an \<open>int32\<close> wraps around.\<close>

definition wrap64 :: "int \<Rightarrow> int" where
  "wrap64 x = (x + 2 ^ 63) mod 2 ^ 64 - 2 ^ 63"

definition wrap32 :: "int \<Rightarrow> int" where
  "wrap32 x = (x + 2 ^ 31) mod 2 ^ 32 - 2 ^ 31"

lemma wrap64_exact: "- (2 ^ 63) \<le> x \<Longrightarrow> x < 2 ^ 63 \<Longrightarrow> wrap64 x = x"
  by (simp add: wrap64_def)

lemma wrap64_bounds: "- (2 ^ 63) \<le> wrap64 x \<and> wrap64 x < 2 ^ 63"
  by (simp add: wrap64_def)

section \<open>Errors and panics\<close>

text \<open>
  An \<open>error\<close> is an option of \<open>gerror\<close>; \<open>None\<close> is nil. \<open>StatusError\<close> is what the API server
  answers (a reason and a message), the two \<open>Err\<close> values are the sentinels of
  \<open>mover/builder.go\<close>, \<open>CopyTriggerTimeoutError\<close> is the type of \<open>errors/errors.go\<close> and
  \<open>Errorf\<close> carries the message of \<open>fmt.Errorf\<close> and \<open>errors.New\<close>.
\<close>

datatype kreason = NotFound | AlreadyExists | Conflict | Invalid | OtherReason

datatype gerror =
    StatusError kreason string
  | NoMatchError string
  | ErrNoMoverFound
  | ErrMultipleMoversFound
  | CopyTriggerTimeoutError string
  | Errorf string

fun errorMsg :: "gerror \<Rightarrow> string" where
  "errorMsg (StatusError r msg) = msg"
| "errorMsg (NoMatchError msg) = msg"
| "errorMsg ErrNoMoverFound = ''a replication method must be specified''"
| "errorMsg ErrMultipleMoversFound = ''only one replication method can be supplied''"
| "errorMsg (CopyTriggerTimeoutError pvc) =
     ''Timed out waiting for copy-trigger to be modified for pvc '' @ pvc"
| "errorMsg (Errorf msg) = msg"

fun isNotFound :: "gerror \<Rightarrow> bool" where
  "isNotFound (StatusError NotFound _) = True"
| "isNotFound _ = False"

fun isInvalid :: "gerror \<Rightarrow> bool" where
  "isInvalid (StatusError Invalid _) = True"
| "isInvalid _ = False"

fun isNoMatch :: "gerror \<Rightarrow> bool" where
  "isNoMatch (NoMatchError _) = True"
| "isNoMatch _ = False"

text \<open>\<open>client.IgnoreNotFound\<close>: nil on a not-found error, otherwise the error itself.\<close>

definition IgnoreNotFound :: "gerror option \<Rightarrow> gerror option" where
  "IgnoreNotFound e = (case e of None \<Rightarrow> None | Some x \<Rightarrow> if isNotFound x then None else Some x)"

lemma IgnoreNotFound_simps [simp]:
  "IgnoreNotFound None = None"
  "IgnoreNotFound (Some e) = (if isNotFound e then None else Some e)"
  by (simp_all add: IgnoreNotFound_def)

text \<open>Code that may dereference a nil pointer ends in \<open>Panic\<close>.\<close>

datatype 'a go = Ret 'a | Panic

section \<open>Strings\<close>

definition HasPrefix :: "string \<Rightarrow> string \<Rightarrow> bool" where
  "HasPrefix s p \<longleftrightarrow> take (length p) s = p"

fun str_contains :: "string \<Rightarrow> string \<Rightarrow> bool" where
  "str_contains [] sub = (sub = [])"
| "str_contains (c # s) sub = (HasPrefix (c # s) sub \<or> str_contains s sub)"

definition lower_char :: "char \<Rightarrow> char" where
  "lower_char c = (let n = of_char c :: nat in
     if 65 \<le> n \<and> n \<le> 90 then char_of (n + 32) else c)"

definition ToLower :: "string \<Rightarrow> string" where
  "ToLower s = map lower_char s"

fun str_split :: "char \<Rightarrow> string \<Rightarrow> string list" where
  "str_split d [] = [[]]"
| "str_split d (c # s) =
     (if c = d then [] # str_split d s
      else case str_split d s of [] \<Rightarrow> [[c]] | w # ws \<Rightarrow> (c # w) # ws)"

fun strings_Join :: "string list \<Rightarrow> string \<Rightarrow> string" where
  "strings_Join [] sep = []"
| "strings_Join [x] sep = x"
| "strings_Join (x # xs) sep = x @ sep @ strings_Join xs sep"

definition ReplaceAll1 :: "string \<Rightarrow> char \<Rightarrow> char \<Rightarrow> string" where
  "ReplaceAll1 s a b = map (\<lambda>c. if c = a then b else c) s"

lemma HasPrefix_append [simp]: "HasPrefix (p @ s) p"
  by (simp add: HasPrefix_def)

lemma HasPrefix_iff: "HasPrefix s p \<longleftrightarrow> (\<exists>t. s = p @ t)"
  by (metis HasPrefix_append HasPrefix_def append_take_drop_id)

lemma str_contains_iff: "str_contains s sub \<longleftrightarrow> (\<exists>a b. s = a @ sub @ b)"
proof (induction s)
  case Nil
  then show ?case by simp
next
  case (Cons c s)
  show ?case
  proof
    assume "str_contains (c # s) sub"
    then consider "HasPrefix (c # s) sub" | "str_contains s sub" by auto
    then show "\<exists>a b. c # s = a @ sub @ b"
    proof cases
      case 1
      then obtain t where "c # s = sub @ t" by (auto simp: HasPrefix_iff)
      then have "c # s = [] @ sub @ t" by simp
      then show ?thesis by blast
    next
      case 2
      then obtain a b where "s = a @ sub @ b" using Cons.IH by auto
      then have "c # s = (c # a) @ sub @ b" by simp
      then show ?thesis by blast
    qed
  next
    assume "\<exists>a b. c # s = a @ sub @ b"
    then obtain a b where eq: "c # s = a @ sub @ b" by auto
    show "str_contains (c # s) sub"
    proof (cases a)
      case Nil
      with eq have "HasPrefix (c # s) sub" by simp
      then show ?thesis by simp
    next
      case (Cons x a')
      with eq have "\<exists>a b. s = a @ sub @ b" by auto
      with Cons.IH show ?thesis by simp
    qed
  qed
qed

lemma str_split_not_Nil [simp]: "str_split d s \<noteq> []"
  by (induction d s rule: str_split.induct) (auto split: list.splits)

lemma str_split_no_sep: "w \<in> set (str_split d s) \<Longrightarrow> d \<notin> set w"
  by (induction d s arbitrary: w rule: str_split.induct) (auto split: list.splits if_splits)

text \<open>\<open>strconv.Itoa\<close>, the decimal digits of a number.\<close>

definition digitChar :: "nat \<Rightarrow> char" where
  "digitChar d = char_of (48 + d)"

fun natString :: "nat \<Rightarrow> string" where
  "natString n = (if n < 10 then [digitChar n] else natString (n div 10) @ [digitChar (n mod 10)])"

declare natString.simps [simp del]

definition itoa :: "int \<Rightarrow> string" where
  "itoa i = (if i < 0 then CHR ''-'' # natString (nat (- i)) else natString (nat i))"

definition parseNat :: "string \<Rightarrow> nat" where
  "parseNat s = foldl (\<lambda>n c. 10 * n + (of_char c - 48)) 0 s"

lemma of_char_digitChar: "d < 10 \<Longrightarrow> (of_char (digitChar d) :: nat) = 48 + d"
  by (simp add: digitChar_def)

lemma parseNat_natString: "parseNat (natString n) = n"
proof (induction n rule: natString.induct)
  case (1 n)
  show ?case
  proof (cases "n < 10")
    case True
    then show ?thesis by (simp add: natString.simps[of n] parseNat_def of_char_digitChar)
  next
    case False
    with 1 show ?thesis
      by (simp add: natString.simps[of n] parseNat_def of_char_digitChar)
  qed
qed

lemma natString_digits: "c \<in> set (natString n) \<Longrightarrow> \<exists>d < 10. c = digitChar d"
proof (induction n rule: natString.induct)
  case (1 n)
  then show ?case
    by (subst (asm) (2) natString.simps) (auto split: if_splits intro: exI[of _ "n mod 10"])
qed

lemma natString_nonempty [simp]: "natString n \<noteq> []"
  by (subst natString.simps) simp

lemma itoa_nonempty [simp]: "itoa i \<noteq> []"
  by (simp add: itoa_def)

lemma itoa_chars: "c \<in> set (itoa i) \<Longrightarrow> c = CHR ''-'' \<or> (\<exists>d < 10. c = digitChar d)"
  by (auto simp: itoa_def dest: natString_digits split: if_splits)

section \<open>String maps\<close>

text \<open>
  A Go \<open>map[string]string\<close> is an association list. A nil map reads like an empty one, and the code
  allocates before it writes, so both are \<open>[]\<close>. \<open>entries\<close> is what a \<open>range\<close> loop over the map
  visits: every key once, with the value a lookup gives.
\<close>

type_synonym strmap = "(string \<times> string) list"

definition entries :: "('k \<times> 'v) list \<Rightarrow> ('k \<times> 'v) list" where
  "entries m = map (\<lambda>k. (k, the (map_of m k))) (remdups (map fst m))"

definition map_get :: "strmap \<Rightarrow> string \<Rightarrow> string" where
  "map_get m k = (case map_of m k of Some v \<Rightarrow> v | None \<Rightarrow> [])"

definition map_put :: "string \<Rightarrow> 'v \<Rightarrow> (string \<times> 'v) list \<Rightarrow> (string \<times> 'v) list" where
  "map_put k v m = AList.update k v m"

definition map_del :: "string \<Rightarrow> (string \<times> 'v) list \<Rightarrow> (string \<times> 'v) list" where
  "map_del k m = AList.delete k m"

lemma entries_iff: "(k, v) \<in> set (entries m) \<longleftrightarrow> map_of m k = Some v"
proof
  assume "(k, v) \<in> set (entries m)"
  then have "k \<in> set (map fst m)" "v = the (map_of m k)" by (auto simp: entries_def)
  then show "map_of m k = Some v"
    by (metis dom_map_of_conv_image_fst domD image_set option.sel)
next
  assume "map_of m k = Some v"
  then show "(k, v) \<in> set (entries m)"
    by (force simp: entries_def image_iff dest: map_of_SomeD)
qed

lemma map_of_put [simp]: "map_of (map_put k v m) = (map_of m)(k \<mapsto> v)"
  by (simp add: map_put_def update_conv')

lemma map_of_del [simp]: "map_of (map_del k m) = (map_of m)(k := None)"
  by (simp add: map_del_def delete_conv' restrict_map_def fun_eq_iff)

lemma map_get_put [simp]: "map_get (map_put k v m) k' = (if k' = k then v else map_get m k')"
  by (simp add: map_get_def)

lemma map_get_del [simp]: "map_get (map_del k m) k' = (if k' = k then [] else map_get m k')"
  by (simp add: map_get_def)

lemma map_put_id: "map_of m k = Some v \<Longrightarrow> map_put k v m = m"
  unfolding map_put_def
proof (induction m)
  case Nil
  then show ?case by simp
next
  case (Cons p m)
  then show ?case by (cases p) (auto split: if_splits)
qed

lemma map_del_id: "map_of m k = None \<Longrightarrow> map_del k m = m"
  by (simp add: map_del_def map_of_eq_None_iff)

section \<open>The program logic of traces\<close>

abbreviation ret :: "'a \<Rightarrow> ('s, 'a) state" where
  "ret \<equiv> State_Monad.return"

definition emits :: "('c \<Rightarrow> bool) \<Rightarrow> ('c list, 'a) state \<Rightarrow> ('a \<Rightarrow> bool) \<Rightarrow> bool" where
  "emits P m Q \<longleftrightarrow>
     (\<forall>tr. \<exists>a new. run_state m tr = (a, new @ tr) \<and> (\<forall>c \<in> set new. P c) \<and> Q a)"

lemma emitsI:
  "(\<And>tr. \<exists>a new. run_state m tr = (a, new @ tr) \<and> (\<forall>c \<in> set new. P c) \<and> Q a) \<Longrightarrow> emits P m Q"
  by (auto simp: emits_def)

lemma emitsE:
  assumes "emits P m Q"
  obtains a new where "run_state m tr = (a, new @ tr)" "\<forall>c \<in> set new. P c" "Q a"
  using assms unfolding emits_def by blast

lemma emits_return [emits_rules]: "Q a \<Longrightarrow> emits P (ret a) Q"
  by (auto simp: emits_def)

lemma emits_bind:
  assumes m: "emits P m Q" and f: "\<And>a. Q a \<Longrightarrow> emits P (f a) R"
  shows "emits P (m \<bind> f) R"
proof (rule emitsI)
  fix tr
  from m obtain a n1 where 1: "run_state m tr = (a, n1 @ tr)" "\<forall>c \<in> set n1. P c" "Q a"
    by (rule emitsE)
  from f[OF 1(3)] obtain b n2
    where 2: "run_state (f a) (n1 @ tr) = (b, n2 @ n1 @ tr)" "\<forall>c \<in> set n2. P c" "R b"
    by (rule emitsE)
  show "\<exists>b new. run_state (m \<bind> f) tr = (b, new @ tr) \<and> (\<forall>c \<in> set new. P c) \<and> R b"
    using 1 2 by (intro exI[of _ b] exI[of _ "n2 @ n1"]) auto
qed

lemmas emits_step = emits_bind[where Q = "\<lambda>_. True"]

lemma emits_weaken:
  "emits P m Q \<Longrightarrow> (\<And>c. P c \<Longrightarrow> P' c) \<Longrightarrow> (\<And>a. Q a \<Longrightarrow> Q' a) \<Longrightarrow> emits P' m Q'"
  unfolding emits_def by meson

lemma emits_post: "emits P m Q \<Longrightarrow> (\<And>a. Q a \<Longrightarrow> Q' a) \<Longrightarrow> emits P m Q'"
  by (rule emits_weaken)

lemma emits_conj: "emits P m Q \<Longrightarrow> emits P' m Q' \<Longrightarrow> emits (\<lambda>c. P c \<and> P' c) m (\<lambda>a. Q a \<and> Q' a)"
  unfolding emits_def by (metis append_same_eq prod.inject)

lemma emits_if [emits_rules]:
  "(b \<Longrightarrow> emits P m Q) \<Longrightarrow> (\<not> b \<Longrightarrow> emits P n Q) \<Longrightarrow> emits P (if b then m else n) Q"
  by simp

lemma emits_case_option [emits_rules]:
  "(x = None \<Longrightarrow> emits P m Q) \<Longrightarrow> (\<And>y. x = Some y \<Longrightarrow> emits P (f y) Q) \<Longrightarrow>
   emits P (case x of None \<Rightarrow> m | Some y \<Rightarrow> f y) Q"
  by (cases x) auto

lemma emits_case_sum [emits_rules]:
  "(\<And>e. x = Inl e \<Longrightarrow> emits P (f e) Q) \<Longrightarrow> (\<And>y. x = Inr y \<Longrightarrow> emits P (g y) Q) \<Longrightarrow>
   emits P (case x of Inl e \<Rightarrow> f e | Inr y \<Rightarrow> g y) Q"
  by (cases x) auto

lemma emits_case_prod [emits_rules]:
  "(\<And>a b. x = (a, b) \<Longrightarrow> emits P (f a b) Q) \<Longrightarrow> emits P (case x of (a, b) \<Rightarrow> f a b) Q"
  by (cases x) auto

lemma emits_case_go [emits_rules]:
  "(\<And>y. x = Ret y \<Longrightarrow> emits P (f y) Q) \<Longrightarrow> (x = Panic \<Longrightarrow> emits P m Q) \<Longrightarrow>
   emits P (case x of Ret y \<Rightarrow> f y | Panic \<Rightarrow> m) Q"
  by (cases x) auto

lemma emits_Let [emits_rules]: "emits P (f x) Q \<Longrightarrow> emits P (let y = x in f y) Q"
  by simp

text \<open>
  What a client of \<open>emits\<close> may conclude about one run: the trace only grows, and every call in the
  part that was added satisfies the predicate.
\<close>

lemma emits_run:
  assumes "emits P m Q" and "run_state m tr = (a, tr')"
  obtains new where "tr' = new @ tr" "\<forall>c \<in> set new. P c" "Q a"
  using assms by (auto simp: emits_def) (metis Pair_inject)

text \<open>\<open>forEach\<close> is Go's loop with an early return: it stops at the first element that yields one.\<close>

fun forEach :: "('x \<Rightarrow> ('s, 'e option) state) \<Rightarrow> 'x list \<Rightarrow> ('s, 'e option) state" where
  "forEach f [] = ret None"
| "forEach f (x # xs) = do {
     r \<leftarrow> f x;
     case r of Some e \<Rightarrow> ret (Some e) | None \<Rightarrow> forEach f xs }"

lemma emits_forEach:
  assumes "\<And>x. x \<in> set xs \<Longrightarrow> emits P (f x) (\<lambda>_. True)"
  shows "emits P (forEach f xs) (\<lambda>_. True)"
  using assms
proof (induction xs)
  case Nil
  then show ?case by (auto intro: emits_rules)
next
  case (Cons x xs)
  have "emits P (f x) (\<lambda>_. True)" using Cons.prems by simp
  then show ?case
    unfolding forEach.simps
    by (rule emits_bind) (auto intro!: emits_rules Cons split: option.splits)
qed

lemma forEach_run:
  assumes "run_state (forEach f xs) tr = (None, tr')"
    and "\<And>x. x \<in> set xs \<Longrightarrow> emits P (f x) (\<lambda>_. True)"
  shows "\<exists>new. tr' = new @ tr \<and>
    (\<forall>x \<in> set xs. \<exists>tr1 n. run_state (f x) tr1 = (None, n @ tr1) \<and> set n \<subseteq> set new)"
  using assms
proof (induction xs arbitrary: tr)
  case Nil
  then show ?case by simp
next
  case (Cons x xs)
  obtain n1 r where 1: "run_state (f x) tr = (r, n1 @ tr)"
    by (rule emitsE[OF Cons.prems(2)[of x], of tr]) auto
  with Cons.prems(1) have r: "r = None" and 2: "run_state (forEach f xs) (n1 @ tr) = (None, tr')"
    by (auto split: option.splits)
  from Cons.IH[OF 2 Cons.prems(2)] obtain n2 where n2: "tr' = n2 @ n1 @ tr"
    "\<forall>x \<in> set xs. \<exists>tr1 n. run_state (f x) tr1 = (None, n @ tr1) \<and> set n \<subseteq> set n2" by auto
  show ?case
  proof (rule exI[of _ "n2 @ n1"], intro conjI ballI)
    fix y assume "y \<in> set (x # xs)"
    then consider "y = x" | "y \<in> set xs" by auto
    then show "\<exists>tr1 n. run_state (f y) tr1 = (None, n @ tr1) \<and> set n \<subseteq> set (n2 @ n1)"
    proof cases
      case 1
      with \<open>run_state (f x) tr = (r, n1 @ tr)\<close> r show ?thesis
        by (intro exI[of _ tr] exI[of _ n1]) auto
    next
      case 2
      with n2(2) show ?thesis by fastforce
    qed
  qed (simp add: n2)
qed

subsection \<open>Order\<close>

text \<open>
  \<open>preceded R m\<close> relates every call \<open>m\<close> makes to the calls it made before it. \<open>R\<close> must stay true when
  there are more earlier calls.
\<close>

definition preceded :: "('c \<Rightarrow> 'c list \<Rightarrow> bool) \<Rightarrow> ('c list, 'a) state \<Rightarrow> bool" where
  "preceded R m \<longleftrightarrow> (\<forall>tr l c e a. run_state m tr = (a, l @ c # e @ tr) \<longrightarrow> R c e)"

definition grows :: "('c \<Rightarrow> 'c list \<Rightarrow> bool) \<Rightarrow> bool" where
  "grows R \<longleftrightarrow> (\<forall>c e e'. R c e \<longrightarrow> R c (e @ e'))"

lemma preceded_more: "grows R \<Longrightarrow> preceded R m \<Longrightarrow> preceded (\<lambda>c e. R c (e @ n)) m"
  unfolding preceded_def grows_def by blast

lemma preceded_emits:
  assumes "emits P m Q" "\<And>c e. P c \<Longrightarrow> R c e"
  shows "preceded R m"
  unfolding preceded_def
proof (intro allI impI)
  fix tr l c e a assume "run_state m tr = (a, l @ c # e @ tr)"
  moreover obtain b new where "run_state m tr = (b, new @ tr)" "\<forall>c \<in> set new. P c"
    using assms(1) by (rule emitsE)
  ultimately have "l @ c # e = new" by (metis append.assoc append_Cons append_same_eq prod.inject)
  with \<open>\<forall>c \<in> set new. P c\<close> have "P c" by auto
  then show "R c e" by (rule assms(2))
qed

lemma preceded_bind:
  assumes "emits P m Q" "preceded R m"
    and f: "\<And>a n tr. run_state m tr = (a, n @ tr) \<Longrightarrow> preceded (\<lambda>c e. R c (e @ n)) (f a)"
    and f': "\<And>a. emits P' (f a) Q'"
  shows "preceded R (m \<bind> f)"
  unfolding preceded_def
proof (intro allI impI)
  fix tr l c e b assume run: "run_state (m \<bind> f) tr = (b, l @ c # e @ tr)"
  obtain a n1 where 1: "run_state m tr = (a, n1 @ tr)" using assms(1) by (rule emitsE)
  obtain b' n2 where 2: "run_state (f a) (n1 @ tr) = (b', n2 @ n1 @ tr)" using f' by (rule emitsE)
  from run 1 2 have "(l @ c # e) @ tr = (n2 @ n1) @ tr" by auto
  then have "l @ c # e = n2 @ n1" by (simp only: append_same_eq)
  then consider e2 where "n2 = l @ c # e2" "e = e2 @ n1" | l' where "n1 = l' @ c # e"
    by (auto simp: append_eq_append_conv2 Cons_eq_append_conv)
  then show "R c e"
  proof cases
    case 1
    with f[OF \<open>run_state m tr = (a, n1 @ tr)\<close>] 2 show ?thesis
      unfolding preceded_def by (metis append.assoc append_Cons)
  next
    case 2
    with assms(2) 1 show ?thesis unfolding preceded_def by (metis append.assoc append_Cons)
  qed
qed

lemma preceded_return: "preceded R (ret a)"
  by (simp add: preceded_def)

end
