(* ===== verification/Kube_Types.thy ===== *)
theory Kube_Types
  imports Prelude
begin

text \<open>
  The Kubernetes API objects the operator reads and writes, with the fields the source uses. The
  object types belong to the Kubernetes API; here they are plain data. Every object extends
  \<open>objmeta\<close> (\<open>metav1.ObjectMeta\<close>), so what the source does through \<open>metav1.Object\<close> is a function on
  \<open>'a objmeta_scheme\<close>. Values the operator only passes along (tolerations, affinity, fields of a
  security context no code reads, ...) are uninterpreted strings, \<open>opaque\<close>.
\<close>

type_synonym opaque = string
type_synonym quantity = int
type_synonym key = "string \<times> string" \<comment> \<open>namespace, name\<close>

record ownerref =
  or_apiVersion :: string
  or_kind :: string
  or_name :: string
  or_uid :: string
  or_controller :: bool

record objmeta =
  om_name :: string
  om_namespace :: string
  om_uid :: string
  om_resourceVersion :: string
  om_labels :: strmap
  om_annotations :: strmap
  om_ownerRefs :: "ownerref list"
  om_creationTimestamp :: gtime
  om_deletionTimestamp :: "gtime option"

definition emptyMeta :: objmeta where
  "emptyMeta = \<lparr>om_name = [], om_namespace = [], om_uid = [], om_resourceVersion = [],
     om_labels = [], om_annotations = [], om_ownerRefs = [], om_creationTimestamp = 0,
     om_deletionTimestamp = None\<rparr>"

definition objKey :: "'a objmeta_scheme \<Rightarrow> key" where
  "objKey x = (om_namespace x, om_name x)"

record typedref =
  tr_apiGroup :: "string option"
  tr_kind :: string
  tr_name :: string

section \<open>Storage\<close>

datatype accessMode = ReadWriteOnce | ReadOnlyMany | ReadWriteMany | ReadWriteOncePod
datatype volumeMode = Filesystem | Block
datatype claimPhase = ClaimPending | ClaimBound | ClaimLost | ClaimNoPhase

record snapstatus =
  ss_bound :: "string option"
  ss_readyToUse :: "bool option"
  ss_restoreSize :: "quantity option"

record snapshot = objmeta +
  sn_kind :: string
  sn_sourcePVC :: "string option"
  sn_className :: "string option"
  sn_status :: "snapstatus option"

record pvc = objmeta +
  pvc_kind :: string
  pvc_accessModes :: "accessMode list option"
  pvc_requests :: "(string \<times> quantity) list"
  pvc_storageClassName :: "string option"
  pvc_volumeMode :: "volumeMode option"
  pvc_dataSource :: "typedref option"
  pvc_dataSourceRef :: "typedref option"
  pvc_volumeName :: string
  pvc_phase :: claimPhase
  pvc_capacity :: "(string \<times> quantity) list option"
  pvc_statusAccessModes :: "accessMode list"

text \<open>\<open>ResourceList.Storage()\<close>: the storage entry, or a zero quantity.\<close>

definition Storage :: "(string \<times> quantity) list \<Rightarrow> quantity" where
  "Storage rl = (case map_of rl ''storage'' of Some q \<Rightarrow> q | None \<Rightarrow> 0)"

record claimref =
  cl_namespace :: string
  cl_name :: string
  cl_uid :: string
  cl_resourceVersion :: string

record pv = objmeta +
  pv_claimRef :: "claimref option"

datatype bindingMode = BindImmediate | WaitForFirstConsumer

record storageclass = objmeta +
  sc_provisioner :: string
  sc_volumeBindingMode :: "bindingMode option"

record volumepopulator = objmeta +
  vpo_sourceKind :: "string \<times> string" \<comment> \<open>API group, kind\<close>

section \<open>Configuration, identity and services\<close>

record kns = objmeta + ns_extra :: unit
record node = objmeta + node_extra :: unit

record secret = objmeta +
  sec_type :: string
  sec_data :: "strmap option"
  sec_stringData :: strmap

record configmap = objmeta +
  cm_data :: "strmap option"

record serviceaccount = objmeta +
  sa_imagePullSecrets :: "string list"

record policyrule =
  pr_apiGroups :: "string list"
  pr_resources :: "string list"
  pr_resourceNames :: "string list"
  pr_verbs :: "string list"

record role = objmeta +
  role_rules :: "policyrule list"

record rolebinding = objmeta +
  rb_roleRef :: "string \<times> string \<times> string" \<comment> \<open>API group, kind, name\<close>
  rb_subjects :: "(string \<times> string \<times> string) list" \<comment> \<open>kind, name, namespace\<close>

datatype serviceType = ClusterIP | LoadBalancer | OtherService

datatype intOrString = IntPort int | NamedPort string

record serviceport =
  sport_name :: string
  sport_protocol :: string
  sport_port :: int
  sport_targetPort :: intOrString
  sport_nodePort :: int
  sport_appProtocol :: "string option"

record service = objmeta +
  svc_type :: serviceType
  svc_selector :: strmap
  svc_ports :: "serviceport list"
  svc_clusterIP :: string
  svc_ingress :: "(string \<times> string) list" \<comment> \<open>hostname, IP\<close>

section \<open>Pods and jobs\<close>

type_synonym keyToPath = "string \<times> string \<times> int option" \<comment> \<open>key, path, file mode\<close>

record secretVS =
  sv_secretName :: string
  sv_items :: "keyToPath list"
  sv_defaultMode :: "int option"

record configMapVS =
  cv_name :: string
  cv_items :: "keyToPath list"
  cv_defaultMode :: "int option"

record volumesource =
  vs_pvc :: "(string \<times> bool) option" \<comment> \<open>claim name, read-only\<close>
  vs_secret :: "secretVS option"
  vs_configMap :: "configMapVS option"
  vs_nfs :: "opaque option"
  vs_emptyDir :: "(string \<times> quantity option) option" \<comment> \<open>medium, size limit\<close>

definition noVolumeSource :: volumesource where
  "noVolumeSource = \<lparr>vs_pvc = None, vs_secret = None, vs_configMap = None, vs_nfs = None,
     vs_emptyDir = None\<rparr>"

record volume =
  vol_name :: string
  vol_source :: volumesource

record volumemount =
  vm_name :: string
  vm_mountPath :: string
  vm_readOnly :: bool

definition mountAt :: "string \<Rightarrow> string \<Rightarrow> volumemount" where
  "mountAt name path = \<lparr>vm_name = name, vm_mountPath = path, vm_readOnly = False\<rparr>"

record envvar =
  ev_name :: string
  ev_value :: string
  ev_secretRef :: "(string \<times> string \<times> bool) option" \<comment> \<open>secret, key, optional\<close>

definition envVal :: "string \<Rightarrow> string \<Rightarrow> envvar" where
  "envVal n v = \<lparr>ev_name = n, ev_value = v, ev_secretRef = None\<rparr>"

record capabilities =
  cap_add :: "string list"
  cap_drop :: "string list"

record seLinuxOptions =
  se_user :: string
  se_role :: string
  se_type :: string
  se_level :: string

record seccompProfile =
  sp_type :: string
  sp_localhostProfile :: "string option"

record windowsOptions =
  wo_gmsaCredentialSpecName :: "string option"
  wo_gmsaCredentialSpec :: "string option"
  wo_runAsUserName :: "string option"
  wo_hostProcess :: "bool option"

record secctx =
  sx_allowPrivilegeEscalation :: "bool option"
  sx_capabilities :: "capabilities option"
  sx_privileged :: "bool option"
  sx_readOnlyRootFilesystem :: "bool option"
  sx_runAsUser :: "int option"
  sx_runAsGroup :: "int option"
  sx_runAsNonRoot :: "bool option"
  sx_seLinuxOptions :: "seLinuxOptions option"
  sx_seccompProfile :: "seccompProfile option"
  sx_windowsOptions :: "windowsOptions option"
  sx_other :: opaque \<comment> \<open>procMount, appArmorProfile\<close>

record podsecctx =
  px_runAsUser :: "int option"
  px_runAsGroup :: "int option"
  px_fsGroup :: "int option"
  px_runAsNonRoot :: "bool option"
  px_fsGroupChangePolicy :: "string option"
  px_supplementalGroups :: "int list"
  px_seLinuxOptions :: "seLinuxOptions option"
  px_seccompProfile :: "seccompProfile option"
  px_windowsOptions :: "windowsOptions option"
  px_other :: opaque \<comment> \<open>sysctls, supplementalGroupsPolicy, appArmorProfile, ...\<close>

definition emptyPodSecurityContext :: podsecctx where
  "emptyPodSecurityContext = \<lparr>px_runAsUser = None, px_runAsGroup = None, px_fsGroup = None,
     px_runAsNonRoot = None, px_fsGroupChangePolicy = None, px_supplementalGroups = [],
     px_seLinuxOptions = None, px_seccompProfile = None, px_windowsOptions = None, px_other = []\<rparr>"

definition emptySecurityContext :: secctx where
  "emptySecurityContext = \<lparr>sx_allowPrivilegeEscalation = None, sx_capabilities = None, sx_privileged = None,
     sx_readOnlyRootFilesystem = None, sx_runAsUser = None, sx_runAsGroup = None, sx_runAsNonRoot = None,
     sx_seLinuxOptions = None, sx_seccompProfile = None, sx_windowsOptions = None, sx_other = []\<rparr>"

text \<open>The quantities of compute resources are in billionths, the finest a \<open>Quantity\<close> can hold.\<close>

type_synonym resourceList = "(string \<times> quantity) list"

record resources =
  rq_requests :: resourceList
  rq_limits :: resourceList
  rq_claims :: "opaque list"

definition noResources :: resources where
  "noResources = \<lparr>rq_requests = [], rq_limits = [], rq_claims = []\<rparr>"

record container =
  ct_name :: string
  ct_env :: "envvar list"
  ct_envFrom :: "string list" \<comment> \<open>secrets\<close>
  ct_command :: "string list"
  ct_args :: "string list"
  ct_image :: string
  ct_imagePullPolicy :: string
  ct_securityContext :: "secctx option"
  ct_volumeMounts :: "volumemount list"
  ct_resources :: resources
  ct_volumeDevices :: "(string \<times> string) list" \<comment> \<open>name, path of the device\<close>
  ct_ports :: "(string \<times> int) list" \<comment> \<open>name, container port\<close>

record podtemplate = objmeta +
  pt_containers :: "container list"
  pt_volumes :: "volume list"
  pt_restartPolicy :: string
  pt_serviceAccountName :: string
  pt_nodeSelector :: strmap
  pt_tolerations :: "opaque list"
  pt_securityContext :: "podsecctx option"
  pt_affinity :: "opaque option"
  pt_terminationGracePeriodSeconds :: "int option"

definition emptyTemplate :: podtemplate where
  "emptyTemplate = objmeta.extend emptyMeta
     (podtemplate.fields [] [] [] [] [] [] None None None)"

datatype conditionStatus = ConditionTrue | ConditionFalse | ConditionUnknown

datatype jobConditionType = JobComplete | JobFailed | OtherJobCondition string

record jobcondition =
  jc_type :: jobConditionType
  jc_status :: conditionStatus
  jc_reason :: string
  jc_message :: string

record job = objmeta +
  job_template :: podtemplate
  job_backoffLimit :: "int option"
  job_parallelism :: "int option"
  job_activeDeadlineSeconds :: "int option"
  job_ttlSecondsAfterFinished :: "int option"
  job_failed :: int
  job_succeeded :: int
  job_conditions :: "jobcondition list"
  job_startTime :: "gtime option"
  job_completionTime :: "gtime option"

record cronjob = objmeta +
  cj_schedule :: string
  cj_concurrencyPolicy :: string
  cj_suspend :: "bool option"
  cj_successfulJobsHistoryLimit :: "int option"
  cj_failedJobsHistoryLimit :: "int option"
  cj_template :: podtemplate
  cj_backoffLimit :: "int option"
  cj_activeDeadlineSeconds :: "int option"
  cj_lastScheduleTime :: "gtime option"
  cj_lastSuccessfulTime :: "gtime option"

record deployment = objmeta +
  dep_replicas :: "int option"
  dep_matchLabels :: strmap
  dep_strategy :: string
  dep_template :: podtemplate

datatype podPhase = PodPending | PodRunning | PodSucceeded | PodFailed | PodUnknown | PodNoPhase

record pod = objmeta +
  pod_volumes :: "volume list"
  pod_nodeName :: string
  pod_tolerations :: "opaque list"
  pod_phase :: podPhase

section \<open>Fresh local objects\<close>

text \<open>
  What the source writes as \<open>&T{ObjectMeta: ObjectMeta{Name: name, Namespace: ns}}\<close>: the object with
  every other field at its zero value.
\<close>

definition newMeta :: "string \<Rightarrow> string \<Rightarrow> objmeta" where
  "newMeta ns name = emptyMeta\<lparr>om_name := name, om_namespace := ns\<rparr>"

definition newSnapshot :: "string \<Rightarrow> string \<Rightarrow> snapshot" where
  "newSnapshot ns name = objmeta.extend (newMeta ns name)
     (snapshot.fields [] None None None)"

definition newPVC :: "string \<Rightarrow> string \<Rightarrow> pvc" where
  "newPVC ns name = objmeta.extend (newMeta ns name)
     (pvc.fields [] None [] None None None None [] ClaimNoPhase None [])"

definition newSecret :: "string \<Rightarrow> string \<Rightarrow> secret" where
  "newSecret ns name = objmeta.extend (newMeta ns name)
     (secret.fields [] None [])"

definition newService :: "string \<Rightarrow> string \<Rightarrow> service" where
  "newService ns name = objmeta.extend (newMeta ns name)
     (service.fields OtherService [] [] [] [])"

definition newServiceAccount :: "string \<Rightarrow> string \<Rightarrow> serviceaccount" where
  "newServiceAccount ns name = objmeta.extend (newMeta ns name)
     (serviceaccount.fields [])"

definition newRole :: "string \<Rightarrow> string \<Rightarrow> role" where
  "newRole ns name = objmeta.extend (newMeta ns name)
     (role.fields [])"

definition newRoleBinding :: "string \<Rightarrow> string \<Rightarrow> rolebinding" where
  "newRoleBinding ns name = objmeta.extend (newMeta ns name)
     (rolebinding.fields ([], [], []) [])"

definition newJob :: "string \<Rightarrow> string \<Rightarrow> job" where
  "newJob ns name = objmeta.extend (newMeta ns name)
     (job.fields emptyTemplate None None None None 0 0 [] None None)"

definition newCronJob :: "string \<Rightarrow> string \<Rightarrow> cronjob" where
  "newCronJob ns name = objmeta.extend (newMeta ns name)
     (cronjob.fields [] [] None None None emptyTemplate None None None None)"

definition newDeployment :: "string \<Rightarrow> string \<Rightarrow> deployment" where
  "newDeployment ns name = objmeta.extend (newMeta ns name)
     (deployment.fields None [] [] emptyTemplate)"

definition newVolumePopulator :: "string \<Rightarrow> volumepopulator" where
  "newVolumePopulator name = objmeta.extend (newMeta [] name)
     (volumepopulator.fields ([], []))"

lemmas new_defs = newMeta_def emptyMeta_def newSnapshot_def newPVC_def newSecret_def
  newServiceAccount_def newRole_def newRoleBinding_def newJob_def emptyTemplate_def objmeta.defs
  snapshot.defs pvc.defs secret.defs serviceaccount.defs role.defs rolebinding.defs job.defs
  podtemplate.defs newVolumePopulator_def volumepopulator.defs newCronJob_def cronjob.defs
  newService_def service.defs newDeployment_def deployment.defs

end
