(* ===== verification/Api_Types.thy ===== *)
theory Api_Types
  imports Kube_Types
begin

text \<open>
  The custom resources of \<open>src/api/v1alpha1\<close>: \<open>ReplicationSource\<close>, \<open>ReplicationDestination\<close> and
  \<open>KopiaMaintenance\<close> with their specs and statuses, and the types they share (\<open>common_types.go\<close>). The specs of the movers
  whose reconcile logic is not modelled yet are kept as uninterpreted values, so that the
  controllers still see which mover a resource names.
\<close>

section \<open>Types shared by both resources\<close>

datatype copyMethodType =
    CopyMethodDirect
  | CopyMethodNone
  | CopyMethodClone
  | CopyMethodSnapshot
  | CopyMethodOther string

record condition =
  co_type :: string
  co_status :: conditionStatus
  co_reason :: string
  co_message :: string
  co_lastTransitionTime :: gtime
  co_observedGeneration :: int

datatype moverResult = MoverResultNone | MoverResultSuccessful | MoverResultFailed

record moverStatus =
  ms_result :: moverResult
  ms_logs :: string

definition emptyMoverStatus :: moverStatus where
  "emptyMoverStatus = \<lparr>ms_result = MoverResultNone, ms_logs = []\<rparr>"

record customCASpec =
  ca_secretName :: string
  ca_configMapName :: string
  ca_key :: string

record kopiaPolicySpec =
  kp_secretName :: string
  kp_configMapName :: string
  kp_globalPolicyFilename :: string
  kp_repositoryConfigFilename :: string
  kp_repositoryConfig :: "string option"

record moverVolume =
  mv_mountPath :: string
  mv_secret :: "secretVS option"
  mv_nfs :: "opaque option"
  mv_pvc :: "(string \<times> bool) option"

record moverConfig =
  mc_securityContext :: "podsecctx option"
  mc_serviceAccount :: "string option"
  mc_podLabels :: strmap
  mc_resources :: "resources option"
  mc_affinity :: "opaque option"
  mc_volumes :: "moverVolume list"

record triggerSpec =
  trig_schedule :: "string option"
  trig_manual :: string

record volumeOptions =
  vo_copyMethod :: copyMethodType
  vo_capacity :: "quantity option"
  vo_storageClassName :: "string option"
  vo_accessModes :: "accessMode list option"
  vo_volumeSnapshotClassName :: "string option"

section \<open>ReplicationSource\<close>

record resticRetainPolicy =
  rp_hourly :: "int option"
  rp_daily :: "int option"
  rp_weekly :: "int option"
  rp_monthly :: "int option"
  rp_yearly :: "int option"
  rp_within :: "string option"
  rp_last :: "string option"

record rsResticSpec =
  rr_volumeOptions :: volumeOptions
  rr_pruneIntervalDays :: "int option"
  rr_repository :: string
  rr_customCA :: customCASpec
  rr_retain :: "resticRetainPolicy option"
  rr_cacheCapacity :: "quantity option"
  rr_cacheStorageClassName :: "string option"
  rr_cacheAccessModes :: "accessMode list option"
  rr_unlock :: string
  rr_moverConfig :: moverConfig

record rsRcloneSpec =
  rc_volumeOptions :: volumeOptions
  rc_configSection :: "string option"
  rc_destPath :: "string option"
  rc_config :: "string option"
  rc_customCA :: customCASpec
  rc_moverConfig :: moverConfig

record rsRsyncSpec =
  ry_volumeOptions :: volumeOptions
  ry_sshKeys :: "string option"
  ry_serviceType :: "serviceType option"
  ry_address :: "string option"
  ry_port :: "int option"
  ry_path :: "string option"
  ry_sshUser :: "string option"
  ry_moverServiceAccount :: "string option"
  ry_moverPodLabels :: strmap
  ry_moverResources :: "resources option"

record rsRsyncTLSSpec =
  rt_volumeOptions :: volumeOptions
  rt_keySecret :: "string option"
  rt_address :: "string option"
  rt_port :: "int option"
  rt_moverConfig :: moverConfig

text \<open>The status of a source and of a destination of the rsync mover have the same fields.\<close>

record rsyncStatus =
  rys_sshKeys :: "string option"
  rys_address :: "string option"
  rys_port :: "int option"

definition emptyRsyncStatus :: rsyncStatus where
  "emptyRsyncStatus = \<lparr>rys_sshKeys = None, rys_address = None, rys_port = None\<rparr>"

record rsRsyncTLSStatus =
  rts_keySecret :: "string option"

record rsResticStatus =
  rrs_lastPruned :: "gtime option"
  rrs_lastUnlocked :: string

record kopiaRetainPolicy =
  kr_hourly :: "int option"
  kr_daily :: "int option"
  kr_weekly :: "int option"
  kr_monthly :: "int option"
  kr_yearly :: "int option"
  kr_latest :: "int option"

record kopiaActions =
  kact_beforeSnapshot :: string
  kact_afterSnapshot :: string

record rsKopiaSpec =
  ks_volumeOptions :: volumeOptions
  ks_repository :: string
  ks_customCA :: customCASpec
  ks_retain :: "kopiaRetainPolicy option"
  ks_compression :: string
  ks_parallelism :: "int option"
  ks_cacheCapacity :: "quantity option"
  ks_cacheStorageClassName :: "string option"
  ks_cacheAccessModes :: "accessMode list option"
  ks_metadataCacheSizeLimitMB :: "int option"
  ks_contentCacheSizeLimitMB :: "int option"
  ks_actions :: "kopiaActions option"
  ks_policyConfig :: "kopiaPolicySpec option"
  ks_username :: "string option"
  ks_hostname :: "string option"
  ks_sourcePathOverride :: "string option"
  ks_additionalArgs :: "string list"
  ks_moverConfig :: moverConfig

record rsKopiaStatus =
  kss_lastMaintenance :: "gtime option"
  kss_nextScheduledMaintenance :: "gtime option"
  kss_maintenanceFailures :: int
  kss_kopiaMaintenance :: string
  kss_lastMetadataLimit :: "int option"
  kss_lastContentLimit :: "int option"

definition emptyRsKopiaStatus :: rsKopiaStatus where
  "emptyRsKopiaStatus = \<lparr>kss_lastMaintenance = None, kss_nextScheduledMaintenance = None,
     kss_maintenanceFailures = 0, kss_kopiaMaintenance = [], kss_lastMetadataLimit = None,
     kss_lastContentLimit = None\<rparr>"

record syncthingPeer =
  sy_address :: string
  sy_ID :: string
  sy_introducer :: bool

record syncthingPeerStatus =
  syp_address :: string
  syp_ID :: string
  syp_connected :: bool
  syp_introducedBy :: string
  syp_name :: string

record rsSyncthingSpec =
  rsy_peers :: "syncthingPeer list"
  rsy_serviceType :: "serviceType option"
  rsy_configCapacity :: "quantity option"
  rsy_configStorageClassName :: "string option"
  rsy_configAccessModes :: "accessMode list option"
  rsy_moverConfig :: moverConfig

record rsSyncthingStatus =
  sys_peers :: "syncthingPeerStatus list"
  sys_ID :: string
  sys_address :: string

definition emptySyncthingStatus :: rsSyncthingStatus where
  "emptySyncthingStatus = \<lparr>sys_peers = [], sys_ID = [], sys_address = []\<rparr>"

record replicationSourceStatus =
  rss_lastSyncTime :: "gtime option"
  rss_lastSyncStartTime :: "gtime option"
  rss_lastSyncDuration :: "duration option"
  rss_nextSyncTime :: "gtime option"
  rss_lastManualSync :: string
  rss_latestMoverStatus :: "moverStatus option"
  rss_conditions :: "condition list"
  rss_rsync :: "rsyncStatus option"
  rss_rsyncTLS :: "rsRsyncTLSStatus option"
  rss_restic :: "rsResticStatus option"
  rss_kopia :: "rsKopiaStatus option"
  rss_syncthing :: "rsSyncthingStatus option"

definition emptyRSStatus :: replicationSourceStatus where
  "emptyRSStatus = \<lparr>rss_lastSyncTime = None, rss_lastSyncStartTime = None,
     rss_lastSyncDuration = None, rss_nextSyncTime = None, rss_lastManualSync = [],
     rss_latestMoverStatus = None, rss_conditions = [], rss_rsync = None, rss_rsyncTLS = None,
     rss_restic = None, rss_kopia = None, rss_syncthing = None\<rparr>"

record replicationsource = objmeta +
  rs_sourcePVC :: string
  rs_trigger :: "triggerSpec option"
  rs_rsync :: "rsRsyncSpec option"
  rs_rsyncTLS :: "rsRsyncTLSSpec option"
  rs_rclone :: "rsRcloneSpec option"
  rs_restic :: "rsResticSpec option"
  rs_syncthing :: "rsSyncthingSpec option"
  rs_kopia :: "rsKopiaSpec option"
  rs_external :: "opaque option"
  rs_paused :: bool
  rs_status :: "replicationSourceStatus option"

section \<open>ReplicationDestination\<close>

record rdResticSpec =
  dr_volumeOptions :: volumeOptions
  dr_destinationPVC :: "string option"
  dr_cleanupTempPVC :: bool
  dr_repository :: string
  dr_customCA :: customCASpec
  dr_cacheCapacity :: "quantity option"
  dr_cacheStorageClassName :: "string option"
  dr_cacheAccessModes :: "accessMode list option"
  dr_cleanupCachePVC :: bool
  dr_previous :: "int option"
  dr_restoreAsOf :: "string option"
  dr_enableFileDeletion :: bool
  dr_moverConfig :: moverConfig

record rdRcloneSpec =
  dc_volumeOptions :: volumeOptions
  dc_destinationPVC :: "string option"
  dc_cleanupTempPVC :: bool
  dc_configSection :: "string option"
  dc_destPath :: "string option"
  dc_config :: "string option"
  dc_customCA :: customCASpec
  dc_moverConfig :: moverConfig

record rdRsyncSpec =
  dy_volumeOptions :: volumeOptions
  dy_destinationPVC :: "string option"
  dy_cleanupTempPVC :: bool
  dy_volumeMode :: "volumeMode option"
  dy_sshKeys :: "string option"
  dy_serviceType :: "serviceType option"
  dy_serviceAnnotations :: "strmap option"
  dy_address :: "string option"
  dy_port :: "int option"
  dy_path :: "string option"
  dy_sshUser :: "string option"
  dy_moverServiceAccount :: "string option"
  dy_moverPodLabels :: strmap
  dy_moverResources :: "resources option"

record rdRsyncTLSSpec =
  dt_volumeOptions :: volumeOptions
  dt_destinationPVC :: "string option"
  dt_cleanupTempPVC :: bool
  dt_volumeMode :: "volumeMode option"
  dt_keySecret :: "string option"
  dt_serviceType :: "serviceType option"
  dt_serviceAnnotations :: "strmap option"
  dt_moverConfig :: moverConfig

record rdRsyncTLSStatus =
  dts_keySecret :: "string option"
  dts_address :: "string option"
  dts_port :: "int option"

definition emptyRdRsyncTLSStatus :: rdRsyncTLSStatus where
  "emptyRdRsyncTLSStatus = \<lparr>dts_keySecret = None, dts_address = None, dts_port = None\<rparr>"

record kopiaSourceIdentity =
  si_sourceName :: string
  si_sourceNamespace :: string
  si_sourcePVCName :: string
  si_sourcePathOverride :: "string option"

record rdKopiaSpec =
  kd_volumeOptions :: volumeOptions
  kd_destinationPVC :: "string option"
  kd_cleanupTempPVC :: bool
  kd_repository :: string
  kd_customCA :: customCASpec
  kd_cacheCapacity :: "quantity option"
  kd_cacheStorageClassName :: "string option"
  kd_cacheAccessModes :: "accessMode list option"
  kd_metadataCacheSizeLimitMB :: "int option"
  kd_contentCacheSizeLimitMB :: "int option"
  kd_cleanupCachePVC :: bool
  kd_restoreAsOf :: "string option"
  kd_shallow :: "int option"
  kd_previous :: "int option"
  kd_policyConfig :: "kopiaPolicySpec option"
  kd_sourceIdentity :: "kopiaSourceIdentity option"
  kd_username :: "string option"
  kd_hostname :: "string option"
  kd_enableFileDeletion :: "bool option"
  kd_additionalArgs :: "string list"
  kd_moverConfig :: moverConfig

record kopiaIdentityInfo =
  ki_identity :: string
  ki_snapshotCount :: int
  ki_latestSnapshot :: "gtime option"

record rdKopiaStatus =
  kds_requestedIdentity :: string
  kds_snapshotsFound :: int
  kds_availableIdentities :: "kopiaIdentityInfo list"
  kds_lastMetadataLimit :: "int option"
  kds_lastContentLimit :: "int option"

definition emptyRdKopiaStatus :: rdKopiaStatus where
  "emptyRdKopiaStatus = \<lparr>kds_requestedIdentity = [], kds_snapshotsFound = 0,
     kds_availableIdentities = [], kds_lastMetadataLimit = None, kds_lastContentLimit = None\<rparr>"

record replicationDestinationStatus =
  rds_lastSyncTime :: "gtime option"
  rds_lastSyncStartTime :: "gtime option"
  rds_lastSyncDuration :: "duration option"
  rds_nextSyncTime :: "gtime option"
  rds_lastManualSync :: string
  rds_latestImage :: "typedref option"
  rds_latestMoverStatus :: "moverStatus option"
  rds_conditions :: "condition list"
  rds_rsync :: "rsyncStatus option"
  rds_rsyncTLS :: "rdRsyncTLSStatus option"
  rds_kopia :: "rdKopiaStatus option"

definition emptyRDStatus :: replicationDestinationStatus where
  "emptyRDStatus = \<lparr>rds_lastSyncTime = None, rds_lastSyncStartTime = None,
     rds_lastSyncDuration = None, rds_nextSyncTime = None, rds_lastManualSync = [],
     rds_latestImage = None, rds_latestMoverStatus = None, rds_conditions = [],
     rds_rsync = None, rds_rsyncTLS = None, rds_kopia = None\<rparr>"

record replicationdestination = objmeta +
  rd_trigger :: "triggerSpec option"
  rd_rsync :: "rdRsyncSpec option"
  rd_rsyncTLS :: "rdRsyncTLSSpec option"
  rd_rclone :: "rdRcloneSpec option"
  rd_restic :: "rdResticSpec option"
  rd_kopia :: "rdKopiaSpec option"
  rd_external :: "opaque option"
  rd_paused :: bool
  rd_status :: "replicationDestinationStatus option"

section \<open>Conditions, annotations and event reasons\<close>

definition ConditionSynchronizing :: string where
  "ConditionSynchronizing = ''Synchronizing''"
definition SynchronizingReasonSync :: string where
  "SynchronizingReasonSync = ''SyncInProgress''"
definition SynchronizingReasonSched :: string where
  "SynchronizingReasonSched = ''WaitingForSchedule''"
definition SynchronizingReasonManual :: string where
  "SynchronizingReasonManual = ''WaitingForManual''"
definition SynchronizingReasonError :: string where
  "SynchronizingReasonError = ''Error''"
definition SynchronizingReasonCleanup :: string where
  "SynchronizingReasonCleanup = ''CleanupInProgress''"

definition PrivilegedMoversNamespaceAnnotation :: string where
  "PrivilegedMoversNamespaceAnnotation = ''volsync.backube/privileged-movers''"
definition EnableDebugMoverAnnotation :: string where
  "EnableDebugMoverAnnotation = ''volsync.backube/enable-debug-mover''"
definition UseCopyTriggerAnnotation :: string where
  "UseCopyTriggerAnnotation = ''volsync.backube/use-copy-trigger''"
definition CopyTriggerAnnotation :: string where
  "CopyTriggerAnnotation = ''volsync.backube/copy-trigger''"
definition LatestCopyTriggerAnnotation :: string where
  "LatestCopyTriggerAnnotation = ''volsync.backube/latest-copy-trigger''"
definition LatestCopyStatusAnnotation :: string where
  "LatestCopyStatusAnnotation = ''volsync.backube/latest-copy-status''"
definition LatestCopyTriggerWaitingSinceAnnotation :: string where
  "LatestCopyTriggerWaitingSinceAnnotation = ''volsync.backube/latest-copy-trigger-waiting-since''"
definition LatestCopyStatusValueWaitingForTrigger :: string where
  "LatestCopyStatusValueWaitingForTrigger = ''WaitingForTrigger''"
definition LatestCopyStatusValueInProgress :: string where
  "LatestCopyStatusValueInProgress = ''InProgress''"
definition LatestCopyStatusValueCompleted :: string where
  "LatestCopyStatusValueCompleted = ''Completed''"
definition CopyTriggerWaitTimeout :: duration where
  "CopyTriggerWaitTimeout = 10 * minute"

lemmas condition_consts = ConditionSynchronizing_def SynchronizingReasonSync_def
  SynchronizingReasonSched_def SynchronizingReasonManual_def SynchronizingReasonError_def
  SynchronizingReasonCleanup_def

lemmas annotation_consts = UseCopyTriggerAnnotation_def CopyTriggerAnnotation_def
  LatestCopyTriggerAnnotation_def LatestCopyStatusAnnotation_def
  LatestCopyTriggerWaitingSinceAnnotation_def LatestCopyStatusValueWaitingForTrigger_def
  LatestCopyStatusValueInProgress_def LatestCopyStatusValueCompleted_def

section \<open>KopiaMaintenance\<close>

record kmTriggerSpec =
  kmt_schedule :: "string option"
  kmt_manual :: string

record kmRepositorySpec =
  kmr_repository :: string
  kmr_customCA :: "customCASpec option"
  kmr_repositoryType :: string

record kmSpec =
  km_repository :: kmRepositorySpec
  km_trigger :: "kmTriggerSpec option"
  km_schedule :: string
  km_enabled :: "bool option"
  km_suspend :: "bool option"
  km_successfulJobsHistoryLimit :: "int option"
  km_failedJobsHistoryLimit :: "int option"
  km_resources :: "resources option"
  km_activeDeadlineSeconds :: "int option"
  km_serviceAccountName :: "string option"
  km_podSecurityContext :: "podsecctx option"
  km_containerSecurityContext :: "secctx option"
  km_moverPodLabels :: strmap
  km_nodeSelector :: strmap
  km_tolerations :: "opaque list"
  km_affinity :: "opaque option"
  km_cacheCapacity :: "quantity option"
  km_cacheStorageClassName :: "string option"
  km_cacheAccessModes :: "accessMode list option"
  km_metadataCacheSizeLimitMB :: "int option"
  km_contentCacheSizeLimitMB :: "int option"
  km_cachePVC :: "string option"
  km_moverVolumes :: "moverVolume list"

record kmStatus =
  kms_observedGeneration :: int
  kms_activeCronJob :: string
  kms_lastReconcileTime :: "gtime option"
  kms_lastMaintenanceTime :: "gtime option"
  kms_nextScheduledMaintenance :: "gtime option"
  kms_maintenanceFailures :: int
  kms_lastManualSync :: string
  kms_conditions :: "condition list"

definition emptyKmStatus :: kmStatus where
  "emptyKmStatus = \<lparr>kms_observedGeneration = 0, kms_activeCronJob = [], kms_lastReconcileTime = None,
     kms_lastMaintenanceTime = None, kms_nextScheduledMaintenance = None, kms_maintenanceFailures = 0,
     kms_lastManualSync = [], kms_conditions = []\<rparr>"

record kopiamaintenance = objmeta +
  km_generation :: int
  km_finalizers :: "string list"
  km_spec :: kmSpec
  km_status :: "kmStatus option"

section \<open>Events\<close>

datatype eventType = EventNormal | EventWarning

datatype eventReason =
    EvRDaemonConnected | EvRTransferStarted | EvRTransferFailed
  | EvRSnapCreated | EvRSnapNotBound | EvRPVCCreated | EvRPVCNotBound
  | EvRSvcAddress | EvRSvcNoAddress
  | EvRSrcPVCWaitingForCopyTrigger | EvRSrcPVCTimeoutWaitingForCopyTrigger
  | EvRSrcPVCCopyTriggerReceived | EvRSrcPVCCopyUsingCopyTriggerCompleted
  | EvRVolPopPVCPopulatorFinished | EvRVolPopPVCPopulatorError
  | EvVolPopPVCReplicationDestMissing | EvRVolPopPVCReplicationDestNoLatestImage
  | EvRVolPopPVCCreationSuccess | EvRVolPopPVCCreationError
  | EvFailuresReset | EvValidationFailed | EvExcessiveScheduledFailures | EvCronJobFailed
  | EvMaintenanceBlocked | EvJobCreationFailed | EvManualMaintenanceCompleted
  | EvManualMaintenanceFailed | EvCronJobSuspended | EvCronJobCreated

end
