(* ===== verification/Cluster.thy ===== *)
theory Cluster
  imports Api_Types
begin

text \<open>
  The environment of the operator: the API server, the clock and the libraries of Kubernetes and
  controller-runtime. None of it is code of this repository, so all of it is a parameter,
  a record of functions (\<open>cluster\<close>, with one \<open>kclient\<close> per kind of object). An answer may depend on
  everything the operator has asked before (the trace), so a theorem about every \<open>cluster\<close> holds
  for every behaviour of the server, failures and concurrent changes of other clients included.
  What some theorems need to know of a library is a named hypothesis (\<open>cou_documented\<close>,
  \<open>controllerRef_documented\<close>, \<open>setStatusCondition_documented\<close>, \<open>cron_documented\<close>).
\<close>

section \<open>Calls\<close>

datatype kind =
    KSnapshot | KPVC | KPV | KStorageClass | KNamespace | KNode | KPod | KSecret | KConfigMap
  | KServiceAccount | KRole | KRoleBinding | KJob | KService
  | KReplicationSource | KReplicationDestination | KVolumePopulator | KCronJob | KKopiaMaintenance | KDeployment

datatype kobj =
    OSnapshot snapshot | OPVC pvc | OPV pv | OStorageClass storageclass | ONamespace kns
  | ONode node | OPod pod | OSecret secret | OConfigMap configmap
  | OServiceAccount serviceaccount | ORole role | ORoleBinding rolebinding | OJob job
  | OService service
  | OReplicationSource replicationsource | OReplicationDestination replicationdestination
  | OVolumePopulator volumepopulator | OCronJob cronjob | OKopiaMaintenance kopiamaintenance
  | ODeployment deployment

text \<open>
  A list or delete-collection request selects by namespace (\<open>None\<close> is all) and by label: an exact
  value, the presence of a key, several exact values, or nothing. \<open>ByIndex\<close> is a custom field index.
\<close>

datatype selector = Everything | LabelIs string string | HasKey string | LabelsAre strmap | ByIndex string string

datatype metricValue = MetricSet int | MetricAdd int | MetricObserve duration

datatype call =
    CNow
  | CGet kind key
  | CList kind "string option" selector
  | CCreate kobj
  | CUpdate kobj
  | CStatusUpdate kobj
  | CStatusPatch kobj kobj               \<comment> \<open>merge patch from one object to another\<close>
  | CDelete kobj "string option"         \<comment> \<open>resourceVersion precondition\<close>
  | CDeleteAllOf kind "string option" selector
  | CPatchClaim string strmap claimref   \<comment> \<open>strategic-merge patch of a volume\<close>
  | CEvent eventType eventReason
  | CPodLogs string string
  | CRandom nat                          \<comment> \<open>so many random bytes\<close>
  | CKeygen                              \<comment> \<open>a run of \<open>ssh-keygen\<close>\<close>
  | CRsaKey                              \<comment> \<open>a new RSA key\<close>
  | CHttp string string string string    \<comment> \<open>method, URL, API key, body\<close>
  | CLog string                          \<comment> \<open>a line of the operator's own log\<close>
  | CMetric string strmap metricValue    \<comment> \<open>a metric, its labels, the change\<close>

type_synonym trace = "call list"
type_synonym 'a kube = "(trace, 'a) state"

text \<open>
  What changes the cluster, as opposed to reading it or recording an event; a request to another service
  counts as a change.
\<close>

fun is_write :: "call \<Rightarrow> bool" where
  "is_write (CCreate _) = True"
| "is_write (CUpdate _) = True"
| "is_write (CStatusUpdate _) = True"
| "is_write (CStatusPatch _ _) = True"
| "is_write (CDelete _ _) = True"
| "is_write (CDeleteAllOf _ _ _) = True"
| "is_write (CPatchClaim _ _ _) = True"
| "is_write (CHttp _ _ _ _) = True"
| "is_write _ = False"

section \<open>Clients\<close>

datatype opResult = OperationResultNone | OperationResultCreated | OperationResultUpdated

record 'o kclient =
  k_kind :: kind
  k_wrap :: "'o \<Rightarrow> kobj"
  k_get :: "trace \<Rightarrow> key \<Rightarrow> gerror + 'o"
  k_list :: "trace \<Rightarrow> string option \<Rightarrow> selector \<Rightarrow> gerror + 'o list"
  k_create :: "trace \<Rightarrow> 'o \<Rightarrow> gerror + 'o"
  k_update :: "trace \<Rightarrow> 'o \<Rightarrow> gerror + 'o"
  k_delete :: "trace \<Rightarrow> 'o \<Rightarrow> string option \<Rightarrow> gerror option"
  k_deleteAllOf :: "trace \<Rightarrow> string option \<Rightarrow> selector \<Rightarrow> gerror option"
  k_createOrUpdate ::
    "'o \<Rightarrow> ('o \<Rightarrow> (trace, gerror option \<times> 'o) state) \<Rightarrow> (trace, opResult \<times> gerror option \<times> 'o) state"

record cluster =
  snapshots :: "snapshot kclient"
  pvcs :: "pvc kclient"
  pvols :: "pv kclient"
  storageclasses :: "storageclass kclient"
  namespaces :: "kns kclient"
  nodes :: "node kclient"
  pods :: "pod kclient"
  secrets :: "secret kclient"
  configmaps :: "configmap kclient"
  serviceaccounts :: "serviceaccount kclient"
  roles :: "role kclient"
  rolebindings :: "rolebinding kclient"
  jobs :: "job kclient"
  services :: "service kclient"
  replicationsources :: "replicationsource kclient"
  replicationdestinations :: "replicationdestination kclient"
  volumepopulators :: "volumepopulator kclient"
  cronjobs :: "cronjob kclient"
  kopiamaintenances :: "kopiamaintenance kclient"
  deployments :: "deployment kclient"
  timeNow :: "trace \<Rightarrow> gtime"
  timeFormat :: "string \<Rightarrow> gtime \<Rightarrow> string"
  timeParse :: "string \<Rightarrow> string \<Rightarrow> gerror + gtime"
  patchClaim :: "trace \<Rightarrow> string \<Rightarrow> strmap \<Rightarrow> claimref \<Rightarrow> gerror option"
  rsStatusUpdate :: "trace \<Rightarrow> replicationsource \<Rightarrow> gerror option"
  rdStatusUpdate :: "trace \<Rightarrow> replicationdestination \<Rightarrow> gerror option"
  kmStatusPatch :: "trace \<Rightarrow> kopiamaintenance \<Rightarrow> kopiamaintenance \<Rightarrow> gerror + kopiamaintenance" \<comment> \<open>base, object\<close>
  setControllerReference :: "objmeta \<Rightarrow> ownerref list \<Rightarrow> gerror + ownerref list"
  setOwnerReference :: "objmeta \<Rightarrow> ownerref list \<Rightarrow> gerror + ownerref list"
  refsAfterSetOwner :: "objmeta \<Rightarrow> ownerref list \<Rightarrow> ownerref list"
  labelsParse :: "string \<Rightarrow> gerror + selector"
  hasOwnerReference :: "ownerref list \<Rightarrow> objmeta \<Rightarrow> gerror + bool"
  objectKindsSnapshot :: "string list"
  setStatusCondition :: "condition list \<Rightarrow> condition \<Rightarrow> condition list"
  cronParse :: "string \<Rightarrow> gerror + (gtime \<Rightarrow> gtime)"
  cronParseFields :: "string \<Rightarrow> gerror + (gtime \<Rightarrow> gtime)" \<comment> \<open>five fields, no descriptors\<close>
  getenv :: "string \<Rightarrow> string option"
  readFile :: "string \<Rightarrow> gerror + string"
  unmarshalSnapshot :: "string \<Rightarrow> gerror + (string \<times> string \<times> gtime)"
  int32Beyond :: "int \<Rightarrow> int"
  timeAddDate :: "gtime \<Rightarrow> int \<Rightarrow> int \<Rightarrow> int \<Rightarrow> gtime" \<comment> \<open>years, months, days\<close>
  randRead :: "trace \<Rightarrow> nat \<Rightarrow> gerror + string"
  sshKeygen :: "trace \<Rightarrow> gerror + string \<times> string" \<comment> \<open>private, public\<close>
  podLogs :: "trace \<Rightarrow> string \<Rightarrow> string \<Rightarrow> int option \<Rightarrow> gerror + string list \<times> gerror option"
  logMaxBytes :: int
  logTailLines :: int
  logDebug :: bool
  sccName :: string
  moverImagePullSecrets :: string

text \<open>
  \<open>podLogs\<close> answers with the lines of the log stream (the last so many, if a number is given) and the
  error reading it ended with. \<open>SetOwnerReference\<close> writes to the reference slice of the object, and
  \<open>refsAfterSetOwner\<close> is what a slice taken from the object before the call holds after it.
  \<open>labelsParse\<close> is \<open>labels.Parse\<close>. \<open>unmarshalSnapshot\<close> is \<open>json.Unmarshal\<close> of a kopia snapshot: the user
  name, the host name and the end time it reads. \<open>int32Beyond\<close> is what the conversion of a floating
  point number to \<open>int32\<close> gives for a number out of range, which Go leaves to the implementation.
  \<open>randRead\<close> is \<open>rand.Read\<close>; \<open>sshKeygen\<close> is a run of the program \<open>ssh-keygen\<close> in a temporary directory and
  the two files it leaves there. The last five fields are the operator's own configuration (flags
  and environment, read through \<open>viper\<close>).
\<close>

text \<open>
  The client of each kind, with the kind its calls are recorded under.
\<close>

definition snapC :: "cluster \<Rightarrow> snapshot kclient" where
  "snapC cl = (snapshots cl)\<lparr>k_kind := KSnapshot, k_wrap := OSnapshot\<rparr>"
definition pvcC :: "cluster \<Rightarrow> pvc kclient" where
  "pvcC cl = (pvcs cl)\<lparr>k_kind := KPVC, k_wrap := OPVC\<rparr>"
definition pvC :: "cluster \<Rightarrow> pv kclient" where
  "pvC cl = (pvols cl)\<lparr>k_kind := KPV, k_wrap := OPV\<rparr>"
definition storageClassC :: "cluster \<Rightarrow> storageclass kclient" where
  "storageClassC cl = (storageclasses cl)\<lparr>k_kind := KStorageClass, k_wrap := OStorageClass\<rparr>"
definition nsC :: "cluster \<Rightarrow> kns kclient" where
  "nsC cl = (namespaces cl)\<lparr>k_kind := KNamespace, k_wrap := ONamespace\<rparr>"
definition nodeC :: "cluster \<Rightarrow> node kclient" where
  "nodeC cl = (nodes cl)\<lparr>k_kind := KNode, k_wrap := ONode\<rparr>"
definition podC :: "cluster \<Rightarrow> pod kclient" where
  "podC cl = (pods cl)\<lparr>k_kind := KPod, k_wrap := OPod\<rparr>"
definition secretC :: "cluster \<Rightarrow> secret kclient" where
  "secretC cl = (secrets cl)\<lparr>k_kind := KSecret, k_wrap := OSecret\<rparr>"
definition configMapC :: "cluster \<Rightarrow> configmap kclient" where
  "configMapC cl = (configmaps cl)\<lparr>k_kind := KConfigMap, k_wrap := OConfigMap\<rparr>"
definition saC :: "cluster \<Rightarrow> serviceaccount kclient" where
  "saC cl = (serviceaccounts cl)\<lparr>k_kind := KServiceAccount, k_wrap := OServiceAccount\<rparr>"
definition roleC :: "cluster \<Rightarrow> role kclient" where
  "roleC cl = (roles cl)\<lparr>k_kind := KRole, k_wrap := ORole\<rparr>"
definition roleBindingC :: "cluster \<Rightarrow> rolebinding kclient" where
  "roleBindingC cl = (rolebindings cl)\<lparr>k_kind := KRoleBinding, k_wrap := ORoleBinding\<rparr>"
definition jobC :: "cluster \<Rightarrow> job kclient" where
  "jobC cl = (jobs cl)\<lparr>k_kind := KJob, k_wrap := OJob\<rparr>"
definition serviceC :: "cluster \<Rightarrow> service kclient" where
  "serviceC cl = (services cl)\<lparr>k_kind := KService, k_wrap := OService\<rparr>"
definition rsC :: "cluster \<Rightarrow> replicationsource kclient" where
  "rsC cl = (replicationsources cl)\<lparr>k_kind := KReplicationSource, k_wrap := OReplicationSource\<rparr>"
definition rdC :: "cluster \<Rightarrow> replicationdestination kclient" where
  "rdC cl = (replicationdestinations cl)\<lparr>k_kind := KReplicationDestination, k_wrap := OReplicationDestination\<rparr>"
definition cronJobC :: "cluster \<Rightarrow> cronjob kclient" where
  "cronJobC cl = (cronjobs cl)\<lparr>k_kind := KCronJob, k_wrap := OCronJob\<rparr>"
definition kmC :: "cluster \<Rightarrow> kopiamaintenance kclient" where
  "kmC cl = (kopiamaintenances cl)\<lparr>k_kind := KKopiaMaintenance, k_wrap := OKopiaMaintenance\<rparr>"
definition deploymentC :: "cluster \<Rightarrow> deployment kclient" where
  "deploymentC cl = (deployments cl)\<lparr>k_kind := KDeployment, k_wrap := ODeployment\<rparr>"
definition volPopC :: "cluster \<Rightarrow> volumepopulator kclient" where
  "volPopC cl = (volumepopulators cl)\<lparr>k_kind := KVolumePopulator, k_wrap := OVolumePopulator\<rparr>"

lemma client_kinds [simp]:
  "k_kind (snapC cl) = KSnapshot" "k_wrap (snapC cl) = OSnapshot"
  "k_kind (pvcC cl) = KPVC" "k_wrap (pvcC cl) = OPVC"
  "k_kind (pvC cl) = KPV" "k_wrap (pvC cl) = OPV"
  "k_kind (storageClassC cl) = KStorageClass" "k_wrap (storageClassC cl) = OStorageClass"
  "k_kind (nsC cl) = KNamespace" "k_wrap (nsC cl) = ONamespace"
  "k_kind (nodeC cl) = KNode" "k_wrap (nodeC cl) = ONode"
  "k_kind (podC cl) = KPod" "k_wrap (podC cl) = OPod"
  "k_kind (secretC cl) = KSecret" "k_wrap (secretC cl) = OSecret"
  "k_kind (configMapC cl) = KConfigMap" "k_wrap (configMapC cl) = OConfigMap"
  "k_kind (saC cl) = KServiceAccount" "k_wrap (saC cl) = OServiceAccount"
  "k_kind (roleC cl) = KRole" "k_wrap (roleC cl) = ORole"
  "k_kind (roleBindingC cl) = KRoleBinding" "k_wrap (roleBindingC cl) = ORoleBinding"
  "k_kind (jobC cl) = KJob" "k_wrap (jobC cl) = OJob"
  "k_kind (serviceC cl) = KService" "k_wrap (serviceC cl) = OService"
  "k_kind (rsC cl) = KReplicationSource" "k_wrap (rsC cl) = OReplicationSource"
  "k_kind (rdC cl) = KReplicationDestination" "k_wrap (rdC cl) = OReplicationDestination"
  "k_kind (volPopC cl) = KVolumePopulator" "k_wrap (volPopC cl) = OVolumePopulator"
  "k_kind (cronJobC cl) = KCronJob" "k_wrap (cronJobC cl) = OCronJob"
  "k_kind (kmC cl) = KKopiaMaintenance" "k_wrap (kmC cl) = OKopiaMaintenance"
  "k_kind (deploymentC cl) = KDeployment" "k_wrap (deploymentC cl) = ODeployment"
  by (simp_all add: snapC_def pvcC_def pvC_def storageClassC_def nsC_def nodeC_def podC_def secretC_def
    configMapC_def saC_def roleC_def roleBindingC_def jobC_def serviceC_def rsC_def rdC_def volPopC_def
    cronJobC_def kmC_def deploymentC_def)

section \<open>Operations\<close>

text \<open>Each operation answers from the cluster and records the call.\<close>

definition ask :: "(trace \<Rightarrow> 'a) \<Rightarrow> call \<Rightarrow> 'a kube" where
  "ask f c = State (\<lambda>tr. (f tr, c # tr))"

lemma run_state_ask [simp]: "run_state (ask f c) tr = (f tr, c # tr)"
  by (simp add: ask_def)

lemma emits_ask: "P c \<Longrightarrow> (\<And>a. Q a) \<Longrightarrow> emits P (ask f c) Q"
  unfolding emits_def
proof
  fix tr assume "P c" "\<And>a. Q a"
  then show "\<exists>a new. run_state (ask f c) tr = (a, new @ tr) \<and> (\<forall>c\<in>set new. P c) \<and> Q a"
    by (intro exI[of _ "f tr"] exI[of _ "[c]"]) auto
qed

definition kGet :: "'o kclient \<Rightarrow> key \<Rightarrow> (gerror + 'o) kube" where
  "kGet c k = ask (\<lambda>tr. k_get c tr k) (CGet (k_kind c) k)"

definition kList :: "'o kclient \<Rightarrow> string option \<Rightarrow> selector \<Rightarrow> (gerror + 'o list) kube" where
  "kList c ns sel = ask (\<lambda>tr. k_list c tr ns sel) (CList (k_kind c) ns sel)"

definition kCreate :: "'o kclient \<Rightarrow> 'o \<Rightarrow> (gerror + 'o) kube" where
  "kCreate c x = ask (\<lambda>tr. k_create c tr x) (CCreate (k_wrap c x))"

definition kUpdate :: "'o kclient \<Rightarrow> 'o \<Rightarrow> (gerror + 'o) kube" where
  "kUpdate c x = ask (\<lambda>tr. k_update c tr x) (CUpdate (k_wrap c x))"

definition kDelete :: "'o kclient \<Rightarrow> 'o \<Rightarrow> string option \<Rightarrow> gerror option kube" where
  "kDelete c x rv = ask (\<lambda>tr. k_delete c tr x rv) (CDelete (k_wrap c x) rv)"

definition kDeleteAllOf :: "'o kclient \<Rightarrow> string option \<Rightarrow> selector \<Rightarrow> gerror option kube" where
  "kDeleteAllOf c ns sel =
     ask (\<lambda>tr. k_deleteAllOf c tr ns sel) (CDeleteAllOf (k_kind c) ns sel)"

definition now :: "cluster \<Rightarrow> gtime kube" where
  "now cl = ask (timeNow cl) CNow"

definition eventf :: "eventType \<Rightarrow> eventReason \<Rightarrow> unit kube" where
  "eventf t r = ask (\<lambda>_. ()) (CEvent t r)"

definition logLine :: "string \<Rightarrow> unit kube" where
  "logLine s = ask (\<lambda>_. ()) (CLog s)"

definition metric :: "string \<Rightarrow> strmap \<Rightarrow> metricValue \<Rightarrow> unit kube" where
  "metric name labels v = ask (\<lambda>_. ()) (CMetric name labels v)"

definition CreateOrUpdate ::
  "'o kclient \<Rightarrow> 'o \<Rightarrow> ('o \<Rightarrow> (gerror option \<times> 'o) kube) \<Rightarrow>
   (opResult \<times> gerror option \<times> 'o) kube" where
  "CreateOrUpdate c = k_createOrUpdate c"

text \<open>Running calls inside a larger state, whose second part is the trace.\<close>

definition onTrace :: "'a kube \<Rightarrow> ('v \<times> trace, 'a) state" where
  "onTrace k = State (\<lambda>(vec, tr). case run_state k tr of (a, tr') \<Rightarrow> (a, vec, tr'))"

lemma run_onTrace [simp]:
  "run_state (onTrace k) (vec, tr) = (case run_state k tr of (a, tr') \<Rightarrow> (a, vec, tr'))"
  by (simp add: onTrace_def)

lemmas kube_ops = kGet_def kList_def kCreate_def kUpdate_def kDelete_def kDeleteAllOf_def now_def
  eventf_def

text \<open>
  One rule per operation: it issues exactly its own call, and nothing is known of the answer.
\<close>

lemma emits_kGet [emits_rules]:
  "P (CGet (k_kind c) k) \<Longrightarrow> (\<And>a. Q a) \<Longrightarrow> emits P (kGet c k) Q"
  by (simp add: kube_ops emits_ask)

lemma emits_kList [emits_rules]:
  "P (CList (k_kind c) ns sel) \<Longrightarrow> (\<And>a. Q a) \<Longrightarrow> emits P (kList c ns sel) Q"
  by (simp add: kube_ops emits_ask)

lemma emits_kCreate [emits_rules]:
  "P (CCreate (k_wrap c x)) \<Longrightarrow> (\<And>a. Q a) \<Longrightarrow> emits P (kCreate c x) Q"
  by (simp add: kube_ops emits_ask)

lemma emits_kUpdate [emits_rules]:
  "P (CUpdate (k_wrap c x)) \<Longrightarrow> (\<And>a. Q a) \<Longrightarrow> emits P (kUpdate c x) Q"
  by (simp add: kube_ops emits_ask)

lemma emits_kDelete [emits_rules]:
  "P (CDelete (k_wrap c x) rv) \<Longrightarrow> (\<And>a. Q a) \<Longrightarrow> emits P (kDelete c x rv) Q"
  by (simp add: kube_ops emits_ask)

lemma emits_kDeleteAllOf [emits_rules]:
  "P (CDeleteAllOf (k_kind c) ns sel) \<Longrightarrow> (\<And>a. Q a) \<Longrightarrow> emits P (kDeleteAllOf c ns sel) Q"
  by (simp add: kube_ops emits_ask)

lemma emits_now [emits_rules]: "P CNow \<Longrightarrow> (\<And>a. Q a) \<Longrightarrow> emits P (now cl) Q"
  by (simp add: kube_ops emits_ask)

lemma emits_eventf [emits_rules]: "P (CEvent t r) \<Longrightarrow> Q () \<Longrightarrow> emits P (eventf t r) Q"
  by (simp add: kube_ops emits_ask)

lemma emits_logLine [emits_rules]: "P (CLog s) \<Longrightarrow> Q () \<Longrightarrow> emits P (logLine s) Q"
  by (simp add: logLine_def emits_ask)

lemma emits_metric [emits_rules]: "P (CMetric n l v) \<Longrightarrow> Q () \<Longrightarrow> emits P (metric n l v) Q"
  by (simp add: metric_def emits_ask)

text \<open>The same rules when it matters that the answer came from the server.\<close>

lemma emits_kGet_answer:
  "P (CGet (k_kind c) k) \<Longrightarrow> (\<And>tr. Q (k_get c tr k)) \<Longrightarrow> emits P (kGet c k) Q"
  unfolding emits_def kGet_def by auto

lemma emits_kCreate_answer:
  "P (CCreate (k_wrap c x)) \<Longrightarrow> (\<And>tr. Q (k_create c tr x)) \<Longrightarrow> emits P (kCreate c x) Q"
  unfolding emits_def kCreate_def by auto

section \<open>Documented behaviour of the libraries\<close>

text \<open>
  \<open>controllerutil.CreateOrUpdate\<close>, as its documentation states it: the object is fetched; if it does
  not exist the mutate function is called and the object is created; if it exists the mutate
  function is called and the object is updated if that changed it. The first error ends it, and
  then the object is left as the last completed step made it.
\<close>

definition cou_steps ::
  "'o kclient \<Rightarrow> ('o \<Rightarrow> key) \<Rightarrow> 'o \<Rightarrow> ('o \<Rightarrow> (gerror option \<times> 'o) kube) \<Rightarrow>
   (opResult \<times> gerror option \<times> 'o) kube" where
  "cou_steps c key x f = do {
     r \<leftarrow> kGet c (key x);
     case r of
       Inl e \<Rightarrow>
         if isNotFound e then do {
           (me, y) \<leftarrow> f x;
           case me of
             Some e' \<Rightarrow> ret (OperationResultNone, Some e', y)
           | None \<Rightarrow> do {
               w \<leftarrow> kCreate c y;
               case w of
                 Inl e' \<Rightarrow> ret (OperationResultNone, Some e', y)
               | Inr z \<Rightarrow> ret (OperationResultCreated, None, z) } }
         else ret (OperationResultNone, Some e, x)
     | Inr old \<Rightarrow> do {
         (me, y) \<leftarrow> f old;
         case me of
           Some e' \<Rightarrow> ret (OperationResultNone, Some e', y)
         | None \<Rightarrow>
             if y = old then ret (OperationResultNone, None, y)
             else do {
               w \<leftarrow> kUpdate c y;
               case w of
                 Inl e' \<Rightarrow> ret (OperationResultNone, Some e', y)
               | Inr z \<Rightarrow> ret (OperationResultUpdated, None, z) } } }"

definition cou_documented :: "'a objmeta_scheme kclient \<Rightarrow> bool" where
  "cou_documented c \<longleftrightarrow> k_createOrUpdate c = cou_steps c objKey"

lemma cou_documentedD: "cou_documented c \<Longrightarrow> CreateOrUpdate c = cou_steps c objKey"
  by (simp add: cou_documented_def CreateOrUpdate_def)

text \<open>
  The rule for a documented \<open>CreateOrUpdate\<close>: whatever object the mutate function is run on (the
  local one or the one that was fetched), an object that is written came out of it without error.
\<close>

lemma emits_CreateOrUpdate:
  assumes doc: "cou_documented c"
    and get: "P (CGet (k_kind c) (objKey x))"
    and mut: "\<And>y. emits P (f y) (\<lambda>(e, z). e = None \<longrightarrow> W z)"
    and wr: "\<And>z. W z \<Longrightarrow> P (CCreate (k_wrap c z)) \<and> P (CUpdate (k_wrap c z))"
  shows "emits P (CreateOrUpdate c x f) (\<lambda>_. True)"
  unfolding cou_documentedD[OF doc] cou_steps_def
proof (rule emits_bind[where Q = "\<lambda>_. True"])
  show "emits P (kGet c (objKey x)) (\<lambda>_. True)" using get by (auto intro: emits_rules)
qed (auto intro!: emits_rules emits_bind[OF mut] emits_bind[where Q = "\<lambda>_. True"] simp: wr)

text \<open>
  The same with the two ways of writing apart: only the local object is ever created.
\<close>

lemma emits_CreateOrUpdate2:
  assumes doc: "cou_documented c"
    and get: "P (CGet (k_kind c) (objKey x))"
    and new: "emits P (f x) (\<lambda>(e, z). e = None \<longrightarrow> P (CCreate (k_wrap c z)))"
    and old: "\<And>y. emits P (f y) (\<lambda>(e, z). e = None \<longrightarrow> P (CUpdate (k_wrap c z)))"
  shows "emits P (CreateOrUpdate c x f) (\<lambda>_. True)"
  unfolding cou_documentedD[OF doc] cou_steps_def
proof (rule emits_bind[where Q = "\<lambda>_. True"])
  show "emits P (kGet c (objKey x)) (\<lambda>_. True)" using get by (auto intro: emits_rules)
next
  fix r :: "gerror + 'a objmeta_scheme"
  show "emits P (case r of Inl e \<Rightarrow> if isNotFound e then do {
           (me, y) \<leftarrow> f x;
           case me of
             Some e' \<Rightarrow> ret (OperationResultNone, Some e', y)
           | None \<Rightarrow> do {
               w \<leftarrow> kCreate c y;
               case w of
                 Inl e' \<Rightarrow> ret (OperationResultNone, Some e', y)
               | Inr z \<Rightarrow> ret (OperationResultCreated, None, z) } }
         else ret (OperationResultNone, Some e, x)
     | Inr old \<Rightarrow> do {
         (me, y) \<leftarrow> f old;
         case me of
           Some e' \<Rightarrow> ret (OperationResultNone, Some e', y)
         | None \<Rightarrow>
             if y = old then ret (OperationResultNone, None, y)
             else do {
               w \<leftarrow> kUpdate c y;
               case w of
                 Inl e' \<Rightarrow> ret (OperationResultNone, Some e', y)
               | Inr z \<Rightarrow> ret (OperationResultUpdated, None, z) } }) (\<lambda>_. True)"
  proof (cases r)
    case (Inl e)
    then show ?thesis
      by (auto intro!: emits_rules emits_bind[OF new] emits_bind[where Q = "\<lambda>_. True" and m = "kCreate c _"])
  next
    case (Inr y)
    then show ?thesis
      by (auto intro!: emits_rules emits_bind[OF old] emits_bind[where Q = "\<lambda>_. True" and m = "kUpdate c _"])
  qed
qed

text \<open>A get request is answered with the object of the requested name.\<close>

definition get_documented :: "'a objmeta_scheme kclient \<Rightarrow> bool" where
  "get_documented c \<longleftrightarrow> (\<forall>tr k x. k_get c tr k = Inr x \<longrightarrow> objKey x = k)"

text \<open>
  \<open>controllerutil.SetControllerReference\<close> makes the owner the controlling reference of the object
  and fails if another controller already is; other references are kept.
  \<open>SetOwnerReference\<close> adds or refreshes a reference with the owner's UID.
\<close>

definition controllerRef_documented :: "cluster \<Rightarrow> bool" where
  "controllerRef_documented cl \<longleftrightarrow>
     (\<forall>owner refs. case setControllerReference cl owner refs of
        Inl _ \<Rightarrow> \<exists>r \<in> set refs. or_controller r \<and> or_uid r \<noteq> om_uid owner
      | Inr refs' \<Rightarrow>
          (\<exists>r \<in> set refs'. or_uid r = om_uid owner \<and> or_controller r) \<and>
          (\<forall>r. or_uid r \<noteq> om_uid owner \<longrightarrow> (r \<in> set refs' \<longleftrightarrow> r \<in> set refs)))"

definition ownerRef_documented :: "cluster \<Rightarrow> bool" where
  "ownerRef_documented cl \<longleftrightarrow>
     (\<forall>owner refs refs'. setOwnerReference cl owner refs = Inr refs' \<longrightarrow>
        (\<exists>r \<in> set refs'. or_uid r = om_uid owner) \<and>
        (\<forall>r. or_uid r \<noteq> om_uid owner \<longrightarrow> (r \<in> set refs' \<longleftrightarrow> r \<in> set refs)))"

text \<open>
  A reference \<open>SetOwnerReference\<close> adds is appended, so a slice taken before still holds what it
  held. \<open>labels.Parse\<close> reads a label key, if it accepts it, as the requirement that the key exists.
\<close>

definition ownerRef_appends :: "cluster \<Rightarrow> bool" where
  "ownerRef_appends cl \<longleftrightarrow>
     (\<forall>owner refs. (\<forall>r \<in> set refs. or_uid r \<noteq> om_uid owner) \<longrightarrow> refsAfterSetOwner cl owner refs = refs)"

definition labelsParse_documented :: "cluster \<Rightarrow> string \<Rightarrow> bool" where
  "labelsParse_documented cl key \<longleftrightarrow> (\<forall>sel. labelsParse cl key = Inr sel \<longrightarrow> sel = HasKey key)"

text \<open>
  \<open>meta.SetStatusCondition\<close> leaves one condition of the given type, with the given status, reason
  and message, and does not touch conditions of other types.
\<close>

definition setStatusCondition_documented ::
  "(condition list \<Rightarrow> condition \<Rightarrow> condition list) \<Rightarrow> bool" where
  "setStatusCondition_documented f \<longleftrightarrow>
     (\<forall>cs c. \<exists>c'. find (\<lambda>d. co_type d = co_type c) (f cs c) = Some c' \<and>
        co_status c' = co_status c \<and> co_reason c' = co_reason c \<and> co_message c' = co_message c \<and>
        filter (\<lambda>d. co_type d \<noteq> co_type c) (f cs c) = filter (\<lambda>d. co_type d \<noteq> co_type c) cs)"

text \<open>
  \<open>cron.Schedule.Next\<close> answers with an activation time later than the given one, or with the zero
  time if it finds none.
\<close>

definition cron_documented :: "(string \<Rightarrow> gerror + (gtime \<Rightarrow> gtime)) \<Rightarrow> bool" where
  "cron_documented parse \<longleftrightarrow>
     (\<forall>spec next t. parse spec = Inr next \<longrightarrow> next t = 0 \<or> t < next t)"

end
