(* ===== verification/Labels.thy ===== *)
theory Labels
  imports Cluster
begin

text \<open>
  Labels and annotations: \<open>utils/labels.go\<close> and \<open>utils/copy_trigger_annotations.go\<close>. A Go method
  that mutates its receiver and returns a bool returns the bool and the new object here.

  The interface \<open>Labelable\<close> (\<open>GetLabels\<close>/\<open>SetLabels\<close>) is a record of two functions and a locale with
  the laws every implementation keeps; its clients' lemmas are proved once there and used
  through the interpretation on Kubernetes objects (\<open>meta_ops\<close>).
\<close>

section \<open>labels.go\<close>

definition VolsyncLabelPrefix :: string where
  "VolsyncLabelPrefix = ''volsync.backube''"
definition cleanupLabelKey :: string where
  "cleanupLabelKey = VolsyncLabelPrefix @ ''/cleanup''"
definition DoNotDeleteLabelKey :: string where
  "DoNotDeleteLabelKey = VolsyncLabelPrefix @ ''/do-not-delete''"
definition OwnedByLabelKey :: string where
  "OwnedByLabelKey = ''app.kubernetes.io/created-by''"
definition OwnedByLabelValue :: string where
  "OwnedByLabelValue = ''volsync''"
definition SnapInUseByVolumePopulatorLabelPrefix :: string where
  "SnapInUseByVolumePopulatorLabelPrefix = VolsyncLabelPrefix @ ''/volpop-pvc-''"

lemmas label_keys = VolsyncLabelPrefix_def cleanupLabelKey_def DoNotDeleteLabelKey_def
  OwnedByLabelKey_def OwnedByLabelValue_def SnapInUseByVolumePopulatorLabelPrefix_def

record 'o labelable_ops =
  GetLabels :: "'o \<Rightarrow> strmap"
  SetLabels :: "strmap \<Rightarrow> 'o \<Rightarrow> 'o"

definition HasLabel :: "'o labelable_ops \<Rightarrow> 'o \<Rightarrow> string \<Rightarrow> bool" where
  "HasLabel L obj key = list_ex (\<lambda>(k, v). k = key) (entries (GetLabels L obj))"

definition HasLabelWithValue :: "'o labelable_ops \<Rightarrow> 'o \<Rightarrow> string \<Rightarrow> string \<Rightarrow> bool" where
  "HasLabelWithValue L obj key value =
     list_ex (\<lambda>(k, v). k = key \<and> v = value) (entries (GetLabels L obj))"

definition AddLabel :: "'o labelable_ops \<Rightarrow> 'o \<Rightarrow> string \<Rightarrow> string \<Rightarrow> bool \<times> 'o" where
  "AddLabel L obj key value =
     (let labels = GetLabels L obj in
      if map_of labels key = Some value then (False, obj)
      else (True, SetLabels L (map_put key value labels) obj))"

fun AddAllLabels :: "'o labelable_ops \<Rightarrow> 'o \<Rightarrow> strmap \<Rightarrow> bool \<times> 'o" where
  "AddAllLabels L obj [] = (False, obj)"
| "AddAllLabels L obj ((k, v) # ls) =
     (let (m1, obj1) = AddLabel L obj k v; (m2, obj2) = AddAllLabels L obj1 ls in (m1 \<or> m2, obj2))"

definition RemoveLabel :: "'o labelable_ops \<Rightarrow> 'o \<Rightarrow> string \<Rightarrow> bool \<times> 'o" where
  "RemoveLabel L obj key =
     (let labels = GetLabels L obj in
      if map_of labels key = None then (False, obj)
      else (True, SetLabels L (map_del key labels) obj))"

definition IsOwnedByVolsync :: "'o labelable_ops \<Rightarrow> 'o \<Rightarrow> bool" where
  "IsOwnedByVolsync L obj = HasLabelWithValue L obj OwnedByLabelKey OwnedByLabelValue"

definition SetOwnedByVolSync :: "'o labelable_ops \<Rightarrow> 'o \<Rightarrow> bool \<times> 'o" where
  "SetOwnedByVolSync L obj = AddLabel L obj OwnedByLabelKey OwnedByLabelValue"

definition RemoveOwnedByVolSync :: "'o labelable_ops \<Rightarrow> 'o \<Rightarrow> bool \<times> 'o" where
  "RemoveOwnedByVolSync L obj = RemoveLabel L obj OwnedByLabelKey"

text \<open>Kubernetes objects are labelable through their metadata.\<close>

definition meta_ops :: "'a objmeta_scheme labelable_ops" where
  "meta_ops = \<lparr>GetLabels = om_labels, SetLabels = (\<lambda>ls x. x\<lparr>om_labels := ls\<rparr>)\<rparr>"

section \<open>copy_trigger_annotations.go\<close>

definition setAnnotation :: "'a objmeta_scheme \<Rightarrow> string \<Rightarrow> string \<Rightarrow> bool \<times> 'a objmeta_scheme" where
  "setAnnotation obj name value =
     (if map_of (om_annotations obj) name = Some value then (False, obj)
      else (True, obj\<lparr>om_annotations := map_put name value (om_annotations obj)\<rparr>))"

definition unsetAnnotation :: "'a objmeta_scheme \<Rightarrow> string \<Rightarrow> bool \<times> 'a objmeta_scheme" where
  "unsetAnnotation obj name =
     (if map_of (om_annotations obj) name = None then (False, obj)
      else (True, obj\<lparr>om_annotations := map_del name (om_annotations obj)\<rparr>))"

definition PVCUsesCopyTrigger :: "'a objmeta_scheme \<Rightarrow> bool" where
  "PVCUsesCopyTrigger p = (map_of (om_annotations p) UseCopyTriggerAnnotation \<noteq> None)"

definition GetCopyTriggerValue :: "'a objmeta_scheme \<Rightarrow> string" where
  "GetCopyTriggerValue p = map_get (om_annotations p) CopyTriggerAnnotation"

definition GetLatestCopyTriggerValue :: "'a objmeta_scheme \<Rightarrow> string" where
  "GetLatestCopyTriggerValue p = map_get (om_annotations p) LatestCopyTriggerAnnotation"

definition GetLatestCopyTriggerWaitingSinceValue :: "'a objmeta_scheme \<Rightarrow> string" where
  "GetLatestCopyTriggerWaitingSinceValue p =
     map_get (om_annotations p) LatestCopyTriggerWaitingSinceAnnotation"

definition RFC3339 :: string where "RFC3339 = ''2006-01-02T15:04:05Z07:00''"

definition SetLatestCopyTriggerWaitingSinceValueNow ::
  "cluster \<Rightarrow> 'a objmeta_scheme \<Rightarrow> (bool \<times> 'a objmeta_scheme) kube" where
  "SetLatestCopyTriggerWaitingSinceValueNow cl p = do {
     t \<leftarrow> now cl;
     ret (setAnnotation p LatestCopyTriggerWaitingSinceAnnotation (timeFormat cl RFC3339 t)) }"

definition SetLatestCopyStatusWaitingForTrigger ::
  "cluster \<Rightarrow> 'a objmeta_scheme \<Rightarrow> (bool \<times> 'a objmeta_scheme) kube" where
  "SetLatestCopyStatusWaitingForTrigger cl p =
     (let (updated, p1) =
            setAnnotation p LatestCopyStatusAnnotation LatestCopyStatusValueWaitingForTrigger in
      if updated \<or> GetLatestCopyTriggerWaitingSinceValue p1 = []
      then SetLatestCopyTriggerWaitingSinceValueNow cl p1
      else ret (updated, p1))"

definition SetLatestCopyStatusInProgress :: "'a objmeta_scheme \<Rightarrow> bool \<times> 'a objmeta_scheme" where
  "SetLatestCopyStatusInProgress p =
     (let (updated, p1) = setAnnotation p LatestCopyStatusAnnotation LatestCopyStatusValueInProgress;
          (removed, p2) = unsetAnnotation p1 LatestCopyTriggerWaitingSinceAnnotation
      in (removed \<or> updated, p2))"

definition SetLatestCopyStatusCompleted :: "'a objmeta_scheme \<Rightarrow> bool \<times> 'a objmeta_scheme" where
  "SetLatestCopyStatusCompleted p =
     (let (updated, p1) = setAnnotation p LatestCopyStatusAnnotation LatestCopyStatusValueCompleted;
          (removed, p2) = unsetAnnotation p1 LatestCopyTriggerWaitingSinceAnnotation
      in (removed \<or> updated, p2))"

definition SetLatestCopyTriggerValue ::
  "'a objmeta_scheme \<Rightarrow> string \<Rightarrow> bool \<times> 'a objmeta_scheme" where
  "SetLatestCopyTriggerValue p value = setAnnotation p LatestCopyTriggerAnnotation value"

lemmas copyTrigger_defs = PVCUsesCopyTrigger_def GetCopyTriggerValue_def
  GetLatestCopyTriggerValue_def GetLatestCopyTriggerWaitingSinceValue_def
  SetLatestCopyStatusInProgress_def SetLatestCopyStatusCompleted_def
  SetLatestCopyTriggerValue_def setAnnotation_def unsetAnnotation_def

section \<open>The interface Labelable\<close>

locale labelable =
  fixes L :: "'o labelable_ops"
  assumes get_set: "GetLabels L (SetLabels L m x) = m"
    and set_set: "SetLabels L m (SetLabels L m' x) = SetLabels L m x"
    and set_get: "SetLabels L (GetLabels L x) x = x"
begin

lemma has_label_iff: "HasLabel L x k \<longleftrightarrow> map_of (GetLabels L x) k \<noteq> None"
  by (auto simp: HasLabel_def list_ex_iff entries_iff split: prod.splits)

lemma has_label_value_iff: "HasLabelWithValue L x k v \<longleftrightarrow> map_of (GetLabels L x) k = Some v"
  by (auto simp: HasLabelWithValue_def list_ex_iff entries_iff split: prod.splits)

lemma add_labels: "map_of (GetLabels L (snd (AddLabel L x k v))) = (map_of (GetLabels L x))(k \<mapsto> v)"
  by (auto simp: AddLabel_def Let_def get_set)

lemma remove_labels: "map_of (GetLabels L (snd (RemoveLabel L x k))) = (map_of (GetLabels L x))(k := None)"
  by (auto simp: RemoveLabel_def Let_def get_set)

lemma add_reports_change: "fst (AddLabel L x k v) \<longleftrightarrow> map_of (GetLabels L x) k \<noteq> Some v"
  by (auto simp: AddLabel_def Let_def)

lemma remove_reports_change: "fst (RemoveLabel L x k) \<longleftrightarrow> HasLabel L x k"
  by (auto simp: RemoveLabel_def Let_def has_label_iff)

lemma add_unreported: "\<not> fst (AddLabel L x k v) \<Longrightarrow> snd (AddLabel L x k v) = x"
  by (auto simp: AddLabel_def Let_def split: if_splits)

lemma remove_unreported: "\<not> fst (RemoveLabel L x k) \<Longrightarrow> snd (RemoveLabel L x k) = x"
  by (auto simp: RemoveLabel_def Let_def split: if_splits)

lemma add_idem: "AddLabel L (snd (AddLabel L x k v)) k v = (False, snd (AddLabel L x k v))"
proof -
  have "map_of (GetLabels L (snd (AddLabel L x k v))) k = Some v" by (simp add: add_labels)
  then show ?thesis by (simp add: AddLabel_def Let_def)
qed

lemma add_all_labels:
  "map_of (GetLabels L (snd (AddAllLabels L x ls))) = map_of (GetLabels L x) ++ map_of (rev ls)"
proof (induction ls arbitrary: x)
  case Nil
  then show ?case by simp
next
  case (Cons p ls)
  obtain k v where p: "p = (k, v)" by (cases p)
  have "map_of (GetLabels L (snd (AddAllLabels L (snd (AddLabel L x k v)) ls)))
    = (map_of (GetLabels L x))(k \<mapsto> v) ++ map_of (rev ls)"
    by (simp only: Cons add_labels)
  also have "\<dots> = map_of (GetLabels L x) ++ map_of (rev (p # ls))"
    by (auto simp: p map_add_def fun_eq_iff split: option.splits)
  finally show ?case by (simp add: p split: prod.splits) (metis prod.collapse snd_conv)
qed

lemma set_owned: "IsOwnedByVolsync L (snd (SetOwnedByVolSync L x))"
  by (simp add: IsOwnedByVolsync_def SetOwnedByVolSync_def has_label_value_iff add_labels)

lemma remove_owned: "\<not> IsOwnedByVolsync L (snd (RemoveOwnedByVolSync L x))"
  by (simp add: IsOwnedByVolsync_def RemoveOwnedByVolSync_def has_label_value_iff remove_labels)

end

interpretation ml: labelable "meta_ops :: 'a objmeta_scheme labelable_ops"
  by unfold_locales (simp_all add: meta_ops_def)

lemma meta_GetLabels [simp]: "GetLabels meta_ops x = om_labels x"
  by (simp add: meta_ops_def)

lemma AddLabel_meta: "snd (AddLabel meta_ops x k v) =
    (if map_of (om_labels x) k = Some v then x else x\<lparr>om_labels := map_put k v (om_labels x)\<rparr>)"
  by (auto simp: AddLabel_def meta_ops_def Let_def)

lemma RemoveLabel_meta: "snd (RemoveLabel meta_ops x k) =
    (if map_of (om_labels x) k = None then x else x\<lparr>om_labels := map_del k (om_labels x)\<rparr>)"
  by (auto simp: RemoveLabel_def meta_ops_def Let_def)

lemma label_keys_distinct:
  "cleanupLabelKey \<noteq> DoNotDeleteLabelKey" "cleanupLabelKey \<noteq> OwnedByLabelKey"
  "DoNotDeleteLabelKey \<noteq> OwnedByLabelKey"
  "DoNotDeleteLabelKey \<noteq> cleanupLabelKey" "OwnedByLabelKey \<noteq> cleanupLabelKey"
  "OwnedByLabelKey \<noteq> DoNotDeleteLabelKey"
  by (simp_all add: label_keys)

section \<open>Annotations\<close>

lemma setAnnotation_get: "map_of (om_annotations (snd (setAnnotation x n v))) = (map_of (om_annotations x))(n \<mapsto> v)"
  by (auto simp: setAnnotation_def)

lemma unsetAnnotation_get:
  "map_of (om_annotations (snd (unsetAnnotation x n))) = (map_of (om_annotations x))(n := None)"
  by (auto simp: unsetAnnotation_def)

lemma setAnnotation_reports:
  "fst (setAnnotation x n v) \<longleftrightarrow> map_of (om_annotations x) n \<noteq> Some v"
  by (auto simp: setAnnotation_def)

lemma unsetAnnotation_reports: "fst (unsetAnnotation x n) \<longleftrightarrow> map_of (om_annotations x) n \<noteq> None"
  by (auto simp: unsetAnnotation_def)

end
