(* ===== verification/Sample_Cluster.thy ===== *)
theory Sample_Cluster
  imports Cluster
begin

text \<open>
  One concrete environment: an API server that holds no object, accepts every write and returns
  the object as written, a clock that stands still, and libraries that behave as documented. The
  witnesses evaluate the model on it and on variations of it, and the lemmas here show that the
  named hypotheses of \<open>Cluster\<close> hold of it, so they can be satisfied.
\<close>

definition sampleClient0 :: "kind \<Rightarrow> ('o \<Rightarrow> kobj) \<Rightarrow> 'o kclient" where
  "sampleClient0 k w = \<lparr>k_kind = k, k_wrap = w,
     k_get = (\<lambda>_ _. Inl (StatusError NotFound ''not found'')),
     k_list = (\<lambda>_ _ _. Inr []),
     k_create = (\<lambda>_ x. Inr x),
     k_update = (\<lambda>_ x. Inr x),
     k_delete = (\<lambda>_ _ _. None),
     k_deleteAllOf = (\<lambda>_ _ _. None),
     k_createOrUpdate = (\<lambda>x _. ret (OperationResultNone, None, x))\<rparr>"

text \<open>A client whose \<open>CreateOrUpdate\<close> takes the documented steps.\<close>

definition withCou :: "'a objmeta_scheme kclient \<Rightarrow> 'a objmeta_scheme kclient" where
  "withCou c = c\<lparr>k_createOrUpdate := cou_steps c objKey\<rparr>"

definition sampleClient :: "kind \<Rightarrow> ('a objmeta_scheme \<Rightarrow> kobj) \<Rightarrow> 'a objmeta_scheme kclient" where
  "sampleClient k w = withCou (sampleClient0 k w)"

lemma cou_steps_cong:
  assumes "k_kind c = k_kind d" "k_wrap c = k_wrap d" "k_get c = k_get d"
    "k_create c = k_create d" "k_update c = k_update d"
  shows "cou_steps c key = cou_steps d key"
proof (intro ext)
  have eqs: "kGet c = kGet d" "kCreate c = kCreate d" "kUpdate c = kUpdate d"
    by (intro ext, simp add: kube_ops assms)+
  show "cou_steps c key x f = cou_steps d key x f" for x f
    unfolding cou_steps_def eqs ..
qed

lemma cou_documented_withCou [simp]: "cou_documented (withCou c)"
  unfolding cou_documented_def withCou_def by (simp, rule cou_steps_cong) simp_all

text \<open>Adding a controller reference, as \<open>SetControllerReference\<close> documents it.\<close>

definition sampleSetControllerReference :: "objmeta \<Rightarrow> ownerref list \<Rightarrow> gerror + ownerref list" where
  "sampleSetControllerReference owner refs =
     (if list_ex (\<lambda>r. or_controller r \<and> or_uid r \<noteq> om_uid owner) refs
      then Inl (Errorf ''already owned by another controller'')
      else Inr (filter (\<lambda>r. or_uid r \<noteq> om_uid owner) refs @
        [\<lparr>or_apiVersion = ''volsync.backube/v1alpha1'', or_kind = ''ReplicationSource'',
          or_name = om_name owner, or_uid = om_uid owner, or_controller = True\<rparr>]))"

definition sampleSetOwnerReference :: "objmeta \<Rightarrow> ownerref list \<Rightarrow> gerror + ownerref list" where
  "sampleSetOwnerReference owner refs =
     Inr (filter (\<lambda>r. or_uid r \<noteq> om_uid owner) refs @
        [\<lparr>or_apiVersion = ''v1'', or_kind = ''PersistentVolumeClaim'',
          or_name = om_name owner, or_uid = om_uid owner, or_controller = False\<rparr>])"

definition sampleSetStatusCondition :: "condition list \<Rightarrow> condition \<Rightarrow> condition list" where
  "sampleSetStatusCondition cs c = filter (\<lambda>d. co_type d \<noteq> co_type c) cs @ [c]"

text \<open>A schedule that fires once an hour after any time, for the spec \<open>@hourly\<close>.\<close>

definition sampleCron :: "string \<Rightarrow> gerror + (gtime \<Rightarrow> gtime)" where
  "sampleCron spec =
     (if spec = ''@hourly'' then Inr (\<lambda>t. t + hour) else Inl (Errorf ''bad cronspec''))"

definition sampleCronFields :: "string \<Rightarrow> gerror + (gtime \<Rightarrow> gtime)" where
  "sampleCronFields spec =
     (if spec = ''0 2 * * *'' then Inr (\<lambda>t. t + hour) else Inl (Errorf ''bad cronspec''))"

definition sampleCluster :: cluster where
  "sampleCluster = \<lparr>
     snapshots = sampleClient KSnapshot OSnapshot,
     pvcs = sampleClient KPVC OPVC,
     pvols = sampleClient KPV OPV,
     storageclasses = sampleClient KStorageClass OStorageClass,
     namespaces = sampleClient KNamespace ONamespace,
     nodes = sampleClient KNode ONode,
     pods = sampleClient KPod OPod,
     secrets = sampleClient KSecret OSecret,
     configmaps = sampleClient KConfigMap OConfigMap,
     serviceaccounts = sampleClient KServiceAccount OServiceAccount,
     roles = sampleClient KRole ORole,
     rolebindings = sampleClient KRoleBinding ORoleBinding,
     jobs = sampleClient KJob OJob,
     services = sampleClient KService OService,
     replicationsources = sampleClient KReplicationSource OReplicationSource,
     replicationdestinations = sampleClient KReplicationDestination OReplicationDestination,
     volumepopulators = sampleClient KVolumePopulator OVolumePopulator,
     cronjobs = sampleClient KCronJob OCronJob,
     kopiamaintenances = sampleClient KKopiaMaintenance OKopiaMaintenance,
     deployments = sampleClient KDeployment ODeployment,
     timeNow = (\<lambda>_. 1000 * hour),
     timeFormat = (\<lambda>_ _. ''20240101000000''),
     timeParse = (\<lambda>_ s. if s = [] then Inl (Errorf ''bad time'') else Inr (1000 * hour)),
     patchClaim = (\<lambda>_ _ _ _. None),
     rsStatusUpdate = (\<lambda>_ _. None),
     rdStatusUpdate = (\<lambda>_ _. None),
     kmStatusPatch = (\<lambda>_ _ x. Inr x),
     setControllerReference = sampleSetControllerReference,
     setOwnerReference = sampleSetOwnerReference,
     refsAfterSetOwner = (\<lambda>_ refs. refs),
     labelsParse = (\<lambda>k. if k = [] then Inl (Errorf ''empty key'') else Inr (HasKey k)),
     hasOwnerReference = (\<lambda>refs owner. Inr (list_ex (\<lambda>r. or_uid r = om_uid owner) refs)),
     objectKindsSnapshot = [''VolumeSnapshot''],
     setStatusCondition = sampleSetStatusCondition,
     cronParse = sampleCron,
     cronParseFields = sampleCronFields,
     getenv = (\<lambda>_. None),
     readFile = (\<lambda>_. Inl (Errorf ''no such file'')),
     unmarshalSnapshot = (\<lambda>_. Inl (Errorf ''unexpected end of JSON input'')),
     int32Beyond = (\<lambda>_. - (2 ^ 31)),
     timeAddDate = (\<lambda>t y m d. t + (y * 365 + m * 30 + d) * 24 * hour),
     randRead = (\<lambda>_ n. Inr (replicate n (CHR ''x''))),
     sshKeygen = (\<lambda>tr. Inr (''private'', ''public'')),
     podLogs = (\<lambda>_ _ _ _. Inr ([], None)),
     logMaxBytes = 1024,
     logTailLines = -1,
     logDebug = False,
     sccName = ''volsync-privileged-mover'',
     moverImagePullSecrets = []\<rparr>"

lemma sample_fields [simp]:
  "snapshots sampleCluster = sampleClient KSnapshot OSnapshot"
  "pvcs sampleCluster = sampleClient KPVC OPVC"
  "jobs sampleCluster = sampleClient KJob OJob"
  "timeNow sampleCluster = (\<lambda>_. 1000 * hour)"
  "setControllerReference sampleCluster = sampleSetControllerReference"
  "setOwnerReference sampleCluster = sampleSetOwnerReference"
  "setStatusCondition sampleCluster = sampleSetStatusCondition"
  "cronParse sampleCluster = sampleCron" "cronParseFields sampleCluster = sampleCronFields"
  "refsAfterSetOwner sampleCluster = (\<lambda>_ refs. refs)"
  "labelsParse sampleCluster = (\<lambda>k. if k = [] then Inl (Errorf ''empty key'') else Inr (HasKey k))"
  by (simp_all add: sampleCluster_def)

text \<open>A client that already records its calls under its own kind is not changed by the accessor.\<close>

lemma client_id:
  "k_kind c = k \<Longrightarrow> k_wrap c = w \<Longrightarrow> c\<lparr>k_kind := k, k_wrap := w\<rparr> = c" for c :: "'o kclient"
  by (cases c) simp

lemma withCou_sel [simp]:
  "k_kind (withCou c) = k_kind c" "k_wrap (withCou c) = k_wrap c" "k_get (withCou c) = k_get c"
  "k_list (withCou c) = k_list c" "k_create (withCou c) = k_create c"
  "k_update (withCou c) = k_update c" "k_delete (withCou c) = k_delete c"
  "k_deleteAllOf (withCou c) = k_deleteAllOf c"
  by (simp_all add: withCou_def)

lemma sampleClient_sel [simp]:
  "k_kind (sampleClient k w) = k" "k_wrap (sampleClient k w) = w"
  "k_get (sampleClient k w) = (\<lambda>_ _. Inl (StatusError NotFound ''not found''))"
  "k_list (sampleClient k w) = (\<lambda>_ _ _. Inr [])"
  "k_create (sampleClient k w) = (\<lambda>_ x. Inr x)"
  "k_update (sampleClient k w) = (\<lambda>_ x. Inr x)"
  "k_delete (sampleClient k w) = (\<lambda>_ _ _. None)"
  "k_deleteAllOf (sampleClient k w) = (\<lambda>_ _ _. None)"
  by (simp_all add: sampleClient_def sampleClient0_def)

lemma sample_clients [simp]:
  "snapC sampleCluster = sampleClient KSnapshot OSnapshot"
  "pvcC sampleCluster = sampleClient KPVC OPVC"
  "jobC sampleCluster = sampleClient KJob OJob"
  "secretC sampleCluster = sampleClient KSecret OSecret"
  "saC sampleCluster = sampleClient KServiceAccount OServiceAccount"
  "roleC sampleCluster = sampleClient KRole ORole"
  "roleBindingC sampleCluster = sampleClient KRoleBinding ORoleBinding"
  by (simp_all add: snapC_def pvcC_def jobC_def secretC_def saC_def roleC_def roleBindingC_def
      sampleCluster_def client_id)

lemma sampleClient_documented [simp]: "cou_documented (sampleClient k w)"
  by (simp add: sampleClient_def)

lemma sample_controllerRef: "controllerRef_documented sampleCluster"
  by (auto simp: controllerRef_documented_def sampleSetControllerReference_def list_ex_iff
      split: sum.splits)

lemma sample_ownerRef: "ownerRef_documented sampleCluster"
  by (auto simp: ownerRef_documented_def sampleSetOwnerReference_def)

lemma sample_ownerRef_appends: "ownerRef_appends sampleCluster"
  by (simp add: ownerRef_appends_def)

lemma sample_labelsParse: "labelsParse_documented sampleCluster k"
  by (simp add: labelsParse_documented_def)

lemma sample_setStatusCondition: "setStatusCondition_documented sampleSetStatusCondition"
proof -
  have "find P (xs @ [c]) = Some c" if "P c" "\<forall>x \<in> set xs. \<not> P x" for P c and xs :: "condition list"
    using that by (induction xs) auto
  then show ?thesis
    by (auto simp: setStatusCondition_documented_def sampleSetStatusCondition_def filter_empty_conv)
qed

lemma sample_cron: "cron_documented sampleCron"
  by (auto simp: cron_documented_def sampleCron_def hour_def minute_def second_def split: if_splits)

end
