(* ===== verification/Cleanup.thy ===== *)
theory Cleanup
  imports Labels Sample_Cluster
begin

text \<open>
  Cleaning up after a synchronization: \<open>utils/cleanup.go\<close>. Temporary objects carry the cleanup label
  with the UID of their owner; \<open>CleanupObjects\<close> deletes them, except for volume snapshots, which
  are examined one by one because a user may have marked one do-not-delete and others may still
  use one.
\<close>

section \<open>Operations\<close>

definition MarkForCleanup ::
  "'b objmeta_scheme \<Rightarrow> 'a objmeta_scheme \<Rightarrow> bool \<times> 'a objmeta_scheme" where
  "MarkForCleanup owner obj = AddLabel meta_ops obj cleanupLabelKey (om_uid owner)"

definition UnmarkForCleanup :: "'a objmeta_scheme \<Rightarrow> bool \<times> 'a objmeta_scheme" where
  "UnmarkForCleanup obj = RemoveLabel meta_ops obj cleanupLabelKey"

definition IsMarkedDoNotDelete :: "snapshot \<Rightarrow> bool" where
  "IsMarkedDoNotDelete s = HasLabel meta_ops s DoNotDeleteLabelKey"

definition MarkDoNotDelete :: "snapshot \<Rightarrow> bool \<times> snapshot" where
  "MarkDoNotDelete s = AddLabel meta_ops s DoNotDeleteLabelKey ''true''"

definition RemoveOwnerReference ::
  "'a objmeta_scheme \<Rightarrow> 'b objmeta_scheme \<Rightarrow> bool \<times> 'a objmeta_scheme" where
  "RemoveOwnerReference obj owner =
     (let updated = list_ex (\<lambda>r. or_uid r = om_uid owner) (om_ownerRefs obj);
          updatedOwnerRefs = filter (\<lambda>r. or_uid r \<noteq> om_uid owner) (om_ownerRefs obj)
      in (updated, if updated then obj\<lparr>om_ownerRefs := updatedOwnerRefs\<rparr> else obj))"

definition UnMarkForCleanupAndRemoveOwnership ::
  "'a objmeta_scheme \<Rightarrow> 'b objmeta_scheme \<Rightarrow> bool \<times> 'a objmeta_scheme" where
  "UnMarkForCleanupAndRemoveOwnership obj owner =
     (let (u1, obj1) = UnmarkForCleanup obj;
          (u2, obj2) = RemoveOwnedByVolSync meta_ops obj1;
          (u3, obj3) = RemoveOwnerReference obj2 owner
      in (u3 \<or> u2 \<or> u1, obj3))"

definition hasOtherOwnerRef :: "'a objmeta_scheme \<Rightarrow> 'b objmeta_scheme \<Rightarrow> bool" where
  "hasOtherOwnerRef obj owner = list_ex (\<lambda>r. or_uid r \<noteq> om_uid owner) (om_ownerRefs obj)"

text \<open>
  The loop \<open>for _, labelKey := range snapshot.GetLabels()\<close> binds the second component of each map
  entry, the label's value.
\<close>

definition snapInUseByVolumePopulatorPVC :: "snapshot \<Rightarrow> bool" where
  "snapInUseByVolumePopulatorPVC s =
     list_ex (\<lambda>(_, labelKey). HasPrefix labelKey SnapInUseByVolumePopulatorLabelPrefix)
       (entries (om_labels s))"

definition snapInUseByOther :: "snapshot \<Rightarrow> 'b objmeta_scheme \<Rightarrow> bool" where
  "snapInUseByOther s owner = (hasOtherOwnerRef s owner \<or> snapInUseByVolumePopulatorPVC s)"

definition RemoveSnapOwnershipAndLabelsIfRequestedAndUpdate ::
  "cluster \<Rightarrow> 'b objmeta_scheme \<Rightarrow> snapshot \<Rightarrow> (bool \<times> gerror option) kube" where
  "RemoveSnapOwnershipAndLabelsIfRequestedAndUpdate cl owner s =
     (if IsMarkedDoNotDelete s then
        (let (updated, s') = UnMarkForCleanupAndRemoveOwnership s owner in
         if updated then do {
           r \<leftarrow> kUpdate (snapC cl) s';
           case r of Inl e \<Rightarrow> ret (False, Some e) | Inr _ \<Rightarrow> ret (True, None) }
         else ret (True, None))
      else ret (False, None))"

text \<open>The loop goes on after an error and returns the last one with the snapshots that remain.\<close>

fun relinquishSnapshotsWithDoNotDeleteLabel ::
  "cluster \<Rightarrow> 'b objmeta_scheme \<Rightarrow> snapshot list \<Rightarrow> (snapshot list \<times> gerror option) kube" where
  "relinquishSnapshotsWithDoNotDeleteLabel cl owner [] = ret ([], None)"
| "relinquishSnapshotsWithDoNotDeleteLabel cl owner (s # ss) = do {
     (ownershipRemoved, err) \<leftarrow> RemoveSnapOwnershipAndLabelsIfRequestedAndUpdate cl owner s;
     (remaining, err') \<leftarrow> relinquishSnapshotsWithDoNotDeleteLabel cl owner ss;
     case err of
       Some e \<Rightarrow> ret (remaining, case err' of None \<Rightarrow> Some e | Some e' \<Rightarrow> Some e')
     | None \<Rightarrow> ret (if ownershipRemoved then remaining else s # remaining, err') }"

definition cleanupSnapshot ::
  "cluster \<Rightarrow> 'b objmeta_scheme \<Rightarrow> snapshot \<Rightarrow> gerror option kube" where
  "cleanupSnapshot cl owner s =
     (if snapInUseByOther s owner then
        (let (updated, s') = RemoveOwnerReference s owner in
         if updated then do {
           r \<leftarrow> kUpdate (snapC cl) s';
           case r of Inl e \<Rightarrow> ret (Some e) | Inr _ \<Rightarrow> ret None }
         else ret None)
      else kDelete (snapC cl) s (Some (om_resourceVersion s)))"

definition CleanupSnapshotsWithLabelCheck ::
  "cluster \<Rightarrow> 'b objmeta_scheme \<Rightarrow> snapshot list \<Rightarrow> gerror option kube" where
  "CleanupSnapshotsWithLabelCheck cl owner items = do {
     (snapsForCleanup, err) \<leftarrow> relinquishSnapshotsWithDoNotDeleteLabel cl owner items;
     case err of
       Some e \<Rightarrow> ret (Some e)
     | None \<Rightarrow> forEach (cleanupSnapshot cl owner) snapsForCleanup }"

definition cleanupSnapshots :: "cluster \<Rightarrow> 'b objmeta_scheme \<Rightarrow> gerror option kube" where
  "cleanupSnapshots cl owner = do {
     r \<leftarrow> kList (snapC cl) (Some (om_namespace owner)) (LabelIs cleanupLabelKey (om_uid owner));
     case r of
       Inl e \<Rightarrow> ret (Some e)
     | Inr items \<Rightarrow> CleanupSnapshotsWithLabelCheck cl owner items }"

text \<open>\<open>client.DeleteAllOf\<close> takes an object of the type to delete; here it takes the kind.\<close>

fun deleteAllOf ::
  "cluster \<Rightarrow> kind \<Rightarrow> string option \<Rightarrow> selector \<Rightarrow> gerror option kube" where
  "deleteAllOf cl KSnapshot = kDeleteAllOf (snapC cl)"
| "deleteAllOf cl KPVC = kDeleteAllOf (pvcC cl)"
| "deleteAllOf cl KPV = kDeleteAllOf (pvC cl)"
| "deleteAllOf cl KStorageClass = kDeleteAllOf (storageClassC cl)"
| "deleteAllOf cl KNamespace = kDeleteAllOf (nsC cl)"
| "deleteAllOf cl KNode = kDeleteAllOf (nodeC cl)"
| "deleteAllOf cl KPod = kDeleteAllOf (podC cl)"
| "deleteAllOf cl KSecret = kDeleteAllOf (secretC cl)"
| "deleteAllOf cl KConfigMap = kDeleteAllOf (configMapC cl)"
| "deleteAllOf cl KServiceAccount = kDeleteAllOf (saC cl)"
| "deleteAllOf cl KRole = kDeleteAllOf (roleC cl)"
| "deleteAllOf cl KRoleBinding = kDeleteAllOf (roleBindingC cl)"
| "deleteAllOf cl KJob = kDeleteAllOf (jobC cl)"
| "deleteAllOf cl KService = kDeleteAllOf (serviceC cl)"
| "deleteAllOf cl KReplicationSource = kDeleteAllOf (rsC cl)"
| "deleteAllOf cl KReplicationDestination = kDeleteAllOf (rdC cl)"
| "deleteAllOf cl KVolumePopulator = kDeleteAllOf (volPopC cl)"
| "deleteAllOf cl KCronJob = kDeleteAllOf (cronJobC cl)"
| "deleteAllOf cl KKopiaMaintenance = kDeleteAllOf (kmC cl)"
| "deleteAllOf cl KDeployment = kDeleteAllOf (deploymentC cl)"

definition cleanupType :: "cluster \<Rightarrow> 'b objmeta_scheme \<Rightarrow> kind \<Rightarrow> gerror option kube" where
  "cleanupType cl owner k =
     (if k = KSnapshot then cleanupSnapshots cl owner
      else do {
        err \<leftarrow> deleteAllOf cl k (Some (om_namespace owner))
                 (LabelIs cleanupLabelKey (om_uid owner));
        ret (IgnoreNotFound err) })"

definition CleanupObjects ::
  "cluster \<Rightarrow> 'b objmeta_scheme \<Rightarrow> kind list \<Rightarrow> gerror option kube" where
  "CleanupObjects cl owner types = forEach (cleanupType cl owner) types"

definition RelinquishOwnedSnapshotsWithDoNotDeleteLabel ::
  "cluster \<Rightarrow> 'b objmeta_scheme \<Rightarrow> gerror option kube" where
  "RelinquishOwnedSnapshotsWithDoNotDeleteLabel cl owner = do {
     r \<leftarrow> kList (snapC cl) (Some (om_namespace owner)) (HasKey DoNotDeleteLabelKey);
     case r of
       Inl e \<Rightarrow> ret (Some e)
     | Inr items \<Rightarrow> do {
         (_, err) \<leftarrow> relinquishSnapshotsWithDoNotDeleteLabel cl owner items;
         ret err } }"

definition snapshotGroup :: string where "snapshotGroup = ''snapshot.storage.k8s.io''"

definition IsSnapshot :: "typedref option \<Rightarrow> bool" where
  "IsSnapshot img =
     (case img of
        None \<Rightarrow> False
      | Some i \<Rightarrow> \<not> (tr_kind i \<noteq> ''VolumeSnapshot'' \<or> tr_apiGroup i = None
                      \<or> tr_apiGroup i \<noteq> Some snapshotGroup))"

definition MarkOldSnapshotForCleanup ::
  "cluster \<Rightarrow> 'b objmeta_scheme \<Rightarrow> typedref option \<Rightarrow> typedref option \<Rightarrow> gerror option kube" where
  "MarkOldSnapshotForCleanup cl owner oldImage latestImage =
     (if \<not> IsSnapshot latestImage then ret None
      else if \<not> IsSnapshot oldImage then ret None
      else if tr_name (the latestImage) = tr_name (the oldImage) then ret None
      else do {
        r \<leftarrow> kGet (snapC cl) (om_namespace owner, tr_name (the oldImage));
        case r of
          Inl e \<Rightarrow> if isNotFound e then ret None else ret (Some e)
        | Inr oldSnap \<Rightarrow>
            if IsMarkedDoNotDelete oldSnap then ret None
            else do {
              w \<leftarrow> kUpdate (snapC cl) (snd (MarkForCleanup owner oldSnap));
              case w of
                Inl e \<Rightarrow> if isNotFound e then ret None else ret (Some e)
              | Inr _ \<Rightarrow> ret None } })"

section \<open>Pure helpers\<close>

lemma marked_iff: "IsMarkedDoNotDelete s \<longleftrightarrow> map_of (om_labels s) DoNotDeleteLabelKey \<noteq> None"
  by (simp add: IsMarkedDoNotDelete_def ml.has_label_iff)

lemma MarkForCleanup_labels:
  "map_of (om_labels (snd (MarkForCleanup owner obj))) =
     (map_of (om_labels obj))(cleanupLabelKey \<mapsto> om_uid owner)"
  using ml.add_labels[of obj] by (simp add: MarkForCleanup_def)

lemma MarkForCleanup_frame:
  "om_name (snd (MarkForCleanup owner obj)) = om_name obj"
  "om_ownerRefs (snd (MarkForCleanup owner obj)) = om_ownerRefs obj"
  "om_namespace (snd (MarkForCleanup owner obj)) = om_namespace obj"
  by (simp_all add: MarkForCleanup_def AddLabel_meta)

lemma RemoveOwnerReference_refs:
  "om_ownerRefs (snd (RemoveOwnerReference obj owner)) =
     filter (\<lambda>r. or_uid r \<noteq> om_uid owner) (om_ownerRefs obj)"
  by (auto simp: RemoveOwnerReference_def Let_def list_ex_iff intro!: filter_True[symmetric])

lemma RemoveOwnerReference_labels [simp]:
  "om_labels (snd (RemoveOwnerReference obj owner)) = om_labels obj"
  by (simp add: RemoveOwnerReference_def Let_def)

lemma RemoveOwnerReference_reports:
  "fst (RemoveOwnerReference obj owner) \<longleftrightarrow> (\<exists>r \<in> set (om_ownerRefs obj). or_uid r = om_uid owner)"
  by (simp add: RemoveOwnerReference_def Let_def list_ex_iff)

lemma RemoveOwnerReference_unreported:
  "\<not> fst (RemoveOwnerReference obj owner) \<Longrightarrow> snd (RemoveOwnerReference obj owner) = obj"
  by (simp add: RemoveOwnerReference_def Let_def)

lemma unmark_snd:
  "snd (UnMarkForCleanupAndRemoveOwnership obj owner) =
     snd (RemoveOwnerReference
       (snd (RemoveOwnedByVolSync meta_ops (snd (UnmarkForCleanup obj)))) owner)"
  by (simp add: UnMarkForCleanupAndRemoveOwnership_def split: prod.splits)

lemma unmark_labels:
  "map_of (om_labels (snd (UnMarkForCleanupAndRemoveOwnership obj owner))) =
     (map_of (om_labels obj))(cleanupLabelKey := None, OwnedByLabelKey := None)"
proof -
  have "map_of (om_labels (snd (RemoveLabel meta_ops y k))) = (map_of (om_labels y))(k := None)"
    for y :: "'a objmeta_scheme" and k
    using ml.remove_labels[of y k] by simp
  then show ?thesis
    by (simp add: unmark_snd RemoveOwnedByVolSync_def UnmarkForCleanup_def)
qed

lemma unmark_refs:
  "om_ownerRefs (snd (UnMarkForCleanupAndRemoveOwnership obj owner)) =
     filter (\<lambda>r. or_uid r \<noteq> om_uid owner) (om_ownerRefs obj)"
  by (simp add: unmark_snd RemoveOwnerReference_refs RemoveOwnedByVolSync_def UnmarkForCleanup_def
      RemoveLabel_meta)

lemma unmark_unreported:
  "\<not> fst (UnMarkForCleanupAndRemoveOwnership obj owner) \<Longrightarrow>
   snd (UnMarkForCleanupAndRemoveOwnership obj owner) = obj"
  unfolding UnMarkForCleanupAndRemoveOwnership_def RemoveOwnedByVolSync_def UnmarkForCleanup_def
  by (auto split: prod.splits)
    (metis RemoveOwnerReference_unreported fst_conv ml.remove_unreported snd_conv)

lemma IsSnapshot_Some:
  "IsSnapshot (Some i) \<longleftrightarrow> tr_kind i = ''VolumeSnapshot'' \<and> tr_apiGroup i = Some snapshotGroup"
  by (auto simp: IsSnapshot_def)

lemma IsSnapshotD: "IsSnapshot i \<Longrightarrow> \<exists>x. i = Some x"
  by (cases i) (auto simp: IsSnapshot_def)

section \<open>What cleanup may do to the cluster\<close>

text \<open>
  The contract of a cleanup for \<open>owner\<close>, call by call. It may delete a snapshot only if nobody marked
  it do-not-delete and no one else owns it, and only with the resource version it was read at as
  a precondition; it may update a snapshot only to drop the owner's own reference; everything
  else it deletes by the cleanup label with the owner's UID, in the owner's namespace, and never
  snapshots that way.
\<close>

fun cleanup_ok :: "'b objmeta_scheme \<Rightarrow> call \<Rightarrow> bool" where
  "cleanup_ok owner (CDelete (OSnapshot s) rv) =
     (\<not> IsMarkedDoNotDelete s \<and> \<not> snapInUseByOther s owner \<and> rv = Some (om_resourceVersion s))"
| "cleanup_ok owner (CUpdate (OSnapshot s)) =
     list_all (\<lambda>r. or_uid r \<noteq> om_uid owner) (om_ownerRefs s)"
| "cleanup_ok owner (CDeleteAllOf k ns sel) =
     (k \<noteq> KSnapshot \<and> ns = Some (om_namespace owner)
        \<and> sel = LabelIs cleanupLabelKey (om_uid owner))"
| "cleanup_ok owner (CList k ns sel) = (k = KSnapshot \<and> ns = Some (om_namespace owner))"
| "cleanup_ok owner c = False"

lemma dropped_refs_ok:
  "list_all (\<lambda>r. or_uid r \<noteq> om_uid owner) (om_ownerRefs (snd (RemoveOwnerReference obj owner)))"
  "list_all (\<lambda>r. or_uid r \<noteq> om_uid owner)
     (om_ownerRefs (snd (UnMarkForCleanupAndRemoveOwnership obj owner)))"
  by (simp_all add: RemoveOwnerReference_refs unmark_refs list_all_iff)

lemma emits_removeSnapOwnership:
  "emits (cleanup_ok owner) (RemoveSnapOwnershipAndLabelsIfRequestedAndUpdate cl owner s)
     (\<lambda>(removed, err). err = None \<longrightarrow> removed = IsMarkedDoNotDelete s)"
  unfolding RemoveSnapOwnershipAndLabelsIfRequestedAndUpdate_def
  using dropped_refs_ok(2)[of owner s]
  by (auto intro!: emits_rules emits_bind[where Q = "\<lambda>_. True"] split: prod.splits)

lemma emits_relinquish:
  "emits (cleanup_ok owner) (relinquishSnapshotsWithDoNotDeleteLabel cl owner ss)
     (\<lambda>(remaining, err). (\<forall>s \<in> set remaining. \<not> IsMarkedDoNotDelete s) \<and>
        (err = None \<longrightarrow> remaining = filter (\<lambda>s. \<not> IsMarkedDoNotDelete s) ss))"
proof (induction ss)
  case Nil
  then show ?case by (auto intro!: emits_rules)
next
  case (Cons s ss)
  show ?case
    unfolding relinquishSnapshotsWithDoNotDeleteLabel.simps
  proof (rule emits_bind[OF emits_removeSnapOwnership], goal_cases)
    case (1 r)
    obtain removed err where r: "r = (removed, err)" by (cases r)
    show ?case
      unfolding r prod.case
      by (rule emits_bind[OF Cons.IH]) (use 1 r in \<open>auto intro!: emits_return split: option.splits\<close>)
  qed
qed

lemma emits_cleanupSnapshot:
  assumes "\<not> IsMarkedDoNotDelete s"
  shows "emits (cleanup_ok owner) (cleanupSnapshot cl owner s) (\<lambda>_. True)"
  unfolding cleanupSnapshot_def using assms dropped_refs_ok(1)[of owner s]
  by (auto intro!: emits_rules emits_bind[where Q = "\<lambda>_. True"] split: prod.splits)

lemma emits_labelCheck:
  "emits (cleanup_ok owner) (CleanupSnapshotsWithLabelCheck cl owner items) (\<lambda>_. True)"
  unfolding CleanupSnapshotsWithLabelCheck_def
  by (rule emits_bind[OF emits_relinquish])
    (auto intro!: emits_rules emits_forEach emits_cleanupSnapshot)

lemma emits_cleanupSnapshots:
  "emits (cleanup_ok owner) (cleanupSnapshots cl owner) (\<lambda>_. True)"
  unfolding cleanupSnapshots_def
  by (auto intro!: emits_rules emits_bind[where Q = "\<lambda>_. True"] emits_labelCheck)

lemma emits_deleteAllOf [emits_rules]:
  "P (CDeleteAllOf k ns sel) \<Longrightarrow> (\<And>a. Q a) \<Longrightarrow> emits P (deleteAllOf cl k ns sel) Q"
  by (cases k) (auto intro!: emits_rules)

lemma emits_cleanupType: "emits (cleanup_ok owner) (cleanupType cl owner k) (\<lambda>_. True)"
  unfolding cleanupType_def
  by (auto intro!: emits_rules emits_bind[where Q = "\<lambda>_. True"] emits_cleanupSnapshots)

lemma emits_CleanupObjects: "emits (cleanup_ok owner) (CleanupObjects cl owner types) (\<lambda>_. True)"
  unfolding CleanupObjects_def by (rule emits_forEach) (rule emits_cleanupType)


section \<open>What cleanup achieves\<close>

text \<open>
  Completeness needs to know what a run did, not only what it may do: each helper, when it
  reports success, has issued the call that disposes of its snapshot.
\<close>

lemma relinquish_run:
  assumes "run_state (relinquishSnapshotsWithDoNotDeleteLabel cl owner ss) tr = ((rem, err), tr')"
  obtains new where "tr' = new @ tr"
    "err = None \<Longrightarrow> rem = filter (\<lambda>s. \<not> IsMarkedDoNotDelete s) ss"
  using emits_run[OF emits_relinquish assms] by auto

lemma cleanupSnapshot_run:
  assumes "run_state (cleanupSnapshot cl owner s) tr = (r, tr')"
  obtains new where "tr' = new @ tr"
    "\<not> snapInUseByOther s owner \<Longrightarrow>
       CDelete (OSnapshot s) (Some (om_resourceVersion s)) \<in> set new"
    "snapInUseByOther s owner \<Longrightarrow> \<forall>rv. CDelete (OSnapshot s) rv \<notin> set new"
  using assms
  by (auto simp: cleanupSnapshot_def kube_ops split: if_splits prod.splits sum.splits)

lemma forEach_cleanup_run:
  assumes "run_state (forEach (cleanupSnapshot cl owner) ss) tr = (None, tr')"
  shows "\<exists>new. tr' = new @ tr \<and> (\<forall>s \<in> set ss. \<not> snapInUseByOther s owner \<longrightarrow>
           CDelete (OSnapshot s) (Some (om_resourceVersion s)) \<in> set new)"
  using assms
proof (induction ss arbitrary: tr)
  case Nil
  then show ?case by simp
next
  case (Cons s ss)
  obtain r tr1 where 1: "run_state (cleanupSnapshot cl owner s) tr = (r, tr1)" by fastforce
  with Cons.prems have "r = None" and 2: "run_state (forEach (cleanupSnapshot cl owner) ss) tr1 = (None, tr')"
    by (auto split: option.splits)
  from 1 obtain n1 where n1: "tr1 = n1 @ tr" "\<not> snapInUseByOther s owner \<longrightarrow>
       CDelete (OSnapshot s) (Some (om_resourceVersion s)) \<in> set n1"
    by (rule cleanupSnapshot_run) auto
  from Cons.IH[OF 2] obtain n2 where n2: "tr' = n2 @ tr1" "\<forall>s \<in> set ss. \<not> snapInUseByOther s owner \<longrightarrow>
           CDelete (OSnapshot s) (Some (om_resourceVersion s)) \<in> set n2" by auto
  show ?case using n1 n2 by (intro exI[of _ "n2 @ n1"]) auto
qed



section \<open>Snapshots in use by the volume populator\<close>

text \<open>
  The volume populator marks a snapshot it reads from with a label whose key starts with
  \<open>SnapInUseByVolumePopulatorLabelPrefix\<close> and whose value is the name of the claim
  (\<open>validateSnapshotAndLabel\<close>). The check of \<open>cleanup.go\<close> compares the prefix with the values.
\<close>

lemma inUse_iff:
  "snapInUseByVolumePopulatorPVC s \<longleftrightarrow>
     (\<exists>k v. map_of (om_labels s) k = Some v \<and> HasPrefix v SnapInUseByVolumePopulatorLabelPrefix)"
  by (force simp: snapInUseByVolumePopulatorPVC_def list_ex_iff entries_iff split: prod.splits)

text \<open>Label values cannot contain a slash, and the prefix does, so for every snapshot with valid
  labels the volume-populator check is false: the in-use label the populator sets never protects a
  snapshot from cleanup.\<close>

theorem volpop_label_never_protects:
  assumes "\<And>k v. map_of (om_labels s) k = Some v \<Longrightarrow> CHR ''/'' \<notin> set v"
  shows "\<not> snapInUseByVolumePopulatorPVC s"
proof
  assume "snapInUseByVolumePopulatorPVC s"
  then obtain k v t where "map_of (om_labels s) k = Some v"
    and v: "v = SnapInUseByVolumePopulatorLabelPrefix @ t"
    by (auto simp: inUse_iff HasPrefix_iff)
  then have "CHR ''/'' \<notin> set v" using assms by blast
  with v show False by (simp add: label_keys)
qed

theorem volpop_label_never_protects_witness:
  "\<not> snapInUseByVolumePopulatorPVC
       ((newSnapshot ''ns'' ''snap'')\<lparr>om_labels :=
          [(SnapInUseByVolumePopulatorLabelPrefix @ ''uid-1'', ''my-pvc'')]\<rparr>)"
  by (rule volpop_label_never_protects) (auto simp: new_defs split: if_splits)

section \<open>Retiring the previous image\<close>

fun markOld_ok :: "'b objmeta_scheme \<Rightarrow> typedref option \<Rightarrow> call \<Rightarrow> bool" where
  "markOld_ok owner old (CGet k key) =
     (k = KSnapshot \<and> key = (om_namespace owner, tr_name (the old)))"
| "markOld_ok owner old (CUpdate (OSnapshot s)) =
     (map_of (om_labels s) cleanupLabelKey = Some (om_uid owner) \<and> \<not> IsMarkedDoNotDelete s)"
| "markOld_ok owner old c = False"

text \<open>After a synchronization the previous image is marked for cleanup only if both images are
  snapshots with different names; the only object written is the old snapshot, now carrying the
  owner's cleanup label, and never one marked do-not-delete. In every other case nothing is asked
  of the server.\<close>

theorem MarkOldSnapshotForCleanup_safe:
  "emits (\<lambda>c. markOld_ok owner old c \<and> IsSnapshot old \<and> IsSnapshot latest \<and>
              tr_name (the latest) \<noteq> tr_name (the old))
     (MarkOldSnapshotForCleanup cl owner old latest) (\<lambda>_. True)"
  unfolding MarkOldSnapshotForCleanup_def
  by (auto intro!: emits_rules emits_bind[where Q = "\<lambda>_. True"]
      simp: MarkForCleanup_labels marked_iff label_keys_distinct)

text \<open>
  Giving up a snapshot: the cleanup label, the created-by label and the owner's reference go, the
  rest of the object, other owners' references included, stays.
\<close>

lemma relinquished_snapshot:
  "let s' = snd (UnMarkForCleanupAndRemoveOwnership s owner) in
   map_of (om_labels s') cleanupLabelKey = None \<and> \<not> IsOwnedByVolsync meta_ops s' \<and>
   (\<forall>r. r \<in> set (om_ownerRefs s') \<longleftrightarrow> r \<in> set (om_ownerRefs s) \<and> or_uid r \<noteq> om_uid owner)"
  by (simp add: unmark_labels unmark_refs IsOwnedByVolsync_def ml.has_label_value_iff
      label_keys_distinct Let_def)

end
