(* ===== verification/State_Machine.thy ===== *)
theory State_Machine
  imports Sample_Cluster
begin

text \<open>
  The replication state machine: \<open>statemachine/machine.go\<close>, \<open>conditions.go\<close> and \<open>interface.go\<close>, and
  the results movers return (\<open>mover/mover.go\<close>). The interface \<open>ReplicationMachine\<close> is the record
  \<open>machine\<close> of its methods over an arbitrary machine state \<open>'m\<close>; \<open>Conditions()\<close>, which returns a
  pointer, is a getter and the write through it. What the code takes from its environment, the
  clock, the cron parser and \<open>meta.SetStatusCondition\<close>, is the record \<open>smenv\<close>.
  A nil pointer that is dereferenced ends in \<open>Panic\<close>.
\<close>

section \<open>Results of movers\<close>

record mresult =
  mr_completed :: bool
  mr_image :: "typedref option"
  mr_retryAfter :: "duration option"

record ctrlResult =
  cr_requeue :: bool
  cr_requeueAfter :: duration

definition emptyResult :: ctrlResult where
  "emptyResult = \<lparr>cr_requeue = False, cr_requeueAfter = 0\<rparr>"

definition ReconcileResult :: "mresult \<Rightarrow> ctrlResult" where
  "ReconcileResult mr =
     (case mr_retryAfter mr of
        Some d \<Rightarrow> \<lparr>cr_requeue = True, cr_requeueAfter = d\<rparr>
      | None \<Rightarrow> emptyResult)"

definition InProgress :: mresult where
  "InProgress = \<lparr>mr_completed = False, mr_image = None, mr_retryAfter = Some (1 * minute)\<rparr>"

definition RetryAfter :: "duration \<Rightarrow> mresult" where
  "RetryAfter s = \<lparr>mr_completed = False, mr_image = None, mr_retryAfter = Some s\<rparr>"

definition Complete :: mresult where
  "Complete = \<lparr>mr_completed = True, mr_image = None, mr_retryAfter = None\<rparr>"

definition CompleteWithImage :: "typedref option \<Rightarrow> mresult" where
  "CompleteWithImage img = \<lparr>mr_completed = True, mr_image = img, mr_retryAfter = None\<rparr>"

section \<open>The interface ReplicationMachine\<close>

record 'm machine =
  Cronspec :: "'m \<Rightarrow> string"
  ManualTag :: "'m \<Rightarrow> string"
  LastManualTag :: "'m \<Rightarrow> string"
  SetLastManualTag :: "string \<Rightarrow> 'm \<Rightarrow> 'm"
  NextSyncTime :: "'m \<Rightarrow> gtime option"
  SetNextSyncTime :: "gtime option \<Rightarrow> 'm \<Rightarrow> 'm"
  LastSyncStartTime :: "'m \<Rightarrow> gtime option"
  SetLastSyncStartTime :: "gtime option \<Rightarrow> 'm \<Rightarrow> 'm"
  LastSyncTime :: "'m \<Rightarrow> gtime option"
  SetLastSyncTime :: "gtime option \<Rightarrow> 'm \<Rightarrow> 'm"
  LastSyncDuration :: "'m \<Rightarrow> duration option"
  SetLastSyncDuration :: "duration option \<Rightarrow> 'm \<Rightarrow> 'm"
  Conditions :: "'m \<Rightarrow> condition list"
  SetConditions :: "condition list \<Rightarrow> 'm \<Rightarrow> 'm"
  SetOutOfSync :: "bool \<Rightarrow> 'm \<Rightarrow> 'm"
  IncMissedIntervals :: "'m \<Rightarrow> 'm"
  ObserveSyncDuration :: "duration \<Rightarrow> 'm \<Rightarrow> 'm"
  Synchronize :: "('m, (mresult \<times> gerror option) go) state"
  Cleanup :: "('m, (mresult \<times> gerror option) go) state"

record 'm smenv =
  se_now :: "('m, gtime) state"
  se_setStatusCondition :: "condition list \<Rightarrow> condition \<Rightarrow> condition list"
  se_cronParse :: "string \<Rightarrow> gerror + (gtime \<Rightarrow> gtime)"

definition upd :: "('m \<Rightarrow> 'm) \<Rightarrow> ('m, unit) state" where
  "upd f = State (\<lambda>m. ((), f m))"

definition look :: "('m \<Rightarrow> 'a) \<Rightarrow> ('m, 'a) state" where
  "look f = State (\<lambda>m. (f m, m))"

lemma run_upd [simp]: "run_state (upd f) m = ((), f m)"
  by (simp add: upd_def)

lemma run_look [simp]: "run_state (look f) m = (f m, m)"
  by (simp add: look_def)

section \<open>conditions.go\<close>

definition syncCondition :: "conditionStatus \<Rightarrow> string \<Rightarrow> string \<Rightarrow> condition" where
  "syncCondition st reason msg = \<lparr>co_type = ConditionSynchronizing, co_status = st,
     co_reason = reason, co_message = msg, co_lastTransitionTime = 0,
     co_observedGeneration = 0\<rparr>"

definition setCondition :: "'m smenv \<Rightarrow> 'm machine \<Rightarrow> condition \<Rightarrow> ('m, unit) state" where
  "setCondition e r c =
     upd (\<lambda>m. SetConditions r (se_setStatusCondition e (Conditions r m) c) m)"

definition setConditionSyncing :: "'m smenv \<Rightarrow> 'm machine \<Rightarrow> ('m, unit) state" where
  "setConditionSyncing e r =
     setCondition e r (syncCondition ConditionTrue SynchronizingReasonSync
       ''Synchronization in-progress'')"

definition setConditionManual :: "'m smenv \<Rightarrow> 'm machine \<Rightarrow> ('m, unit) state" where
  "setConditionManual e r =
     setCondition e r (syncCondition ConditionFalse SynchronizingReasonManual
       ''Waiting for manual trigger'')"

definition setConditionScheduled :: "'m smenv \<Rightarrow> 'm machine \<Rightarrow> ('m, unit) state" where
  "setConditionScheduled e r =
     setCondition e r (syncCondition ConditionFalse SynchronizingReasonSched
       ''Waiting for next scheduled synchronization'')"

definition setConditionError :: "'m smenv \<Rightarrow> 'm machine \<Rightarrow> gerror \<Rightarrow> ('m, unit) state" where
  "setConditionError e r err =
     setCondition e r (syncCondition ConditionFalse SynchronizingReasonError (errorMsg err))"

definition setConditionCleanup :: "'m smenv \<Rightarrow> 'm machine \<Rightarrow> ('m, unit) state" where
  "setConditionCleanup e r =
     setCondition e r (syncCondition ConditionFalse SynchronizingReasonCleanup
       ''Cleanup in-progress'')"

lemmas setCondition_defs = setConditionSyncing_def setConditionManual_def
  setConditionScheduled_def setConditionError_def setConditionCleanup_def setCondition_def

section \<open>machine.go\<close>

datatype replicationState = InitialState | SynchronizingState | CleaningUpState

datatype triggerType = ScheduleTrigger | ManualTrigger | NoTrigger

definition getTrigger :: "'m machine \<Rightarrow> 'm \<Rightarrow> triggerType" where
  "getTrigger r m =
     (if length (ManualTag r m) > 0 then ManualTrigger
      else if length (Cronspec r m) > 0 then ScheduleTrigger
      else NoTrigger)"

definition currentState :: "'m machine \<Rightarrow> 'm \<Rightarrow> replicationState" where
  "currentState r m =
     (if IsZero (LastSyncTime r m) \<and> IsZero (LastSyncStartTime r m) then InitialState
      else if \<not> IsZero (LastSyncStartTime r m) then SynchronizingState
      else CleaningUpState)"

definition getSchedule :: "'m smenv \<Rightarrow> string \<Rightarrow> gerror + (gtime \<Rightarrow> gtime)" where
  "getSchedule e cronspec = se_cronParse e cronspec"

definition pastScheduleDeadline :: "(gtime \<Rightarrow> gtime) \<Rightarrow> gtime \<Rightarrow> gtime \<Rightarrow> bool" where
  "pastScheduleDeadline nxt lastCompleted t = time_Before (nxt (nxt lastCompleted)) t"

definition missedDeadline ::
  "'m smenv \<Rightarrow> 'm machine \<Rightarrow> ('m, bool \<times> gerror option) state" where
  "missedDeadline e r = do {
     m \<leftarrow> State_Monad.get;
     if getTrigger r m = ScheduleTrigger \<and> \<not> IsZero (LastSyncTime r m) then
       (case getSchedule e (Cronspec r m) of
          Inl err \<Rightarrow> ret (False, Some err)
        | Inr schedule \<Rightarrow> do {
            t \<leftarrow> se_now e;
            ret (pastScheduleDeadline schedule (the (LastSyncTime r m)) t, None) })
     else ret (False, None) }"

definition updateNextSyncStartTime ::
  "'m smenv \<Rightarrow> 'm machine \<Rightarrow> ('m, gerror option go) state" where
  "updateNextSyncStartTime e r = do {
     m \<leftarrow> State_Monad.get;
     case getTrigger r m of
       ScheduleTrigger \<Rightarrow>
         (case getSchedule e (Cronspec r m) of
            Inl err \<Rightarrow> ret (Ret (Some err))
          | Inr schedule \<Rightarrow>
              (case LastSyncTime r m of
                 None \<Rightarrow> ret Panic
               | Some lastSync \<Rightarrow> do {
                   upd (SetNextSyncTime r (Some (schedule lastSync)));
                   ret (Ret None) }))
     | ManualTrigger \<Rightarrow> do { upd (SetNextSyncTime r None); ret (Ret None) }
     | NoTrigger \<Rightarrow> do { upd (SetNextSyncTime r None); ret (Ret None) } }"

definition transitionToSynchronizing ::
  "'m smenv \<Rightarrow> 'm machine \<Rightarrow> ('m, gerror option) state" where
  "transitionToSynchronizing e r = do {
     t \<leftarrow> se_now e;
     upd (SetLastSyncStartTime r (Some t));
     setConditionSyncing e r;
     ret None }"

definition transitionToCleaningUp ::
  "'m smenv \<Rightarrow> 'm machine \<Rightarrow> ('m, gerror option go) state" where
  "transitionToCleaningUp e r = do {
     (missed, err) \<leftarrow> missedDeadline e r;
     case err of
       Some x \<Rightarrow> ret (Ret (Some x))
     | None \<Rightarrow> do {
         (if missed then upd (IncMissedIntervals r) else ret ());
         t \<leftarrow> se_now e;
         upd (SetLastSyncTime r (Some t));
         start \<leftarrow> look (LastSyncStartTime r);
         case start of
           None \<Rightarrow> ret Panic
         | Some s \<Rightarrow> do {
             upd (SetLastSyncDuration r (Some (time_Sub t s)));
             upd (ObserveSyncDuration r (time_Sub t s));
             u \<leftarrow> updateNextSyncStartTime e r;
             case u of
               Panic \<Rightarrow> ret Panic
             | Ret (Some x) \<Rightarrow> ret (Ret (Some x))
             | Ret None \<Rightarrow> do {
                 upd (\<lambda>m. SetLastManualTag r (ManualTag r m) m);
                 upd (SetLastSyncStartTime r None);
                 setConditionCleanup e r;
                 ret (Ret None) } } } }"

definition shouldSync :: "'m smenv \<Rightarrow> 'm machine \<Rightarrow> ('m, bool go) state" where
  "shouldSync e r = do {
     m \<leftarrow> State_Monad.get;
     case getTrigger r m of
       ScheduleTrigger \<Rightarrow> do {
         t \<leftarrow> se_now e;
         case NextSyncTime r m of
           None \<Rightarrow> ret Panic
         | Some next \<Rightarrow> ret (Ret (time_After t next)) }
     | ManualTrigger \<Rightarrow> ret (Ret (ManualTag r m \<noteq> LastManualTag r m))
     | NoTrigger \<Rightarrow> ret (Ret True) }"

definition timeToNextSync :: "'m smenv \<Rightarrow> 'm machine \<Rightarrow> ('m, duration option) state" where
  "timeToNextSync e r = do {
     m \<leftarrow> State_Monad.get;
     case NextSyncTime r m of
       None \<Rightarrow> ret None
     | Some next \<Rightarrow>
         if next = 0 then ret None
         else do { t \<leftarrow> se_now e; ret (Some (time_Sub next t)) } }"

definition doInitialState ::
  "'m smenv \<Rightarrow> 'm machine \<Rightarrow> ('m, (ctrlResult \<times> gerror option) go) state" where
  "doInitialState e r = do {
     err \<leftarrow> transitionToSynchronizing e r;
     ret (Ret (emptyResult, err)) }"

definition doSynchronizingState ::
  "'m smenv \<Rightarrow> 'm machine \<Rightarrow> ('m, (ctrlResult \<times> gerror option) go) state" where
  "doSynchronizingState e r = do {
     out \<leftarrow> Synchronize r;
     case out of
       Panic \<Rightarrow> ret Panic
     | Ret (result, Some x) \<Rightarrow> ret (Ret (emptyResult, Some x))
     | Ret (result, None) \<Rightarrow>
         if mr_completed result then do {
           upd (SetOutOfSync r False);
           u \<leftarrow> transitionToCleaningUp e r;
           case u of
             Panic \<Rightarrow> ret Panic
           | Ret (Some x) \<Rightarrow> ret (Ret (emptyResult, Some x))
           | Ret None \<Rightarrow> ret (Ret (ReconcileResult result, None)) }
         else do {
           setConditionSyncing e r;
           ret (Ret (ReconcileResult result, None)) } }"

definition doCleanupIdle ::
  "'m smenv \<Rightarrow> 'm machine \<Rightarrow> ('m, (ctrlResult \<times> gerror option) go) state" where
  "doCleanupIdle e r = do {
     trigger \<leftarrow> look (getTrigger r);
     (if trigger = ScheduleTrigger then setConditionScheduled e r else setConditionManual e r);
     timeToNext \<leftarrow> timeToNextSync e r;
     case timeToNext of
       None \<Rightarrow> ret (Ret (emptyResult, None))
     | Some d \<Rightarrow> ret (Ret (\<lparr>cr_requeue = False, cr_requeueAfter = d\<rparr>, None)) }"

definition doCleanupDecide ::
  "'m smenv \<Rightarrow> 'm machine \<Rightarrow> mresult \<Rightarrow> ('m, (ctrlResult \<times> gerror option) go) state" where
  "doCleanupDecide e r result = do {
     s \<leftarrow> shouldSync e r;
     case s of
       Panic \<Rightarrow> ret Panic
     | Ret True \<Rightarrow> do {
         err \<leftarrow> transitionToSynchronizing e r;
         case err of
           Some x \<Rightarrow> ret (Ret (emptyResult, Some x))
         | None \<Rightarrow> ret (Ret (ReconcileResult result, None)) }
     | Ret False \<Rightarrow> doCleanupIdle e r }"

definition doCleanupState ::
  "'m smenv \<Rightarrow> 'm machine \<Rightarrow> ('m, (ctrlResult \<times> gerror option) go) state" where
  "doCleanupState e r = do {
     out \<leftarrow> Cleanup r;
     case out of
       Panic \<Rightarrow> ret Panic
     | Ret (result, Some x) \<Rightarrow> ret (Ret (emptyResult, Some x))
     | Ret (result, None) \<Rightarrow> do {
         u \<leftarrow> updateNextSyncStartTime e r;
         case u of
           Panic \<Rightarrow> ret Panic
         | Ret (Some x) \<Rightarrow> ret (Ret (emptyResult, Some x))
         | Ret None \<Rightarrow>
             if mr_completed result then doCleanupDecide e r result
             else ret (Ret (ReconcileResult result, None)) } }"

definition checkOutOfSync :: "'m smenv \<Rightarrow> 'm machine \<Rightarrow> ('m, gerror option) state" where
  "checkOutOfSync e r = do {
     last \<leftarrow> look (LastSyncTime r);
     case last of
       None \<Rightarrow> do { upd (SetOutOfSync r True); ret None }
     | Some _ \<Rightarrow> do {
         (missed, err) \<leftarrow> missedDeadline e r;
         case err of
           Some x \<Rightarrow> do { setConditionError e r x; ret (Some x) }
         | None \<Rightarrow> do {
             (if missed then upd (SetOutOfSync r True) else ret ());
             ret None } } }"

definition Run ::
  "'m smenv \<Rightarrow> 'm machine \<Rightarrow> ('m, (ctrlResult \<times> gerror option) go) state" where
  "Run e r = do {
     early \<leftarrow> checkOutOfSync e r;
     case early of
       Some x \<Rightarrow> ret (Ret (emptyResult, Some x))
     | None \<Rightarrow> do {
         st \<leftarrow> look (currentState r);
         out \<leftarrow> (case st of
            InitialState \<Rightarrow> doInitialState e r
          | SynchronizingState \<Rightarrow> doSynchronizingState e r
          | CleaningUpState \<Rightarrow> doCleanupState e r);
         case out of
           Ret (result, Some x) \<Rightarrow> do { setConditionError e r x; ret out }
         | _ \<Rightarrow> ret out } }"

end
