(* ===== verification/Movers.thy ===== *)
theory Movers
  imports Cleanup State_Machine
begin

text \<open>
  What stands between the controllers and the data movers: the \<open>Mover\<close> interface
  (\<open>mover/mover.go\<close>), the catalog of builders (\<open>mover/builder.go\<close>), the metrics of a replication
  (\<open>metrics.go\<close>) and the namespace check for privileged movers (\<open>utils/namespace.go\<close>).
  A mover keeps pointers into the status of the resource it was built from; \<open>'p\<close> is the part of
  the status it can reach (\<open>rsPart\<close>, \<open>rdPart\<close>), and its operations work on that part and on the
  cluster.
\<close>

section \<open>The Mover interface\<close>

record 'p mover =
  mo_Name :: string
  mo_Synchronize :: "('p \<times> trace, (mresult \<times> gerror option) go) state"
  mo_Cleanup :: "('p \<times> trace, (mresult \<times> gerror option) go) state"

text \<open>The fields of the statuses that builders allocate and movers write.\<close>

record rsPart =
  rp_moverStatus :: "moverStatus option"
  rp_resticStatus :: "rsResticStatus option"
  rp_kopiaStatus :: "rsKopiaStatus option"
  rp_rsyncStatus :: "rsyncStatus option"
  rp_rsyncTLSStatus :: "rsRsyncTLSStatus option"
  rp_syncthingStatus :: "rsSyncthingStatus option"

record rdPart =
  dp_moverStatus :: "moverStatus option"
  dp_kopiaStatus :: "rdKopiaStatus option"
  dp_rsyncStatus :: "rsyncStatus option"
  dp_rsyncTLSStatus :: "rdRsyncTLSStatus option"

definition rsPartOf :: "replicationSourceStatus \<Rightarrow> rsPart" where
  "rsPartOf st = \<lparr>rp_moverStatus = rss_latestMoverStatus st, rp_resticStatus = rss_restic st,
     rp_kopiaStatus = rss_kopia st, rp_rsyncStatus = rss_rsync st, rp_rsyncTLSStatus = rss_rsyncTLS st,
     rp_syncthingStatus = rss_syncthing st\<rparr>"

definition withRsPart :: "rsPart \<Rightarrow> replicationSourceStatus \<Rightarrow> replicationSourceStatus" where
  "withRsPart p st = st\<lparr>rss_latestMoverStatus := rp_moverStatus p, rss_restic := rp_resticStatus p,
     rss_kopia := rp_kopiaStatus p, rss_rsync := rp_rsyncStatus p, rss_rsyncTLS := rp_rsyncTLSStatus p,
     rss_syncthing := rp_syncthingStatus p\<rparr>"

definition rdPartOf :: "replicationDestinationStatus \<Rightarrow> rdPart" where
  "rdPartOf st = \<lparr>dp_moverStatus = rds_latestMoverStatus st, dp_kopiaStatus = rds_kopia st,
     dp_rsyncStatus = rds_rsync st, dp_rsyncTLSStatus = rds_rsyncTLS st\<rparr>"

definition withRdPart :: "rdPart \<Rightarrow> replicationDestinationStatus \<Rightarrow> replicationDestinationStatus" where
  "withRdPart p st = st\<lparr>rds_latestMoverStatus := dp_moverStatus p, rds_kopia := dp_kopiaStatus p,
     rds_rsync := dp_rsyncStatus p, rds_rsyncTLS := dp_rsyncTLSStatus p\<rparr>"

section \<open>The catalog\<close>

text \<open>
  A builder makes its mover from the resource; for a destination it may ask the cluster (kopia reads
  the source whose snapshots are to be restored).
\<close>

record builder =
  bl_Name :: string
  bl_FromSource :: "replicationsource \<Rightarrow> bool \<Rightarrow> rsPart \<Rightarrow> (gerror + rsPart mover option) \<times> rsPart"
  bl_FromDestination ::
    "replicationdestination \<Rightarrow> bool \<Rightarrow> rdPart \<Rightarrow> ((gerror + rdPart mover option) \<times> rdPart) kube"
  bl_VersionInfo :: string

definition Register :: "builder \<Rightarrow> builder list \<Rightarrow> builder list" where
  "Register b catalog = catalog @ [b]"

definition GetEnabledMoverList :: "builder list \<Rightarrow> string list" where
  "GetEnabledMoverList catalog = map bl_Name catalog"

text \<open>The loops of the two lookups, over the results of the builders, which see the part in turn.\<close>

fun catalogLoop ::
  "('p \<Rightarrow> (gerror + 'p mover option) \<times> 'p) list \<Rightarrow> 'p mover option \<Rightarrow> 'p \<Rightarrow>
   (gerror + 'p mover) \<times> 'p" where
  "catalogLoop [] dataMover p =
     ((case dataMover of None \<Rightarrow> Inl ErrNoMoverFound | Some m \<Rightarrow> Inr m), p)"
| "catalogLoop (b # bs) dataMover p =
     (case b p of
        (Inr (Some candidate), p') \<Rightarrow>
          (case dataMover of
             Some _ \<Rightarrow> (Inl ErrMultipleMoversFound, p')
           | None \<Rightarrow> catalogLoop bs (Some candidate) p')
      | (_, p') \<Rightarrow> catalogLoop bs dataMover p')"

fun catalogLoopM ::
  "('p \<Rightarrow> ((gerror + 'p mover option) \<times> 'p) kube) list \<Rightarrow> 'p mover option \<Rightarrow> 'p \<Rightarrow>
   ((gerror + 'p mover) \<times> 'p) kube" where
  "catalogLoopM [] dataMover p =
     ret ((case dataMover of None \<Rightarrow> Inl ErrNoMoverFound | Some m \<Rightarrow> Inr m), p)"
| "catalogLoopM (b # bs) dataMover p = do {
     (r, p') \<leftarrow> b p;
     case r of
       Inr (Some candidate) \<Rightarrow>
         (case dataMover of
            Some _ \<Rightarrow> ret (Inl ErrMultipleMoversFound, p')
          | None \<Rightarrow> catalogLoopM bs (Some candidate) p')
     | _ \<Rightarrow> catalogLoopM bs dataMover p' }"

definition GetSourceMoverFromCatalog ::
  "builder list \<Rightarrow> replicationsource \<Rightarrow> bool \<Rightarrow> rsPart \<Rightarrow> (gerror + rsPart mover) \<times> rsPart" where
  "GetSourceMoverFromCatalog catalog source privileged p =
     catalogLoop (map (\<lambda>b. bl_FromSource b source privileged) catalog) None p"

definition GetDestinationMoverFromCatalog ::
  "builder list \<Rightarrow> replicationdestination \<Rightarrow> bool \<Rightarrow> rdPart \<Rightarrow> ((gerror + rdPart mover) \<times> rdPart) kube" where
  "GetDestinationMoverFromCatalog catalog destination privileged p =
     catalogLoopM (map (\<lambda>b. bl_FromDestination b destination privileged) catalog) None p"

section \<open>Metrics\<close>

text \<open>
  The registered vectors give every label combination its own values: a counter, a gauge (\<open>None\<close>
  before it is first set) and the durations that were observed, newest first.
\<close>

record metricLabels =
  ml_objName :: string
  ml_objNamespace :: string
  ml_role :: string
  ml_method :: string

record volsyncMetrics =
  MissedIntervals :: nat
  OutOfSync :: "bool option"
  SyncDurations :: "duration list"

type_synonym metricVec = "metricLabels \<Rightarrow> volsyncMetrics"

definition newVolSyncMetrics :: "metricVec \<Rightarrow> metricLabels \<Rightarrow> volsyncMetrics" where
  "newVolSyncMetrics vec labels = vec labels"

section \<open>Privileged movers\<close>

definition PrivilegedMoversOk :: "cluster \<Rightarrow> string \<Rightarrow> (bool \<times> gerror option) kube" where
  "PrivilegedMoversOk cl namespace = do {
     r \<leftarrow> kGet (nsC cl) ([], namespace);
     case r of
       Inl err \<Rightarrow> ret (False, Some err)
     | Inr ns \<Rightarrow>
         (case map_of (om_annotations ns) PrivilegedMoversNamespaceAnnotation of
            Some v \<Rightarrow> if ToLower v = ''true'' then ret (True, None) else ret (False, None)
          | None \<Rightarrow> ret (False, None)) }"

section \<open>Which mover the catalog chooses\<close>

text \<open>The movers that claim the resource, in the order of the catalog.\<close>

fun candidates :: "('p \<Rightarrow> (gerror + 'p mover option) \<times> 'p) list \<Rightarrow> 'p \<Rightarrow> 'p mover list" where
  "candidates [] p = []"
| "candidates (b # bs) p =
     (case b p of
        (Inr (Some m), p') \<Rightarrow> m # candidates bs p'
      | (_, p') \<Rightarrow> candidates bs p')"

fun candidatesM ::
  "('p \<Rightarrow> ((gerror + 'p mover option) \<times> 'p) kube) list \<Rightarrow> 'p \<Rightarrow> trace \<Rightarrow> 'p mover list" where
  "candidatesM [] p tr = []"
| "candidatesM (b # bs) p tr =
     (case run_state (b p) tr of
        ((Inr (Some m), p'), tr') \<Rightarrow> m # candidatesM bs p' tr'
      | ((_, p'), tr') \<Rightarrow> candidatesM bs p' tr')"

lemma catalogLoop_candidates:
  "fst (catalogLoop bs dm p) =
     (case (case dm of None \<Rightarrow> [] | Some m \<Rightarrow> [m]) @ candidates bs p of
        [] \<Rightarrow> Inl ErrNoMoverFound
      | [m] \<Rightarrow> Inr m
      | _ \<Rightarrow> Inl ErrMultipleMoversFound)"
  by (induction bs arbitrary: dm p)
    (auto split: prod.splits sum.splits option.splits list.splits)

text \<open>The catalog returns a mover exactly when one registered builder claims the resource; with
  none it reports that a method must be specified, with two or more that only one can be
  supplied. Builders that fail count as not claiming it.\<close>

theorem GetSourceMoverFromCatalog_spec:
  "fst (GetSourceMoverFromCatalog catalog source privileged p) =
     (case candidates (map (\<lambda>b. bl_FromSource b source privileged) catalog) p of
        [] \<Rightarrow> Inl ErrNoMoverFound
      | [m] \<Rightarrow> Inr m
      | _ \<Rightarrow> Inl ErrMultipleMoversFound)"
  by (simp add: GetSourceMoverFromCatalog_def catalogLoop_candidates)

lemma catalogLoopM_candidates:
  "fst (fst (run_state (catalogLoopM bs dm p) tr)) =
     (case (case dm of None \<Rightarrow> [] | Some m \<Rightarrow> [m]) @ candidatesM bs p tr of
        [] \<Rightarrow> Inl ErrNoMoverFound
      | [m] \<Rightarrow> Inr m
      | _ \<Rightarrow> Inl ErrMultipleMoversFound)"
  by (induction bs arbitrary: dm p tr)
    (auto split: prod.splits sum.splits option.splits list.splits)

lemma GetDestinationMoverFromCatalog_spec:
  "fst (fst (run_state (GetDestinationMoverFromCatalog catalog destination privileged p) tr)) =
     (case candidatesM (map (\<lambda>b. bl_FromDestination b destination privileged) catalog) p tr of
        [] \<Rightarrow> Inl ErrNoMoverFound
      | [m] \<Rightarrow> Inr m
      | _ \<Rightarrow> Inl ErrMultipleMoversFound)"
  by (simp add: GetDestinationMoverFromCatalog_def catalogLoopM_candidates)

text \<open>The namespace is read once, and a mover is privileged only if the annotation says so.\<close>

lemma PrivilegedMoversOk_iff:
  "run_state (PrivilegedMoversOk cl namespace) tr =
     ((case k_get (nsC cl) tr ([], namespace) of
         Inl err \<Rightarrow> (False, Some err)
       | Inr ns \<Rightarrow> (map_option ToLower (map_of (om_annotations ns) PrivilegedMoversNamespaceAnnotation)
                      = Some ''true'', None)),
      CGet KNamespace ([], namespace) # tr)"
  by (auto simp: PrivilegedMoversOk_def kube_ops split: sum.splits option.splits)

lemma emits_PrivilegedMoversOk [emits_rules]:
  "P (CGet KNamespace ([], namespace)) \<Longrightarrow> (\<And>a. Q a) \<Longrightarrow> emits P (PrivilegedMoversOk cl namespace) Q"
  by (rule emitsI, subst PrivilegedMoversOk_iff) (auto intro: exI[of _ "[_]"])

end
