(* ===== verification/Machine_Laws.thy ===== *)
theory Machine_Laws
  imports State_Machine
begin

text \<open>
  The contract of \<open>ReplicationMachine\<close> and what the state machine guarantees to every
  implementation of it. The locale \<open>replication_machine\<close> fixes an implementation, a view of its
  state (\<open>sview\<close>: the fields the state machine works on) and an invariant, and assumes that the
  getters read the view, the setters write it, and the mover operations and the clock leave it
  alone. Its lemmas describe each function of \<open>machine.go\<close> on the view; the abstract
  specification is \<open>phase_step\<close>, the life cycle of a replication.
\<close>

section \<open>The abstract view\<close>

record sview =
  v_cron :: string
  v_manual :: string
  v_lastManual :: string
  v_next :: "gtime option"
  v_start :: "gtime option"
  v_last :: "gtime option"
  v_duration :: "duration option"
  v_conds :: "condition list"
  v_outOfSync :: "bool option"
  v_missed :: nat
  v_observed :: "duration list"

definition v_trigger :: "sview \<Rightarrow> triggerType" where
  "v_trigger v = (if v_manual v \<noteq> [] then ManualTrigger
     else if v_cron v \<noteq> [] then ScheduleTrigger else NoTrigger)"

definition phase :: "sview \<Rightarrow> replicationState" where
  "phase v = (if IsZero (v_start v) then
      (if IsZero (v_last v) then InitialState else CleaningUpState) else SynchronizingState)"

text \<open>
  The life cycle: a new replication starts synchronizing; a synchronization goes on or ends in
  cleanup; cleanup goes on (or idles) or starts the next synchronization.
\<close>

inductive phase_step :: "replicationState \<Rightarrow> replicationState \<Rightarrow> bool" where
  begin_first: "phase_step InitialState SynchronizingState"
| keep_syncing: "phase_step SynchronizingState SynchronizingState"
| finish: "phase_step SynchronizingState CleaningUpState"
| stay_clean: "phase_step CleaningUpState CleaningUpState"
| begin_next: "phase_step CleaningUpState SynchronizingState"

inductive_cases phase_step_from_Initial: "phase_step InitialState p"
inductive_simps phase_step_to_Initial: "phase_step p InitialState"

code_pred phase_step .

definition condIs :: "condition list \<Rightarrow> conditionStatus \<Rightarrow> string \<Rightarrow> bool" where
  "condIs cs st reason = (case find (\<lambda>d. co_type d = ConditionSynchronizing) cs of
     None \<Rightarrow> False | Some c \<Rightarrow> co_status c = st \<and> co_reason c = reason)"

lemma condIs_set:
  "setStatusCondition_documented f \<Longrightarrow> condIs (f cs (syncCondition st reason msg)) st' reason' \<longleftrightarrow>
     st' = st \<and> reason' = reason"
  unfolding setStatusCondition_documented_def condIs_def
  by (drule spec[of _ cs], drule spec[of _ "syncCondition st reason msg"])
    (auto simp: syncCondition_def)

text \<open>What \<open>updateNextSyncStartTime\<close> makes of the next synchronization time, or the parse error.\<close>

definition nextTime :: "'m smenv \<Rightarrow> sview \<Rightarrow> gerror + gtime option" where
  "nextTime e v =
     (if v_trigger v = ScheduleTrigger
      then (case getSchedule e (v_cron v) of
              Inl err \<Rightarrow> Inl err
            | Inr sched \<Rightarrow> Inr (Some (sched (the (v_last v)))))
      else Inr None)"

text \<open>The schedule, if there is one, parses.\<close>

definition schedule_ok :: "'m smenv \<Rightarrow> sview \<Rightarrow> bool" where
  "schedule_ok e v \<longleftrightarrow> (v_trigger v = ScheduleTrigger \<longrightarrow> (\<exists>s. getSchedule e (v_cron v) = Inr s))"

lemma schedule_ok_frame [simp]:
  "schedule_ok e (v\<lparr>v_outOfSync := b\<rparr>) = schedule_ok e v" "schedule_ok e (v\<lparr>v_start := b1\<rparr>) = schedule_ok e v"
  "schedule_ok e (v\<lparr>v_conds := cs\<rparr>) = schedule_ok e v" "schedule_ok e (v\<lparr>v_last := l\<rparr>) = schedule_ok e v"
  by (simp_all add: schedule_ok_def v_trigger_def)

lemma nextTime_ok: "schedule_ok e v \<Longrightarrow> \<exists>nx. nextTime e v = Inr nx"
  by (auto simp: schedule_ok_def nextTime_def)

text \<open>The view right after a synchronization that started at \<open>s\<close> ended at \<open>t\<close>.\<close>

definition finished ::
  "'m smenv \<Rightarrow> sview \<Rightarrow> gtime \<Rightarrow> gtime \<Rightarrow> nat \<Rightarrow> gtime option \<Rightarrow> sview" where
  "finished e v s t n nx = v\<lparr>v_missed := n, v_last := Some t, v_duration := Some (time_Sub t s),
     v_observed := time_Sub t s # v_observed v, v_next := nx, v_lastManual := v_manual v,
     v_start := None, v_conds := se_setStatusCondition e (v_conds v)
       (syncCondition ConditionFalse SynchronizingReasonCleanup ''Cleanup in-progress'')\<rparr>"

text \<open>The view with the Synchronizing condition set, after a start, and while idle.\<close>

definition withCond :: "'m smenv \<Rightarrow> conditionStatus \<Rightarrow> string \<Rightarrow> string \<Rightarrow> sview \<Rightarrow> sview" where
  "withCond e st reason msg v =
     v\<lparr>v_conds := se_setStatusCondition e (v_conds v) (syncCondition st reason msg)\<rparr>"

definition started :: "'m smenv \<Rightarrow> gtime \<Rightarrow> sview \<Rightarrow> sview" where
  "started e t v = withCond e ConditionTrue SynchronizingReasonSync ''Synchronization in-progress''
     (v\<lparr>v_start := Some t\<rparr>)"

definition idle :: "'m smenv \<Rightarrow> sview \<Rightarrow> sview" where
  "idle e v =
     (if v_trigger v = ScheduleTrigger
      then withCond e ConditionFalse SynchronizingReasonSched
             ''Waiting for next scheduled synchronization'' v
      else withCond e ConditionFalse SynchronizingReasonManual ''Waiting for manual trigger'' v)"

definition fires :: "sview \<Rightarrow> gtime option \<Rightarrow> gtime \<Rightarrow> bool" where
  "fires v nx t = (case v_trigger v of
     NoTrigger \<Rightarrow> True
   | ManualTrigger \<Rightarrow> v_manual v \<noteq> v_lastManual v
   | ScheduleTrigger \<Rightarrow> the nx < t)"

text \<open>A time the clock of the environment can show.\<close>

definition clock_time :: "'m smenv \<Rightarrow> gtime \<Rightarrow> bool" where
  "clock_time e t \<longleftrightarrow> (\<exists>m. t = fst (run_state (se_now e) m))"

text \<open>
  The decision at the end of a cleanup, on the readings \<open>t\<close> (of \<open>shouldSync\<close>) and \<open>t'\<close> (of the
  transition or of \<open>timeToNextSync\<close>) of the clock: start again, or idle until the next time.
\<close>

definition decided ::
  "'m smenv \<Rightarrow> sview \<Rightarrow> gtime option \<Rightarrow> gtime \<Rightarrow> gtime \<Rightarrow> ctrlResult \<Rightarrow> sview \<Rightarrow> bool" where
  "decided e v nx t t' res v' \<longleftrightarrow> clock_time e t \<and> clock_time e t' \<and>
     (if fires v nx t then v' = started e t' (v\<lparr>v_next := nx\<rparr>)
      else v' = idle e (v\<lparr>v_next := nx\<rparr>) \<and>
        res = (if IsZero nx then emptyResult
               else \<lparr>cr_requeue = False, cr_requeueAfter = time_Sub (the nx) t'\<rparr>))"

section \<open>The contract\<close>

locale replication_machine =
  fixes e :: "'m smenv" and r :: "'m machine" and view :: "'m \<Rightarrow> sview" and inv :: "'m \<Rightarrow> bool"
  assumes get_cron: "inv m \<Longrightarrow> Cronspec r m = v_cron (view m)"
    and get_manual: "inv m \<Longrightarrow> ManualTag r m = v_manual (view m)"
    and get_lastManual: "inv m \<Longrightarrow> LastManualTag r m = v_lastManual (view m)"
    and get_next: "inv m \<Longrightarrow> NextSyncTime r m = v_next (view m)"
    and get_start: "inv m \<Longrightarrow> LastSyncStartTime r m = v_start (view m)"
    and get_last: "inv m \<Longrightarrow> LastSyncTime r m = v_last (view m)"
    and get_conds: "inv m \<Longrightarrow> Conditions r m = v_conds (view m)"
    and set_lastManual: "inv m \<Longrightarrow> view (SetLastManualTag r s m) = (view m)\<lparr>v_lastManual := s\<rparr>"
    and set_next: "inv m \<Longrightarrow> view (SetNextSyncTime r t m) = (view m)\<lparr>v_next := t\<rparr>"
    and set_start: "inv m \<Longrightarrow> view (SetLastSyncStartTime r t m) = (view m)\<lparr>v_start := t\<rparr>"
    and set_last: "inv m \<Longrightarrow> view (SetLastSyncTime r t m) = (view m)\<lparr>v_last := t\<rparr>"
    and set_duration: "inv m \<Longrightarrow> view (SetLastSyncDuration r d m) = (view m)\<lparr>v_duration := d\<rparr>"
    and set_conds: "inv m \<Longrightarrow> view (SetConditions r cs m) = (view m)\<lparr>v_conds := cs\<rparr>"
    and set_oos: "inv m \<Longrightarrow> view (SetOutOfSync r b m) = (view m)\<lparr>v_outOfSync := Some b\<rparr>"
    and inc_missed: "inv m \<Longrightarrow> view (IncMissedIntervals r m) = (view m)\<lparr>v_missed := Suc (v_missed (view m))\<rparr>"
    and observe: "inv m \<Longrightarrow> view (ObserveSyncDuration r d' m) = (view m)\<lparr>v_observed := d' # v_observed (view m)\<rparr>"
    and inv_setters: "inv m \<Longrightarrow> inv (SetLastManualTag r s m)" "inv m \<Longrightarrow> inv (SetNextSyncTime r t m)"
      "inv m \<Longrightarrow> inv (SetLastSyncStartTime r t m)" "inv m \<Longrightarrow> inv (SetLastSyncTime r t m)"
      "inv m \<Longrightarrow> inv (SetLastSyncDuration r d m)" "inv m \<Longrightarrow> inv (SetConditions r cs m)"
      "inv m \<Longrightarrow> inv (SetOutOfSync r b m)" "inv m \<Longrightarrow> inv (IncMissedIntervals r m)"
      "inv m \<Longrightarrow> inv (ObserveSyncDuration r d' m)"
    and now_keeps: "inv m \<Longrightarrow> view (snd (run_state (se_now e) m)) = view m"
      "inv m \<Longrightarrow> inv (snd (run_state (se_now e) m))"
    and sync_keeps: "inv m \<Longrightarrow> view (snd (run_state (Synchronize r) m)) = view m"
      "inv m \<Longrightarrow> inv (snd (run_state (Synchronize r) m))"
    and cleanup_keeps: "inv m \<Longrightarrow> view (snd (run_state (Cleanup r) m)) = view m"
      "inv m \<Longrightarrow> inv (snd (run_state (Cleanup r) m))"
begin

lemmas getters = get_cron get_manual get_lastManual get_next get_start get_last get_conds
lemmas setters = set_lastManual set_next set_start set_last set_duration set_conds set_oos
  inc_missed observe inv_setters

lemma trigger_view: "inv m \<Longrightarrow> getTrigger r m = v_trigger (view m)"
  by (simp add: getTrigger_def v_trigger_def getters)

lemma state_view: "inv m \<Longrightarrow> currentState r m = phase (view m)"
  by (simp add: currentState_def phase_def getters)

text \<open>Reading the clock, running the mover: the view stays.\<close>

lemma nowE:
  assumes "inv m"
  obtains t m' where "run_state (se_now e) m = (t, m')" "view m' = view m" "inv m'"
    "fst (run_state (se_now e) m) = t"
  using now_keeps[OF assms] by (metis prod.collapse)

lemma syncE:
  assumes "inv m"
  obtains out m' where "run_state (Synchronize r) m = (out, m')" "view m' = view m" "inv m'"
  using sync_keeps[OF assms] by (metis prod.collapse)

lemma cleanupE:
  assumes "inv m"
  obtains out m' where "run_state (Cleanup r) m = (out, m')" "view m' = view m" "inv m'"
  using cleanup_keeps[OF assms] by (metis prod.collapse)

text \<open>The condition setters.\<close>

lemma setCondition_view:
  assumes "inv m"
  shows "\<exists>m'. run_state (setCondition e r c) m = ((), m') \<and> inv m' \<and>
    view m' = (view m)\<lparr>v_conds := se_setStatusCondition e (v_conds (view m)) c\<rparr>"
  using assms by (simp add: setCondition_def getters setters)

lemma setConditionE:
  assumes "inv m"
  obtains m' where "run_state (setCondition e r c) m = ((), m')" "inv m'"
    "view m' = (view m)\<lparr>v_conds := se_setStatusCondition e (v_conds (view m)) c\<rparr>"
  using setCondition_view[OF assms] by blast

section \<open>The functions of machine.go on the view\<close>

lemma missedDeadlineE:
  assumes "inv m"
  obtains missed err m' where "run_state (missedDeadline e r) m = ((missed, err), m')"
    "view m' = view m" "inv m'"
    "err \<noteq> None \<Longrightarrow> v_trigger (view m) = ScheduleTrigger \<and> \<not> missed"
    "v_trigger (view m) \<noteq> ScheduleTrigger \<Longrightarrow> \<not> missed"
proof -
  obtain t m1 where 1: "run_state (se_now e) m = (t, m1)" "view m1 = view m" "inv m1"
    using assms by (rule nowE)
  show thesis
  proof (cases "v_trigger (view m) = ScheduleTrigger \<and> \<not> IsZero (v_last (view m))")
    case False
    with assms have "run_state (missedDeadline e r) m = ((False, None), m)"
      by (auto simp: missedDeadline_def trigger_view getters)
    with assms show thesis using that[of False None m] by auto
  next
    case True
    show thesis
    proof (cases "getSchedule e (v_cron (view m))")
      case (Inl err)
      with True assms have "run_state (missedDeadline e r) m = ((False, Some err), m)"
        by (simp add: missedDeadline_def trigger_view getters)
      with assms True show thesis using that[of False "Some err" m] by auto
    next
      case (Inr sched)
      with True assms 1 have "run_state (missedDeadline e r) m =
          ((pastScheduleDeadline sched (the (v_last (view m))) t, None), m1)"
        by (simp add: missedDeadline_def trigger_view getters)
      with 1 True show thesis using that[of _ None m1] by auto
    qed
  qed
qed

lemma missedDeadline_ok:
  assumes "inv m" "schedule_ok e (view m)"
  shows "snd (fst (run_state (missedDeadline e r) m)) = None"
  using assms by (auto simp: missedDeadline_def schedule_ok_def trigger_view getters split: prod.splits sum.splits)

lemma updateNext_view:
  assumes "inv m" and "v_last (view m) \<noteq> None"
  shows "\<exists>m'. run_state (updateNextSyncStartTime e r) m =
      (Ret (case nextTime e (view m) of Inl err \<Rightarrow> Some err | Inr _ \<Rightarrow> None), m') \<and> inv m' \<and>
      view m' = (case nextTime e (view m) of Inl _ \<Rightarrow> view m | Inr t \<Rightarrow> (view m)\<lparr>v_next := t\<rparr>)"
  using assms
  by (auto simp: updateNextSyncStartTime_def trigger_view getters setters nextTime_def
      split: triggerType.splits sum.splits option.splits)

lemma toSynchronizing_view:
  assumes "inv m"
  shows "\<exists>m' t. run_state (transitionToSynchronizing e r) m = (None, m') \<and> inv m' \<and>
    t = fst (run_state (se_now e) m) \<and>
    view m' = (view m)\<lparr>v_start := Some t,
      v_conds := se_setStatusCondition e (v_conds (view m))
        (syncCondition ConditionTrue SynchronizingReasonSync ''Synchronization in-progress'')\<rparr>"
proof -
  obtain t m1 where 1: "run_state (se_now e) m = (t, m1)" "view m1 = view m" "inv m1"
    "fst (run_state (se_now e) m) = t"
    using assms by (rule nowE)
  have "inv (SetLastSyncStartTime r (Some t) m1)" using 1 by (simp add: setters)
  then obtain m2 where "run_state (setConditionSyncing e r) (SetLastSyncStartTime r (Some t) m1) = ((), m2)"
    "inv m2" "view m2 = (view (SetLastSyncStartTime r (Some t) m1))\<lparr>v_conds := se_setStatusCondition e
        (v_conds (view (SetLastSyncStartTime r (Some t) m1)))
        (syncCondition ConditionTrue SynchronizingReasonSync ''Synchronization in-progress'')\<rparr>"
    unfolding setConditionSyncing_def by (rule setConditionE)
  with 1 show ?thesis by (auto simp: transitionToSynchronizing_def setters)
qed

text \<open>
  Ending a synchronization: either the schedule does not parse and the machine stays in its phase,
  or the view becomes \<open>finished\<close>.
\<close>

lemma toCleaningUp_view:
  assumes inv: "inv m" and start: "v_start (view m) = Some s"
  shows "\<exists>out m'. run_state (transitionToCleaningUp e r) m = (Ret out, m') \<and> inv m' \<and>
    (out \<noteq> None \<longrightarrow> v_start (view m') = Some s \<and> \<not> schedule_ok e (view m)) \<and>
    (out = None \<longrightarrow> (\<exists>t n nx. clock_time e t \<and> nextTime e ((view m)\<lparr>v_last := Some t\<rparr>) = Inr nx \<and>
        n \<in> {v_missed (view m), Suc (v_missed (view m))} \<and>
        view m' = finished e (view m) s t n nx))"
proof -
  obtain missed err m1 where 1: "run_state (missedDeadline e r) m = ((missed, err), m1)"
    "view m1 = view m" "inv m1"
    using inv by (rule missedDeadlineE)
  show ?thesis
  proof (cases err)
    case (Some x)
    with 1 start missedDeadline_ok[OF inv] show ?thesis by (auto simp: transitionToCleaningUp_def)
  next
    case None
    define m2 where "m2 = (if missed then IncMissedIntervals r m1 else m1)"
    define n where "n = (if missed then Suc (v_missed (view m)) else v_missed (view m))"
    have 2: "inv m2" "view m2 = (view m)\<lparr>v_missed := n\<rparr>"
      using 1 by (simp_all add: m2_def n_def setters)
    obtain t m3 where 3: "run_state (se_now e) m2 = (t, m3)" "view m3 = view m2" "inv m3"
      using 2(1) by (rule nowE)
    define m4 where "m4 = ObserveSyncDuration r (time_Sub t s)
      (SetLastSyncDuration r (Some (time_Sub t s)) (SetLastSyncTime r (Some t) m3))"
    have 4: "inv m4" "view m4 = (view m)\<lparr>v_missed := n, v_last := Some t,
        v_duration := Some (time_Sub t s), v_observed := time_Sub t s # v_observed (view m)\<rparr>"
      using 2 3 by (simp_all add: m4_def setters)
    have st: "LastSyncStartTime r (SetLastSyncTime r (Some t) m3) = Some s"
      using 2 3 start by (simp add: getters setters)
    have nx: "nextTime e (view m4) = nextTime e ((view m)\<lparr>v_last := Some t\<rparr>)"
      by (simp add: 4 nextTime_def v_trigger_def split: sum.splits)
    obtain m5 where 5: "run_state (updateNextSyncStartTime e r) m4 =
        (Ret (case nextTime e (view m4) of Inl err \<Rightarrow> Some err | Inr _ \<Rightarrow> None), m5)" "inv m5"
      "view m5 = (case nextTime e (view m4) of Inl _ \<Rightarrow> view m4 | Inr t \<Rightarrow> (view m4)\<lparr>v_next := t\<rparr>)"
      using updateNext_view[OF 4(1)] 4(2) by auto
    have run: "run_state (transitionToCleaningUp e r) m =
      (case nextTime e (view m4) of
         Inl x \<Rightarrow> (Ret (Some x), m5)
       | Inr _ \<Rightarrow> (Ret None, snd (run_state (setConditionCleanup e r)
            (SetLastSyncStartTime r None (SetLastManualTag r (ManualTag r m5) m5)))))"
      using 1 None 3 5(1) st
      by (cases missed; cases "nextTime e (view m4)")
        (simp_all add: transitionToCleaningUp_def m4_def m2_def setCondition_defs)
    show ?thesis
    proof (cases "nextTime e (view m4)")
      case (Inl x)
      then have "\<not> schedule_ok e (view m)"
        using nx nextTime_ok[of e "(view m)\<lparr>v_last := Some t\<rparr>"] by auto
      with Inl run 5 4 start show ?thesis by simp
    next
      case (Inr nxt)
      let ?m6 = "SetLastSyncStartTime r None (SetLastManualTag r (ManualTag r m5) m5)"
      have 6: "inv ?m6" using 5 by (simp add: setters)
      obtain m7 where 7: "run_state (setConditionCleanup e r) ?m6 = ((), m7)" "inv m7"
        "view m7 = (view ?m6)\<lparr>v_conds := se_setStatusCondition e (v_conds (view ?m6))
          (syncCondition ConditionFalse SynchronizingReasonCleanup ''Cleanup in-progress'')\<rparr>"
        using 6 unfolding setConditionCleanup_def by (rule setConditionE)
      have "view m7 = finished e (view m) s t n nxt"
        using 7(3) 5 4 Inr by (simp add: setters getters finished_def)
      moreover have "run_state (transitionToCleaningUp e r) m = (Ret None, m7)"
        using run 7(1) Inr by simp
      moreover have "n \<in> {v_missed (view m), Suc (v_missed (view m))}" by (simp add: n_def)
      moreover have "clock_time e t" unfolding clock_time_def using 3(1) by (metis fst_conv)
      ultimately show ?thesis using 7(2) Inr nx by metis
    qed
  qed
qed

lemma withCondE:
  assumes "inv m"
  obtains m' where "run_state (setCondition e r (syncCondition st reason msg)) m = ((), m')" "inv m'"
    "view m' = withCond e st reason msg (view m)"
  using setCondition_view[OF assms] by (auto simp: withCond_def)

lemma shouldSyncE:
  assumes "inv m" and "v_trigger (view m) = ScheduleTrigger \<Longrightarrow> v_next (view m) \<noteq> None"
  obtains b m' where "run_state (shouldSync e r) m = (Ret b, m')" "inv m'" "view m' = view m"
    "v_trigger (view m) = ManualTrigger \<Longrightarrow> b = (v_manual (view m) \<noteq> v_lastManual (view m))"
    "v_trigger (view m) = NoTrigger \<Longrightarrow> b"
    "v_trigger (view m) = ScheduleTrigger \<Longrightarrow>
       b = (the (v_next (view m)) < fst (run_state (se_now e) m))"
proof -
  obtain t m1 where 1: "run_state (se_now e) m = (t, m1)" "view m1 = view m" "inv m1"
    using assms(1) by (rule nowE)
  show thesis
  proof (cases "v_trigger (view m)")
    case ScheduleTrigger
    with assms(2) obtain nx where nx: "v_next (view m) = Some nx" by auto
    have run: "run_state (shouldSync e r) m = (Ret (nx < t), m1)"
      using ScheduleTrigger assms(1) 1 nx
      by (simp add: shouldSync_def trigger_view getters time_After_def)
    show thesis by (rule that[OF run]) (use ScheduleTrigger 1 nx in auto)
  next
    case ManualTrigger
    have run: "run_state (shouldSync e r) m = (Ret (v_manual (view m) \<noteq> v_lastManual (view m)), m)"
      using ManualTrigger assms(1) by (simp add: shouldSync_def trigger_view getters)
    show thesis by (rule that[OF run]) (use ManualTrigger assms(1) in auto)
  next
    case NoTrigger
    have run: "run_state (shouldSync e r) m = (Ret True, m)"
      using NoTrigger assms(1) by (simp add: shouldSync_def trigger_view)
    show thesis by (rule that[OF run]) (use NoTrigger assms(1) in auto)
  qed
qed

lemma timeToNextE:
  assumes "inv m"
  obtains d m' where "run_state (timeToNextSync e r) m = (d, m')" "inv m'" "view m' = view m"
    "d = (if IsZero (v_next (view m)) then None
          else Some (time_Sub (the (v_next (view m))) (fst (run_state (se_now e) m))))"
proof -
  obtain t m1 where 1: "run_state (se_now e) m = (t, m1)" "view m1 = view m" "inv m1"
    using assms by (rule nowE)
  show thesis
  proof (cases "IsZero (v_next (view m))")
    case True
    then have run: "run_state (timeToNextSync e r) m = (None, m)"
      using assms by (auto simp: timeToNextSync_def getters split: option.splits)
    show thesis by (rule that[OF run]) (use True assms in auto)
  next
    case False
    then obtain nx where nx: "v_next (view m) = Some nx" "nx \<noteq> 0" by (cases "v_next (view m)") auto
    then have run: "run_state (timeToNextSync e r) m = (Some (time_Sub nx t), m1)"
      using assms 1 by (simp add: timeToNextSync_def getters)
    show thesis by (rule that[OF run]) (use False 1 nx in auto)
  qed
qed

lemma doCleanupIdle_view:
  assumes "inv m"
  shows "\<exists>m1 m'. run_state (doCleanupIdle e r) m =
      (Ret (if IsZero (v_next (view m)) then emptyResult
            else \<lparr>cr_requeue = False,
              cr_requeueAfter = time_Sub (the (v_next (view m))) (fst (run_state (se_now e) m1))\<rparr>,
            None), m') \<and>
    inv m' \<and> view m' = idle e (view m)"
proof -
  let ?set = "if v_trigger (view m) = ScheduleTrigger then setConditionScheduled e r
     else setConditionManual e r"
  obtain m1 where 1: "run_state ?set m = ((), m1)" "inv m1" "view m1 = idle e (view m)"
    using assms unfolding idle_def setConditionScheduled_def setConditionManual_def
    by (cases "v_trigger (view m) = ScheduleTrigger") (auto elim: withCondE)
  have same: "v_next (idle e (view m)) = v_next (view m)" by (simp add: idle_def withCond_def)
  obtain d m2 where 2: "run_state (timeToNextSync e r) m1 = (d, m2)" "inv m2" "view m2 = view m1"
    "d = (if IsZero (v_next (view m1)) then None
          else Some (time_Sub (the (v_next (view m1))) (fst (run_state (se_now e) m1))))"
    using 1(2) by (rule timeToNextE)
  show ?thesis
    by (rule exI[of _ m1], rule exI[of _ m2])
      (use 1 2 assms same in \<open>simp add: doCleanupIdle_def trigger_view\<close>)
qed

text \<open>
  A synchronization phase: the mover's panic is passed on; an error leaves the phase; otherwise it
  goes on, or it is finished.
\<close>

lemma doSynchronizing_view:
  assumes inv: "inv m" and start: "v_start (view m) = Some s"
  shows "\<exists>out m'. run_state (doSynchronizingState e r) m = (out, m') \<and> inv m' \<and>
    (case out of
       Panic \<Rightarrow> fst (run_state (Synchronize r) m) = Panic
     | Ret (res, Some x) \<Rightarrow> v_start (view m') = Some s \<and>
         ((\<exists>mr. fst (run_state (Synchronize r) m) = Ret (mr, Some x)) \<or> \<not> schedule_ok e (view m))
     | Ret (res, None) \<Rightarrow> (\<exists>mr. fst (run_state (Synchronize r) m) = Ret (mr, None) \<and>
         res = ReconcileResult mr \<and>
         (if mr_completed mr
          then \<exists>t n nx. clock_time e t \<and> nextTime e ((view m)\<lparr>v_last := Some t\<rparr>) = Inr nx \<and>
            n \<in> {v_missed (view m), Suc (v_missed (view m))} \<and>
            view m' = finished e ((view m)\<lparr>v_outOfSync := Some False\<rparr>) s t n nx
          else view m' = withCond e ConditionTrue SynchronizingReasonSync
            ''Synchronization in-progress'' (view m))))"
proof -
  obtain out m1 where 1: "run_state (Synchronize r) m = (out, m1)" "view m1 = view m" "inv m1"
    using inv by (rule syncE)
  consider "out = Panic" | res x where "out = Ret (res, Some x)"
    | res where "out = Ret (res, None)" "\<not> mr_completed res"
    | res where "out = Ret (res, None)" "mr_completed res"
    by (metis go.exhaust option.exhaust surj_pair)
  then show ?thesis
  proof cases
    case 1
    with \<open>run_state (Synchronize r) m = (out, m1)\<close> \<open>inv m1\<close> show ?thesis
      by (simp add: doSynchronizingState_def)
  next
    case (2 res x)
    with 1 start show ?thesis by (simp add: doSynchronizingState_def)
  next
    case (3 res)
    obtain m2 where "run_state (setConditionSyncing e r) m1 = ((), m2)" "inv m2"
      "view m2 = withCond e ConditionTrue SynchronizingReasonSync ''Synchronization in-progress'' (view m1)"
      using \<open>inv m1\<close> unfolding setConditionSyncing_def by (rule withCondE)
    with 3 1 show ?thesis by (simp add: doSynchronizingState_def)
  next
    case (4 res)
    let ?m2 = "SetOutOfSync r False m1"
    have 2: "inv ?m2" "view ?m2 = (view m)\<lparr>v_outOfSync := Some False\<rparr>" using 1 by (simp_all add: setters)
    have nx: "nextTime e (v\<lparr>v_outOfSync := b, v_last := l\<rparr>) = nextTime e (v\<lparr>v_last := l\<rparr>)" for v b l
      by (simp add: nextTime_def v_trigger_def split: sum.splits)
    obtain u m3 where 3: "run_state (transitionToCleaningUp e r) ?m2 = (Ret u, m3)" "inv m3"
      "u \<noteq> None \<longrightarrow> v_start (view m3) = Some s \<and> \<not> schedule_ok e (view m)"
      "u = None \<longrightarrow> (\<exists>t n nx. clock_time e t \<and> nextTime e ((view m)\<lparr>v_last := Some t\<rparr>) = Inr nx \<and>
        n \<in> {v_missed (view m), Suc (v_missed (view m))} \<and>
        view m3 = finished e ((view m)\<lparr>v_outOfSync := Some False\<rparr>) s t n nx)"
      using toCleaningUp_view[OF 2(1), of s] start unfolding 2 nx by simp blast
    with 4 1 show ?thesis by (cases u) (simp_all add: doSynchronizingState_def)
  qed
qed

text \<open>
  A cleanup phase. \<open>fires\<close> is the decision to start again: always without a trigger, on a new
  manual tag, or when a clock reading is past the scheduled time.
\<close>

lemma doCleanupDecide_view:
  assumes inv: "inv m" and v: "view m = v\<lparr>v_next := nx\<rparr>" and nx: "nextTime e v = Inr nx"
  shows "\<exists>t t' res m'. run_state (doCleanupDecide e r mr) m = (Ret (res, None), m') \<and> inv m' \<and>
    decided e v nx t t' res (view m')"
proof -
  have trig: "v_trigger (view m) = v_trigger v" by (simp add: v v_trigger_def)
  have sched: "v_trigger (view m) = ScheduleTrigger \<Longrightarrow> v_next (view m) \<noteq> None"
    using nx by (auto simp: v v_trigger_def nextTime_def split: if_splits sum.splits)
  obtain b m3 where 3: "run_state (shouldSync e r) m = (Ret b, m3)" "inv m3" "view m3 = view m"
    "v_trigger (view m) = ManualTrigger \<Longrightarrow> b = (v_manual (view m) \<noteq> v_lastManual (view m))"
    "v_trigger (view m) = NoTrigger \<Longrightarrow> b"
    "v_trigger (view m) = ScheduleTrigger \<Longrightarrow>
       b = (the (v_next (view m)) < fst (run_state (se_now e) m))"
    using shouldSyncE[OF inv sched] by metis
  have fires: "b = fires v nx (fst (run_state (se_now e) m))"
    using 3(4-6) trig by (cases "v_trigger v") (simp_all add: fires_def v)
  show ?thesis
  proof (cases b)
    case True
    obtain m4 t' where 4: "run_state (transitionToSynchronizing e r) m3 = (None, m4)" "inv m4"
      "t' = fst (run_state (se_now e) m3)" "view m4 = started e t' (v\<lparr>v_next := nx\<rparr>)"
      using toSynchronizing_view[OF 3(2)] by (auto simp: started_def withCond_def 3(3) v)
    have "run_state (doCleanupDecide e r mr) m = (Ret (ReconcileResult mr, None), m4)"
      using 3(1) 4(1) True by (simp add: doCleanupDecide_def)
    moreover have "decided e v nx (fst (run_state (se_now e) m)) t' (ReconcileResult mr) (view m4)"
      using fires True 4 by (auto simp: decided_def clock_time_def)
    ultimately show ?thesis using 4(2) by blast
  next
    case False
    have nxt: "v_next (v\<lparr>v_next := nx\<rparr>) = nx" by simp
    obtain m0 m4 where 4: "run_state (doCleanupIdle e r) m3 =
      (Ret (if IsZero nx then emptyResult
        else \<lparr>cr_requeue = False,
          cr_requeueAfter = time_Sub (the nx) (fst (run_state (se_now e) m0))\<rparr>, None), m4)"
      "inv m4" "view m4 = idle e (v\<lparr>v_next := nx\<rparr>)"
      using doCleanupIdle_view[OF 3(2)] unfolding 3(3) v nxt by blast
    have "run_state (doCleanupDecide e r mr) m = run_state (doCleanupIdle e r) m3"
      using 3(1) False by (simp add: doCleanupDecide_def)
    moreover have "decided e v nx (fst (run_state (se_now e) m)) (fst (run_state (se_now e) m0))
       (if IsZero nx then emptyResult else \<lparr>cr_requeue = False,
          cr_requeueAfter = time_Sub (the nx) (fst (run_state (se_now e) m0))\<rparr>) (view m4)"
      using fires False 4 by (auto simp: decided_def clock_time_def)
    ultimately show ?thesis using 4(1,2) by metis
  qed
qed

lemma doCleanup_view:
  assumes inv: "inv m" and last: "v_last (view m) = Some l"
  shows "\<exists>out m'. run_state (doCleanupState e r) m = (out, m') \<and> inv m' \<and>
    (case out of
       Panic \<Rightarrow> fst (run_state (Cleanup r) m) = Panic
     | Ret (res, Some x) \<Rightarrow> view m' = view m
     | Ret (res, None) \<Rightarrow> (\<exists>nx mr. nextTime e (view m) = Inr nx \<and>
         fst (run_state (Cleanup r) m) = Ret (mr, None) \<and>
         (if \<not> mr_completed mr then view m' = (view m)\<lparr>v_next := nx\<rparr> \<and> res = ReconcileResult mr
          else (\<exists>t t'. decided e (view m) nx t t' res (view m')))))"
proof -
  obtain out m1 where 1: "run_state (Cleanup r) m = (out, m1)" "view m1 = view m" "inv m1"
    using inv by (rule cleanupE)
  obtain m2 where 2: "run_state (updateNextSyncStartTime e r) m1 =
      (Ret (case nextTime e (view m) of Inl err \<Rightarrow> Some err | Inr _ \<Rightarrow> None), m2)" "inv m2"
    "view m2 = (case nextTime e (view m) of Inl _ \<Rightarrow> view m | Inr t \<Rightarrow> (view m)\<lparr>v_next := t\<rparr>)"
    using updateNext_view[OF 1(3)] last unfolding 1(2) by blast
  consider "out = Panic" | mr x where "out = Ret (mr, Some x)"
    | mr x where "out = Ret (mr, None)" "nextTime e (view m) = Inl x"
    | mr nx where "out = Ret (mr, None)" "nextTime e (view m) = Inr nx" "\<not> mr_completed mr"
    | mr nx where "out = Ret (mr, None)" "nextTime e (view m) = Inr nx" "mr_completed mr"
    by (metis go.exhaust option.exhaust surj_pair sum.exhaust)
  then show ?thesis
  proof cases
    case (5 mr nx)
    obtain t t' res m' where 3: "run_state (doCleanupDecide e r mr) m2 = (Ret (res, None), m')"
      "inv m'" "decided e (view m) nx t t' res (view m')"
      using doCleanupDecide_view[OF 2(2), where v = "view m" and nx = nx and mr = mr] 2(3) 5
      by auto
    have "run_state (doCleanupState e r) m = (Ret (res, None), m')"
      using 1 2 3(1) 5 by (simp add: doCleanupState_def)
    with 3 5 1 show ?thesis by auto
  qed (use 1 2 in \<open>simp_all add: doCleanupState_def\<close>)
qed

lemma checkOutOfSync_view:
  assumes "inv m"
  shows "\<exists>early m'. run_state (checkOutOfSync e r) m = (early, m') \<and> inv m' \<and>
    (case early of
       None \<Rightarrow> \<exists>b. view m' = (view m)\<lparr>v_outOfSync := b\<rparr>
     | Some x \<Rightarrow> view m' = withCond e ConditionFalse SynchronizingReasonError (errorMsg x) (view m) \<and>
         v_last (view m) \<noteq> None \<and> \<not> schedule_ok e (view m))"
proof (cases "v_last (view m)")
  case None
  with assms show ?thesis by (auto simp: checkOutOfSync_def getters setters)
next
  case (Some l)
  obtain missed err m1 where 1: "run_state (missedDeadline e r) m = ((missed, err), m1)"
    "view m1 = view m" "inv m1"
    using assms by (rule missedDeadlineE)
  have id: "view m = (view m)\<lparr>v_outOfSync := v_outOfSync (view m)\<rparr>" by simp
  show ?thesis
  proof (cases err)
    case (Some x)
    obtain m2 where 2: "run_state (setConditionError e r x) m1 = ((), m2)" "inv m2"
      "view m2 = withCond e ConditionFalse SynchronizingReasonError (errorMsg x) (view m1)"
      using 1(3) unfolding setConditionError_def by (rule withCondE)
    then have "run_state (checkOutOfSync e r) m = (Some x, m2)"
      using 1 Some assms \<open>v_last (view m) = Some l\<close> by (simp add: checkOutOfSync_def getters)
    with 1 2 \<open>v_last (view m) = Some l\<close> Some missedDeadline_ok[OF assms] show ?thesis by auto
  next
    case None
    let ?m2 = "if missed then SetOutOfSync r True m1 else m1"
    have "run_state (checkOutOfSync e r) m = (None, ?m2)"
      using 1 None assms \<open>v_last (view m) = Some l\<close> by (simp add: checkOutOfSync_def getters)
    moreover have "inv ?m2" using 1 by (simp add: setters)
    moreover have "\<exists>b. view ?m2 = (view m)\<lparr>v_outOfSync := b\<rparr>"
    proof (cases missed)
      case True
      with 1 show ?thesis by (auto simp: setters)
    next
      case False
      then have "view ?m2 = view m" using 1 by simp
      with id show ?thesis by metis
    qed
    ultimately show ?thesis by auto
  qed
qed

section \<open>Run\<close>

text \<open>
  \<open>Run\<close> is the early check, one phase function, and the error condition. The lemma splits a run
  into these parts; the guarantees below are read off it.
\<close>

lemma RunE:
  assumes inv: "inv m"
  obtains (early) x m' where
      "run_state (Run e r) m = (Ret (emptyResult, Some x), m')" "inv m'"
      "view m' = withCond e ConditionFalse SynchronizingReasonError (errorMsg x) (view m)"
      "v_last (view m) \<noteq> None" "\<not> schedule_ok e (view m)"
    | (main) b m1 out m2 m' where
      "inv m1" "view m1 = (view m)\<lparr>v_outOfSync := b\<rparr>"
      "run_state (case phase (view m) of InitialState \<Rightarrow> doInitialState e r
         | SynchronizingState \<Rightarrow> doSynchronizingState e r
         | CleaningUpState \<Rightarrow> doCleanupState e r) m1 = (out, m2)"
      "run_state (Run e r) m = (out, m')"
      "inv m2 \<Longrightarrow> inv m' \<and> view m' = (case out of
         Ret (_, Some x) \<Rightarrow> withCond e ConditionFalse SynchronizingReasonError (errorMsg x) (view m2)
       | _ \<Rightarrow> view m2)"
proof -
  obtain ea m1 where 1: "run_state (checkOutOfSync e r) m = (ea, m1)" "inv m1"
    "case ea of
       None \<Rightarrow> \<exists>b. view m1 = (view m)\<lparr>v_outOfSync := b\<rparr>
     | Some x \<Rightarrow> view m1 = withCond e ConditionFalse SynchronizingReasonError (errorMsg x) (view m) \<and>
         v_last (view m) \<noteq> None \<and> \<not> schedule_ok e (view m)"
    using checkOutOfSync_view[OF inv] by blast
  show thesis
  proof (cases ea)
    case (Some x)
    have "run_state (Run e r) m = (Ret (emptyResult, Some x), m1)"
      using 1 Some by (simp add: Run_def)
    then show thesis using early 1 Some by simp
  next
    case None
    then obtain b where b: "view m1 = (view m)\<lparr>v_outOfSync := b\<rparr>" using 1 by auto
    have st: "currentState r m1 = phase (view m)" by (simp add: state_view[OF 1(2)] b phase_def)
    obtain out m2 where 2: "run_state (case phase (view m) of InitialState \<Rightarrow> doInitialState e r
         | SynchronizingState \<Rightarrow> doSynchronizingState e r
         | CleaningUpState \<Rightarrow> doCleanupState e r) m1 = (out, m2)" by (metis surj_pair)
    define m' where "m' = (case out of Ret (_, Some x) \<Rightarrow> snd (run_state (setConditionError e r x) m2)
      | _ \<Rightarrow> m2)"
    have "run_state (Run e r) m = (out, m')"
      using 1 None 2 st by (auto simp: Run_def m'_def setCondition_defs split: go.splits option.splits)
    moreover have "inv m2 \<Longrightarrow> inv m' \<and> view m' = (case out of
         Ret (_, Some x) \<Rightarrow> withCond e ConditionFalse SynchronizingReasonError (errorMsg x) (view m2)
       | _ \<Rightarrow> view m2)"
      by (auto simp: m'_def setCondition_defs withCond_def getters setters split: go.splits option.splits)
    ultimately show thesis using main[OF 1(2) b 2] by blast
  qed
qed

lemma phase_SomeD:
  "phase v = SynchronizingState \<Longrightarrow> \<exists>s. v_start v = Some s \<and> s \<noteq> 0"
  "phase v = CleaningUpState \<Longrightarrow> \<exists>l. v_last v = Some l \<and> l \<noteq> 0"
  by (cases "v_start v"; cases "v_last v"; auto simp: phase_def split: if_splits)+

text \<open>Only the mover can panic.\<close>

lemma phase_run_inv:
  assumes "inv m1" "view m1 = (view m)\<lparr>v_outOfSync := b\<rparr>"
    and "run_state (case phase (view m) of InitialState \<Rightarrow> doInitialState e r
         | SynchronizingState \<Rightarrow> doSynchronizingState e r
         | CleaningUpState \<Rightarrow> doCleanupState e r) m1 = (out, m2)"
  shows "inv m2"
proof (cases "phase (view m)")
  case InitialState
  with assms(3) toSynchronizing_view[OF assms(1)] show ?thesis by (auto simp: doInitialState_def)
next
  case SynchronizingState
  then obtain s where "v_start (view m1) = Some s" using phase_SomeD(1) assms(2) by fastforce
  from doSynchronizing_view[OF assms(1) this] assms(3) SynchronizingState show ?thesis by auto
next
  case CleaningUpState
  then obtain l where "v_last (view m1) = Some l" using phase_SomeD(2) assms(2) by fastforce
  from doCleanup_view[OF assms(1) this] assms(3) CleaningUpState show ?thesis by auto
qed

lemma run_inv: "inv m \<Longrightarrow> inv (snd (run_state (Run e r) m))"
  by (erule RunE) (auto dest: phase_run_inv)

lemma run_state_view:
  assumes "inv m" "run_state (Run e r) m = (out, m')"
  shows "currentState r m = phase (view m)" "currentState r m' = phase (view m')"
  using state_view[OF assms(1)] state_view[OF run_inv[OF assms(1)]] assms(2) by auto

lemma run_no_panic:
  assumes "inv m"
    and "\<And>m. fst (run_state (Synchronize r) m) \<noteq> Panic"
    and "\<And>m. fst (run_state (Cleanup r) m) \<noteq> Panic"
  shows "fst (run_state (Run e r) m) \<noteq> Panic"
  using assms(1)
proof (cases rule: RunE)
  case early
  then show ?thesis by simp
next
  case (main b m1 out m2 m')
  have "out \<noteq> Panic"
  proof (cases "phase (view m)")
    case InitialState
    with main(3) toSynchronizing_view[OF main(1)] show ?thesis by (auto simp: doInitialState_def)
  next
    case SynchronizingState
    then obtain s where "v_start (view m1) = Some s" using phase_SomeD(1) main(2) by fastforce
    from doSynchronizing_view[OF main(1) this] main(3) SynchronizingState assms(2)
    show ?thesis by auto
  next
    case CleaningUpState
    then obtain l where "v_last (view m1) = Some l" using phase_SomeD(2) main(2) by fastforce
    from doCleanup_view[OF main(1) this] main(3) CleaningUpState assms(3) show ?thesis by auto
  qed
  with main show ?thesis by simp
qed

lemma v_of_withCond [simp]:
  "v_start (withCond e st re msg v) = v_start v" "v_last (withCond e st re msg v) = v_last v"
  "v_next (withCond e st re msg v) = v_next v"
  by (simp_all add: withCond_def)

lemma phase_withCond [simp]: "phase (withCond e st re msg v) = phase v"
  by (simp add: phase_def)

lemma phase_frame [simp]:
  "phase (v\<lparr>v_outOfSync := b\<rparr>) = phase v" "phase (v\<lparr>v_next := nx\<rparr>) = phase v"
  "phase (idle e v) = phase v"
  by (simp_all add: phase_def idle_def)

lemma phase_started: "t \<noteq> 0 \<Longrightarrow> phase (started e t v) = SynchronizingState"
  by (simp add: phase_def started_def)

lemma phase_finished: "t \<noteq> 0 \<Longrightarrow> phase (finished e v s t n nx) = CleaningUpState"
  by (simp add: phase_def finished_def)

text \<open>Every run that returns takes a step of the life cycle.\<close>

lemma nextTime_oos [simp]: "nextTime e (v\<lparr>v_outOfSync := b\<rparr>) = nextTime e v"
  by (simp add: nextTime_def v_trigger_def split: sum.splits)

lemma fires_oos [simp]: "fires (v\<lparr>v_outOfSync := b\<rparr>) nx t = fires v nx t"
  by (simp add: fires_def v_trigger_def split: triggerType.splits)

lemma run_initial:
  assumes "inv m" "phase (view m) = InitialState"
    and "run_state (Run e r) m = (Ret (res, None), m')"
  shows "\<exists>t b. clock_time e t \<and> view m' = started e t ((view m)\<lparr>v_outOfSync := b\<rparr>)"
  using assms(1)
proof (cases rule: RunE)
  case early
  with assms show ?thesis by simp
next
  case (main b m1 out m2 m'')
  obtain t where t: "t = fst (run_state (se_now e) m1)" "inv m2" "out = Ret (emptyResult, None)"
    "view m2 = started e t (view m1)"
    using toSynchronizing_view[OF main(1)] main(3) assms(2)
    by (auto simp: doInitialState_def started_def withCond_def)
  with main assms(3) show ?thesis by (auto simp: clock_time_def)
qed

lemma run_synchronizing:
  assumes "inv m" "v_start (view m) = Some s" "s \<noteq> 0"
    and "run_state (Run e r) m = (Ret (res, None), m')"
  shows "\<exists>mr m1 b. fst (run_state (Synchronize r) m1) = Ret (mr, None) \<and>
    view m1 = (view m)\<lparr>v_outOfSync := b\<rparr> \<and> res = ReconcileResult mr \<and>
    (if mr_completed mr
     then \<exists>t n nx. clock_time e t \<and> nextTime e ((view m)\<lparr>v_last := Some t\<rparr>) = Inr nx \<and>
       n \<in> {v_missed (view m), Suc (v_missed (view m))} \<and>
       view m' = finished e ((view m)\<lparr>v_outOfSync := Some False\<rparr>) s t n nx
     else view m' = withCond e ConditionTrue SynchronizingReasonSync
       ''Synchronization in-progress'' ((view m)\<lparr>v_outOfSync := b\<rparr>))"
  using assms(1)
proof (cases rule: RunE)
  case early
  with assms show ?thesis by simp
next
  case (main b m1 out m2 m'')
  have ph: "phase (view m) = SynchronizingState" using assms(2,3) by (simp add: phase_def)
  have st: "v_start (view m1) = Some s" using assms(2) main(2) by simp
  have out: "out = Ret (res, None)" "m'' = m'" using main(4) assms(4) by auto
  have nx: "nextTime e (v\<lparr>v_outOfSync := b, v_last := l\<rparr>) = nextTime e (v\<lparr>v_last := l\<rparr>)" for v b l
    by (simp add: nextTime_def v_trigger_def split: sum.splits)
  from doSynchronizing_view[OF main(1) st] main(3) ph out
  show ?thesis using main(2,5) by (fastforce simp: nx split: if_splits)
qed

lemma run_cleaningUp:
  assumes "inv m" "phase (view m) = CleaningUpState"
    and "run_state (Run e r) m = (Ret (res, None), m')"
  shows "\<exists>b nx mr m1. nextTime e (view m) = Inr nx \<and>
     fst (run_state (Cleanup r) m1) = Ret (mr, None) \<and>
     (if \<not> mr_completed mr then view m' = (view m)\<lparr>v_outOfSync := b, v_next := nx\<rparr> \<and> res = ReconcileResult mr
      else (\<exists>t t'. decided e ((view m)\<lparr>v_outOfSync := b\<rparr>) nx t t' res (view m')))"
  using assms(1)
proof (cases rule: RunE)
  case early
  with assms show ?thesis by simp
next
  case (main b m1 out m2 m'')
  obtain l where l: "v_last (view m1) = Some l" using phase_SomeD(2)[OF assms(2)] main(2) by auto
  have out: "out = Ret (res, None)" "m'' = m'" using main(4) assms(3) by auto
  obtain nx mr where "inv m2" "nextTime e (view m1) = Inr nx" "fst (run_state (Cleanup r) m1) = Ret (mr, None)"
    "if \<not> mr_completed mr then view m2 = (view m1)\<lparr>v_next := nx\<rparr> \<and> res = ReconcileResult mr
     else (\<exists>t t'. decided e (view m1) nx t t' res (view m2))"
    using doCleanup_view[OF main(1) l] main(3) assms(2) out by auto
  with main(2,5) out show ?thesis
    by (intro exI[of _ b] exI[of _ nx] exI[of _ mr] exI[of _ m1]) auto
qed

text \<open>A run that ends in an error stays in its phase and publishes the error.\<close>

lemma doCleanupDecide_no_error:
  "fst (run_state (doCleanupDecide e r mr) m) \<noteq> Ret (res, Some x)"
  by (auto simp: doCleanupDecide_def doCleanupIdle_def transitionToSynchronizing_def
      split: prod.splits go.splits option.splits bool.splits)

lemma doCleanupState_error:
  assumes "run_state (doCleanupState e r) m = (Ret (res, Some x), m')"
  shows "res = emptyResult"
proof -
  have "run_state (doCleanupDecide e r mr) m1 \<noteq> (Ret (res, Some x), m')" for mr m1
    using doCleanupDecide_no_error[of mr m1 res x] by auto
  with assms show ?thesis
    by (auto simp: doCleanupState_def split: prod.splits go.splits option.splits if_splits)
qed

lemma run_error:
  assumes "inv m" and "run_state (Run e r) m = (Ret (res, Some x), m')"
  shows "inv m' \<and> phase (view m') = phase (view m) \<and> res = emptyResult \<and>
    (\<exists>v. view m' = withCond e ConditionFalse SynchronizingReasonError (errorMsg x) v)"
  using assms(1)
proof (cases rule: RunE)
  case early
  with assms show ?thesis by (auto simp: phase_withCond)
next
  case (main b m1 out m2 m'')
  have out: "out = Ret (res, Some x)" "m'' = m'" using main(4) assms(2) by auto
  have "inv m2 \<and> phase (view m2) = phase (view m) \<and> res = emptyResult"
  proof (cases "phase (view m)")
    case InitialState
    with main(3) toSynchronizing_view[OF main(1)] out show ?thesis by (auto simp: doInitialState_def)
  next
    case SynchronizingState
    then obtain s where s: "v_start (view m1) = Some s" "s \<noteq> 0" using phase_SomeD(1) main(2) by fastforce
    from doSynchronizing_view[OF main(1) s(1)] main(3) SynchronizingState out s(2)
    have "inv m2" "phase (view m2) = phase (view m)" by (auto simp: phase_def)
    moreover have "res = emptyResult"
      using main(3) SynchronizingState out
      by (auto simp: doSynchronizingState_def split: prod.splits go.splits option.splits if_splits)
    ultimately show ?thesis by simp
  next
    case CleaningUpState
    then obtain l where l: "v_last (view m1) = Some l" using phase_SomeD(2) main(2) by fastforce
    from doCleanup_view[OF main(1) l] main(3) CleaningUpState out
    have "inv m2" "view m2 = view m1" by auto
    moreover have "res = emptyResult"
      using doCleanupState_error main(3) CleaningUpState out by simp
    ultimately show ?thesis using main(2) by simp
  qed
  with main(5) out show ?thesis by auto
qed

text \<open>
  The refinement: with a clock that never shows Go's zero time, a run without an error is a step of
  the life cycle, and whenever it leaves the machine synchronizing the condition says so.
\<close>

lemma decided_cases:
  assumes "decided e v nx t t' res v'"
  obtains "v' = started e t' (v\<lparr>v_next := nx\<rparr>)" "clock_time e t'" "fires v nx t" "clock_time e t"
  | "v' = idle e (v\<lparr>v_next := nx\<rparr>)" "\<not> fires v nx t" "clock_time e t" "clock_time e t'"
      "res = (if IsZero nx then emptyResult
               else \<lparr>cr_requeue = False, cr_requeueAfter = time_Sub (the nx) t'\<rparr>)"
  using assms by (auto simp: decided_def split: if_splits)

lemma run_cleaningUp_cases:
  assumes "inv m" "phase (view m) = CleaningUpState"
    and "run_state (Run e r) m = (Ret (res, None), m')"
  obtains (wait) b nx where "nextTime e (view m) = Inr nx"
      "view m' = (view m)\<lparr>v_outOfSync := b, v_next := nx\<rparr>"
    | (start) b nx t t' where "nextTime e (view m) = Inr nx" "clock_time e t" "clock_time e t'"
      "fires (view m) nx t" "view m' = started e t' ((view m)\<lparr>v_outOfSync := b, v_next := nx\<rparr>)"
    | (stop) b nx t t' where "nextTime e (view m) = Inr nx" "clock_time e t" "clock_time e t'"
      "\<not> fires (view m) nx t" "view m' = idle e ((view m)\<lparr>v_outOfSync := b, v_next := nx\<rparr>)"
      "res = (if IsZero nx then emptyResult
               else \<lparr>cr_requeue = False, cr_requeueAfter = time_Sub (the nx) t'\<rparr>)"
proof -
  obtain b nx mr where r: "nextTime e (view m) = Inr nx"
    "if \<not> mr_completed mr then view m' = (view m)\<lparr>v_outOfSync := b, v_next := nx\<rparr> \<and> res = ReconcileResult mr
      else (\<exists>t t'. decided e ((view m)\<lparr>v_outOfSync := b\<rparr>) nx t t' res (view m'))"
    using run_cleaningUp[OF assms] by blast
  show thesis
  proof (cases "mr_completed mr")
    case False
    with r show thesis by (intro wait) auto
  next
    case True
    with r obtain t t' where d: "decided e ((view m)\<lparr>v_outOfSync := b\<rparr>) nx t t' res (view m')" by auto
    from d show thesis by (cases rule: decided_cases) (use r(1) in \<open>auto intro: start stop\<close>)
  qed
qed

lemma run_step:
  assumes "inv m" and clock: "\<And>t. clock_time e t \<Longrightarrow> t \<noteq> 0"
    and "run_state (Run e r) m = (Ret (res, None), m')"
  shows "phase_step (phase (view m)) (phase (view m'))"
proof (cases "phase (view m)")
  case InitialState
  from run_initial[OF assms(1) this assms(3)] clock show ?thesis
    by (auto simp: InitialState phase_started intro: phase_step.intros)
next
  case SynchronizingState
  then obtain s where "v_start (view m) = Some s" "s \<noteq> 0" using phase_SomeD(1) by blast
  from run_synchronizing[OF assms(1) this assms(3)] clock SynchronizingState show ?thesis
    by (auto simp: phase_finished intro: phase_step.intros split: if_splits)
next
  case CleaningUpState
  from assms(1) this assms(3) show ?thesis
    by (cases rule: run_cleaningUp_cases)
      (auto simp: CleaningUpState phase_started clock intro: phase_step.intros)
qed

lemma run_syncing_condition:
  assumes "inv m" and clock: "\<And>t. clock_time e t \<Longrightarrow> t \<noteq> 0"
    and doc: "setStatusCondition_documented (se_setStatusCondition e)"
    and run: "run_state (Run e r) m = (Ret (res, None), m')"
    and sync: "phase (view m') = SynchronizingState"
  shows "condIs (v_conds (view m')) ConditionTrue SynchronizingReasonSync"
proof (cases "phase (view m)")
  case InitialState
  from run_initial[OF assms(1) this run] show ?thesis
    by (auto simp: started_def withCond_def condIs_set[OF doc])
next
  case SynchronizingState
  then obtain s where "v_start (view m) = Some s" "s \<noteq> 0" using phase_SomeD(1) by blast
  from run_synchronizing[OF assms(1) this run] clock sync show ?thesis
    by (auto simp: phase_finished withCond_def condIs_set[OF doc] split: if_splits)
next
  case CleaningUpState
  from assms(1) this run show ?thesis
    by (cases rule: run_cleaningUp_cases)
      (use sync CleaningUpState in \<open>auto simp: started_def withCond_def condIs_set[OF doc]\<close>)
qed

text \<open>When the next synchronization starts: only if the trigger asks for it.\<close>

lemma run_start_cause:
  assumes "inv m" and "phase (view m) = CleaningUpState"
    and run: "run_state (Run e r) m = (Ret (res, None), m')"
    and sync: "phase (view m') = SynchronizingState"
  shows "\<exists>nx t. nextTime e (view m) = Inr nx \<and> clock_time e t \<and> fires (view m) nx t"
  using assms(1,2) run
  by (cases rule: run_cleaningUp_cases) (use assms(2) sync in auto)

text \<open>
  A synchronization is recorded (the last sync time moves) only by a run in the synchronizing
  phase in which the mover reported completion; what is recorded then is \<open>finished\<close>.
\<close>

lemma run_keeps_last:
  assumes "inv m" "phase (view m) \<noteq> SynchronizingState"
    and "run_state (Run e r) m = (Ret (res, None), m')"
  shows "v_last (view m') = v_last (view m) \<and> v_lastManual (view m') = v_lastManual (view m)"
proof (cases "phase (view m)")
  case InitialState
  from run_initial[OF assms(1) this assms(3)] show ?thesis by (auto simp: started_def withCond_def)
next
  case CleaningUpState
  from assms(1) this assms(3) show ?thesis
    by (cases rule: run_cleaningUp_cases) (simp_all add: started_def idle_def withCond_def)
qed (use assms(2) in simp)

lemma run_recorded:
  assumes "inv m" and run: "run_state (Run e r) m = (Ret (res, None), m')"
    and moved: "v_last (view m') \<noteq> v_last (view m)"
  shows "\<exists>s t n nx mr m1. v_start (view m) = Some s \<and> clock_time e t \<and>
    fst (run_state (Synchronize r) m1) = Ret (mr, None) \<and> mr_completed mr \<and>
    nextTime e ((view m)\<lparr>v_last := Some t\<rparr>) = Inr nx \<and>
    view m' = finished e ((view m)\<lparr>v_outOfSync := Some False\<rparr>) s t n nx"
proof -
  have ph: "phase (view m) = SynchronizingState" using run_keeps_last[OF assms(1) _ run] moved by blast
  then obtain s where s: "v_start (view m) = Some s" "s \<noteq> 0" using phase_SomeD(1) by blast
  from run_synchronizing[OF assms(1) s run] moved s show ?thesis
    by (auto simp: withCond_def split: if_splits) blast+
qed

text \<open>
  Progress: with a schedule that parses and a mover that does its work, a run in the initial phase
  starts a synchronization and a run in the synchronizing phase finishes it.
\<close>

lemma run_initial_ok:
  assumes "inv m" "phase (view m) = InitialState" "schedule_ok e (view m)"
  shows "\<exists>res m'. run_state (Run e r) m = (Ret (res, None), m')"
  using assms(1)
proof (cases rule: RunE)
  case early
  with assms(3) show ?thesis by simp
next
  case (main b m1 out m2 m')
  then show ?thesis using toSynchronizing_view[OF main(1)] assms(2) by (auto simp: doInitialState_def)
qed

lemma run_synchronizing_ok:
  assumes "inv m" "phase (view m) = SynchronizingState" "schedule_ok e (view m)"
    and sync: "\<And>m. \<exists>mr. fst (run_state (Synchronize r) m) = Ret (mr, None) \<and> mr_completed mr"
  shows "\<exists>res m'. run_state (Run e r) m = (Ret (res, None), m')"
  using assms(1)
proof (cases rule: RunE)
  case early
  with assms(3) show ?thesis by simp
next
  case (main b m1 out m2 m')
  obtain s where "v_start (view m1) = Some s" using phase_SomeD(1)[OF assms(2)] main(2) by auto
  note view = doSynchronizing_view[OF main(1) this]
  have "out \<noteq> Panic" "\<And>res x. out \<noteq> Ret (res, Some x)"
    using view sync[of m1] main(2,3) assms(2,3) by (auto split: go.splits)
  then obtain res where "out = Ret (res, None)" by (metis go.exhaust option.exhaust surj_pair)
  with main(4) show ?thesis by auto
qed

end

end
