(* ===== verification/Rs_Controller.thy ===== *)
theory Rs_Controller
  imports Movers Machine_Laws
begin

text \<open>
  \<open>replicationsource_controller.go\<close>: the machine a ReplicationSource gives the state machine
  (\<open>rsMachine\<close>), the reconciler that runs it, and the functions that map a claim with a copy trigger
  to the sources that use it. The state of a run is the resource, the metrics of its labels and
  the trace of calls. \<open>rsMachine\<close> implements the contract \<open>replication_machine\<close> (interpretation
  \<open>rsm\<close>), so what the state machine guarantees holds for every mover of the catalog.
\<close>

section \<open>The machine of a ReplicationSource\<close>

record rsState =
  sm_rs :: replicationsource
  sm_metrics :: volsyncMetrics
  sm_trace :: trace

text \<open>\<open>Reconcile\<close> allocates the status before it builds the machine; \<open>rsStatus\<close> reads through it.\<close>

definition rsStatus :: "replicationsource \<Rightarrow> replicationSourceStatus" where
  "rsStatus rs = (case rs_status rs of Some st \<Rightarrow> st | None \<Rightarrow> emptyRSStatus)"

definition onRsStatus ::
  "(replicationSourceStatus \<Rightarrow> replicationSourceStatus) \<Rightarrow> replicationsource \<Rightarrow> replicationsource" where
  "onRsStatus f rs = rs\<lparr>rs_status := map_option f (rs_status rs)\<rparr>"

abbreviation setRs :: "(replicationSourceStatus \<Rightarrow> replicationSourceStatus) \<Rightarrow> rsState \<Rightarrow> rsState" where
  "setRs f m \<equiv> m\<lparr>sm_rs := onRsStatus f (sm_rs m)\<rparr>"

definition rsMoverOp ::
  "(rsPart \<times> trace, 'a) state \<Rightarrow> (rsState, 'a) state" where
  "rsMoverOp mop = State (\<lambda>m.
     case run_state mop (rsPartOf (rsStatus (sm_rs m)), sm_trace m) of
       (out, p, tr) \<Rightarrow> (out, (setRs (withRsPart p) m)\<lparr>sm_trace := tr\<rparr>))"

definition rsMachine :: "rsPart mover \<Rightarrow> rsState machine" where
  "rsMachine mv = \<lparr>
     Cronspec = (\<lambda>m. case rs_trigger (sm_rs m) of
        Some t \<Rightarrow> (case trig_schedule t of Some s \<Rightarrow> s | None \<Rightarrow> [])
      | None \<Rightarrow> []),
     ManualTag = (\<lambda>m. case rs_trigger (sm_rs m) of Some t \<Rightarrow> trig_manual t | None \<Rightarrow> []),
     LastManualTag = (\<lambda>m. rss_lastManualSync (rsStatus (sm_rs m))),
     SetLastManualTag = (\<lambda>tag. setRs (\<lambda>st. st\<lparr>rss_lastManualSync := tag\<rparr>)),
     NextSyncTime = (\<lambda>m. rss_nextSyncTime (rsStatus (sm_rs m))),
     SetNextSyncTime = (\<lambda>next. setRs (\<lambda>st. st\<lparr>rss_nextSyncTime := next\<rparr>)),
     LastSyncStartTime = (\<lambda>m. rss_lastSyncStartTime (rsStatus (sm_rs m))),
     SetLastSyncStartTime = (\<lambda>last. setRs (\<lambda>st. st\<lparr>rss_lastSyncStartTime := last\<rparr>)),
     LastSyncTime = (\<lambda>m. rss_lastSyncTime (rsStatus (sm_rs m))),
     SetLastSyncTime = (\<lambda>last. setRs (\<lambda>st. st\<lparr>rss_lastSyncTime := last\<rparr>)),
     LastSyncDuration = (\<lambda>m. rss_lastSyncDuration (rsStatus (sm_rs m))),
     SetLastSyncDuration = (\<lambda>d. setRs (\<lambda>st. st\<lparr>rss_lastSyncDuration := d\<rparr>)),
     Conditions = (\<lambda>m. rss_conditions (rsStatus (sm_rs m))),
     SetConditions = (\<lambda>cs. setRs (\<lambda>st. st\<lparr>rss_conditions := cs\<rparr>)),
     SetOutOfSync = (\<lambda>b m. m\<lparr>sm_metrics := (sm_metrics m)\<lparr>OutOfSync := Some b\<rparr>\<rparr>),
     IncMissedIntervals = (\<lambda>m. m\<lparr>sm_metrics :=
        (sm_metrics m)\<lparr>MissedIntervals := Suc (MissedIntervals (sm_metrics m))\<rparr>\<rparr>),
     ObserveSyncDuration = (\<lambda>d m. m\<lparr>sm_metrics :=
        (sm_metrics m)\<lparr>SyncDurations := d # SyncDurations (sm_metrics m)\<rparr>\<rparr>),
     Synchronize = rsMoverOp (mo_Synchronize mv),
     Cleanup = rsMoverOp (mo_Cleanup mv)\<rparr>"

text \<open>The environment the state machine runs in: the clock of the cluster, and its libraries.\<close>

definition rsEnv :: "cluster \<Rightarrow> rsState smenv" where
  "rsEnv cl = \<lparr>
     se_now = State (\<lambda>m. (timeNow cl (sm_trace m), m\<lparr>sm_trace := CNow # sm_trace m\<rparr>)),
     se_setStatusCondition = setStatusCondition cl,
     se_cronParse = cronParse cl\<rparr>"

section \<open>The reconciler\<close>

definition rsLabels :: "replicationsource \<Rightarrow> rsPart mover \<Rightarrow> metricLabels" where
  "rsLabels rs mv = \<lparr>ml_objName = om_name rs, ml_objNamespace = om_namespace rs,
     ml_role = ''source'', ml_method = mo_Name mv\<rparr>"

definition newRSMachine ::
  "builder list \<Rightarrow> replicationsource \<Rightarrow> bool \<Rightarrow> (gerror + rsPart mover) \<times> replicationsource" where
  "newRSMachine catalog rs privilegedMoverOk =
     (case GetSourceMoverFromCatalog catalog rs privilegedMoverOk (rsPartOf (rsStatus rs)) of
        (dataMover, p) \<Rightarrow> (dataMover, onRsStatus (withRsPart p) rs))"

definition enabledMoversSuffix :: "builder list \<Rightarrow> string" where
  "enabledMoversSuffix catalog =
     '' - enabled movers: ['' @ strings_Join (GetEnabledMoverList catalog) '' '' @ '']''"

text \<open>What the reconciler makes of the machine before it runs it: the error, and the status.\<close>

definition rsCheckMethods ::
  "cluster \<Rightarrow> builder list \<Rightarrow> gerror + rsPart mover \<Rightarrow> replicationsource \<Rightarrow>
   gerror option \<times> replicationsource" where
  "rsCheckMethods cl catalog rsm inst =
     (case rsm of
        Inr _ \<Rightarrow>
          if rs_external inst \<noteq> None then
            (Some ErrMultipleMoversFound, onRsStatus (\<lambda>st. st\<lparr>rss_conditions :=
               setStatusCondition cl (rss_conditions st)
                 (syncCondition ConditionFalse SynchronizingReasonError
                    (errorMsg ErrMultipleMoversFound))\<rparr>) inst)
          else (None, inst)
      | Inl err \<Rightarrow>
          if rs_external inst = None then
            (Some ErrNoMoverFound, onRsStatus (\<lambda>st. st\<lparr>rss_conditions :=
               setStatusCondition cl (rss_conditions st)
                 (syncCondition ConditionFalse SynchronizingReasonError
                    (errorMsg ErrNoMoverFound @ enabledMoversSuffix catalog))\<rparr>) inst)
          else (Some err, inst))"

definition rsStatusUpdateCall :: "cluster \<Rightarrow> replicationsource \<Rightarrow> gerror option kube" where
  "rsStatusUpdateCall cl inst =
     ask (\<lambda>tr. rsStatusUpdate cl tr inst) (CStatusUpdate (OReplicationSource inst))"

definition rsRunMachine ::
  "cluster \<Rightarrow> rsPart mover \<Rightarrow> replicationsource \<Rightarrow>
   (metricVec \<times> trace, (ctrlResult \<times> gerror option) go \<times> replicationsource) state" where
  "rsRunMachine cl mv inst = State (\<lambda>(vec, tr).
     let labels = rsLabels inst mv in
     case run_state (Run (rsEnv cl) (rsMachine mv))
            \<lparr>sm_rs = inst, sm_metrics = newVolSyncMetrics vec labels, sm_trace = tr\<rparr> of
       (out, m) \<Rightarrow> ((out, sm_rs m), vec(labels := sm_metrics m), sm_trace m))"

definition rsFinish ::
  "cluster \<Rightarrow> (ctrlResult \<times> gerror option) go \<Rightarrow> replicationsource \<Rightarrow>
   (metricVec \<times> trace, (ctrlResult \<times> gerror option) go) state" where
  "rsFinish cl out inst =
     (case out of
        Panic \<Rightarrow> ret Panic
      | Ret (result, err) \<Rightarrow> do {
          statusErr \<leftarrow> onTrace (rsStatusUpdateCall cl inst);
          ret (Ret (result, (if err = None then statusErr else err))) })"

definition rsReconcile ::
  "cluster \<Rightarrow> builder list \<Rightarrow> key \<Rightarrow>
   (metricVec \<times> trace, (ctrlResult \<times> gerror option) go) state" where
  "rsReconcile cl catalog req = do {
     r \<leftarrow> onTrace (kGet (rsC cl) req);
     case r of
       Inl err \<Rightarrow> ret (Ret (emptyResult, IgnoreNotFound (Some err)))
     | Inr inst0 \<Rightarrow> do {
         let inst1 = (if rs_status inst0 = None then inst0\<lparr>rs_status := Some emptyRSStatus\<rparr> else inst0);
         (privilegedMoverOk, perr) \<leftarrow> onTrace (PrivilegedMoversOk cl (om_namespace inst1));
         case perr of
           Some err \<Rightarrow> ret (Ret (emptyResult, Some err))
         | None \<Rightarrow>
             (case newRSMachine catalog inst1 privilegedMoverOk of
                (rsm, inst2) \<Rightarrow>
                  if rsm = Inl ErrNoMoverFound \<and> rs_external inst2 \<noteq> None
                  then ret (Ret (emptyResult, None))
                  else (case rsCheckMethods cl catalog rsm inst2 of
                    (Some err, inst3) \<Rightarrow> rsFinish cl (Ret (emptyResult, Some err)) inst3
                  | (None, inst3) \<Rightarrow>
                      (case rsm of
                         Inl err \<Rightarrow> ret Panic
                       | Inr mv \<Rightarrow> do {
                           (out, inst4) \<leftarrow> rsRunMachine cl mv inst3;
                           rsFinish cl out inst4 }))) } }"

section \<open>Copy triggers and the index\<close>

definition ReplicationSourceToSourcePVCIndex :: string where
  "ReplicationSourceToSourcePVCIndex = ''replicationsource.spec.sourcePVC''"

definition mapFuncCopyTriggerPVCToReplicationSource :: "cluster \<Rightarrow> kobj \<Rightarrow> key list kube" where
  "mapFuncCopyTriggerPVCToReplicationSource cl obj =
     (case obj of
        OPVC p \<Rightarrow>
          if \<not> PVCUsesCopyTrigger p then ret []
          else do {
            r \<leftarrow> kList (rsC cl) (Some (om_namespace p))
                   (ByIndex ReplicationSourceToSourcePVCIndex (om_name p));
            case r of
              Inl err \<Rightarrow> ret []
            | Inr items \<Rightarrow> ret (map (\<lambda>rs. (om_namespace rs, om_name rs)) items) }
      | _ \<Rightarrow> ret [])"

datatype watchEvent = CreateEvent | DeleteEvent | UpdateEvent | GenericEvent

fun copyTriggerPVCPredicate :: "watchEvent \<Rightarrow> bool" where
  "copyTriggerPVCPredicate CreateEvent = True"
| "copyTriggerPVCPredicate DeleteEvent = False"
| "copyTriggerPVCPredicate UpdateEvent = True"
| "copyTriggerPVCPredicate GenericEvent = True"

definition IndexFieldsForReplicationSource :: "kobj \<Rightarrow> string list" where
  "IndexFieldsForReplicationSource obj =
     (case obj of
        OReplicationSource rs \<Rightarrow> if rs_sourcePVC rs \<noteq> [] then [rs_sourcePVC rs] else []
      | _ \<Rightarrow> [])"

section \<open>The machine implements the contract\<close>

definition rsView :: "rsState \<Rightarrow> sview" where
  "rsView m = \<lparr>
     v_cron = (case rs_trigger (sm_rs m) of
        Some t \<Rightarrow> (case trig_schedule t of Some s \<Rightarrow> s | None \<Rightarrow> []) | None \<Rightarrow> []),
     v_manual = (case rs_trigger (sm_rs m) of Some t \<Rightarrow> trig_manual t | None \<Rightarrow> []),
     v_lastManual = rss_lastManualSync (rsStatus (sm_rs m)),
     v_next = rss_nextSyncTime (rsStatus (sm_rs m)),
     v_start = rss_lastSyncStartTime (rsStatus (sm_rs m)),
     v_last = rss_lastSyncTime (rsStatus (sm_rs m)),
     v_duration = rss_lastSyncDuration (rsStatus (sm_rs m)),
     v_conds = rss_conditions (rsStatus (sm_rs m)),
     v_outOfSync = OutOfSync (sm_metrics m),
     v_missed = MissedIntervals (sm_metrics m),
     v_observed = SyncDurations (sm_metrics m)\<rparr>"

definition rsInv :: "rsState \<Rightarrow> bool" where
  "rsInv m \<longleftrightarrow> rs_status (sm_rs m) \<noteq> None"

lemma rsStatus_on [simp]: "rs_status rs \<noteq> None \<Longrightarrow> rsStatus (onRsStatus f rs) = f (rsStatus rs)"
  by (auto simp: rsStatus_def onRsStatus_def)

lemma onRsStatus_sel [simp]:
  "rs_trigger (onRsStatus f rs) = rs_trigger rs" "rs_external (onRsStatus f rs) = rs_external rs"
  "om_name (onRsStatus f rs) = om_name rs" "om_namespace (onRsStatus f rs) = om_namespace rs"
  "rs_status (onRsStatus f rs) = map_option f (rs_status rs)"
  by (simp_all add: onRsStatus_def)

lemma rsMoverOp_keeps:
  assumes "rsInv m"
  shows "rsView (snd (run_state (rsMoverOp mop) m)) = rsView m"
    "rsInv (snd (run_state (rsMoverOp mop) m))"
  using assms
  by (auto simp: rsMoverOp_def rsView_def rsInv_def withRsPart_def split: prod.splits)

interpretation rsm: replication_machine "rsEnv cl" "rsMachine mv" rsView rsInv for cl mv
proof (unfold_locales, goal_cases)
  case (26 m)
  then show ?case by (simp add: rsEnv_def rsView_def)
next
  case (27 m)
  then show ?case by (simp add: rsEnv_def rsInv_def)
qed (auto simp: rsMachine_def rsMoverOp_keeps; simp add: rsView_def rsInv_def)+

section \<open>What a run of a ReplicationSource does\<close>

lemma rs_clock: "clock_time (rsEnv cl) t \<Longrightarrow> \<exists>tr. t = timeNow cl tr"
  by (auto simp: clock_time_def rsEnv_def)

lemma rs_env [simp]:
  "se_setStatusCondition (rsEnv cl) = setStatusCondition cl" "se_cronParse (rsEnv cl) = cronParse cl"
  by (simp_all add: rsEnv_def)

lemmas rs_run_state = rsm.run_state_view[unfolded rsInv_def]

text \<open>A resource, a mover and a state for the witnesses.\<close>

definition sampleRS :: "string \<Rightarrow> replicationSourceStatus option \<Rightarrow> replicationsource" where
  "sampleRS manual st = objmeta.extend (newMeta ''ns'' ''rs'')
     (replicationsource.fields ''data'' (Some \<lparr>trig_schedule = Some ''@hourly'', trig_manual = manual\<rparr>)
        None None None None None None None False st)"

definition sampleMover :: "'p mover" where
  "sampleMover = \<lparr>mo_Name = ''sample'', mo_Synchronize = ret (Ret (Complete, None)),
     mo_Cleanup = ret (Ret (Complete, None))\<rparr>"

definition sampleRsState :: "string \<Rightarrow> replicationSourceStatus \<Rightarrow> rsState" where
  "sampleRsState manual st = \<lparr>sm_rs = sampleRS manual (Some st),
     sm_metrics = \<lparr>MissedIntervals = 0, OutOfSync = None, SyncDurations = []\<rparr>, sm_trace = []\<rparr>"

lemmas sample_run_defs = Run_def checkOutOfSync_def currentState_def doInitialState_def
  doSynchronizingState_def doCleanupState_def doCleanupDecide_def doCleanupIdle_def missedDeadline_def
  getTrigger_def getSchedule_def pastScheduleDeadline_def updateNextSyncStartTime_def
  transitionToSynchronizing_def transitionToCleaningUp_def shouldSync_def timeToNextSync_def
  setCondition_defs sampleMover_def emptyResult_def Complete_def ReconcileResult_def
  time_Before_def time_After_def hour_def minute_def second_def sampleCron_def

lemmas sample_rs_defs = sample_run_defs rsMachine_def rsMoverOp_def sampleRsState_def sampleRS_def
  rsStatus_def onRsStatus_def rsEnv_def emptyRSStatus_def rsPartOf_def withRsPart_def
  replicationsource.defs new_defs

text \<open>C1: A run of the state machine on a ReplicationSource that reports no error takes a step of the
  life cycle: from initial to synchronizing, from synchronizing to synchronizing or cleaning up,
  from cleaning up to cleaning up or the next synchronization. No run skips the synchronization
  and none falls back to the initial state.\<close>

theorem rs_life_cycle:
  assumes "rs_status (sm_rs m) \<noteq> None" and "\<And>tr. timeNow cl tr \<noteq> 0"
    and "run_state (Run (rsEnv cl) (rsMachine mv)) m = (Ret (res, None), m')"
  shows "phase_step (currentState (rsMachine mv) m) (currentState (rsMachine mv) m')"
  unfolding rs_run_state[OF assms(1,3)]
  by (rule rsm.run_step[OF _ _ assms(3)]) (use assms(1,2) in \<open>auto simp: rsInv_def dest: rs_clock\<close>)

theorem rs_life_cycle_witness:
  "\<exists>m'. run_state (Run (rsEnv sampleCluster) (rsMachine sampleMover))
       (sampleRsState [] emptyRSStatus) = (Ret (emptyResult, None), m') \<and>
     phase_step (currentState (rsMachine sampleMover) (sampleRsState [] emptyRSStatus))
       (currentState (rsMachine sampleMover) m')"
proof -
  let ?run = "run_state (Run (rsEnv sampleCluster) (rsMachine sampleMover)) (sampleRsState [] emptyRSStatus)"
  have "fst ?run = Ret (emptyResult, None)" by (simp add: sample_rs_defs)
  then have run: "?run = (Ret (emptyResult, None), snd ?run)" by (metis prod.collapse)
  have "rs_status (sm_rs (sampleRsState [] emptyRSStatus)) \<noteq> None" by (simp add: sample_rs_defs)
  from rs_life_cycle[OF this _ run] run show ?thesis by (auto simp: hour_def minute_def second_def)
qed

text \<open>C3: The last sync time of a ReplicationSource moves only when, in the synchronizing phase, its
  mover reported completion. The same run then records the duration since the start, clears the
  start time, remembers the manual tag, computes the next time from the new last sync time,
  clears the out-of-sync gauge and sets the condition to cleanup.\<close>

theorem rs_sync_recorded:
  assumes "rs_status (sm_rs m) \<noteq> None"
    and "run_state (Run (rsEnv cl) (rsMachine mv)) m = (Ret (res, None), m')"
    and "LastSyncTime (rsMachine mv) m' \<noteq> LastSyncTime (rsMachine mv) m"
    and "setStatusCondition_documented (setStatusCondition cl)"
  shows "currentState (rsMachine mv) m = SynchronizingState \<and>
    (\<exists>m1 mr. fst (run_state (Synchronize (rsMachine mv)) m1) = Ret (mr, None) \<and> mr_completed mr) \<and>
    (\<exists>start t. LastSyncStartTime (rsMachine mv) m = Some start \<and>
       LastSyncTime (rsMachine mv) m' = Some t \<and>
       LastSyncDuration (rsMachine mv) m' = Some (time_Sub t start) \<and>
       (getTrigger (rsMachine mv) m = ScheduleTrigger \<longrightarrow>
          (\<exists>next. cronParse cl (Cronspec (rsMachine mv) m) = Inr next \<and>
             NextSyncTime (rsMachine mv) m' = Some (next t))) \<and>
       (getTrigger (rsMachine mv) m \<noteq> ScheduleTrigger \<longrightarrow> NextSyncTime (rsMachine mv) m' = None)) \<and>
    LastSyncStartTime (rsMachine mv) m' = None \<and>
    LastManualTag (rsMachine mv) m' = ManualTag (rsMachine mv) m \<and>
    OutOfSync (sm_metrics m') = Some False \<and>
    condIs (Conditions (rsMachine mv) m') ConditionFalse SynchronizingReasonCleanup"
proof -
  have inv: "rsInv m" "rsInv m'"
    using assms(1) rsm.run_inv[of m cl mv] assms(2) by (auto simp: rsInv_def)
  have moved: "v_last (rsView m') \<noteq> v_last (rsView m)"
    using assms(3) inv by (simp add: rsm.getters[where mv = mv])
  have ph: "currentState (rsMachine mv) m = SynchronizingState"
    using rsm.run_keeps_last[OF inv(1) _ assms(2)] moved inv(1) by (auto simp: rsm.state_view[where mv = mv])
  obtain s t n nx mr m1 where f: "v_start (rsView m) = Some s"
    "fst (run_state (Synchronize (rsMachine mv)) m1) = Ret (mr, None)" "mr_completed mr"
    "nextTime (rsEnv cl) ((rsView m)\<lparr>v_last := Some t\<rparr>) = Inr nx"
    "rsView m' = finished (rsEnv cl) ((rsView m)\<lparr>v_outOfSync := Some False\<rparr>) s t n nx"
    using rsm.run_recorded[OF inv(1) assms(2) moved] by blast
  have trig: "getTrigger (rsMachine mv) m = v_trigger (rsView m)"
    using inv(1) by (rule rsm.trigger_view)
  have nx: "v_trigger (rsView m) = ScheduleTrigger \<Longrightarrow>
      \<exists>next. cronParse cl (v_cron (rsView m)) = Inr next \<and> nx = Some (next t)"
    "v_trigger (rsView m) \<noteq> ScheduleTrigger \<Longrightarrow> nx = None"
    using f(4) by (auto simp: nextTime_def v_trigger_def getSchedule_def split: if_splits sum.splits)
  have "LastSyncDuration (rsMachine mv) m' = v_duration (rsView m')"
    "OutOfSync (sm_metrics m') = v_outOfSync (rsView m')"
    by (simp_all add: rsMachine_def rsView_def)
  with ph f nx inv assms(4) show ?thesis
    by (auto simp: rsm.getters[where mv = mv] trig finished_def condIs_set)
qed

theorem rs_sync_recorded_witness:
  "\<exists>m'. run_state (Run (rsEnv sampleCluster) (rsMachine sampleMover))
       (sampleRsState [] (emptyRSStatus\<lparr>rss_lastSyncStartTime := Some (999 * hour)\<rparr>)) =
       (Ret (emptyResult, None), m') \<and>
     LastSyncStartTime (rsMachine sampleMover) m' = None"
proof -
  let ?m = "sampleRsState [] (emptyRSStatus\<lparr>rss_lastSyncStartTime := Some (999 * hour)\<rparr>)"
  let ?run = "run_state (Run (rsEnv sampleCluster) (rsMachine sampleMover)) ?m"
  have "fst ?run = Ret (emptyResult, None)" by (simp add: sample_rs_defs)
  then have run: "?run = (Ret (emptyResult, None), snd ?run)" by (metis prod.collapse)
  have st: "rs_status (sm_rs ?m) \<noteq> None" by (simp add: sample_rs_defs)
  have "LastSyncTime (rsMachine sampleMover) (snd ?run) \<noteq> LastSyncTime (rsMachine sampleMover) ?m"
    by (simp add: sample_rs_defs)
  from rs_sync_recorded[OF st run this] run show ?thesis using sample_setStatusCondition by auto
qed

text \<open>C5: A run that ends in an error leaves the ReplicationSource in the phase it was in, asks for no
  requeue of its own, and publishes the error: the Synchronizing condition is false, for the
  reason Error. A run that succeeds and leaves it synchronizing publishes that instead.\<close>

theorem rs_condition_truthful:
  assumes "rs_status (sm_rs m) \<noteq> None" and "\<And>tr. timeNow cl tr \<noteq> 0"
    and "setStatusCondition_documented (setStatusCondition cl)"
    and "run_state (Run (rsEnv cl) (rsMachine mv)) m = (Ret (res, err), m')"
  shows "case err of
      Some x \<Rightarrow> currentState (rsMachine mv) m' = currentState (rsMachine mv) m \<and> res = emptyResult \<and>
        condIs (Conditions (rsMachine mv) m') ConditionFalse SynchronizingReasonError
    | None \<Rightarrow> currentState (rsMachine mv) m' = SynchronizingState \<longrightarrow>
        condIs (Conditions (rsMachine mv) m') ConditionTrue SynchronizingReasonSync"
proof -
  have inv: "rsInv m" "rsInv m'"
    using assms(1) rsm.run_inv[of m cl mv] assms(4) by (auto simp: rsInv_def)
  note views = rs_run_state[OF assms(1,4)] rsm.get_conds[OF inv(2)]
  show ?thesis
  proof (cases err)
    case (Some x)
    from rsm.run_error[OF inv(1)] assms(4) this have
      "phase (rsView m') = phase (rsView m) \<and> res = emptyResult \<and>
       (\<exists>v. rsView m' = withCond (rsEnv cl) ConditionFalse SynchronizingReasonError (errorMsg x) v)"
      by blast
    with Some show ?thesis unfolding views by (auto simp: withCond_def condIs_set[OF assms(3)])
  next
    case None
    have "condIs (v_conds (rsView m')) ConditionTrue SynchronizingReasonSync"
      if "phase (rsView m') = SynchronizingState"
      by (rule rsm.run_syncing_condition[OF inv(1) _ _ _ that])
        (use assms None in \<open>auto dest: rs_clock\<close>)
    with None show ?thesis unfolding views by simp
  qed
qed

theorem rs_condition_truthful_witness:
  "\<exists>m'. run_state (Run (rsEnv sampleCluster) (rsMachine sampleMover))
       (sampleRsState [] emptyRSStatus) = (Ret (emptyResult, None), m') \<and>
     (currentState (rsMachine sampleMover) m' = SynchronizingState \<longrightarrow>
      condIs (Conditions (rsMachine sampleMover) m') ConditionTrue SynchronizingReasonSync)"
proof -
  let ?run = "run_state (Run (rsEnv sampleCluster) (rsMachine sampleMover)) (sampleRsState [] emptyRSStatus)"
  have "fst ?run = Ret (emptyResult, None)" by (simp add: sample_rs_defs)
  then have run: "?run = (Ret (emptyResult, None), snd ?run)" by (metis prod.collapse)
  have st: "rs_status (sm_rs (sampleRsState [] emptyRSStatus)) \<noteq> None" by (simp add: sample_rs_defs)
  from rs_condition_truthful[OF st _ _ run] run sample_setStatusCondition show ?thesis
    by (auto simp: hour_def minute_def second_def)
qed

text \<open>C4: A new synchronization of a ReplicationSource starts only when its trigger asks for it: with a
  manual trigger only if the tag differs from the one last synchronized, with a schedule only if
  a reading of the clock is after the time the schedule gives for the last sync time.\<close>

theorem rs_start_is_due:
  assumes "rs_status (sm_rs m) \<noteq> None"
    and "run_state (Run (rsEnv cl) (rsMachine mv)) m = (Ret (res, None), m')"
    and "currentState (rsMachine mv) m = CleaningUpState"
    and "currentState (rsMachine mv) m' = SynchronizingState"
  shows "case getTrigger (rsMachine mv) m of
      ManualTrigger \<Rightarrow> ManualTag (rsMachine mv) m \<noteq> LastManualTag (rsMachine mv) m
    | ScheduleTrigger \<Rightarrow> (\<exists>next last tr. cronParse cl (Cronspec (rsMachine mv) m) = Inr next \<and>
        LastSyncTime (rsMachine mv) m = Some last \<and> next last < timeNow cl tr)
    | NoTrigger \<Rightarrow> True"
proof -
  have inv: "rsInv m" using assms(1) by (simp add: rsInv_def)
  note views = rs_run_state[OF assms(1,2)]
  obtain nx t where f: "nextTime (rsEnv cl) (rsView m) = Inr nx" "clock_time (rsEnv cl) t"
    "fires (rsView m) nx t"
    using rsm.run_start_cause[OF inv _ assms(2)] assms(3,4) unfolding views by blast
  obtain l where l: "v_last (rsView m) = Some l"
    using rsm.phase_SomeD(2)[of "rsView m"] assms(3) unfolding views by blast
  show ?thesis
    using f rs_clock[OF f(2)] l inv
    by (auto simp: rsm.trigger_view[OF inv, where mv = mv] rsm.getters[OF inv, where mv = mv]
        fires_def nextTime_def getSchedule_def split: triggerType.splits sum.splits)
qed

theorem rs_start_is_due_witness:
  "\<exists>m'. run_state (Run (rsEnv sampleCluster) (rsMachine sampleMover))
       (sampleRsState [] (emptyRSStatus\<lparr>rss_lastSyncTime := Some (998 * hour)\<rparr>)) =
       (Ret (emptyResult, None), m') \<and> sampleCron ''@hourly'' = Inr (\<lambda>t. t + hour) \<and>
     (\<exists>next last tr. sampleCron ''@hourly'' = Inr next \<and>
        LastSyncTime (rsMachine sampleMover :: rsState machine)
          (sampleRsState [] (emptyRSStatus\<lparr>rss_lastSyncTime := Some (998 * hour)\<rparr>)) = Some last \<and>
        next last < timeNow sampleCluster tr)"
proof -
  let ?m = "sampleRsState [] (emptyRSStatus\<lparr>rss_lastSyncTime := Some (998 * hour)\<rparr>)"
  let ?run = "run_state (Run (rsEnv sampleCluster) (rsMachine sampleMover)) ?m"
  have "fst ?run = Ret (emptyResult, None)" by (simp add: sample_rs_defs)
  then have run: "?run = (Ret (emptyResult, None), snd ?run)" by (metis prod.collapse)
  have st: "rs_status (sm_rs ?m) \<noteq> None" by (simp add: sample_rs_defs)
  have cl: "currentState (rsMachine sampleMover) ?m = CleaningUpState" by (simp add: sample_rs_defs)
  have sy: "currentState (rsMachine sampleMover) (snd ?run) = SynchronizingState"
    by (simp add: sample_rs_defs)
  have tr: "getTrigger (rsMachine sampleMover) ?m = ScheduleTrigger"
    "Cronspec (rsMachine sampleMover) ?m = ''@hourly''" by (simp_all add: sample_rs_defs)
  from rs_start_is_due[OF st run cl sy] tr run show ?thesis by (auto simp: sampleCron_def)
qed

text \<open>C18: A new ReplicationSource whose schedule, if it is the trigger, parses, and whose mover completes
  its work, is synchronized by two runs: the first starts the synchronization, the second records
  it and goes on to cleaning up, and neither fails.\<close>

theorem rs_first_sync_finishes:
  assumes "rs_status (sm_rs m) \<noteq> None" and clock: "\<And>tr. timeNow cl tr \<noteq> 0"
    and "currentState (rsMachine mv) m = InitialState"
    and sched: "getTrigger (rsMachine mv) m = ScheduleTrigger \<Longrightarrow> \<exists>next. cronParse cl (Cronspec (rsMachine mv) m) = Inr next"
    and mover: "\<And>s. \<exists>mr s'. run_state (mo_Synchronize mv) s = (Ret (mr, None), s') \<and> mr_completed mr"
  shows "\<exists>res1 m1 res2 m2.
     run_state (Run (rsEnv cl) (rsMachine mv)) m = (Ret (res1, None), m1) \<and>
     currentState (rsMachine mv) m1 = SynchronizingState \<and>
     run_state (Run (rsEnv cl) (rsMachine mv)) m1 = (Ret (res2, None), m2) \<and>
     currentState (rsMachine mv) m2 = CleaningUpState \<and> LastSyncTime (rsMachine mv) m2 \<noteq> None"
proof -
  have inv: "rsInv m" using assms(1) by (simp add: rsInv_def)
  have ct: "t \<noteq> 0" if "clock_time (rsEnv cl) t" for t using rs_clock[OF that] clock by auto
  have sync: "\<exists>mr. fst (run_state (Synchronize (rsMachine mv)) m) = Ret (mr, None) \<and> mr_completed mr" for m
    using mover[of "(rsPartOf (rsStatus (sm_rs m)), sm_trace m)"]
    by (auto simp: rsMachine_def rsMoverOp_def split: prod.splits)
  have ph: "phase (rsView m) = InitialState" using assms(3) rsm.state_view[OF inv] by simp
  have ok: "schedule_ok (rsEnv cl) (rsView m)"
    using sched by (auto simp: schedule_ok_def getSchedule_def rsm.trigger_view[OF inv] rsm.getters[OF inv])
  obtain res1 m1 where 1: "run_state (Run (rsEnv cl) (rsMachine mv)) m = (Ret (res1, None), m1)"
    using rsm.run_initial_ok[OF inv ph ok] by blast
  obtain t b where v1: "clock_time (rsEnv cl) t" "rsView m1 = started (rsEnv cl) t ((rsView m)\<lparr>v_outOfSync := b\<rparr>)"
    using rsm.run_initial[OF inv ph 1] by blast
  have inv1: "rsInv m1" using rsm.run_inv[OF inv, of cl mv] 1 by simp
  have ph1: "phase (rsView m1) = SynchronizingState" using v1 ct by (simp add: rsm.phase_started)
  have ok1: "schedule_ok (rsEnv cl) (rsView m1)" using ok v1 by (simp add: started_def withCond_def)
  obtain res2 m2 where 2: "run_state (Run (rsEnv cl) (rsMachine mv)) m1 = (Ret (res2, None), m2)"
    using rsm.run_synchronizing_ok[OF inv1 ph1 ok1 sync] by blast
  have inv2: "rsInv m2" using rsm.run_inv[OF inv1, of cl mv] 2 by simp
  obtain s where s: "v_start (rsView m1) = Some s" "s \<noteq> 0" using rsm.phase_SomeD(1)[OF ph1] by blast
  obtain mr m3 where mr: "fst (run_state (Synchronize (rsMachine mv)) m3) = Ret (mr, None)"
    "mr_completed mr \<longrightarrow> (\<exists>t2 n nx. clock_time (rsEnv cl) t2 \<and>
       rsView m2 = finished (rsEnv cl) ((rsView m1)\<lparr>v_outOfSync := Some False\<rparr>) s t2 n nx)"
    using rsm.run_synchronizing[OF inv1 s 2] by (metis (no_types, lifting))
  then obtain t2 n nx where "clock_time (rsEnv cl) t2"
    "rsView m2 = finished (rsEnv cl) ((rsView m1)\<lparr>v_outOfSync := Some False\<rparr>) s t2 n nx"
    using sync[of m3] by auto
  then have "phase (rsView m2) = CleaningUpState" "v_last (rsView m2) \<noteq> None"
    using ct by (simp_all add: rsm.phase_finished, simp add: finished_def)
  with 1 2 ph1 show ?thesis
    using rsm.state_view[OF inv1] rsm.state_view[OF inv2] rsm.getters[OF inv2] by auto
qed

theorem rs_first_sync_finishes_witness:
  "\<exists>m2. LastSyncTime (rsMachine sampleMover) m2 \<noteq> None \<and> currentState (rsMachine sampleMover) m2 = CleaningUpState \<and>
     (\<exists>res1 m1 res2. run_state (Run (rsEnv sampleCluster) (rsMachine sampleMover)) (sampleRsState [] emptyRSStatus)
          = (Ret (res1, None), m1) \<and>
        run_state (Run (rsEnv sampleCluster) (rsMachine sampleMover)) m1 = (Ret (res2, None), m2))"
proof -
  let ?m = "sampleRsState [] emptyRSStatus"
  have st: "rs_status (sm_rs ?m) \<noteq> None" "currentState (rsMachine sampleMover) ?m = InitialState"
    "Cronspec (rsMachine sampleMover) ?m = ''@hourly''"
    by (simp_all add: sample_rs_defs)
  have mv: "\<exists>mr s'. run_state (mo_Synchronize sampleMover) s = (Ret (mr, None), s') \<and> mr_completed mr"
    for s :: "rsPart \<times> trace"
    by (simp add: sampleMover_def Complete_def)
  have c: "\<And>tr. timeNow sampleCluster tr \<noteq> 0" by (simp add: hour_def minute_def second_def)
  from rs_first_sync_finishes[OF st(1) c st(2) _ mv] st(3) show ?thesis
    by (auto simp: sampleCron_def)
qed

section \<open>What the reconciler does\<close>

text \<open>The resource as the reconciler prepares it, and the builders' answers for it.\<close>

definition rsPrepared :: "replicationsource \<Rightarrow> replicationsource" where
  "rsPrepared inst = (if rs_status inst = None then inst\<lparr>rs_status := Some emptyRSStatus\<rparr> else inst)"

definition rsClaims :: "builder list \<Rightarrow> replicationsource \<Rightarrow> bool \<Rightarrow> rsPart mover list" where
  "rsClaims catalog inst priv = candidates (map (\<lambda>b. bl_FromSource b (rsPrepared inst) priv) catalog)
     (rsPartOf (rsStatus (rsPrepared inst)))"

lemma newRSMachine_claims:
  "newRSMachine catalog (rsPrepared inst) priv = (rsm, inst') \<Longrightarrow>
     rsm = (case rsClaims catalog inst priv of
       [] \<Rightarrow> Inl ErrNoMoverFound | [m] \<Rightarrow> Inr m | _ \<Rightarrow> Inl ErrMultipleMoversFound) \<and>
     (\<exists>p. inst' = onRsStatus (withRsPart p) (rsPrepared inst))"
  unfolding newRSMachine_def rsClaims_def
  by (auto simp flip: catalogLoop_candidates[where dm = None, simplified]
      simp: GetSourceMoverFromCatalog_def split: prod.splits)

lemma rsPrepared_sel [simp]:
  "rs_external (rsPrepared inst) = rs_external inst" "om_namespace (rsPrepared inst) = om_namespace inst"
  "om_name (rsPrepared inst) = om_name inst" "\<exists>y. rs_status (rsPrepared inst) = Some y"
  by (auto simp: rsPrepared_def)

lemma rsReconcile_start:
  assumes "k_get (rsC cl) tr req = Inr inst"
    and "run_state (PrivilegedMoversOk cl (om_namespace inst)) (CGet KReplicationSource req # tr) =
           ((priv, None), tr1)"
    and "newRSMachine catalog (rsPrepared inst) priv = (rsm, inst2)"
  shows "run_state (rsReconcile cl catalog req) (vec, tr) =
    run_state (if rsm = Inl ErrNoMoverFound \<and> rs_external inst2 \<noteq> None
       then ret (Ret (emptyResult, None))
       else (case rsCheckMethods cl catalog rsm inst2 of
           (Some err, inst3) \<Rightarrow> rsFinish cl (Ret (emptyResult, Some err)) inst3
         | (None, inst3) \<Rightarrow>
             (case rsm of
                Inl err \<Rightarrow> ret Panic
              | Inr mv \<Rightarrow> do {
                  (out, inst4) \<leftarrow> rsRunMachine cl mv inst3;
                  rsFinish cl out inst4 }))) (vec, tr1)"
  using assms by (simp add: rsReconcile_def kube_ops rsPrepared_def[symmetric] Let_def)

text \<open>C9: When exactly one mover claims a ReplicationSource and no external method is set, the
  reconciler runs the state machine with that mover on the resource (its status allocated), then
  writes the resulting status. It returns the result of the run; the error it returns is the
  run's if there is one, and only otherwise that of the status update.\<close>

theorem rsReconcile_runs_machine:
  assumes "k_get (rsC cl) tr req = Inr inst"
    and "run_state (PrivilegedMoversOk cl (om_namespace inst)) (CGet KReplicationSource req # tr) =
           ((priv, None), tr1)"
    and "rsClaims catalog inst priv = [mv]" and "rs_external inst = None"
  shows "\<exists>p. let inst' = onRsStatus (withRsPart p) (rsPrepared inst);
        (out, m) = run_state (Run (rsEnv cl) (rsMachine mv))
          \<lparr>sm_rs = inst', sm_metrics = vec (rsLabels inst' mv), sm_trace = tr1\<rparr>
      in rs_status inst' \<noteq> None \<and>
         run_state (rsReconcile cl catalog req) (vec, tr) =
         (case out of
            Panic \<Rightarrow> (Panic, vec(rsLabels inst' mv := sm_metrics m), sm_trace m)
          | Ret (res, err) \<Rightarrow>
              (Ret (res, if err = None then rsStatusUpdate cl (sm_trace m) (sm_rs m) else err),
               vec(rsLabels inst' mv := sm_metrics m),
               CStatusUpdate (OReplicationSource (sm_rs m)) # sm_trace m))"
proof -
  obtain rsm inst2 where n: "newRSMachine catalog (rsPrepared inst) priv = (rsm, inst2)" by fastforce
  from newRSMachine_claims[OF n] assms(3) obtain p where
    rsm: "rsm = Inr mv" "inst2 = onRsStatus (withRsPart p) (rsPrepared inst)" by auto
  obtain out m where run: "run_state (Run (rsEnv cl) (rsMachine mv))
      \<lparr>sm_rs = inst2, sm_metrics = vec (rsLabels inst2 mv), sm_trace = tr1\<rparr> = (out, m)" by fastforce
  have "run_state (rsReconcile cl catalog req) (vec, tr) =
    run_state (rsFinish cl out (sm_rs m)) (vec(rsLabels inst2 mv := sm_metrics m), sm_trace m)"
    unfolding rsReconcile_start[OF assms(1,2) n]
    using rsm assms(4) run
    by (simp add: rsCheckMethods_def rsRunMachine_def newVolSyncMetrics_def)
  then show ?thesis
    using run rsm(2)
    by (intro exI[of _ p]) (auto simp: rsFinish_def rsStatusUpdateCall_def split: go.splits prod.splits)
qed

text \<open>A cluster that holds the resource and its namespace, and a builder for the witnesses.\<close>

definition rsCluster :: cluster where
  "rsCluster = sampleCluster\<lparr>
     replicationsources := (sampleClient KReplicationSource OReplicationSource)
       \<lparr>k_get := \<lambda>_ _. Inr (sampleRS [] None)\<rparr>,
     namespaces := (sampleClient KNamespace ONamespace)
       \<lparr>k_get := \<lambda>_ _. Inr (objmeta.extend (newMeta [] ''ns'') (kns.fields ()))\<rparr>\<rparr>"

definition sampleBuilder :: "string \<Rightarrow> builder" where
  "sampleBuilder name = \<lparr>bl_Name = name,
     bl_FromSource = (\<lambda>_ _ p. (Inr (Some sampleMover), p)),
     bl_FromDestination = (\<lambda>_ _ p. ret (Inr (Some sampleMover), p)),
     bl_VersionInfo = []\<rparr>"

lemma rsCluster_ok:
  "k_get (rsC rsCluster) tr req = Inr (sampleRS [] None)"
  "om_namespace (sampleRS [] None) = ''ns''" "rs_external (sampleRS [] None) = None"
  "run_state (PrivilegedMoversOk rsCluster ''ns'') tr = ((False, None), CGet KNamespace ([], ''ns'') # tr)"
  "rsClaims [sampleBuilder a] (sampleRS [] None) False = [sampleMover]"
  "rsClaims [sampleBuilder a, sampleBuilder b] (sampleRS [] None) False = [sampleMover, sampleMover]"
  by (simp_all add: rsCluster_def rsC_def nsC_def PrivilegedMoversOk_iff sampleRS_def new_defs
      replicationsource.defs kns.defs rsClaims_def sampleBuilder_def)

theorem rsReconcile_runs_machine_witness:
  "\<exists>inst. snd (snd (run_state (rsReconcile rsCluster [sampleBuilder ''a''] (''ns'', ''rs''))
       (\<lambda>_. \<lparr>MissedIntervals = 0, OutOfSync = None, SyncDurations = []\<rparr>, []))) =
     [CStatusUpdate (OReplicationSource inst), CNow, CGet KNamespace ([], ''ns''),
      CGet KReplicationSource (''ns'', ''rs'')]"
proof -
  let ?vec = "\<lambda>_. \<lparr>MissedIntervals = 0, OutOfSync = None, SyncDurations = []\<rparr>"
  let ?tr = "[CGet KNamespace ([], ''ns''), CGet KReplicationSource (''ns'', ''rs'')]"
  have pr: "run_state (PrivilegedMoversOk rsCluster (om_namespace (sampleRS [] None)))
    (CGet KReplicationSource (''ns'', ''rs'') # []) = ((False, None), ?tr)" by (simp add: rsCluster_ok)
  have run: "\<exists>m. run_state (Run (rsEnv rsCluster) (rsMachine sampleMover))
     \<lparr>sm_rs = onRsStatus (withRsPart p) (rsPrepared (sampleRS [] None)),
      sm_metrics = \<lparr>MissedIntervals = 0, OutOfSync = None, SyncDurations = []\<rparr>, sm_trace = ?tr\<rparr> =
     (Ret (emptyResult, None), m) \<and> sm_trace m = CNow # ?tr" for p
    by (simp add: sample_rs_defs rsPrepared_def rsCluster_def)
  note rsReconcile_runs_machine[OF rsCluster_ok(1) pr rsCluster_ok(5)[of "''a''"] rsCluster_ok(3), of ?vec]
  then show ?thesis
  proof (elim exE, goal_cases)
    case (1 p)
    from run[of p] obtain m where "run_state (Run (rsEnv rsCluster) (rsMachine sampleMover))
     \<lparr>sm_rs = onRsStatus (withRsPart p) (rsPrepared (sampleRS [] None)),
      sm_metrics = \<lparr>MissedIntervals = 0, OutOfSync = None, SyncDurations = []\<rparr>, sm_trace = ?tr\<rparr> =
      (Ret (emptyResult, None), m)" "sm_trace m = CNow # ?tr" by blast
    with 1 show ?case by (auto simp: Let_def)
  qed
qed

text \<open>Two movers configured in one ReplicationSource are not reported as such: the catalog answers
  that only one replication method can be supplied, but the reconciler overwrites that error
  and the condition with the one that a replication method must be specified.\<close>

theorem rsReconcile_two_movers_misreported:
  assumes "k_get (rsC cl) tr req = Inr inst"
    and "run_state (PrivilegedMoversOk cl (om_namespace inst)) (CGet KReplicationSource req # tr) =
           ((priv, None), tr1)"
    and "length (rsClaims catalog inst priv) \<ge> 2" and "rs_external inst = None"
  shows "fst (newRSMachine catalog (rsPrepared inst) priv) = Inl ErrMultipleMoversFound \<and>
    (\<exists>inst' cs. run_state (rsReconcile cl catalog req) (vec, tr) =
       (Ret (emptyResult, Some ErrNoMoverFound), vec, CStatusUpdate (OReplicationSource inst') # tr1) \<and>
     rss_conditions (rsStatus inst') = setStatusCondition cl cs
       (syncCondition ConditionFalse SynchronizingReasonError
          (''a replication method must be specified'' @ enabledMoversSuffix catalog)))"
proof -
  obtain rsm inst2 where n: "newRSMachine catalog (rsPrepared inst) priv = (rsm, inst2)" by fastforce
  from newRSMachine_claims[OF n] assms(3) obtain p where
    rsm: "rsm = Inl ErrMultipleMoversFound" "inst2 = onRsStatus (withRsPart p) (rsPrepared inst)"
    by (auto split: list.splits)
  show ?thesis
    unfolding rsReconcile_start[OF assms(1,2) n]
    using n rsm assms(4) by (auto simp: rsCheckMethods_def rsFinish_def rsStatusUpdateCall_def)
qed

theorem rsReconcile_two_movers_misreported_witness:
  "fst (run_state (rsReconcile rsCluster [sampleBuilder ''a'', sampleBuilder ''b''] (''ns'', ''rs''))
       (\<lambda>_. \<lparr>MissedIntervals = 0, OutOfSync = None, SyncDurations = []\<rparr>, [])) =
     Ret (emptyResult, Some ErrNoMoverFound)"
proof -
  have "run_state (PrivilegedMoversOk rsCluster (om_namespace (sampleRS [] None)))
    (CGet KReplicationSource (''ns'', ''rs'') # []) = ((False, None), [CGet KNamespace ([], ''ns''),
      CGet KReplicationSource (''ns'', ''rs'')])" by (simp add: rsCluster_ok)
  from rsReconcile_two_movers_misreported[OF rsCluster_ok(1) this, of "[sampleBuilder ''a'', sampleBuilder ''b'']"
      "\<lambda>_. \<lparr>MissedIntervals = 0, OutOfSync = None, SyncDurations = []\<rparr>"]
  show ?thesis by (auto simp: rsCluster_ok)
qed

end
