(* ===== verification/Rd_Controller.thy ===== *)
theory Rd_Controller
  imports Rs_Controller
begin

text \<open>
  \<open>replicationdestination_controller.go\<close>: the machine of a ReplicationDestination and its
  reconciler. It differs from the source in two points: before anything else the reconciler gives
  up snapshots that users marked do-not-delete, and \<open>Synchronize\<close> publishes the image of a
  completed synchronization, marking the snapshot it replaces for cleanup.
\<close>

section \<open>The machine of a ReplicationDestination\<close>

record rdState =
  dm_rd :: replicationdestination
  dm_metrics :: volsyncMetrics
  dm_trace :: trace

definition rdStatus :: "replicationdestination \<Rightarrow> replicationDestinationStatus" where
  "rdStatus rd = (case rd_status rd of Some st \<Rightarrow> st | None \<Rightarrow> emptyRDStatus)"

definition onRdStatus ::
  "(replicationDestinationStatus \<Rightarrow> replicationDestinationStatus) \<Rightarrow>
   replicationdestination \<Rightarrow> replicationdestination" where
  "onRdStatus f rd = rd\<lparr>rd_status := map_option f (rd_status rd)\<rparr>"

abbreviation setRd ::
  "(replicationDestinationStatus \<Rightarrow> replicationDestinationStatus) \<Rightarrow> rdState \<Rightarrow> rdState" where
  "setRd f m \<equiv> m\<lparr>dm_rd := onRdStatus f (dm_rd m)\<rparr>"

definition rdMoverOp :: "(rdPart \<times> trace, 'a) state \<Rightarrow> (rdState, 'a) state" where
  "rdMoverOp mop = State (\<lambda>m.
     case run_state mop (rdPartOf (rdStatus (dm_rd m)), dm_trace m) of
       (out, p, tr) \<Rightarrow> (out, (setRd (withRdPart p) m)\<lparr>dm_trace := tr\<rparr>))"

definition rdKube :: "'a kube \<Rightarrow> (rdState, 'a) state" where
  "rdKube k = State (\<lambda>m. case run_state k (dm_trace m) of (a, tr) \<Rightarrow> (a, m\<lparr>dm_trace := tr\<rparr>))"

definition rdSynchronize ::
  "cluster \<Rightarrow> rdPart mover \<Rightarrow> (rdState, (mresult \<times> gerror option) go) state" where
  "rdSynchronize cl mv = do {
     out \<leftarrow> rdMoverOp (mo_Synchronize mv);
     case out of
       Panic \<Rightarrow> ret Panic
     | Ret (result, err) \<Rightarrow>
         if mr_completed result \<and> mr_image result \<noteq> None then do {
           m \<leftarrow> State_Monad.get;
           err' \<leftarrow> rdKube (MarkOldSnapshotForCleanup cl (dm_rd m)
                     (rds_latestImage (rdStatus (dm_rd m))) (mr_image result));
           case err' of
             Some x \<Rightarrow> ret (Ret (InProgress, Some x))
           | None \<Rightarrow> do {
               upd (setRd (\<lambda>st. st\<lparr>rds_latestImage := mr_image result\<rparr>));
               ret (Ret (result, None)) } }
         else ret (Ret (result, err)) }"

definition rdMachine :: "cluster \<Rightarrow> rdPart mover \<Rightarrow> rdState machine" where
  "rdMachine cl mv = \<lparr>
     Cronspec = (\<lambda>m. case rd_trigger (dm_rd m) of
        Some t \<Rightarrow> (case trig_schedule t of Some s \<Rightarrow> s | None \<Rightarrow> [])
      | None \<Rightarrow> []),
     ManualTag = (\<lambda>m. case rd_trigger (dm_rd m) of Some t \<Rightarrow> trig_manual t | None \<Rightarrow> []),
     LastManualTag = (\<lambda>m. rds_lastManualSync (rdStatus (dm_rd m))),
     SetLastManualTag = (\<lambda>tag. setRd (\<lambda>st. st\<lparr>rds_lastManualSync := tag\<rparr>)),
     NextSyncTime = (\<lambda>m. rds_nextSyncTime (rdStatus (dm_rd m))),
     SetNextSyncTime = (\<lambda>next. setRd (\<lambda>st. st\<lparr>rds_nextSyncTime := next\<rparr>)),
     LastSyncStartTime = (\<lambda>m. rds_lastSyncStartTime (rdStatus (dm_rd m))),
     SetLastSyncStartTime = (\<lambda>last. setRd (\<lambda>st. st\<lparr>rds_lastSyncStartTime := last\<rparr>)),
     LastSyncTime = (\<lambda>m. rds_lastSyncTime (rdStatus (dm_rd m))),
     SetLastSyncTime = (\<lambda>last. setRd (\<lambda>st. st\<lparr>rds_lastSyncTime := last\<rparr>)),
     LastSyncDuration = (\<lambda>m. rds_lastSyncDuration (rdStatus (dm_rd m))),
     SetLastSyncDuration = (\<lambda>d. setRd (\<lambda>st. st\<lparr>rds_lastSyncDuration := d\<rparr>)),
     Conditions = (\<lambda>m. rds_conditions (rdStatus (dm_rd m))),
     SetConditions = (\<lambda>cs. setRd (\<lambda>st. st\<lparr>rds_conditions := cs\<rparr>)),
     SetOutOfSync = (\<lambda>b m. m\<lparr>dm_metrics := (dm_metrics m)\<lparr>OutOfSync := Some b\<rparr>\<rparr>),
     IncMissedIntervals = (\<lambda>m. m\<lparr>dm_metrics :=
        (dm_metrics m)\<lparr>MissedIntervals := Suc (MissedIntervals (dm_metrics m))\<rparr>\<rparr>),
     ObserveSyncDuration = (\<lambda>d m. m\<lparr>dm_metrics :=
        (dm_metrics m)\<lparr>SyncDurations := d # SyncDurations (dm_metrics m)\<rparr>\<rparr>),
     Synchronize = rdSynchronize cl mv,
     Cleanup = rdMoverOp (mo_Cleanup mv)\<rparr>"

definition rdEnv :: "cluster \<Rightarrow> rdState smenv" where
  "rdEnv cl = \<lparr>
     se_now = State (\<lambda>m. (timeNow cl (dm_trace m), m\<lparr>dm_trace := CNow # dm_trace m\<rparr>)),
     se_setStatusCondition = setStatusCondition cl,
     se_cronParse = cronParse cl\<rparr>"

section \<open>The reconciler\<close>

definition rdLabels :: "replicationdestination \<Rightarrow> rdPart mover \<Rightarrow> metricLabels" where
  "rdLabels rd mv = \<lparr>ml_objName = om_name rd, ml_objNamespace = om_namespace rd,
     ml_role = ''destination'', ml_method = mo_Name mv\<rparr>"

definition newRDMachine ::
  "builder list \<Rightarrow> replicationdestination \<Rightarrow> bool \<Rightarrow>
   ((gerror + rdPart mover) \<times> replicationdestination) kube" where
  "newRDMachine catalog rd privilegedMoverOk = do {
     (dataMover, p) \<leftarrow> GetDestinationMoverFromCatalog catalog rd privilegedMoverOk (rdPartOf (rdStatus rd));
     ret (dataMover, onRdStatus (withRdPart p) rd) }"

definition rdCheckMethods ::
  "cluster \<Rightarrow> builder list \<Rightarrow> gerror + rdPart mover \<Rightarrow> replicationdestination \<Rightarrow>
   gerror option \<times> replicationdestination" where
  "rdCheckMethods cl catalog rdm inst =
     (case rdm of
        Inr _ \<Rightarrow>
          if rd_external inst \<noteq> None then
            (Some ErrMultipleMoversFound, onRdStatus (\<lambda>st. st\<lparr>rds_conditions :=
               setStatusCondition cl (rds_conditions st)
                 (syncCondition ConditionFalse SynchronizingReasonError
                    (errorMsg ErrMultipleMoversFound))\<rparr>) inst)
          else (None, inst)
      | Inl err \<Rightarrow>
          if rd_external inst = None then
            (Some ErrNoMoverFound, onRdStatus (\<lambda>st. st\<lparr>rds_conditions :=
               setStatusCondition cl (rds_conditions st)
                 (syncCondition ConditionFalse SynchronizingReasonError
                    (errorMsg ErrNoMoverFound @ enabledMoversSuffix catalog))\<rparr>) inst)
          else (Some err, inst))"

definition rdStatusUpdateCall :: "cluster \<Rightarrow> replicationdestination \<Rightarrow> gerror option kube" where
  "rdStatusUpdateCall cl inst =
     ask (\<lambda>tr. rdStatusUpdate cl tr inst) (CStatusUpdate (OReplicationDestination inst))"

definition rdRunMachine ::
  "cluster \<Rightarrow> rdPart mover \<Rightarrow> replicationdestination \<Rightarrow>
   (metricVec \<times> trace, (ctrlResult \<times> gerror option) go \<times> replicationdestination) state" where
  "rdRunMachine cl mv inst = State (\<lambda>(vec, tr).
     let labels = rdLabels inst mv in
     case run_state (Run (rdEnv cl) (rdMachine cl mv))
            \<lparr>dm_rd = inst, dm_metrics = newVolSyncMetrics vec labels, dm_trace = tr\<rparr> of
       (out, m) \<Rightarrow> ((out, dm_rd m), vec(labels := dm_metrics m), dm_trace m))"

definition rdFinish ::
  "cluster \<Rightarrow> (ctrlResult \<times> gerror option) go \<Rightarrow> replicationdestination \<Rightarrow>
   (metricVec \<times> trace, (ctrlResult \<times> gerror option) go) state" where
  "rdFinish cl out inst =
     (case out of
        Panic \<Rightarrow> ret Panic
      | Ret (result, err) \<Rightarrow> do {
          statusErr \<leftarrow> onTrace (rdStatusUpdateCall cl inst);
          ret (Ret (result, (if err = None then statusErr else err))) })"

definition rdReconcile ::
  "cluster \<Rightarrow> builder list \<Rightarrow> key \<Rightarrow>
   (metricVec \<times> trace, (ctrlResult \<times> gerror option) go) state" where
  "rdReconcile cl catalog req = do {
     r \<leftarrow> onTrace (kGet (rdC cl) req);
     case r of
       Inl err \<Rightarrow> ret (Ret (emptyResult, IgnoreNotFound (Some err)))
     | Inr inst0 \<Rightarrow> do {
         let inst1 = (if rd_status inst0 = None then inst0\<lparr>rd_status := Some emptyRDStatus\<rparr> else inst0);
         rerr \<leftarrow> onTrace (RelinquishOwnedSnapshotsWithDoNotDeleteLabel cl inst1);
         case rerr of
           Some err \<Rightarrow> ret (Ret (emptyResult, Some err))
         | None \<Rightarrow> do {
             (privilegedMoverOk, perr) \<leftarrow> onTrace (PrivilegedMoversOk cl (om_namespace inst1));
             case perr of
               Some err \<Rightarrow> ret (Ret (emptyResult, Some err))
             | None \<Rightarrow> do {
                 (rdm, inst2) \<leftarrow> onTrace (newRDMachine catalog inst1 privilegedMoverOk);
                 if rdm = Inl ErrNoMoverFound \<and> rd_external inst2 \<noteq> None
                 then ret (Ret (emptyResult, None))
                 else (case rdCheckMethods cl catalog rdm inst2 of
                   (Some err, inst3) \<Rightarrow> rdFinish cl (Ret (emptyResult, Some err)) inst3
                 | (None, inst3) \<Rightarrow>
                     (case rdm of
                        Inl err \<Rightarrow> ret Panic
                      | Inr mv \<Rightarrow> do {
                          (out, inst4) \<leftarrow> rdRunMachine cl mv inst3;
                          rdFinish cl out inst4 })) } } } }"

section \<open>The machine implements the contract\<close>

definition rdView :: "rdState \<Rightarrow> sview" where
  "rdView m = \<lparr>
     v_cron = (case rd_trigger (dm_rd m) of
        Some t \<Rightarrow> (case trig_schedule t of Some s \<Rightarrow> s | None \<Rightarrow> []) | None \<Rightarrow> []),
     v_manual = (case rd_trigger (dm_rd m) of Some t \<Rightarrow> trig_manual t | None \<Rightarrow> []),
     v_lastManual = rds_lastManualSync (rdStatus (dm_rd m)),
     v_next = rds_nextSyncTime (rdStatus (dm_rd m)),
     v_start = rds_lastSyncStartTime (rdStatus (dm_rd m)),
     v_last = rds_lastSyncTime (rdStatus (dm_rd m)),
     v_duration = rds_lastSyncDuration (rdStatus (dm_rd m)),
     v_conds = rds_conditions (rdStatus (dm_rd m)),
     v_outOfSync = OutOfSync (dm_metrics m),
     v_missed = MissedIntervals (dm_metrics m),
     v_observed = SyncDurations (dm_metrics m)\<rparr>"

definition rdInv :: "rdState \<Rightarrow> bool" where
  "rdInv m \<longleftrightarrow> rd_status (dm_rd m) \<noteq> None"

lemma rdStatus_on [simp]: "rd_status rd \<noteq> None \<Longrightarrow> rdStatus (onRdStatus f rd) = f (rdStatus rd)"
  by (auto simp: rdStatus_def onRdStatus_def)

lemma onRdStatus_sel [simp]:
  "rd_trigger (onRdStatus f rd) = rd_trigger rd" "rd_external (onRdStatus f rd) = rd_external rd"
  "om_name (onRdStatus f rd) = om_name rd" "om_namespace (onRdStatus f rd) = om_namespace rd"
  "rd_status (onRdStatus f rd) = map_option f (rd_status rd)"
  by (simp_all add: onRdStatus_def)

lemma rdMoverOp_keeps:
  assumes "rdInv m"
  shows "rdView (snd (run_state (rdMoverOp mop) m)) = rdView m"
    "rdInv (snd (run_state (rdMoverOp mop) m))"
    "rds_latestImage (rdStatus (dm_rd (snd (run_state (rdMoverOp mop) m)))) =
     rds_latestImage (rdStatus (dm_rd m))"
  using assms
  by (auto simp: rdMoverOp_def rdView_def rdInv_def withRdPart_def split: prod.splits)

lemma rdKube_keeps:
  "rdView (snd (run_state (rdKube k) m)) = rdView m" "dm_rd (snd (run_state (rdKube k) m)) = dm_rd m"
  by (auto simp: rdKube_def rdView_def split: prod.splits)

lemma rdSetImage_keeps:
  "rdInv m \<Longrightarrow> rdView (setRd (\<lambda>st. st\<lparr>rds_latestImage := i\<rparr>) (m\<lparr>dm_trace := tr\<rparr>)) = rdView m"
  "rdInv m \<Longrightarrow> rdInv (setRd (\<lambda>st. st\<lparr>rds_latestImage := i\<rparr>) (m\<lparr>dm_trace := tr\<rparr>))"
  by (auto simp: rdView_def rdInv_def)

text \<open>
  What \<open>Synchronize\<close> of the machine does: the mover runs first; an image of a completed
  synchronization is published if the old one could be marked for cleanup.
\<close>

lemma rdSynchronize_cases:
  assumes inv: "rdInv m" and run: "run_state (rdSynchronize cl mv) m = (out, m')"
  obtains m1 where "run_state (rdMoverOp (mo_Synchronize mv)) m = (out, m1)" "m' = m1"
    "out = Panic \<or> (\<exists>res err. out = Ret (res, err) \<and> \<not> (mr_completed res \<and> mr_image res \<noteq> None))"
  | res err m1 x tr where "run_state (rdMoverOp (mo_Synchronize mv)) m = (Ret (res, err), m1)"
    "mr_completed res" "mr_image res \<noteq> None"
    "run_state (MarkOldSnapshotForCleanup cl (dm_rd m1) (rds_latestImage (rdStatus (dm_rd m)))
       (mr_image res)) (dm_trace m1) = (Some x, tr)"
    "out = Ret (InProgress, Some x)" "m' = m1\<lparr>dm_trace := tr\<rparr>"
  | res err m1 tr where "run_state (rdMoverOp (mo_Synchronize mv)) m = (Ret (res, err), m1)"
    "mr_completed res" "mr_image res \<noteq> None"
    "run_state (MarkOldSnapshotForCleanup cl (dm_rd m1) (rds_latestImage (rdStatus (dm_rd m)))
       (mr_image res)) (dm_trace m1) = (None, tr)"
    "out = Ret (res, None)" "m' = setRd (\<lambda>st. st\<lparr>rds_latestImage := mr_image res\<rparr>) (m1\<lparr>dm_trace := tr\<rparr>)"
proof -
  obtain o1 m1 where m1: "run_state (rdMoverOp (mo_Synchronize mv)) m = (o1, m1)" by fastforce
  have img: "rds_latestImage (rdStatus (dm_rd m1)) = rds_latestImage (rdStatus (dm_rd m))"
    using rdMoverOp_keeps(3)[OF inv, of "mo_Synchronize mv"] m1 by simp
  consider "o1 = Panic" | res err where "o1 = Ret (res, err)" "\<not> (mr_completed res \<and> mr_image res \<noteq> None)"
    | res err where "o1 = Ret (res, err)" "mr_completed res" "mr_image res \<noteq> None"
    by (metis go.exhaust surj_pair)
  then show thesis
  proof cases
    case 1
    with run m1 show thesis by (intro that(1)[of m1]) (auto simp: rdSynchronize_def)
  next
    case (2 res err)
    with run m1 show thesis by (intro that(1)[of m1]) (auto simp: rdSynchronize_def)
  next
    case (3 res err)
    obtain e' tr where mark: "run_state (MarkOldSnapshotForCleanup cl (dm_rd m1)
        (rds_latestImage (rdStatus (dm_rd m))) (mr_image res)) (dm_trace m1) = (e', tr)" by fastforce
    show thesis
    proof (cases e')
      case None
      with 3 run m1 mark img show thesis
        by (intro that(3)[of res err m1 tr]) (auto simp: rdSynchronize_def rdKube_def)
    next
      case (Some x)
      with 3 run m1 mark img show thesis
        by (intro that(2)[of res err m1 x tr]) (auto simp: rdSynchronize_def rdKube_def)
    qed
  qed
qed

lemma rdSynchronize_keeps:
  assumes "rdInv m"
  shows "rdView (snd (run_state (rdSynchronize cl mv) m)) = rdView m \<and>
    rdInv (snd (run_state (rdSynchronize cl mv) m))"
proof -
  obtain out m' where run: "run_state (rdSynchronize cl mv) m = (out, m')" by fastforce
  have trc: "rdView (m1\<lparr>dm_trace := tr\<rparr>) = rdView m1" "rdInv (m1\<lparr>dm_trace := tr\<rparr>) = rdInv m1" for m1 tr
    by (simp_all add: rdView_def rdInv_def)
  note k = rdMoverOp_keeps[OF assms, of "mo_Synchronize mv"]
  from assms run show ?thesis
    by (cases rule: rdSynchronize_cases) (use k run in \<open>auto simp: trc rdSetImage_keeps[simplified]\<close>)
qed

interpretation rdm: replication_machine "rdEnv cl" "rdMachine cl mv" rdView rdInv for cl mv
proof (unfold_locales, goal_cases)
  case (26 m)
  then show ?case by (simp add: rdEnv_def rdView_def)
next
  case (27 m)
  then show ?case by (simp add: rdEnv_def rdInv_def)
qed (auto simp: rdMachine_def rdMoverOp_keeps rdSynchronize_keeps; simp add: rdView_def rdInv_def)+

section \<open>What a run of a ReplicationDestination does\<close>

lemma rd_clock: "clock_time (rdEnv cl) t \<Longrightarrow> \<exists>tr. t = timeNow cl tr"
  by (auto simp: clock_time_def rdEnv_def)

lemmas rd_run_state = rdm.run_state_view[unfolded rdInv_def]

definition sampleRD :: "replicationDestinationStatus option \<Rightarrow> replicationdestination" where
  "sampleRD st = objmeta.extend (newMeta ''ns'' ''rd'')
     (replicationdestination.fields (Some \<lparr>trig_schedule = None, trig_manual = ''once''\<rparr>)
        None None None None None None False st)"

definition sampleRdState :: "replicationDestinationStatus \<Rightarrow> rdState" where
  "sampleRdState st = \<lparr>dm_rd = sampleRD (Some st),
     dm_metrics = \<lparr>MissedIntervals = 0, OutOfSync = None, SyncDurations = []\<rparr>, dm_trace = []\<rparr>"

definition sampleImage :: "string \<Rightarrow> typedref" where
  "sampleImage name = \<lparr>tr_apiGroup = Some snapshotGroup, tr_kind = ''VolumeSnapshot'', tr_name = name\<rparr>"

definition imageMover :: "rdPart mover" where
  "imageMover = \<lparr>mo_Name = ''sample'',
     mo_Synchronize = ret (Ret (CompleteWithImage (Some (sampleImage ''new'')), None)),
     mo_Cleanup = ret (Ret (Complete, None))\<rparr>"

lemmas sample_rd_defs = sample_run_defs rdMachine_def rdMoverOp_def sampleRdState_def sampleRD_def
  rdStatus_def onRdStatus_def rdEnv_def emptyRDStatus_def withRdPart_def rdSynchronize_def rdKube_def
  replicationdestination.defs new_defs

text \<open>C6: A run of the state machine on a ReplicationDestination either ends in an error and leaves it in
  its phase, or takes a step of the life cycle (initial, synchronizing, cleaning up, and around).\<close>

theorem rd_life_cycle:
  assumes "rd_status (dm_rd m) \<noteq> None" and "\<And>tr. timeNow cl tr \<noteq> 0"
    and "run_state (Run (rdEnv cl) (rdMachine cl mv)) m = (Ret (res, err), m')"
  shows "if err = None
    then phase_step (currentState (rdMachine cl mv) m) (currentState (rdMachine cl mv) m')
    else currentState (rdMachine cl mv) m' = currentState (rdMachine cl mv) m"
proof -
  have inv: "rdInv m" using assms(1) by (simp add: rdInv_def)
  show ?thesis
  proof (cases err)
    case None
    have "phase_step (phase (rdView m)) (phase (rdView m'))"
      by (rule rdm.run_step[OF inv _ assms(3)[unfolded None]]) (use assms(2) in \<open>auto dest: rd_clock\<close>)
    with None show ?thesis unfolding rd_run_state[OF assms(1,3)] by simp
  next
    case (Some x)
    with rdm.run_error[OF inv] assms(3) show ?thesis unfolding rd_run_state[OF assms(1,3)] by auto
  qed
qed

theorem rd_life_cycle_witness:
  "\<exists>m'. run_state (Run (rdEnv sampleCluster) (rdMachine sampleCluster imageMover))
       (sampleRdState emptyRDStatus) = (Ret (emptyResult, None), m') \<and>
     phase_step (currentState (rdMachine sampleCluster imageMover) (sampleRdState emptyRDStatus))
       (currentState (rdMachine sampleCluster imageMover) m')"
proof -
  let ?run = "run_state (Run (rdEnv sampleCluster) (rdMachine sampleCluster imageMover))
    (sampleRdState emptyRDStatus)"
  have "fst ?run = Ret (emptyResult, None)" by (simp add: sample_rd_defs)
  then have run: "?run = (Ret (emptyResult, None), snd ?run)" by (metis prod.collapse)
  have "rd_status (dm_rd (sampleRdState emptyRDStatus)) \<noteq> None" by (simp add: sample_rd_defs)
  from rd_life_cycle[OF this _ run] run show ?thesis by (auto simp: hour_def minute_def second_def)
qed

section \<open>Publishing the image\<close>

lemma MarkOld_looks_up:
  assumes "IsSnapshot old" "IsSnapshot latest" "tr_name (the latest) \<noteq> tr_name (the old)"
    and "run_state (MarkOldSnapshotForCleanup cl owner old latest) tr = (err, tr')"
  shows "CGet KSnapshot (om_namespace owner, tr_name (the old)) \<in> set tr'"
  using assms by (auto simp: MarkOldSnapshotForCleanup_def kube_ops split: sum.splits if_splits)

lemma rdMoverOp_namespace:
  "om_namespace (dm_rd (snd (run_state (rdMoverOp mop) m))) = om_namespace (dm_rd m)"
  by (simp add: rdMoverOp_def split: prod.splits)

text \<open>C7: The latest image of a ReplicationDestination changes only to the image of a synchronization
  the mover completed, in a call that reports no error; if the image it replaces is another
  snapshot, that snapshot was looked up to be marked for cleanup in the same call. A failure to
  mark it leaves the old image in place.\<close>

theorem rd_latest_image:
  assumes "rd_status (dm_rd m) \<noteq> None"
    and "run_state (Synchronize (rdMachine cl mv)) m = (out, m')"
    and "rds_latestImage (rdStatus (dm_rd m')) \<noteq> rds_latestImage (rdStatus (dm_rd m))"
  shows "\<exists>res. out = Ret (res, None) \<and> mr_completed res \<and> mr_image res \<noteq> None \<and>
    rds_latestImage (rdStatus (dm_rd m')) = mr_image res \<and>
    (IsSnapshot (rds_latestImage (rdStatus (dm_rd m))) \<and> IsSnapshot (mr_image res) \<and>
       tr_name (the (mr_image res)) \<noteq> tr_name (the (rds_latestImage (rdStatus (dm_rd m)))) \<longrightarrow>
     CGet KSnapshot (om_namespace (dm_rd m), tr_name (the (rds_latestImage (rdStatus (dm_rd m)))))
       \<in> set (dm_trace m'))"
proof -
  have inv: "rdInv m" using assms(1) by (simp add: rdInv_def)
  have run: "run_state (rdSynchronize cl mv) m = (out, m')" using assms(2) by (simp add: rdMachine_def)
  note k = rdMoverOp_keeps[OF inv, of "mo_Synchronize mv"]
    rdMoverOp_namespace[of "mo_Synchronize mv" m]
  from inv run show ?thesis
  proof (cases rule: rdSynchronize_cases)
    case (3 res err m1 tr)
    have "rdInv m1" using k 3(1) by simp
    with 3 k MarkOld_looks_up[OF _ _ _ 3(4)] show ?thesis by (auto simp: rdInv_def)
  qed (use assms(3) k in auto)
qed

theorem rd_latest_image_witness:
  "rds_latestImage (rdStatus (dm_rd (snd (run_state (Synchronize (rdMachine sampleCluster imageMover))
     (sampleRdState (emptyRDStatus\<lparr>rds_latestImage := Some (sampleImage ''old'')\<rparr>)))))) =
   Some (sampleImage ''new'')"
proof -
  let ?m = "sampleRdState (emptyRDStatus\<lparr>rds_latestImage := Some (sampleImage ''old'')\<rparr>)"
  let ?run = "run_state (Synchronize (rdMachine sampleCluster imageMover)) ?m"
  have out: "fst ?run = Ret (CompleteWithImage (Some (sampleImage ''new'')), None)"
    by (simp add: sample_rd_defs imageMover_def MarkOldSnapshotForCleanup_def kube_ops
        IsSnapshot_Some sampleImage_def CompleteWithImage_def)
  have ne: "rds_latestImage (rdStatus (dm_rd (snd ?run))) \<noteq> rds_latestImage (rdStatus (dm_rd ?m))"
    by (simp add: sample_rd_defs imageMover_def MarkOldSnapshotForCleanup_def kube_ops
        IsSnapshot_Some sampleImage_def CompleteWithImage_def)
  have "rd_status (dm_rd ?m) \<noteq> None" by (simp add: sample_rd_defs)
  from rd_latest_image[OF this prod.collapse[symmetric] ne] out show ?thesis by (simp add: CompleteWithImage_def)
qed

end
