(* ===== verification/Names.thy ===== *)
theory Names
  imports Prelude "HOL-Library.Word"
begin

unbundle bit_operations_syntax

text \<open>
  Names derived from the names of resources (\<open>utils/utils.go\<close>): they are kept as they are while they
  fit and replaced by a hash when they are too long. The hash is \<open>crc32.ChecksumIEEE\<close> of Go's
  standard library, written out on 32-bit words, printed with \<open>%08x\<close>.
\<close>

definition crc32_poly :: "32 word" where "crc32_poly = 0xEDB88320"

definition crc32_bit :: "32 word \<Rightarrow> 32 word" where
  "crc32_bit c = (if bit c 0 then drop_bit 1 c XOR crc32_poly else drop_bit 1 c)"

definition crc32_byte :: "char \<Rightarrow> 32 word \<Rightarrow> 32 word" where
  "crc32_byte b c = (crc32_bit ^^ 8) (c XOR of_nat (of_char b))"

definition ChecksumIEEE :: "string \<Rightarrow> 32 word" where
  "ChecksumIEEE s = NOT (fold crc32_byte s (NOT 0))"

definition hexDigit :: "nat \<Rightarrow> char" where
  "hexDigit n = (if n < 10 then char_of (48 + n) else char_of (87 + n))"

definition hex8 :: "32 word \<Rightarrow> string" where
  "hex8 w = map (\<lambda>i. hexDigit (unat (drop_bit (4 * i) w AND 15))) [7, 6, 5, 4, 3, 2, 1, 0]"

definition GetHashedName :: "string \<Rightarrow> string" where
  "GetHashedName name = hex8 (ChecksumIEEE name)"

definition JobNameMaxLength :: nat where "JobNameMaxLength = 63"
definition ServiceNameMaxLength :: nat where "ServiceNameMaxLength = 63"
definition LabelValueMaxLength :: nat where "LabelValueMaxLength = 63"

definition getShortenedResourceName :: "string \<Rightarrow> string \<Rightarrow> nat \<Rightarrow> string" where
  "getShortenedResourceName namePrefix ownerName maxLength =
     (let name = namePrefix @ ownerName in
      if length name > maxLength then namePrefix @ GetHashedName ownerName else name)"

definition GetJobName :: "string \<Rightarrow> string \<Rightarrow> string" where
  "GetJobName namePrefix ownerName = getShortenedResourceName namePrefix ownerName JobNameMaxLength"

definition GetServiceName :: "string \<Rightarrow> string \<Rightarrow> string" where
  "GetServiceName namePrefix ownerName = getShortenedResourceName namePrefix ownerName ServiceNameMaxLength"

definition GetOwnerNameLabelValue :: "string \<Rightarrow> string \<Rightarrow> string" where
  "GetOwnerNameLabelValue namePrefix ownerName =
     getShortenedResourceName namePrefix ownerName LabelValueMaxLength"

lemmas name_defs = GetJobName_def GetServiceName_def GetOwnerNameLabelValue_def
  getShortenedResourceName_def JobNameMaxLength_def ServiceNameMaxLength_def LabelValueMaxLength_def

lemma length_GetHashedName [simp]: "length (GetHashedName n) = 8"
  by (simp add: GetHashedName_def hex8_def)

lemma hexDigit_range: "n < 16 \<Longrightarrow> hexDigit n \<in> set ''0123456789abcdef''"
proof -
  have "\<forall>n \<in> set [0..<16]. hexDigit n \<in> set ''0123456789abcdef''" by code_simp
  then show "n < 16 \<Longrightarrow> hexDigit n \<in> set ''0123456789abcdef''" by simp
qed

lemma nibble_less: "unat (w AND 15 :: 32 word) < 16"
proof -
  have "(w AND 15 :: 32 word) \<le> 15" by (rule word_and_le1)
  then show ?thesis by (simp add: word_le_nat_alt)
qed

text \<open>The names of jobs, services and label values never exceed 63 characters as long as the fixed
  prefix leaves room for the hash; a name that fits is used as it is, and one that does not is
  the prefix followed by eight lower-case hexadecimal digits.\<close>

theorem shortened_name_fits:
  assumes "length namePrefix + 8 \<le> maxLength"
  shows "length (getShortenedResourceName namePrefix ownerName maxLength) \<le> maxLength \<and>
    (length (namePrefix @ ownerName) \<le> maxLength \<longrightarrow>
       getShortenedResourceName namePrefix ownerName maxLength = namePrefix @ ownerName) \<and>
    (length (namePrefix @ ownerName) > maxLength \<longrightarrow>
       (\<exists>h. getShortenedResourceName namePrefix ownerName maxLength = namePrefix @ h \<and>
            length h = 8 \<and> set h \<subseteq> set ''0123456789abcdef''))"
proof -
  have "set (GetHashedName ownerName) \<subseteq> set ''0123456789abcdef''"
    unfolding GetHashedName_def hex8_def using hexDigit_range[OF nibble_less] by auto
  with assms show ?thesis by (simp add: name_defs Let_def)
qed

theorem shortened_name_fits_witness:
  "length (GetJobName ''volsync-src-'' (replicate 60 CHR ''x'')) \<le> 63"
  using shortened_name_fits[of "''volsync-src-''" 63 "replicate 60 CHR ''x''"]
  by (simp add: GetJobName_def JobNameMaxLength_def)

text \<open>A check value of this variant of CRC-32: the ASCII string 1.\<close>

lemma ChecksumIEEE_check: "ChecksumIEEE ''1'' = 0x83DCEFB7"
  by code_simp

end
