(* ===== verification/Utils.thy ===== *)
theory Utils
  imports Movers Names "HOL-Library.Char_ord" "HOL-Library.List_Lexorder"
begin

text \<open>
  The helpers the movers share: \<open>utils/utils.go\<close> (validation of secrets, config maps and mover
  volumes, environment variables, pod templates), \<open>utils/affinity.go\<close>, \<open>utils/customca.go\<close> and
  \<open>utils/reconcile.go\<close>.
\<close>

section \<open>Secrets and config maps\<close>

definition slice_v :: "string list \<Rightarrow> string" where
  "slice_v xs = ''['' @ strings_Join xs '' '' @ '']''"

fun missingField :: "strmap \<Rightarrow> string list \<Rightarrow> string option" where
  "missingField data [] = None"
| "missingField data (k # ks) = (if map_of data k = None then Some k else missingField data ks)"

definition SecretHasFields :: "secret \<Rightarrow> string list \<Rightarrow> gerror option" where
  "SecretHasFields s flds =
     (case sec_data s of
        None \<Rightarrow> Some (Errorf (''secret should have fields: '' @ slice_v flds))
      | Some data \<Rightarrow>
          if length (entries data) < length flds
          then Some (Errorf (''secret should have fields: '' @ slice_v flds))
          else map_option (\<lambda>k. Errorf (''secret is missing field: '' @ k)) (missingField data flds))"

definition GetAndValidateSecret ::
  "cluster \<Rightarrow> key \<Rightarrow> string list \<Rightarrow> (gerror + secret) kube" where
  "GetAndValidateSecret cl k flds = do {
     r \<leftarrow> kGet (secretC cl) k;
     case r of
       Inl err \<Rightarrow> ret (Inl err)
     | Inr s \<Rightarrow> ret (case SecretHasFields s flds of Some err \<Rightarrow> Inl err | None \<Rightarrow> Inr s) }"

definition EnvFromSecret :: "string \<Rightarrow> string \<Rightarrow> bool \<Rightarrow> envvar" where
  "EnvFromSecret secretName field optional =
     \<lparr>ev_name = field, ev_value = [], ev_secretRef = Some (secretName, field, optional)\<rparr>"

definition ConfigMapHasFields :: "configmap \<Rightarrow> string list \<Rightarrow> gerror option" where
  "ConfigMapHasFields cm flds =
     (case cm_data cm of
        None \<Rightarrow> Some (Errorf (''configmap should have fields: '' @ slice_v flds))
      | Some data \<Rightarrow>
          if length (entries data) < length flds
          then Some (Errorf (''configmap should have fields: '' @ slice_v flds))
          else map_option (\<lambda>k. Errorf (''configmap is missing field: '' @ k)) (missingField data flds))"

definition GetAndValidateConfigMap ::
  "cluster \<Rightarrow> key \<Rightarrow> string list \<Rightarrow> (gerror + configmap) kube" where
  "GetAndValidateConfigMap cl k flds = do {
     r \<leftarrow> kGet (configMapC cl) k;
     case r of
       Inl err \<Rightarrow> ret (Inl err)
     | Inr cm \<Rightarrow> ret (case ConfigMapHasFields cm flds of Some err \<Rightarrow> Inl err | None \<Rightarrow> Inr cm) }"

definition IsCRDNotPresentError :: "gerror \<Rightarrow> bool" where
  "IsCRDNotPresentError err \<longleftrightarrow> isNoMatch err \<or> isNotFound err \<or>
     str_contains (errorMsg err) ''failed to get API group resources''"

section \<open>Services and claims\<close>

definition GetServiceAddress :: "service \<Rightarrow> string" where
  "GetServiceAddress svc =
     (if svc_type svc = LoadBalancer then
        (case svc_ingress svc of
           (hostname, ip) # _ \<Rightarrow>
             if hostname \<noteq> [] then hostname
             else if ip \<noteq> [] then ip
             else svc_clusterIP svc
         | [] \<Rightarrow> [])
      else svc_clusterIP svc)"

definition PvcIsReadOnly :: "pvc \<Rightarrow> bool" where
  "PvcIsReadOnly p =
     (let modes = (if pvc_statusAccessModes p = []
                   then (case pvc_accessModes p of Some ms \<Rightarrow> ms | None \<Rightarrow> [])
                   else pvc_statusAccessModes p)
      in modes = [ReadOnlyMany])"

definition PvcIsBlockMode :: "pvc \<Rightarrow> bool" where
  "PvcIsBlockMode p \<longleftrightarrow> pvc_volumeMode p = Some Block"

section \<open>Environment variables\<close>

definition proxyVars :: "cluster \<Rightarrow> string \<Rightarrow> string \<Rightarrow> envvar list" where
  "proxyVars cl upper lower =
     (case getenv cl upper of
        Some v \<Rightarrow> [envVal upper v, envVal lower v]
      | None \<Rightarrow> [])"

definition AppendEnvVarsForClusterWideProxy :: "cluster \<Rightarrow> envvar list \<Rightarrow> envvar list" where
  "AppendEnvVarsForClusterWideProxy cl envVars =
     envVars @ proxyVars cl ''HTTP_PROXY'' ''http_proxy''
             @ proxyVars cl ''HTTPS_PROXY'' ''https_proxy''
             @ proxyVars cl ''NO_PROXY'' ''no_proxy''"

definition AppendRCloneEnvVars :: "secret \<Rightarrow> envvar list \<Rightarrow> envvar list" where
  "AppendRCloneEnvVars s envVars =
     (let data = (case sec_data s of Some d \<Rightarrow> d | None \<Rightarrow> []);
          rcloneKeys = filter (\<lambda>k. HasPrefix k ''RCLONE_'') (map fst (entries data))
      in envVars @ map (\<lambda>k. EnvFromSecret (om_name s) k True) (sort rcloneKeys))"

definition AppendDebugMoverEnvVar :: "'a objmeta_scheme \<Rightarrow> envvar list \<Rightarrow> envvar list" where
  "AppendDebugMoverEnvVar obj envVars =
     (if map_of (om_annotations obj) EnableDebugMoverAnnotation \<noteq> None
      then envVars @ [envVal ''DEBUG_MOVER'' ''1''] else envVars)"

section \<open>Affinity (affinity.go)\<close>

definition nodeHostnameLabelKey :: string where
  "nodeHostnameLabelKey = ''kubernetes.io/hostname''"

record affinityInfo =
  ai_nodeSelector :: strmap
  ai_tolerations :: "opaque list"

definition noAffinity :: affinityInfo where
  "noAffinity = \<lparr>ai_nodeSelector = [], ai_tolerations = []\<rparr>"

definition podsUsing :: "string \<Rightarrow> pod list \<Rightarrow> pod list" where
  "podsUsing claim items = concat (map (\<lambda>p. concat (map (\<lambda>v.
     case vs_pvc (vol_source v) of
       Some (name, _) \<Rightarrow> if name = claim then [p] else []
     | None \<Rightarrow> []) (pod_volumes p))) items)"

definition podsUsingPVC :: "cluster \<Rightarrow> pvc \<Rightarrow> (gerror + pod list) kube" where
  "podsUsingPVC cl p = do {
     r \<leftarrow> kList (podC cl) (Some (om_namespace p)) Everything;
     case r of
       Inl err \<Rightarrow> ret (Inl err)
     | Inr items \<Rightarrow> ret (Inr (podsUsing (om_name p) items)) }"

fun candidatePod :: "pod option \<Rightarrow> pod list \<Rightarrow> pod option" where
  "candidatePod cand [] = cand"
| "candidatePod cand (p # ps) =
     (if \<not> IsOwnedByVolsync meta_ops p \<and>
         (pod_phase p = PodRunning \<or> (pod_phase p = PodPending \<and> cand = None))
      then candidatePod (Some p) ps
      else candidatePod cand ps)"

definition getNodeSelectorForNode :: "cluster \<Rightarrow> string \<Rightarrow> (gerror + strmap) kube" where
  "getNodeSelectorForNode cl nodeName = do {
     r \<leftarrow> kGet (nodeC cl) ([], nodeName);
     case r of
       Inl err \<Rightarrow> ret (Inl err)
     | Inr n \<Rightarrow>
         (let v = map_get (om_labels n) nodeHostnameLabelKey in
          if v = [] then
            ret (Inl (Errorf (''unable to find '' @ nodeHostnameLabelKey @ '' label from node ''
              @ nodeName @ '' for nodeSelector'')))
          else ret (Inr [(nodeHostnameLabelKey, v)])) }"

definition AffinityFromVolume :: "cluster \<Rightarrow> pvc option \<Rightarrow> (gerror + affinityInfo) kube" where
  "AffinityFromVolume cl claim =
     (case claim of
        None \<Rightarrow> ret (Inl (Errorf (''can'' @ [CHR 0x27] @ ''t determine affinity for a nil PVC'')))
      | Some p \<Rightarrow>
          if ReadWriteMany \<in> set (pvc_statusAccessModes p) then ret (Inr noAffinity)
          else do {
            r \<leftarrow> podsUsingPVC cl p;
            case r of
              Inl err \<Rightarrow> ret (Inl err)
            | Inr users \<Rightarrow>
                (case candidatePod None users of
                   None \<Rightarrow> ret (Inr noAffinity)
                 | Some cand \<Rightarrow> do {
                     ns \<leftarrow> getNodeSelectorForNode cl (pod_nodeName cand);
                     case ns of
                       Inl err \<Rightarrow> ret (Inl err)
                     | Inr sel \<Rightarrow> ret (Inr \<lparr>ai_nodeSelector = sel,
                         ai_tolerations = pod_tolerations cand\<rparr>) }) })"

section \<open>Pod templates\<close>

definition UpdatePodTemplateSpecFromMoverConfig ::
  "podtemplate \<Rightarrow> moverConfig \<Rightarrow> resources \<Rightarrow> podtemplate" where
  "UpdatePodTemplateSpecFromMoverConfig t cfg defaultMoverResources =
     (let resources = (case mc_resources cfg of Some r \<Rightarrow> r | None \<Rightarrow> defaultMoverResources);
          t1 = t\<lparr>pt_securityContext := mc_securityContext cfg\<rparr>;
          t2 = (if mc_affinity cfg \<noteq> None then t1\<lparr>pt_affinity := mc_affinity cfg\<rparr> else t1);
          t3 = t2\<lparr>pt_containers := map (\<lambda>c. c\<lparr>ct_resources := resources\<rparr>) (pt_containers t2)\<rparr>
      in t3\<lparr>om_labels := fold (\<lambda>(k, v). map_put k v) (entries (mc_podLabels cfg)) (om_labels t3)\<rparr>)"

definition moverVolumeName :: "moverVolume \<Rightarrow> string" where
  "moverVolumeName mv = ''u-'' @ ReplaceAll1 (mv_mountPath mv) CHR ''/'' CHR ''-''"

definition addMoverVolume :: "moverVolume \<Rightarrow> podtemplate \<Rightarrow> podtemplate" where
  "addMoverVolume mv t = t\<lparr>
     pt_containers := (case pt_containers t of
        [] \<Rightarrow> []
      | c # cs \<Rightarrow> c\<lparr>ct_volumeMounts := ct_volumeMounts c @
          [mountAt (moverVolumeName mv) (''/mnt/'' @ mv_mountPath mv)]\<rparr> # cs),
     pt_volumes := pt_volumes t @ [\<lparr>vol_name = moverVolumeName mv,
        vol_source = noVolumeSource\<lparr>vs_pvc := mv_pvc mv, vs_secret := mv_secret mv, vs_nfs := mv_nfs mv\<rparr>\<rparr>]\<rparr>"

definition moverVolumeAffinity ::
  "cluster \<Rightarrow> string \<Rightarrow> moverVolume \<Rightarrow> podtemplate \<Rightarrow> (gerror + podtemplate) kube" where
  "moverVolumeAffinity cl namespace mv t =
     (case mv_pvc mv of
        None \<Rightarrow> ret (Inr t)
      | Some (claimName, _) \<Rightarrow>
          if pt_nodeSelector t = [] \<and> pt_tolerations t = [] then do {
            r \<leftarrow> kGet (pvcC cl) (namespace, claimName);
            case r of
              Inl err \<Rightarrow> ret (Inl err)
            | Inr addlPVC \<Rightarrow> do {
                a \<leftarrow> AffinityFromVolume cl (Some addlPVC);
                case a of
                  Inl err \<Rightarrow> ret (Inl err)
                | Inr aff \<Rightarrow> ret (Inr (t\<lparr>pt_nodeSelector := ai_nodeSelector aff,
                    pt_tolerations := ai_tolerations aff\<rparr>)) } }
          else ret (Inr t))"

fun moverVolumesLoop ::
  "cluster \<Rightarrow> string \<Rightarrow> moverVolume list \<Rightarrow> podtemplate \<Rightarrow> (gerror option \<times> podtemplate) kube" where
  "moverVolumesLoop cl namespace [] t = ret (None, t)"
| "moverVolumesLoop cl namespace (mv # mvs) t = do {
     r \<leftarrow> moverVolumeAffinity cl namespace mv t;
     case r of
       Inl err \<Rightarrow> ret (Some err, t)
     | Inr t1 \<Rightarrow> moverVolumesLoop cl namespace mvs (addMoverVolume mv t1) }"

text \<open>The first container is addressed before the loop, so a template without containers panics.\<close>

definition UpdatePodTemplateSpecWithMoverVolumes ::
  "cluster \<Rightarrow> string \<Rightarrow> podtemplate \<Rightarrow> moverVolume list \<Rightarrow> (gerror option \<times> podtemplate) go kube" where
  "UpdatePodTemplateSpecWithMoverVolumes cl namespace t mvs =
     (if pt_containers t = [] then ret Panic
      else do { r \<leftarrow> moverVolumesLoop cl namespace mvs t; ret (Ret r) })"

definition validateMoverVolume :: "cluster \<Rightarrow> string \<Rightarrow> moverVolume \<Rightarrow> gerror option kube" where
  "validateMoverVolume cl namespace mv =
     (if mv_mountPath mv = [] then
        ret (Some (Errorf ''moverVolume mount path cannot be empty''))
      else if str_contains (mv_mountPath mv) ''/'' then
        ret (Some (Errorf (''moverVolume mount path cannot contain path separators: '' @ mv_mountPath mv)))
      else if str_contains (mv_mountPath mv) ''..'' then
        ret (Some (Errorf (''moverVolume mount path cannot contain path traversal: '' @ mv_mountPath mv)))
      else (case mv_pvc mv of
        Some (claimName, _) \<Rightarrow> do {
          r \<leftarrow> kGet (pvcC cl) (namespace, claimName);
          ret (case r of Inl err \<Rightarrow> Some err | Inr _ \<Rightarrow> None) }
      | None \<Rightarrow>
          (case mv_secret mv of
             Some sv \<Rightarrow> do {
               r \<leftarrow> kGet (secretC cl) (namespace, sv_secretName sv);
               ret (case r of Inl err \<Rightarrow> Some err | Inr _ \<Rightarrow> None) }
           | None \<Rightarrow> ret None)))"

definition ValidateMoverVolumes :: "cluster \<Rightarrow> string \<Rightarrow> moverVolume list \<Rightarrow> gerror option kube" where
  "ValidateMoverVolumes cl namespace mvs = forEach (validateMoverVolume cl namespace) mvs"

section \<open>Custom certificate authorities (customca.go)\<close>

datatype customCAObject =
    CustomCAObjectSecret secret string
  | CustomCAObjectConfigMap configmap string

fun GetVolumeSource :: "customCAObject \<Rightarrow> string \<Rightarrow> volumesource" where
  "GetVolumeSource (CustomCAObjectSecret s k) path = noVolumeSource\<lparr>vs_secret :=
     Some \<lparr>sv_secretName = om_name s, sv_items = [(k, path, None)], sv_defaultMode = None\<rparr>\<rparr>"
| "GetVolumeSource (CustomCAObjectConfigMap cm k) path = noVolumeSource\<lparr>vs_configMap :=
     Some \<lparr>cv_name = om_name cm, cv_items = [(k, path, None)], cv_defaultMode = None\<rparr>\<rparr>"

definition ValidateCustomCA ::
  "cluster \<Rightarrow> string \<Rightarrow> customCASpec \<Rightarrow> (gerror + customCAObject option) kube" where
  "ValidateCustomCA cl namespace ca =
     (if ca_key ca = [] then ret (Inr None)
      else if ca_secretName ca \<noteq> [] then do {
        r \<leftarrow> GetAndValidateSecret cl (namespace, ca_secretName ca) [ca_key ca];
        ret (case r of Inl err \<Rightarrow> Inl err | Inr s \<Rightarrow> Inr (Some (CustomCAObjectSecret s (ca_key ca)))) }
      else if ca_configMapName ca \<noteq> [] then do {
        r \<leftarrow> GetAndValidateConfigMap cl (namespace, ca_configMapName ca) [ca_key ca];
        ret (case r of Inl err \<Rightarrow> Inl err | Inr cm \<Rightarrow> Inr (Some (CustomCAObjectConfigMap cm (ca_key ca)))) }
      else ret (Inr None))"

section \<open>Reconciling (reconcile.go)\<close>

text \<open>The functions of a batch share the object they are methods of, here passed along.\<close>

fun ReconcileBatch ::
  "('d \<Rightarrow> (bool \<times> gerror option \<times> 'd) kube) list \<Rightarrow> 'd \<Rightarrow> (bool \<times> gerror option \<times> 'd) kube" where
  "ReconcileBatch [] d = ret (True, None, d)"
| "ReconcileBatch (f # fs) d = do {
     (cont, err, d1) \<leftarrow> f d;
     if \<not> cont \<or> err \<noteq> None then ret (cont, err, d1) else ReconcileBatch fs d1 }"

definition CreateOrUpdateDeleteOnImmutableErr ::
  "'o kclient \<Rightarrow> 'o \<Rightarrow> ('o \<Rightarrow> (gerror option \<times> 'o) kube) \<Rightarrow> (opResult \<times> gerror option \<times> 'o) kube" where
  "CreateOrUpdateDeleteOnImmutableErr c obj f = do {
     (op, err, obj1) \<leftarrow> CreateOrUpdate c obj f;
     case err of
       None \<Rightarrow> ret (op, None, obj1)
     | Some e \<Rightarrow>
         if isInvalid e \<and> str_contains (ToLower (errorMsg e)) ''field is immutable'' then do {
           delErr \<leftarrow> kDelete c obj1 None;
           case delErr of
             Some de \<Rightarrow> ret (op, Some de, obj1)
           | None \<Rightarrow> ret (op, Some (Errorf
               ''unable to update object. Deleting object so it can be recreated''), obj1) }
         else ret (op, Some e, obj1) }"

section \<open>Properties\<close>

lemma missingField_None: "missingField data ks = None \<longleftrightarrow> set ks \<subseteq> dom (map_of data)"
  by (induction ks) (auto simp: dom_def)

lemma entries_keys: "map fst (entries m) = remdups (map fst m)"
  by (simp add: entries_def comp_def)

lemma length_entries: "length (entries m) = card (dom (map_of m))"
  by (simp add: entries_def dom_map_of_conv_image_fst length_remdups_card_conv)

lemma size_check_redundant:
  assumes "distinct ks" "set ks \<subseteq> dom (map_of m)"
  shows "\<not> length (entries m) < length ks"
proof -
  have "card (set ks) \<le> card (dom (map_of m))" by (rule card_mono) (auto simp: finite_dom_map_of assms(2))
  then show ?thesis using assms(1) by (simp add: length_entries distinct_card)
qed

text \<open>A secret passes validation exactly when it has data for every required field: the check on
  the number of entries that comes first never rejects a complete secret.\<close>

lemma SecretHasFields_iff:
  assumes "distinct flds"
  shows "SecretHasFields s flds = None \<longleftrightarrow>
    (\<exists>data. sec_data s = Some data \<and> (\<forall>k \<in> set flds. map_of data k \<noteq> None))"
proof (cases "sec_data s")
  case None
  then show ?thesis by (simp add: SecretHasFields_def)
next
  case (Some data)
  have "set flds \<subseteq> dom (map_of data) \<longleftrightarrow> (\<forall>k \<in> set flds. map_of data k \<noteq> None)" by (auto simp: dom_def)
  with Some size_check_redundant[OF assms, of data] missingField_None[of data flds] show ?thesis
    by (auto simp: SecretHasFields_def)
qed

text \<open>The RCLONE_ variables taken from a secret do not depend on the order in which Go iterates over
  the secret's data: two secrets with the same name and the same contents give the same list.\<close>

lemma AppendRCloneEnvVars_order_independent:
  assumes "om_name s = om_name s'" "sec_data s = Some d" "sec_data s' = Some d'" "map_of d = map_of d'"
  shows "AppendRCloneEnvVars s envVars = AppendRCloneEnvVars s' envVars"
proof -
  have "set (map fst (entries d)) = set (map fst (entries d'))"
    using assms(4) by (simp add: entries_keys flip: dom_map_of_conv_image_fst)
  then have "sort (filter P (map fst (entries d))) = sort (filter P (map fst (entries d')))" for P
    by (intro sorted_distinct_set_unique) (auto simp: entries_keys)
  with assms(1-3) show ?thesis by (simp add: AppendRCloneEnvVars_def Let_def)
qed

text \<open>The pod whose node a direct copy is scheduled to.\<close>

lemma candidatePod_Some:
  "candidatePod cand ps = Some p \<Longrightarrow>
     (cand = Some p \<and> (\<forall>q \<in> set ps. pod_phase q = PodRunning \<longrightarrow> IsOwnedByVolsync meta_ops q)) \<or>
     (p \<in> set ps \<and> \<not> IsOwnedByVolsync meta_ops p \<and>
      (pod_phase p = PodRunning \<or>
       (pod_phase p = PodPending \<and> cand = None \<and>
        (\<forall>q \<in> set ps. pod_phase q = PodRunning \<longrightarrow> IsOwnedByVolsync meta_ops q))))"
  by (induction cand ps rule: candidatePod.induct) (fastforce split: if_splits)+

lemma candidatePod_None:
  "candidatePod None ps = None \<longleftrightarrow> (\<forall>q \<in> set ps. IsOwnedByVolsync meta_ops q \<or>
     (pod_phase q \<noteq> PodRunning \<and> pod_phase q \<noteq> PodPending))"
proof -
  have some: "(candidatePod (Some x) ps = None) = False" for x ps
    by (induction ps arbitrary: x) auto
  show ?thesis by (induction ps) (auto simp: some split: if_splits)
qed

text \<open>The pod that decides where a mover is scheduled is one that uses the volume and is not a mover
  itself; it is a running one if there is any, otherwise a pending one, and there is none
  only if no such pod is running or pending.\<close>

theorem candidatePod_spec:
  "case candidatePod None ps of
     Some p \<Rightarrow> p \<in> set ps \<and> \<not> IsOwnedByVolsync meta_ops p \<and>
       (pod_phase p = PodRunning \<or> pod_phase p = PodPending \<and>
          \<not> (\<exists>q \<in> set ps. pod_phase q = PodRunning \<and> \<not> IsOwnedByVolsync meta_ops q))
   | None \<Rightarrow> \<not> (\<exists>q \<in> set ps. \<not> IsOwnedByVolsync meta_ops q \<and>
       (pod_phase q = PodRunning \<or> pod_phase q = PodPending))"
  using candidatePod_Some[of None ps] candidatePod_None[of ps] by (auto split: option.splits)

lemma forEach_None:
  assumes "run_state (forEach f xs) tr = (None, tr')" "x \<in> set xs"
  shows "\<exists>tr1 tr2. run_state (f x) tr1 = (None, tr2)"
  using assms by (induction xs arbitrary: tr) (auto split: prod.splits option.splits)

text \<open>When the mover volumes pass validation, every mount path is a single non-empty path element
  without a parent reference: the mount point lies directly below \<open>/mnt\<close>.\<close>

theorem ValidateMoverVolumes_paths:
  assumes "run_state (ValidateMoverVolumes cl namespace mvs) tr = (None, tr')" "mv \<in> set mvs"
  shows "mv_mountPath mv \<noteq> [] \<and> \<not> str_contains (mv_mountPath mv) ''/'' \<and>
    \<not> str_contains (mv_mountPath mv) ''..''"
  using forEach_None[OF assms(1)[unfolded ValidateMoverVolumes_def] assms(2)]
  by (auto simp: validateMoverVolume_def split: if_splits)

theorem ValidateMoverVolumes_paths_witness:
  "mv_mountPath \<lparr>mv_mountPath = ''certs'', mv_secret = None, mv_nfs = Some ''nfs'', mv_pvc = None\<rparr> \<noteq> [] \<and>
   \<not> str_contains ''certs'' ''/''"
proof -
  let ?mv = "\<lparr>mv_mountPath = ''certs'', mv_secret = None, mv_nfs = Some ''nfs'', mv_pvc = None\<rparr>"
  have "run_state (ValidateMoverVolumes sampleCluster ''ns'' [?mv]) [] = (None, [])"
    by (simp add: ValidateMoverVolumes_def validateMoverVolume_def HasPrefix_def)
  from ValidateMoverVolumes_paths[OF this, of ?mv] show ?thesis by simp
qed

text \<open>A batch goes on exactly as long as every function says so and none fails.\<close>

lemma emits_ReconcileBatch:
  assumes "\<And>f d. f \<in> set fs \<Longrightarrow> I d \<Longrightarrow> emits P (f d) (\<lambda>(cont, err, d'). I d' \<and> (cont \<longleftrightarrow> err = None))"
    and "I d"
  shows "emits P (ReconcileBatch fs d) (\<lambda>(cont, err, d'). I d' \<and> (cont \<longleftrightarrow> err = None))"
  using assms
proof (induction fs arbitrary: d)
  case Nil
  then show ?case by (auto intro!: emits_rules)
next
  case (Cons f fs)
  have f: "emits P (f d) (\<lambda>(cont, err, d'). I d' \<and> (cont \<longleftrightarrow> err = None))" using Cons.prems by simp
  have IH: "emits P (ReconcileBatch fs d1) (\<lambda>(cont, err, d'). I d' \<and> (cont \<longleftrightarrow> err = None))"
    if "I d1" for d1
    by (rule Cons.IH) (use Cons.prems that in auto)
  show ?case
    unfolding ReconcileBatch.simps by (rule emits_bind[OF f]) (auto intro!: emits_rules IH)
qed

lemma emits_CreateOrUpdateDelete:
  assumes "emits P (CreateOrUpdate c obj f) (\<lambda>_. True)" "\<And>z. P (CDelete (k_wrap c z) None)"
  shows "emits P (CreateOrUpdateDeleteOnImmutableErr c obj f) (\<lambda>_. True)"
  unfolding CreateOrUpdateDeleteOnImmutableErr_def
  by (rule emits_bind[OF assms(1)]) (auto intro!: emits_rules emits_step assms(2) split: prod.splits)

text \<open>An object whose update is refused because a field is immutable is deleted so that it can be
  created again, and the caller gets an error so that it retries; with any other outcome nothing
  is deleted and the outcome is passed on.\<close>

theorem CreateOrUpdateDeleteOnImmutableErr_spec:
  "run_state (CreateOrUpdateDeleteOnImmutableErr c obj f) tr =
    (case run_state (CreateOrUpdate c obj f) tr of ((op, err, obj1), tr1) \<Rightarrow>
      if \<exists>e. err = Some e \<and> isInvalid e \<and> str_contains (ToLower (errorMsg e)) ''field is immutable''
      then ((op, Some (case k_delete c tr1 obj1 None of Some de \<Rightarrow> de
              | None \<Rightarrow> Errorf ''unable to update object. Deleting object so it can be recreated''), obj1),
            CDelete (k_wrap c obj1) None # tr1)
      else ((op, err, obj1), tr1))"
  by (auto simp: CreateOrUpdateDeleteOnImmutableErr_def kube_ops split: option.splits prod.splits)

end
