(* ===== verification/Volume_Handler.thy ===== *)
theory Volume_Handler
  imports Movers
begin

text \<open>
  \<open>volumehandler/volumehandler.go\<close> and \<open>volumehandler/new.go\<close>: how a mover gets the volume it works
  on. A copy of the source claim is made directly, by cloning or through a snapshot, possibly
  after the user set the copy trigger; a destination gets a new claim and, when it is filled, an
  image of it. Claims and handlers the code holds by pointer and changes are returned updated.
\<close>

section \<open>The handler and its options (new.go)\<close>

record volumehandler =
  vh_hasClient :: bool
  vh_hasRecorder :: bool
  vh_owner :: "objmeta option"
  vh_copyMethod :: copyMethodType
  vh_capacity :: "quantity option"
  vh_storageClassName :: "string option"
  vh_accessModes :: "accessMode list option"
  vh_volumeMode :: "volumeMode option"
  vh_volumeSnapshotClassName :: "string option"

definition emptyVH :: volumehandler where
  "emptyVH = \<lparr>vh_hasClient = False, vh_hasRecorder = False, vh_owner = None,
     vh_copyMethod = CopyMethodOther [], vh_capacity = None, vh_storageClassName = None,
     vh_accessModes = None, vh_volumeMode = None, vh_volumeSnapshotClassName = None\<rparr>"

datatype vhOption =
    WithClient
  | WithOwner objmeta
  | WithRecorder
  | From volumehandler
  | FromVolumeOptions volumeOptions  \<comment> \<open>\<open>FromSource\<close> and \<open>FromDestination\<close>\<close>
  | AccessModes "accessMode list option"
  | CopyMethod copyMethodType
  | Capacity "quantity option"
  | VolumeMode "volumeMode option"
  | StorageClassName "string option"
  | VolumeSnapshotClassName "string option"

fun applyVHOption :: "vhOption \<Rightarrow> volumehandler \<Rightarrow> volumehandler" where
  "applyVHOption WithClient vh = vh\<lparr>vh_hasClient := True\<rparr>"
| "applyVHOption (WithOwner m) vh = vh\<lparr>vh_owner := Some m\<rparr>"
| "applyVHOption WithRecorder vh = vh\<lparr>vh_hasRecorder := True\<rparr>"
| "applyVHOption (From v) vh = v"
| "applyVHOption (FromVolumeOptions s) vh = vh\<lparr>
     vh_copyMethod := vo_copyMethod s,
     vh_capacity := vo_capacity s,
     vh_storageClassName := vo_storageClassName s,
     vh_accessModes := vo_accessModes s,
     vh_volumeSnapshotClassName := vo_volumeSnapshotClassName s\<rparr>"
| "applyVHOption (AccessModes am) vh = vh\<lparr>vh_accessModes := am\<rparr>"
| "applyVHOption (CopyMethod cm) vh = vh\<lparr>vh_copyMethod := cm\<rparr>"
| "applyVHOption (Capacity c) vh = vh\<lparr>vh_capacity := c\<rparr>"
| "applyVHOption (VolumeMode vm) vh = vh\<lparr>vh_volumeMode := vm\<rparr>"
| "applyVHOption (StorageClassName sc) vh = vh\<lparr>vh_storageClassName := sc\<rparr>"
| "applyVHOption (VolumeSnapshotClassName vsc) vh = vh\<lparr>vh_volumeSnapshotClassName := vsc\<rparr>"

definition NewVolumeHandler :: "vhOption list \<Rightarrow> gerror + volumehandler" where
  "NewVolumeHandler options =
     (let vh = fold applyVHOption options emptyVH in
      if vh_owner vh = None then Inl (Errorf ''an owner must be specified the VolumeHandler'')
      else if \<not> vh_hasClient vh then Inl (Errorf ''a Client must be provided'')
      else Inr (vh\<lparr>vh_hasRecorder := True\<rparr>))"

definition vhOwner :: "volumehandler \<Rightarrow> objmeta" where
  "vhOwner vh = (case vh_owner vh of Some m \<Rightarrow> m | None \<Rightarrow> emptyMeta)"

definition IsCopyMethodDirect :: "volumehandler \<Rightarrow> bool" where
  "IsCopyMethodDirect vh \<longleftrightarrow> vh_copyMethod vh = CopyMethodDirect \<or> vh_copyMethod vh = CopyMethodNone"

definition SetAccessModes :: "accessMode list option \<Rightarrow> volumehandler \<Rightarrow> volumehandler" where
  "SetAccessModes am vh = vh\<lparr>vh_accessModes := am\<rparr>"

definition GetAccessModes :: "volumehandler \<Rightarrow> accessMode list option" where
  "GetAccessModes vh = vh_accessModes vh"

fun copyMethodString :: "copyMethodType \<Rightarrow> string" where
  "copyMethodString CopyMethodDirect = ''Direct''"
| "copyMethodString CopyMethodNone = ''None''"
| "copyMethodString CopyMethodClone = ''Clone''"
| "copyMethodString CopyMethodSnapshot = ''Snapshot''"
| "copyMethodString (CopyMethodOther s) = s"

section \<open>Constants\<close>

definition snapshotAnnotation :: string where
  "snapshotAnnotation = ''volsync.backube/snapname''"
definition timeYYYYMMDDHHMMSS :: string where
  "timeYYYYMMDDHHMMSS = ''20060102150405''"
definition SnapshotBindTimeout :: duration where
  "SnapshotBindTimeout = 30 * second"
definition PVCBindTimeout :: duration where
  "PVCBindTimeout = 120 * second"

section \<open>Shared steps of the mutate functions\<close>

text \<open>
  Every object the handler writes is first made the owner's
  (\<open>SetControllerReference\<close>, \<open>SetOwnedByVolSync\<close>) and, if it is temporary, marked for cleanup.
\<close>

definition takeOwnership ::
  "cluster \<Rightarrow> volumehandler \<Rightarrow> bool \<Rightarrow> 'a objmeta_scheme \<Rightarrow> gerror + 'a objmeta_scheme" where
  "takeOwnership cl vh isTemporary x =
     (case setControllerReference cl (vhOwner vh) (om_ownerRefs x) of
        Inl err \<Rightarrow> Inl err
      | Inr refs \<Rightarrow>
          (let x1 = snd (SetOwnedByVolSync meta_ops (x\<lparr>om_ownerRefs := refs\<rparr>)) in
           Inr (if isTemporary then snd (MarkForCleanup (vhOwner vh) x1) else x1)))"

definition unboundWarning ::
  "cluster \<Rightarrow> pvc \<Rightarrow> unit kube" where
  "unboundWarning cl p =
     (if pvc_phase p \<noteq> ClaimBound \<and> om_creationTimestamp p \<noteq> 0 then do {
        t \<leftarrow> now cl;
        (if time_Before (time_Add (om_creationTimestamp p) PVCBindTimeout) t
         then eventf EventWarning EvRPVCNotBound else ret ()) }
      else ret ())"

definition createdEvent :: "opResult \<Rightarrow> eventReason \<Rightarrow> unit kube" where
  "createdEvent op reason =
     (if op = OperationResultCreated then eventf EventNormal reason else ret ())"

text \<open>What is copied into a new claim, with the handler's settings taking precedence.\<close>

definition inheritSpec :: "volumehandler \<Rightarrow> pvc \<Rightarrow> pvc \<Rightarrow> pvc" where
  "inheritSpec vh original p = p\<lparr>
     pvc_storageClassName := (if vh_storageClassName vh \<noteq> None then vh_storageClassName vh
                              else pvc_storageClassName original),
     pvc_accessModes := (if vh_accessModes vh \<noteq> None then vh_accessModes vh
                         else pvc_accessModes original),
     pvc_volumeMode := vh_volumeMode vh\<rparr>"

section \<open>Copy triggers\<close>

definition waitForCopyTriggerBeforeCloneOrSnap ::
  "cluster \<Rightarrow> pvc \<Rightarrow> (bool \<times> gerror option \<times> pvc) kube" where
  "waitForCopyTriggerBeforeCloneOrSnap cl srcPVC =
     (if \<not> PVCUsesCopyTrigger srcPVC then ret (False, None, srcPVC)
      else if GetCopyTriggerValue srcPVC = [] \<or>
              GetCopyTriggerValue srcPVC = GetLatestCopyTriggerValue srcPVC then do {
        (updated, src1) \<leftarrow> SetLatestCopyStatusWaitingForTrigger cl srcPVC;
        (uerr, src2) \<leftarrow> (if updated then do {
            w \<leftarrow> kUpdate (pvcC cl) src1;
            case w of
              Inl e \<Rightarrow> ret (Some e, src1)
            | Inr src2 \<Rightarrow> do {
                eventf EventNormal EvRSrcPVCWaitingForCopyTrigger;
                ret (None, src2) } }
          else ret (None, src1));
        case uerr of
          Some e \<Rightarrow> ret (True, Some e, src2)
        | None \<Rightarrow> do {
            (perr, waitingSinceTime, src3) \<leftarrow>
              (case timeParse cl RFC3339 (GetLatestCopyTriggerWaitingSinceValue src2) of
                 Inr t \<Rightarrow> ret (None, t, src2)
               | Inl _ \<Rightarrow> do {
                   (_, src2') \<leftarrow> SetLatestCopyTriggerWaitingSinceValueNow cl src2;
                   w \<leftarrow> kUpdate (pvcC cl) src2';
                   case w of
                     Inl e \<Rightarrow> ret (Some e, 0, src2')
                   | Inr src3 \<Rightarrow> ret (None, 0, src3) });
            case perr of
              Some e \<Rightarrow> ret (True, Some e, src3)
            | None \<Rightarrow> do {
                t \<leftarrow> now cl;
                if time_Before (time_Add waitingSinceTime CopyTriggerWaitTimeout) t then do {
                  eventf EventWarning EvRSrcPVCTimeoutWaitingForCopyTrigger;
                  ret (True, Some (CopyTriggerTimeoutError (om_name src3)), src3) }
                else ret (True, None, src3) } } }
      else (case SetLatestCopyStatusInProgress srcPVC of (updated, src1) \<Rightarrow>
        if updated then do {
          w \<leftarrow> kUpdate (pvcC cl) src1;
          case w of
            Inl e \<Rightarrow> ret (False, Some e, src1)
          | Inr src2 \<Rightarrow> do {
              eventf EventNormal EvRSrcPVCCopyTriggerReceived;
              ret (False, None, src2) } }
        else ret (False, None, src1)))"

definition updateCopyTriggerAfterCloneOrSnap :: "cluster \<Rightarrow> pvc \<Rightarrow> (gerror option \<times> pvc) kube" where
  "updateCopyTriggerAfterCloneOrSnap cl srcPVC =
     (if \<not> PVCUsesCopyTrigger srcPVC then ret (None, srcPVC)
      else (case SetLatestCopyStatusCompleted srcPVC of (updated, src1) \<Rightarrow>
        (case SetLatestCopyTriggerValue src1 (GetCopyTriggerValue src1) of (updated', src2) \<Rightarrow>
          if updated' \<or> updated then do {
            w \<leftarrow> kUpdate (pvcC cl) src2;
            case w of
              Inl e \<Rightarrow> ret (Some e, src2)
            | Inr src3 \<Rightarrow> do {
                eventf EventNormal EvRSrcPVCCopyUsingCopyTriggerCompleted;
                ret (None, src3) } }
          else ret (None, src2))))"

section \<open>Claims\<close>

definition getPVCByName :: "cluster \<Rightarrow> volumehandler \<Rightarrow> string \<Rightarrow> (gerror + pvc) kube" where
  "getPVCByName cl vh pvcName = kGet (pvcC cl) (om_namespace (vhOwner vh), pvcName)"

definition UseProvidedPVC :: "cluster \<Rightarrow> volumehandler \<Rightarrow> string \<Rightarrow> (gerror + pvc) kube" where
  "UseProvidedPVC cl vh pvcName = getPVCByName cl vh pvcName"

definition newPVCMutate ::
  "cluster \<Rightarrow> volumehandler \<Rightarrow> bool \<Rightarrow> quantity \<Rightarrow> pvc \<Rightarrow> (gerror option \<times> pvc) kube" where
  "newPVCMutate cl vh isTemporary capacity p =
     (case takeOwnership cl vh isTemporary p of
        Inl err \<Rightarrow> ret (Some err, p)
      | Inr p1 \<Rightarrow>
          (let p2 = (if om_creationTimestamp p1 = 0 then p1\<lparr>
                 pvc_accessModes := vh_accessModes vh,
                 pvc_storageClassName := vh_storageClassName vh,
                 pvc_volumeMode := vh_volumeMode vh\<rparr> else p1)
           in ret (None, p2\<lparr>pvc_requests := [(''storage'', capacity)]\<rparr>)))"

definition EnsureNewPVC ::
  "cluster \<Rightarrow> volumehandler \<Rightarrow> string \<Rightarrow> bool \<Rightarrow> ((gerror + pvc) \<times> volumehandler) kube" where
  "EnsureNewPVC cl vh0 name isTemporary =
     (let vh = (if vh_volumeMode vh0 = None then vh0\<lparr>vh_volumeMode := Some Filesystem\<rparr> else vh0) in
      if vh_accessModes vh = None \<or> vh_accessModes vh = Some [] then
        ret (Inl (Errorf ''accessModes must be provided when destinationPVC is not''), vh)
      else (case vh_capacity vh of
        None \<Rightarrow> ret (Inl (Errorf ''capacity must be provided when destinationPVC is not''), vh)
      | Some capacity \<Rightarrow> do {
          (op, err, p) \<leftarrow> CreateOrUpdate (pvcC cl) (newPVC (om_namespace (vhOwner vh)) name)
                            (newPVCMutate cl vh isTemporary capacity);
          case err of
            Some e \<Rightarrow> ret (Inl e, vh)
          | None \<Rightarrow> do {
              createdEvent op EvRPVCCreated;
              unboundWarning cl p;
              ret (Inr p, vh) } }))"

definition cloneSize :: "volumehandler \<Rightarrow> pvc \<Rightarrow> quantity" where
  "cloneSize vh src =
     (case vh_capacity vh of
        Some c \<Rightarrow> c
      | None \<Rightarrow>
          (case pvc_capacity src of
             Some rl \<Rightarrow> Storage rl
           | None \<Rightarrow> Storage (pvc_requests src)))"

definition cloneMutate ::
  "cluster \<Rightarrow> volumehandler \<Rightarrow> bool \<Rightarrow> pvc \<Rightarrow> pvc \<Rightarrow> (gerror option \<times> pvc) kube" where
  "cloneMutate cl vh isTemporary src c =
     (case takeOwnership cl vh isTemporary c of
        Inl err \<Rightarrow> ret (Some err, c)
      | Inr c1 \<Rightarrow>
          ret (None, if om_creationTimestamp c1 = 0 then
            (inheritSpec vh src (c1\<lparr>pvc_requests := [(''storage'', cloneSize vh src)]\<rparr>))\<lparr>
               pvc_dataSource := Some \<lparr>tr_apiGroup = None, tr_kind = ''PersistentVolumeClaim'',
                 tr_name = om_name src\<rparr>\<rparr>
            else c1))"

definition ensureCloneObject ::
  "cluster \<Rightarrow> volumehandler \<Rightarrow> pvc \<Rightarrow> pvc \<Rightarrow> bool \<Rightarrow> (pvc option \<times> gerror option) kube" where
  "ensureCloneObject cl vh src local isTemporary = do {
     (op, err, c) \<leftarrow> CreateOrUpdate (pvcC cl) local
                       (cloneMutate cl vh isTemporary src);
     case err of
       Some e \<Rightarrow> ret (None, Some e)
     | None \<Rightarrow>
         if \<not> IsZero (om_deletionTimestamp c) then ret (None, None)
         else do {
           createdEvent op EvRPVCCreated;
           (if om_creationTimestamp c \<noteq> 0 then do {
              t \<leftarrow> now cl;
              (if time_Before (time_Add (om_creationTimestamp c) PVCBindTimeout) t \<and>
                  pvc_phase c \<noteq> ClaimBound
               then eventf EventWarning EvRPVCNotBound else ret ()) }
            else ret ());
           if pvc_phase c = ClaimBound then do {
             (uerr, _) \<leftarrow> updateCopyTriggerAfterCloneOrSnap cl src;
             ret (Some c, uerr) }
           else ret (Some c, None) } }"

definition ensureClone ::
  "cluster \<Rightarrow> volumehandler \<Rightarrow> pvc \<Rightarrow> string \<Rightarrow> bool \<Rightarrow> (pvc option \<times> gerror option) kube" where
  "ensureClone cl vh src name isTemporary = do {
     g \<leftarrow> kGet (pvcC cl) (om_namespace (vhOwner vh), name);
     case g of
       Inr old \<Rightarrow> ensureCloneObject cl vh src old isTemporary
     | Inl e \<Rightarrow>
         if \<not> isNotFound e then ret (None, Some e)
         else do {
           (wait, werr, src1) \<leftarrow> waitForCopyTriggerBeforeCloneOrSnap cl src;
           if wait \<or> werr \<noteq> None then ret (None, werr)
           else ensureCloneObject cl vh src1 (newPVC (om_namespace (vhOwner vh)) name) isTemporary } }"

section \<open>Snapshots\<close>

definition snapMutate ::
  "cluster \<Rightarrow> volumehandler \<Rightarrow> bool \<Rightarrow> pvc \<Rightarrow> snapshot \<Rightarrow> (gerror option \<times> snapshot) kube" where
  "snapMutate cl vh isTemporary src sn =
     (case takeOwnership cl vh isTemporary sn of
        Inl err \<Rightarrow> ret (Some err, sn)
      | Inr s1 \<Rightarrow>
          ret (None, if om_creationTimestamp s1 = 0 then s1\<lparr>
              sn_sourcePVC := Some (om_name src),
              sn_className := vh_volumeSnapshotClassName vh\<rparr>
            else s1))"

definition snapBound :: "snapshot \<Rightarrow> bool" where
  "snapBound sn \<longleftrightarrow> (case sn_status sn of None \<Rightarrow> False | Some st \<Rightarrow> ss_bound st \<noteq> None)"

definition snapNotReady :: "snapshot \<Rightarrow> bool" where
  "snapNotReady sn \<longleftrightarrow>
     (case sn_status sn of None \<Rightarrow> False | Some st \<Rightarrow> ss_readyToUse st = Some False)"

definition snapUnboundWarning :: "cluster \<Rightarrow> snapshot \<Rightarrow> unit kube" where
  "snapUnboundWarning cl sn = do {
     t \<leftarrow> now cl;
     if time_Before (time_Add (om_creationTimestamp sn) SnapshotBindTimeout) t
     then eventf EventWarning EvRSnapNotBound else ret () }"

definition ensureSnapshotObject ::
  "cluster \<Rightarrow> volumehandler \<Rightarrow> pvc \<Rightarrow> snapshot \<Rightarrow> bool \<Rightarrow>
   (snapshot option \<times> gerror option \<times> pvc) kube" where
  "ensureSnapshotObject cl vh src local isTemporary = do {
     (op, err, sn) \<leftarrow> CreateOrUpdate (snapC cl) local
                        (snapMutate cl vh isTemporary src);
     case err of
       Some e \<Rightarrow> ret (None, Some e, src)
     | None \<Rightarrow>
         if \<not> IsZero (om_deletionTimestamp sn) then ret (None, None, src)
         else do {
           createdEvent op EvRSnapCreated;
           if \<not> snapBound sn then do {
             snapUnboundWarning cl sn;
             ret (None, None, src) }
           else if snapNotReady sn then ret (None, None, src)
           else do {
             (uerr, src1) \<leftarrow> updateCopyTriggerAfterCloneOrSnap cl src;
             ret (Some sn, uerr, src1) } } }"

definition ensureSnapshot ::
  "cluster \<Rightarrow> volumehandler \<Rightarrow> pvc \<Rightarrow> string \<Rightarrow> bool \<Rightarrow>
   (snapshot option \<times> gerror option \<times> pvc) kube" where
  "ensureSnapshot cl vh src name isTemporary = do {
     g \<leftarrow> kGet (snapC cl) (om_namespace (vhOwner vh), name);
     case g of
       Inr old \<Rightarrow> ensureSnapshotObject cl vh src old isTemporary
     | Inl e \<Rightarrow>
         if \<not> isNotFound e then ret (None, Some e, src)
         else do {
           (wait, werr, src1) \<leftarrow> waitForCopyTriggerBeforeCloneOrSnap cl src;
           if wait \<or> werr \<noteq> None then ret (None, werr, src1)
           else ensureSnapshotObject cl vh src1 (newSnapshot (om_namespace (vhOwner vh)) name) isTemporary } }"

definition restoredSize :: "volumehandler \<Rightarrow> snapshot \<Rightarrow> pvc \<Rightarrow> quantity" where
  "restoredSize vh snap original =
     (case vh_capacity vh of
        Some c \<Rightarrow> c
      | None \<Rightarrow>
          (case (case sn_status snap of None \<Rightarrow> None | Some st \<Rightarrow> ss_restoreSize st) of
             Some q \<Rightarrow> if q \<noteq> 0 then q else cloneSize vh original
           | None \<Rightarrow> cloneSize vh original))"

definition fromSnapshotMutate ::
  "cluster \<Rightarrow> volumehandler \<Rightarrow> bool \<Rightarrow> snapshot \<Rightarrow> pvc \<Rightarrow> pvc \<Rightarrow> (gerror option \<times> pvc) kube" where
  "fromSnapshotMutate cl vh isTemporary snap original p =
     (case takeOwnership cl vh isTemporary p of
        Inl err \<Rightarrow> ret (Some err, p)
      | Inr p1 \<Rightarrow>
          ret (None, if om_creationTimestamp p1 = 0 then
            (inheritSpec vh original (p1\<lparr>pvc_requests := [(''storage'', restoredSize vh snap original)]\<rparr>))\<lparr>
               pvc_dataSource := Some \<lparr>tr_apiGroup = Some snapshotGroup, tr_kind = ''VolumeSnapshot'',
                 tr_name = om_name snap\<rparr>\<rparr>
            else p1))"

definition pvcFromSnapshot ::
  "cluster \<Rightarrow> volumehandler \<Rightarrow> snapshot \<Rightarrow> pvc \<Rightarrow> string \<Rightarrow> bool \<Rightarrow>
   (pvc option \<times> gerror option) kube" where
  "pvcFromSnapshot cl vh snap original name isTemporary = do {
     (op, err, p) \<leftarrow> CreateOrUpdate (pvcC cl) (newPVC (om_namespace (vhOwner vh)) name)
                       (fromSnapshotMutate cl vh isTemporary snap original);
     case err of
       Some e \<Rightarrow> ret (None, Some e)
     | None \<Rightarrow> do {
         createdEvent op EvRPVCCreated;
         unboundWarning cl p;
         ret (Some p, None) } }"

section \<open>The source side\<close>

definition withSourceMode :: "pvc \<Rightarrow> volumehandler \<Rightarrow> volumehandler" where
  "withSourceMode src vh =
     vh\<lparr>vh_volumeMode := (if pvc_volumeMode src \<noteq> None then pvc_volumeMode src else Some Filesystem)\<rparr>"

definition EnsurePVCFromSrc ::
  "cluster \<Rightarrow> volumehandler \<Rightarrow> pvc \<Rightarrow> string \<Rightarrow> bool \<Rightarrow>
   ((pvc option \<times> gerror option) \<times> volumehandler) kube" where
  "EnsurePVCFromSrc cl vh0 src name isTemporary =
     (let vh = withSourceMode src vh0 in
      case vh_copyMethod vh of
        CopyMethodNone \<Rightarrow> ret ((Some src, None), vh)
      | CopyMethodDirect \<Rightarrow> ret ((Some src, None), vh)
      | CopyMethodClone \<Rightarrow> do {
          r \<leftarrow> ensureClone cl vh src name isTemporary;
          ret (r, vh) }
      | CopyMethodSnapshot \<Rightarrow> do {
          (snap, err, src1) \<leftarrow> ensureSnapshot cl vh src name isTemporary;
          (case snap of
             None \<Rightarrow> ret ((None, err), vh)
           | Some sn \<Rightarrow>
               if err \<noteq> None then ret ((None, err), vh)
               else do {
                 r \<leftarrow> pvcFromSnapshot cl vh sn src1 name isTemporary;
                 ret (r, vh) }) }
      | CopyMethodOther _ \<Rightarrow>
          ret ((None, Some (Errorf (''unsupported copyMethod: '' @ copyMethodString (vh_copyMethod vh)
                 @ '' -- must be Direct, None, Clone, or Snapshot''))), vh))"

section \<open>The destination side\<close>

definition imageSnapMutate ::
  "cluster \<Rightarrow> volumehandler \<Rightarrow> pvc \<Rightarrow> snapshot \<Rightarrow> (gerror option \<times> snapshot) kube" where
  "imageSnapMutate cl vh src sn =
     (case (if IsMarkedDoNotDelete sn
            then Inr (snd (UnMarkForCleanupAndRemoveOwnership sn (vhOwner vh)))
            else takeOwnership cl vh False sn) of
        Inl err \<Rightarrow> ret (Some err, sn)
      | Inr s1 \<Rightarrow>
          ret (None, if om_creationTimestamp s1 = 0 then s1\<lparr>
              sn_sourcePVC := Some (om_name src),
              sn_className := vh_volumeSnapshotClassName vh\<rparr>
            else s1))"

definition recordSnapName :: "cluster \<Rightarrow> pvc \<Rightarrow> (gerror + pvc) kube" where
  "recordSnapName cl src =
     (if map_of (om_annotations src) snapshotAnnotation = None then do {
        t \<leftarrow> now cl;
        kUpdate (pvcC cl) (src\<lparr>om_annotations := map_put snapshotAnnotation
          (om_name src @ ''-'' @ timeFormat cl timeYYYYMMDDHHMMSS t) (om_annotations src)\<rparr>) }
      else ret (Inr src))"

definition ensureImageSnapshot ::
  "cluster \<Rightarrow> volumehandler \<Rightarrow> pvc \<Rightarrow> (snapshot option \<times> gerror option) kube" where
  "ensureImageSnapshot cl vh src0 = do {
     r \<leftarrow> recordSnapName cl src0;
     case r of
       Inl e \<Rightarrow> ret (None, Some e)
     | Inr src \<Rightarrow> do {
         (op, err, sn) \<leftarrow> CreateOrUpdate (snapC cl)
            (newSnapshot (om_namespace src) (map_get (om_annotations src) snapshotAnnotation))
            (imageSnapMutate cl vh src);
         case err of
           Some e \<Rightarrow> ret (None, Some e)
         | None \<Rightarrow> do {
             createdEvent op EvRSnapCreated;
             if \<not> IsZero (om_deletionTimestamp sn) then ret (None, None)
             else if \<not> snapBound sn then do {
               snapUnboundWarning cl sn;
               ret (None, None) }
             else ret (Some sn, None) } } }"

definition firstKind :: "string list \<Rightarrow> string" where
  "firstKind kinds = (case find (\<lambda>k. k \<noteq> []) kinds of Some k \<Rightarrow> k | None \<Rightarrow> [])"

definition EnsureImage ::
  "cluster \<Rightarrow> volumehandler \<Rightarrow> pvc \<Rightarrow> (typedref option \<times> gerror option) kube" where
  "EnsureImage cl vh src =
     (if vh_copyMethod vh = CopyMethodNone \<or> vh_copyMethod vh = CopyMethodDirect then
        ret (Some \<lparr>tr_apiGroup = Some [], tr_kind = pvc_kind src, tr_name = om_name src\<rparr>, None)
      else if vh_copyMethod vh = CopyMethodSnapshot then do {
        (snap, err) \<leftarrow> ensureImageSnapshot cl vh src;
        (case snap of
           None \<Rightarrow> ret (None, err)
         | Some sn \<Rightarrow>
             if err \<noteq> None then ret (None, err)
             else ret (Some \<lparr>tr_apiGroup = Some snapshotGroup,
               tr_kind = (if sn_kind sn = [] then firstKind (objectKindsSnapshot cl) else sn_kind sn),
               tr_name = om_name sn\<rparr>, None)) }
      else ret (None, Some (Errorf (''unsupported copyMethod: '' @ copyMethodString (vh_copyMethod vh)
             @ '' -- must be Direct, None, or Snapshot''))))"

definition RemoveSnapshotAnnotationFromPVC ::
  "cluster \<Rightarrow> volumehandler \<Rightarrow> string \<Rightarrow> gerror option kube" where
  "RemoveSnapshotAnnotationFromPVC cl vh pvcName = do {
     r \<leftarrow> getPVCByName cl vh pvcName;
     case r of
       Inl e \<Rightarrow> if isNotFound e then ret None else ret (Some e)
     | Inr p \<Rightarrow> do {
         w \<leftarrow> kUpdate (pvcC cl)
                (p\<lparr>om_annotations := map_del snapshotAnnotation (om_annotations p)\<rparr>);
         case w of
           Inl e \<Rightarrow> ret (Some e)
         | Inr _ \<Rightarrow> ret None } }"

section \<open>What the handler may do to the cluster\<close>

definition mine :: "'b objmeta_scheme \<Rightarrow> bool \<Rightarrow> 'a objmeta_scheme \<Rightarrow> bool" where
  "mine owner isTemporary x \<longleftrightarrow>
     (\<exists>r \<in> set (om_ownerRefs x). or_uid r = om_uid owner \<and> or_controller r) \<and>
     IsOwnedByVolsync meta_ops x \<and>
     (isTemporary \<longrightarrow> map_of (om_labels x) cleanupLabelKey = Some (om_uid owner))"

lemma mine_frame [simp]:
  "mine owner t (p\<lparr>pvc_requests := q\<rparr>) = mine owner t p"
  "mine owner t (p\<lparr>pvc_accessModes := am, pvc_storageClassName := sc, pvc_volumeMode := vm,
     pvc_requests := q\<rparr>) = mine owner t p"
  "mine owner t (p\<lparr>pvc_dataSource := ds\<rparr>) = mine owner t p"
  "mine owner t (inheritSpec vh src p) = mine owner t p"
  "mine owner t (s\<lparr>sn_sourcePVC := x, sn_className := y\<rparr>) = mine owner t s"
  by (simp_all add: mine_def IsOwnedByVolsync_def ml.has_label_value_iff inheritSpec_def)

lemma vhOwner_mode [simp]:
  "vhOwner (withSourceMode src vh) = vhOwner vh"
  "vhOwner (vh\<lparr>vh_volumeMode := m\<rparr>) = vhOwner vh"
  "vh_copyMethod (withSourceMode src vh) = vh_copyMethod vh"
  by (simp_all add: vhOwner_def withSourceMode_def)

lemma takeOwnership_frame:
  assumes "takeOwnership cl vh t x = Inr y"
  shows "om_name y = om_name x" "om_namespace y = om_namespace x"
    "om_creationTimestamp y = om_creationTimestamp x" "objmeta.more y = objmeta.more x"
  using assms
  by (auto simp: takeOwnership_def SetOwnedByVolSync_def MarkForCleanup_def AddLabel_meta Let_def
      split: sum.splits if_splits)

lemma takeOwnership_mine:
  assumes "controllerRef_documented cl" "takeOwnership cl vh t x = Inr y"
  shows "mine (vhOwner vh) t y"
proof -
  obtain refs where refs: "setControllerReference cl (vhOwner vh) (om_ownerRefs x) = Inr refs"
    and y: "y = (let x1 = snd (SetOwnedByVolSync meta_ops (x\<lparr>om_ownerRefs := refs\<rparr>)) in
           if t then snd (MarkForCleanup (vhOwner vh) x1) else x1)"
    using assms(2) by (auto simp: takeOwnership_def Let_def split: sum.splits)
  have c: "\<exists>r \<in> set refs. or_uid r = om_uid (vhOwner vh) \<and> or_controller r"
    using assms(1)[unfolded controllerRef_documented_def, THEN spec[of _ "vhOwner vh"],
      THEN spec[of _ "om_ownerRefs x"]] refs by simp
  have lb: "map_of (om_labels (snd (AddLabel meta_ops z k v))) = (map_of (om_labels z))(k \<mapsto> v)"
    for z :: "'a objmeta_scheme" and k v
    using ml.add_labels[of z k v] by simp
  show ?thesis
    using c unfolding y mine_def IsOwnedByVolsync_def ml.has_label_value_iff
    by (auto simp: SetOwnedByVolSync_def MarkForCleanup_def AddLabel_meta Let_def lb label_keys_distinct)
qed

text \<open>
  The contract of making a copy of a source claim: what is created or updated is controlled by the
  owner and labelled as VolSync's (and for cleanup, if temporary); the source claim itself is
  written only if it asks for a copy trigger; nothing is deleted.
\<close>

fun vh_ok :: "'b objmeta_scheme \<Rightarrow> bool \<Rightarrow> pvc \<Rightarrow> call \<Rightarrow> bool" where
  "vh_ok owner t src (CCreate (OPVC p)) = mine owner t p"
| "vh_ok owner t src (CCreate (OSnapshot s)) = mine owner t s"
| "vh_ok owner t src (CUpdate (OPVC p)) = (mine owner t p \<or> PVCUsesCopyTrigger src)"
| "vh_ok owner t src (CUpdate (OSnapshot s)) = mine owner t s"
| "vh_ok owner t src c = (\<not> is_write c)"

lemma emits_createdEvent [emits_rules]:
  "P (CEvent EventNormal reason) \<Longrightarrow> Q () \<Longrightarrow> emits P (createdEvent op reason) Q"
  by (auto simp: createdEvent_def intro!: emits_rules)

lemma emits_unboundWarning [emits_rules]:
  "P CNow \<Longrightarrow> P (CEvent EventWarning EvRPVCNotBound) \<Longrightarrow> Q () \<Longrightarrow> emits P (unboundWarning cl p) Q"
  by (auto simp: unboundWarning_def intro!: emits_rules emits_bind[where Q = "\<lambda>_. True"])

lemma emits_snapUnboundWarning [emits_rules]:
  "P CNow \<Longrightarrow> P (CEvent EventWarning EvRSnapNotBound) \<Longrightarrow> Q () \<Longrightarrow>
   emits P (snapUnboundWarning cl sn) Q"
  by (auto simp: snapUnboundWarning_def intro!: emits_rules emits_bind[where Q = "\<lambda>_. True"])

lemma emits_waitingSince [emits_rules]:
  "P CNow \<Longrightarrow> (\<And>a. Q a) \<Longrightarrow> emits P (SetLatestCopyTriggerWaitingSinceValueNow cl p) Q"
  "P CNow \<Longrightarrow> (\<And>a. Q a) \<Longrightarrow> emits P (SetLatestCopyStatusWaitingForTrigger cl p) Q"
  by (auto simp: SetLatestCopyTriggerWaitingSinceValueNow_def SetLatestCopyStatusWaitingForTrigger_def Let_def
      intro!: emits_rules emits_bind[where Q = "\<lambda>_. True"] split: prod.splits)
    (metis surj_pair)+

text \<open>
  The two copy-trigger steps write claims only, and only if the source claim uses a copy trigger.
\<close>

lemma emits_waitForCopyTrigger:
  assumes "\<And>p. PVCUsesCopyTrigger src \<Longrightarrow> P (CUpdate (OPVC p))" "P CNow" "\<And>t r. P (CEvent t r)"
  shows "emits P (waitForCopyTriggerBeforeCloneOrSnap cl src)
     (\<lambda>(wait, err, src'). (\<not> PVCUsesCopyTrigger src \<longrightarrow> src' = src) \<and>
        (PVCUsesCopyTrigger src \<and>
          (GetCopyTriggerValue src = [] \<or> GetCopyTriggerValue src = GetLatestCopyTriggerValue src)
          \<longrightarrow> wait))"
  unfolding waitForCopyTriggerBeforeCloneOrSnap_def
  by (auto intro!: emits_rules assms
      emits_bind[where Q = "\<lambda>_. True"] split: prod.splits)

lemma emits_updateCopyTrigger:
  assumes "\<And>p. PVCUsesCopyTrigger src \<Longrightarrow> P (CUpdate (OPVC p))" "\<And>t r. P (CEvent t r)"
  shows "emits P (updateCopyTriggerAfterCloneOrSnap cl src) (\<lambda>_. True)"
  unfolding updateCopyTriggerAfterCloneOrSnap_def
  by (auto intro!: emits_rules assms emits_bind[where Q = "\<lambda>_. True"] split: prod.splits)

text \<open>One rule for every use of \<open>CreateOrUpdate\<close> whose mutate function takes ownership first.\<close>

lemma emits_owned_cou:
  fixes c :: "'a objmeta_scheme kclient"
  assumes "cou_documented c" "controllerRef_documented cl"
    and mut: "\<And>y. f y = (case takeOwnership cl vh t y of Inl err \<Rightarrow> ret (Some err, y) | Inr z \<Rightarrow> ret (None, g z))"
    and g: "\<And>z. mine (vhOwner vh) t z \<Longrightarrow> mine (vhOwner vh) t (g z)"
    and "P (CGet (k_kind c) (objKey x))"
    and wr: "\<And>z. mine (vhOwner vh) t z \<Longrightarrow> P (CCreate (k_wrap c z)) \<and> P (CUpdate (k_wrap c z))"
  shows "emits P (CreateOrUpdate c x f) (\<lambda>_. True)"
proof (rule emits_CreateOrUpdate[where W = "mine (vhOwner vh) t"])
  show "emits P (f y) (\<lambda>(e, z). e = None \<longrightarrow> mine (vhOwner vh) t z)" for y
    unfolding mut using g takeOwnership_mine[OF assms(2), of vh t y]
    by (auto intro!: emits_rules split: sum.splits)
qed (use assms in auto)

lemma emits_pvcFromSnapshot:
  assumes "cou_documented (pvcC cl)" "controllerRef_documented cl"
  shows "emits (vh_ok (vhOwner vh) t src) (pvcFromSnapshot cl vh snap original name t) (\<lambda>_. True)"
  unfolding pvcFromSnapshot_def
  by (rule emits_step, rule emits_owned_cou[OF assms, where vh = vh and t = t and
        g = "\<lambda>p1. if om_creationTimestamp p1 = 0 then
            (inheritSpec vh original (p1\<lparr>pvc_requests := [(''storage'', restoredSize vh snap original)]\<rparr>))\<lparr>
               pvc_dataSource := Some \<lparr>tr_apiGroup = Some snapshotGroup, tr_kind = ''VolumeSnapshot'',
                 tr_name = om_name snap\<rparr>\<rparr> else p1"])
    (auto simp: fromSnapshotMutate_def intro!: emits_rules emits_step split: sum.splits)

lemma emits_ensureCloneObject:
  assumes "cou_documented (pvcC cl)" "controllerRef_documented cl"
    and "PVCUsesCopyTrigger src1 \<longrightarrow> PVCUsesCopyTrigger src"
  shows "emits (vh_ok (vhOwner vh) t src) (ensureCloneObject cl vh src1 local t) (\<lambda>_. True)"
  unfolding ensureCloneObject_def
  by (rule emits_step, rule emits_owned_cou[OF assms(1,2), where vh = vh and t = t and
        g = "\<lambda>c1. if om_creationTimestamp c1 = 0 then
            (inheritSpec vh src1 (c1\<lparr>pvc_requests := [(''storage'', cloneSize vh src1)]\<rparr>))\<lparr>
               pvc_dataSource := Some \<lparr>tr_apiGroup = None, tr_kind = ''PersistentVolumeClaim'',
                 tr_name = om_name src1\<rparr>\<rparr> else c1"])
    (use assms(3) in \<open>auto simp: cloneMutate_def intro!: emits_rules emits_step
       emits_updateCopyTrigger split: sum.splits\<close>)

lemma emits_ensureSnapshotObject:
  assumes "cou_documented (snapC cl)" "controllerRef_documented cl"
    and "PVCUsesCopyTrigger src1 \<longrightarrow> PVCUsesCopyTrigger src"
  shows "emits (vh_ok (vhOwner vh) t src) (ensureSnapshotObject cl vh src1 local t) (\<lambda>_. True)"
  unfolding ensureSnapshotObject_def
  by (rule emits_step, rule emits_owned_cou[OF assms(1,2), where vh = vh and t = t and
        g = "\<lambda>s1. if om_creationTimestamp s1 = 0 then s1\<lparr>
              sn_sourcePVC := Some (om_name src1), sn_className := vh_volumeSnapshotClassName vh\<rparr>
            else s1"])
    (use assms(3) in \<open>auto simp: snapMutate_def intro!: emits_rules emits_step
       emits_updateCopyTrigger split: sum.splits\<close>)

lemma emits_ensureClone:
  assumes "cou_documented (pvcC cl)" "controllerRef_documented cl"
  shows "emits (vh_ok (vhOwner vh) t src) (ensureClone cl vh src name t) (\<lambda>_. True)"
  unfolding ensureClone_def
  by (rule emits_step)
    (auto intro!: emits_rules emits_ensureCloneObject[OF assms] emits_bind[OF emits_waitForCopyTrigger])

lemma emits_ensureSnapshot:
  assumes "cou_documented (snapC cl)" "controllerRef_documented cl"
  shows "emits (vh_ok (vhOwner vh) t src) (ensureSnapshot cl vh src name t) (\<lambda>_. True)"
  unfolding ensureSnapshot_def
  by (rule emits_step)
    (auto intro!: emits_rules emits_ensureSnapshotObject[OF assms] emits_bind[OF emits_waitForCopyTrigger])

lemma emits_EnsurePVCFromSrc:
  assumes "cou_documented (pvcC cl)" "cou_documented (snapC cl)" "controllerRef_documented cl"
  shows "emits (vh_ok (vhOwner vh) t src) (EnsurePVCFromSrc cl vh src name t) (\<lambda>_. True)"
proof -
  let ?vh = "withSourceMode src vh"
  have "emits (vh_ok (vhOwner vh) t src) (ensureClone cl ?vh src name t) (\<lambda>_. True)"
    "emits (vh_ok (vhOwner vh) t src) (ensureSnapshot cl ?vh src name t) (\<lambda>_. True)"
    "emits (vh_ok (vhOwner vh) t src) (pvcFromSnapshot cl ?vh sn src1 name t) (\<lambda>_. True)" for sn src1
    using emits_ensureClone[OF assms(1,3), of ?vh t src name] emits_ensureSnapshot[OF assms(2,3), of ?vh t src name]
      emits_pvcFromSnapshot[OF assms(1,3), of ?vh t src sn src1 name] by simp_all
  then show ?thesis
    unfolding EnsurePVCFromSrc_def Let_def
    by (cases "vh_copyMethod vh") (auto intro!: emits_rules emits_step)
qed

text \<open>C12: Making the point-in-time copy of a source claim, whatever the copy method and whatever the
  server answers: every claim or snapshot that is created or updated is controlled by the
  replication resource and labelled as VolSync's (and for cleanup, if it is temporary), the
  source claim itself is written only if it asks for a copy trigger, and nothing is deleted.\<close>

theorem EnsurePVCFromSrc_safe:
  assumes "cou_documented (pvcC cl)" "cou_documented (snapC cl)" "controllerRef_documented cl"
  shows "emits (vh_ok (vhOwner vh) t src) (EnsurePVCFromSrc cl vh src name t) (\<lambda>_. True)"
  using assms by (rule emits_EnsurePVCFromSrc)

theorem EnsurePVCFromSrc_safe_witness:
  "\<forall>tr. \<exists>a new. run_state (EnsurePVCFromSrc sampleCluster
       (emptyVH\<lparr>vh_owner := Some (newMeta ''ns'' ''rs''), vh_copyMethod := CopyMethodSnapshot\<rparr>)
       (newPVC ''ns'' ''data'') ''volsync-rs-src'' True) tr = (a, new @ tr) \<and>
     (\<forall>c \<in> set new. vh_ok (newMeta ''ns'' ''rs'') True (newPVC ''ns'' ''data'') c)"
  using EnsurePVCFromSrc_safe[of sampleCluster
      "emptyVH\<lparr>vh_owner := Some (newMeta ''ns'' ''rs''), vh_copyMethod := CopyMethodSnapshot\<rparr>" True
      "newPVC ''ns'' ''data''" "''volsync-rs-src''"] sample_controllerRef
  by (simp add: emits_def vhOwner_def)

section \<open>The copy trigger\<close>

definition triggerPending :: "pvc \<Rightarrow> bool" where
  "triggerPending src \<longleftrightarrow> GetCopyTriggerValue src = [] \<or>
     GetCopyTriggerValue src = GetLatestCopyTriggerValue src"

text \<open>C14: As long as the user has not set a new copy trigger on a source claim that asks for one, the
  snapshot it waits for is not created: nothing at all is created, and the caller is told to
  come back (or gets the error).\<close>

theorem copyTrigger_blocks_snapshot:
  assumes "PVCUsesCopyTrigger src" "triggerPending src"
    and "k_get (snapC cl) tr (om_namespace (vhOwner vh), name) = Inl e" "isNotFound e"
  shows "\<exists>err src' new. run_state (ensureSnapshot cl vh src name t) tr = ((None, err, src'), new @ tr) \<and>
    (\<forall>c \<in> set new. \<forall>x. c \<noteq> CCreate x)"
proof -
  have "emits (\<lambda>c. \<forall>x. c \<noteq> CCreate x) (waitForCopyTriggerBeforeCloneOrSnap cl src) (\<lambda>(wait, _, _). wait)"
    by (rule emits_post[OF emits_waitForCopyTrigger]) (use assms(1,2) in \<open>auto simp: triggerPending_def\<close>)
  then obtain a new where a: "run_state (waitForCopyTriggerBeforeCloneOrSnap cl src)
       (CGet KSnapshot (om_namespace (vhOwner vh), name) # tr) =
       (a, new @ CGet KSnapshot (om_namespace (vhOwner vh), name) # tr)"
    "\<forall>c \<in> set new. \<forall>x. c \<noteq> CCreate x" "case a of (wait, _, _) \<Rightarrow> wait" by (rule emitsE)
  obtain err src' where "a = (True, err, src')" using a(3) by (cases a) auto
  then show ?thesis
    using assms(3,4) a(1,2) by (intro exI[of _ err] exI[of _ src'] exI[of _ "new @ [CGet KSnapshot _]"])
      (auto simp: ensureSnapshot_def kube_ops)
qed

definition triggerPVC :: "strmap \<Rightarrow> pvc" where
  "triggerPVC ann = (newPVC ''ns'' ''data'')\<lparr>om_annotations := (UseCopyTriggerAnnotation, ''true'') # ann\<rparr>"

theorem copyTrigger_blocks_snapshot_witness:
  "\<exists>err src' new. run_state (ensureSnapshot sampleCluster emptyVH (triggerPVC []) ''s'' True) [] =
     ((None, err, src'), new @ []) \<and> (\<forall>c \<in> set new. \<forall>x. c \<noteq> CCreate x)"
  by (rule copyTrigger_blocks_snapshot[where e = "StatusError NotFound ''not found''"])
    (simp_all add: triggerPVC_def copyTrigger_defs triggerPending_def new_defs map_get_def annotation_consts)

text \<open>The server stores the annotations an update sends.\<close>

definition update_keeps_annotations :: "cluster \<Rightarrow> bool" where
  "update_keeps_annotations cl \<longleftrightarrow>
     (\<forall>tr p q. k_update (pvcC cl) tr p = Inr q \<longrightarrow> om_annotations q = om_annotations p)"

lemma completed_annotations:
  assumes "SetLatestCopyStatusCompleted src = (u, src1)" "SetLatestCopyTriggerValue src1 v = (u', src2)"
  shows "map_of (om_annotations src2) = (map_of (om_annotations src))
     (LatestCopyStatusAnnotation \<mapsto> LatestCopyStatusValueCompleted,
      LatestCopyTriggerWaitingSinceAnnotation := None, LatestCopyTriggerAnnotation \<mapsto> v)"
  using assms setAnnotation_get[of src LatestCopyStatusAnnotation LatestCopyStatusValueCompleted]
    setAnnotation_get[of src1 LatestCopyTriggerAnnotation v]
    unsetAnnotation_get[of "snd (setAnnotation src LatestCopyStatusAnnotation LatestCopyStatusValueCompleted)"
      LatestCopyTriggerWaitingSinceAnnotation]
  by (auto simp: SetLatestCopyStatusCompleted_def SetLatestCopyTriggerValue_def split: prod.splits)

lemma completed_pending:
  assumes "PVCUsesCopyTrigger src" "SetLatestCopyStatusCompleted src = (u, src1)"
    "SetLatestCopyTriggerValue src1 (GetCopyTriggerValue src1) = (u', src2)"
    "om_annotations src3 = om_annotations src2"
  shows "PVCUsesCopyTrigger src3 \<and> triggerPending src3"
proof -
  have "map_of (om_annotations src1) CopyTriggerAnnotation = map_of (om_annotations src) CopyTriggerAnnotation"
    using assms(2) setAnnotation_get[of src LatestCopyStatusAnnotation LatestCopyStatusValueCompleted]
      unsetAnnotation_get[of "snd (setAnnotation src LatestCopyStatusAnnotation LatestCopyStatusValueCompleted)"
        LatestCopyTriggerWaitingSinceAnnotation]
    by (auto simp: SetLatestCopyStatusCompleted_def annotation_consts split: prod.splits)
  with assms(1) completed_annotations[OF assms(2,3)] show ?thesis
    unfolding triggerPending_def PVCUsesCopyTrigger_def GetCopyTriggerValue_def GetLatestCopyTriggerValue_def
      map_get_def assms(4)
    by (simp add: annotation_consts split: option.splits)
qed

text \<open>A copy trigger is used once. When the copy is complete and the claim has been updated, the
  trigger value counts as done: the next request for a copy of that claim waits for a new one.\<close>

theorem copyTrigger_used_once:
  assumes "PVCUsesCopyTrigger src" "update_keeps_annotations cl"
    and "run_state (updateCopyTriggerAfterCloneOrSnap cl src) tr = ((None, src'), tr')"
  shows "PVCUsesCopyTrigger src' \<and>
    (\<exists>err src'' tr''. run_state (waitForCopyTriggerBeforeCloneOrSnap cl src') tr1 = ((True, err, src''), tr''))"
proof -
  obtain u src1 where 1: "SetLatestCopyStatusCompleted src = (u, src1)" by fastforce
  obtain u' src2 where 2: "SetLatestCopyTriggerValue src1 (GetCopyTriggerValue src1) = (u', src2)" by fastforce
  have "om_annotations src' = om_annotations src2"
    using assms 1 2
    by (auto simp: updateCopyTriggerAfterCloneOrSnap_def update_keeps_annotations_def kube_ops
        split: if_splits sum.splits)
  from completed_pending[OF assms(1) 1 2 this]
  have p: "PVCUsesCopyTrigger src'" "triggerPending src'" by auto
  have "emits (\<lambda>_. True) (waitForCopyTriggerBeforeCloneOrSnap cl src') (\<lambda>(wait, _, _). wait)"
    by (rule emits_post[OF emits_waitForCopyTrigger]) (use p in \<open>auto simp: triggerPending_def\<close>)
  then obtain a new where "run_state (waitForCopyTriggerBeforeCloneOrSnap cl src') tr1 = (a, new @ tr1)"
    "case a of (wait, _, _) \<Rightarrow> wait" by (rule emitsE)
  with p show ?thesis by (cases a) auto
qed

theorem copyTrigger_used_once_witness:
  "\<exists>src' tr'. run_state (updateCopyTriggerAfterCloneOrSnap sampleCluster
       (triggerPVC [(CopyTriggerAnnotation, ''t1'')])) [] = ((None, src'), tr') \<and> PVCUsesCopyTrigger src'"
proof -
  let ?src = "triggerPVC [(CopyTriggerAnnotation, ''t1'')]"
  let ?run = "run_state (updateCopyTriggerAfterCloneOrSnap sampleCluster ?src) []"
  have "fst (fst ?run) = None"
    by (simp add: updateCopyTriggerAfterCloneOrSnap_def kube_ops split: prod.splits)
  then have run: "?run = ((None, snd (fst ?run)), snd ?run)" by (metis prod.collapse)
  have "update_keeps_annotations sampleCluster" by (simp add: update_keeps_annotations_def)
  moreover have "PVCUsesCopyTrigger ?src" by (simp add: triggerPVC_def PVCUsesCopyTrigger_def)
  ultimately show ?thesis using copyTrigger_used_once[OF _ _ run] run by blast
qed

text \<open>A waiting-since annotation that does not parse is not reset as the log message says: the
  claim is updated with the current time, but the same call still compares the zero time and
  reports that the wait timed out.\<close>

theorem copyTrigger_bad_timestamp_times_out:
  assumes "PVCUsesCopyTrigger src" "triggerPending src"
    and "map_of (om_annotations src) LatestCopyStatusAnnotation = Some LatestCopyStatusValueWaitingForTrigger"
    and "GetLatestCopyTriggerWaitingSinceValue src = since" "since \<noteq> []"
    and "timeParse cl RFC3339 since = Inl bad"
    and "\<And>tr. CopyTriggerWaitTimeout < timeNow cl tr"
    and "\<And>tr p. k_update (pvcC cl) tr p = Inr p"
  shows "\<exists>src' tr'. run_state (waitForCopyTriggerBeforeCloneOrSnap cl src) tr =
    ((True, Some (CopyTriggerTimeoutError (om_name src)), src'), tr') \<and>
    GetLatestCopyTriggerWaitingSinceValue src' = timeFormat cl RFC3339 (timeNow cl tr)"
proof -
  have "\<not> fst (setAnnotation src LatestCopyStatusAnnotation LatestCopyStatusValueWaitingForTrigger)"
    using assms(3) by (simp add: setAnnotation_reports)
  then have s: "setAnnotation src LatestCopyStatusAnnotation LatestCopyStatusValueWaitingForTrigger = (False, src)"
    by (simp add: setAnnotation_def split: if_splits)
  obtain u src2 where a: "setAnnotation src LatestCopyTriggerWaitingSinceAnnotation
      (timeFormat cl RFC3339 (timeNow cl tr)) = (u, src2)" by fastforce
  have n: "om_name src2 = om_name src" using a by (auto simp: setAnnotation_def split: if_splits)
  have v: "GetLatestCopyTriggerWaitingSinceValue src2 = timeFormat cl RFC3339 (timeNow cl tr)"
    using setAnnotation_get[of src LatestCopyTriggerWaitingSinceAnnotation
      "timeFormat cl RFC3339 (timeNow cl tr)"] a
    by (simp add: GetLatestCopyTriggerWaitingSinceValue_def map_get_def)
  show ?thesis
    using assms(1,2,4-8) s a n v
    by (simp add: waitForCopyTriggerBeforeCloneOrSnap_def SetLatestCopyStatusWaitingForTrigger_def
        SetLatestCopyTriggerWaitingSinceValueNow_def triggerPending_def kube_ops time_Before_def time_Add_def)
qed

theorem copyTrigger_bad_timestamp_times_out_witness:
  "\<exists>src' tr'. run_state (waitForCopyTriggerBeforeCloneOrSnap
       (sampleCluster\<lparr>timeParse := \<lambda>_ _. Inl (Errorf ''bad'')\<rparr>)
       (triggerPVC [(LatestCopyStatusAnnotation, LatestCopyStatusValueWaitingForTrigger),
          (LatestCopyTriggerWaitingSinceAnnotation, ''yesterday'')])) [] =
    ((True, Some (CopyTriggerTimeoutError ''data''), src'), tr')"
proof -
  let ?src = "triggerPVC [(LatestCopyStatusAnnotation, LatestCopyStatusValueWaitingForTrigger),
          (LatestCopyTriggerWaitingSinceAnnotation, ''yesterday'')]"
  let ?cl = "sampleCluster\<lparr>timeParse := \<lambda>_ _. Inl (Errorf ''bad'')\<rparr>"
  have "k_update (pvcC ?cl) tr p = Inr p" for tr p by (simp add: pvcC_def)
  moreover have "CopyTriggerWaitTimeout < timeNow ?cl tr" for tr
    by (simp add: CopyTriggerWaitTimeout_def hour_def minute_def second_def)
  moreover have "PVCUsesCopyTrigger ?src" "triggerPending ?src"
    "map_of (om_annotations ?src) LatestCopyStatusAnnotation = Some LatestCopyStatusValueWaitingForTrigger"
    "GetLatestCopyTriggerWaitingSinceValue ?src = ''yesterday''" "om_name ?src = ''data''"
    by (simp_all add: triggerPVC_def copyTrigger_defs triggerPending_def map_get_def annotation_consts new_defs)
  moreover have "timeParse ?cl RFC3339 ''yesterday'' = Inl (Errorf ''bad'')" by simp
  ultimately show ?thesis
    using copyTrigger_bad_timestamp_times_out[of ?src "''yesterday''" ?cl "Errorf ''bad''" "[]"] by auto
qed

section \<open>The image of a destination\<close>

text \<open>
  The name of the image is recorded on the claim before the snapshot is made, so that every retry
  works on the same snapshot. A snapshot the user marked do-not-delete is given up, not taken.
\<close>

fun image_ok :: "'b objmeta_scheme \<Rightarrow> pvc \<Rightarrow> call \<Rightarrow> bool" where
  "image_ok owner src (CCreate (OSnapshot s)) =
     (mine owner False s \<and> om_namespace s = om_namespace src \<and>
      om_name s = map_get (om_annotations src) snapshotAnnotation \<and> sn_sourcePVC s = Some (om_name src))"
| "image_ok owner src (CUpdate (OSnapshot s)) =
     (if IsMarkedDoNotDelete s then list_all (\<lambda>r. or_uid r \<noteq> om_uid owner) (om_ownerRefs s)
      else mine owner False s)"
| "image_ok owner src c = (\<not> is_write c)"

lemma takeOwnership_marked:
  assumes "takeOwnership cl vh t s = Inr s1"
  shows "IsMarkedDoNotDelete s1 = IsMarkedDoNotDelete s"
  using assms
  by (auto simp: takeOwnership_def Let_def marked_iff SetOwnedByVolSync_def MarkForCleanup_labels
      ml.add_labels[simplified] label_keys_distinct split: sum.splits if_splits)

lemma marked_frame [simp]:
  "IsMarkedDoNotDelete (s\<lparr>sn_sourcePVC := x, sn_className := y\<rparr>) = IsMarkedDoNotDelete s"
  by (simp add: marked_iff)

lemma unmark_marked:
  "IsMarkedDoNotDelete s \<Longrightarrow> IsMarkedDoNotDelete (snd (UnMarkForCleanupAndRemoveOwnership s owner))"
  by (simp add: marked_iff unmark_labels label_keys_distinct)

lemma imageSnapMutate_update:
  assumes "controllerRef_documented cl"
  shows "emits P (imageSnapMutate cl vh src sn)
    (\<lambda>(e, z). e = None \<longrightarrow> image_ok (vhOwner vh) src (CUpdate (OSnapshot z)))"
  unfolding imageSnapMutate_def
  using takeOwnership_mine[OF assms, of vh False sn] takeOwnership_marked[of cl vh False sn]
    unmark_marked[of sn "vhOwner vh"] dropped_refs_ok(2)[of "vhOwner vh" sn]
  by (auto intro!: emits_rules split: sum.splits if_splits)

lemma imageSnapMutate_new:
  assumes "controllerRef_documented cl"
  shows "emits P (imageSnapMutate cl vh src
      (newSnapshot (om_namespace src) (map_get (om_annotations src) snapshotAnnotation)))
    (\<lambda>(e, z). e = None \<longrightarrow> image_ok (vhOwner vh) src (CCreate (OSnapshot z)))"
proof -
  let ?n = "newSnapshot (om_namespace src) (map_get (om_annotations src) snapshotAnnotation)"
  have "\<not> IsMarkedDoNotDelete ?n" "om_creationTimestamp ?n = 0" "om_namespace ?n = om_namespace src"
    "om_name ?n = map_get (om_annotations src) snapshotAnnotation"
    by (simp_all add: marked_iff new_defs)
  then show ?thesis
    unfolding imageSnapMutate_def
    using takeOwnership_mine[OF assms, of vh False ?n] takeOwnership_frame(1-3)[of cl vh False ?n]
    by (auto intro!: emits_rules split: sum.splits)
qed



end
