(* ===== verification/Sa_Handler.thy ===== *)
theory Sa_Handler
  imports Utils Volume_Handler
begin

text \<open>
  The service account a mover runs under (\<open>utils/sahandler.go\<close>): either one the user supplied, or one
  that VolSync makes, with a role, a role binding and copies of the image pull secrets. The
  interface \<open>SAHandler\<close> is the locale \<open>sa_handler\<close>; both implementations interpret it.
\<close>

section \<open>Pull secrets\<close>

definition ParseMoverImagePullSecrets :: "string \<Rightarrow> strmap" where
  "ParseMoverImagePullSecrets s =
     fold (\<lambda>orig m. if orig \<noteq> [] then map_put orig (''volsync-pull-'' @ GetHashedName orig) m else m)
       (str_split CHR '','' s) []"

fun addImgPullSec :: "string list \<Rightarrow> string \<Rightarrow> string list" where
  "addImgPullSec secs name = (if name \<in> set secs then secs else secs @ [name])"

section \<open>Handlers\<close>

record saVolSync =
  sav_sa :: serviceaccount
  sav_owner :: objmeta
  sav_privileged :: bool
  sav_role :: role
  sav_roleBinding :: rolebinding
  sav_pullSecrets :: strmap
  sav_namespace :: string

datatype saHandler =
    SAHandlerVolSync saVolSync
  | SAHandlerUserSupplied serviceaccount

definition getVolSyncNamespace :: "cluster \<Rightarrow> string" where
  "getVolSyncNamespace cl = (case getenv cl ''VOLSYNC_NAMESPACE'' of Some v \<Rightarrow> v | None \<Rightarrow> [])"

definition NewSAHandler ::
  "cluster \<Rightarrow> objmeta \<Rightarrow> bool \<Rightarrow> bool \<Rightarrow> string option \<Rightarrow> saHandler" where
  "NewSAHandler cl owner isSource privileged userSuppliedSA =
     (case userSuppliedSA of
        None \<Rightarrow>
          (let dir = (if isSource then ''src'' else ''dst'');
               ns = om_namespace owner
           in SAHandlerVolSync \<lparr>
             sav_sa = newServiceAccount ns (''volsync-'' @ dir @ ''-'' @ om_name owner),
             sav_owner = owner,
             sav_privileged = privileged,
             sav_role = newRole [] [],
             sav_roleBinding = newRoleBinding [] [],
             sav_pullSecrets = ParseMoverImagePullSecrets (moverImagePullSecrets cl),
             sav_namespace = getVolSyncNamespace cl\<rparr>)
      | Some name \<Rightarrow> SAHandlerUserSupplied (newServiceAccount (om_namespace owner) name))"

definition copySecretMutate ::
  "cluster \<Rightarrow> saVolSync \<Rightarrow> secret \<Rightarrow> secret \<Rightarrow> (gerror option \<times> secret) kube" where
  "copySecretMutate cl d orig copy =
     (case setOwnerReference cl (sav_owner d) (om_ownerRefs copy) of
        Inl err \<Rightarrow> ret (Some err, copy)
      | Inr refs \<Rightarrow>
          (let c1 = copy\<lparr>om_ownerRefs := refs\<rparr>;
               c2 = (if om_creationTimestamp c1 = 0 then c1\<lparr>sec_type := sec_type orig\<rparr> else c1);
               c3 = snd (SetOwnedByVolSync meta_ops c2)
           in ret (None, c3\<lparr>sec_data := sec_data orig\<rparr>)))"

definition ensureSecretCopyInMoverNamespace ::
  "cluster \<Rightarrow> saVolSync \<Rightarrow> string \<Rightarrow> string \<Rightarrow> gerror option kube" where
  "ensureSecretCopyInMoverNamespace cl d origSecretName copySecretName = do {
     r \<leftarrow> kGet (secretC cl) (sav_namespace d, origSecretName);
     case r of
       Inl err \<Rightarrow> if \<not> isNotFound err then ret (Some err) else ret None
     | Inr origSecret \<Rightarrow> do {
         (op, err, _) \<leftarrow> CreateOrUpdate (secretC cl)
            (newSecret (om_namespace (sav_sa d)) copySecretName) (copySecretMutate cl d origSecret);
         ret err } }"

definition ensureMoverImagePullSecrets ::
  "cluster \<Rightarrow> saVolSync \<Rightarrow> (bool \<times> gerror option \<times> saVolSync) kube" where
  "ensureMoverImagePullSecrets cl d = do {
     err \<leftarrow> forEach (\<lambda>(orig, copy). ensureSecretCopyInMoverNamespace cl d orig copy)
              (entries (sav_pullSecrets d));
     ret (err = None, err, d) }"

text \<open>What \<open>ctrl.SetControllerReference\<close> followed by \<open>SetOwnedByVolSync\<close> does to an object.\<close>

definition ownIt :: "cluster \<Rightarrow> saVolSync \<Rightarrow> 'a objmeta_scheme \<Rightarrow> gerror + 'a objmeta_scheme" where
  "ownIt cl d x =
     (case setControllerReference cl (sav_owner d) (om_ownerRefs x) of
        Inl err \<Rightarrow> Inl err
      | Inr refs \<Rightarrow> Inr (snd (SetOwnedByVolSync meta_ops (x\<lparr>om_ownerRefs := refs\<rparr>))))"

definition saMutate :: "cluster \<Rightarrow> saVolSync \<Rightarrow> serviceaccount \<Rightarrow> (gerror option \<times> serviceaccount) kube" where
  "saMutate cl d sa =
     (case ownIt cl d sa of
        Inl err \<Rightarrow> ret (Some err, sa)
      | Inr sa1 \<Rightarrow> ret (None, sa1\<lparr>sa_imagePullSecrets :=
          fold (\<lambda>(_, name) secs. addImgPullSec secs name) (entries (sav_pullSecrets d))
            (sa_imagePullSecrets sa1)\<rparr>))"

definition ensureSA :: "cluster \<Rightarrow> saVolSync \<Rightarrow> (bool \<times> gerror option \<times> saVolSync) kube" where
  "ensureSA cl d = do {
     (op, err, sa) \<leftarrow> CreateOrUpdate (saC cl) (sav_sa d) (saMutate cl d);
     ret (err = None, err, d\<lparr>sav_sa := sa\<rparr>) }"

definition privilegedRule :: "cluster \<Rightarrow> policyrule" where
  "privilegedRule cl = \<lparr>pr_apiGroups = [''security.openshift.io''],
     pr_resources = [''securitycontextconstraints''], pr_resourceNames = [sccName cl],
     pr_verbs = [''use'']\<rparr>"

definition roleMutate :: "cluster \<Rightarrow> saVolSync \<Rightarrow> role \<Rightarrow> (gerror option \<times> role) kube" where
  "roleMutate cl d r =
     (case ownIt cl d r of
        Inl err \<Rightarrow> ret (Some err, r)
      | Inr r1 \<Rightarrow> ret (None, if sav_privileged d then r1\<lparr>role_rules := [privilegedRule cl]\<rparr> else r1))"

definition ensureRole :: "cluster \<Rightarrow> saVolSync \<Rightarrow> (bool \<times> gerror option \<times> saVolSync) kube" where
  "ensureRole cl d = do {
     (op, err, r) \<leftarrow> CreateOrUpdate (roleC cl)
        (newRole (om_namespace (sav_sa d)) (om_name (sav_sa d))) (roleMutate cl d);
     ret (err = None, err, d\<lparr>sav_role := r\<rparr>) }"

definition roleBindingMutate ::
  "cluster \<Rightarrow> saVolSync \<Rightarrow> rolebinding \<Rightarrow> (gerror option \<times> rolebinding) kube" where
  "roleBindingMutate cl d b =
     (case ownIt cl d b of
        Inl err \<Rightarrow> ret (Some err, b)
      | Inr b1 \<Rightarrow> ret (None, b1\<lparr>
          rb_roleRef := (''rbac.authorization.k8s.io'', ''Role'', om_name (sav_role d)),
          rb_subjects := [(''ServiceAccount'', om_name (sav_sa d), om_namespace (sav_sa d))]\<rparr>))"

definition ensureRoleBinding :: "cluster \<Rightarrow> saVolSync \<Rightarrow> (bool \<times> gerror option \<times> saVolSync) kube" where
  "ensureRoleBinding cl d = do {
     (op, err, b) \<leftarrow> CreateOrUpdate (roleBindingC cl)
        (newRoleBinding (om_namespace (sav_sa d)) (om_name (sav_sa d))) (roleBindingMutate cl d);
     ret (err = None, err, d\<lparr>sav_roleBinding := b\<rparr>) }"

definition reconcileVolSyncSA ::
  "cluster \<Rightarrow> saVolSync \<Rightarrow> (serviceaccount option \<times> gerror option) kube" where
  "reconcileVolSyncSA cl d0 = do {
     (cont, err, d) \<leftarrow> ReconcileBatch [ensureMoverImagePullSecrets cl, ensureSA cl, ensureRole cl,
        ensureRoleBinding cl] d0;
     ret (if cont then Some (sav_sa d) else None, err) }"

definition reconcileUserSA ::
  "cluster \<Rightarrow> serviceaccount \<Rightarrow> (serviceaccount option \<times> gerror option) kube" where
  "reconcileUserSA cl sa = do {
     r \<leftarrow> kGet (saC cl) (objKey sa);
     case r of
       Inl err \<Rightarrow> ret (None, Some err)
     | Inr sa1 \<Rightarrow> ret (Some sa1, None) }"

fun saReconcile :: "cluster \<Rightarrow> saHandler \<Rightarrow> (serviceaccount option \<times> gerror option) kube" where
  "saReconcile cl (SAHandlerVolSync d) = reconcileVolSyncSA cl d"
| "saReconcile cl (SAHandlerUserSupplied sa) = reconcileUserSA cl sa"

section \<open>The interface SAHandler\<close>

text \<open>
  What a mover relies on: the handler gives either a service account or an error, never both and
  never neither.
\<close>

locale sa_handler =
  fixes reconcile :: "(serviceaccount option \<times> gerror option) kube"
  assumes answer: "fst (run_state reconcile tr) = (sa, err) \<Longrightarrow> (sa = None) = (err \<noteq> None)"
begin

lemma ready_or_error:
  assumes "run_state reconcile tr = ((sa, err), tr')"
  shows "(\<exists>x. sa = Some x \<and> err = None) \<or> (\<exists>e. sa = None \<and> err = Some e)"
  using answer[of tr sa err] assms by (metis fst_conv not_None_eq)

lemma never_waits:
  assumes "run_state reconcile tr = ((sa, err), tr')"
  shows "(sa = None \<or> err \<noteq> None) = (err \<noteq> None)"
  using ready_or_error[OF assms] by auto

end

interpretation user_sa: sa_handler "reconcileUserSA cl sa" for cl sa
  by unfold_locales (auto simp: reconcileUserSA_def kube_ops split: sum.splits)

text \<open>A function of a batch that goes on exactly if it has no error.\<close>

definition decisive :: "('d \<Rightarrow> (bool \<times> gerror option \<times> 'd) kube) \<Rightarrow> bool" where
  "decisive f \<longleftrightarrow> (\<forall>d tr. case fst (run_state (f d) tr) of (cont, err, _) \<Rightarrow> cont = (err = None))"

lemma decisive_batch: "\<forall>f \<in> set fs. decisive f \<Longrightarrow> decisive (ReconcileBatch fs)"
proof (induction fs)
  case Nil
  then show ?case by (simp add: decisive_def)
next
  case (Cons f fs)
  then have f: "decisive f" and fs: "decisive (ReconcileBatch fs)" by auto
  show ?case
    unfolding decisive_def
  proof (intro allI)
    fix d tr
    obtain cont err d1 tr1 where 1: "run_state (f d) tr = ((cont, err, d1), tr1)" by (metis prod.exhaust)
    with f have "cont = (err = None)" unfolding decisive_def by (metis (mono_tags) fst_conv case_prod_conv)
    then show "case fst (run_state (ReconcileBatch (f # fs) d) tr) of (cont, err, _) \<Rightarrow> cont = (err = None)"
      using 1 fs by (auto simp: decisive_def)
  qed
qed

lemma decisive_steps:
  "decisive (ensureMoverImagePullSecrets cl)" "decisive (ensureSA cl)" "decisive (ensureRole cl)"
  "decisive (ensureRoleBinding cl)"
  by (auto simp: decisive_def ensureMoverImagePullSecrets_def ensureSA_def ensureRole_def
      ensureRoleBinding_def split: prod.splits)

interpretation volsync_sa: sa_handler "reconcileVolSyncSA cl d" for cl d
proof
  fix tr sa err
  assume a: "fst (run_state (reconcileVolSyncSA cl d) tr) = (sa, err)"
  let ?fs = "[ensureMoverImagePullSecrets cl, ensureSA cl, ensureRole cl, ensureRoleBinding cl]"
  obtain cont err' d' tr' where r: "run_state (ReconcileBatch ?fs d) tr = ((cont, err', d'), tr')"
    by (metis prod.exhaust)
  have "decisive (ReconcileBatch ?fs)" by (rule decisive_batch) (simp add: decisive_steps)
  then have "cont = (err' = None)"
    unfolding decisive_def using r by (metis (mono_tags) fst_conv case_prod_conv)
  with a r show "(sa = None) = (err \<noteq> None)"
    by (auto simp del: ReconcileBatch.simps simp: reconcileVolSyncSA_def)
qed

text \<open>Whichever handler a mover has, reconciling its service account answers with the account or with
  an error, never with neither: a mover is not left waiting without a reason.\<close>

lemma saReconcile_answers:
  "case fst (run_state (saReconcile cl (NewSAHandler cl owner isSource privileged userSA)) tr) of
     (sa, err) \<Rightarrow> (sa = None) = (err \<noteq> None)"
proof (cases "NewSAHandler cl owner isSource privileged userSA")
  case (SAHandlerVolSync d)
  then show ?thesis using volsync_sa.answer[of cl d tr] by (auto split: prod.splits)
next
  case (SAHandlerUserSupplied sa)
  then show ?thesis using user_sa.answer[of cl sa tr] by (auto split: prod.splits)
qed

section \<open>What the VolSync handler may do to the cluster\<close>

text \<open>
  Everything it writes belongs to the owner; copies of pull secrets carry the owner among their
  references. A role it creates grants the use of the security context constraint to privileged
  movers only, and nothing else to anyone.
\<close>

fun sa_ok :: "cluster \<Rightarrow> saVolSync \<Rightarrow> call \<Rightarrow> bool" where
  "sa_ok cl d (CCreate (OServiceAccount x)) = mine (sav_owner d) False x"
| "sa_ok cl d (CUpdate (OServiceAccount x)) = mine (sav_owner d) False x"
| "sa_ok cl d (CCreate (ORole r)) = (mine (sav_owner d) False r \<and>
     role_rules r = (if sav_privileged d then [privilegedRule cl] else []))"
| "sa_ok cl d (CUpdate (ORole r)) = (mine (sav_owner d) False r \<and>
     (sav_privileged d \<longrightarrow> role_rules r = [privilegedRule cl]))"
| "sa_ok cl d (CCreate (ORoleBinding b)) = mine (sav_owner d) False b"
| "sa_ok cl d (CUpdate (ORoleBinding b)) = mine (sav_owner d) False b"
| "sa_ok cl d (CCreate (OSecret s)) = (\<exists>r \<in> set (om_ownerRefs s). or_uid r = om_uid (sav_owner d))"
| "sa_ok cl d (CUpdate (OSecret s)) = (\<exists>r \<in> set (om_ownerRefs s). or_uid r = om_uid (sav_owner d))"
| "sa_ok cl d c = (\<not> is_write c)"

definition sa_same :: "saVolSync \<Rightarrow> saVolSync \<Rightarrow> bool" where
  "sa_same d d' \<longleftrightarrow> sav_owner d' = sav_owner d \<and> sav_privileged d' = sav_privileged d"

lemma ownIt_takeOwnership:
  "ownIt cl d x = takeOwnership cl (emptyVH\<lparr>vh_owner := Some (sav_owner d)\<rparr>) False x"
  by (simp add: ownIt_def takeOwnership_def vhOwner_def split: sum.splits)

lemma ownIt_mine: "controllerRef_documented cl \<Longrightarrow> ownIt cl d x = Inr y \<Longrightarrow> mine (sav_owner d) False y"
  using takeOwnership_mine[of cl "emptyVH\<lparr>vh_owner := Some (sav_owner d)\<rparr>" False x y]
  by (simp add: ownIt_takeOwnership vhOwner_def)

lemma ownIt_rules: "ownIt cl d r = Inr r1 \<Longrightarrow> role_rules r1 = role_rules r"
  by (auto simp: ownIt_def SetOwnedByVolSync_def AddLabel_meta split: sum.splits)

lemma mine_sa_frame [simp]:
  "mine owner t (sa\<lparr>sa_imagePullSecrets := x\<rparr>) = mine owner t sa"
  "mine owner t (r\<lparr>role_rules := y\<rparr>) = mine owner t r"
  "mine owner t (b\<lparr>rb_roleRef := u, rb_subjects := v\<rparr>) = mine owner t b"
  by (simp_all add: mine_def IsOwnedByVolsync_def ml.has_label_value_iff)

lemma emits_secretCopy:
  assumes "cou_documented (secretC cl)" "ownerRef_documented cl"
  shows "emits (sa_ok cl d) (ensureSecretCopyInMoverNamespace cl d orig copy) (\<lambda>_. True)"
proof -
  have refs: "\<exists>r \<in> set refs. or_uid r = om_uid (sav_owner d)"
    if "setOwnerReference cl (sav_owner d) old = Inr refs" for refs old
    using assms(2) that unfolding ownerRef_documented_def by blast
  have mut: "emits (sa_ok cl d) (copySecretMutate cl d s y)
      (\<lambda>(e, z). e = None \<longrightarrow> (\<exists>r \<in> set (om_ownerRefs z). or_uid r = om_uid (sav_owner d)))" for s y
    unfolding copySecretMutate_def
    by (auto intro!: emits_rules dest!: refs simp: SetOwnedByVolSync_def AddLabel_meta Let_def split: sum.splits)
  have "emits (sa_ok cl d) (CreateOrUpdate (secretC cl) x (copySecretMutate cl d s)) (\<lambda>_. True)" for x s
    by (rule emits_CreateOrUpdate[OF assms(1) _ mut]) auto
  then show ?thesis
    unfolding ensureSecretCopyInMoverNamespace_def by (auto intro!: emits_rules emits_step)
qed

lemma emits_pullSecrets:
  assumes "cou_documented (secretC cl)" "ownerRef_documented cl"
  shows "emits (sa_ok cl d) (ensureMoverImagePullSecrets cl d) (\<lambda>(cont, err, d'). d' = d \<and> cont = (err = None))"
  unfolding ensureMoverImagePullSecrets_def
  by (rule emits_bind[OF emits_forEach]) (auto intro!: emits_rules emits_secretCopy[OF assms])

lemma emits_ensureSA:
  assumes "cou_documented (saC cl)" "controllerRef_documented cl"
  shows "emits (sa_ok cl d) (ensureSA cl d) (\<lambda>(cont, err, d'). sa_same d d' \<and> cont = (err = None))"
  unfolding ensureSA_def
proof (rule emits_bind[OF emits_CreateOrUpdate[OF assms(1), where W = "mine (sav_owner d) False"]])
  show "emits (sa_ok cl d) (saMutate cl d y) (\<lambda>(e, z). e = None \<longrightarrow> mine (sav_owner d) False z)" for y
    unfolding saMutate_def using ownIt_mine[OF assms(2), of d y]
    by (auto intro!: emits_rules split: sum.splits)
qed (auto intro!: emits_rules simp: sa_same_def)

lemma emits_ensureRole:
  assumes "cou_documented (roleC cl)" "controllerRef_documented cl"
  shows "emits (sa_ok cl d) (ensureRole cl d) (\<lambda>(cont, err, d'). sa_same d d' \<and> cont = (err = None))"
  unfolding ensureRole_def
proof (rule emits_bind[OF emits_CreateOrUpdate2[OF assms(1)]])
  let ?x = "newRole (om_namespace (sav_sa d)) (om_name (sav_sa d))"
  have "role_rules ?x = []" by (simp add: new_defs)
  then show "emits (sa_ok cl d) (roleMutate cl d ?x)
      (\<lambda>(e, z). e = None \<longrightarrow> sa_ok cl d (CCreate (k_wrap (roleC cl) z)))"
    unfolding roleMutate_def using ownIt_mine[OF assms(2), of d ?x] ownIt_rules[of cl d ?x]
    by (auto intro!: emits_rules split: sum.splits)
  show "emits (sa_ok cl d) (roleMutate cl d y)
      (\<lambda>(e, z). e = None \<longrightarrow> sa_ok cl d (CUpdate (k_wrap (roleC cl) z)))" for y
    unfolding roleMutate_def using ownIt_mine[OF assms(2), of d y]
    by (auto intro!: emits_rules split: sum.splits)
qed (auto intro!: emits_rules simp: sa_same_def)

lemma emits_ensureRoleBinding:
  assumes "cou_documented (roleBindingC cl)" "controllerRef_documented cl"
  shows "emits (sa_ok cl d) (ensureRoleBinding cl d) (\<lambda>(cont, err, d'). sa_same d d' \<and> cont = (err = None))"
  unfolding ensureRoleBinding_def
proof (rule emits_bind[OF emits_CreateOrUpdate[OF assms(1), where W = "mine (sav_owner d) False"]])
  show "emits (sa_ok cl d) (roleBindingMutate cl d y) (\<lambda>(e, z). e = None \<longrightarrow> mine (sav_owner d) False z)" for y
    unfolding roleBindingMutate_def using ownIt_mine[OF assms(2), of d y]
    by (auto intro!: emits_rules split: sum.splits)
qed (auto intro!: emits_rules simp: sa_same_def)

lemma sa_ok_same: "sa_same d d' \<Longrightarrow> sa_ok cl d' c = sa_ok cl d c"
  by (cases "(cl, d, c)" rule: sa_ok.cases) (auto simp: sa_same_def)

definition sa_documented :: "cluster \<Rightarrow> bool" where
  "sa_documented cl \<longleftrightarrow> cou_documented (secretC cl) \<and> cou_documented (saC cl) \<and>
     cou_documented (roleC cl) \<and> cou_documented (roleBindingC cl) \<and>
     ownerRef_documented cl \<and> controllerRef_documented cl"

lemma emits_reconcileVolSyncSA:
  assumes "sa_documented cl"
  shows "emits (sa_ok cl d) (reconcileVolSyncSA cl d) (\<lambda>_. True)"
proof -
  have step: "emits (sa_ok cl d) (f d1) (\<lambda>(cont, err, d'). sa_same d d' \<and> (cont \<longleftrightarrow> err = None))"
    if "f \<in> set [ensureMoverImagePullSecrets cl, ensureSA cl, ensureRole cl, ensureRoleBinding cl]"
      "sa_same d d1" for f d1
  proof -
    have "emits (sa_ok cl d1) (f d1) (\<lambda>(cont, err, d'). sa_same d1 d' \<and> (cont \<longleftrightarrow> err = None))"
      using that(1) assms emits_post[OF emits_pullSecrets[of cl d1], of "\<lambda>(cont, err, d'). sa_same d1 d' \<and> (cont \<longleftrightarrow> err = None)"]
        emits_ensureSA[of cl d1] emits_ensureRole[of cl d1] emits_ensureRoleBinding[of cl d1]
      by (auto simp: sa_documented_def sa_same_def)
    then show ?thesis
      by (rule emits_weaken) (use that(2) sa_ok_same[OF that(2), of cl] in \<open>auto simp: sa_same_def\<close>)
  qed
  have "emits (sa_ok cl d)
      (ReconcileBatch [ensureMoverImagePullSecrets cl, ensureSA cl, ensureRole cl, ensureRoleBinding cl] d)
      (\<lambda>(cont, err, d'). sa_same d d' \<and> (cont \<longleftrightarrow> err = None))"
    by (rule emits_ReconcileBatch) (erule (1) step, simp add: sa_same_def)
  then show ?thesis
    unfolding reconcileVolSyncSA_def by (rule emits_bind) (auto intro!: emits_rules)
qed



text \<open>Privileges are not taken back. If the role of a mover exists with the privileged rule and the
  namespace no longer allows privileged movers, reconciling keeps the rule in every role it
  writes.\<close>

theorem ensureRole_keeps_privileges:
  assumes "cou_documented (roleC cl)" "\<not> sav_privileged d"
    and "k_get (roleC cl) tr (om_namespace (sav_sa d), om_name (sav_sa d)) = Inr old"
    and "role_rules old = [privilegedRule cl]"
    and "run_state (ensureRole cl d) tr = (out, tr')"
  shows "\<exists>new. tr' = new @ tr \<and> (\<forall>r. CUpdate (ORole r) \<in> set new \<longrightarrow> role_rules r = [privilegedRule cl])"
proof (cases "ownIt cl d old")
  case (Inl err)
  with assms show ?thesis
    by (auto simp: ensureRole_def cou_documentedD[OF assms(1)] cou_steps_def kube_ops objKey_def new_defs
        roleMutate_def)
next
  case (Inr r1)
  with ownIt_rules[OF Inr] assms show ?thesis
    by (auto simp: ensureRole_def cou_documentedD[OF assms(1)] cou_steps_def kube_ops objKey_def new_defs
        roleMutate_def split: if_splits sum.splits)
qed

theorem ensureRole_keeps_privileges_witness:
  "\<exists>new. snd (run_state (ensureRole (sampleCluster\<lparr>roles := withCou ((sampleClient KRole ORole)
        \<lparr>k_get := \<lambda>_ _. Inr ((newRole ''ns'' ''volsync-src-rs'')\<lparr>role_rules := [privilegedRule sampleCluster]\<rparr>)\<rparr>)\<rparr>)
      \<lparr>sav_sa = newServiceAccount ''ns'' ''volsync-src-rs'', sav_owner = newMeta ''ns'' ''rs'',
       sav_privileged = False, sav_role = newRole [] [], sav_roleBinding = newRoleBinding [] [],
       sav_pullSecrets = [], sav_namespace = []\<rparr>) []) = new @ [] \<and>
     (\<forall>r. CUpdate (ORole r) \<in> set new \<longrightarrow> role_rules r = [privilegedRule sampleCluster])"
proof -
  let ?old = "(newRole ''ns'' ''volsync-src-rs'')\<lparr>role_rules := [privilegedRule sampleCluster]\<rparr>"
  let ?c = "withCou ((sampleClient KRole ORole)\<lparr>k_get := \<lambda>_ _. Inr ?old\<rparr>)"
  let ?cl = "sampleCluster\<lparr>roles := ?c\<rparr>"
  let ?d = "\<lparr>sav_sa = newServiceAccount ''ns'' ''volsync-src-rs'', sav_owner = newMeta ''ns'' ''rs'',
       sav_privileged = False, sav_role = newRole [] [], sav_roleBinding = newRoleBinding [] [],
       sav_pullSecrets = [], sav_namespace = []\<rparr>"
  have c: "roleC ?cl = ?c" by (simp add: roleC_def client_id)
  have p: "privilegedRule ?cl = privilegedRule sampleCluster" by (simp add: privilegedRule_def)
  show ?thesis
    using ensureRole_keeps_privileges[of ?cl ?d "[]" ?old, OF _ _ _ _ prod.collapse[symmetric]]
    by (simp add: c p)
qed

end
