(* ===== verification/Pod_Logs.thy ===== *)
theory Pod_Logs
  imports Utils "HOL-Library.Sublist"
begin

text \<open>
  The logs of mover pods (\<open>utils/podlogs.go\<close>): which pod of a job to read, the filtering and
  truncation of its log, and the mover status that is published from it. The clientset behind
  \<open>getPodLogs\<close> is the parameter \<open>podLogs\<close> of the cluster; \<open>InitPodLogsClient\<close> only binds
  configuration to environment variables and is represented by \<open>logMaxBytes\<close>, \<open>logTailLines\<close> and
  \<open>logDebug\<close>.
\<close>

type_synonym lineFilter = "string \<Rightarrow> string option"

section \<open>Reading and filtering a log\<close>

definition AllLines :: lineFilter where
  "AllLines line = Some line"

text \<open>The loop over the scanner; \<open>acc\<close> is what the string builder holds.\<close>

fun filterLoop :: "lineFilter \<Rightarrow> string \<Rightarrow> string list \<Rightarrow> string" where
  "filterLoop lineFilter acc [] = acc"
| "filterLoop lineFilter acc (line # rest) =
     (case lineFilter line of
        None \<Rightarrow> filterLoop lineFilter acc rest
      | Some lineAfterFilter \<Rightarrow>
          filterLoop lineFilter
            ((if length acc > 0 then acc @ [CHR 0x0A] else acc) @ lineAfterFilter) rest)"

definition FilterLogs ::
  "cluster \<Rightarrow> string list \<times> gerror option \<Rightarrow> lineFilter \<Rightarrow> string \<times> gerror option" where
  "FilterLogs cl reader lineFilter0 =
     (let lineFilter = if logDebug cl then AllLines else lineFilter0
      in (filterLoop lineFilter [] (fst reader), snd reader))"

definition getPodLogs ::
  "cluster \<Rightarrow> string \<Rightarrow> string \<Rightarrow> lineFilter \<Rightarrow> (string \<times> gerror option) kube" where
  "getPodLogs cl podName podNamespace lineFilter = do {
     stream \<leftarrow> ask (\<lambda>tr. podLogs cl tr podName podNamespace
         (if logTailLines cl \<ge> 0 then Some (logTailLines cl) else None)) (CPodLogs podName podNamespace);
     case stream of
       Inl err \<Rightarrow> ret ([], Some err)
     | Inr reader \<Rightarrow> ret (FilterLogs cl reader lineFilter) }"

definition TruncateString :: "string \<Rightarrow> int \<Rightarrow> string" where
  "TruncateString s maxBytes =
     (if maxBytes \<le> 0 then []
      else if int (length s) > maxBytes then drop (nat (int (length s) - maxBytes)) s
      else s)"

definition truncateMoverLog :: "cluster \<Rightarrow> string \<Rightarrow> string" where
  "truncateMoverLog cl moverLog = TruncateString moverLog (logMaxBytes cl)"

section \<open>The pod of a job\<close>

fun newestPodLoop :: "pod option \<Rightarrow> pod list \<Rightarrow> pod option" where
  "newestPodLoop newestPod [] = newestPod"
| "newestPodLoop newestPod (p # ps) =
     newestPodLoop
       (case newestPod of
          None \<Rightarrow> Some p
        | Some n \<Rightarrow> if time_Before (om_creationTimestamp n) (om_creationTimestamp p) then Some p else Some n)
       ps"

definition getNewestPod :: "pod list \<Rightarrow> pod option" where
  "getNewestPod ps = newestPodLoop None ps"

definition GetPodsForJob ::
  "cluster \<Rightarrow> string \<Rightarrow> string \<Rightarrow> (pod list \<times> pod list \<times> pod list \<times> gerror option) kube" where
  "GetPodsForJob cl jobName jobNamespace = do {
     r \<leftarrow> kList (podC cl) (Some jobNamespace) (LabelIs ''job-name'' jobName);
     case r of
       Inl err \<Rightarrow> ret ([], [], [], Some err)
     | Inr items \<Rightarrow>
         ret (filter (\<lambda>p. pod_phase p = PodRunning) items,
              filter (\<lambda>p. pod_phase p = PodSucceeded) items,
              filter (\<lambda>p. pod_phase p = PodFailed) items, None) }"

definition GetNewestPodForJob ::
  "cluster \<Rightarrow> string \<Rightarrow> string \<Rightarrow> bool \<Rightarrow> (gerror + pod option) kube" where
  "GetNewestPodForJob cl jobName jobNamespace jobFailed = do {
     (runningPods, successfulPods, failedPods, err) \<leftarrow> GetPodsForJob cl jobName jobNamespace;
     case err of
       Some e \<Rightarrow> ret (Inl e)
     | None \<Rightarrow>
         ret (Inr (if jobFailed then
                     (case getNewestPod failedPods of
                        None \<Rightarrow> getNewestPod runningPods
                      | Some p \<Rightarrow> Some p)
                   else getNewestPod successfulPods)) }"

section \<open>The mover status\<close>

definition UpdateMoverStatusFailed :: "moverStatus \<Rightarrow> string \<Rightarrow> moverStatus" where
  "UpdateMoverStatusFailed st errMessage = st\<lparr>ms_result := MoverResultFailed, ms_logs := errMessage\<rparr>"

definition updateMoverStatusForJob ::
  "cluster \<Rightarrow> moverStatus \<Rightarrow> string \<Rightarrow> string \<Rightarrow> bool \<Rightarrow> lineFilter option \<Rightarrow> moverStatus kube" where
  "updateMoverStatusForJob cl st0 jobName jobNamespace jobFailed logLineFilter0 =
     (let logLineFilter = (case logLineFilter0 of None \<Rightarrow> AllLines | Some f \<Rightarrow> f);
          st = st0\<lparr>ms_logs := [],
                  ms_result := (if jobFailed then MoverResultFailed else MoverResultSuccessful)\<rparr>
      in do {
        r \<leftarrow> GetNewestPodForJob cl jobName jobNamespace jobFailed;
        case r of
          Inl err \<Rightarrow> ret st
        | Inr None \<Rightarrow> ret st
        | Inr (Some p) \<Rightarrow> do {
            (filteredLogs, err) \<leftarrow> getPodLogs cl (om_name p) jobNamespace logLineFilter;
            ret (st\<lparr>ms_logs := truncateMoverLog cl filteredLogs\<rparr>) } })"

definition UpdateMoverStatusForFailedJob ::
  "cluster \<Rightarrow> moverStatus \<Rightarrow> string \<Rightarrow> string \<Rightarrow> lineFilter option \<Rightarrow> moverStatus kube" where
  "UpdateMoverStatusForFailedJob cl st jobName jobNamespace logLineFilter =
     updateMoverStatusForJob cl st jobName jobNamespace True logLineFilter"

definition UpdateMoverStatusForSuccessfulJob ::
  "cluster \<Rightarrow> moverStatus \<Rightarrow> string \<Rightarrow> string \<Rightarrow> lineFilter option \<Rightarrow> moverStatus kube" where
  "UpdateMoverStatusForSuccessfulJob cl st jobName jobNamespace logLineFilter =
     updateMoverStatusForJob cl st jobName jobNamespace False logLineFilter"

section \<open>Properties\<close>

lemma filterLoop_append:
  "acc \<noteq> [] \<Longrightarrow> filterLoop f acc ls =
     strings_Join (acc # List.map_filter f ls) [CHR 0x0A]"
proof (induction ls arbitrary: acc)
  case Nil
  then show ?case by (simp add: map_filter_simps)
next
  case (Cons l ls)
  have *: "strings_Join ((acc @ x) # ys) s = acc @ strings_Join (x # ys) s" for x s and ys :: "string list"
    by (cases ys) simp_all
  show ?case
  proof (cases "f l")
    case None
    with Cons show ?thesis by (simp add: map_filter_simps)
  next
    case (Some x)
    have "filterLoop f acc (l # ls) = filterLoop f (acc @ [CHR 0x0A] @ x) ls"
      using Some Cons.prems by simp
    also have "\<dots> = strings_Join ((acc @ [CHR 0x0A] @ x) # List.map_filter f ls) [CHR 0x0A]"
      by (rule Cons.IH) (use Cons.prems in simp)
    also have "\<dots> = strings_Join (acc # x # List.map_filter f ls) [CHR 0x0A]"
      using *[of "[CHR 0x0A] @ x" "List.map_filter f ls"] *[where x = x] by (cases "List.map_filter f ls") auto
    finally show ?thesis using Some by (simp add: map_filter_simps)
  qed
qed

text \<open>The log that is kept is the filtered lines joined by newlines; empty lines at the start are
  dropped, because the separator is only written once something is in the builder. In debug mode
  every line is kept. A read error is returned beside what was read.\<close>

theorem FilterLogs_spec:
  "FilterLogs cl reader f =
     (strings_Join (dropWhile (\<lambda>l. l = []) (List.map_filter (if logDebug cl then Some else f) (fst reader)))
        [CHR 0x0A], snd reader)"
proof -
  have "filterLoop g [] ls = strings_Join (dropWhile (\<lambda>l. l = []) (List.map_filter g ls)) [CHR 0x0A]" for g ls
  proof (induction ls)
    case Nil
    show ?case by (simp add: map_filter_simps)
  next
    case (Cons l ls)
    then show ?case
      by (auto simp: map_filter_simps filterLoop_append split: option.splits)
  qed
  then show ?thesis by (simp add: FilterLogs_def AllLines_def[abs_def] Let_def)
qed

text \<open>Truncation keeps the end of the string: the result is a suffix, has at most the given number
  of bytes, and is the string itself whenever that fits; a limit that is not positive leaves
  nothing.\<close>

lemma TruncateString_spec:
  "int (length (TruncateString s n)) = max 0 (min n (int (length s))) \<and> suffix (TruncateString s n) s"
  by (auto simp: TruncateString_def suffix_drop)

lemma newestPodLoop_spec:
  assumes "newestPodLoop n ps = Some p"
  shows "p \<in> set_option n \<union> set ps \<and>
    (\<forall>q \<in> set_option n \<union> set ps. om_creationTimestamp q \<le> om_creationTimestamp p)"
  using assms
proof (induction ps arbitrary: n)
  case Nil
  then show ?case by auto
next
  case (Cons x ps)
  show ?case
    using Cons.IH[OF Cons.prems[unfolded newestPodLoop.simps]]
    by (cases n) (fastforce simp: time_Before_def split: if_splits)+
qed

lemma newestPodLoop_None: "newestPodLoop n ps = None \<longleftrightarrow> n = None \<and> ps = []"
  by (induction ps arbitrary: n) (auto split: option.splits)

lemma getNewestPod_Some:
  "getNewestPod ps = Some p \<Longrightarrow>
     p \<in> set ps \<and> (\<forall>q \<in> set ps. om_creationTimestamp q \<le> om_creationTimestamp p)"
  unfolding getNewestPod_def using newestPodLoop_spec[of None ps p] by simp

lemma getNewestPod_None: "getNewestPod ps = None \<longleftrightarrow> ps = []"
  by (simp add: getNewestPod_def newestPodLoop_None)

text \<open>For a job that succeeded the log is read from a newest pod that succeeded; for a job that
  failed from a newest failed pod, and from a running pod only if none failed. Without a matching
  pod there is none to read.\<close>

lemma GetNewestPodForJob_spec:
  "case fst (run_state (GetNewestPodForJob cl j ns failed) tr) of
     Inl err \<Rightarrow> k_list (podC cl) tr (Some ns) (LabelIs ''job-name'' j) = Inl err
   | Inr r \<Rightarrow> \<exists>items. k_list (podC cl) tr (Some ns) (LabelIs ''job-name'' j) = Inr items \<and>
       (let hasPhase = (\<lambda>ph. \<exists>p \<in> set items. pod_phase p = ph);
            want = (if \<not> failed then PodSucceeded else if hasPhase PodFailed then PodFailed else PodRunning)
        in case r of
             None \<Rightarrow> \<not> hasPhase want
           | Some p \<Rightarrow> p \<in> set items \<and> pod_phase p = want \<and>
               (\<forall>q \<in> set items. pod_phase q = want \<longrightarrow> om_creationTimestamp q \<le> om_creationTimestamp p))"
proof (cases "k_list (podC cl) tr (Some ns) (LabelIs ''job-name'' j)")
  case (Inl e)
  then show ?thesis by (simp add: GetNewestPodForJob_def GetPodsForJob_def kube_ops)
next
  case (Inr items)
  then show ?thesis
    by (auto simp: GetNewestPodForJob_def GetPodsForJob_def kube_ops getNewestPod_None filter_empty_conv Let_def
        split: option.splits dest!: getNewestPod_Some)
qed

text \<open>
  Publishing a status reads pods and logs and writes nothing to the cluster; the result says
  whether the job failed whatever goes wrong with the logs.
\<close>

fun log_reads :: "string \<Rightarrow> call \<Rightarrow> bool" where
  "log_reads ns (CList k n sel) \<longleftrightarrow> k = KPod \<and> n = Some ns"
| "log_reads ns (CPodLogs p n) \<longleftrightarrow> n = ns"
| "log_reads ns _ \<longleftrightarrow> False"

lemma emits_GetNewestPodForJob [emits_rules]:
  "(\<And>a. Q a) \<Longrightarrow> emits (log_reads ns) (GetNewestPodForJob cl j ns failed) Q"
  unfolding GetNewestPodForJob_def GetPodsForJob_def
  by (rule emits_step) (auto intro!: emits_rules emits_step[of _ "kList _ _ _"])

lemma emits_getPodLogs [emits_rules]:
  "(\<And>a. Q a) \<Longrightarrow> emits (log_reads ns) (getPodLogs cl p ns f) Q"
  unfolding getPodLogs_def
  by (rule emits_step) (auto intro!: emits_rules emits_ask simp: FilterLogs_def Let_def)

lemma TruncateString_length: "int (length (TruncateString s n)) \<le> max 0 n"
  by (auto simp: TruncateString_def)

lemma emits_updateMoverStatusForJob:
  "emits (log_reads ns) (updateMoverStatusForJob cl st j ns failed f)
     (\<lambda>st'. ms_result st' = (if failed then MoverResultFailed else MoverResultSuccessful) \<and>
        int (length (ms_logs st')) \<le> max 0 (logMaxBytes cl))"
  unfolding updateMoverStatusForJob_def Let_def
  by (rule emits_step[of _ "GetNewestPodForJob _ _ _ _"])
    (auto intro!: emits_rules emits_step[of _ "getPodLogs _ _ _ _"]
      simp: truncateMoverLog_def TruncateString_length split: option.splits)

text \<open>The status published for a job says failed exactly for a failed job, also when its pods or
  logs cannot be read; its log has at most the configured number of bytes; and publishing only
  reads pods and logs of the namespace of the job.\<close>

theorem UpdateMoverStatusForJob_reports:
  "emits (log_reads ns)
     (if failed then UpdateMoverStatusForFailedJob cl st j ns f
      else UpdateMoverStatusForSuccessfulJob cl st j ns f)
     (\<lambda>st'. (ms_result st' = MoverResultFailed \<longleftrightarrow> failed) \<and>
        (ms_result st' = MoverResultSuccessful \<longleftrightarrow> \<not> failed) \<and>
        int (length (ms_logs st')) \<le> max 0 (logMaxBytes cl))"
  using emits_updateMoverStatusForJob[of ns cl st j failed f]
  unfolding UpdateMoverStatusForFailedJob_def UpdateMoverStatusForSuccessfulJob_def
  by (cases failed) (auto elim!: emits_post)

end
