(* ===== verification/Log_Filter.thy ===== *)
theory Log_Filter
  imports Pod_Logs
begin

text \<open>
  The line filters of the movers (\<open>logfilter.go\<close> of restic, rclone, rsync, rsync-TLS and kopia). Each
  is a regular expression of Go's \<open>regexp\<close> package, a top-level alternative of patterns that are
  anchored at the start of the line or not. The patterns are over ASCII and \<open>.\<close> stands for any run
  of runes between two ASCII characters, so matching the bytes gives the same answer. A regular
  expression is a \<open>rex\<close>, matched by derivatives.
\<close>

section \<open>Regular expressions\<close>

datatype rex =
    RNone
  | REps
  | RSet "char list"     \<comment> \<open>a character class\<close>
  | RAny                 \<comment> \<open>\<open>.\<close>: any character but a newline\<close>
  | RSeq rex rex
  | RAlt rex rex
  | RStar rex

inductive rmatch :: "rex \<Rightarrow> string \<Rightarrow> bool" where
  rm_eps: "rmatch REps []"
| rm_set: "c \<in> set cs \<Longrightarrow> rmatch (RSet cs) [c]"
| rm_any: "c \<noteq> CHR 0x0A \<Longrightarrow> rmatch RAny [c]"
| rm_seq: "rmatch r u \<Longrightarrow> rmatch s v \<Longrightarrow> rmatch (RSeq r s) (u @ v)"
| rm_alt1: "rmatch r u \<Longrightarrow> rmatch (RAlt r s) u"
| rm_alt2: "rmatch s u \<Longrightarrow> rmatch (RAlt r s) u"
| rm_star0: "rmatch (RStar r) []"
| rm_star1: "rmatch r u \<Longrightarrow> rmatch (RStar r) v \<Longrightarrow> rmatch (RStar r) (u @ v)"

inductive_simps rmatch_simps:
  "rmatch RNone s" "rmatch REps s" "rmatch (RSet cs) s" "rmatch RAny s"
  "rmatch (RSeq r t) s" "rmatch (RAlt r t) s"

fun nullable :: "rex \<Rightarrow> bool" where
  "nullable RNone = False"
| "nullable REps = True"
| "nullable (RSet _) = False"
| "nullable RAny = False"
| "nullable (RSeq r s) = (nullable r \<and> nullable s)"
| "nullable (RAlt r s) = (nullable r \<or> nullable s)"
| "nullable (RStar r) = True"

fun deriv :: "char \<Rightarrow> rex \<Rightarrow> rex" where
  "deriv c RNone = RNone"
| "deriv c REps = RNone"
| "deriv c (RSet cs) = (if c \<in> set cs then REps else RNone)"
| "deriv c RAny = (if c = CHR 0x0A then RNone else REps)"
| "deriv c (RSeq r s) =
     (if nullable r then RAlt (RSeq (deriv c r) s) (deriv c s) else RSeq (deriv c r) s)"
| "deriv c (RAlt r s) = RAlt (deriv c r) (deriv c s)"
| "deriv c (RStar r) = RSeq (deriv c r) (RStar r)"

fun prefixMatch :: "rex \<Rightarrow> string \<Rightarrow> bool" where
  "prefixMatch r [] = nullable r"
| "prefixMatch r (c # s) = (nullable r \<or> prefixMatch (deriv c r) s)"

fun searchMatch :: "rex \<Rightarrow> string \<Rightarrow> bool" where
  "searchMatch r [] = prefixMatch r []"
| "searchMatch r (c # s) = (prefixMatch r (c # s) \<or> searchMatch r s)"

text \<open>A pattern is an alternative of expressions, each with whether it starts with \<open>^\<close>.\<close>

type_synonym pattern = "(bool \<times> rex) list"

definition MatchString :: "pattern \<Rightarrow> string \<Rightarrow> bool" where
  "MatchString p s = list_ex (\<lambda>(anchored, r). if anchored then prefixMatch r s else searchMatch r s) p"

fun lit :: "string \<Rightarrow> rex" where
  "lit [] = REps"
| "lit (c # s) = RSeq (RSet [c]) (lit s)"

definition anySpace :: rex where
  "anySpace = RSet [CHR 0x09, CHR 0x0A, CHR 0x0C, CHR 0x0D, CHR '' '']"

definition plus :: "rex \<Rightarrow> rex" where "plus r = RSeq r (RStar r)"

text \<open>\<open>[xX]rest\<close>, \<open>^\s*r\<close> and \<open>r\s.+s\<close>.\<close>

definition cap :: "char \<Rightarrow> char \<Rightarrow> string \<Rightarrow> rex" where
  "cap a b rest = RSeq (RSet [a, b]) (lit rest)"

definition atStart :: "rex \<Rightarrow> bool \<times> rex" where
  "atStart r = (True, RSeq (RStar anySpace) r)"

definition anywhere :: "rex \<Rightarrow> bool \<times> rex" where
  "anywhere r = (False, r)"

definition gap :: "rex \<Rightarrow> rex \<Rightarrow> rex" where
  "gap r s = RSeq r (RSeq anySpace (RSeq (plus RAny) s))"

section \<open>The filters\<close>

definition resticRegex :: pattern where
  "resticRegex = [
     atStart (gap (cap CHR ''p'' CHR ''P'' ''rocessed'') (cap CHR ''f'' CHR ''F'' ''iles'')),
     atStart (gap (cap CHR ''s'' CHR ''S'' ''napshot'') (cap CHR ''s'' CHR ''S'' ''aved'')),
     atStart (lit ''No eligible''),
     anywhere (lit ''No data''),
     anywhere (lit ''Directory is empty''),
     atStart (cap CHR ''c'' CHR ''C'' ''reated''),
     atStart (gap (cap CHR ''r'' CHR ''R'' ''epository'') (cap CHR ''o'' CHR ''O'' ''pened'')),
     atStart (cap CHR ''r'' CHR ''R'' ''estoring''),
     atStart (cap CHR ''n'' CHR ''N'' ''o parent snapshot''),
     atStart (cap CHR ''u'' CHR ''U'' ''sing parent snapshot''),
     atStart (cap CHR ''a'' CHR ''A'' ''dded to the repository''),
     atStart (cap CHR ''s'' CHR ''S'' ''uccessfully''),
     anywhere (lit ''RESTORE_OPTIONS''),
     anywhere (RSeq (cap CHR ''i'' CHR ''I'' ''nitialize '') (cap CHR ''d'' CHR ''D'' ''ir'')),
     atStart (cap CHR ''f'' CHR ''F'' ''atal''),
     atStart (lit ''ERROR''),
     atStart (cap CHR ''r'' CHR ''R'' ''estic completed in'')]"

definition rcloneRegex :: pattern where
  "rcloneRegex = [
     atStart (cap CHR ''t'' CHR ''T'' ''ransferred:''),
     atStart (cap CHR ''c'' CHR ''C'' ''hecks:''),
     atStart (cap CHR ''d'' CHR ''D'' ''eleted:''),
     atStart (cap CHR ''e'' CHR ''E'' ''lapsed time:''),
     atStart (lit ''Rclone completed in'')]"

text \<open>\<open>[sS]ent\s.+[bB]ytes\s.+[rR]eceived\s.+[bB]ytes\<close>\<close>

definition sentReceived :: rex where
  "sentReceived = gap (cap CHR ''s'' CHR ''S'' ''ent'') (gap (cap CHR ''b'' CHR ''B'' ''ytes'')
     (gap (cap CHR ''r'' CHR ''R'' ''eceived'') (cap CHR ''b'' CHR ''B'' ''ytes'')))"

definition rsyncRegex :: pattern where
  "rsyncRegex = [
     atStart sentReceived,
     atStart (cap CHR ''t'' CHR ''T'' ''otal size''),
     atStart (cap CHR ''r'' CHR ''R'' ''sync completed in'')]"

definition rsyncTLSRegex :: pattern where
  "rsyncTLSRegex = [
     anywhere sentReceived,
     anywhere (cap CHR ''t'' CHR ''T'' ''otal size''),
     anywhere (cap CHR ''r'' CHR ''R'' ''sync completed in'')]"

definition rsyncTLSRegexFailures :: pattern where
  "rsyncTLSRegexFailures = [
     atStart (cap CHR ''r'' CHR ''R'' ''sync''),
     atStart (RSeq (lit ''disk'') (cap CHR ''r'' CHR ''R'' ''sync'')),
     anywhere (cap CHR ''f'' CHR ''F'' ''ail''),
     anywhere (cap CHR ''e'' CHR ''E'' ''rror'')]"

definition kopiaRegex :: pattern where
  "kopiaRegex = [
     atStart (gap (cap CHR ''s'' CHR ''S'' ''napshot'') (cap CHR ''c'' CHR ''C'' ''reated'')),
     atStart (gap (cap CHR ''u'' CHR ''U'' ''ploaded'') (cap CHR ''b'' CHR ''B'' ''ytes'')),
     atStart (gap (cap CHR ''r'' CHR ''R'' ''estored'') (cap CHR ''f'' CHR ''F'' ''iles'')),
     atStart (cap CHR ''s'' CHR ''S'' ''uccessfully''),
     atStart (cap CHR ''c'' CHR ''C'' ''onnected to repository''),
     atStart (RSeq (cap CHR ''r'' CHR ''R'' ''epository'')
       (RSeq (plus anySpace) (cap CHR ''o'' CHR ''O'' ''pened''))),
     atStart (cap CHR ''m'' CHR ''M'' ''aintenance''),
     atStart (cap CHR ''c'' CHR ''C'' ''ompression''),
     atStart (cap CHR ''n'' CHR ''N'' ''o changes''),
     atStart (cap CHR ''s'' CHR ''S'' ''kipping''),
     anywhere (lit ''KOPIA_OPTIONS''),
     anywhere (RSeq (cap CHR ''i'' CHR ''I'' ''nitialize '') (cap CHR ''r'' CHR ''R'' ''epository'')),
     atStart (RSeq (RSet ''fF'') (RSeq (RSet ''aA'') (RSeq (RSet ''tT'') (RSeq (RSet ''aA'')
       (RSeq (RSet ''lL'') (RStar RAny)))))),
     atStart (lit ''ERROR''),
     atStart (cap CHR ''k'' CHR ''K'' ''opia completed in'')]"

definition resticLogLineFilterSuccess :: lineFilter where
  "resticLogLineFilterSuccess line = (if MatchString resticRegex line then Some line else None)"

definition rcloneLogLineFilterSuccess :: lineFilter where
  "rcloneLogLineFilterSuccess line = (if MatchString rcloneRegex line then Some line else None)"

definition rsyncLogLineFilterSuccess :: lineFilter where
  "rsyncLogLineFilterSuccess line = (if MatchString rsyncRegex line then Some line else None)"

definition rsyncTLSLogLineFilterSuccess :: lineFilter where
  "rsyncTLSLogLineFilterSuccess line = (if MatchString rsyncTLSRegex line then Some line else None)"

definition rsyncTLSLogLineFilterFailure :: lineFilter where
  "rsyncTLSLogLineFilterFailure line =
     (if MatchString rsyncTLSRegex line then Some line
      else if MatchString rsyncTLSRegexFailures line then Some line
      else None)"

definition kopiaLogLineFilterSuccess :: lineFilter where
  "kopiaLogLineFilterSuccess line = (if MatchString kopiaRegex line then Some line else None)"

section \<open>The matcher is correct\<close>

lemma nullable_correct: "nullable r \<longleftrightarrow> rmatch r []"
  by (induction r) (auto simp: rmatch_simps intro: rmatch.intros)

lemma rmatch_star_Cons:
  assumes "rmatch (RStar r) s" "s = c # w"
  shows "\<exists>u v. w = u @ v \<and> rmatch r (c # u) \<and> rmatch (RStar r) v"
  using assms
proof (induction "RStar r" s rule: rmatch.induct)
  case (rm_star1 u v)
  show ?case
  proof (cases u)
    case Nil
    with rm_star1 show ?thesis by simp
  next
    case (Cons d u')
    with rm_star1 show ?thesis by auto
  qed
qed simp

lemma rmatch_seq_Cons:
  "rmatch (RSeq r s) (c # w) \<longleftrightarrow>
     (\<exists>u v. w = u @ v \<and> rmatch r (c # u) \<and> rmatch s v) \<or> (rmatch r [] \<and> rmatch s (c # w))"
  unfolding rmatch_simps by (auto simp: Cons_eq_append_conv)

lemma deriv_correct: "rmatch (deriv c r) w \<longleftrightarrow> rmatch r (c # w)"
proof (induction r arbitrary: w)
  case (RSeq r s)
  then show ?case
    by (auto simp: rmatch_simps(6) rmatch_simps(5)[of "deriv c r"] rmatch_seq_Cons nullable_correct)
next
  case (RStar r)
  show ?case
    unfolding deriv.simps rmatch_simps(5) RStar.IH
    using rmatch_star_Cons[of r "c # w" c w] rm_star1[of r "c # _"] by (auto simp flip: append_Cons)
qed (auto simp: rmatch_simps)

lemma prefixMatch_correct: "prefixMatch r s \<longleftrightarrow> (\<exists>u v. s = u @ v \<and> rmatch r u)"
proof (induction s arbitrary: r)
  case Nil
  then show ?case by (simp add: nullable_correct)
next
  case (Cons c s)
  have "(\<exists>u v. c # s = u @ v \<and> rmatch r u) \<longleftrightarrow>
      rmatch r [] \<or> (\<exists>u v. s = u @ v \<and> rmatch r (c # u))"
    by (auto simp: Cons_eq_append_conv)
  then show ?case by (simp add: Cons.IH deriv_correct nullable_correct)
qed

lemma searchMatch_correct: "searchMatch r s \<longleftrightarrow> (\<exists>a u v. s = a @ u @ v \<and> rmatch r u)"
proof (induction s)
  case Nil
  then show ?case by (simp add: nullable_correct)
next
  case (Cons c s)
  have "(\<exists>a u v. c # s = a @ u @ v \<and> rmatch r u) \<longleftrightarrow>
      (\<exists>u v. c # s = u @ v \<and> rmatch r u) \<or> (\<exists>a u v. s = a @ u @ v \<and> rmatch r u)"
    by (metis append_Cons append_Nil list.inject neq_Nil_conv)
  then show ?case by (simp only: searchMatch.simps prefixMatch_correct Cons.IH)
qed

lemma MatchString_correct:
  "MatchString p s \<longleftrightarrow>
     (\<exists>(anchored, r) \<in> set p. \<exists>a u v. s = a @ u @ v \<and> rmatch r u \<and> (anchored \<longrightarrow> a = []))"
proof -
  have "(if anchored then prefixMatch r s else searchMatch r s) \<longleftrightarrow>
      (\<exists>a u v. s = a @ u @ v \<and> rmatch r u \<and> (anchored \<longrightarrow> a = []))" for anchored r
    by (cases anchored) (simp_all add: prefixMatch_correct searchMatch_correct)
  then show ?thesis by (simp add: MatchString_def list_ex_iff)
qed



end
