(* ===== verification/Mover_Jobs.thy ===== *)
theory Mover_Jobs
  imports Sa_Handler Log_Filter
begin

text \<open>
  What the movers that run as a job have in common. The sources of the movers
  repeat this code; here it is written once and all use it: the claims of the source and the
  destination side, the parts of the mutate function that do not depend on the mover, what follows
  from the state the job is in, and the cleanup. The locale \<open>job_mover\<close> is the contract between a
  mover and this code: what its mutate function does to the job.
\<close>

definition VolSyncPrefix :: string where "VolSyncPrefix = ''volsync-''"

definition cleanupTypes :: "kind list" where "cleanupTypes = [KPVC, KSnapshot, KJob]"

definition mountPath :: string where "mountPath = ''/data''"
definition dataVolumeName :: string where "dataVolumeName = ''data''"

definition moverDir :: "bool \<Rightarrow> string" where
  "moverDir isSource = (if isSource then ''src'' else ''dst'')"

definition orElse :: "'a option \<Rightarrow> 'a \<Rightarrow> 'a" where
  "orElse x d = (case x of Some v \<Rightarrow> v | None \<Rightarrow> d)"

definition moverVH :: "objmeta \<Rightarrow> volumeOptions \<Rightarrow> gerror + volumehandler" where
  "moverVH owner opts = NewVolumeHandler [WithClient, WithRecorder, WithOwner owner, FromVolumeOptions opts]"

section \<open>Claims\<close>

text \<open>The movers differ in the suffix of the claim they make: \<open>-dest\<close>, and \<open>-dst\<close> for the two rsync movers.\<close>

definition getDestinationPVCName :: "string \<Rightarrow> objmeta \<Rightarrow> string option \<Rightarrow> bool \<times> string" where
  "getDestinationPVCName tail owner mainPVCName =
     (case mainPVCName of
        None \<Rightarrow> (False, VolSyncPrefix @ om_name owner @ tail)
      | Some name \<Rightarrow> (True, name))"

fun isCopyTriggerTimeout :: "gerror \<Rightarrow> bool" where
  "isCopyTriggerTimeout (CopyTriggerTimeoutError _) = True"
| "isCopyTriggerTimeout _ = False"

definition ensureSourcePVC ::
  "cluster \<Rightarrow> objmeta \<Rightarrow> string option \<Rightarrow> volumehandler \<Rightarrow> moverStatus \<Rightarrow>
   ((pvc option \<times> gerror option) go \<times> volumehandler \<times> moverStatus) kube" where
  "ensureSourcePVC cl owner mainPVCName vh st =
     (case mainPVCName of
        None \<Rightarrow> ret (Panic, vh, st)
      | Some name \<Rightarrow> do {
          r \<leftarrow> kGet (pvcC cl) (om_namespace owner, name);
          case r of
            Inl err \<Rightarrow> ret (Ret (None, Some err), vh, st)
          | Inr srcPVC \<Rightarrow> do {
              ((p, err), vh1) \<leftarrow> EnsurePVCFromSrc cl vh srcPVC (VolSyncPrefix @ om_name owner @ ''-src'') True;
              case err of
                Some e \<Rightarrow>
                  if isCopyTriggerTimeout e
                  then ret (Ret (p, None), vh1, UpdateMoverStatusFailed st (errorMsg e))
                  else ret (Ret (p, Some e), vh1, st)
              | None \<Rightarrow> ret (Ret (p, None), vh1, st) } })"

definition ensureDestinationPVC ::
  "cluster \<Rightarrow> string \<Rightarrow> objmeta \<Rightarrow> string option \<Rightarrow> bool \<Rightarrow> volumehandler \<Rightarrow>
   ((pvc option \<times> gerror option) \<times> volumehandler) kube" where
  "ensureDestinationPVC cl tail owner mainPVCName cleanupTempPVC vh =
     (case getDestinationPVCName tail owner mainPVCName of (isProvidedPVC, dataPVCName) \<Rightarrow>
        if isProvidedPVC then do {
          r \<leftarrow> UseProvidedPVC cl vh dataPVCName;
          ret (case r of Inl err \<Rightarrow> (None, Some err) | Inr p \<Rightarrow> (Some p, None), vh) }
        else do {
          (r, vh1) \<leftarrow> EnsureNewPVC cl vh dataPVCName cleanupTempPVC;
          ret (case r of Inl err \<Rightarrow> (None, Some err) | Inr p \<Rightarrow> (Some p, None), vh1) })"

text \<open>\<open>dataPVC\<close>: the first step of the \<open>Synchronize\<close> functions.\<close>

definition ensureDataPVC ::
  "cluster \<Rightarrow> string \<Rightarrow> objmeta \<Rightarrow> bool \<Rightarrow> string option \<Rightarrow> bool \<Rightarrow> volumehandler \<Rightarrow> moverStatus \<Rightarrow>
   ((pvc option \<times> gerror option) go \<times> volumehandler \<times> moverStatus) kube" where
  "ensureDataPVC cl tail owner isSource mainPVCName cleanupTempPVC vh st =
     (if isSource then ensureSourcePVC cl owner mainPVCName vh st
      else do {
        (r, vh1) \<leftarrow> ensureDestinationPVC cl tail owner mainPVCName cleanupTempPVC vh;
        ret (Ret r, vh1, st) })"

section \<open>Parts of the job\<close>

definition ownForCleanup ::
  "cluster \<Rightarrow> objmeta \<Rightarrow> 'a objmeta_scheme \<Rightarrow> gerror + 'a objmeta_scheme" where
  "ownForCleanup cl owner x =
     (case setControllerReference cl owner (om_ownerRefs x) of
        Inl err \<Rightarrow> Inl err
      | Inr refs \<Rightarrow>
          Inr (snd (MarkForCleanup owner (snd (SetOwnedByVolSync meta_ops (x\<lparr>om_ownerRefs := refs\<rparr>))))))"

text \<open>\<open>labels\<close> are those by which the service of a mover selects its pod; most movers have none.\<close>

definition jobSkeleton :: "strmap \<Rightarrow> bool \<Rightarrow> int \<Rightarrow> job \<Rightarrow> job" where
  "jobSkeleton labels paused backoffLimit j = j\<lparr>
     job_template := snd (SetOwnedByVolSync meta_ops
       (snd (AddAllLabels meta_ops ((job_template j)\<lparr>om_name := om_name j\<rparr>) labels))),
     job_backoffLimit := Some backoffLimit,
     job_parallelism := Some (if paused then 0 else 1)\<rparr>"

definition moverSecurityContext :: secctx where
  "moverSecurityContext = emptySecurityContext\<lparr>sx_allowPrivilegeEscalation := Some False,
     sx_capabilities := Some \<lparr>cap_add = [], cap_drop = [''ALL'']\<rparr>, sx_privileged := Some False,
     sx_readOnlyRootFilesystem := Some True\<rparr>"

definition moverCapabilities :: "string list" where
  "moverCapabilities = [''DAC_OVERRIDE'', ''CHOWN'', ''FOWNER'']"

definition privilegedSecurityContext :: "string list \<Rightarrow> secctx \<Rightarrow> secctx" where
  "privilegedSecurityContext caps s = s\<lparr>
     sx_capabilities := map_option (cap_add_update (\<lambda>_. caps)) (sx_capabilities s),
     sx_runAsUser := Some 0\<rparr>"

definition onContainer0 :: "(container \<Rightarrow> container) \<Rightarrow> podtemplate \<Rightarrow> podtemplate" where
  "onContainer0 f t = t\<lparr>pt_containers := (case pt_containers t of [] \<Rightarrow> [] | c # cs \<Rightarrow> f c # cs)\<rparr>"

definition appendEnv :: "envvar \<Rightarrow> podtemplate \<Rightarrow> podtemplate" where
  "appendEnv e = onContainer0 (\<lambda>c. c\<lparr>ct_env := ct_env c @ [e]\<rparr>)"

definition appendMount :: "string \<Rightarrow> string \<Rightarrow> podtemplate \<Rightarrow> podtemplate" where
  "appendMount name path = onContainer0 (\<lambda>c. c\<lparr>ct_volumeMounts := ct_volumeMounts c @
     [mountAt name path]\<rparr>)"

definition appendVolume :: "string \<Rightarrow> volumesource \<Rightarrow> podtemplate \<Rightarrow> podtemplate" where
  "appendVolume name src t = t\<lparr>pt_volumes := pt_volumes t @ [\<lparr>vol_name = name, vol_source = src\<rparr>]\<rparr>"

definition mountCustomCA :: "string \<Rightarrow> string \<Rightarrow> customCAObject option \<Rightarrow> podtemplate \<Rightarrow> podtemplate" where
  "mountCustomCA dir file customCAObj t =
     (case customCAObj of
        None \<Rightarrow> t
      | Some ca \<Rightarrow>
          appendVolume ''custom-ca'' (GetVolumeSource ca file)
            (appendMount ''custom-ca'' dir
              (appendEnv (envVal ''CUSTOM_CA'' (dir @ ''/'' @ file)) t)))"

definition setPrivileges :: "string list \<Rightarrow> bool \<Rightarrow> podtemplate \<Rightarrow> podtemplate" where
  "setPrivileges caps privileged t =
     (if privileged then
        onContainer0 (\<lambda>c. c\<lparr>ct_securityContext := map_option (privilegedSecurityContext caps) (ct_securityContext c)\<rparr>)
          (appendEnv (envVal ''PRIVILEGED_MOVER'' ''1'') t)
      else appendEnv (envVal ''PRIVILEGED_MOVER'' ''0'') t)"

definition directAffinity ::
  "cluster \<Rightarrow> volumehandler \<Rightarrow> pvc \<Rightarrow> podtemplate \<Rightarrow> (gerror option \<times> podtemplate) kube" where
  "directAffinity cl vh dataPVC t =
     (if IsCopyMethodDirect vh then do {
        r \<leftarrow> AffinityFromVolume cl (Some dataPVC);
        case r of
          Inl err \<Rightarrow> ret (Some err, t)
        | Inr aff \<Rightarrow> ret (None, t\<lparr>pt_nodeSelector := ai_nodeSelector aff,
            pt_tolerations := ai_tolerations aff\<rparr>) }
      else ret (None, t))"

text \<open>
  The mutate function of a job: \<open>fill\<close> makes the pod template, \<open>late\<close> is what the mover adds after the
  affinity is known, \<open>finish\<close> what it does at the end (the privileges). A failing step leaves the job as it is at that point. The template has a
  container, so \<open>UpdatePodTemplateSpecWithMoverVolumes\<close> is its loop.
\<close>

definition jobMutate ::
  "cluster \<Rightarrow> objmeta \<Rightarrow> strmap \<Rightarrow> bool \<Rightarrow> int \<Rightarrow> volumehandler \<Rightarrow> pvc \<Rightarrow> moverConfig \<Rightarrow>
   (podtemplate \<Rightarrow> podtemplate kube) \<Rightarrow> (podtemplate \<Rightarrow> podtemplate) \<Rightarrow> (podtemplate \<Rightarrow> podtemplate) \<Rightarrow>
   job \<Rightarrow> (gerror option \<times> job) kube" where
  "jobMutate cl owner labels paused backoffLimit vh dataPVC cfg fill late finish j =
     (case ownForCleanup cl owner j of
        Inl err \<Rightarrow> ret (Some err, j)
      | Inr j1 \<Rightarrow>
          (let j2 = jobSkeleton labels paused backoffLimit j1 in do {
             t1 \<leftarrow> fill (job_template j2);
             (aerr, t2) \<leftarrow> directAffinity cl vh dataPVC t1;
             case aerr of
               Some err \<Rightarrow> ret (Some err, j2\<lparr>job_template := t2\<rparr>)
             | None \<Rightarrow> do {
                 (verr, t3) \<leftarrow> moverVolumesLoop cl (om_namespace owner) (mc_volumes cfg)
                   (UpdatePodTemplateSpecFromMoverConfig (late t2) cfg noResources);
                 case verr of
                   Some err \<Rightarrow> ret (Some err, j2\<lparr>job_template := t3\<rparr>)
                 | None \<Rightarrow> ret (None, j2\<lparr>job_template := finish t3\<rparr>) } }))"

section \<open>The state of the job\<close>

text \<open>
  What follows the create-or-update in \<open>ensureJob\<close>. The limit is read through a pointer, which is nil
  if the mutate function did not run. \<open>Ret (Some job, None)\<close> is a job that has completed.
\<close>

definition jobOutcome ::
  "cluster \<Rightarrow> lineFilter \<Rightarrow> moverStatus \<Rightarrow> gerror option \<Rightarrow> job \<Rightarrow>
   ((job option \<times> gerror option) go \<times> moverStatus) kube" where
  "jobOutcome cl failFilter st err j =
     (case job_backoffLimit j of
        None \<Rightarrow> ret (Panic, st)
      | Some limit \<Rightarrow>
          if job_failed j \<ge> limit then do {
            st1 \<leftarrow> UpdateMoverStatusForFailedJob cl st (om_name j) (om_namespace j) (Some failFilter);
            derr \<leftarrow> kDelete (jobC cl) j None;
            ret (Ret (None, derr), st1) }
          else (case err of
            Some e \<Rightarrow> ret (Ret (None, Some e), st)
          | None \<Rightarrow>
              if job_succeeded j = 0 then ret (Ret (None, None), st)
              else ret (Ret (Some j, None), st)))"

section \<open>Cleanup\<close>

definition moverCleanup ::
  "cluster \<Rightarrow> string \<Rightarrow> objmeta \<Rightarrow> bool \<Rightarrow> string option \<Rightarrow> volumehandler \<Rightarrow> (mresult \<times> gerror option) kube" where
  "moverCleanup cl tail owner isSource mainPVCName vh = do {
     err0 \<leftarrow> (if \<not> isSource
             then RemoveSnapshotAnnotationFromPVC cl vh (snd (getDestinationPVCName tail owner mainPVCName))
             else ret None);
     case err0 of
       Some e \<Rightarrow> ret (InProgress, Some e)
     | None \<Rightarrow> do {
         err \<leftarrow> CleanupObjects cl owner cleanupTypes;
         case err of
           Some e \<Rightarrow> ret (InProgress, Some e)
         | None \<Rightarrow> ret (Complete, None) } }"

section \<open>The end of a synchronization\<close>

text \<open>Once the job has completed, the destination side preserves the image and returns it.\<close>

definition moverFinish ::
  "cluster \<Rightarrow> bool \<Rightarrow> volumehandler \<Rightarrow> pvc \<Rightarrow> (mresult \<times> gerror option) kube" where
  "moverFinish cl isSource vh dataPVC =
     (if \<not> isSource then do {
        (img, err) \<leftarrow> EnsureImage cl vh dataPVC;
        if img = None \<or> err \<noteq> None then ret (InProgress, err)
        else ret (CompleteWithImage img, None) }
      else ret (Complete, None))"

section \<open>The contract of a job\<close>

definition runsWith :: "secctx \<Rightarrow> podtemplate \<Rightarrow> bool" where
  "runsWith ctx t \<longleftrightarrow> (\<exists>c. pt_containers t = [c] \<and> ct_securityContext c = Some ctx)"

abbreviation plain :: "podtemplate \<Rightarrow> bool" where "plain \<equiv> runsWith moverSecurityContext"

definition moverContext :: "string list \<Rightarrow> bool \<Rightarrow> secctx" where
  "moverContext caps privileged =
     (if privileged then moverSecurityContext\<lparr>
        sx_capabilities := Some \<lparr>cap_add = caps, cap_drop = [''ALL'']\<rparr>, sx_runAsUser := Some 0\<rparr>
      else moverSecurityContext)"

text \<open>
  A job as VolSync writes it: controlled by the resource and marked for cleanup, with no pod to run
  while the resource is paused, the retry limit of the mover, and one container with the given security
  context: that of a mover has no privileges, except that a privileged mover runs as root with a few
  capabilities (\<open>moverContext\<close>).
\<close>

definition good_job :: "objmeta \<Rightarrow> bool \<Rightarrow> secctx \<Rightarrow> int \<Rightarrow> job \<Rightarrow> bool" where
  "good_job owner paused ctx limit j \<longleftrightarrow>
     mine owner True j \<and> job_parallelism j = Some (if paused then 0 else 1) \<and>
     job_backoffLimit j = Some limit \<and> runsWith ctx (job_template j)"

lemma ownForCleanup_takeOwnership:
  "ownForCleanup cl owner x = takeOwnership cl (emptyVH\<lparr>vh_owner := Some owner\<rparr>) True x"
  by (simp add: ownForCleanup_def takeOwnership_def vhOwner_def Let_def split: sum.splits)

lemma ownForCleanup_mine:
  "controllerRef_documented cl \<Longrightarrow> ownForCleanup cl owner x = Inr y \<Longrightarrow> mine owner True y"
  using takeOwnership_mine[of cl "emptyVH\<lparr>vh_owner := Some owner\<rparr>" True x y]
  by (simp add: ownForCleanup_takeOwnership vhOwner_def)

lemma job_template_frame [simp]:
  "om_ownerRefs (j\<lparr>job_template := x\<rparr>) = om_ownerRefs j" "om_labels (j\<lparr>job_template := x\<rparr>) = om_labels j"
  "om_name (j\<lparr>job_template := x\<rparr>) = om_name j" "om_namespace (j\<lparr>job_template := x\<rparr>) = om_namespace j"
  for j :: job
  by (cases j; simp)+

lemma mine_job_frame [simp]:
  "mine owner t (j\<lparr>job_template := x\<rparr>) = mine owner t j"
  "mine owner t (jobSkeleton labels paused limit j) = mine owner t j"
  for j :: job
  by (simp_all add: mine_def jobSkeleton_def IsOwnedByVolsync_def ml.has_label_value_iff)

lemma plain_parts:
  "runsWith ctx t \<Longrightarrow> runsWith ctx (appendEnv e t)" "runsWith ctx t \<Longrightarrow> runsWith ctx (appendMount n p t)"
  "runsWith ctx t \<Longrightarrow> runsWith ctx (appendVolume n v t)" "runsWith ctx t \<Longrightarrow> runsWith ctx (mountCustomCA d f ca t)"
  "runsWith ctx t \<Longrightarrow> runsWith ctx (UpdatePodTemplateSpecFromMoverConfig t cfg res)"
  "runsWith ctx t \<Longrightarrow> runsWith ctx (addMoverVolume mv t)"
  "runsWith ctx (t\<lparr>pt_nodeSelector := ns, pt_tolerations := tol\<rparr>) = runsWith ctx t"
  by (auto simp: runsWith_def appendEnv_def appendMount_def appendVolume_def mountCustomCA_def onContainer0_def
      UpdatePodTemplateSpecFromMoverConfig_def addMoverVolume_def Let_def split: option.splits)

lemma setPrivileges_runs: "plain t \<Longrightarrow> runsWith (moverContext caps privileged) (setPrivileges caps privileged t)"
  by (auto simp: runsWith_def setPrivileges_def appendEnv_def onContainer0_def privilegedSecurityContext_def
      moverSecurityContext_def moverContext_def)

lemma emits_podsUsingPVC [emits_rules]:
  "P (CList KPod (Some (om_namespace p)) Everything) \<Longrightarrow> (\<And>a. Q a) \<Longrightarrow> emits P (podsUsingPVC cl p) Q"
  unfolding podsUsingPVC_def by (rule emits_step) (auto intro!: emits_rules)

lemma emits_getNodeSelectorForNode [emits_rules]:
  "P (CGet KNode ([], n)) \<Longrightarrow> (\<And>a. Q a) \<Longrightarrow> emits P (getNodeSelectorForNode cl n) Q"
  unfolding getNodeSelectorForNode_def Let_def by (rule emits_step) (auto intro!: emits_rules)

lemma emits_AffinityFromVolume:
  "(\<And>k. P (CGet KNode k)) \<Longrightarrow> (\<And>ns. P (CList KPod ns Everything)) \<Longrightarrow> (\<And>a. Q a) \<Longrightarrow>
   emits P (AffinityFromVolume cl c) Q"
  unfolding AffinityFromVolume_def
  by (auto intro!: emits_rules emits_step[of _ "podsUsingPVC _ _"] emits_step[of _ "getNodeSelectorForNode _ _"])

abbreviation no_write :: "call \<Rightarrow> bool" where "no_write c \<equiv> \<not> is_write c"

lemma emits_directAffinity:
  "runsWith ctx t \<Longrightarrow> emits no_write (directAffinity cl vh p t) (\<lambda>(err, t'). runsWith ctx t')"
  unfolding directAffinity_def
  by (auto intro!: emits_rules emits_step emits_AffinityFromVolume simp: plain_parts)

lemma emits_moverVolumeAffinity:
  assumes "runsWith ctx t"
  shows "emits no_write (moverVolumeAffinity cl ns mv t) (\<lambda>r. case r of Inl _ \<Rightarrow> True | Inr t' \<Rightarrow> runsWith ctx t')"
  unfolding moverVolumeAffinity_def using assms
  by (auto intro!: emits_rules emits_step[of _ "kGet _ _"] emits_step[of _ "AffinityFromVolume _ _"]
      emits_AffinityFromVolume simp: plain_parts split: prod.splits)

lemma emits_moverVolumesLoop:
  "runsWith ctx t \<Longrightarrow> emits no_write (moverVolumesLoop cl ns mvs t) (\<lambda>(err, t'). runsWith ctx t')"
proof (induction mvs arbitrary: t)
  case Nil
  then show ?case by (auto intro!: emits_rules)
next
  case (Cons mv mvs)
  show ?case
    unfolding moverVolumesLoop.simps
    by (rule emits_bind[OF emits_moverVolumeAffinity[OF Cons.prems]])
      (auto intro!: emits_rules Cons plain_parts)
qed

section \<open>What a synchronization may do to the cluster\<close>

text \<open>
  Everything a mover creates belongs to the replication resource. It updates claims (which may be
  the user's: a copy trigger or the name of an image is recorded on them) and snapshots that are
  its own or marked do-not-delete. It deletes jobs, and claims that refer to the resource.
\<close>

fun sync_ok :: "cluster \<Rightarrow> objmeta \<Rightarrow> bool \<Rightarrow> (job \<Rightarrow> bool) \<Rightarrow> call \<Rightarrow> bool" where
  "sync_ok cl owner privileged good (CCreate (OPVC p)) = mine owner False p"
| "sync_ok cl owner privileged good (CUpdate (OPVC p)) = True"
| "sync_ok cl owner privileged good (CCreate (OSnapshot s)) = mine owner False s"
| "sync_ok cl owner privileged good (CUpdate (OSnapshot s)) = (mine owner False s \<or> IsMarkedDoNotDelete s)"
| "sync_ok cl owner privileged good (CCreate (OJob j)) = good j"
| "sync_ok cl owner privileged good (CUpdate (OJob j)) = good j"
| "sync_ok cl owner privileged good (CDelete (OJob j) rv) = True"
| "sync_ok cl owner privileged good (CDelete (OPVC p) rv) = (\<exists>r \<in> set (om_ownerRefs p). or_uid r = om_uid owner)"
| "sync_ok cl owner privileged good (CCreate (ORole r)) = (mine owner False r \<and>
     role_rules r = (if privileged then [privilegedRule cl] else []))"
| "sync_ok cl owner privileged good (CUpdate (ORole r)) = mine owner False r"
| "sync_ok cl owner privileged good (CCreate (ORoleBinding b)) = mine owner False b"
| "sync_ok cl owner privileged good (CUpdate (ORoleBinding b)) = mine owner False b"
| "sync_ok cl owner privileged good (CCreate (OServiceAccount a)) = mine owner False a"
| "sync_ok cl owner privileged good (CUpdate (OServiceAccount a)) = mine owner False a"
| "sync_ok cl owner privileged good (CCreate (OSecret s)) = (\<exists>r \<in> set (om_ownerRefs s). or_uid r = om_uid owner)"
| "sync_ok cl owner privileged good (CUpdate (OSecret s)) = (\<exists>r \<in> set (om_ownerRefs s). or_uid r = om_uid owner)"
| "sync_ok cl owner privileged good (CCreate (OService s)) = mine owner False s"
| "sync_ok cl owner privileged good (CUpdate (OService s)) = mine owner False s"
| "sync_ok cl owner privileged good c = (\<not> is_write c)"

text \<open>
  \<open>controllerutil.HasOwnerReference\<close> says yes only if one of the references is to the object. The
  libraries a mover relies on, together:
\<close>

definition hasOwnerRef_documented :: "cluster \<Rightarrow> bool" where
  "hasOwnerRef_documented cl \<longleftrightarrow>
     (\<forall>refs owner. hasOwnerReference cl refs owner = Inr True \<longrightarrow> (\<exists>r \<in> set refs. or_uid r = om_uid owner))"

definition libs_documented :: "cluster \<Rightarrow> bool" where
  "libs_documented cl \<longleftrightarrow> sa_documented cl \<and> cou_documented (pvcC cl) \<and> cou_documented (snapC cl) \<and>
     cou_documented (jobC cl) \<and> hasOwnerRef_documented cl"

lemma libs_documentedD:
  assumes "libs_documented cl"
  shows "sa_documented cl" "cou_documented (pvcC cl)" "cou_documented (snapC cl)" "cou_documented (jobC cl)"
    "hasOwnerRef_documented cl" "controllerRef_documented cl"
  using assms by (auto simp: libs_documented_def sa_documented_def)

lemma mine_weaken: "mine owner t x \<Longrightarrow> mine owner False x"
  by (simp add: mine_def)

lemma no_write_sync_ok: "no_write c \<Longrightarrow> sync_ok cl owner privileged good c"
  by (cases "(cl, owner, privileged, good, c)" rule: sync_ok.cases) auto

lemma vh_ok_sync_ok: "vh_ok owner t src c \<Longrightarrow> sync_ok cl owner privileged good c"
  by (cases "(cl, owner, privileged, good, c)" rule: sync_ok.cases) (auto dest: mine_weaken)

lemma sa_ok_sync_ok: "sa_ok cl d c \<Longrightarrow> sync_ok cl (sav_owner d) (sav_privileged d) good c"
  by (cases "(cl, sav_owner d, sav_privileged d, good, c)" rule: sync_ok.cases) auto

lemma log_reads_no_write: "log_reads ns c \<Longrightarrow> no_write c"
  by (cases "(ns, c)" rule: log_reads.cases) auto

lemmas emits_reads = emits_weaken[where P = no_write and P' = "sync_ok _ _ _ _", OF _ no_write_sync_ok]

lemma emits_result:
  "emits P m Q \<Longrightarrow> (\<And>tr. R (fst (run_state m tr))) \<Longrightarrow> emits P m R"
  unfolding emits_def by (metis fst_conv)

lemma emits_EnsureNewPVC:
  assumes "cou_documented (pvcC cl)" "controllerRef_documented cl"
  shows "emits (sync_ok cl (vhOwner vh) privileged good) (EnsureNewPVC cl vh name t)
    (\<lambda>(r, vh'). vhOwner vh' = vhOwner vh)"
proof -
  have "emits (sync_ok cl (vhOwner vh) privileged good)
      (CreateOrUpdate (pvcC cl) x (newPVCMutate cl vh1 t capacity)) (\<lambda>_. True)"
    if "vhOwner vh1 = vhOwner vh" for vh1 x capacity
    by (rule emits_owned_cou[OF assms, where vh = vh1 and t = t and g = "\<lambda>p1. (if om_creationTimestamp p1 = 0
          then p1\<lparr>pvc_accessModes := vh_accessModes vh1, pvc_storageClassName := vh_storageClassName vh1,
                 pvc_volumeMode := vh_volumeMode vh1\<rparr> else p1)\<lparr>pvc_requests := [(''storage'', capacity)]\<rparr>"])
      (auto simp: newPVCMutate_def that split: sum.splits dest: mine_weaken,
       simp add: mine_def IsOwnedByVolsync_def ml.has_label_value_iff)
  note cou = this[of vh] this[of "vh\<lparr>vh_volumeMode := Some Filesystem\<rparr>"]
  show ?thesis
    unfolding EnsureNewPVC_def Let_def
    by (auto intro!: emits_rules emits_step[of _ "createdEvent _ _"] emits_step[of _ "unboundWarning _ _"]
        emits_step[of _ "CreateOrUpdate _ _ _"] cou)
qed

lemma emits_ensureSourcePVC:
  assumes "libs_documented cl" "vhOwner vh = owner"
  shows "emits (sync_ok cl owner privileged good) (ensureSourcePVC cl owner main vh st)
    (\<lambda>(r, vh', st'). vhOwner vh' = owner)"
proof -
  have own: "vhOwner (snd (fst (run_state (EnsurePVCFromSrc cl vh src name True) tr))) = vhOwner vh" for src name tr
    by (cases "vh_copyMethod (withSourceMode src vh)")
      (auto simp: EnsurePVCFromSrc_def Let_def split: prod.splits option.splits)
  have src: "emits (sync_ok cl owner privileged good) (EnsurePVCFromSrc cl vh src name True)
      (\<lambda>(r, vh'). vhOwner vh' = owner)" for src name
  proof -
    have "emits (vh_ok owner True src) (EnsurePVCFromSrc cl vh src name True) (\<lambda>_. True)"
      using emits_EnsurePVCFromSrc[of cl vh True src name] libs_documentedD[OF assms(1)] assms(2) by simp
    then have e: "emits (sync_ok cl owner privileged good) (EnsurePVCFromSrc cl vh src name True) (\<lambda>_. True)"
      by (rule emits_weaken) (auto intro: vh_ok_sync_ok)
    show ?thesis
      by (rule emits_result[OF e]) (simp add: case_prod_beta own assms(2))
  qed
  show ?thesis
    unfolding ensureSourcePVC_def
    by (auto intro!: emits_rules emits_step[of _ "kGet _ _"] emits_bind[OF src] simp: assms(2))
qed

lemma emits_ensureDataPVC:
  assumes "libs_documented cl" "vhOwner vh = owner"
  shows "emits (sync_ok cl owner privileged good) (ensureDataPVC cl tail owner isSource main cleanup vh st)
    (\<lambda>(r, vh', st'). vhOwner vh' = owner)"
proof -
  have "emits (sync_ok cl owner privileged good) (EnsureNewPVC cl vh name t) (\<lambda>(r, vh'). vhOwner vh' = owner)"
    for name t
    using emits_EnsureNewPVC[of cl vh privileged good name t] libs_documentedD[OF assms(1)] assms(2) by simp
  note n = emits_bind[OF this]
  have "emits (sync_ok cl owner privileged good) (ensureDestinationPVC cl tail owner main cleanup vh)
      (\<lambda>(r, vh'). vhOwner vh' = owner)"
    unfolding ensureDestinationPVC_def UseProvidedPVC_def getPVCByName_def
    by (auto intro!: emits_rules emits_step[of _ "kGet _ _"] n simp: assms(2) split: prod.splits)
  then show ?thesis
    unfolding ensureDataPVC_def
    by (auto intro!: emits_rules emits_ensureSourcePVC assms elim: emits_bind)
qed

lemma emits_saReconcile:
  assumes "libs_documented cl"
  shows "emits (sync_ok cl owner privileged good)
    (saReconcile cl (NewSAHandler cl owner isSource privileged userSA)) (\<lambda>_. True)"
proof (cases "NewSAHandler cl owner isSource privileged userSA")
  case (SAHandlerVolSync d)
  have d: "sav_owner d = owner" "sav_privileged d = privileged"
    using SAHandlerVolSync by (auto simp: NewSAHandler_def Let_def split: option.splits)
  show ?thesis
    using emits_weaken[OF emits_reconcileVolSyncSA[OF libs_documentedD(1)[OF assms], of d] sa_ok_sync_ok[of cl d _ good]]
    by (auto simp: SAHandlerVolSync d)
next
  case (SAHandlerUserSupplied sa)
  then show ?thesis
    by (auto simp: reconcileUserSA_def intro!: emits_rules emits_step)
qed

lemma emits_validations:
  "emits no_write (GetAndValidateSecret cl k flds) (\<lambda>_. True)"
  "emits no_write (GetAndValidateConfigMap cl k flds) (\<lambda>_. True)"
  "emits no_write (ValidateCustomCA cl ns ca) (\<lambda>_. True)"
  "emits no_write (ValidateMoverVolumes cl ns mvs) (\<lambda>_. True)"
proof -
  show s: "emits no_write (GetAndValidateSecret cl k flds) (\<lambda>_. True)" for k flds
    unfolding GetAndValidateSecret_def by (auto intro!: emits_rules emits_step)
  show c: "emits no_write (GetAndValidateConfigMap cl k flds) (\<lambda>_. True)" for k flds
    unfolding GetAndValidateConfigMap_def by (auto intro!: emits_rules emits_step)
  show "emits no_write (ValidateCustomCA cl ns ca) (\<lambda>_. True)"
    unfolding ValidateCustomCA_def by (auto intro!: emits_rules emits_step s c)
  show "emits no_write (ValidateMoverVolumes cl ns mvs) (\<lambda>_. True)"
    unfolding ValidateMoverVolumes_def validateMoverVolume_def
    by (rule emits_forEach) (auto intro!: emits_rules emits_step split: prod.splits)
qed

lemma image_snapshot_sync_ok:
  "image_ok owner src (CCreate (OSnapshot s)) \<Longrightarrow> sync_ok cl owner privileged good (CCreate (OSnapshot s))"
  "image_ok owner src (CUpdate (OSnapshot s)) \<Longrightarrow> sync_ok cl owner privileged good (CUpdate (OSnapshot s))"
  by (auto split: if_splits)

lemma emits_EnsureImage:
  assumes "libs_documented cl" "vhOwner vh = owner"
  shows "emits (sync_ok cl owner privileged good) (EnsureImage cl vh src) (\<lambda>_. True)"
proof -
  note d = libs_documentedD[OF assms(1)]
  have rec: "emits (sync_ok cl owner privileged good) (recordSnapName cl s) (\<lambda>_. True)" for s
    unfolding recordSnapName_def by (auto intro!: emits_rules emits_step[of _ "now _"])
  have cou: "emits (sync_ok cl owner privileged good) (CreateOrUpdate (snapC cl)
      (newSnapshot (om_namespace s) (map_get (om_annotations s) snapshotAnnotation)) (imageSnapMutate cl vh s))
      (\<lambda>_. True)" for s
    by (rule emits_CreateOrUpdate2[OF d(3)])
      (use emits_post[OF imageSnapMutate_new[OF d(6), of _ vh s]] emits_post[OF imageSnapMutate_update[OF d(6), of _ vh s]]
        image_snapshot_sync_ok[of owner s _ cl privileged good] assms(2) in \<open>auto split: prod.splits\<close>)
  have "emits (sync_ok cl owner privileged good) (ensureImageSnapshot cl vh src) (\<lambda>_. True)"
    unfolding ensureImageSnapshot_def
    by (rule emits_step[OF rec])
      (auto intro!: emits_rules emits_step[of _ "CreateOrUpdate _ _ _"] emits_step[of _ "createdEvent _ _"]
        emits_step[of _ "snapUnboundWarning _ _"] cou)
  then show ?thesis
    unfolding EnsureImage_def by (auto intro!: emits_rules emits_step)
qed

lemma emits_moverFinish:
  assumes "libs_documented cl" "vhOwner vh = owner"
  shows "emits (sync_ok cl owner privileged good) (moverFinish cl isSource vh data)
    (\<lambda>(res, err). mr_completed res \<longrightarrow> err = None)"
  unfolding moverFinish_def
  by (auto intro!: emits_rules emits_step[OF emits_EnsureImage[OF assms]] simp: InProgress_def)

lemma emits_self: "emits P m Q \<Longrightarrow> emits P m (\<lambda>a. \<exists>tr tr'. run_state m tr = (a, tr'))"
  unfolding emits_def by blast

lemma emits_jobOutcome:
  "emits (sync_ok cl owner privileged good) (jobOutcome cl f st err j)
     (\<lambda>(r, st'). \<forall>j' e. r = Ret (Some j', e) \<longrightarrow> j' = j \<and> err = None \<and> e = None \<and> job_succeeded j \<noteq> 0 \<and>
        (\<forall>limit. job_backoffLimit j = Some limit \<longrightarrow> job_failed j < limit))"
proof -
  have "emits (sync_ok cl owner privileged good) (UpdateMoverStatusForFailedJob cl st n ns ff) (\<lambda>_. True)" for n ns ff
    unfolding UpdateMoverStatusForFailedJob_def
    by (rule emits_weaken[OF emits_updateMoverStatusForJob]) (auto intro: no_write_sync_ok dest: log_reads_no_write)
  then show ?thesis
    unfolding jobOutcome_def by (auto intro!: emits_rules emits_step)
qed

lemma emits_successStatus:
  "emits (sync_ok cl owner privileged good) (UpdateMoverStatusForSuccessfulJob cl st n ns f)
     (\<lambda>st'. ms_result st' = MoverResultSuccessful)"
  unfolding UpdateMoverStatusForSuccessfulJob_def
  by (rule emits_weaken[OF emits_updateMoverStatusForJob]) (auto intro: no_write_sync_ok dest: log_reads_no_write)

text \<open>
  The cleanup of a mover is the cleanup of its temporary objects; on the destination the name of
  the image is removed from the claim before, so that the next synchronization makes a new one.
\<close>

fun mover_cleanup_ok :: "objmeta \<Rightarrow> call \<Rightarrow> bool" where
  "mover_cleanup_ok owner (CUpdate (OPVC p)) = (map_of (om_annotations p) snapshotAnnotation = None)"
| "mover_cleanup_ok owner (CGet k key) = (k = KPVC)"
| "mover_cleanup_ok owner c = cleanup_ok owner c"

lemma emits_moverCleanup:
  "emits (mover_cleanup_ok owner) (moverCleanup cl tail owner isSource main vh)
     (\<lambda>(res, err). mr_completed res \<longleftrightarrow> err = None)"
proof -
  have c: "cleanup_ok owner x \<Longrightarrow> mover_cleanup_ok owner x" for x
    by (cases "(owner, x)" rule: mover_cleanup_ok.cases) auto
  have clean: "emits (mover_cleanup_ok owner) (CleanupObjects cl owner cleanupTypes) (\<lambda>_. True)"
    by (rule emits_weaken[OF emits_CleanupObjects]) (auto intro: c)
  have rem: "emits (mover_cleanup_ok owner) (RemoveSnapshotAnnotationFromPVC cl vh name) (\<lambda>_. True)" for name
    unfolding RemoveSnapshotAnnotationFromPVC_def getPVCByName_def
    by (auto intro!: emits_rules emits_step[of _ "kGet _ _"] emits_step[of _ "kUpdate _ _"])
  have "emits (mover_cleanup_ok owner) (if \<not> isSource
      then RemoveSnapshotAnnotationFromPVC cl vh (snd (getDestinationPVCName tail owner main)) else ret None) (\<lambda>_. True)"
    by (auto intro!: emits_rules rem)
  then show ?thesis
    unfolding moverCleanup_def
    by (rule emits_bind) (auto intro!: emits_rules emits_step[OF clean] simp: InProgress_def Complete_def)
qed

text \<open>Cleaning up after a synchronization of a job mover deletes only disposable snapshots with the
  examined resource version as precondition and other objects by the cleanup label of the owner;
  the only claims it writes are those from which it removes the recorded image name. It reports
  completion exactly if no step failed.\<close>

theorem moverCleanup_safe:
  "emits (mover_cleanup_ok owner) (moverCleanup cl tail owner isSource main vh)
     (\<lambda>(res, err). mr_completed res \<longleftrightarrow> err = None)"
  by (rule emits_moverCleanup)

lemma sample_libs: "libs_documented sampleCluster"
proof -
  have "hasOwnerReference sampleCluster = (\<lambda>refs owner. Inr (list_ex (\<lambda>r. or_uid r = om_uid owner) refs))"
    by (simp add: sampleCluster_def)
  then show ?thesis
    using sample_controllerRef sample_ownerRef
    by (auto simp: libs_documented_def sa_documented_def hasOwnerRef_documented_def list_ex_iff)
qed

section \<open>What a mover has to promise\<close>

text \<open>
  A mover provides \<open>fill\<close>, which makes the pod template with one container in the context \<open>ctx0\<close> and writes
  nothing, \<open>late\<close>, which does not touch its security settings, and \<open>finish\<close>, which turns them into \<open>ctx\<close>; then
  every job it writes keeps the contract.
\<close>

locale job_mover =
  fixes fill :: "podtemplate \<Rightarrow> podtemplate kube" and late finish :: "podtemplate \<Rightarrow> podtemplate"
    and ctx0 ctx :: secctx
  assumes fill_runs: "emits no_write (fill t) (runsWith ctx0)"
    and late_runs: "runsWith ctx0 t \<Longrightarrow> runsWith ctx0 (late t)"
    and finish_runs: "runsWith ctx0 t \<Longrightarrow> runsWith ctx (finish t)"
begin

lemma mutate_good:
  assumes "controllerRef_documented cl"
  shows "emits no_write (jobMutate cl owner labels paused limit vh dataPVC cfg fill late finish j)
    (\<lambda>(err, j'). err = None \<longrightarrow> good_job owner paused ctx limit j')"
proof (cases "ownForCleanup cl owner j")
  case (Inl e)
  then show ?thesis by (auto simp: jobMutate_def intro!: emits_rules)
next
  case (Inr j1)
  have m: "mine owner True j1" by (rule ownForCleanup_mine[OF assms Inr])
  show ?thesis
    unfolding jobMutate_def Inr Let_def sum.case
  proof (rule emits_bind[OF fill_runs], rule emits_bind[OF emits_directAffinity], assumption, clarify, rule emits_rules)
    fix t1 t2 and aerr :: "gerror option"
    assume t2: "runsWith ctx0 t2"
    show "emits no_write (moverVolumesLoop cl (om_namespace owner) (mc_volumes cfg)
          (UpdatePodTemplateSpecFromMoverConfig (late t2) cfg noResources) \<bind>
        (\<lambda>(verr, t3). case verr of
            None \<Rightarrow> ret (None, (jobSkeleton labels paused limit j1)\<lparr>job_template := finish t3\<rparr>)
          | Some err \<Rightarrow> ret (Some err, (jobSkeleton labels paused limit j1)\<lparr>job_template := t3\<rparr>)))
      (\<lambda>(err, j'). err = None \<longrightarrow> good_job owner paused ctx limit j')"
      by (rule emits_bind[OF emits_moverVolumesLoop[OF plain_parts(5)[OF late_runs[OF t2]]]])
        (auto intro!: emits_rules simp: good_job_def m finish_runs, simp_all add: jobSkeleton_def)
  qed (auto intro!: emits_rules)
qed

lemma ensure_job:
  assumes "libs_documented cl"
  shows "emits (sync_ok cl owner privileged (good_job owner paused ctx limit))
    (CreateOrUpdateDeleteOnImmutableErr (jobC cl) x
       (jobMutate cl owner labels paused limit vh dataPVC cfg fill late finish)) (\<lambda>_. True)"
proof (rule emits_CreateOrUpdateDelete, rule emits_CreateOrUpdate[OF libs_documentedD(4)[OF assms]])
  show "emits (sync_ok cl owner privileged (good_job owner paused ctx limit))
      (jobMutate cl owner labels paused limit vh dataPVC cfg fill late finish y)
      (\<lambda>(e, z). e = None \<longrightarrow> good_job owner paused ctx limit z)" for y
    by (rule emits_weaken[OF mutate_good[OF libs_documentedD(6)[OF assms]]]) (auto intro: no_write_sync_ok)
qed auto

end

end
