(* ===== verification/Restic_Mover.thy ===== *)
theory Restic_Mover
  imports Mover_Jobs
begin

text \<open>
  The restic mover: \<open>mover/restic/mover.go\<close> and \<open>builder.go\<close>. A backup (or a restore) is a job with a
  data volume, a cache volume and the environment restic reads; the mover makes all of it, waits
  for the job and records pruning and unlocking. The statuses the mover holds by pointer
  (\<open>latestMoverStatus\<close>, \<open>sourceStatus\<close>) and its volume handler are fields that are returned updated.
\<close>

section \<open>The mover\<close>

record resticMover =
  rm_owner :: objmeta
  rm_vh :: volumehandler
  rm_saHandler :: saHandler
  rm_containerImage :: string
  rm_cacheAccessModes :: "accessMode list option"
  rm_cacheCapacity :: "quantity option"
  rm_cacheStorageClassName :: "string option"
  rm_repositoryName :: string
  rm_isSource :: bool
  rm_paused :: bool
  rm_mainPVCName :: "string option"
  rm_customCASpec :: customCASpec
  rm_privileged :: bool
  rm_latestMoverStatus :: moverStatus
  rm_moverConfig :: moverConfig
  rm_pruneInterval :: "int option"
  rm_unlock :: string
  rm_retainPolicy :: "resticRetainPolicy option"
  rm_sourceStatus :: rsResticStatus
  rm_previous :: "int option"
  rm_restoreAsOf :: "string option"
  rm_enableFileDeletionOnRestore :: bool
  rm_cleanupTempPVC :: bool
  rm_cleanupCachePVC :: bool

definition resticCacheMountPath :: string where "resticCacheMountPath = ''/cache''"
definition resticCache :: string where "resticCache = ''cache''"
definition resticCAMountPath :: string where "resticCAMountPath = ''/customCA''"
definition resticCAFilename :: string where "resticCAFilename = ''ca.crt''"
definition credentialDir :: string where "credentialDir = ''/credentials''"
definition gcsCredentialFile :: string where "gcsCredentialFile = ''gcs.json''"

section \<open>Pruning, unlocking and forgetting\<close>

text \<open>The interval is an \<open>int64\<close> number of nanoseconds: an interval of many days wraps around.\<close>

definition pruneDelta :: "int option \<Rightarrow> duration" where
  "pruneDelta interval =
     (case interval of
        None \<Rightarrow> hour * 24 * 7
      | Some days \<Rightarrow> wrap64 (hour * 24 * days))"

definition shouldPrune :: "resticMover \<Rightarrow> gtime \<Rightarrow> bool" where
  "shouldPrune m current =
     (let lastPruned = (if \<not> IsZero (rrs_lastPruned (rm_sourceStatus m))
                        then the (rrs_lastPruned (rm_sourceStatus m))
                        else om_creationTimestamp (rm_owner m))
      in time_After current (time_Add lastPruned (pruneDelta (rm_pruneInterval m))))"

definition shouldUnlock :: "resticMover \<Rightarrow> bool" where
  "shouldUnlock m \<longleftrightarrow> rm_unlock m \<noteq> [] \<and> rrs_lastUnlocked (rm_sourceStatus m) \<noteq> rm_unlock m"

definition defaultForget :: string where "defaultForget = ''--keep-last 1''"

definition forgetOption :: "string \<times> int option \<Rightarrow> string" where
  "forgetOption v = (case v of (opt, None) \<Rightarrow> [] | (opt, Some n) \<Rightarrow> '' '' @ opt @ '' '' @ itoa n)"

definition generateForgetOptions :: "resticRetainPolicy option \<Rightarrow> string" where
  "generateForgetOptions policy =
     (case policy of
        None \<Rightarrow> defaultForget
      | Some p \<Rightarrow>
          (let forget = concat (map forgetOption
                 [(''--keep-hourly'', rp_hourly p), (''--keep-daily'', rp_daily p),
                  (''--keep-weekly'', rp_weekly p), (''--keep-monthly'', rp_monthly p),
                  (''--keep-yearly'', rp_yearly p)]);
               forget1 = forget @ (case rp_within p of Some w \<Rightarrow> '' --keep-within '' @ w | None \<Rightarrow> []);
               forget2 = forget1 @ (case rp_last p of Some l \<Rightarrow> '' --keep-last '' @ l | None \<Rightarrow> [])
           in if length forget2 = 0 then defaultForget else forget2))"

section \<open>The cache volume\<close>

definition migrationCleanupObsoleteCachePVC :: "cluster \<Rightarrow> resticMover \<Rightarrow> gerror option kube" where
  "migrationCleanupObsoleteCachePVC cl m = do {
     r \<leftarrow> kGet (pvcC cl) (om_namespace (rm_owner m), VolSyncPrefix @ om_name (rm_owner m) @ ''-cache'');
     case r of
       Inr obsCachePVC \<Rightarrow>
         (case hasOwnerReference cl (om_ownerRefs obsCachePVC) (rm_owner m) of
            Inl err \<Rightarrow> ret (Some err)
          | Inr isOwnedByUs \<Rightarrow>
              if \<not> isOwnedByUs then ret None
              else do {
                _ \<leftarrow> kDelete (pvcC cl) obsCachePVC None;
                ret None })
     | Inl err \<Rightarrow> ret (IgnoreNotFound (Some err)) }"

definition cacheConfig :: "resticMover \<Rightarrow> pvc \<Rightarrow> vhOption list" where
  "cacheConfig m dataPVC =
     [From (rm_vh m),
      Capacity (Some (case rm_cacheCapacity m of Some c \<Rightarrow> c | None \<Rightarrow> 1024 * 1024 * 1024))] @
     (if rm_cacheAccessModes m \<noteq> None then [AccessModes (rm_cacheAccessModes m)]
      else if GetAccessModes (rm_vh m) = None \<or> GetAccessModes (rm_vh m) = Some []
      then [AccessModes (pvc_accessModes dataPVC)]
      else []) @
     (if rm_cacheStorageClassName m \<noteq> None then [StorageClassName (rm_cacheStorageClassName m)] else [])"

definition ensureCache ::
  "cluster \<Rightarrow> resticMover \<Rightarrow> pvc \<Rightarrow> bool \<Rightarrow> (pvc option \<times> gerror option) kube" where
  "ensureCache cl m dataPVC isTemporary =
     (case NewVolumeHandler (cacheConfig m dataPVC) of
        Inl err \<Rightarrow> ret (None, Some err)
      | Inr cacheVh \<Rightarrow> do {
          err \<leftarrow> migrationCleanupObsoleteCachePVC cl m;
          case err of
            Some e \<Rightarrow> ret (None, Some e)
          | None \<Rightarrow> do {
              (r, _) \<leftarrow> EnsureNewPVC cl cacheVh
                 (VolSyncPrefix @ moverDir (rm_isSource m) @ ''-'' @ om_name (rm_owner m) @ ''-cache'') isTemporary;
              ret (case r of Inl e \<Rightarrow> (None, Some e) | Inr p \<Rightarrow> (Some p, None)) } })"

definition validateRepository :: "cluster \<Rightarrow> resticMover \<Rightarrow> (gerror + secret) kube" where
  "validateRepository cl m = GetAndValidateSecret cl (om_namespace (rm_owner m), rm_repositoryName m)
     [''RESTIC_REPOSITORY'', ''RESTIC_PASSWORD'']"

section \<open>The job\<close>

definition resticActions :: "cluster \<Rightarrow> resticMover \<Rightarrow> string list kube" where
  "resticActions cl m =
     (if rm_isSource m then do {
        t \<leftarrow> now cl;
        ret ((if shouldUnlock m then [''unlock'', ''backup''] else [''backup'']) @
             (if shouldPrune m t then [''prune''] else [])) }
      else ret [''restore''])"

definition optionalResticVars :: "string list" where
  "optionalResticVars = [
     ''RESTIC_COMPRESSION'', ''RESTIC_PACK_SIZE'', ''RESTIC_READ_CONCURRENCY'',
     ''AWS_ACCESS_KEY_ID'', ''AWS_SECRET_ACCESS_KEY'', ''AWS_SESSION_TOKEN'', ''AWS_DEFAULT_REGION'',
     ''AWS_PROFILE'', ''RESTIC_AWS_ASSUME_ROLE_ARN'', ''RESTIC_AWS_ASSUME_ROLE_SESSION_NAME'',
     ''RESTIC_AWS_ASSUME_ROLE_EXTERNAL_ID'', ''RESTIC_AWS_ASSUME_ROLE_POLICY'',
     ''RESTIC_AWS_ASSUME_ROLE_REGION'', ''RESTIC_AWS_ASSUME_ROLE_STS_ENDPOINT'',
     ''ST_AUTH'', ''ST_USER'', ''ST_KEY'',
     ''OS_AUTH_URL'', ''OS_REGION_NAME'', ''OS_USERNAME'', ''OS_USER_ID'', ''OS_PASSWORD'', ''OS_TENANT_ID'',
     ''OS_TENANT_NAME'', ''OS_USER_DOMAIN_NAME'', ''OS_USER_DOMAIN_ID'', ''OS_PROJECT_NAME'',
     ''OS_PROJECT_DOMAIN_NAME'', ''OS_PROJECT_DOMAIN_ID'', ''OS_TRUST_ID'',
     ''OS_APPLICATION_CREDENTIAL_ID'', ''OS_APPLICATION_CREDENTIAL_NAME'',
     ''OS_APPLICATION_CREDENTIAL_SECRET'', ''OS_STORAGE_URL'', ''OS_AUTH_TOKEN'',
     ''B2_ACCOUNT_ID'', ''B2_ACCOUNT_KEY'',
     ''AZURE_ACCOUNT_NAME'', ''AZURE_ACCOUNT_KEY'', ''AZURE_ACCOUNT_SAS'', ''AZURE_ENDPOINT_SUFFIX'',
     ''GOOGLE_PROJECT_ID'', ''RESTIC_REST_USERNAME'', ''RESTIC_REST_PASSWORD'']"

definition resticEnv :: "cluster \<Rightarrow> resticMover \<Rightarrow> secret \<Rightarrow> envvar list" where
  "resticEnv cl m repo =
     AppendDebugMoverEnvVar (rm_owner m) (AppendEnvVarsForClusterWideProxy cl (AppendRCloneEnvVars repo
       ([envVal ''FORGET_OPTIONS'' (generateForgetOptions (rm_retainPolicy m)),
         envVal ''DATA_DIR'' mountPath,
         envVal ''RESTIC_CACHE_DIR'' resticCacheMountPath,
         envVal ''RESTORE_AS_OF'' (if rm_isSource m then [] else
            (case rm_restoreAsOf m of Some t \<Rightarrow> t | None \<Rightarrow> [])),
         envVal ''SELECT_PREVIOUS'' (if rm_isSource m then itoa 0 else
            (case rm_previous m of Some n \<Rightarrow> itoa n | None \<Rightarrow> itoa 0)),
         envVal ''RESTORE_OPTIONS'' (if \<not> rm_isSource m \<and> rm_enableFileDeletionOnRestore m
            then ''--delete'' else []),
         EnvFromSecret (om_name repo) ''RESTIC_REPOSITORY'' False,
         EnvFromSecret (om_name repo) ''RESTIC_PASSWORD'' False] @
        map (\<lambda>v. EnvFromSecret (om_name repo) v True) optionalResticVars)))"

definition resticFill ::
  "cluster \<Rightarrow> resticMover \<Rightarrow> pvc \<Rightarrow> pvc \<Rightarrow> serviceaccount \<Rightarrow> secret \<Rightarrow> podtemplate \<Rightarrow> podtemplate kube" where
  "resticFill cl m cachePVC dataPVC sa repo t = do {
     actions \<leftarrow> resticActions cl m;
     ret (t\<lparr>
       pt_containers := [\<lparr>ct_name = ''restic'', ct_env = resticEnv cl m repo, ct_envFrom = [],
         ct_command = [''/mover-restic/entry.sh''], ct_args = actions, ct_image = rm_containerImage m, ct_imagePullPolicy = [],
         ct_securityContext = Some moverSecurityContext,
         ct_volumeMounts = [mountAt dataVolumeName mountPath,
           mountAt resticCache resticCacheMountPath,
           mountAt ''tempdir'' ''/tmp''],
         ct_resources = noResources, ct_volumeDevices = [], ct_ports = []\<rparr>],
       pt_restartPolicy := ''Never'',
       pt_serviceAccountName := om_name sa,
       pt_volumes := [
         \<lparr>vol_name = dataVolumeName, vol_source = noVolumeSource\<lparr>vs_pvc :=
            Some (om_name dataPVC, rm_isSource m \<and> PvcIsReadOnly dataPVC)\<rparr>\<rparr>,
         \<lparr>vol_name = resticCache, vol_source = noVolumeSource\<lparr>vs_pvc := Some (om_name cachePVC, False)\<rparr>\<rparr>,
         \<lparr>vol_name = ''tempdir'', vol_source = noVolumeSource\<lparr>vs_emptyDir := Some (''Memory'', None)\<rparr>\<rparr>]\<rparr>) }"

definition mountGcsCredentials :: "secret \<Rightarrow> podtemplate \<Rightarrow> podtemplate" where
  "mountGcsCredentials repo t =
     (if map_of (case sec_data repo of Some d \<Rightarrow> d | None \<Rightarrow> []) ''GOOGLE_APPLICATION_CREDENTIALS'' \<noteq> None then
        appendVolume ''gcs-credentials'' (noVolumeSource\<lparr>vs_secret := Some \<lparr>sv_secretName = om_name repo,
            sv_items = [(''GOOGLE_APPLICATION_CREDENTIALS'', gcsCredentialFile, None)], sv_defaultMode = None\<rparr>\<rparr>)
          (appendMount ''gcs-credentials'' credentialDir
            (appendEnv (envVal ''GOOGLE_APPLICATION_CREDENTIALS'' (credentialDir @ ''/'' @ gcsCredentialFile)) t))
      else t)"

definition resticLate :: "customCAObject option \<Rightarrow> secret \<Rightarrow> podtemplate \<Rightarrow> podtemplate" where
  "resticLate customCAObj repo t =
     mountGcsCredentials repo (mountCustomCA resticCAMountPath resticCAFilename customCAObj t)"

definition resticMutate ::
  "cluster \<Rightarrow> resticMover \<Rightarrow> pvc \<Rightarrow> pvc \<Rightarrow> serviceaccount \<Rightarrow> secret \<Rightarrow> customCAObject option \<Rightarrow>
   job \<Rightarrow> (gerror option \<times> job) kube" where
  "resticMutate cl m cachePVC dataPVC sa repo customCAObj =
     jobMutate cl (rm_owner m) [] (rm_paused m) 8 (rm_vh m) dataPVC (rm_moverConfig m)
       (resticFill cl m cachePVC dataPVC sa repo) (resticLate customCAObj repo)
       (setPrivileges moverCapabilities (rm_privileged m))"

definition resticJobObject :: "resticMover \<Rightarrow> job" where
  "resticJobObject m = newJob (om_namespace (rm_owner m))
     (GetJobName (VolSyncPrefix @ moverDir (rm_isSource m) @ ''-'') (om_name (rm_owner m)))"

text \<open>What a completed job leaves in the status of a source.\<close>

definition recordUnlock :: "resticMover \<Rightarrow> resticMover" where
  "recordUnlock m =
     (if shouldUnlock m then m\<lparr>rm_sourceStatus := (rm_sourceStatus m)\<lparr>rrs_lastUnlocked := rm_unlock m\<rparr>\<rparr>
      else if rm_unlock m = [] then m\<lparr>rm_sourceStatus := (rm_sourceStatus m)\<lparr>rrs_lastUnlocked := []\<rparr>\<rparr>
      else m)"

definition recordPrune :: "cluster \<Rightarrow> resticMover \<Rightarrow> resticMover kube" where
  "recordPrune cl m = do {
     t \<leftarrow> now cl;
     if shouldPrune m t then do {
       t' \<leftarrow> now cl;
       ret (m\<lparr>rm_sourceStatus := (rm_sourceStatus m)\<lparr>rrs_lastPruned := Some t'\<rparr>\<rparr>) }
     else ret m }"

definition resticEnsureJob ::
  "cluster \<Rightarrow> resticMover \<Rightarrow> pvc \<Rightarrow> pvc \<Rightarrow> serviceaccount \<Rightarrow> secret \<Rightarrow> customCAObject option \<Rightarrow>
   ((job option \<times> gerror option) go \<times> resticMover) kube" where
  "resticEnsureJob cl m cachePVC dataPVC sa repo customCAObj = do {
     (_, err, j) \<leftarrow> CreateOrUpdateDeleteOnImmutableErr (jobC cl) (resticJobObject m)
        (resticMutate cl m cachePVC dataPVC sa repo customCAObj);
     (r, st) \<leftarrow> jobOutcome cl AllLines (rm_latestMoverStatus m) err j;
     (case r of
        Ret (Some completed, None) \<Rightarrow> do {
          m1 \<leftarrow> (if rm_isSource m then recordPrune cl (recordUnlock m) else ret m);
          st1 \<leftarrow> UpdateMoverStatusForSuccessfulJob cl st (om_name completed) (om_namespace completed)
             (Some resticLogLineFilterSuccess);
          ret (r, m1\<lparr>rm_latestMoverStatus := st1\<rparr>) }
      | _ \<Rightarrow> ret (r, m\<lparr>rm_latestMoverStatus := st\<rparr>)) }"

section \<open>Synchronize and Cleanup\<close>

definition resticRun ::
  "cluster \<Rightarrow> resticMover \<Rightarrow> pvc \<Rightarrow> ((mresult \<times> gerror option) go \<times> resticMover) kube" where
  "resticRun cl m dataPVC = do {
     (cachePVC, cerr) \<leftarrow> ensureCache cl m dataPVC (rm_cleanupCachePVC m);
     case cachePVC of
       None \<Rightarrow> ret (Ret (InProgress, cerr), m)
     | Some cache \<Rightarrow> if cerr \<noteq> None then ret (Ret (InProgress, cerr), m) else do {
     (sa, serr) \<leftarrow> saReconcile cl (rm_saHandler m);
     case sa of
       None \<Rightarrow> ret (Ret (InProgress, serr), m)
     | Some account \<Rightarrow> if serr \<noteq> None then ret (Ret (InProgress, serr), m) else do {
     rr \<leftarrow> validateRepository cl m;
     case rr of
       Inl err \<Rightarrow> ret (Ret (InProgress, Some err), m)
     | Inr repo \<Rightarrow> do {
     car \<leftarrow> ValidateCustomCA cl (om_namespace (rm_owner m)) (rm_customCASpec m);
     case car of
       Inl err \<Rightarrow> ret (Ret (InProgress, Some err), m)
     | Inr customCAObj \<Rightarrow> do {
     verr \<leftarrow> ValidateMoverVolumes cl (om_namespace (rm_owner m)) (mc_volumes (rm_moverConfig m));
     case verr of
       Some err \<Rightarrow> ret (Ret (InProgress, Some err), m)
     | None \<Rightarrow> do {
     (jr, m1) \<leftarrow> resticEnsureJob cl m cache dataPVC account repo customCAObj;
     (case jr of
        Panic \<Rightarrow> ret (Panic, m1)
      | Ret (j, jerr) \<Rightarrow>
          if j = None \<or> jerr \<noteq> None then ret (Ret (InProgress, jerr), m1)
          else do {
            r \<leftarrow> moverFinish cl (rm_isSource m1) (rm_vh m1) dataPVC;
            ret (Ret r, m1) }) } } } } } }"

definition resticSynchronize ::
  "cluster \<Rightarrow> resticMover \<Rightarrow> ((mresult \<times> gerror option) go \<times> resticMover) kube" where
  "resticSynchronize cl m0 = do {
     (r, vh, st) \<leftarrow> ensureDataPVC cl ''-dest'' (rm_owner m0) (rm_isSource m0) (rm_mainPVCName m0)
        (rm_cleanupTempPVC m0) (rm_vh m0) (rm_latestMoverStatus m0);
     let m = m0\<lparr>rm_vh := vh, rm_latestMoverStatus := st\<rparr> in
     (case r of
        Panic \<Rightarrow> ret (Panic, m)
      | Ret (None, err) \<Rightarrow> ret (Ret (InProgress, err), m)
      | Ret (Some dataPVC, Some err) \<Rightarrow> ret (Ret (InProgress, Some err), m)
      | Ret (Some dataPVC, None) \<Rightarrow> resticRun cl m dataPVC) }"

definition resticCleanup :: "cluster \<Rightarrow> resticMover \<Rightarrow> (mresult \<times> gerror option) kube" where
  "resticCleanup cl m = moverCleanup cl ''-dest'' (rm_owner m) (rm_isSource m) (rm_mainPVCName m) (rm_vh m)"

section \<open>The builder\<close>

definition resticMoverName :: string where "resticMoverName = ''restic''"

definition resticSource ::
  "cluster \<Rightarrow> string \<Rightarrow> replicationsource \<Rightarrow> rsResticSpec \<Rightarrow> bool \<Rightarrow> volumehandler \<Rightarrow> moverStatus \<Rightarrow>
   rsResticStatus \<Rightarrow> resticMover" where
  "resticSource cl img source spec privileged vh st sst = \<lparr>
     rm_owner = objmeta.truncate source, rm_vh = vh,
     rm_saHandler = NewSAHandler cl (objmeta.truncate source) True privileged
       (mc_serviceAccount (rr_moverConfig spec)),
     rm_containerImage = img,
     rm_cacheAccessModes = rr_cacheAccessModes spec, rm_cacheCapacity = rr_cacheCapacity spec,
     rm_cacheStorageClassName = rr_cacheStorageClassName spec, rm_repositoryName = rr_repository spec,
     rm_isSource = True, rm_paused = rs_paused source, rm_mainPVCName = Some (rs_sourcePVC source),
     rm_customCASpec = rr_customCA spec, rm_privileged = privileged, rm_latestMoverStatus = st,
     rm_moverConfig = rr_moverConfig spec, rm_pruneInterval = rr_pruneIntervalDays spec,
     rm_unlock = rr_unlock spec, rm_retainPolicy = rr_retain spec, rm_sourceStatus = sst,
     rm_previous = None, rm_restoreAsOf = None, rm_enableFileDeletionOnRestore = False,
     rm_cleanupTempPVC = False, rm_cleanupCachePVC = False\<rparr>"

definition resticDestination ::
  "cluster \<Rightarrow> string \<Rightarrow> replicationdestination \<Rightarrow> rdResticSpec \<Rightarrow> bool \<Rightarrow> volumehandler \<Rightarrow> moverStatus \<Rightarrow>
   resticMover" where
  "resticDestination cl img destination spec privileged vh st = \<lparr>
     rm_owner = objmeta.truncate destination, rm_vh = vh,
     rm_saHandler = NewSAHandler cl (objmeta.truncate destination) False privileged
       (mc_serviceAccount (dr_moverConfig spec)),
     rm_containerImage = img,
     rm_cacheAccessModes = dr_cacheAccessModes spec, rm_cacheCapacity = dr_cacheCapacity spec,
     rm_cacheStorageClassName = dr_cacheStorageClassName spec, rm_repositoryName = dr_repository spec,
     rm_isSource = False, rm_paused = rd_paused destination, rm_mainPVCName = dr_destinationPVC spec,
     rm_customCASpec = dr_customCA spec, rm_privileged = privileged, rm_latestMoverStatus = st,
     rm_moverConfig = dr_moverConfig spec, rm_pruneInterval = None,
     rm_unlock = [], rm_retainPolicy = None,
     rm_sourceStatus = \<lparr>rrs_lastPruned = None, rrs_lastUnlocked = []\<rparr>,
     rm_previous = dr_previous spec, rm_restoreAsOf = dr_restoreAsOf spec,
     rm_enableFileDeletionOnRestore = dr_enableFileDeletion spec,
     rm_cleanupTempPVC = dr_cleanupTempPVC spec, rm_cleanupCachePVC = dr_cleanupCachePVC spec\<rparr>"

text \<open>
  The mover holds pointers to two parts of the status: it reads them when it runs and what it writes
  is there afterwards.
\<close>

definition rsResticMover :: "cluster \<Rightarrow> (moverStatus \<Rightarrow> rsResticStatus \<Rightarrow> resticMover) \<Rightarrow> rsPart mover" where
  "rsResticMover cl mk =
     (let load = (\<lambda>p. mk (orElse (rp_moverStatus p) emptyMoverStatus)
            (orElse (rp_resticStatus p) \<lparr>rrs_lastPruned = None, rrs_lastUnlocked = []\<rparr>))
      in \<lparr>mo_Name = resticMoverName,
          mo_Synchronize = State (\<lambda>(p, tr). case run_state (resticSynchronize cl (load p)) tr of
            ((r, m), tr') \<Rightarrow> (r, p\<lparr>rp_moverStatus := map_option (\<lambda>_. rm_latestMoverStatus m) (rp_moverStatus p),
               rp_resticStatus := map_option (\<lambda>_. rm_sourceStatus m) (rp_resticStatus p)\<rparr>, tr')),
          mo_Cleanup = State (\<lambda>(p, tr). case run_state (resticCleanup cl (load p)) tr of
            (r, tr') \<Rightarrow> (Ret r, p, tr'))\<rparr>)"

definition rdResticMover :: "cluster \<Rightarrow> (moverStatus \<Rightarrow> resticMover) \<Rightarrow> rdPart mover" where
  "rdResticMover cl mk =
     (let load = (\<lambda>p. mk (orElse (dp_moverStatus p) emptyMoverStatus))
      in \<lparr>mo_Name = resticMoverName,
          mo_Synchronize = State (\<lambda>(p, tr). case run_state (resticSynchronize cl (load p)) tr of
            ((r, m), tr') \<Rightarrow> (r, p\<lparr>dp_moverStatus := map_option (\<lambda>_. rm_latestMoverStatus m) (dp_moverStatus p)\<rparr>, tr')),
          mo_Cleanup = State (\<lambda>(p, tr). case run_state (resticCleanup cl (load p)) tr of
            (r, tr') \<Rightarrow> (Ret r, p, tr'))\<rparr>)"

definition resticFromSource ::
  "cluster \<Rightarrow> string \<Rightarrow> replicationsource \<Rightarrow> bool \<Rightarrow> rsPart \<Rightarrow> (gerror + rsPart mover option) \<times> rsPart" where
  "resticFromSource cl img source privileged p =
     (case rs_restic source of
        None \<Rightarrow> (Inr None, p)
      | Some spec \<Rightarrow>
          (let p1 = p\<lparr>rp_resticStatus := Some (orElse (rp_resticStatus p)
                 \<lparr>rrs_lastPruned = None, rrs_lastUnlocked = []\<rparr>),
               rp_moverStatus := Some (orElse (rp_moverStatus p) emptyMoverStatus)\<rparr>
           in (case moverVH (objmeta.truncate source) (rr_volumeOptions spec) of
                 Inl err \<Rightarrow> (Inl err, p1)
               | Inr vh \<Rightarrow> (Inr (Some (rsResticMover cl (resticSource cl img source spec privileged vh))), p1))))"

definition resticFromDestination ::
  "cluster \<Rightarrow> string \<Rightarrow> replicationdestination \<Rightarrow> bool \<Rightarrow> rdPart \<Rightarrow> (gerror + rdPart mover option) \<times> rdPart" where
  "resticFromDestination cl img destination privileged p =
     (case rd_restic destination of
        None \<Rightarrow> (Inr None, p)
      | Some spec \<Rightarrow>
          (let p1 = p\<lparr>dp_moverStatus := Some (orElse (dp_moverStatus p) emptyMoverStatus)\<rparr>
           in (case moverVH (objmeta.truncate destination) (dr_volumeOptions spec) of
                 Inl err \<Rightarrow> (Inl err, p1)
               | Inr vh \<Rightarrow> (Inr (Some (rdResticMover cl (resticDestination cl img destination spec privileged vh))), p1))))"

definition resticBuilder :: "cluster \<Rightarrow> string \<Rightarrow> builder" where
  "resticBuilder cl img = \<lparr>bl_Name = resticMoverName,
     bl_FromSource = resticFromSource cl img,
     bl_FromDestination = (\<lambda>destination privileged p. ret (resticFromDestination cl img destination privileged p)),
     bl_VersionInfo = ''Restic container: '' @ img\<rparr>"

section \<open>The jobs of the restic mover\<close>

interpretation restic: job_mover "resticFill cl m cachePVC dataPVC sa repo" "resticLate ca repo"
    "setPrivileges moverCapabilities (rm_privileged m)" moverSecurityContext
    "moverContext moverCapabilities (rm_privileged m)"
  for cl m cachePVC dataPVC sa repo ca
proof
  show "emits no_write (resticFill cl m cachePVC dataPVC sa repo t) plain" for t
    unfolding resticFill_def resticActions_def
    by (rule emits_step) (auto intro!: emits_rules emits_step[of _ "now _"] simp: runsWith_def)
  show "plain t \<Longrightarrow> plain (resticLate ca repo t)" for t
    by (auto simp: resticLate_def mountGcsCredentials_def intro!: plain_parts)
  show "plain t \<Longrightarrow> runsWith (moverContext moverCapabilities (rm_privileged m))
      (setPrivileges moverCapabilities (rm_privileged m) t)" for t
    by (rule setPrivileges_runs)
qed

definition restic_ok :: "cluster \<Rightarrow> resticMover \<Rightarrow> call \<Rightarrow> bool" where
  "restic_ok cl m = sync_ok cl (rm_owner m) (rm_privileged m)
     (good_job (rm_owner m) (rm_paused m) (moverContext moverCapabilities (rm_privileged m)) 8)"

text \<open>A mover as a builder makes it, and what stays the same while it runs.\<close>

definition wellBuilt :: "cluster \<Rightarrow> resticMover \<Rightarrow> bool" where
  "wellBuilt cl m \<longleftrightarrow> vhOwner (rm_vh m) = rm_owner m \<and>
     (\<exists>userSA. rm_saHandler m = NewSAHandler cl (rm_owner m) (rm_isSource m) (rm_privileged m) userSA)"

definition sameMover :: "resticMover \<Rightarrow> resticMover \<Rightarrow> bool" where
  "sameMover m m' \<longleftrightarrow> rm_owner m' = rm_owner m \<and> rm_vh m' = rm_vh m \<and> rm_isSource m' = rm_isSource m"

lemma sameMover_simps [simp]:
  "sameMover m m" "sameMover m (m'\<lparr>rm_latestMoverStatus := st\<rparr>) = sameMover m m'"
  "sameMover m (recordUnlock m') = sameMover m m'"
  "sameMover m (m'\<lparr>rm_sourceStatus := ss\<rparr>) = sameMover m m'"
  by (simp_all add: sameMover_def recordUnlock_def)

lemma emits_migrationCleanup:
  assumes "libs_documented cl"
  shows "emits (restic_ok cl m) (migrationCleanupObsoleteCachePVC cl m) (\<lambda>_. True)"
  using libs_documentedD(5)[OF assms] unfolding migrationCleanupObsoleteCachePVC_def restic_ok_def
  by (auto simp: hasOwnerRef_documented_def
      intro!: emits_rules emits_step[of _ "kGet _ _"] emits_step[of _ "kDelete _ _ _"])

lemma cacheVh_owner: "NewVolumeHandler (cacheConfig m p) = Inr vh \<Longrightarrow> vhOwner vh = vhOwner (rm_vh m)"
  by (auto simp: NewVolumeHandler_def cacheConfig_def Let_def vhOwner_def split: if_splits)

lemma emits_ensureCache:
  assumes "libs_documented cl" "wellBuilt cl m"
  shows "emits (restic_ok cl m) (ensureCache cl m p t) (\<lambda>_. True)"
proof -
  have new: "emits (restic_ok cl m) (EnsureNewPVC cl vh name t) (\<lambda>_. True)"
    if "NewVolumeHandler (cacheConfig m p) = Inr vh" for vh name
    using emits_post[OF emits_EnsureNewPVC[of cl vh, OF libs_documentedD(2,6)[OF assms(1)]]] cacheVh_owner[OF that] assms(2)
    by (simp add: wellBuilt_def restic_ok_def)
  show ?thesis
    unfolding ensureCache_def
    by (auto intro!: emits_rules emits_step[OF emits_migrationCleanup[OF assms(1)]] emits_step[OF new])
qed

text \<open>
  The job \<open>j\<close> was the answer of the server to a create-or-update of the mover's job, and it has
  succeeded without reaching the limit of failures.
\<close>

definition answeredJob :: "cluster \<Rightarrow> resticMover \<Rightarrow> job \<Rightarrow> bool" where
  "answeredJob cl m j \<longleftrightarrow> job_succeeded j \<noteq> 0 \<and> (\<forall>limit. job_backoffLimit j = Some limit \<longrightarrow> job_failed j < limit) \<and>
     (\<exists>m1 cache data sa repo ca op tr tr'. run_state (CreateOrUpdateDeleteOnImmutableErr (jobC cl)
        (resticJobObject m) (resticMutate cl m1 cache data sa repo ca)) tr = ((op, None, j), tr'))"

lemma answeredJobI:
  "run_state (CreateOrUpdateDeleteOnImmutableErr (jobC cl) (resticJobObject m)
     (resticMutate cl m1 cache data sa repo ca)) tr = ((op, None, j), tr') \<Longrightarrow>
   job_succeeded j \<noteq> 0 \<Longrightarrow> (\<And>limit. job_backoffLimit j = Some limit \<Longrightarrow> job_failed j < limit) \<Longrightarrow>
   answeredJob cl m j"
  unfolding answeredJob_def by blast

lemma emits_resticEnsureJob:
  assumes "libs_documented cl"
  shows "emits (restic_ok cl m) (resticEnsureJob cl m cache data sa repo ca)
    (\<lambda>(r, m'). sameMover m m' \<and>
       (\<forall>j e. r = Ret (Some j, e) \<longrightarrow> ms_result (rm_latestMoverStatus m') = MoverResultSuccessful \<and>
          answeredJob cl m j))"
proof -
  have rec: "emits (restic_ok cl m) (recordPrune cl (recordUnlock m)) (sameMover m)"
    unfolding recordPrune_def by (auto intro!: emits_rules emits_step[of _ "now _"] simp: restic_ok_def)
  have job: "emits (restic_ok cl m) (CreateOrUpdateDeleteOnImmutableErr (jobC cl) x
      (resticMutate cl m cache data sa repo ca)) (\<lambda>_. True)" for x
    unfolding resticMutate_def restic_ok_def by (rule restic.ensure_job[OF assms])
  have out: "emits (restic_ok cl m) (jobOutcome cl AllLines st err j)
      (\<lambda>(r, st'). \<forall>j' e. r = Ret (Some j', e) \<longrightarrow> j' = j \<and> err = None \<and> e = None \<and> job_succeeded j \<noteq> 0 \<and>
         (\<forall>limit. job_backoffLimit j = Some limit \<longrightarrow> job_failed j < limit))" for st err j
    unfolding restic_ok_def by (rule emits_jobOutcome)
  have st: "emits (restic_ok cl m) (UpdateMoverStatusForSuccessfulJob cl s n ns f) (\<lambda>st'. ms_result st' = MoverResultSuccessful)"
    for s n ns f
    unfolding restic_ok_def by (rule emits_successStatus)
  show ?thesis
    unfolding resticEnsureJob_def
    by (rule emits_bind[OF emits_self[OF job]])
      (auto intro!: emits_rules emits_bind[OF out] emits_bind[OF rec] emits_bind[OF st]
        split: go.splits option.splits prod.splits, (erule answeredJobI; simp)+)
qed

lemma emits_resticRun:
  assumes "libs_documented cl" "wellBuilt cl m"
  shows "emits (restic_ok cl m) (resticRun cl m data)
    (\<lambda>(r, m'). \<forall>res err. r = Ret (res, err) \<and> mr_completed res \<longrightarrow> err = None \<and>
       ms_result (rm_latestMoverStatus m') = MoverResultSuccessful \<and> (\<exists>j. answeredJob cl m j))"
proof -
  obtain userSA where sa: "rm_saHandler m = NewSAHandler cl (rm_owner m) (rm_isSource m) (rm_privileged m) userSA"
    and vh: "vhOwner (rm_vh m) = rm_owner m"
    using assms(2) by (auto simp: wellBuilt_def)
  have s: "emits (restic_ok cl m) (saReconcile cl (rm_saHandler m)) (\<lambda>_. True)"
    unfolding sa restic_ok_def by (rule emits_saReconcile[OF assms(1)])
  have reads: "emits no_write k (\<lambda>_. True) \<Longrightarrow> emits (restic_ok cl m) k (\<lambda>_. True)" for k :: "'a kube"
    unfolding restic_ok_def by (rule emits_reads) auto
  have fin: "emits (restic_ok cl m) (moverFinish cl (rm_isSource m1) (rm_vh m1) data)
      (\<lambda>(res, err). mr_completed res \<longrightarrow> err = None)" if "sameMover m m1" for m1
    using emits_moverFinish[OF assms(1), of "rm_vh m1" "rm_owner m"] that vh by (simp add: sameMover_def restic_ok_def)
  show ?thesis
    unfolding resticRun_def validateRepository_def
    by (auto intro!: emits_rules emits_step[OF emits_ensureCache[OF assms]] emits_step[OF s]
        emits_step[OF reads[OF emits_validations(1)]] emits_step[OF reads[OF emits_validations(3)]]
        emits_step[OF reads[OF emits_validations(4)]] emits_bind[OF emits_resticEnsureJob[OF assms(1)]]
        emits_bind[OF fin] simp: InProgress_def split: go.splits)
qed

lemma wellBuilt_built:
  "moverVH (objmeta.truncate source) opts = Inr vh \<Longrightarrow>
     wellBuilt cl (resticSource cl img source spec privileged vh st sst)"
  "moverVH (objmeta.truncate destination) opts = Inr vh \<Longrightarrow>
     wellBuilt cl (resticDestination cl img destination dspec privileged vh st)"
  by (auto simp: wellBuilt_def resticSource_def resticDestination_def moverVH_def NewVolumeHandler_def
      vhOwner_def emptyVH_def Let_def split: if_splits)

lemma emits_resticSynchronize:
  assumes "libs_documented cl" "wellBuilt cl m"
  shows "emits (restic_ok cl m) (resticSynchronize cl m)
    (\<lambda>(r, m'). \<forall>res err. r = Ret (res, err) \<and> mr_completed res \<longrightarrow> err = None \<and>
       ms_result (rm_latestMoverStatus m') = MoverResultSuccessful \<and> (\<exists>j. answeredJob cl m j))"
proof -
  have vh: "vhOwner (rm_vh m) = rm_owner m" using assms(2) by (simp add: wellBuilt_def)
  have d: "emits (restic_ok cl m) (ensureDataPVC cl ''-dest'' (rm_owner m) (rm_isSource m) (rm_mainPVCName m)
      (rm_cleanupTempPVC m) (rm_vh m) (rm_latestMoverStatus m)) (\<lambda>(r, vh', st'). vhOwner vh' = rm_owner m)"
    unfolding restic_ok_def by (rule emits_ensureDataPVC[OF assms(1) vh])
  have run: "emits (restic_ok cl m) (resticRun cl (m\<lparr>rm_vh := vh', rm_latestMoverStatus := st\<rparr>) p)
      (\<lambda>(r, m'). \<forall>res err. r = Ret (res, err) \<and> mr_completed res \<longrightarrow> err = None \<and>
         ms_result (rm_latestMoverStatus m') = MoverResultSuccessful \<and> (\<exists>j. answeredJob cl m j))"
    if "vhOwner vh' = rm_owner m" for vh' st p
  proof -
    let ?m = "m\<lparr>rm_vh := vh', rm_latestMoverStatus := st\<rparr>"
    have "wellBuilt cl ?m" using assms(2) that by (auto simp: wellBuilt_def)
    moreover have "restic_ok cl ?m = restic_ok cl m" "answeredJob cl ?m = answeredJob cl m"
      by (simp_all add: restic_ok_def answeredJob_def resticJobObject_def fun_eq_iff)
    ultimately show ?thesis using emits_resticRun[OF assms(1), of ?m p] by simp
  qed
  show ?thesis
    unfolding resticSynchronize_def
    by (rule emits_bind[OF d])
      (auto intro!: emits_rules run simp: Let_def InProgress_def split: go.splits option.splits prod.splits)
qed


definition sampleResticMover :: resticMover where
  "sampleResticMover = \<lparr>rm_owner = newMeta ''ns'' ''rs'',
     rm_vh = emptyVH\<lparr>vh_owner := Some (newMeta ''ns'' ''rs''), vh_copyMethod := CopyMethodDirect\<rparr>,
     rm_saHandler = NewSAHandler sampleCluster (newMeta ''ns'' ''rs'') True False None,
     rm_containerImage = ''restic:latest'', rm_cacheAccessModes = None, rm_cacheCapacity = None,
     rm_cacheStorageClassName = None, rm_repositoryName = ''repo'', rm_isSource = True, rm_paused = False,
     rm_mainPVCName = Some ''data'', rm_customCASpec = \<lparr>ca_secretName = [], ca_configMapName = [], ca_key = []\<rparr>,
     rm_privileged = False, rm_latestMoverStatus = emptyMoverStatus,
     rm_moverConfig = \<lparr>mc_securityContext = None, mc_serviceAccount = None, mc_podLabels = [],
       mc_resources = None, mc_affinity = None, mc_volumes = []\<rparr>,
     rm_pruneInterval = None, rm_unlock = ''now'', rm_retainPolicy = None,
     rm_sourceStatus = \<lparr>rrs_lastPruned = None, rrs_lastUnlocked = []\<rparr>,
     rm_previous = None, rm_restoreAsOf = None, rm_enableFileDeletionOnRestore = False,
     rm_cleanupTempPVC = False, rm_cleanupCachePVC = False\<rparr>"

lemma sample_wellBuilt: "wellBuilt sampleCluster sampleResticMover"
  by (auto simp: wellBuilt_def sampleResticMover_def vhOwner_def)


text \<open>If the job of a restic mover cannot be read, for any other reason than that it does not exist,
  the mover panics: the limit of failures is read through a pointer the mutate function, which was
  not called, has not set.\<close>

theorem resticEnsureJob_panics:
  assumes "cou_documented (jobC cl)"
    and "k_get (jobC cl) tr (objKey (resticJobObject m)) = Inl err" "\<not> isNotFound err" "\<not> isInvalid err"
  shows "fst (fst (run_state (resticEnsureJob cl m cache data sa repo ca) tr)) = Panic"
  using assms(2-4)
  by (simp add: resticEnsureJob_def CreateOrUpdateDeleteOnImmutableErr_def cou_documentedD[OF assms(1)]
      cou_steps_def kube_ops jobOutcome_def resticJobObject_def new_defs)

definition brokenJobs :: cluster where
  "brokenJobs = sampleCluster\<lparr>jobs := withCou ((sampleClient KJob OJob)
     \<lparr>k_get := \<lambda>_ _. Inl (StatusError OtherReason ''timeout'')\<rparr>)\<rparr>"

theorem resticEnsureJob_panics_witness:
  "fst (fst (run_state (resticEnsureJob brokenJobs sampleResticMover (newPVC ''ns'' ''cache'') (newPVC ''ns'' ''data'')
     (newServiceAccount ''ns'' ''sa'') (newSecret ''ns'' ''repo'') None) [])) = Panic"
proof -
  have j: "jobC brokenJobs = withCou ((sampleClient KJob OJob)\<lparr>k_get := \<lambda>_ _. Inl (StatusError OtherReason ''timeout'')\<rparr>)"
    by (simp add: jobC_def brokenJobs_def client_id)
  show ?thesis
    by (rule resticEnsureJob_panics[where err = "StatusError OtherReason ''timeout''"]) (simp_all add: j)
qed

section \<open>Pruning, unlocking and forgetting\<close>

text \<open>C25: For an interval of up to 106751 days a backup is pruned exactly when more than the interval has
  passed since the last pruning, or since the creation of the resource if there was none. A longer
  interval overflows: with 106752 days the wait is negative, so every backup is pruned.\<close>

theorem shouldPrune_spec:
  assumes "rm_pruneInterval m = Some days" "0 \<le> days"
  defines "lastPruned \<equiv> (case rrs_lastPruned (rm_sourceStatus m) of
      Some t \<Rightarrow> if t = 0 then om_creationTimestamp (rm_owner m) else t
    | None \<Rightarrow> om_creationTimestamp (rm_owner m))"
  shows "(days \<le> 106751 \<longrightarrow> (shouldPrune m t \<longleftrightarrow> lastPruned + days * 24 * hour < t)) \<and>
    (days = 106752 \<and> lastPruned \<le> t \<longrightarrow> shouldPrune m t)"
proof -
  have last: "(if \<not> IsZero (rrs_lastPruned (rm_sourceStatus m)) then the (rrs_lastPruned (rm_sourceStatus m))
      else om_creationTimestamp (rm_owner m)) = lastPruned"
    by (simp add: lastPruned_def split: option.splits)
  have small: "pruneDelta (Some days) = days * 24 * hour" if "days \<le> 106751"
    using that assms(2) by (simp add: pruneDelta_def wrap64_exact hour_def minute_def second_def)
  have big: "pruneDelta (Some 106752) < 0"
    by (simp add: pruneDelta_def wrap64_def hour_def minute_def second_def)
  show ?thesis
    using small big by (auto simp: shouldPrune_def last assms(1) time_After_def time_Add_def)
qed

theorem shouldPrune_spec_witness:
  "shouldPrune (sampleResticMover\<lparr>rm_pruneInterval := Some 106752\<rparr>) 1 \<and>
   \<not> shouldPrune (sampleResticMover\<lparr>rm_pruneInterval := Some 106751\<rparr>) (24 * hour)"
proof -
  have c: "om_creationTimestamp (rm_owner sampleResticMover) = 0"
    "rrs_lastPruned (rm_sourceStatus sampleResticMover) = None"
    by (simp_all add: sampleResticMover_def new_defs)
  show ?thesis
    using shouldPrune_spec[of "sampleResticMover\<lparr>rm_pruneInterval := Some 106752\<rparr>" 106752 1]
      shouldPrune_spec[of "sampleResticMover\<lparr>rm_pruneInterval := Some 106751\<rparr>" 106751 "24 * hour"]
    by (simp add: c hour_def minute_def second_def)
qed

text \<open>A completed backup job settles what was asked for: the unlock string is recorded, so the next
  backup does not unlock again until the user changes it, and forgotten when the user removes it;
  the time of the last pruning changes only if pruning was due, and then to the clock.\<close>

theorem resticEnsureJob_records:
  assumes "run_state (resticEnsureJob cl m cache data sa repo ca) tr = ((Ret (Some j, None), m'), tr')"
    and "rm_isSource m"
  shows "rm_unlock m' = rm_unlock m \<and> \<not> shouldUnlock m' \<and>
    (rm_unlock m = [] \<longrightarrow> rrs_lastUnlocked (rm_sourceStatus m') = []) \<and>
    (rm_unlock m \<noteq> [] \<longrightarrow> rrs_lastUnlocked (rm_sourceStatus m') = rm_unlock m) \<and>
    (rrs_lastPruned (rm_sourceStatus m') \<noteq> rrs_lastPruned (rm_sourceStatus m) \<longrightarrow>
       (\<exists>tr1. shouldPrune m (timeNow cl tr1) \<and>
          rrs_lastPruned (rm_sourceStatus m') = Some (timeNow cl (CNow # tr1))))"
proof -
  have prune: "shouldPrune (recordUnlock m) t = shouldPrune m t" for t
    by (simp add: shouldPrune_def recordUnlock_def Let_def)
  obtain tr1 st where m': "m' = (fst (run_state (recordPrune cl (recordUnlock m)) tr1))\<lparr>rm_latestMoverStatus := st\<rparr>"
    using assms
    by (auto simp: resticEnsureJob_def split: prod.splits go.splits option.splits) (metis fst_conv)
  have un: "rm_unlock (recordUnlock m) = rm_unlock m"
    "rrs_lastPruned (rm_sourceStatus (recordUnlock m)) = rrs_lastPruned (rm_sourceStatus m)"
    "rrs_lastUnlocked (rm_sourceStatus (recordUnlock m)) = rm_unlock m"
    by (auto simp: recordUnlock_def shouldUnlock_def)
  show ?thesis
    unfolding m' by (auto simp: recordPrune_def kube_ops prune shouldUnlock_def un)
qed

text \<open>A server that holds the job as the mover wants it, already succeeded.\<close>

definition doneJobs :: cluster where
  "doneJobs = sampleCluster\<lparr>jobs := (sampleClient KJob OJob)\<lparr>k_createOrUpdate :=
     \<lambda>j _. ret (OperationResultNone, None, j\<lparr>job_succeeded := 1, job_backoffLimit := Some 8\<rparr>)\<rparr>\<rparr>"

theorem resticEnsureJob_records_witness:
  "\<exists>j m'. fst (run_state (resticEnsureJob doneJobs sampleResticMover (newPVC ''ns'' ''cache'')
       (newPVC ''ns'' ''data'') (newServiceAccount ''ns'' ''sa'') (newSecret ''ns'' ''repo'') None) []) = (Ret (Some j, None), m') \<and>
     \<not> shouldUnlock m' \<and> rrs_lastUnlocked (rm_sourceStatus m') = ''now''"
proof -
  let ?run = "run_state (resticEnsureJob doneJobs sampleResticMover (newPVC ''ns'' ''cache'')
       (newPVC ''ns'' ''data'') (newServiceAccount ''ns'' ''sa'') (newSecret ''ns'' ''repo'') None) []"
  have c: "k_createOrUpdate (jobC doneJobs) =
      (\<lambda>j _. ret (OperationResultNone, None, j\<lparr>job_succeeded := 1, job_backoffLimit := Some 8\<rparr>))"
    by (simp add: jobC_def doneJobs_def)
  have u: "rm_unlock sampleResticMover = ''now''" "rm_isSource sampleResticMover" by (simp_all add: sampleResticMover_def)
  have f: "job_failed (resticJobObject m) = 0" for m by (simp add: resticJobObject_def new_defs)
  have "\<exists>j m' tr'. ?run = ((Ret (Some j, None), m'), tr')"
    by (simp add: resticEnsureJob_def CreateOrUpdateDeleteOnImmutableErr_def CreateOrUpdate_def c f jobOutcome_def u
        split: prod.splits)
  then obtain j m' tr' where run: "?run = ((Ret (Some j, None), m'), tr')" by blast
  show ?thesis using resticEnsureJob_records[OF run u(2)] run u(1) by auto
qed

section \<open>The forget options\<close>

definition words :: "string \<Rightarrow> string list" where
  "words s = filter (\<lambda>w. w \<noteq> []) (str_split CHR '' '' s)"

definition policyFlags :: "resticRetainPolicy \<Rightarrow> string list" where
  "policyFlags p =
     concat (map (\<lambda>(opt, v). case v of None \<Rightarrow> [] | Some n \<Rightarrow> [opt, itoa n])
       [(''--keep-hourly'', rp_hourly p), (''--keep-daily'', rp_daily p), (''--keep-weekly'', rp_weekly p),
        (''--keep-monthly'', rp_monthly p), (''--keep-yearly'', rp_yearly p)]) @
     (case rp_within p of None \<Rightarrow> [] | Some w \<Rightarrow> [''--keep-within'', w]) @
     (case rp_last p of None \<Rightarrow> [] | Some l \<Rightarrow> [''--keep-last'', l])"

definition oneWord :: "string \<Rightarrow> bool" where
  "oneWord w \<longleftrightarrow> w \<noteq> [] \<and> CHR '' '' \<notin> set w"

lemma str_split_sep: "str_split d (a @ d # b) = str_split d a @ str_split d b"
proof (induction a)
  case Nil
  then show ?case by simp
next
  case (Cons c a)
  then show ?case by (cases "str_split d a") auto
qed

lemma str_split_word: "d \<notin> set w \<Longrightarrow> str_split d w = [w]"
  by (induction w) auto

lemma words_simps:
  "words [] = []" "words (CHR '' '' # s) = words s" "oneWord w \<Longrightarrow> words w = [w]"
  "words (a @ CHR '' '' # b) = words a @ words b"
  by (simp_all add: words_def oneWord_def str_split_sep str_split_word)

lemma oneWord_itoa: "oneWord (itoa n)"
proof -
  have "CHR '' '' \<noteq> digitChar d" if "d < 10" for d
  proof -
    have "(of_char (CHR '' '') :: nat) \<noteq> of_char (digitChar d)" using that by (simp add: of_char_digitChar)
    then show ?thesis by metis
  qed
  then show ?thesis using itoa_chars[of "CHR '' ''" n] by (auto simp: oneWord_def)
qed

text \<open>The options for \<open>restic forget\<close> are, word by word, a flag with its number for every period the
  retain policy sets, then the two textual limits; without a policy, or with an empty one, exactly
  the last snapshot is kept.\<close>

theorem generateForgetOptions_words:
  assumes "\<And>p w. policy = Some p \<Longrightarrow> rp_within p = Some w \<or> rp_last p = Some w \<Longrightarrow> oneWord w"
  shows "words (generateForgetOptions policy) =
    (case policy of
       None \<Rightarrow> [''--keep-last'', ''1'']
     | Some p \<Rightarrow> if policyFlags p = [] then [''--keep-last'', ''1''] else policyFlags p)"
proof -
  have d: "words defaultForget = [''--keep-last'', ''1'']" by (simp add: words_def defaultForget_def)
  define sp where "sp s \<longleftrightarrow> s = [] \<or> (\<exists>r. s = CHR '' '' # r)" for s :: string
  have w: "words (w @ rest) = w # words rest" if "oneWord w" "sp rest" for w rest
    using that by (auto simp: sp_def words_simps)
  have sp: "sp []" "sp (CHR '' '' # r)" "sp rest \<Longrightarrow> sp (forgetOption v @ rest)" for r rest v
    by (auto simp: sp_def forgetOption_def split: prod.splits option.splits)
  have o: "words (forgetOption (opt, v) @ rest) = (case v of None \<Rightarrow> [] | Some n \<Rightarrow> [opt, itoa n]) @ words rest"
    if "oneWord opt" "sp rest" for opt v rest
    using w[OF that(1) sp(2)] w[OF oneWord_itoa that(2)]
    by (auto simp: forgetOption_def words_simps split: option.splits)
  have ow: "oneWord ''--keep-hourly''" "oneWord ''--keep-daily''" "oneWord ''--keep-weekly''"
    "oneWord ''--keep-monthly''" "oneWord ''--keep-yearly''" "oneWord ''--keep-within''" "oneWord ''--keep-last''"
    by (simp_all add: oneWord_def)
  show ?thesis
  proof (cases policy)
    case None
    then show ?thesis by (simp add: generateForgetOptions_def d)
  next
    case (Some p)
    let ?last = "case rp_last p of Some l \<Rightarrow> '' --keep-last '' @ l | None \<Rightarrow> []"
    let ?rest = "(case rp_within p of Some w \<Rightarrow> '' --keep-within '' @ w | None \<Rightarrow> []) @ ?last"
    let ?all = "forgetOption (''--keep-hourly'', rp_hourly p) @ forgetOption (''--keep-daily'', rp_daily p) @
      forgetOption (''--keep-weekly'', rp_weekly p) @ forgetOption (''--keep-monthly'', rp_monthly p) @
      forgetOption (''--keep-yearly'', rp_yearly p) @ ?rest"
    have gen: "generateForgetOptions policy = (if ?all = [] then defaultForget else ?all)"
      by (simp add: generateForgetOptions_def Some Let_def)
    have l: "sp ?last" "words ?last = (case rp_last p of None \<Rightarrow> [] | Some l \<Rightarrow> [''--keep-last'', l])"
      using assms[OF Some] w[OF ow(7) sp(2)] by (auto simp: sp words_simps split: option.splits)
    have r: "sp ?rest" "words ?rest = (case rp_within p of None \<Rightarrow> [] | Some w \<Rightarrow> [''--keep-within'', w]) @ words ?last"
      using assms[OF Some] w[OF ow(6) sp(2)] w[OF _ l(1)] l(1) by (auto simp: sp words_simps split: option.splits)
    have "words ?all = policyFlags p"
      by (simp only: o ow sp(3) r(1)) (simp only: policyFlags_def list.map concat.simps prod.case r(2) l(2) append_assoc append_Nil2 append_Nil)
    moreover have "?all = [] \<longleftrightarrow> policyFlags p = []"
      by (auto simp: policyFlags_def forgetOption_def split: option.splits)
    ultimately show ?thesis using gen d Some by simp
  qed
qed

theorem generateForgetOptions_words_witness:
  "words (generateForgetOptions (Some \<lparr>rp_hourly = Some 6, rp_daily = None, rp_weekly = None, rp_monthly = None,
       rp_yearly = None, rp_within = Some ''3h30m'', rp_last = None\<rparr>)) =
     [''--keep-hourly'', itoa 6, ''--keep-within'', ''3h30m'']"
  by (subst generateForgetOptions_words) (auto simp: oneWord_def policyFlags_def)

end
