(* ===== verification/Rclone_Mover.thy ===== *)
theory Rclone_Mover
  imports Mover_Jobs
begin

text \<open>
  The rclone mover: \<open>mover/rclone/mover.go\<close> and \<open>builder.go\<close>. It checks its spec and the secret with the
  rclone configuration, then runs a job on the data volume like the restic mover does.
\<close>

record rcloneMover =
  cm_owner :: objmeta
  cm_vh :: volumehandler
  cm_saHandler :: saHandler
  cm_containerImage :: string
  cm_configSection :: "string option"
  cm_destPath :: "string option"
  cm_config :: "string option"
  cm_isSource :: bool
  cm_paused :: bool
  cm_mainPVCName :: "string option"
  cm_customCASpec :: customCASpec
  cm_privileged :: bool
  cm_latestMoverStatus :: moverStatus
  cm_moverConfig :: moverConfig
  cm_cleanupTempPVC :: bool

definition rcloneSecret :: string where "rcloneSecret = ''rclone-secret''"
definition rcloneCAMountPath :: string where "rcloneCAMountPath = ''/customCA''"
definition rcloneCAFilename :: string where "rcloneCAFilename = ''ca.crt''"

definition isSet :: "string option \<Rightarrow> bool" where
  "isSet x \<longleftrightarrow> \<not> (x = None \<or> x = Some [])"

definition validateSpec :: "rcloneMover \<Rightarrow> gerror option" where
  "validateSpec m =
     (if \<not> isSet (cm_config m) then Some (Errorf ''unable to get Rclone config secret name'')
      else if \<not> isSet (cm_configSection m) then Some (Errorf ''unable to get Rclone config section name'')
      else if \<not> isSet (cm_destPath m) then Some (Errorf ''unable to get Rclone destination name'')
      else None)"

text \<open>The three names are read through pointers.\<close>

definition validateRcloneConfig :: "cluster \<Rightarrow> rcloneMover \<Rightarrow> (gerror + secret) go kube" where
  "validateRcloneConfig cl m =
     (case cm_config m of
        None \<Rightarrow> ret Panic
      | Some name \<Rightarrow> do {
          r \<leftarrow> GetAndValidateSecret cl (om_namespace (cm_owner m), name) [''rclone.conf''];
          ret (Ret r) })"

definition rcloneEnv :: "cluster \<Rightarrow> rcloneMover \<Rightarrow> secret \<Rightarrow> string \<Rightarrow> string \<Rightarrow> envvar list" where
  "rcloneEnv cl m cfgSecret destPath section =
     AppendDebugMoverEnvVar (cm_owner m) (AppendEnvVarsForClusterWideProxy cl
       (AppendRCloneEnvVars cfgSecret [] @
        [envVal ''RCLONE_CONFIG'' ''/rclone-config/rclone.conf'',
         envVal ''RCLONE_DEST_PATH'' destPath,
         envVal ''DIRECTION'' (if cm_isSource m then ''source'' else ''destination''),
         envVal ''MOUNT_PATH'' mountPath,
         envVal ''RCLONE_CONFIG_SECTION'' section]))"

definition rcloneFill ::
  "cluster \<Rightarrow> rcloneMover \<Rightarrow> pvc \<Rightarrow> serviceaccount \<Rightarrow> secret \<Rightarrow> string \<Rightarrow> string \<Rightarrow> podtemplate \<Rightarrow> podtemplate kube" where
  "rcloneFill cl m dataPVC sa cfgSecret destPath section t = ret (t\<lparr>
       pt_containers := [\<lparr>ct_name = ''rclone'', ct_env = rcloneEnv cl m cfgSecret destPath section, ct_envFrom = [],
         ct_command = [''/bin/bash'', ''-c'', ''/mover-rclone/active.sh''], ct_args = [],
         ct_image = cm_containerImage m, ct_imagePullPolicy = [], ct_securityContext = Some moverSecurityContext,
         ct_volumeMounts = [mountAt dataVolumeName mountPath,
           mountAt rcloneSecret ''/rclone-config/'',
           mountAt ''tempdir'' ''/tmp''],
         ct_resources = noResources, ct_volumeDevices = [], ct_ports = []\<rparr>],
       pt_restartPolicy := ''Never'',
       pt_serviceAccountName := om_name sa,
       pt_volumes := [
         \<lparr>vol_name = dataVolumeName, vol_source = noVolumeSource\<lparr>vs_pvc :=
            Some (om_name dataPVC, cm_isSource m \<and> PvcIsReadOnly dataPVC)\<rparr>\<rparr>,
         \<lparr>vol_name = rcloneSecret, vol_source = noVolumeSource\<lparr>vs_secret := Some \<lparr>sv_secretName = om_name cfgSecret,
            sv_items = [], sv_defaultMode = Some 384\<rparr>\<rparr>\<rparr>,
         \<lparr>vol_name = ''tempdir'', vol_source = noVolumeSource\<lparr>vs_emptyDir := Some (''Memory'', None)\<rparr>\<rparr>]\<rparr>)"

definition rcloneLate :: "customCAObject option \<Rightarrow> podtemplate \<Rightarrow> podtemplate" where
  "rcloneLate customCAObj t = mountCustomCA rcloneCAMountPath rcloneCAFilename customCAObj t"

definition rcloneMutate ::
  "cluster \<Rightarrow> rcloneMover \<Rightarrow> pvc \<Rightarrow> serviceaccount \<Rightarrow> secret \<Rightarrow> string \<Rightarrow> string \<Rightarrow> customCAObject option \<Rightarrow>
   job \<Rightarrow> (gerror option \<times> job) kube" where
  "rcloneMutate cl m dataPVC sa cfgSecret destPath section customCAObj =
     jobMutate cl (cm_owner m) [] (cm_paused m) 2 (cm_vh m) dataPVC (cm_moverConfig m)
       (rcloneFill cl m dataPVC sa cfgSecret destPath section) (rcloneLate customCAObj)
       (setPrivileges moverCapabilities (cm_privileged m))"

definition rcloneJobObject :: "rcloneMover \<Rightarrow> job" where
  "rcloneJobObject m = newJob (om_namespace (cm_owner m))
     (GetJobName (VolSyncPrefix @ ''rclone-'' @ moverDir (cm_isSource m) @ ''-'') (om_name (cm_owner m)))"

text \<open>Synchronize calls this after \<open>validateSpec\<close>, so both pointers are set.\<close>

definition rcloneEnsureJob ::
  "cluster \<Rightarrow> rcloneMover \<Rightarrow> pvc \<Rightarrow> serviceaccount \<Rightarrow> secret \<Rightarrow> customCAObject option \<Rightarrow>
   ((job option \<times> gerror option) go \<times> rcloneMover) kube" where
  "rcloneEnsureJob cl m dataPVC sa cfgSecret customCAObj = do {
     (_, err, j) \<leftarrow> CreateOrUpdateDeleteOnImmutableErr (jobC cl) (rcloneJobObject m)
        (rcloneMutate cl m dataPVC sa cfgSecret (the (cm_destPath m)) (the (cm_configSection m)) customCAObj);
     (r, st) \<leftarrow> jobOutcome cl AllLines (cm_latestMoverStatus m) err j;
     (case r of
        Ret (Some completed, None) \<Rightarrow> do {
          st1 \<leftarrow> UpdateMoverStatusForSuccessfulJob cl st (om_name completed) (om_namespace completed)
             (Some rcloneLogLineFilterSuccess);
          ret (r, m\<lparr>cm_latestMoverStatus := st1\<rparr>) }
      | _ \<Rightarrow> ret (r, m\<lparr>cm_latestMoverStatus := st\<rparr>)) }"

definition rcloneRun ::
  "cluster \<Rightarrow> rcloneMover \<Rightarrow> secret \<Rightarrow> pvc \<Rightarrow> ((mresult \<times> gerror option) go \<times> rcloneMover) kube" where
  "rcloneRun cl m cfgSecret dataPVC = do {
     (sa, serr) \<leftarrow> saReconcile cl (cm_saHandler m);
     case sa of
       None \<Rightarrow> ret (Ret (InProgress, serr), m)
     | Some account \<Rightarrow> if serr \<noteq> None then ret (Ret (InProgress, serr), m) else do {
     car \<leftarrow> ValidateCustomCA cl (om_namespace (cm_owner m)) (cm_customCASpec m);
     case car of
       Inl err \<Rightarrow> ret (Ret (InProgress, Some err), m)
     | Inr customCAObj \<Rightarrow> do {
     verr \<leftarrow> ValidateMoverVolumes cl (om_namespace (cm_owner m)) (mc_volumes (cm_moverConfig m));
     case verr of
       Some err \<Rightarrow> ret (Ret (InProgress, Some err), m)
     | None \<Rightarrow> do {
     (jr, m1) \<leftarrow> rcloneEnsureJob cl m dataPVC account cfgSecret customCAObj;
     (case jr of
        Panic \<Rightarrow> ret (Panic, m1)
      | Ret (j, jerr) \<Rightarrow>
          if j = None \<or> jerr \<noteq> None then ret (Ret (InProgress, jerr), m1)
          else do {
            r \<leftarrow> moverFinish cl (cm_isSource m1) (cm_vh m1) dataPVC;
            ret (Ret r, m1) }) } } } }"

definition rcloneSynchronize ::
  "cluster \<Rightarrow> rcloneMover \<Rightarrow> ((mresult \<times> gerror option) go \<times> rcloneMover) kube" where
  "rcloneSynchronize cl m0 =
     (case validateSpec m0 of
        Some err \<Rightarrow> ret (Ret (InProgress, Some err), m0)
      | None \<Rightarrow> do {
          cr \<leftarrow> validateRcloneConfig cl m0;
          (case cr of
             Panic \<Rightarrow> ret (Panic, m0)
           | Ret (Inl err) \<Rightarrow> ret (Ret (InProgress, Some err), m0)
           | Ret (Inr cfgSecret) \<Rightarrow> do {
               (r, vh, st) \<leftarrow> ensureDataPVC cl ''-dest'' (cm_owner m0) (cm_isSource m0) (cm_mainPVCName m0)
                  (cm_cleanupTempPVC m0) (cm_vh m0) (cm_latestMoverStatus m0);
               let m = m0\<lparr>cm_vh := vh, cm_latestMoverStatus := st\<rparr> in
               (case r of
                  Panic \<Rightarrow> ret (Panic, m)
                | Ret (None, err) \<Rightarrow> ret (Ret (InProgress, err), m)
                | Ret (Some dataPVC, Some err) \<Rightarrow> ret (Ret (InProgress, Some err), m)
                | Ret (Some dataPVC, None) \<Rightarrow> rcloneRun cl m cfgSecret dataPVC) }) })"

definition rcloneCleanup :: "cluster \<Rightarrow> rcloneMover \<Rightarrow> (mresult \<times> gerror option) kube" where
  "rcloneCleanup cl m = moverCleanup cl ''-dest'' (cm_owner m) (cm_isSource m) (cm_mainPVCName m) (cm_vh m)"

section \<open>The builder\<close>

definition rcloneMoverName :: string where "rcloneMoverName = ''rclone''"

definition rcloneSource ::
  "cluster \<Rightarrow> string \<Rightarrow> replicationsource \<Rightarrow> rsRcloneSpec \<Rightarrow> bool \<Rightarrow> volumehandler \<Rightarrow> moverStatus \<Rightarrow> rcloneMover" where
  "rcloneSource cl img source spec privileged vh st = \<lparr>
     cm_owner = objmeta.truncate source, cm_vh = vh,
     cm_saHandler = NewSAHandler cl (objmeta.truncate source) True privileged
       (mc_serviceAccount (rc_moverConfig spec)),
     cm_containerImage = img, cm_configSection = rc_configSection spec, cm_destPath = rc_destPath spec,
     cm_config = rc_config spec, cm_isSource = True, cm_paused = rs_paused source,
     cm_mainPVCName = Some (rs_sourcePVC source), cm_customCASpec = rc_customCA spec,
     cm_privileged = privileged, cm_latestMoverStatus = st, cm_moverConfig = rc_moverConfig spec,
     cm_cleanupTempPVC = False\<rparr>"

definition rcloneDestination ::
  "cluster \<Rightarrow> string \<Rightarrow> replicationdestination \<Rightarrow> rdRcloneSpec \<Rightarrow> bool \<Rightarrow> volumehandler \<Rightarrow> moverStatus \<Rightarrow> rcloneMover" where
  "rcloneDestination cl img destination spec privileged vh st = \<lparr>
     cm_owner = objmeta.truncate destination, cm_vh = vh,
     cm_saHandler = NewSAHandler cl (objmeta.truncate destination) False privileged
       (mc_serviceAccount (dc_moverConfig spec)),
     cm_containerImage = img, cm_configSection = dc_configSection spec, cm_destPath = dc_destPath spec,
     cm_config = dc_config spec, cm_isSource = False, cm_paused = rd_paused destination,
     cm_mainPVCName = dc_destinationPVC spec, cm_customCASpec = dc_customCA spec,
     cm_privileged = privileged, cm_latestMoverStatus = st, cm_moverConfig = dc_moverConfig spec,
     cm_cleanupTempPVC = dc_cleanupTempPVC spec\<rparr>"

definition rsRcloneMover :: "cluster \<Rightarrow> (moverStatus \<Rightarrow> rcloneMover) \<Rightarrow> rsPart mover" where
  "rsRcloneMover cl mk =
     (let load = (\<lambda>p. mk (orElse (rp_moverStatus p) emptyMoverStatus))
      in \<lparr>mo_Name = rcloneMoverName,
          mo_Synchronize = State (\<lambda>(p, tr). case run_state (rcloneSynchronize cl (load p)) tr of
            ((r, m), tr') \<Rightarrow> (r, p\<lparr>rp_moverStatus := map_option (\<lambda>_. cm_latestMoverStatus m) (rp_moverStatus p)\<rparr>, tr')),
          mo_Cleanup = State (\<lambda>(p, tr). case run_state (rcloneCleanup cl (load p)) tr of
            (r, tr') \<Rightarrow> (Ret r, p, tr'))\<rparr>)"

definition rdRcloneMover :: "cluster \<Rightarrow> (moverStatus \<Rightarrow> rcloneMover) \<Rightarrow> rdPart mover" where
  "rdRcloneMover cl mk =
     (let load = (\<lambda>p. mk (orElse (dp_moverStatus p) emptyMoverStatus))
      in \<lparr>mo_Name = rcloneMoverName,
          mo_Synchronize = State (\<lambda>(p, tr). case run_state (rcloneSynchronize cl (load p)) tr of
            ((r, m), tr') \<Rightarrow> (r, p\<lparr>dp_moverStatus := map_option (\<lambda>_. cm_latestMoverStatus m) (dp_moverStatus p)\<rparr>, tr')),
          mo_Cleanup = State (\<lambda>(p, tr). case run_state (rcloneCleanup cl (load p)) tr of
            (r, tr') \<Rightarrow> (Ret r, p, tr'))\<rparr>)"

definition rcloneFromSource ::
  "cluster \<Rightarrow> string \<Rightarrow> replicationsource \<Rightarrow> bool \<Rightarrow> rsPart \<Rightarrow> (gerror + rsPart mover option) \<times> rsPart" where
  "rcloneFromSource cl img source privileged p =
     (case rs_rclone source of
        None \<Rightarrow> (Inr None, p)
      | Some spec \<Rightarrow>
          (let p1 = p\<lparr>rp_moverStatus := Some (orElse (rp_moverStatus p) emptyMoverStatus)\<rparr>
           in (case moverVH (objmeta.truncate source) (rc_volumeOptions spec) of
                 Inl err \<Rightarrow> (Inl err, p1)
               | Inr vh \<Rightarrow> (Inr (Some (rsRcloneMover cl (rcloneSource cl img source spec privileged vh))), p1))))"

definition rcloneFromDestination ::
  "cluster \<Rightarrow> string \<Rightarrow> replicationdestination \<Rightarrow> bool \<Rightarrow> rdPart \<Rightarrow> (gerror + rdPart mover option) \<times> rdPart" where
  "rcloneFromDestination cl img destination privileged p =
     (case rd_rclone destination of
        None \<Rightarrow> (Inr None, p)
      | Some spec \<Rightarrow>
          (let p1 = p\<lparr>dp_moverStatus := Some (orElse (dp_moverStatus p) emptyMoverStatus)\<rparr>
           in (case moverVH (objmeta.truncate destination) (dc_volumeOptions spec) of
                 Inl err \<Rightarrow> (Inl err, p1)
               | Inr vh \<Rightarrow> (Inr (Some (rdRcloneMover cl (rcloneDestination cl img destination spec privileged vh))), p1))))"

definition rcloneBuilder :: "cluster \<Rightarrow> string \<Rightarrow> builder" where
  "rcloneBuilder cl img = \<lparr>bl_Name = rcloneMoverName,
     bl_FromSource = rcloneFromSource cl img,
     bl_FromDestination = (\<lambda>destination privileged p. ret (rcloneFromDestination cl img destination privileged p)),
     bl_VersionInfo = ''Rclone container: '' @ img\<rparr>"

section \<open>The jobs of the rclone mover\<close>

interpretation rclone: job_mover "rcloneFill cl m dataPVC sa cfgSecret destPath section" "rcloneLate ca"
    "setPrivileges moverCapabilities (cm_privileged m)" moverSecurityContext
    "moverContext moverCapabilities (cm_privileged m)"
  for cl m dataPVC sa cfgSecret destPath "section" ca
proof
  show "emits no_write (rcloneFill cl m dataPVC sa cfgSecret destPath section t) plain" for t
    unfolding rcloneFill_def by (auto intro!: emits_rules simp: runsWith_def)
  show "plain t \<Longrightarrow> plain (rcloneLate ca t)" for t
    by (simp add: rcloneLate_def plain_parts)
  show "plain t \<Longrightarrow> runsWith (moverContext moverCapabilities (cm_privileged m))
      (setPrivileges moverCapabilities (cm_privileged m) t)" for t
    by (rule setPrivileges_runs)
qed

definition rclone_ok :: "cluster \<Rightarrow> rcloneMover \<Rightarrow> call \<Rightarrow> bool" where
  "rclone_ok cl m = sync_ok cl (cm_owner m) (cm_privileged m)
     (good_job (cm_owner m) (cm_paused m) (moverContext moverCapabilities (cm_privileged m)) 2)"

definition rcloneBuilt :: "cluster \<Rightarrow> rcloneMover \<Rightarrow> bool" where
  "rcloneBuilt cl m \<longleftrightarrow> vhOwner (cm_vh m) = cm_owner m \<and>
     (\<exists>userSA. cm_saHandler m = NewSAHandler cl (cm_owner m) (cm_isSource m) (cm_privileged m) userSA)"

lemma rcloneBuilt_built:
  "moverVH (objmeta.truncate source) opts = Inr vh \<Longrightarrow>
     rcloneBuilt cl (rcloneSource cl img source spec privileged vh st)"
  "moverVH (objmeta.truncate destination) opts = Inr vh \<Longrightarrow>
     rcloneBuilt cl (rcloneDestination cl img destination dspec privileged vh st)"
  by (auto simp: rcloneBuilt_def rcloneSource_def rcloneDestination_def moverVH_def NewVolumeHandler_def
      vhOwner_def emptyVH_def Let_def split: if_splits)

lemma emits_rcloneEnsureJob:
  assumes "libs_documented cl"
  shows "emits (rclone_ok cl m) (rcloneEnsureJob cl m data sa cfg ca)
    (\<lambda>(r, m'). cm_vh m' = cm_vh m \<and> cm_isSource m' = cm_isSource m \<and>
       (\<forall>j e. r = Ret (Some j, e) \<longrightarrow> job_succeeded j \<noteq> 0 \<and>
          ms_result (cm_latestMoverStatus m') = MoverResultSuccessful))"
proof -
  have job: "emits (rclone_ok cl m) (CreateOrUpdateDeleteOnImmutableErr (jobC cl) x
      (rcloneMutate cl m data sa cfg dp sec ca)) (\<lambda>_. True)" for x dp sec
    unfolding rcloneMutate_def rclone_ok_def by (rule rclone.ensure_job[OF assms])
  have st: "emits (rclone_ok cl m) (UpdateMoverStatusForSuccessfulJob cl s n ns f) (\<lambda>st'. ms_result st' = MoverResultSuccessful)"
    for s n ns f
    unfolding rclone_ok_def by (rule emits_successStatus)
  have out: "emits (rclone_ok cl m) (jobOutcome cl AllLines st err j)
      (\<lambda>(r, st'). \<forall>j' e. r = Ret (Some j', e) \<longrightarrow> j' = j \<and> err = None \<and> e = None \<and> job_succeeded j \<noteq> 0 \<and>
         (\<forall>limit. job_backoffLimit j = Some limit \<longrightarrow> job_failed j < limit))" for st err j
    unfolding rclone_ok_def by (rule emits_jobOutcome)
  show ?thesis
    unfolding rcloneEnsureJob_def
    by (rule emits_step[OF job])
      (auto intro!: emits_rules emits_bind[OF out] emits_bind[OF st]
        split: go.splits option.splits prod.splits)
qed

lemma emits_rcloneRun:
  assumes "libs_documented cl" "rcloneBuilt cl m"
  shows "emits (rclone_ok cl m) (rcloneRun cl m cfg data)
    (\<lambda>(r, m'). \<forall>res err. r = Ret (res, err) \<and> mr_completed res \<longrightarrow> err = None \<and>
       ms_result (cm_latestMoverStatus m') = MoverResultSuccessful)"
proof -
  obtain userSA where sa: "cm_saHandler m = NewSAHandler cl (cm_owner m) (cm_isSource m) (cm_privileged m) userSA"
    and vh: "vhOwner (cm_vh m) = cm_owner m"
    using assms(2) by (auto simp: rcloneBuilt_def)
  have s: "emits (rclone_ok cl m) (saReconcile cl (cm_saHandler m)) (\<lambda>_. True)"
    unfolding sa rclone_ok_def by (rule emits_saReconcile[OF assms(1)])
  have reads: "emits no_write k (\<lambda>_. True) \<Longrightarrow> emits (rclone_ok cl m) k (\<lambda>_. True)" for k :: "'a kube"
    unfolding rclone_ok_def by (rule emits_reads) auto
  have fin: "emits (rclone_ok cl m) (moverFinish cl isSource (cm_vh m) data)
      (\<lambda>(res, err). mr_completed res \<longrightarrow> err = None)" for isSource
    unfolding rclone_ok_def by (rule emits_moverFinish[OF assms(1) vh])
  show ?thesis
    unfolding rcloneRun_def
    by (auto intro!: emits_rules emits_step[OF s] emits_step[OF reads[OF emits_validations(3)]]
        emits_step[OF reads[OF emits_validations(4)]] emits_bind[OF emits_rcloneEnsureJob[OF assms(1)]]
        emits_bind[OF fin] simp: InProgress_def split: go.splits)
qed

text \<open>C19: A synchronization of the rclone mover keeps the same contract as the restic mover: what it
  creates belongs to the resource, its jobs are marked for cleanup, respect the pause and the
  privileges, only jobs and claims of the resource are deleted; completion means no error and a
  mover status that says successful. With an incomplete spec it writes nothing at all.\<close>

theorem rcloneSynchronize_safe:
  assumes "libs_documented cl" "rcloneBuilt cl m"
  shows "emits (\<lambda>c. sync_ok cl (cm_owner m) (cm_privileged m) (good_job (cm_owner m) (cm_paused m) (moverContext moverCapabilities (cm_privileged m)) 2) c \<and>
      (validateSpec m \<noteq> None \<longrightarrow> \<not> is_write c)) (rcloneSynchronize cl m)
    (\<lambda>(r, m'). \<forall>res err. r = Ret (res, err) \<and> mr_completed res \<longrightarrow> err = None \<and>
       ms_result (cm_latestMoverStatus m') = MoverResultSuccessful)"
proof (cases "validateSpec m")
  case (Some e)
  then show ?thesis by (auto simp: rcloneSynchronize_def InProgress_def intro!: emits_rules)
next
  case None
  have vh: "vhOwner (cm_vh m) = cm_owner m" using assms(2) by (simp add: rcloneBuilt_def)
  have c: "emits (rclone_ok cl m) (validateRcloneConfig cl m) (\<lambda>_. True)"
    unfolding validateRcloneConfig_def rclone_ok_def
    by (auto intro!: emits_rules emits_step[OF emits_reads[OF emits_validations(1)]])
  have d: "emits (rclone_ok cl m) (ensureDataPVC cl ''-dest'' (cm_owner m) (cm_isSource m) (cm_mainPVCName m)
      (cm_cleanupTempPVC m) (cm_vh m) (cm_latestMoverStatus m)) (\<lambda>(r, vh', st'). vhOwner vh' = cm_owner m)"
    unfolding rclone_ok_def by (rule emits_ensureDataPVC[OF assms(1) vh])
  have run: "emits (rclone_ok cl m) (rcloneRun cl (m\<lparr>cm_vh := vh', cm_latestMoverStatus := st\<rparr>) cfg p)
      (\<lambda>(r, m'). \<forall>res err. r = Ret (res, err) \<and> mr_completed res \<longrightarrow> err = None \<and>
         ms_result (cm_latestMoverStatus m') = MoverResultSuccessful)"
    if "vhOwner vh' = cm_owner m" for vh' st p cfg
  proof -
    let ?m = "m\<lparr>cm_vh := vh', cm_latestMoverStatus := st\<rparr>"
    have "rcloneBuilt cl ?m" using assms(2) that by (auto simp: rcloneBuilt_def)
    moreover have "rclone_ok cl ?m = rclone_ok cl m" by (simp add: rclone_ok_def)
    ultimately show ?thesis using emits_rcloneRun[OF assms(1), of ?m cfg p] by simp
  qed
  have "emits (rclone_ok cl m) (rcloneSynchronize cl m)
    (\<lambda>(r, m'). \<forall>res err. r = Ret (res, err) \<and> mr_completed res \<longrightarrow> err = None \<and>
       ms_result (cm_latestMoverStatus m') = MoverResultSuccessful)"
    unfolding rcloneSynchronize_def None option.case
    by (rule emits_step[OF c])
      (auto intro!: emits_rules emits_bind[OF d] run simp: Let_def InProgress_def
        split: go.splits option.splits prod.splits sum.splits)
  then show ?thesis by (simp add: None rclone_ok_def)
qed

definition sampleRcloneMover :: rcloneMover where
  "sampleRcloneMover = \<lparr>cm_owner = newMeta ''ns'' ''rs'',
     cm_vh = emptyVH\<lparr>vh_owner := Some (newMeta ''ns'' ''rs''), vh_copyMethod := CopyMethodSnapshot\<rparr>,
     cm_saHandler = NewSAHandler sampleCluster (newMeta ''ns'' ''rs'') True True None,
     cm_containerImage = ''rclone:latest'', cm_configSection = Some ''s3'', cm_destPath = Some ''bucket'',
     cm_config = Some ''rclone'', cm_isSource = True, cm_paused = False, cm_mainPVCName = Some ''data'',
     cm_customCASpec = \<lparr>ca_secretName = [], ca_configMapName = [], ca_key = []\<rparr>,
     cm_privileged = True, cm_latestMoverStatus = emptyMoverStatus,
     cm_moverConfig = \<lparr>mc_securityContext = None, mc_serviceAccount = None, mc_podLabels = [],
       mc_resources = None, mc_affinity = None, mc_volumes = []\<rparr>,
     cm_cleanupTempPVC = False\<rparr>"

theorem rcloneSynchronize_safe_witness:
  "\<forall>tr. \<exists>a new. run_state (rcloneSynchronize sampleCluster sampleRcloneMover) tr = (a, new @ tr) \<and>
     (\<forall>c \<in> set new. sync_ok sampleCluster (newMeta ''ns'' ''rs'') True
        (good_job (newMeta ''ns'' ''rs'') False (moverContext moverCapabilities True) 2) c)"
proof -
  have "rcloneBuilt sampleCluster sampleRcloneMover"
    by (auto simp: rcloneBuilt_def sampleRcloneMover_def vhOwner_def)
  from rcloneSynchronize_safe[OF sample_libs this] show ?thesis
    unfolding emits_def by (auto simp: sampleRcloneMover_def) blast
qed

end
