(* ===== verification/Rsync_Common.thy ===== *)
theory Rsync_Common
  imports Mover_Jobs
begin

text \<open>
  What the two rsync movers share (\<open>mover/rsync\<close>, \<open>mover/rsynctls\<close>, whose sources repeat this code): the
  service the remote side connects to, its address in the status, and what follows from the state of the
  job, with the events these movers record.
\<close>

section \<open>The service\<close>

record rsyncSvcDescription =
  sd_service :: service
  sd_owner :: objmeta
  sd_type :: "serviceType option"
  sd_selector :: strmap
  sd_port :: "int option"
  sd_annotations :: "strmap option"

text \<open>What differs between the two movers: the name of the port, its default, and the port of the pod.\<close>

record rsyncPort =
  yp_name :: string
  yp_default :: int
  yp_target :: int

definition updateMap :: "strmap \<Rightarrow> strmap \<Rightarrow> strmap" where
  "updateMap m1 m2 = fold (\<lambda>(k, v). map_put k v) (entries m2) m1"

definition updateAnnotationsOrDefault :: "strmap \<Rightarrow> strmap option \<Rightarrow> strmap" where
  "updateAnnotationsOrDefault annotations userSuppliedAnnotations =
     (case userSuppliedAnnotations of
        None \<Rightarrow> map_put ''service.beta.kubernetes.io/aws-load-balancer-type'' ''nlb'' annotations
      | Some user \<Rightarrow> updateMap annotations user)"

definition emptyPort :: serviceport where
  "emptyPort = \<lparr>sport_name = [], sport_protocol = [], sport_port = 0, sport_targetPort = IntPort 0,
     sport_nodePort = 0, sport_appProtocol = None\<rparr>"

definition svcPort :: "rsyncPort \<Rightarrow> rsyncSvcDescription \<Rightarrow> serviceType \<Rightarrow> serviceport list \<Rightarrow> serviceport" where
  "svcPort yp d ty ports =
     (let p = (case ports of [q] \<Rightarrow> q | _ \<Rightarrow> emptyPort);
          p1 = p\<lparr>sport_name := yp_name yp, sport_port := orElse (sd_port d) (yp_default yp),
            sport_protocol := ''TCP'', sport_targetPort := IntPort (yp_target yp)\<rparr>
      in if ty = ClusterIP then p1\<lparr>sport_nodePort := 0\<rparr> else p1)"

definition svcMutate :: "cluster \<Rightarrow> rsyncPort \<Rightarrow> rsyncSvcDescription \<Rightarrow> service \<Rightarrow> (gerror option \<times> service) kube" where
  "svcMutate cl yp d svc =
     (case setControllerReference cl (sd_owner d) (om_ownerRefs svc) of
        Inl err \<Rightarrow> ret (Some err, svc)
      | Inr refs \<Rightarrow>
          (let s = snd (SetOwnedByVolSync meta_ops (svc\<lparr>om_ownerRefs := refs\<rparr>)); ty = orElse (sd_type d) ClusterIP
           in ret (None, s\<lparr>om_annotations := updateAnnotationsOrDefault (om_annotations s) (sd_annotations d),
                svc_type := ty, svc_selector := sd_selector d, svc_ports := [svcPort yp d ty (svc_ports s)]\<rparr>)))"

definition svcReconcile :: "cluster \<Rightarrow> rsyncPort \<Rightarrow> rsyncSvcDescription \<Rightarrow> (gerror option \<times> service) kube" where
  "svcReconcile cl yp d = do {
     (_, err, svc) \<leftarrow> CreateOrUpdate (serviceC cl) (sd_service d) (svcMutate cl yp d);
     ret (err, svc) }"

section \<open>The address\<close>

definition ServiceAddressTimeout :: duration where "ServiceAddressTimeout = 15 * second"

text \<open>The address the status had and the one it gets.\<close>

definition updateStatusAddress :: "string option \<Rightarrow> string option \<Rightarrow> string option kube" where
  "updateStatusAddress old address = do {
     (if (old = None \<or> address \<noteq> None \<and> old \<noteq> address) \<and> address \<noteq> None
      then eventf EventNormal EvRSvcAddress else ret ());
     ret address }"

definition publishSvcAddress :: "cluster \<Rightarrow> string option \<Rightarrow> service \<Rightarrow> (bool \<times> string option) kube" where
  "publishSvcAddress cl old svc =
     (let address = GetServiceAddress svc in
      if address = [] then do {
        a \<leftarrow> updateStatusAddress old None;
        t \<leftarrow> now cl;
        (if om_creationTimestamp svc + ServiceAddressTimeout < t then eventf EventWarning EvRSvcNoAddress else ret ());
        ret (False, a) }
      else do {
        a \<leftarrow> updateStatusAddress old (Some address);
        ret (True, a) })"

definition serviceAndAddress ::
  "cluster \<Rightarrow> rsyncPort \<Rightarrow> rsyncSvcDescription \<Rightarrow> string option \<Rightarrow> ((bool \<times> gerror option) \<times> string option) kube" where
  "serviceAndAddress cl yp d old = do {
     (err, svc) \<leftarrow> svcReconcile cl yp d;
     case err of
       Some e \<Rightarrow> ret ((False, Some e), old)
     | None \<Rightarrow> do {
         (cont, a) \<leftarrow> publishSvcAddress cl old svc;
         ret ((cont, None), a) } }"

section \<open>The job\<close>

definition devicePath :: string where "devicePath = ''/dev/block''"

definition emptyDirInMemory :: volumesource where
  "emptyDirInMemory = noVolumeSource\<lparr>vs_emptyDir := Some (''Memory'', None)\<rparr>"

text \<open>A block volume is a device of the container, not a mount.\<close>

definition rsyncContainer ::
  "string \<Rightarrow> envvar list \<Rightarrow> string \<Rightarrow> string \<Rightarrow> secctx \<Rightarrow> pvc \<Rightarrow> volumemount list \<Rightarrow> container" where
  "rsyncContainer name env script img ctx dataPVC mounts =
     (let block = PvcIsBlockMode dataPVC in
      \<lparr>ct_name = name, ct_env = env, ct_envFrom = [], ct_command = [''/bin/bash'', ''-c'', script], ct_args = [],
        ct_image = img, ct_imagePullPolicy = [], ct_securityContext = Some ctx,
        ct_volumeMounts = (if block then [] else [mountAt dataVolumeName mountPath]) @ mounts,
        ct_resources = noResources,
        ct_volumeDevices = (if block then [(dataVolumeName, devicePath)] else []), ct_ports = []\<rparr>)"

definition rsyncVolumes :: "bool \<Rightarrow> pvc \<Rightarrow> string \<Rightarrow> volume list" where
  "rsyncVolumes isSource dataPVC secretName =
     [\<lparr>vol_name = dataVolumeName, vol_source = noVolumeSource\<lparr>vs_pvc :=
         Some (om_name dataPVC, isSource \<and> PvcIsReadOnly dataPVC)\<rparr>\<rparr>,
      \<lparr>vol_name = ''keys'', vol_source = noVolumeSource\<lparr>vs_secret := Some \<lparr>sv_secretName = secretName,
         sv_items = [], sv_defaultMode = Some 384\<rparr>\<rparr>\<rparr>]"

definition rsyncOutcome ::
  "cluster \<Rightarrow> lineFilter \<Rightarrow> lineFilter \<Rightarrow> moverStatus \<Rightarrow> opResult \<Rightarrow> gerror option \<Rightarrow> job \<Rightarrow>
   ((job option \<times> gerror option) go \<times> moverStatus) kube" where
  "rsyncOutcome cl failFilter successFilter st op err j =
     (case job_backoffLimit j of
        None \<Rightarrow> ret (Panic, st)
      | Some limit \<Rightarrow>
          if job_failed j \<ge> limit then do {
            st1 \<leftarrow> UpdateMoverStatusForFailedJob cl st (om_name j) (om_namespace j) (Some failFilter);
            eventf EventWarning EvRTransferFailed;
            derr \<leftarrow> kDelete (jobC cl) j None;
            ret (Ret (None, derr), st1) }
          else (case err of
            Some e \<Rightarrow> ret (Ret (None, Some e), st)
          | None \<Rightarrow> do {
              (if op = OperationResultCreated then eventf EventNormal EvRTransferStarted else ret ());
              if job_succeeded j = 0 then ret (Ret (None, None), st)
              else do {
                st1 \<leftarrow> UpdateMoverStatusForSuccessfulJob cl st (om_name j) (om_namespace j) (Some successFilter);
                ret (Ret (Some j, None), st1) } }))"

section \<open>The volume handler of a destination\<close>

text \<open>The mode of the volume may be set, so that a block device can be received.\<close>

definition destinationVH :: "objmeta \<Rightarrow> volumeOptions \<Rightarrow> volumeMode option \<Rightarrow> gerror + volumehandler" where
  "destinationVH owner opts mode =
     NewVolumeHandler [WithClient, WithRecorder, WithOwner owner, FromVolumeOptions opts, VolumeMode mode]"

section \<open>What they do to the cluster\<close>

lemma vh_owner_built:
  "moverVH owner opts = Inr vh \<Longrightarrow> vhOwner vh = owner"
  "destinationVH owner opts mode = Inr vh \<Longrightarrow> vhOwner vh = owner"
  by (auto simp: moverVH_def destinationVH_def NewVolumeHandler_def vhOwner_def emptyVH_def Let_def split: if_splits)

lemma controllerRef_documentedD:
  assumes "controllerRef_documented cl" "setControllerReference cl owner refs = Inr refs'"
  shows "\<exists>r \<in> set refs'. or_uid r = om_uid owner \<and> or_controller r"
  using assms(1)[unfolded controllerRef_documented_def, THEN spec[of _ owner], THEN spec[of _ refs]] assms(2) by simp

lemma svcMutate_owned:
  "svcMutate cl yp d svc = (case takeOwnership cl (emptyVH\<lparr>vh_owner := Some (sd_owner d)\<rparr>) False svc of
     Inl err \<Rightarrow> ret (Some err, svc)
   | Inr s \<Rightarrow> ret (None, s\<lparr>om_annotations := updateAnnotationsOrDefault (om_annotations s) (sd_annotations d),
       svc_type := orElse (sd_type d) ClusterIP, svc_selector := sd_selector d,
       svc_ports := [svcPort yp d (orElse (sd_type d) ClusterIP) (svc_ports s)]\<rparr>))"
  by (simp add: svcMutate_def takeOwnership_def vhOwner_def Let_def split: sum.splits)

lemma emits_svcReconcile:
  assumes "libs_documented cl" "cou_documented (serviceC cl)" "sd_owner d = owner"
  shows "emits (sync_ok cl owner privileged good) (svcReconcile cl yp d) (\<lambda>_. True)"
proof -
  have "emits (sync_ok cl owner privileged good) (CreateOrUpdate (serviceC cl) (sd_service d) (svcMutate cl yp d)) (\<lambda>_. True)"
    by (rule emits_owned_cou[OF assms(2) libs_documentedD(6)[OF assms(1)], OF svcMutate_owned])
      (auto simp: vhOwner_def assms(3) mine_def IsOwnedByVolsync_def ml.has_label_value_iff)
  then show ?thesis
    unfolding svcReconcile_def by (rule emits_bind) (auto intro!: emits_rules)
qed

lemma emits_publishSvcAddress:
  "emits (sync_ok cl owner privileged good) (publishSvcAddress cl old svc)
     (\<lambda>(cont, a). a = (if cont then Some (GetServiceAddress svc) else None) \<and> (cont \<longleftrightarrow> GetServiceAddress svc \<noteq> []))"
proof -
  have "emits (sync_ok cl owner privileged good) (updateStatusAddress old address) (\<lambda>a. a = address)" for address
    unfolding updateStatusAddress_def by (rule emits_step) (auto intro!: emits_rules)
  note upd = emits_bind[OF this]
  show ?thesis
    unfolding publishSvcAddress_def Let_def
    by (auto intro!: emits_rules upd emits_step[of _ "now _"] emits_step[of _ "eventf _ _"] emits_step[of _ "ret _"])
qed

lemma emits_serviceAndAddress:
  assumes "libs_documented cl" "cou_documented (serviceC cl)" "sd_owner d = owner"
  shows "emits (sync_ok cl owner privileged good) (serviceAndAddress cl yp d old)
    (\<lambda>((cont, err), a). cont \<longrightarrow> err = None \<and> a \<noteq> None \<and> a \<noteq> Some [])"
  unfolding serviceAndAddress_def
  by (rule emits_step[OF emits_svcReconcile[OF assms]])
    (auto intro!: emits_rules emits_bind[OF emits_publishSvcAddress])

lemma emits_rsyncOutcome:
  "emits (sync_ok cl owner privileged good) (rsyncOutcome cl ff sf st op err j)
     (\<lambda>(r, st'). \<forall>j' e. r = Ret (Some j', e) \<longrightarrow> j' = j \<and> err = None \<and> e = None \<and> job_succeeded j \<noteq> 0 \<and>
        ms_result st' = MoverResultSuccessful)"
proof -
  have "emits (sync_ok cl owner privileged good) (UpdateMoverStatusForFailedJob cl st n ns f) (\<lambda>_. True)" for n ns f
    unfolding UpdateMoverStatusForFailedJob_def
    by (rule emits_weaken[OF emits_updateMoverStatusForJob]) (auto intro: no_write_sync_ok dest: log_reads_no_write)
  note failed = emits_step[OF this]
  show ?thesis
    unfolding rsyncOutcome_def
    by (auto intro!: emits_rules failed emits_bind[OF emits_successStatus] emits_step[of _ "eventf _ _"]
        emits_step[of _ "kDelete _ _ _"] emits_step[of _ "ret _"] split: option.splits)
qed

end
