(* ===== verification/RsyncTLS_Mover.thy ===== *)
theory RsyncTLS_Mover
  imports Rsync_Common
begin

text \<open>
  The rsync-TLS mover: \<open>mover/rsynctls/mover.go\<close>, \<open>builder.go\<close> and \<open>rsync_common.go\<close>. A destination offers a
  service and waits until it has an address; both sides have a secret with a pre-shared key, made
  once from random bytes unless the user gives one; then a job runs on the data volume. The status of
  the side a mover is not on is a nil pointer in the code and never read.
\<close>

record rsyncTLSMover =
  tm_owner :: objmeta
  tm_vh :: volumehandler
  tm_saHandler :: saHandler
  tm_containerImage :: string
  tm_key :: "string option"
  tm_serviceType :: "serviceType option"
  tm_serviceAnnotations :: "strmap option"
  tm_address :: "string option"
  tm_port :: "int option"
  tm_isSource :: bool
  tm_paused :: bool
  tm_mainPVCName :: "string option"
  tm_privileged :: bool
  tm_latestMoverStatus :: moverStatus
  tm_moverConfig :: moverConfig
  tm_sourceStatus :: rsRsyncTLSStatus
  tm_destStatus :: rdRsyncTLSStatus
  tm_cleanupTempPVC :: bool

definition tlsContainerPort :: int where "tlsContainerPort = 8000"
definition volSyncRsyncTLSPrefix :: string where "volSyncRsyncTLSPrefix = VolSyncPrefix @ ''rsync-tls-''"

definition tlsPort :: rsyncPort where
  "tlsPort = \<lparr>yp_name = ''rsync-tls'', yp_default = 8000, yp_target = tlsContainerPort\<rparr>"

definition tlsCapabilities :: "string list" where
  "tlsCapabilities = [''DAC_OVERRIDE'', ''CHOWN'', ''FOWNER'', ''SETGID'']"

section \<open>The service\<close>

definition tlsServiceSelector :: "rsyncTLSMover \<Rightarrow> strmap" where
  "tlsServiceSelector m = [
     (''app.kubernetes.io/name'', GetOwnerNameLabelValue (moverDir (tm_isSource m) @ ''-'') (om_name (tm_owner m))),
     (''app.kubernetes.io/component'', ''rsync-tls-mover''),
     (''app.kubernetes.io/part-of'', ''volsync'')]"

definition tlsService :: "rsyncTLSMover \<Rightarrow> rsyncSvcDescription" where
  "tlsService m = \<lparr>
     sd_service = newService (om_namespace (tm_owner m))
       (GetServiceName (volSyncRsyncTLSPrefix @ moverDir (tm_isSource m) @ ''-'') (om_name (tm_owner m))),
     sd_owner = tm_owner m, sd_type = tm_serviceType m, sd_selector = tlsServiceSelector m,
     sd_port = tm_port m, sd_annotations = tm_serviceAnnotations m\<rparr>"

definition tlsEnsureServiceAndPublishAddress ::
  "cluster \<Rightarrow> rsyncTLSMover \<Rightarrow> ((bool \<times> gerror option) \<times> rsyncTLSMover) kube" where
  "tlsEnsureServiceAndPublishAddress cl m =
     (if tm_address m \<noteq> None \<or> tm_isSource m then ret ((True, None), m)
      else do {
        (r, a) \<leftarrow> serviceAndAddress cl tlsPort (tlsService m) (dts_address (tm_destStatus m));
        ret (r, m\<lparr>tm_destStatus := (tm_destStatus m)\<lparr>dts_address := a\<rparr>\<rparr>) })"

section \<open>The key\<close>

definition hex_EncodeToString :: "string \<Rightarrow> string" where
  "hex_EncodeToString bs = concat (map (\<lambda>c. [hexDigit (of_char c div 16), hexDigit (of_char c mod 16)]) bs)"

definition pskName :: "rsyncTLSMover \<Rightarrow> string" where
  "pskName m = volSyncRsyncTLSPrefix @ om_name (tm_owner m)"

definition newPSK :: "rsyncTLSMover \<Rightarrow> string \<Rightarrow> ownerref list \<Rightarrow> secret" where
  "newPSK m keyData refs = snd (SetOwnedByVolSync meta_ops ((newSecret (om_namespace (tm_owner m)) (pskName m))\<lparr>
     sec_stringData := [(''psk.txt'', ''volsync:'' @ hex_EncodeToString keyData)], om_ownerRefs := refs\<rparr>))"

definition createPSK :: "cluster \<Rightarrow> rsyncTLSMover \<Rightarrow> (gerror + secret) kube" where
  "createPSK cl m = do {
     r \<leftarrow> ask (\<lambda>tr. randRead cl tr 64) (CRandom 64);
     case r of
       Inl err \<Rightarrow> ret (Inl err)
     | Inr keyData \<Rightarrow>
         (case setControllerReference cl (tm_owner m) [] of
            Inl err \<Rightarrow> ret (Inl err)
          | Inr refs \<Rightarrow> kCreate (secretC cl) (newPSK m keyData refs)) }"

definition updateStatusPSK :: "string \<Rightarrow> rsyncTLSMover \<Rightarrow> rsyncTLSMover" where
  "updateStatusPSK name m =
     (if tm_isSource m then m\<lparr>tm_sourceStatus := (tm_sourceStatus m)\<lparr>rts_keySecret := Some name\<rparr>\<rparr>
      else m\<lparr>tm_destStatus := (tm_destStatus m)\<lparr>dts_keySecret := Some name\<rparr>\<rparr>)"

definition tlsEnsureSecrets :: "cluster \<Rightarrow> rsyncTLSMover \<Rightarrow> ((gerror + string) \<times> rsyncTLSMover) kube" where
  "tlsEnsureSecrets cl m =
     (case tm_key m of
        Some key \<Rightarrow> do {
          r \<leftarrow> GetAndValidateSecret cl (om_namespace (tm_owner m), key) [''psk.txt''];
          ret (case r of Inl err \<Rightarrow> Inl err | Inr _ \<Rightarrow> Inr key, m) }
      | None \<Rightarrow> do {
          g \<leftarrow> kGet (secretC cl) (om_namespace (tm_owner m), pskName m);
          s \<leftarrow> (case g of
                 Inr s \<Rightarrow> ret (Inr s)
               | Inl err \<Rightarrow> if isNotFound err then createPSK cl m else ret (Inl err));
          ret (case s of
            Inl err \<Rightarrow> (Inl err, m)
          | Inr secret \<Rightarrow> (Inr (om_name secret), updateStatusPSK (om_name secret) m)) })"

section \<open>The job\<close>

definition tlsEnv :: "rsyncTLSMover \<Rightarrow> envvar list" where
  "tlsEnv m =
     (if tm_isSource m then
        (case tm_address m of Some a \<Rightarrow> [envVal ''DESTINATION_ADDRESS'' a] | None \<Rightarrow> []) @
        (case tm_port m of Some p \<Rightarrow> [envVal ''DESTINATION_PORT'' (itoa p)] | None \<Rightarrow> [])
      else [])"

definition tlsFill ::
  "rsyncTLSMover \<Rightarrow> pvc \<Rightarrow> serviceaccount \<Rightarrow> string \<Rightarrow> podtemplate \<Rightarrow> podtemplate kube" where
  "tlsFill m dataPVC sa secretName t = ret (t\<lparr>
     pt_containers := [rsyncContainer ''rsync-tls'' (tlsEnv m)
       (if tm_isSource m then ''/mover-rsync-tls/client.sh'' else ''/mover-rsync-tls/server.sh'')
       (tm_containerImage m) moverSecurityContext dataPVC [mountAt ''keys'' ''/keys'', mountAt ''tempdir'' ''/tmp'']],
     pt_restartPolicy := ''Never'',
     pt_serviceAccountName := om_name sa,
     pt_volumes := rsyncVolumes (tm_isSource m) dataPVC secretName @
       [\<lparr>vol_name = ''tempdir'', vol_source = emptyDirInMemory\<rparr>]\<rparr>)"

definition tlsFinish :: "rsyncTLSMover \<Rightarrow> podtemplate \<Rightarrow> podtemplate" where
  "tlsFinish m t = onContainer0 (\<lambda>c. c\<lparr>ct_env := AppendDebugMoverEnvVar (tm_owner m) (ct_env c)\<rparr>)
     (setPrivileges tlsCapabilities (tm_privileged m) t)"

definition tlsMutate ::
  "cluster \<Rightarrow> rsyncTLSMover \<Rightarrow> pvc \<Rightarrow> serviceaccount \<Rightarrow> string \<Rightarrow> job \<Rightarrow> (gerror option \<times> job) kube" where
  "tlsMutate cl m dataPVC sa secretName =
     jobMutate cl (tm_owner m) (tlsServiceSelector m) (tm_paused m) 2 (tm_vh m) dataPVC (tm_moverConfig m)
       (tlsFill m dataPVC sa secretName) id (tlsFinish m)"

definition tlsJobObject :: "rsyncTLSMover \<Rightarrow> job" where
  "tlsJobObject m = newJob (om_namespace (tm_owner m))
     (GetJobName (volSyncRsyncTLSPrefix @ moverDir (tm_isSource m) @ ''-'') (om_name (tm_owner m)))"

definition tlsEnsureJob ::
  "cluster \<Rightarrow> rsyncTLSMover \<Rightarrow> pvc \<Rightarrow> serviceaccount \<Rightarrow> string \<Rightarrow>
   ((job option \<times> gerror option) go \<times> rsyncTLSMover) kube" where
  "tlsEnsureJob cl m dataPVC sa secretName = do {
     (op, err, j) \<leftarrow> CreateOrUpdateDeleteOnImmutableErr (jobC cl) (tlsJobObject m)
        (tlsMutate cl m dataPVC sa secretName);
     (r, st) \<leftarrow> rsyncOutcome cl rsyncTLSLogLineFilterFailure rsyncTLSLogLineFilterSuccess
        (tm_latestMoverStatus m) op err j;
     ret (r, m\<lparr>tm_latestMoverStatus := st\<rparr>) }"

section \<open>Synchronize and Cleanup\<close>

definition tlsRun ::
  "cluster \<Rightarrow> rsyncTLSMover \<Rightarrow> pvc \<Rightarrow> string \<Rightarrow> ((mresult \<times> gerror option) go \<times> rsyncTLSMover) kube" where
  "tlsRun cl m dataPVC secretName = do {
     (sa, serr) \<leftarrow> saReconcile cl (tm_saHandler m);
     case sa of
       None \<Rightarrow> ret (Ret (InProgress, serr), m)
     | Some account \<Rightarrow> if serr \<noteq> None then ret (Ret (InProgress, serr), m) else do {
     verr \<leftarrow> ValidateMoverVolumes cl (om_namespace (tm_owner m)) (mc_volumes (tm_moverConfig m));
     case verr of
       Some err \<Rightarrow> ret (Ret (InProgress, Some err), m)
     | None \<Rightarrow> do {
     (jr, m1) \<leftarrow> tlsEnsureJob cl m dataPVC account secretName;
     (case jr of
        Panic \<Rightarrow> ret (Panic, m1)
      | Ret (j, jerr) \<Rightarrow>
          if j = None \<or> jerr \<noteq> None then ret (Ret (InProgress, jerr), m1)
          else do {
            r \<leftarrow> moverFinish cl (tm_isSource m1) (tm_vh m1) dataPVC;
            ret (Ret r, m1) }) } } }"

definition tlsConnect ::
  "cluster \<Rightarrow> rsyncTLSMover \<Rightarrow> pvc \<Rightarrow> ((mresult \<times> gerror option) go \<times> rsyncTLSMover) kube" where
  "tlsConnect cl m0 dataPVC = do {
     ((cont, err), m) \<leftarrow> tlsEnsureServiceAndPublishAddress cl m0;
     if \<not> cont \<or> err \<noteq> None then ret (Ret (InProgress, err), m)
     else do {
       (s, m1) \<leftarrow> tlsEnsureSecrets cl m;
       case s of
         Inl e \<Rightarrow> ret (Ret (InProgress, Some e), m1)
       | Inr secretName \<Rightarrow> tlsRun cl m1 dataPVC secretName } }"

definition tlsSynchronize ::
  "cluster \<Rightarrow> rsyncTLSMover \<Rightarrow> ((mresult \<times> gerror option) go \<times> rsyncTLSMover) kube" where
  "tlsSynchronize cl m0 = do {
     (r, vh, st) \<leftarrow> ensureDataPVC cl ''-dst'' (tm_owner m0) (tm_isSource m0) (tm_mainPVCName m0)
        (tm_cleanupTempPVC m0) (tm_vh m0) (tm_latestMoverStatus m0);
     let m = m0\<lparr>tm_vh := vh, tm_latestMoverStatus := st\<rparr> in
     (case r of
        Panic \<Rightarrow> ret (Panic, m)
      | Ret (None, err) \<Rightarrow> ret (Ret (InProgress, err), m)
      | Ret (Some dataPVC, Some err) \<Rightarrow> ret (Ret (InProgress, Some err), m)
      | Ret (Some dataPVC, None) \<Rightarrow> tlsConnect cl m dataPVC) }"

definition tlsCleanup :: "cluster \<Rightarrow> rsyncTLSMover \<Rightarrow> (mresult \<times> gerror option) kube" where
  "tlsCleanup cl m = moverCleanup cl ''-dst'' (tm_owner m) (tm_isSource m) (tm_mainPVCName m) (tm_vh m)"

section \<open>The builder\<close>

definition rsyncTLSMoverName :: string where "rsyncTLSMoverName = ''rsync-tls''"

definition tlsSource ::
  "cluster \<Rightarrow> string \<Rightarrow> replicationsource \<Rightarrow> rsRsyncTLSSpec \<Rightarrow> bool \<Rightarrow> volumehandler \<Rightarrow> moverStatus \<Rightarrow>
   rsRsyncTLSStatus \<Rightarrow> rsyncTLSMover" where
  "tlsSource cl img source spec privileged vh st sst = \<lparr>
     tm_owner = objmeta.truncate source, tm_vh = vh,
     tm_saHandler = NewSAHandler cl (objmeta.truncate source) True privileged
       (mc_serviceAccount (rt_moverConfig spec)),
     tm_containerImage = img, tm_key = rt_keySecret spec, tm_serviceType = None, tm_serviceAnnotations = None,
     tm_address = rt_address spec, tm_port = rt_port spec, tm_isSource = True, tm_paused = rs_paused source,
     tm_mainPVCName = Some (rs_sourcePVC source), tm_privileged = privileged, tm_latestMoverStatus = st,
     tm_moverConfig = rt_moverConfig spec, tm_sourceStatus = sst, tm_destStatus = emptyRdRsyncTLSStatus,
     tm_cleanupTempPVC = False\<rparr>"

definition tlsDestination ::
  "cluster \<Rightarrow> string \<Rightarrow> replicationdestination \<Rightarrow> rdRsyncTLSSpec \<Rightarrow> bool \<Rightarrow> volumehandler \<Rightarrow> moverStatus \<Rightarrow>
   rdRsyncTLSStatus \<Rightarrow> rsyncTLSMover" where
  "tlsDestination cl img destination spec privileged vh st dst = \<lparr>
     tm_owner = objmeta.truncate destination, tm_vh = vh,
     tm_saHandler = NewSAHandler cl (objmeta.truncate destination) False privileged
       (mc_serviceAccount (dt_moverConfig spec)),
     tm_containerImage = img, tm_key = dt_keySecret spec, tm_serviceType = dt_serviceType spec,
     tm_serviceAnnotations = dt_serviceAnnotations spec, tm_address = None, tm_port = None,
     tm_isSource = False, tm_paused = rd_paused destination, tm_mainPVCName = dt_destinationPVC spec,
     tm_privileged = privileged, tm_latestMoverStatus = st, tm_moverConfig = dt_moverConfig spec,
     tm_sourceStatus = \<lparr>rts_keySecret = None\<rparr>, tm_destStatus = dst,
     tm_cleanupTempPVC = dt_cleanupTempPVC spec\<rparr>"

definition rsTLSMover :: "cluster \<Rightarrow> (moverStatus \<Rightarrow> rsRsyncTLSStatus \<Rightarrow> rsyncTLSMover) \<Rightarrow> rsPart mover" where
  "rsTLSMover cl mk =
     (let load = (\<lambda>p. mk (orElse (rp_moverStatus p) emptyMoverStatus)
            (orElse (rp_rsyncTLSStatus p) \<lparr>rts_keySecret = None\<rparr>))
      in \<lparr>mo_Name = rsyncTLSMoverName,
          mo_Synchronize = State (\<lambda>(p, tr). case run_state (tlsSynchronize cl (load p)) tr of
            ((r, m), tr') \<Rightarrow> (r, p\<lparr>rp_moverStatus := map_option (\<lambda>_. tm_latestMoverStatus m) (rp_moverStatus p),
               rp_rsyncTLSStatus := map_option (\<lambda>_. tm_sourceStatus m) (rp_rsyncTLSStatus p)\<rparr>, tr')),
          mo_Cleanup = State (\<lambda>(p, tr). case run_state (tlsCleanup cl (load p)) tr of
            (r, tr') \<Rightarrow> (Ret r, p, tr'))\<rparr>)"

definition rdTLSMover :: "cluster \<Rightarrow> (moverStatus \<Rightarrow> rdRsyncTLSStatus \<Rightarrow> rsyncTLSMover) \<Rightarrow> rdPart mover" where
  "rdTLSMover cl mk =
     (let load = (\<lambda>p. mk (orElse (dp_moverStatus p) emptyMoverStatus)
            (orElse (dp_rsyncTLSStatus p) emptyRdRsyncTLSStatus))
      in \<lparr>mo_Name = rsyncTLSMoverName,
          mo_Synchronize = State (\<lambda>(p, tr). case run_state (tlsSynchronize cl (load p)) tr of
            ((r, m), tr') \<Rightarrow> (r, p\<lparr>dp_moverStatus := map_option (\<lambda>_. tm_latestMoverStatus m) (dp_moverStatus p),
               dp_rsyncTLSStatus := map_option (\<lambda>_. tm_destStatus m) (dp_rsyncTLSStatus p)\<rparr>, tr')),
          mo_Cleanup = State (\<lambda>(p, tr). case run_state (tlsCleanup cl (load p)) tr of
            (r, tr') \<Rightarrow> (Ret r, p, tr'))\<rparr>)"

definition tlsFromSource ::
  "cluster \<Rightarrow> string \<Rightarrow> replicationsource \<Rightarrow> bool \<Rightarrow> rsPart \<Rightarrow> (gerror + rsPart mover option) \<times> rsPart" where
  "tlsFromSource cl img source privileged p =
     (case rs_rsyncTLS source of
        None \<Rightarrow> (Inr None, p)
      | Some spec \<Rightarrow>
          (let p1 = p\<lparr>rp_rsyncTLSStatus := Some (orElse (rp_rsyncTLSStatus p) \<lparr>rts_keySecret = None\<rparr>),
               rp_moverStatus := Some (orElse (rp_moverStatus p) emptyMoverStatus)\<rparr>
           in (case moverVH (objmeta.truncate source) (rt_volumeOptions spec) of
                 Inl err \<Rightarrow> (Inl err, p1)
               | Inr vh \<Rightarrow> (Inr (Some (rsTLSMover cl (tlsSource cl img source spec privileged vh))), p1))))"

definition tlsFromDestination ::
  "cluster \<Rightarrow> string \<Rightarrow> replicationdestination \<Rightarrow> bool \<Rightarrow> rdPart \<Rightarrow> (gerror + rdPart mover option) \<times> rdPart" where
  "tlsFromDestination cl img destination privileged p =
     (case rd_rsyncTLS destination of
        None \<Rightarrow> (Inr None, p)
      | Some spec \<Rightarrow>
          (let p1 = p\<lparr>dp_rsyncTLSStatus := Some (orElse (dp_rsyncTLSStatus p) emptyRdRsyncTLSStatus),
               dp_moverStatus := Some (orElse (dp_moverStatus p) emptyMoverStatus)\<rparr>
           in (case destinationVH (objmeta.truncate destination) (dt_volumeOptions spec) (dt_volumeMode spec) of
                 Inl err \<Rightarrow> (Inl err, p1)
               | Inr vh \<Rightarrow> (Inr (Some (rdTLSMover cl (tlsDestination cl img destination spec privileged vh))), p1))))"

definition tlsBuilder :: "cluster \<Rightarrow> string \<Rightarrow> builder" where
  "tlsBuilder cl img = \<lparr>bl_Name = rsyncTLSMoverName,
     bl_FromSource = tlsFromSource cl img,
     bl_FromDestination = (\<lambda>destination privileged p. ret (tlsFromDestination cl img destination privileged p)),
     bl_VersionInfo = ''Rsync TLS container: '' @ img\<rparr>"

section \<open>The jobs of the rsync-TLS mover\<close>

interpretation tls: job_mover "tlsFill m dataPVC sa secretName" id "tlsFinish m" moverSecurityContext
    "moverContext tlsCapabilities (tm_privileged m)"
  for m dataPVC sa secretName
proof
  show "emits no_write (tlsFill m dataPVC sa secretName t) plain" for t
    unfolding tlsFill_def rsyncContainer_def by (auto intro!: emits_rules simp: runsWith_def Let_def)
  show "plain t \<Longrightarrow> runsWith (moverContext tlsCapabilities (tm_privileged m)) (tlsFinish m t)" for t
    using setPrivileges_runs[of t tlsCapabilities "tm_privileged m"]
    by (auto simp: tlsFinish_def runsWith_def onContainer0_def)
qed simp

definition tls_ok :: "cluster \<Rightarrow> rsyncTLSMover \<Rightarrow> call \<Rightarrow> bool" where
  "tls_ok cl m = sync_ok cl (tm_owner m) (tm_privileged m)
     (good_job (tm_owner m) (tm_paused m) (moverContext tlsCapabilities (tm_privileged m)) 2)"

definition tlsBuilt :: "cluster \<Rightarrow> rsyncTLSMover \<Rightarrow> bool" where
  "tlsBuilt cl m \<longleftrightarrow> vhOwner (tm_vh m) = tm_owner m \<and>
     (\<exists>userSA. tm_saHandler m = NewSAHandler cl (tm_owner m) (tm_isSource m) (tm_privileged m) userSA) \<and>
     (tm_isSource m \<longrightarrow> tm_mainPVCName m \<noteq> None) \<and> (\<not> tm_isSource m \<longrightarrow> tm_address m = None)"

lemma tlsBuilt_built:
  "moverVH (objmeta.truncate source) opts = Inr vh \<Longrightarrow> tlsBuilt cl (tlsSource cl img source spec privileged vh st sst)"
  "destinationVH (objmeta.truncate destination) opts mode = Inr vh \<Longrightarrow>
     tlsBuilt cl (tlsDestination cl img destination dspec privileged vh st dst)"
  by (auto simp: tlsBuilt_def tlsSource_def tlsDestination_def dest: vh_owner_built)

text \<open>The parts of the mover no step of a synchronization changes.\<close>

definition tlsSame :: "rsyncTLSMover \<Rightarrow> rsyncTLSMover \<Rightarrow> bool" where
  "tlsSame m m' \<longleftrightarrow> tm_owner m' = tm_owner m \<and> tm_vh m' = tm_vh m \<and> tm_saHandler m' = tm_saHandler m \<and>
     tm_privileged m' = tm_privileged m \<and> tm_paused m' = tm_paused m \<and> tm_isSource m' = tm_isSource m \<and>
     tm_mainPVCName m' = tm_mainPVCName m \<and> tm_address m' = tm_address m"

lemma tlsSame_built: "tlsSame m m' \<Longrightarrow> tlsBuilt cl m' = tlsBuilt cl m \<and> tls_ok cl m' = tls_ok cl m"
  by (simp add: tlsSame_def tlsBuilt_def tls_ok_def fun_eq_iff)

abbreviation hasAddress :: "rsyncTLSMover \<Rightarrow> bool" where
  "hasAddress m \<equiv> \<exists>a. dts_address (tm_destStatus m) = Some a \<and> a \<noteq> []"

lemma emits_tlsService:
  assumes "libs_documented cl" "cou_documented (serviceC cl)" "tlsBuilt cl m"
  shows "emits (tls_ok cl m) (tlsEnsureServiceAndPublishAddress cl m)
    (\<lambda>((cont, err), m'). tlsSame m m' \<and> (cont \<and> err = None \<longrightarrow> tm_isSource m \<or> hasAddress m'))"
proof -
  have "emits (tls_ok cl m) (serviceAndAddress cl tlsPort (tlsService m) old)
      (\<lambda>((cont, err), a). cont \<longrightarrow> err = None \<and> a \<noteq> None \<and> a \<noteq> Some [])" for old
    unfolding tls_ok_def by (rule emits_serviceAndAddress[OF assms(1,2)]) (simp add: tlsService_def)
  note svc = emits_bind[OF this]
  show ?thesis
    unfolding tlsEnsureServiceAndPublishAddress_def
    by (auto intro!: emits_rules svc simp: tlsSame_def) (use assms(3) in \<open>auto simp: tlsBuilt_def\<close>)
qed

lemma emits_tlsSecrets:
  assumes "libs_documented cl"
  shows "emits (tls_ok cl m) (tlsEnsureSecrets cl m)
    (\<lambda>(_, m'). tlsSame m m' \<and> dts_address (tm_destStatus m') = dts_address (tm_destStatus m))"
proof -
  have read: "no_write c \<Longrightarrow> tls_ok cl m c" for c by (simp add: tls_ok_def no_write_sync_ok)
  have new: "tls_ok cl m (CCreate (OSecret (newPSK m k refs)))" if refs: "setControllerReference cl (tm_owner m) [] = Inr refs" for k refs
    using controllerRef_documentedD[OF libs_documentedD(6)[OF assms] refs]
    by (auto simp: tls_ok_def newPSK_def SetOwnedByVolSync_def AddLabel_meta)
  have create: "emits (tls_ok cl m) (createPSK cl m) (\<lambda>_. True)"
    unfolding createPSK_def
    by (rule emits_step) (auto intro!: emits_ask emits_rules new read[of "CRandom _"] split: sum.splits)
  have user: "emits (tls_ok cl m) (GetAndValidateSecret cl k fs) (\<lambda>_. True)" for k fs
    by (rule emits_weaken[OF emits_validations(1)]) (auto intro: read)
  have psk: "tlsSame m (updateStatusPSK name m)"
      "dts_address (tm_destStatus (updateStatusPSK name m)) = dts_address (tm_destStatus m)" "tlsSame m m" for name
    by (simp_all add: tlsSame_def updateStatusPSK_def)
  show ?thesis
    unfolding tlsEnsureSecrets_def
    by (auto intro!: emits_rules emits_step[OF user] emits_step[of _ "kGet _ _"] emits_step[OF create]
        emits_step[of _ "ret _"] read[of "CGet _ _"] simp: psk split: sum.splits)
qed

lemma emits_tlsEnsureJob:
  assumes "libs_documented cl"
  shows "emits (tls_ok cl m) (tlsEnsureJob cl m data sa name)
    (\<lambda>(r, m'). tlsSame m m' \<and> tm_destStatus m' = tm_destStatus m \<and>
       (\<forall>j e. r = Ret (Some j, e) \<longrightarrow> job_succeeded j \<noteq> 0 \<and>
          ms_result (tm_latestMoverStatus m') = MoverResultSuccessful))"
proof -
  have job: "emits (tls_ok cl m) (CreateOrUpdateDeleteOnImmutableErr (jobC cl) x (tlsMutate cl m data sa name)) (\<lambda>_. True)" for x
    unfolding tlsMutate_def tls_ok_def by (rule tls.ensure_job[OF assms])
  have out: "emits (tls_ok cl m) (rsyncOutcome cl ff sf st op err j)
     (\<lambda>(r, st'). \<forall>j' e. r = Ret (Some j', e) \<longrightarrow> j' = j \<and> err = None \<and> e = None \<and> job_succeeded j \<noteq> 0 \<and>
        ms_result st' = MoverResultSuccessful)" for ff sf st op err j
    unfolding tls_ok_def by (rule emits_rsyncOutcome)
  show ?thesis
    unfolding tlsEnsureJob_def
    by (rule emits_step[OF job]) (auto intro!: emits_rules emits_bind[OF out] simp: tlsSame_def)
qed

lemma emits_tlsRun:
  assumes "libs_documented cl" "tlsBuilt cl m"
  shows "emits (tls_ok cl m) (tlsRun cl m data name)
    (\<lambda>(r, m'). tm_destStatus m' = tm_destStatus m \<and> (\<forall>res err. r = Ret (res, err) \<and> mr_completed res \<longrightarrow>
       err = None \<and> ms_result (tm_latestMoverStatus m') = MoverResultSuccessful))"
proof -
  obtain userSA where sa: "tm_saHandler m = NewSAHandler cl (tm_owner m) (tm_isSource m) (tm_privileged m) userSA"
    and vh: "vhOwner (tm_vh m) = tm_owner m"
    using assms(2) by (auto simp: tlsBuilt_def)
  have s: "emits (tls_ok cl m) (saReconcile cl (tm_saHandler m)) (\<lambda>_. True)"
    unfolding sa tls_ok_def by (rule emits_saReconcile[OF assms(1)])
  have vols: "emits (tls_ok cl m) (ValidateMoverVolumes cl ns mvs) (\<lambda>_. True)" for ns mvs
    unfolding tls_ok_def by (rule emits_reads[OF emits_validations(4)]) auto
  have fin: "emits (tls_ok cl m) (moverFinish cl isSource (tm_vh m) data)
      (\<lambda>(res, err). mr_completed res \<longrightarrow> err = None)" for isSource
    unfolding tls_ok_def by (rule emits_moverFinish[OF assms(1) vh])
  show ?thesis
    unfolding tlsRun_def
    by (auto intro!: emits_rules emits_step[OF s] emits_step[OF vols] emits_bind[OF emits_tlsEnsureJob[OF assms(1)]]
        emits_bind[OF fin] simp: InProgress_def tlsSame_def split: go.splits)
qed

lemma emits_tlsConnect:
  assumes "libs_documented cl" "cou_documented (serviceC cl)" "tlsBuilt cl m"
  shows "emits (tls_ok cl m) (tlsConnect cl m data)
    (\<lambda>(r, m'). \<forall>res err. r = Ret (res, err) \<and> mr_completed res \<longrightarrow> err = None \<and>
       ms_result (tm_latestMoverStatus m') = MoverResultSuccessful \<and> (tm_isSource m \<or> hasAddress m'))"
proof -
  have run: "emits (tls_ok cl m) (tlsRun cl m2 data name)
      (\<lambda>(r, m'). \<forall>res err. r = Ret (res, err) \<and> mr_completed res \<longrightarrow> err = None \<and>
         ms_result (tm_latestMoverStatus m') = MoverResultSuccessful \<and> (tm_isSource m \<or> hasAddress m'))"
    if "tlsSame m m1" "tlsSame m1 m2" "dts_address (tm_destStatus m2) = dts_address (tm_destStatus m1)"
      "tm_isSource m \<or> hasAddress m1" for m1 m2 name
  proof -
    have "tlsSame m m2" using that(1,2) by (simp add: tlsSame_def)
    from tlsSame_built[OF this, of cl] assms(3) have "tlsBuilt cl m2" "tls_ok cl m2 = tls_ok cl m" by simp_all
    with emits_tlsRun[OF assms(1), of m2 data name] have
      "emits (tls_ok cl m) (tlsRun cl m2 data name) (\<lambda>(r, m'). tm_destStatus m' = tm_destStatus m2 \<and>
        (\<forall>res err. r = Ret (res, err) \<and> mr_completed res \<longrightarrow> err = None \<and>
           ms_result (tm_latestMoverStatus m') = MoverResultSuccessful))" by simp
    then show ?thesis by (rule emits_post) (use that(3,4) in auto)
  qed
  have sec: "emits (tls_ok cl m) (tlsEnsureSecrets cl m1)
      (\<lambda>(_, m'). tlsSame m1 m' \<and> dts_address (tm_destStatus m') = dts_address (tm_destStatus m1))"
    if "tlsSame m m1" for m1
    using emits_tlsSecrets[OF assms(1), of m1] tlsSame_built[OF that, of cl] by simp
  show ?thesis
    unfolding tlsConnect_def
  proof (rule emits_bind[OF emits_tlsService[OF assms]], clarify)
    fix cont and err :: "gerror option" and m1
    assume m1: "tlsSame m m1" "cont \<and> err = None \<longrightarrow> tm_isSource m \<or> hasAddress m1"
    show "emits (tls_ok cl m) (if \<not> cont \<or> err \<noteq> None then ret (Ret (InProgress, err), m1)
        else tlsEnsureSecrets cl m1 \<bind> (\<lambda>(s, m1). case s of Inl e \<Rightarrow> ret (Ret (InProgress, Some e), m1)
          | Inr secretName \<Rightarrow> tlsRun cl m1 data secretName))
      (\<lambda>(r, m'). \<forall>res err. r = Ret (res, err) \<and> mr_completed res \<longrightarrow> err = None \<and>
         ms_result (tm_latestMoverStatus m') = MoverResultSuccessful \<and> (tm_isSource m \<or> hasAddress m'))"
    proof (cases "cont \<and> err = None")
      case True
      then have "tm_isSource m \<or> hasAddress m1" using m1(2) by blast
      with True m1(1) show ?thesis
        by (auto intro!: emits_rules emits_bind[OF sec[OF m1(1)]] run[OF m1(1)] simp: InProgress_def split: sum.splits)
    next
      case False
      then show ?thesis by (auto intro!: emits_rules simp: InProgress_def)
    qed
  qed
qed

text \<open>C22: A synchronization of the rsync-TLS mover keeps the contract of the job movers, with the four capabilities a
  privileged one needs: what it creates (service, key and volumes included) belongs to the resource, its jobs
  respect the pause and the privileges. Completion means no error and a mover status that says
  successful, and a destination completes only after its status has published the address of its service.\<close>

theorem tlsSynchronize_safe:
  assumes "libs_documented cl" "cou_documented (serviceC cl)" "tlsBuilt cl m"
  shows "emits (sync_ok cl (tm_owner m) (tm_privileged m)
      (good_job (tm_owner m) (tm_paused m) (moverContext tlsCapabilities (tm_privileged m)) 2)) (tlsSynchronize cl m)
    (\<lambda>(r, m'). \<forall>res err. r = Ret (res, err) \<and> mr_completed res \<longrightarrow> err = None \<and>
       ms_result (tm_latestMoverStatus m') = MoverResultSuccessful \<and>
       (tm_isSource m \<or> (\<exists>a. dts_address (tm_destStatus m') = Some a \<and> a \<noteq> [])))"
proof -
  have vh: "vhOwner (tm_vh m) = tm_owner m" using assms(3) by (simp add: tlsBuilt_def)
  have d: "emits (tls_ok cl m) (ensureDataPVC cl ''-dst'' (tm_owner m) (tm_isSource m) (tm_mainPVCName m)
      (tm_cleanupTempPVC m) (tm_vh m) (tm_latestMoverStatus m)) (\<lambda>(r, vh', st'). vhOwner vh' = tm_owner m)"
    unfolding tls_ok_def by (rule emits_ensureDataPVC[OF assms(1) vh])
  have run: "emits (tls_ok cl m) (tlsConnect cl (m\<lparr>tm_vh := vh', tm_latestMoverStatus := st\<rparr>) p)
      (\<lambda>(r, m'). \<forall>res err. r = Ret (res, err) \<and> mr_completed res \<longrightarrow> err = None \<and>
         ms_result (tm_latestMoverStatus m') = MoverResultSuccessful \<and> (tm_isSource m \<or> hasAddress m'))"
    if "vhOwner vh' = tm_owner m" for vh' st p
  proof -
    let ?m = "m\<lparr>tm_vh := vh', tm_latestMoverStatus := st\<rparr>"
    have "tlsBuilt cl ?m" using assms(3) that by (auto simp: tlsBuilt_def)
    moreover have "tls_ok cl ?m = tls_ok cl m" by (simp add: tls_ok_def)
    ultimately show ?thesis using emits_tlsConnect[OF assms(1,2), of ?m p] by simp
  qed
  have "emits (tls_ok cl m) (tlsSynchronize cl m) (\<lambda>(r, m'). \<forall>res err. r = Ret (res, err) \<and> mr_completed res \<longrightarrow>
      err = None \<and> ms_result (tm_latestMoverStatus m') = MoverResultSuccessful \<and> (tm_isSource m \<or> hasAddress m'))"
    unfolding tlsSynchronize_def
    by (rule emits_bind[OF d])
      (auto intro!: emits_rules run simp: Let_def InProgress_def split: go.splits option.splits prod.splits)
  then show ?thesis by (simp add: tls_ok_def)
qed

definition sampleTLSMover :: rsyncTLSMover where
  "sampleTLSMover = \<lparr>tm_owner = newMeta ''ns'' ''rd'',
     tm_vh = emptyVH\<lparr>vh_owner := Some (newMeta ''ns'' ''rd''), vh_copyMethod := CopyMethodSnapshot\<rparr>,
     tm_saHandler = NewSAHandler sampleCluster (newMeta ''ns'' ''rd'') False True None,
     tm_containerImage = ''rsync:latest'', tm_key = None, tm_serviceType = Some LoadBalancer,
     tm_serviceAnnotations = None, tm_address = None, tm_port = None, tm_isSource = False, tm_paused = False,
     tm_mainPVCName = Some ''data'', tm_privileged = True, tm_latestMoverStatus = emptyMoverStatus,
     tm_moverConfig = \<lparr>mc_securityContext = None, mc_serviceAccount = None, mc_podLabels = [],
       mc_resources = None, mc_affinity = None, mc_volumes = []\<rparr>,
     tm_sourceStatus = \<lparr>rts_keySecret = None\<rparr>, tm_destStatus = emptyRdRsyncTLSStatus, tm_cleanupTempPVC = False\<rparr>"

lemma sample_serviceC: "cou_documented (serviceC sampleCluster)"
  by (simp add: serviceC_def sampleCluster_def client_id)

theorem tlsSynchronize_safe_witness:
  "\<exists>a new. run_state (tlsSynchronize sampleCluster sampleTLSMover) [] = (a, new @ []) \<and>
     list_all (sync_ok sampleCluster (newMeta ''ns'' ''rd'') True
        (good_job (newMeta ''ns'' ''rd'') False (moverContext tlsCapabilities True) 2)) new"
proof -
  have "tlsBuilt sampleCluster sampleTLSMover"
    by (auto simp: tlsBuilt_def sampleTLSMover_def vhOwner_def)
  from tlsSynchronize_safe[OF sample_libs sample_serviceC this, unfolded emits_def, THEN spec[of _ "[]"]] show ?thesis
    unfolding list_all_iff by (auto simp: sampleTLSMover_def)
qed

section \<open>The key is made once\<close>

lemma hexDigit_inj: "m < 16 \<Longrightarrow> n < 16 \<Longrightarrow> hexDigit m = hexDigit n \<longleftrightarrow> m = n"
proof -
  have "list_all (\<lambda>m. list_all (\<lambda>n. (hexDigit m = hexDigit n) = (m = n)) [0..<16]) [0..<16]" by code_simp
  then show "m < 16 \<Longrightarrow> n < 16 \<Longrightarrow> hexDigit m = hexDigit n \<longleftrightarrow> m = n" by (simp add: list_all_iff)
qed

lemma hex_EncodeToString_inj: "hex_EncodeToString bs = hex_EncodeToString bs' \<longleftrightarrow> bs = bs'"
proof (induction bs arbitrary: bs')
  case (Cons c bs)
  have split: "of_char c div 16 < (16 :: nat)" "of_char c mod 16 < (16 :: nat)" for c :: char
    using nat_of_char_less_256[of c] by (auto simp: less_mult_imp_div_less)
  have byte: "of_char c div 16 = (of_char d div 16 :: nat) \<and> of_char c mod 16 = (of_char d mod 16 :: nat) \<longleftrightarrow> c = d" for d
    by (metis div_mult_mod_eq of_char_eq_iff)
  show ?case
    by (cases bs') (use Cons in \<open>auto simp: hex_EncodeToString_def hexDigit_inj split simp flip: byte\<close>)
qed (auto simp: hex_EncodeToString_def)

lemma length_hex: "length (hex_EncodeToString bs) = 2 * length bs"
  by (induction bs) (simp_all add: hex_EncodeToString_def)

lemma newPSK_data: "sec_stringData (newPSK m k refs) = [(''psk.txt'', ''volsync:'' @ hex_EncodeToString k)]"
  by (simp add: newPSK_def SetOwnedByVolSync_def AddLabel_meta)

text \<open>Without a key of the user, the key is made once and published by name. If the server has the secret of the
  resource, nothing is written; only if it answers that there is none, one is created from 64 random bytes.
  Its key has two characters for each byte, and different bytes give different keys.\<close>

theorem tls_key_made_once:
  assumes "tm_key m = None"
    and "run_state (tlsEnsureSecrets cl m) tr = ((Inr name, m'), new @ tr)"
  shows "(if tm_isSource m then rts_keySecret (tm_sourceStatus m') else dts_keySecret (tm_destStatus m')) = Some name \<and>
    ((\<exists>s. k_get (secretC cl) tr (om_namespace (tm_owner m), pskName m) = Inr s \<and> om_name s = name \<and>
        filter is_write new = []) \<or>
     (\<exists>e k refs. k_get (secretC cl) tr (om_namespace (tm_owner m), pskName m) = Inl e \<and> isNotFound e \<and>
        (\<exists>tr'. randRead cl tr' 64 = Inr k) \<and> filter is_write new = [CCreate (OSecret (newPSK m k refs))] \<and>
        length (hex_EncodeToString k) = 2 * length k)) \<and>
    (sec_stringData (newPSK m k1 refs1) = sec_stringData (newPSK m k2 refs2) \<longleftrightarrow> k1 = k2)"
  using assms unfolding tlsEnsureSecrets_def createPSK_def
  by (auto simp: kube_ops updateStatusPSK_def newPSK_data hex_EncodeToString_inj length_hex split: sum.splits if_splits) blast+

theorem tls_key_made_once_witness:
  "\<exists>refs. filter is_write (snd (run_state (tlsEnsureSecrets sampleCluster sampleTLSMover) [])) =
     [CCreate (OSecret (newPSK sampleTLSMover (replicate 64 (CHR ''x'')) refs))]"
proof -
  let ?m = "tlsEnsureSecrets sampleCluster sampleTLSMover"
  have "\<exists>name m' new. run_state ?m [] = ((Inr name, m'), new @ [])"
    by (simp add: tlsEnsureSecrets_def createPSK_def kube_ops sampleTLSMover_def secretC_def sampleCluster_def client_id
        sampleClient_def withCou_def sampleClient0_def sampleSetControllerReference_def)
  then obtain name m' new where run: "run_state ?m [] = ((Inr name, m'), new @ [])" by blast
  have none: "k_get (secretC sampleCluster) tr k = Inl (StatusError NotFound ''not found'')"
    "randRead sampleCluster tr' n = Inr (replicate n (CHR ''x''))" for tr tr' k n
    by (simp_all add: secretC_def sampleCluster_def client_id sampleClient_def withCou_def sampleClient0_def)
  have "tm_key sampleTLSMover = None" by (simp add: sampleTLSMover_def)
  from tls_key_made_once[OF this run] show ?thesis by (auto simp: run none)
qed

end
