(* ===== verification/Rsync_Mover.thy ===== *)
theory Rsync_Mover
  imports Rsync_Common
begin

text \<open>
  The rsync mover, over SSH: \<open>mover/rsync/mover.go\<close>, \<open>builder.go\<close> and \<open>rsync_common.go\<close>. The side without the
  address of the other offers a service. The SSH keys of both sides are made together and kept in a
  main secret, from which each side gets a secret with its own private key and the public key of the
  other. The job runs as root. A mover is on one side, and its status is that of its side.
\<close>

record rsyncMover =
  ym_owner :: objmeta
  ym_vh :: volumehandler
  ym_saHandler :: saHandler
  ym_containerImage :: string
  ym_sshKeys :: "string option"
  ym_serviceType :: "serviceType option"
  ym_serviceAnnotations :: "strmap option"
  ym_address :: "string option"
  ym_port :: "int option"
  ym_isSource :: bool
  ym_paused :: bool
  ym_mainPVCName :: "string option"
  ym_latestMoverStatus :: moverStatus
  ym_moverConfig :: moverConfig
  ym_status :: rsyncStatus
  ym_cleanupTempPVC :: bool

definition volSyncRsyncPrefix :: string where "volSyncRsyncPrefix = VolSyncPrefix @ ''rsync-''"

definition sshPort :: rsyncPort where
  "sshPort = \<lparr>yp_name = ''ssh'', yp_default = 22, yp_target = 8022\<rparr>"

section \<open>The service\<close>

definition rsyncServiceSelector :: "rsyncMover \<Rightarrow> strmap" where
  "rsyncServiceSelector m = [
     (''app.kubernetes.io/name'', GetOwnerNameLabelValue (moverDir (ym_isSource m) @ ''-'') (om_name (ym_owner m))),
     (''app.kubernetes.io/component'', ''rsync-mover''),
     (''app.kubernetes.io/part-of'', ''volsync'')]"

definition rsyncService :: "rsyncMover \<Rightarrow> rsyncSvcDescription" where
  "rsyncService m = \<lparr>
     sd_service = newService (om_namespace (ym_owner m))
       (GetServiceName (volSyncRsyncPrefix @ moverDir (ym_isSource m) @ ''-'') (om_name (ym_owner m))),
     sd_owner = ym_owner m, sd_type = ym_serviceType m, sd_selector = rsyncServiceSelector m,
     sd_port = ym_port m, sd_annotations = ym_serviceAnnotations m\<rparr>"

definition rsyncEnsureServiceAndPublishAddress ::
  "cluster \<Rightarrow> rsyncMover \<Rightarrow> ((bool \<times> gerror option) \<times> rsyncMover) kube" where
  "rsyncEnsureServiceAndPublishAddress cl m =
     (if ym_address m \<noteq> None then ret ((True, None), m)
      else do {
        (r, a) \<leftarrow> serviceAndAddress cl sshPort (rsyncService m) (rys_address (ym_status m));
        ret (r, m\<lparr>ym_status := (ym_status m)\<lparr>rys_address := a\<rparr>\<rparr>) })"

section \<open>The keys\<close>

record rsyncSSHKeys =
  sk_owner :: objmeta
  sk_main :: secret
  sk_src :: secret
  sk_dest :: secret

definition mainFields :: "string list" where
  "mainFields = [''source'', ''source.pub'', ''destination'', ''destination.pub'']"
definition srcFields :: "string list" where
  "srcFields = [''source'', ''source.pub'', ''destination.pub'']"
definition destFields :: "string list" where
  "destFields = [''destination'', ''destination.pub'', ''source.pub'']"

definition generateKeyPair :: "cluster \<Rightarrow> (gerror + string \<times> string) kube" where
  "generateKeyPair cl = ask (sshKeygen cl) CKeygen"

definition generateMainSecret :: "cluster \<Rightarrow> rsyncSSHKeys \<Rightarrow> (gerror + secret) kube" where
  "generateMainSecret cl k =
     (case setControllerReference cl (sk_owner k) (om_ownerRefs (sk_main k)) of
        Inl err \<Rightarrow> ret (Inl err)
      | Inr refs \<Rightarrow> do {
          s \<leftarrow> generateKeyPair cl;
          case s of
            Inl err \<Rightarrow> ret (Inl err)
          | Inr (priv, pub) \<Rightarrow> do {
              d \<leftarrow> generateKeyPair cl;
              ret (case d of
                Inl err \<Rightarrow> Inl err
              | Inr (dpriv, dpub) \<Rightarrow>
                  Inr ((snd (SetOwnedByVolSync meta_ops ((sk_main k)\<lparr>om_ownerRefs := refs\<rparr>)))\<lparr>sec_data :=
                    Some [(''source'', priv), (''source.pub'', pub), (''destination'', dpriv),
                      (''destination.pub'', dpub)]\<rparr>)) } })"

definition ensureMainSecret :: "cluster \<Rightarrow> rsyncSSHKeys \<Rightarrow> (bool \<times> gerror option \<times> rsyncSSHKeys) kube" where
  "ensureMainSecret cl k = do {
     r \<leftarrow> kGet (secretC cl) (objKey (sk_main k));
     case r of
       Inr found \<Rightarrow>
         if SecretHasFields found mainFields \<noteq> None then do {
           err \<leftarrow> kDelete (secretC cl) found None;
           ret (False, err, k\<lparr>sk_main := found\<rparr>) }
         else ret (True, None, k\<lparr>sk_main := found\<rparr>)
     | Inl err \<Rightarrow>
         if \<not> isNotFound err then ret (False, Some err, k)
         else do {
           g \<leftarrow> generateMainSecret cl k;
           case g of
             Inl e \<Rightarrow> ret (False, Some e, k)
           | Inr s \<Rightarrow> do {
               w \<leftarrow> kCreate (secretC cl) s;
               ret (case w of
                 Inl e \<Rightarrow> (False, Some e, k\<lparr>sk_main := s\<rparr>)
               | Inr s' \<Rightarrow> (False, None, k\<lparr>sk_main := s'\<rparr>)) } } }"

definition keySecretMutate ::
  "cluster \<Rightarrow> rsyncSSHKeys \<Rightarrow> string list \<Rightarrow> secret \<Rightarrow> (gerror option \<times> secret) kube" where
  "keySecretMutate cl k keys s =
     (case setControllerReference cl (sk_owner k) (om_ownerRefs s) of
        Inl err \<Rightarrow> ret (Some err, s)
      | Inr refs \<Rightarrow>
          (let s1 = snd (SetOwnedByVolSync meta_ops (s\<lparr>om_ownerRefs := refs\<rparr>)) in
           ret (None, s1\<lparr>sec_data := Some (fold (\<lambda>key. map_put key (map_get (orElse (sec_data (sk_main k)) []) key)) keys
             (orElse (sec_data s1) []))\<rparr>)))"

definition ensureSecret ::
  "cluster \<Rightarrow> rsyncSSHKeys \<Rightarrow> string list \<Rightarrow> secret \<Rightarrow> (gerror option \<times> secret) kube" where
  "ensureSecret cl k keys s = do {
     (_, err, s1) \<leftarrow> CreateOrUpdate (secretC cl) s (keySecretMutate cl k keys);
     ret (err, s1) }"

definition ensureSrcSecret :: "cluster \<Rightarrow> rsyncSSHKeys \<Rightarrow> (bool \<times> gerror option \<times> rsyncSSHKeys) kube" where
  "ensureSrcSecret cl k = do {
     (err, s) \<leftarrow> ensureSecret cl k srcFields (sk_src k);
     ret (True, err, k\<lparr>sk_src := s\<rparr>) }"

definition ensureDestSecret :: "cluster \<Rightarrow> rsyncSSHKeys \<Rightarrow> (bool \<times> gerror option \<times> rsyncSSHKeys) kube" where
  "ensureDestSecret cl k = do {
     (err, s) \<leftarrow> ensureSecret cl k destFields (sk_dest k);
     ret (True, err, k\<lparr>sk_dest := s\<rparr>) }"

definition newSSHKeys :: "objmeta \<Rightarrow> string \<Rightarrow> rsyncSSHKeys" where
  "newSSHKeys owner nameTemplate =
     (let named = (\<lambda>part. newSecret (om_namespace owner) (nameTemplate @ part @ om_name owner)) in
      \<lparr>sk_owner = owner, sk_main = named ''-main-'', sk_src = named ''-src-'', sk_dest = named ''-dest-''\<rparr>)"

definition sshReconcile :: "cluster \<Rightarrow> rsyncSSHKeys \<Rightarrow> (bool \<times> gerror option \<times> rsyncSSHKeys) kube" where
  "sshReconcile cl = ReconcileBatch [ensureMainSecret cl, ensureSrcSecret cl, ensureDestSecret cl]"

definition sshKeysOf :: "rsyncMover \<Rightarrow> rsyncSSHKeys" where
  "sshKeysOf m = newSSHKeys (ym_owner m) (volSyncRsyncPrefix @ moverDir (ym_isSource m))"

definition updateStatusSSHKeys :: "string option \<Rightarrow> rsyncMover \<Rightarrow> rsyncMover" where
  "updateStatusSSHKeys name m = m\<lparr>ym_status := (ym_status m)\<lparr>rys_sshKeys := name\<rparr>\<rparr>"

text \<open>The secret for the job, if there is one yet.\<close>

definition rsyncEnsureSecrets ::
  "cluster \<Rightarrow> rsyncMover \<Rightarrow> ((string option \<times> gerror option) \<times> rsyncMover) kube" where
  "rsyncEnsureSecrets cl m =
     (case ym_sshKeys m of
        Some name \<Rightarrow> do {
          r \<leftarrow> GetAndValidateSecret cl (om_namespace (ym_owner m), name)
             (if ym_isSource m then srcFields else destFields);
          ret (case r of Inl err \<Rightarrow> (None, Some err) | Inr _ \<Rightarrow> (Some name, None), m) }
      | None \<Rightarrow> do {
          (cont, err, k) \<leftarrow> sshReconcile cl (sshKeysOf m);
          if \<not> cont \<or> err \<noteq> None then ret ((None, err), updateStatusSSHKeys None m)
          else if ym_isSource m
          then ret ((Some (om_name (sk_src k)), None), updateStatusSSHKeys (Some (om_name (sk_dest k))) m)
          else ret ((Some (om_name (sk_dest k)), None), updateStatusSSHKeys (Some (om_name (sk_src k))) m) })"

section \<open>The job\<close>

definition sshSecurityContext :: secctx where
  "sshSecurityContext = emptySecurityContext\<lparr>sx_allowPrivilegeEscalation := Some False,
     sx_capabilities := Some \<lparr>cap_add = [''AUDIT_WRITE'', ''CHOWN'', ''DAC_OVERRIDE'', ''FOWNER'', ''SETGID'',
       ''SETUID'', ''SYS_CHROOT''], cap_drop = [''ALL'']\<rparr>, sx_privileged := Some False,
     sx_readOnlyRootFilesystem := Some True, sx_runAsUser := Some 0\<rparr>"

definition rsyncEnv :: "rsyncMover \<Rightarrow> envvar list" where
  "rsyncEnv m = AppendDebugMoverEnvVar (ym_owner m)
     (case (ym_isSource m, ym_address m) of
        (True, Some a) \<Rightarrow> envVal ''DESTINATION_ADDRESS'' a #
          (case ym_port m of Some p \<Rightarrow> [envVal ''DESTINATION_PORT'' (itoa p)] | None \<Rightarrow> [])
      | _ \<Rightarrow> [])"

definition rsyncFill ::
  "rsyncMover \<Rightarrow> pvc \<Rightarrow> serviceaccount \<Rightarrow> string \<Rightarrow> podtemplate \<Rightarrow> podtemplate kube" where
  "rsyncFill m dataPVC sa secretName t = ret (t\<lparr>
     pt_containers := [rsyncContainer ''rsync'' (rsyncEnv m)
       (if ym_isSource m then ''/mover-rsync/source.sh'' else ''/mover-rsync/destination.sh'')
       (ym_containerImage m) sshSecurityContext dataPVC
       [mountAt ''keys'' ''/keys'', mountAt ''tempsshdir'' ''/root/.ssh'', mountAt ''tempdir'' ''/tmp'']],
     pt_restartPolicy := ''Never'',
     pt_serviceAccountName := om_name sa,
     pt_volumes := rsyncVolumes (ym_isSource m) dataPVC secretName @
       [\<lparr>vol_name = ''tempsshdir'', vol_source = emptyDirInMemory\<rparr>,
        \<lparr>vol_name = ''tempdir'', vol_source = emptyDirInMemory\<rparr>]\<rparr>)"

text \<open>This mover mounts no additional volumes and has no privileges to add at the end.\<close>

definition rsyncMutate ::
  "cluster \<Rightarrow> rsyncMover \<Rightarrow> pvc \<Rightarrow> serviceaccount \<Rightarrow> string \<Rightarrow> job \<Rightarrow> (gerror option \<times> job) kube" where
  "rsyncMutate cl m dataPVC sa secretName =
     jobMutate cl (ym_owner m) (rsyncServiceSelector m) (ym_paused m) 2 (ym_vh m) dataPVC
       ((ym_moverConfig m)\<lparr>mc_volumes := []\<rparr>) (rsyncFill m dataPVC sa secretName) id id"

definition rsyncJobObject :: "rsyncMover \<Rightarrow> job" where
  "rsyncJobObject m = newJob (om_namespace (ym_owner m))
     (GetJobName (volSyncRsyncPrefix @ moverDir (ym_isSource m) @ ''-'') (om_name (ym_owner m)))"

definition rsyncEnsureJob ::
  "cluster \<Rightarrow> rsyncMover \<Rightarrow> pvc \<Rightarrow> serviceaccount \<Rightarrow> string \<Rightarrow>
   ((job option \<times> gerror option) go \<times> rsyncMover) kube" where
  "rsyncEnsureJob cl m dataPVC sa secretName = do {
     (op, err, j) \<leftarrow> CreateOrUpdateDeleteOnImmutableErr (jobC cl) (rsyncJobObject m)
        (rsyncMutate cl m dataPVC sa secretName);
     (r, st) \<leftarrow> rsyncOutcome cl AllLines rsyncLogLineFilterSuccess (ym_latestMoverStatus m) op err j;
     ret (r, m\<lparr>ym_latestMoverStatus := st\<rparr>) }"

section \<open>Synchronize and Cleanup\<close>

definition rsyncRun ::
  "cluster \<Rightarrow> rsyncMover \<Rightarrow> pvc \<Rightarrow> string \<Rightarrow> ((mresult \<times> gerror option) go \<times> rsyncMover) kube" where
  "rsyncRun cl m dataPVC secretName = do {
     (sa, serr) \<leftarrow> saReconcile cl (ym_saHandler m);
     case sa of
       None \<Rightarrow> ret (Ret (InProgress, serr), m)
     | Some account \<Rightarrow> if serr \<noteq> None then ret (Ret (InProgress, serr), m) else do {
     (jr, m1) \<leftarrow> rsyncEnsureJob cl m dataPVC account secretName;
     (case jr of
        Panic \<Rightarrow> ret (Panic, m1)
      | Ret (j, jerr) \<Rightarrow>
          if j = None \<or> jerr \<noteq> None then ret (Ret (InProgress, jerr), m1)
          else do {
            r \<leftarrow> moverFinish cl (ym_isSource m1) (ym_vh m1) dataPVC;
            ret (Ret r, m1) }) } }"

definition rsyncConnect ::
  "cluster \<Rightarrow> rsyncMover \<Rightarrow> pvc \<Rightarrow> ((mresult \<times> gerror option) go \<times> rsyncMover) kube" where
  "rsyncConnect cl m0 dataPVC = do {
     ((cont, err), m) \<leftarrow> rsyncEnsureServiceAndPublishAddress cl m0;
     if \<not> cont \<or> err \<noteq> None then ret (Ret (InProgress, err), m)
     else do {
       ((s, serr), m1) \<leftarrow> rsyncEnsureSecrets cl m;
       case s of
         None \<Rightarrow> ret (Ret (InProgress, serr), m1)
       | Some secretName \<Rightarrow>
           if serr \<noteq> None then ret (Ret (InProgress, serr), m1) else rsyncRun cl m1 dataPVC secretName } }"

definition rsyncSynchronize ::
  "cluster \<Rightarrow> rsyncMover \<Rightarrow> ((mresult \<times> gerror option) go \<times> rsyncMover) kube" where
  "rsyncSynchronize cl m0 = do {
     (r, vh, st) \<leftarrow> ensureDataPVC cl ''-dst'' (ym_owner m0) (ym_isSource m0) (ym_mainPVCName m0)
        (ym_cleanupTempPVC m0) (ym_vh m0) (ym_latestMoverStatus m0);
     let m = m0\<lparr>ym_vh := vh, ym_latestMoverStatus := st\<rparr> in
     (case r of
        Panic \<Rightarrow> ret (Panic, m)
      | Ret (None, err) \<Rightarrow> ret (Ret (InProgress, err), m)
      | Ret (Some dataPVC, Some err) \<Rightarrow> ret (Ret (InProgress, Some err), m)
      | Ret (Some dataPVC, None) \<Rightarrow> rsyncConnect cl m dataPVC) }"

definition rsyncCleanup :: "cluster \<Rightarrow> rsyncMover \<Rightarrow> (mresult \<times> gerror option) kube" where
  "rsyncCleanup cl m = moverCleanup cl ''-dst'' (ym_owner m) (ym_isSource m) (ym_mainPVCName m) (ym_vh m)"

section \<open>The builder\<close>

definition rsyncMoverName :: string where "rsyncMoverName = ''rsync''"

definition rsyncMoverConfig :: "strmap \<Rightarrow> resources option \<Rightarrow> moverConfig" where
  "rsyncMoverConfig labels res = \<lparr>mc_securityContext = None, mc_serviceAccount = None, mc_podLabels = labels,
     mc_resources = res, mc_affinity = None, mc_volumes = []\<rparr>"

definition rsyncSource ::
  "cluster \<Rightarrow> string \<Rightarrow> replicationsource \<Rightarrow> rsRsyncSpec \<Rightarrow> volumehandler \<Rightarrow> moverStatus \<Rightarrow> rsyncStatus \<Rightarrow> rsyncMover" where
  "rsyncSource cl img source spec vh st sst = \<lparr>
     ym_owner = objmeta.truncate source, ym_vh = vh,
     ym_saHandler = NewSAHandler cl (objmeta.truncate source) True True (ry_moverServiceAccount spec),
     ym_containerImage = img, ym_sshKeys = ry_sshKeys spec, ym_serviceType = ry_serviceType spec,
     ym_serviceAnnotations = None, ym_address = ry_address spec, ym_port = ry_port spec, ym_isSource = True,
     ym_paused = rs_paused source, ym_mainPVCName = Some (rs_sourcePVC source), ym_latestMoverStatus = st,
     ym_moverConfig = rsyncMoverConfig (ry_moverPodLabels spec) (ry_moverResources spec),
     ym_status = sst, ym_cleanupTempPVC = False\<rparr>"

definition rsyncDestination ::
  "cluster \<Rightarrow> string \<Rightarrow> replicationdestination \<Rightarrow> rdRsyncSpec \<Rightarrow> volumehandler \<Rightarrow> moverStatus \<Rightarrow> rsyncStatus \<Rightarrow> rsyncMover" where
  "rsyncDestination cl img destination spec vh st dst = \<lparr>
     ym_owner = objmeta.truncate destination, ym_vh = vh,
     ym_saHandler = NewSAHandler cl (objmeta.truncate destination) False True (dy_moverServiceAccount spec),
     ym_containerImage = img, ym_sshKeys = dy_sshKeys spec, ym_serviceType = dy_serviceType spec,
     ym_serviceAnnotations = dy_serviceAnnotations spec, ym_address = dy_address spec, ym_port = dy_port spec,
     ym_isSource = False, ym_paused = rd_paused destination, ym_mainPVCName = dy_destinationPVC spec,
     ym_latestMoverStatus = st,
     ym_moverConfig = rsyncMoverConfig (dy_moverPodLabels spec) (dy_moverResources spec),
     ym_status = dst, ym_cleanupTempPVC = dy_cleanupTempPVC spec\<rparr>"

definition rsRsyncMover :: "cluster \<Rightarrow> (moverStatus \<Rightarrow> rsyncStatus \<Rightarrow> rsyncMover) \<Rightarrow> rsPart mover" where
  "rsRsyncMover cl mk =
     (let load = (\<lambda>p. mk (orElse (rp_moverStatus p) emptyMoverStatus) (orElse (rp_rsyncStatus p) emptyRsyncStatus))
      in \<lparr>mo_Name = rsyncMoverName,
          mo_Synchronize = State (\<lambda>(p, tr). case run_state (rsyncSynchronize cl (load p)) tr of
            ((r, m), tr') \<Rightarrow> (r, p\<lparr>rp_moverStatus := map_option (\<lambda>_. ym_latestMoverStatus m) (rp_moverStatus p),
               rp_rsyncStatus := map_option (\<lambda>_. ym_status m) (rp_rsyncStatus p)\<rparr>, tr')),
          mo_Cleanup = State (\<lambda>(p, tr). case run_state (rsyncCleanup cl (load p)) tr of
            (r, tr') \<Rightarrow> (Ret r, p, tr'))\<rparr>)"

definition rdRsyncMover :: "cluster \<Rightarrow> (moverStatus \<Rightarrow> rsyncStatus \<Rightarrow> rsyncMover) \<Rightarrow> rdPart mover" where
  "rdRsyncMover cl mk =
     (let load = (\<lambda>p. mk (orElse (dp_moverStatus p) emptyMoverStatus) (orElse (dp_rsyncStatus p) emptyRsyncStatus))
      in \<lparr>mo_Name = rsyncMoverName,
          mo_Synchronize = State (\<lambda>(p, tr). case run_state (rsyncSynchronize cl (load p)) tr of
            ((r, m), tr') \<Rightarrow> (r, p\<lparr>dp_moverStatus := map_option (\<lambda>_. ym_latestMoverStatus m) (dp_moverStatus p),
               dp_rsyncStatus := map_option (\<lambda>_. ym_status m) (dp_rsyncStatus p)\<rparr>, tr')),
          mo_Cleanup = State (\<lambda>(p, tr). case run_state (rsyncCleanup cl (load p)) tr of
            (r, tr') \<Rightarrow> (Ret r, p, tr'))\<rparr>)"

text \<open>The mover always runs privileged; the argument of the builders is not used.\<close>

definition rsyncFromSource ::
  "cluster \<Rightarrow> string \<Rightarrow> replicationsource \<Rightarrow> bool \<Rightarrow> rsPart \<Rightarrow> (gerror + rsPart mover option) \<times> rsPart" where
  "rsyncFromSource cl img source _ p =
     (case rs_rsync source of
        None \<Rightarrow> (Inr None, p)
      | Some spec \<Rightarrow>
          (let p1 = p\<lparr>rp_rsyncStatus := Some (orElse (rp_rsyncStatus p) emptyRsyncStatus),
               rp_moverStatus := Some (orElse (rp_moverStatus p) emptyMoverStatus)\<rparr>
           in (case moverVH (objmeta.truncate source) (ry_volumeOptions spec) of
                 Inl err \<Rightarrow> (Inl err, p1)
               | Inr vh \<Rightarrow> (Inr (Some (rsRsyncMover cl (rsyncSource cl img source spec vh))), p1))))"

definition rsyncFromDestination ::
  "cluster \<Rightarrow> string \<Rightarrow> replicationdestination \<Rightarrow> bool \<Rightarrow> rdPart \<Rightarrow> (gerror + rdPart mover option) \<times> rdPart" where
  "rsyncFromDestination cl img destination _ p =
     (case rd_rsync destination of
        None \<Rightarrow> (Inr None, p)
      | Some spec \<Rightarrow>
          (let p1 = p\<lparr>dp_rsyncStatus := Some (orElse (dp_rsyncStatus p) emptyRsyncStatus),
               dp_moverStatus := Some (orElse (dp_moverStatus p) emptyMoverStatus)\<rparr>
           in (case destinationVH (objmeta.truncate destination) (dy_volumeOptions spec) (dy_volumeMode spec) of
                 Inl err \<Rightarrow> (Inl err, p1)
               | Inr vh \<Rightarrow> (Inr (Some (rdRsyncMover cl (rsyncDestination cl img destination spec vh))), p1))))"

definition rsyncBuilder :: "cluster \<Rightarrow> string \<Rightarrow> builder" where
  "rsyncBuilder cl img = \<lparr>bl_Name = rsyncMoverName,
     bl_FromSource = rsyncFromSource cl img,
     bl_FromDestination = (\<lambda>destination privileged p. ret (rsyncFromDestination cl img destination privileged p)),
     bl_VersionInfo = ''Rsync container: '' @ img\<rparr>"

section \<open>The jobs of the rsync mover\<close>

interpretation ssh: job_mover "rsyncFill m dataPVC sa secretName" id id sshSecurityContext sshSecurityContext
  for m dataPVC sa secretName
proof
  show "emits no_write (rsyncFill m dataPVC sa secretName t) (runsWith sshSecurityContext)" for t
    unfolding rsyncFill_def rsyncContainer_def by (auto intro!: emits_rules simp: runsWith_def Let_def)
qed simp_all

text \<open>
  What a synchronization may do: what a privileged job mover may, and delete a main secret that lacks some
  of its keys.
\<close>

definition rsync_ok :: "cluster \<Rightarrow> rsyncMover \<Rightarrow> call \<Rightarrow> bool" where
  "rsync_ok cl m c \<longleftrightarrow> sync_ok cl (ym_owner m) True (good_job (ym_owner m) (ym_paused m) sshSecurityContext 2) c \<or>
     (\<exists>s. c = CDelete (OSecret s) None \<and> objKey s = objKey (sk_main (sshKeysOf m)) \<and> SecretHasFields s mainFields \<noteq> None)"

definition rsyncBuilt :: "cluster \<Rightarrow> rsyncMover \<Rightarrow> bool" where
  "rsyncBuilt cl m \<longleftrightarrow> vhOwner (ym_vh m) = ym_owner m \<and>
     (\<exists>userSA. ym_saHandler m = NewSAHandler cl (ym_owner m) (ym_isSource m) True userSA)"

lemma rsyncBuilt_built:
  "moverVH (objmeta.truncate source) opts = Inr vh \<Longrightarrow> rsyncBuilt cl (rsyncSource cl img source spec vh st sst)"
  "destinationVH (objmeta.truncate destination) opts mode = Inr vh \<Longrightarrow>
     rsyncBuilt cl (rsyncDestination cl img destination dspec vh st dst)"
  by (auto simp: rsyncBuilt_def rsyncSource_def rsyncDestination_def dest: vh_owner_built)

definition rsyncSame :: "rsyncMover \<Rightarrow> rsyncMover \<Rightarrow> bool" where
  "rsyncSame m m' \<longleftrightarrow> ym_owner m' = ym_owner m \<and> ym_vh m' = ym_vh m \<and> ym_saHandler m' = ym_saHandler m \<and>
     ym_paused m' = ym_paused m \<and> ym_isSource m' = ym_isSource m \<and> ym_address m' = ym_address m"

lemma rsyncSame_built: "rsyncSame m m' \<Longrightarrow> rsyncBuilt cl m' = rsyncBuilt cl m \<and> rsync_ok cl m' = rsync_ok cl m"
  by (simp add: rsyncSame_def rsyncBuilt_def rsync_ok_def sshKeysOf_def fun_eq_iff)

lemma rsync_ok_sync:
  "emits (sync_ok cl (ym_owner m) True (good_job (ym_owner m) (ym_paused m) sshSecurityContext 2)) k Q \<Longrightarrow>
   emits (rsync_ok cl m) k Q"
  by (erule emits_weaken) (auto simp: rsync_ok_def)

lemma rsync_ok_read: "no_write c \<Longrightarrow> rsync_ok cl m c"
  by (simp add: rsync_ok_def no_write_sync_ok)

abbreviation addressKnown :: "rsyncMover \<Rightarrow> bool" where
  "addressKnown m \<equiv> ym_address m \<noteq> None \<or> (\<exists>a. rys_address (ym_status m) = Some a \<and> a \<noteq> [])"

lemma emits_rsyncService:
  assumes "libs_documented cl" "cou_documented (serviceC cl)"
  shows "emits (rsync_ok cl m) (rsyncEnsureServiceAndPublishAddress cl m)
    (\<lambda>((cont, err), m'). rsyncSame m m' \<and> (cont \<and> err = None \<longrightarrow> addressKnown m'))"
proof -
  have "emits (rsync_ok cl m) (serviceAndAddress cl sshPort (rsyncService m) old)
      (\<lambda>((cont, err), a). cont \<longrightarrow> err = None \<and> a \<noteq> None \<and> a \<noteq> Some [])" for old
    by (rule rsync_ok_sync, rule emits_serviceAndAddress[OF assms]) (simp add: rsyncService_def)
  note svc = emits_bind[OF this]
  show ?thesis
    unfolding rsyncEnsureServiceAndPublishAddress_def
    by (auto intro!: emits_rules svc simp: rsyncSame_def)
qed

lemma owned_secret:
  assumes "libs_documented cl" "setControllerReference cl (ym_owner m) refs = Inr (om_ownerRefs s)"
  shows "rsync_ok cl m (CCreate (OSecret s))" "rsync_ok cl m (CUpdate (OSecret s))"
  using controllerRef_documentedD[OF libs_documentedD(6)[OF assms(1)] assms(2)] by (auto simp: rsync_ok_def)

lemma refs_SetOwnedByVolSync [simp]: "om_ownerRefs (snd (SetOwnedByVolSync meta_ops x)) = om_ownerRefs x"
  by (simp add: SetOwnedByVolSync_def AddLabel_meta)

lemma emits_ensureSecret:
  assumes "libs_documented cl" "sk_owner k = ym_owner m"
  shows "emits (rsync_ok cl m) (ensureSecret cl k keys s) (\<lambda>_. True)"
proof -
  have doc: "cou_documented (secretC cl)" using libs_documentedD(1)[OF assms(1)] by (simp add: sa_documented_def)
  have "emits (rsync_ok cl m) (keySecretMutate cl k keys y) (\<lambda>(err, s'). err = None \<longrightarrow>
      rsync_ok cl m (CCreate (OSecret s')) \<and> rsync_ok cl m (CUpdate (OSecret s')))" for y
    unfolding keySecretMutate_def Let_def assms(2)
    by (rule emits_case_sum) (auto intro!: emits_rules intro: owned_secret[OF assms(1)])
  then have "emits (rsync_ok cl m) (CreateOrUpdate (secretC cl) s (keySecretMutate cl k keys)) (\<lambda>_. True)"
    by (intro emits_CreateOrUpdate[OF doc]) (auto intro: rsync_ok_read)
  then show ?thesis
    unfolding ensureSecret_def by (intro emits_step) (auto intro!: emits_rules)
qed

lemma emits_ensureMainSecret:
  assumes "libs_documented cl" "get_documented (secretC cl)" "sk_owner k = ym_owner m"
    and "objKey (sk_main k) = objKey (sk_main (sshKeysOf m))"
  shows "emits (rsync_ok cl m) (ensureMainSecret cl k) (\<lambda>(cont, err, k'). sk_owner k' = ym_owner m)"
proof -
  let ?key = "objKey (sk_main (sshKeysOf m))"
  have get: "emits (rsync_ok cl m) (kGet (secretC cl) ?key) (\<lambda>r. \<forall>s. r = Inr s \<longrightarrow> objKey s = ?key)"
    using assms(2)[unfolded get_documented_def, THEN spec, THEN spec[of _ ?key]]
    by (intro emits_kGet_answer) (auto intro: rsync_ok_read)
  have del: "rsync_ok cl m (CDelete (OSecret s) None)" if "objKey s = ?key" "SecretHasFields s mainFields \<noteq> None" for s
    using that by (auto simp: rsync_ok_def)
  have "emits (rsync_ok cl m) (generateKeyPair cl) (\<lambda>_. True)"
    unfolding generateKeyPair_def by (rule emits_ask) (auto intro: rsync_ok_read)
  note pair = emits_step[OF this]
  have gen: "emits (rsync_ok cl m) (generateMainSecret cl k) (\<lambda>r. \<forall>s. r = Inr s \<longrightarrow> rsync_ok cl m (CCreate (OSecret s)))"
    unfolding generateMainSecret_def assms(3)
    by (auto intro!: emits_rules pair owned_secret[OF assms(1)] split: sum.splits)
  show ?thesis
    unfolding ensureMainSecret_def assms(4)
    by (rule emits_bind[OF get])
      (auto intro!: emits_rules emits_bind[OF gen] emits_step[of _ "kDelete _ _ _"] emits_step[of _ "kCreate _ _"] del
        simp: assms(3) split: sum.splits)
qed

lemma emits_sshReconcile:
  assumes "libs_documented cl" "get_documented (secretC cl)"
  shows "emits (rsync_ok cl m) (sshReconcile cl (sshKeysOf m)) (\<lambda>_. True)"
proof -
  have owner: "sk_owner (sshKeysOf m) = ym_owner m" by (simp add: sshKeysOf_def newSSHKeys_def Let_def)
  note main = emits_ensureMainSecret[OF assms owner refl]
  have other: "emits (rsync_ok cl m) (ensureSrcSecret cl k) (\<lambda>(cont, err, k'). sk_owner k' = ym_owner m)"
    "emits (rsync_ok cl m) (ensureDestSecret cl k) (\<lambda>(cont, err, k'). sk_owner k' = ym_owner m)"
    if "sk_owner k = ym_owner m" for k
    unfolding ensureSrcSecret_def ensureDestSecret_def
    by (rule emits_step[OF emits_ensureSecret[OF assms(1) that]], use that in \<open>auto intro!: emits_rules\<close>)+
  show ?thesis
    unfolding sshReconcile_def ReconcileBatch.simps
    by (rule emits_bind[OF main])
      (auto intro!: emits_rules emits_bind[OF other(1)] emits_bind[OF other(2)])
qed

lemma emits_rsyncSecrets:
  assumes "libs_documented cl" "get_documented (secretC cl)"
  shows "emits (rsync_ok cl m) (rsyncEnsureSecrets cl m)
    (\<lambda>(_, m'). rsyncSame m m' \<and> rys_address (ym_status m') = rys_address (ym_status m))"
proof -
  have user: "emits (rsync_ok cl m) (GetAndValidateSecret cl k fs) (\<lambda>_. True)" for k fs
    by (rule emits_weaken[OF emits_validations(1)]) (auto intro: rsync_ok_read)
  have same: "rsyncSame m (updateStatusSSHKeys name m)" "rsyncSame m m"
    "rys_address (ym_status (updateStatusSSHKeys name m)) = rys_address (ym_status m)" for name
    by (simp_all add: rsyncSame_def updateStatusSSHKeys_def)
  show ?thesis
    unfolding rsyncEnsureSecrets_def
    by (auto intro!: emits_rules emits_step[OF user] emits_step[OF emits_sshReconcile[OF assms]] simp: same)
qed

lemma emits_rsyncEnsureJob:
  assumes "libs_documented cl"
  shows "emits (rsync_ok cl m) (rsyncEnsureJob cl m data sa name)
    (\<lambda>(r, m'). rsyncSame m m' \<and> ym_status m' = ym_status m \<and>
       (\<forall>j e. r = Ret (Some j, e) \<longrightarrow> job_succeeded j \<noteq> 0 \<and>
          ms_result (ym_latestMoverStatus m') = MoverResultSuccessful))"
proof -
  have job: "emits (rsync_ok cl m) (CreateOrUpdateDeleteOnImmutableErr (jobC cl) x (rsyncMutate cl m data sa name)) (\<lambda>_. True)" for x
    unfolding rsyncMutate_def by (rule rsync_ok_sync, rule ssh.ensure_job[OF assms])
  have out: "emits (rsync_ok cl m) (rsyncOutcome cl ff sf st op err j)
     (\<lambda>(r, st'). \<forall>j' e. r = Ret (Some j', e) \<longrightarrow> j' = j \<and> err = None \<and> e = None \<and> job_succeeded j \<noteq> 0 \<and>
        ms_result st' = MoverResultSuccessful)" for ff sf st op err j
    by (rule rsync_ok_sync, rule emits_rsyncOutcome)
  show ?thesis
    unfolding rsyncEnsureJob_def
    by (rule emits_step[OF job]) (auto intro!: emits_rules emits_bind[OF out] simp: rsyncSame_def)
qed

lemma emits_rsyncRun:
  assumes "libs_documented cl" "rsyncBuilt cl m"
  shows "emits (rsync_ok cl m) (rsyncRun cl m data name)
    (\<lambda>(r, m'). ym_status m' = ym_status m \<and> (\<forall>res err. r = Ret (res, err) \<and> mr_completed res \<longrightarrow>
       err = None \<and> ms_result (ym_latestMoverStatus m') = MoverResultSuccessful))"
proof -
  obtain userSA where sa: "ym_saHandler m = NewSAHandler cl (ym_owner m) (ym_isSource m) True userSA"
    and vh: "vhOwner (ym_vh m) = ym_owner m"
    using assms(2) by (auto simp: rsyncBuilt_def)
  have s: "emits (rsync_ok cl m) (saReconcile cl (ym_saHandler m)) (\<lambda>_. True)"
    unfolding sa by (rule rsync_ok_sync, rule emits_saReconcile[OF assms(1)])
  have fin: "emits (rsync_ok cl m) (moverFinish cl isSource (ym_vh m) data)
      (\<lambda>(res, err). mr_completed res \<longrightarrow> err = None)" for isSource
    by (rule rsync_ok_sync, rule emits_moverFinish[OF assms(1) vh])
  show ?thesis
    unfolding rsyncRun_def
    by (auto intro!: emits_rules emits_step[OF s] emits_bind[OF emits_rsyncEnsureJob[OF assms(1)]]
        emits_bind[OF fin] simp: InProgress_def rsyncSame_def split: go.splits)
qed

text \<open>What a completed synchronization tells.\<close>

definition rsyncDone :: "rsyncMover \<Rightarrow> (mresult \<times> gerror option) go \<times> rsyncMover \<Rightarrow> bool" where
  "rsyncDone m = (\<lambda>(r, m'). \<forall>res err. r = Ret (res, err) \<and> mr_completed res \<longrightarrow> err = None \<and>
     ms_result (ym_latestMoverStatus m') = MoverResultSuccessful \<and>
     (ym_address m \<noteq> None \<or> (\<exists>a. rys_address (ym_status m') = Some a \<and> a \<noteq> [])))"

lemma rsyncDone_waiting: "rsyncDone m (Ret (InProgress, err), m')"
  by (simp add: rsyncDone_def InProgress_def)

lemma emits_rsyncConnect:
  assumes "libs_documented cl" "cou_documented (serviceC cl)" "get_documented (secretC cl)" "rsyncBuilt cl m"
  shows "emits (rsync_ok cl m) (rsyncConnect cl m data) (rsyncDone m)"
proof -
  have run: "emits (rsync_ok cl m) (rsyncRun cl m2 data name) (rsyncDone m)"
    if "rsyncSame m m1" "rsyncSame m1 m2" "rys_address (ym_status m2) = rys_address (ym_status m1)" "addressKnown m1"
    for m1 m2 name
  proof -
    have m2: "rsyncSame m m2" using that(1,2) by (simp add: rsyncSame_def)
    from rsyncSame_built[OF this, of cl] assms(4) have "rsyncBuilt cl m2" "rsync_ok cl m2 = rsync_ok cl m" by simp_all
    with emits_rsyncRun[OF assms(1), of m2 data name] have
      "emits (rsync_ok cl m) (rsyncRun cl m2 data name) (\<lambda>(r, m'). ym_status m' = ym_status m2 \<and>
        (\<forall>res err. r = Ret (res, err) \<and> mr_completed res \<longrightarrow> err = None \<and>
           ms_result (ym_latestMoverStatus m') = MoverResultSuccessful))" by simp
    then show ?thesis by (rule emits_post) (use that in \<open>auto simp: rsyncSame_def rsyncDone_def\<close>)
  qed
  have sec: "emits (rsync_ok cl m) (rsyncEnsureSecrets cl m1)
      (\<lambda>(_, m'). rsyncSame m1 m' \<and> rys_address (ym_status m') = rys_address (ym_status m1))"
    if "rsyncSame m m1" for m1
    using emits_rsyncSecrets[OF assms(1,3), of m1] rsyncSame_built[OF that, of cl] by simp
  have secrets: "emits (rsync_ok cl m) (rsyncEnsureSecrets cl m1 \<bind> (\<lambda>((s, serr), m1). case s of
        None \<Rightarrow> ret (Ret (InProgress, serr), m1)
      | Some secretName \<Rightarrow>
          if serr \<noteq> None then ret (Ret (InProgress, serr), m1) else rsyncRun cl m1 data secretName)) (rsyncDone m)"
    if "rsyncSame m m1" "addressKnown m1" for m1
    by (rule emits_bind[OF sec[OF that(1)]])
      (auto intro!: emits_rules run[OF that(1) _ _ that(2)] simp: rsyncDone_waiting)
  show ?thesis
    unfolding rsyncConnect_def
    by (rule emits_bind[OF emits_rsyncService[OF assms(1,2)]])
      (auto intro!: emits_rules secrets simp: rsyncDone_waiting)
qed

text \<open>C21: A synchronization of the rsync mover keeps the contract of the job movers, as a job of root with its
  fixed capabilities, and deletes no secret but a main secret of the resource that lacks a key. Completion
  means no error and a mover status that says successful; unless the user gave the address of the other
  side, the status has then published the address of the service.\<close>

theorem rsyncSynchronize_safe:
  assumes "libs_documented cl" "cou_documented (serviceC cl)" "get_documented (secretC cl)" "rsyncBuilt cl m"
  shows "emits (\<lambda>c. sync_ok cl (ym_owner m) True (good_job (ym_owner m) (ym_paused m) sshSecurityContext 2) c \<or>
       (\<exists>s. c = CDelete (OSecret s) None \<and> objKey s = objKey (sk_main (sshKeysOf m)) \<and>
          SecretHasFields s mainFields \<noteq> None)) (rsyncSynchronize cl m)
    (\<lambda>(r, m'). \<forall>res err. r = Ret (res, err) \<and> mr_completed res \<longrightarrow> err = None \<and>
       ms_result (ym_latestMoverStatus m') = MoverResultSuccessful \<and>
       (ym_address m \<noteq> None \<or> (\<exists>a. rys_address (ym_status m') = Some a \<and> a \<noteq> [])))"
proof -
  have vh: "vhOwner (ym_vh m) = ym_owner m" using assms(4) by (simp add: rsyncBuilt_def)
  have d: "emits (rsync_ok cl m) (ensureDataPVC cl ''-dst'' (ym_owner m) (ym_isSource m) (ym_mainPVCName m)
      (ym_cleanupTempPVC m) (ym_vh m) (ym_latestMoverStatus m)) (\<lambda>(r, vh', st'). vhOwner vh' = ym_owner m)"
    by (rule rsync_ok_sync, rule emits_ensureDataPVC[OF assms(1) vh])
  have run: "emits (rsync_ok cl m) (rsyncConnect cl (m\<lparr>ym_vh := vh', ym_latestMoverStatus := st\<rparr>) p) (rsyncDone m)"
    if "vhOwner vh' = ym_owner m" for vh' st p
  proof -
    let ?m = "m\<lparr>ym_vh := vh', ym_latestMoverStatus := st\<rparr>"
    have "rsyncBuilt cl ?m" using assms(4) that by (auto simp: rsyncBuilt_def)
    moreover have "rsync_ok cl ?m = rsync_ok cl m" by (simp add: rsync_ok_def sshKeysOf_def fun_eq_iff)
    moreover have "rsyncDone ?m = rsyncDone m" by (simp add: rsyncDone_def)
    ultimately show ?thesis using emits_rsyncConnect[OF assms(1-3), of ?m p] by simp
  qed
  have panic: "rsyncDone m (Panic, m')" for m' by (simp add: rsyncDone_def)
  have "emits (rsync_ok cl m) (rsyncSynchronize cl m) (rsyncDone m)"
    unfolding rsyncSynchronize_def
    by (rule emits_bind[OF d])
      (auto intro!: emits_rules run simp: Let_def rsyncDone_waiting panic split: go.splits option.splits prod.splits)
  then show ?thesis unfolding rsync_ok_def[abs_def] rsyncDone_def .
qed

definition sampleRsyncMover :: rsyncMover where
  "sampleRsyncMover = \<lparr>ym_owner = newMeta ''ns'' ''rd'',
     ym_vh = emptyVH\<lparr>vh_owner := Some (newMeta ''ns'' ''rd''), vh_copyMethod := CopyMethodSnapshot\<rparr>,
     ym_saHandler = NewSAHandler sampleCluster (newMeta ''ns'' ''rd'') False True None,
     ym_containerImage = ''rsync:latest'', ym_sshKeys = None, ym_serviceType = Some LoadBalancer,
     ym_serviceAnnotations = None, ym_address = None, ym_port = None, ym_isSource = False, ym_paused = False,
     ym_mainPVCName = Some ''data'', ym_latestMoverStatus = emptyMoverStatus,
     ym_moverConfig = rsyncMoverConfig [] None, ym_status = emptyRsyncStatus, ym_cleanupTempPVC = False\<rparr>"

theorem rsyncSynchronize_safe_witness:
  "\<exists>a new. run_state (rsyncSynchronize sampleCluster sampleRsyncMover) [] = (a, new @ []) \<and>
     list_all (\<lambda>c. sync_ok sampleCluster (newMeta ''ns'' ''rd'') True
          (good_job (newMeta ''ns'' ''rd'') False sshSecurityContext 2) c \<or>
        (\<exists>s. c = CDelete (OSecret s) None \<and> objKey s = objKey (sk_main (sshKeysOf sampleRsyncMover)) \<and>
           SecretHasFields s mainFields \<noteq> None)) new"
proof -
  have "rsyncBuilt sampleCluster sampleRsyncMover"
    by (auto simp: rsyncBuilt_def sampleRsyncMover_def vhOwner_def)
  moreover have "cou_documented (serviceC sampleCluster)" "get_documented (secretC sampleCluster)"
    by (simp_all add: serviceC_def sampleCluster_def client_id get_documented_def secretC_def)
  ultimately show ?thesis
    using rsyncSynchronize_safe[OF sample_libs, of sampleRsyncMover, unfolded emits_def]
    unfolding list_all_iff by (auto simp: sampleRsyncMover_def dest!: spec[of _ "[]"])
qed

section \<open>The keys of the two sides agree\<close>

lemma emits_CreateOrUpdate_keyed:
  assumes "cou_documented c" "get_documented c"
    and get: "P (CGet (k_kind c) (objKey x))"
    and new: "emits P (f x) (\<lambda>(e, z). e = None \<longrightarrow> P (CCreate (k_wrap c z)))"
    and old: "\<And>y. objKey y = objKey x \<Longrightarrow> emits P (f y) (\<lambda>(e, z). e = None \<longrightarrow> P (CUpdate (k_wrap c z)))"
  shows "emits P (CreateOrUpdate c x f) (\<lambda>_. True)"
  unfolding cou_documentedD[OF assms(1)] cou_steps_def
proof (rule emits_bind[where Q = "\<lambda>r. \<forall>y. r = Inr y \<longrightarrow> objKey y = objKey x"])
  show "emits P (kGet c (objKey x)) (\<lambda>r. \<forall>y. r = Inr y \<longrightarrow> objKey y = objKey x)"
    using assms(2)[unfolded get_documented_def, THEN spec, THEN spec[of _ "objKey x"]]
    by (intro emits_kGet_answer get) auto
qed (auto intro!: emits_rules emits_bind[OF new] emits_bind[OF old] emits_step[of _ "kCreate c _"]
    emits_step[of _ "kUpdate c _"])

text \<open>The part of the main secret a side gets.\<close>

definition keyData :: "secret \<Rightarrow> string list \<Rightarrow> strmap" where
  "keyData main flds = map (\<lambda>f. (f, map_get (orElse (sec_data main) []) f)) flds"

fun key_ok :: "rsyncSSHKeys \<Rightarrow> secret \<Rightarrow> call \<Rightarrow> bool" where
  "key_ok k main (CCreate (OSecret s)) = list_ex (\<lambda>(key, flds). objKey s = key \<and> sec_data s = Some (keyData main flds))
     [(objKey (sk_src k), srcFields), (objKey (sk_dest k), destFields)]"
| "key_ok k main (CUpdate (OSecret s)) = list_ex (\<lambda>(key, flds). objKey s = key \<and>
       list_all (\<lambda>(f, v). map_get (orElse (sec_data s) []) f = v) (keyData main flds))
     [(objKey (sk_src k), srcFields), (objKey (sk_dest k), destFields)]"
| "key_ok k main c = (\<not> is_write c \<and> c \<noteq> CKeygen)"

lemma key_SetOwnedByVolSync [simp]:
  "objKey (snd (SetOwnedByVolSync meta_ops x)) = objKey x" "sec_data (snd (SetOwnedByVolSync meta_ops s)) = sec_data s"
  by (simp_all add: SetOwnedByVolSync_def AddLabel_meta objKey_def)

lemma objKey_secret_update [simp]: "objKey (x\<lparr>om_ownerRefs := r\<rparr>) = objKey x" "objKey (s\<lparr>sec_data := d\<rparr>) = objKey s"
  by (simp_all add: objKey_def)

lemma fold_put_get:
  "map_get (fold (\<lambda>key. map_put key (g key)) keys d) f = (if f \<in> set keys then g f else map_get d f)"
  by (induction keys arbitrary: d) auto

lemma emits_ensureSecret_keys:
  assumes "cou_documented (secretC cl)" "get_documented (secretC cl)" "sec_data s = None" "sk_main k = main"
    and "(objKey s, keys) \<in> {(objKey (sk_src k0), srcFields), (objKey (sk_dest k0), destFields)}"
  shows "emits (key_ok k0 main) (ensureSecret cl k keys s) (\<lambda>_. True)"
proof -
  have new: "fold (\<lambda>key. map_put key (map_get (orElse (sec_data main) []) key)) srcFields [] = keyData main srcFields"
    "fold (\<lambda>key. map_put key (map_get (orElse (sec_data main) []) key)) destFields [] = keyData main destFields"
    by (simp_all add: keyData_def srcFields_def destFields_def map_put_def)
  have "emits (key_ok k0 main) (CreateOrUpdate (secretC cl) s (keySecretMutate cl k keys)) (\<lambda>_. True)"
  proof (rule emits_CreateOrUpdate_keyed[OF assms(1,2)])
    show "emits (key_ok k0 main) (keySecretMutate cl k keys s) (\<lambda>(e, z). e = None \<longrightarrow> key_ok k0 main (CCreate (k_wrap (secretC cl) z)))"
      unfolding keySecretMutate_def Let_def
      using assms(5) by (auto intro!: emits_rules simp: assms(3,4) new orElse_def[of None])
    show "emits (key_ok k0 main) (keySecretMutate cl k keys y) (\<lambda>(e, z). e = None \<longrightarrow> key_ok k0 main (CUpdate (k_wrap (secretC cl) z)))"
      if "objKey y = objKey s" for y
      unfolding keySecretMutate_def Let_def
      using assms(5) that by (auto intro!: emits_rules simp: assms(4) fold_put_get keyData_def list_all_iff orElse_def[of "Some _"])
  qed simp
  then show ?thesis
    unfolding ensureSecret_def by (intro emits_step) (auto intro!: emits_rules)
qed

lemma emits_sides:
  assumes "cou_documented (secretC cl)" "get_documented (secretC cl)" "sk_main k = main"
    and "sk_src k = sk_src (sshKeysOf m)" "sk_dest k = sk_dest (sshKeysOf m)"
  shows "emits (key_ok (sshKeysOf m) main) (ReconcileBatch [ensureSrcSecret cl, ensureDestSecret cl] k) (\<lambda>_. True)"
proof -
  have none: "sec_data (sk_src (sshKeysOf m)) = None" "sec_data (sk_dest (sshKeysOf m)) = None"
    by (simp_all add: sshKeysOf_def newSSHKeys_def Let_def new_defs)
  have src: "emits (key_ok (sshKeysOf m) main) (ensureSrcSecret cl k)
      (\<lambda>(cont, err, k'). sk_main k' = main \<and> sk_dest k' = sk_dest (sshKeysOf m))"
    unfolding ensureSrcSecret_def
    by (rule emits_step[OF emits_ensureSecret_keys[OF assms(1,2) _ assms(3)]])
      (auto intro!: emits_rules simp: assms none)
  have dest: "emits (key_ok (sshKeysOf m) (sk_main k')) (ensureDestSecret cl k') (\<lambda>_. True)"
    if "sk_dest k' = sk_dest (sshKeysOf m)" for k'
    unfolding ensureDestSecret_def
    by (rule emits_step[OF emits_ensureSecret_keys[OF assms(1,2) _ refl]])
      (auto intro!: emits_rules simp: that none)
  show ?thesis
    unfolding ReconcileBatch.simps
    by (rule emits_bind[OF src]) (auto intro!: emits_rules emits_step[OF dest])
qed

lemma mainFields_generated:
  "SecretHasFields (s\<lparr>sec_data := Some [(''source'', a), (''source.pub'', b), (''destination'', c), (''destination.pub'', d)]\<rparr>)
     mainFields = None"
  by (simp add: SecretHasFields_def mainFields_def entries_def)

text \<open>C20: The two sides always get keys of one main secret. When the main secret has all keys, no key is generated,
  and the only writes are to the secrets of the two sides: a new one holds exactly the keys of its side, an
  updated one the same values; the private key of the other side is not among them. A main secret that
  lacks a key is deleted and nothing else is written. Without a main secret at most a complete one is
  created. In both of these cases the sides have to wait.\<close>

theorem ssh_keys_agree:
  assumes "cou_documented (secretC cl)" "get_documented (secretC cl)"
  shows "\<exists>cont err k new. run_state (sshReconcile cl (sshKeysOf m)) tr = ((cont, err, k), new @ tr) \<and>
    (case k_get (secretC cl) tr (objKey (sk_main (sshKeysOf m))) of
       Inr main \<Rightarrow>
         if SecretHasFields main mainFields = None then list_all (key_ok (sshKeysOf m) main) new
         else \<not> cont \<and> filter is_write new = [CDelete (OSecret main) None]
     | Inl _ \<Rightarrow> \<not> cont \<and> (filter is_write new = [] \<or> (\<exists>s. filter is_write new = [CCreate (OSecret s)] \<and>
         objKey s = objKey (sk_main (sshKeysOf m)) \<and> SecretHasFields s mainFields = None))) \<and>
    ''destination'' \<notin> set srcFields \<and> ''source'' \<notin> set destFields"
proof -
  have apart: "''destination'' \<notin> set srcFields \<and> ''source'' \<notin> set destFields"
    by (simp add: srcFields_def destFields_def)
  let ?k = "sshKeysOf m"
  show ?thesis
  proof (cases "\<exists>main. k_get (secretC cl) tr (objKey (sk_main ?k)) = Inr main \<and> SecretHasFields main mainFields = None")
    case True
    then obtain main where main: "k_get (secretC cl) tr (objKey (sk_main ?k)) = Inr main" "SecretHasFields main mainFields = None"
      by blast
    let ?g = "CGet KSecret (objKey (sk_main ?k))"
    from emits_sides[OF assms, of "?k\<lparr>sk_main := main\<rparr>" main m, unfolded emits_def, THEN spec[of _ "?g # tr"]]
    obtain r new where new: "run_state (ReconcileBatch [ensureSrcSecret cl, ensureDestSecret cl] (?k\<lparr>sk_main := main\<rparr>)) (?g # tr) =
        (r, new @ ?g # tr)" "\<forall>c \<in> set new. key_ok ?k main c" by auto
    have "run_state (sshReconcile cl ?k) tr = (r, (new @ [?g]) @ tr)"
      unfolding sshReconcile_def ReconcileBatch.simps(2)[of "ensureMainSecret cl"]
      using new(1) main by (simp add: ensureMainSecret_def kube_ops del: ReconcileBatch.simps)
    with new(2) main apart show ?thesis by (cases r) (fastforce simp: list_all_iff)
  next
    case False
    then show ?thesis
      unfolding sshReconcile_def ReconcileBatch.simps(2)[of "ensureMainSecret cl"] ensureMainSecret_def
        generateMainSecret_def generateKeyPair_def
      by (auto simp: kube_ops apart mainFields_generated simp del: ReconcileBatch.simps split: sum.splits prod.splits)
  qed
qed

definition sampleMainSecret :: secret where
  "sampleMainSecret = (sk_main (sshKeysOf sampleRsyncMover))\<lparr>sec_data := Some [(''source'', ''s''), (''source.pub'', ''sp''),
     (''destination'', ''d''), (''destination.pub'', ''dp'')]\<rparr>"

definition sampleKeyCluster :: cluster where
  "sampleKeyCluster = sampleCluster\<lparr>secrets := withCou ((sampleClient KSecret OSecret)\<lparr>k_get := (\<lambda>_ k.
     if k = objKey sampleMainSecret then Inr sampleMainSecret else Inl (StatusError NotFound ''not found''))\<rparr>)\<rparr>"

theorem ssh_keys_agree_witness:
  "\<exists>r new. run_state (sshReconcile sampleKeyCluster (sshKeysOf sampleRsyncMover)) [] = (r, new @ []) \<and>
     list_all (key_ok (sshKeysOf sampleRsyncMover) sampleMainSecret) new"
proof -
  have c: "secretC sampleKeyCluster = secrets sampleKeyCluster"
    by (simp add: secretC_def sampleKeyCluster_def client_id)
  have doc: "cou_documented (secretC sampleKeyCluster)" "get_documented (secretC sampleKeyCluster)"
    unfolding c by (simp_all add: sampleKeyCluster_def get_documented_def)
  have main: "k_get (secretC sampleKeyCluster) [] (objKey (sk_main (sshKeysOf sampleRsyncMover))) = Inr sampleMainSecret"
    "SecretHasFields sampleMainSecret mainFields = None"
    unfolding c by (simp_all add: sampleKeyCluster_def sampleMainSecret_def mainFields_generated)
  from ssh_keys_agree[OF doc, of sampleRsyncMover "[]"] main show ?thesis by auto
qed

end
