(* ===== verification/Go_Std.thy ===== *)
theory Go_Std
  imports Names
begin

text \<open>
  The parts of Go's standard library the kopia mover computes with: \<open>crypto/sha256\<close>, \<open>encoding/json\<close>
  for strings and for the check of a document, \<open>path.Join\<close>, and the product of an integer with a
  \<open>float64\<close> constant.
\<close>

section \<open>SHA-256\<close>

definition rotr32 :: "nat \<Rightarrow> 32 word \<Rightarrow> 32 word" where
  "rotr32 n w = drop_bit n w OR push_bit (32 - n) w"

text \<open>The constants are the first 32 bits of the fractional parts of the cube roots of the first 64 primes;
  the initial state is made of the square roots of the first eight.\<close>

definition sha256_primes :: "int list" where
  "sha256_primes = filter (\<lambda>p. list_all (\<lambda>d. p mod d \<noteq> 0) [2..p - 1]) [2..311]"

text \<open>The integer part of the \<open>k\<close>-th root of \<open>n\<close>, for roots below \<open>2 ^ 36\<close>, one bit after the other.\<close>

definition bitRoot :: "nat \<Rightarrow> int \<Rightarrow> int" where
  "bitRoot k n = fold (\<lambda>b r. if (r + 2 ^ b) ^ k \<le> n then r + 2 ^ b else r) (rev [0..<36]) 0"

definition rootBits :: "nat \<Rightarrow> int \<Rightarrow> 32 word" where
  "rootBits k p = of_int (bitRoot k (p * 2 ^ (32 * k)))"

definition sha256_k :: "32 word list" where
  "sha256_k = map (rootBits 3) sha256_primes"

definition sha256_init :: "32 word list" where
  "sha256_init = map (rootBits 2) (take 8 sha256_primes)"

text \<open>The message schedule is kept newest word first.\<close>

definition sha256_next :: "32 word list \<Rightarrow> 32 word list" where
  "sha256_next ws =
     (let w2 = ws ! 1; w7 = ws ! 6; w15 = ws ! 14; w16 = ws ! 15;
          s0 = rotr32 7 w15 XOR rotr32 18 w15 XOR drop_bit 3 w15;
          s1 = rotr32 17 w2 XOR rotr32 19 w2 XOR drop_bit 10 w2
      in (w16 + s0 + w7 + s1) # ws)"

definition sha256_schedule :: "32 word list \<Rightarrow> 32 word list" where
  "sha256_schedule block = rev ((sha256_next ^^ 48) (rev block))"

fun sha256_round :: "32 word \<times> 32 word \<Rightarrow> 32 word list \<Rightarrow> 32 word list" where
  "sha256_round (k, w) [a, b, c, d, e, f, g, h] =
     (let S1 = rotr32 6 e XOR rotr32 11 e XOR rotr32 25 e;
          ch = (e AND f) XOR (NOT e AND g);
          t1 = h + S1 + ch + k + w;
          S0 = rotr32 2 a XOR rotr32 13 a XOR rotr32 22 a;
          maj = (a AND b) XOR (a AND c) XOR (b AND c);
          t2 = S0 + maj
      in [t1 + t2, a, b, c, d + t1, e, f, g])"
| "sha256_round kw hs = hs"

definition sha256_block :: "32 word list \<Rightarrow> 32 word list \<Rightarrow> 32 word list" where
  "sha256_block block hs =
     map2 (+) hs (fold sha256_round (zip sha256_k (sha256_schedule block)) hs)"

definition bytesToWord :: "int list \<Rightarrow> 32 word" where
  "bytesToWord bs = of_int (foldl (\<lambda>n b. 256 * n + b) 0 bs)"

fun chunks :: "nat \<Rightarrow> 'a list \<Rightarrow> 'a list list" where
  "chunks n xs = (if n = 0 \<or> xs = [] then [] else take n xs # chunks n (drop n xs))"

declare chunks.simps [simp del]

definition sha256_pad :: "int list \<Rightarrow> int list" where
  "sha256_pad bs =
     (let n = length bs in
      bs @ [128] @ replicate ((119 - n mod 64) mod 64) 0 @
      map (\<lambda>i. (8 * int n) div 256 ^ i mod 256) [7, 6, 5, 4, 3, 2, 1, 0])"

definition sha256_Sum256 :: "string \<Rightarrow> 32 word list" where
  "sha256_Sum256 data =
     fold (\<lambda>block. sha256_block (map bytesToWord (chunks 4 block)))
       (chunks 64 (sha256_pad (map of_char data))) sha256_init"

text \<open>\<open>hex.EncodeToString\<close> of the digest.\<close>

definition sha256_hex :: "string \<Rightarrow> string" where
  "sha256_hex data = concat (map hex8 (sha256_Sum256 data))"

lemma length_sha256_init: "length sha256_init = 8"
proof -
  let ?prime = "\<lambda>p::int. list_all (\<lambda>d. p mod d \<noteq> 0) [2..p - 1]"
  have "[2..311] = [2..19] @ [19 + 1..311::int]" by (rule upto_split2) simp_all
  then have "length (filter ?prime [2..311]) \<ge> length (filter ?prime [2..19])"
    by (simp only: filter_append length_append)
  moreover have "length (filter ?prime [2..19]) = 8" by simp
  ultimately show ?thesis by (simp only: sha256_init_def sha256_primes_def length_map length_take)
qed

section \<open>Strings in JSON\<close>

definition byteIn :: "nat \<Rightarrow> nat \<Rightarrow> char \<Rightarrow> bool" where
  "byteIn lo hi c \<longleftrightarrow> lo \<le> of_char c \<and> of_char c \<le> hi"

text \<open>The number of bytes of the UTF-8 sequence a string starts with; 0 if it is not a valid one.\<close>

fun runeLen :: "string \<Rightarrow> nat" where
  "runeLen [] = 0"
| "runeLen (c # s) =
     (let cont = (\<lambda>lo hi k. k \<le> length s \<and> byteIn lo hi (s ! 0) \<and> (\<forall>i < k. 0 < i \<longrightarrow> byteIn 0x80 0xBF (s ! i))) in
      if byteIn 0 0x7F c then 1
      else if byteIn 0xC2 0xDF c \<and> cont 0x80 0xBF 1 then 2
      else if (byteIn 0xE0 0xE0 c \<and> cont 0xA0 0xBF 2) \<or> (byteIn 0xED 0xED c \<and> cont 0x80 0x9F 2) \<or>
              ((byteIn 0xE1 0xEC c \<or> byteIn 0xEE 0xEF c) \<and> cont 0x80 0xBF 2) then 3
      else if (byteIn 0xF0 0xF0 c \<and> cont 0x90 0xBF 3) \<or> (byteIn 0xF4 0xF4 c \<and> cont 0x80 0x8F 3) \<or>
              (byteIn 0xF1 0xF3 c \<and> cont 0x80 0xBF 3) then 4
      else 0)"

definition backslash :: char where "backslash = CHR 0x5C"

definition jsonEscape :: "char \<Rightarrow> string" where
  "jsonEscape c =
     (if c = CHR 0x22 \<or> c = backslash then [backslash, c]
      else if c = CHR 0x08 then backslash # ''b'' else if c = CHR 0x0C then backslash # ''f''
      else if c = CHR 0x0A then backslash # ''n'' else if c = CHR 0x0D then backslash # ''r''
      else if c = CHR 0x09 then backslash # ''t''
      else if byteIn 0 0x1F c \<or> c = CHR ''<'' \<or> c = CHR ''>'' \<or> c = CHR ''&''
      then backslash # ''u00'' @ [hexDigit (of_char c div 16), hexDigit (of_char c mod 16)]
      else [c])"

fun jsonChars :: "nat \<Rightarrow> string \<Rightarrow> string" where
  "jsonChars skip [] = []"
| "jsonChars (Suc skip) (c # s) = c # jsonChars skip s"
| "jsonChars 0 (c # s) =
     (if byteIn 0 0x7F c then jsonEscape c @ jsonChars 0 s
      else if take 3 (c # s) = [CHR 0xE2, CHR 0x80, CHR 0xA8] then backslash # ''u2028'' @ jsonChars 0 (drop 2 s)
      else if take 3 (c # s) = [CHR 0xE2, CHR 0x80, CHR 0xA9] then backslash # ''u2029'' @ jsonChars 0 (drop 2 s)
      else if runeLen (c # s) = 0 then backslash # ''ufffd'' @ jsonChars 0 s
      else c # jsonChars (runeLen (c # s) - 1) s)"

definition jsonString :: "string \<Rightarrow> string" where
  "jsonString s = CHR 0x22 # jsonChars 0 s @ [CHR 0x22]"

text \<open>A struct: the fields that are present, with their values as JSON.\<close>

definition jsonObject :: "(string \<times> string) list \<Rightarrow> string" where
  "jsonObject fs = ''{'' @ strings_Join (map (\<lambda>(k, v). jsonString k @ '':'' @ v) fs) '','' @ ''}''"

section \<open>Checking a JSON document\<close>

text \<open>
  \<open>json.Valid\<close>: the state machine of \<open>encoding/json\<close>, one step per byte, with the stack of the open
  objects and arrays. \<open>None\<close> is an error.
\<close>

datatype jsonParse = ParseObjectKey | ParseObjectValue | ParseArrayValue

datatype jsonStep =
    BeginValue | BeginValueOrEmpty | BeginStringOrEmpty | BeginString
  | EndValue | EndTop | InString | InStringEsc | InStringEscU nat
  | NumNeg | Num1 | Num0 | NumDot | NumDot0 | NumE | NumESign | NumE0
  | InLiteral string

type_synonym jsonState = "jsonStep \<times> jsonParse list"

definition maxNestingDepth :: nat where "maxNestingDepth = 10000"

definition jsonSpace :: "char \<Rightarrow> bool" where
  "jsonSpace c \<longleftrightarrow> c = CHR '' '' \<or> c = CHR 0x09 \<or> c = CHR 0x0D \<or> c = CHR 0x0A"

definition jsonDigit :: "char \<Rightarrow> bool" where "jsonDigit c \<longleftrightarrow> c \<in> set ''0123456789''"

definition jsonPush :: "jsonStep \<Rightarrow> jsonParse \<Rightarrow> jsonParse list \<Rightarrow> jsonState option" where
  "jsonPush step p st = (if length (p # st) \<le> maxNestingDepth then Some (step, p # st) else None)"

definition jsonPop :: "jsonParse list \<Rightarrow> jsonState" where
  "jsonPop st = (if tl st = [] then (EndTop, []) else (EndValue, tl st))"

definition jsonEndTop :: "char \<Rightarrow> jsonState option" where
  "jsonEndTop c = (if jsonSpace c then Some (EndTop, []) else None)"

definition jsonEndValue :: "char \<Rightarrow> jsonParse list \<Rightarrow> jsonState option" where
  "jsonEndValue c st =
     (case st of
        [] \<Rightarrow> jsonEndTop c
      | p # ps \<Rightarrow>
          if jsonSpace c then Some (EndValue, st)
          else (case p of
            ParseObjectKey \<Rightarrow> if c = CHR '':'' then Some (BeginValue, ParseObjectValue # ps) else None
          | ParseObjectValue \<Rightarrow>
              if c = CHR '','' then Some (BeginString, ParseObjectKey # ps)
              else if c = CHR ''}'' then Some (jsonPop st) else None
          | ParseArrayValue \<Rightarrow>
              if c = CHR '','' then Some (BeginValue, st)
              else if c = CHR '']'' then Some (jsonPop st) else None))"

definition jsonBeginValue :: "char \<Rightarrow> jsonParse list \<Rightarrow> jsonState option" where
  "jsonBeginValue c st =
     (if jsonSpace c then Some (BeginValue, st)
      else if c = CHR ''{'' then jsonPush BeginStringOrEmpty ParseObjectKey st
      else if c = CHR ''['' then jsonPush BeginValueOrEmpty ParseArrayValue st
      else if c = CHR 0x22 then Some (InString, st)
      else if c = CHR ''-'' then Some (NumNeg, st)
      else if c = CHR ''0'' then Some (Num0, st)
      else if c = CHR ''t'' then Some (InLiteral ''rue'', st)
      else if c = CHR ''f'' then Some (InLiteral ''alse'', st)
      else if c = CHR ''n'' then Some (InLiteral ''ull'', st)
      else if jsonDigit c then Some (Num1, st)
      else None)"

definition jsonNum0 :: "char \<Rightarrow> jsonParse list \<Rightarrow> jsonState option" where
  "jsonNum0 c st =
     (if c = CHR ''.'' then Some (NumDot, st)
      else if c = CHR ''e'' \<or> c = CHR ''E'' then Some (NumE, st)
      else jsonEndValue c st)"

fun jsonStepByte :: "char \<Rightarrow> jsonState \<Rightarrow> jsonState option" where
  "jsonStepByte c (BeginValue, st) = jsonBeginValue c st"
| "jsonStepByte c (BeginValueOrEmpty, st) =
     (if jsonSpace c then Some (BeginValueOrEmpty, st)
      else if c = CHR '']'' then jsonEndValue c st else jsonBeginValue c st)"
| "jsonStepByte c (BeginStringOrEmpty, st) =
     (if jsonSpace c then Some (BeginStringOrEmpty, st)
      else if c = CHR ''}'' then jsonEndValue c (ParseObjectValue # tl st)
      else if c = CHR 0x22 then Some (InString, st) else None)"
| "jsonStepByte c (BeginString, st) =
     (if jsonSpace c then Some (BeginString, st) else if c = CHR 0x22 then Some (InString, st) else None)"
| "jsonStepByte c (EndValue, st) = jsonEndValue c st"
| "jsonStepByte c (EndTop, st) = jsonEndTop c"
| "jsonStepByte c (InString, st) =
     (if c = CHR 0x22 then Some (EndValue, st)
      else if c = backslash then Some (InStringEsc, st)
      else if byteIn 0 0x1F c then None else Some (InString, st))"
| "jsonStepByte c (InStringEsc, st) =
     (if c \<in> set ''bfnrt/'' \<or> c = backslash \<or> c = CHR 0x22 then Some (InString, st)
      else if c = CHR ''u'' then Some (InStringEscU 3, st) else None)"
| "jsonStepByte c (InStringEscU n, st) =
     (if c \<in> set ''0123456789abcdefABCDEF''
      then Some ((case n of 0 \<Rightarrow> InString | Suc k \<Rightarrow> InStringEscU k), st) else None)"
| "jsonStepByte c (NumNeg, st) =
     (if c = CHR ''0'' then Some (Num0, st) else if jsonDigit c then Some (Num1, st) else None)"
| "jsonStepByte c (Num1, st) = (if jsonDigit c then Some (Num1, st) else jsonNum0 c st)"
| "jsonStepByte c (Num0, st) = jsonNum0 c st"
| "jsonStepByte c (NumDot, st) = (if jsonDigit c then Some (NumDot0, st) else None)"
| "jsonStepByte c (NumDot0, st) =
     (if jsonDigit c then Some (NumDot0, st)
      else if c = CHR ''e'' \<or> c = CHR ''E'' then Some (NumE, st) else jsonEndValue c st)"
| "jsonStepByte c (NumE, st) =
     (if c = CHR ''+'' \<or> c = CHR ''-'' then Some (NumESign, st)
      else if jsonDigit c then Some (NumE0, st) else None)"
| "jsonStepByte c (NumESign, st) = (if jsonDigit c then Some (NumE0, st) else None)"
| "jsonStepByte c (NumE0, st) = (if jsonDigit c then Some (NumE0, st) else jsonEndValue c st)"
| "jsonStepByte c (InLiteral l, st) =
     (case l of
        [] \<Rightarrow> None
      | d # l' \<Rightarrow> if c = d then Some (if l' = [] then EndValue else InLiteral l', st) else None)"

fun jsonScan :: "string \<Rightarrow> jsonState \<Rightarrow> jsonState option" where
  "jsonScan [] s = Some s"
| "jsonScan (c # cs) s = (case jsonStepByte c s of None \<Rightarrow> None | Some s' \<Rightarrow> jsonScan cs s')"

definition json_Valid :: "string \<Rightarrow> bool" where
  "json_Valid doc =
     (case jsonScan doc (BeginValue, []) of
        None \<Rightarrow> False
      | Some s \<Rightarrow> fst s = EndTop \<or> (case jsonStepByte CHR '' '' s of Some (EndTop, _) \<Rightarrow> True | _ \<Rightarrow> False))"

section \<open>Paths\<close>

text \<open>\<open>path.Join\<close> of a rooted directory and a name: joined with a slash unless the name is empty, then
  cleaned.\<close>

definition cleanStep :: "string \<Rightarrow> string list \<Rightarrow> string list" where
  "cleanStep part acc =
     (if part = [] \<or> part = ''.'' then acc
      else if part = ''..'' then butlast acc
      else acc @ [part])"

definition path_CleanRooted :: "string \<Rightarrow> string" where
  "path_CleanRooted p = CHR ''/'' # strings_Join (fold cleanStep (str_split CHR ''/'' p) []) ''/''"

definition path_Join :: "string \<Rightarrow> string \<Rightarrow> string" where
  "path_Join dir name = path_CleanRooted (if name = [] then dir else dir @ ''/'' @ name)"

section \<open>A fraction of an integer, computed in floating point\<close>

text \<open>
  \<open>int32(float64(n) * q)\<close> for a constant \<open>q\<close> whose \<open>float64\<close> is \<open>c / 2 ^ e\<close>: the exact product is
  rounded to 53 significant bits, to the even neighbour if it is half way, and then truncated.
\<close>

fun bitLength :: "nat \<Rightarrow> nat" where
  "bitLength n = (if n = 0 then 0 else Suc (bitLength (n div 2)))"

declare bitLength.simps [simp del]

definition roundEven :: "nat \<Rightarrow> nat \<Rightarrow> nat" where
  "roundEven n d =
     (let q = n div d; r = n mod d in
      if 2 * r < d then q else if 2 * r > d then q + 1 else if even q then q else q + 1)"

definition roundFloat64 :: "nat \<Rightarrow> nat" where
  "roundFloat64 m = (let d = 2 ^ (bitLength m - 53) in roundEven m d * d)"

definition floatTimes :: "nat \<Rightarrow> nat \<Rightarrow> nat \<Rightarrow> nat" where
  "floatTimes c e n = roundFloat64 (n * c) div 2 ^ e"

lemma bitLength_bound: "0 < m \<Longrightarrow> 2 ^ (bitLength m - 1) \<le> m"
proof (induction m rule: bitLength.induct)
  case (1 m)
  show ?case
  proof (cases "m div 2 = 0")
    case True
    with 1(2) have "m = 1" by simp
    then show ?thesis by (simp add: bitLength.simps)
  next
    case False
    then have "2 ^ (bitLength (m div 2) - 1) \<le> m div 2" "bitLength (m div 2) \<noteq> 0"
      using 1 by (auto simp: bitLength.simps[of "m div 2"])
    then have "2 ^ bitLength (m div 2) \<le> m" by (cases "bitLength (m div 2)") auto
    with 1(2) show ?thesis by (simp add: bitLength.simps[of m])
  qed
qed

lemma roundEven_error:
  assumes "0 < d"
  shows "2 * (roundEven n d * d) \<le> 2 * n + d \<and> 2 * n \<le> 2 * (roundEven n d * d) + d"
proof -
  obtain q r where q: "q = n div d" and r: "r = n mod d" by blast
  have "q * d + r = n" "r < d" using assms by (simp_all add: q r)
  moreover have "roundEven n d = q \<and> 2 * r \<le> d \<or> roundEven n d = q + 1 \<and> d \<le> 2 * r"
    by (auto simp: roundEven_def Let_def q r)
  ultimately show ?thesis by auto
qed

text \<open>The relative error of rounding is at most \<open>2 ^ -53\<close>.\<close>

lemma roundFloat64_error:
  "2 ^ 53 * roundFloat64 m \<le> (2 ^ 53 + 1) * m \<and> 2 ^ 53 * m \<le> 2 ^ 53 * roundFloat64 m + m"
proof (cases "bitLength m \<le> 53")
  case True
  then show ?thesis by (simp add: roundFloat64_def roundEven_def)
next
  case False
  define s where "s = bitLength m - 53"
  have "m \<noteq> 0" using False by (intro notI) (simp add: bitLength.simps[of 0])
  then have "2 ^ (52 + s) \<le> m" using bitLength_bound[of m] False by (simp add: s_def add.commute)
  then have d: "2 ^ 52 * 2 ^ s \<le> m" by (simp add: power_add)
  have "2 * roundFloat64 m \<le> 2 * m + 2 ^ s \<and> 2 * m \<le> 2 * roundFloat64 m + 2 ^ s"
    using roundEven_error[of "2 ^ s" m] by (simp add: roundFloat64_def s_def Let_def)
  with d show ?thesis by simp
qed

text \<open>
  For a constant within \<open>4 / 10 * 2 ^ -e\<close> of \<open>q / 10\<close> the result is \<open>q / 10\<close> of the integer, rounded down,
  or one less.
\<close>

lemma floatTimes_bounds:
  assumes "10 * c \<le> q * 2 ^ e + 4" "q * 2 ^ e \<le> 10 * c + 4" "q \<le> 10" "53 \<le> e" "n < 2 ^ 32"
  shows "10 * floatTimes c e n \<le> q * n \<and> q * n \<le> 10 * floatTimes c e n + 10"
proof -
  define E where "E = (2::nat) ^ e"
  define r v X B W where "r = roundFloat64 (n * c)" and "v = floatTimes c e n" and "X = n * c"
    and "B = q * n * E" and "W = v * E"
  note defs = this E_def
  have W: "W \<le> r" "r < W + E"
    using dividend_less_div_times[of E r] by (simp_all add: defs floatTimes_def add.commute)
  have X: "2 ^ 53 * r \<le> (2 ^ 53 + 1) * X" "2 ^ 53 * X \<le> 2 ^ 53 * r + X"
    using roundFloat64_error[of "n * c"] by (simp_all add: defs)
  have BX: "10 * X \<le> B + 4 * n" "B \<le> 10 * X + 4 * n"
    using mult_le_mono2[OF assms(1), of n] mult_le_mono2[OF assms(2), of n]
    by (simp_all add: defs algebra_simps)
  have B: "B \<le> 10 * 2 ^ 32 * E"
    using mult_le_mono[OF mult_le_mono[OF assms(3), of n "2 ^ 32"] order_refl[of E]] assms(5) by (simp add: defs)
  have E: "2 ^ 53 \<le> E" using power_increasing[OF assms(4), of "2::nat"] by (simp add: defs)
  have "\<not> q * n + 1 \<le> 10 * v"
  proof
    assume "q * n + 1 \<le> 10 * v"
    from mult_le_mono1[OF this, of E] have "B + E \<le> 10 * W" by (simp add: defs algebra_simps)
    with W X BX B E assms(5) show False by simp
  qed
  moreover have "\<not> 10 * v + 11 \<le> q * n"
  proof
    assume "10 * v + 11 \<le> q * n"
    from mult_le_mono1[OF this, of E] have "10 * W + 11 * E \<le> B" by (simp add: defs algebra_simps)
    with W X BX B E assms(5) show False by simp
  qed
  ultimately show ?thesis by (simp add: defs)
qed

section \<open>Trimming\<close>

text \<open>
  \<open>strings.TrimSpace\<close> removes the runes of \<open>unicode.IsSpace\<close> at both ends; these are their UTF-8
  encodings.
\<close>

definition spaceRunes :: "string list" where
  "spaceRunes = [[CHR 0x09], [CHR 0x0A], [CHR 0x0B], [CHR 0x0C], [CHR 0x0D], [CHR 0x20],
     [CHR 0xC2, CHR 0x85], [CHR 0xC2, CHR 0xA0], [CHR 0xE1, CHR 0x9A, CHR 0x80]] @
     map (\<lambda>n. [CHR 0xE2, CHR 0x80, char_of (0x80 + n)]) ([0..<11] @ [0x28, 0x29, 0x2F]) @
     [[CHR 0xE2, CHR 0x81, CHR 0x9F], [CHR 0xE3, CHR 0x80, CHR 0x80]]"

function trimPrefixes :: "string list \<Rightarrow> string \<Rightarrow> string" where
  "trimPrefixes ps s =
     (case find (\<lambda>p. p \<noteq> [] \<and> HasPrefix s p) ps of
        Some p \<Rightarrow> trimPrefixes ps (drop (length p) s)
      | None \<Rightarrow> s)"
  by pat_completeness auto
termination
  by (relation "measure (\<lambda>(ps, s). length s)")
    (auto simp: find_Some_iff HasPrefix_iff)

declare trimPrefixes.simps [simp del]

definition TrimSpace :: "string \<Rightarrow> string" where
  "TrimSpace s = rev (trimPrefixes (map rev spaceRunes) (rev (trimPrefixes spaceRunes s)))"

end
