(* ===== verification/Syncthing_Api.thy ===== *)
theory Syncthing_Api
  imports Mover_Jobs Go_Std
begin

text \<open>
  What the Syncthing mover needs beside Kubernetes: the client of the REST API of a Syncthing instance
  (\<open>mover/syncthing/api\<close>), the reconciliation of its list of devices and the random strings
  (\<open>syncthing.go\<close>), and the certificate of the connection (\<open>tlsutils.go\<close>). The Syncthing instance, the
  library of Syncthing and Go's cryptography are the parameter \<open>stEnv\<close>.
\<close>

section \<open>Types\<close>

text \<open>
  The configuration of Syncthing (its \<open>lib/config\<close>), as far as it is used; the rest is opaque. A device
  ID is represented by its string form, which is empty exactly for the empty ID.
\<close>

record deviceConfiguration =
  dv_deviceID :: string
  dv_name :: string
  dv_addresses :: "string list"
  dv_introducer :: bool
  dv_introducedBy :: string
  dv_rest :: opaque

record folderDeviceConfiguration =
  fd_deviceID :: string
  fd_introducedBy :: string
  fd_encryptionPassword :: string

record folderConfiguration =
  fo_devices :: "folderDeviceConfiguration list"
  fo_rest :: opaque

record stConfiguration =
  cf_devices :: "deviceConfiguration list"
  cf_folders :: "folderConfiguration list"
  cf_guiUser :: string
  cf_guiPassword :: string
  cf_rest :: opaque

record dialStatus =
  ds_when :: string
  ds_error :: "string option"
  ds_OK :: bool

record systemStatus =
  ss_alloc :: int
  ss_connectionServiceStatus :: "(string \<times> opaque) list"
  ss_cpuPercent :: int
  ss_goroutines :: int
  ss_guiAddressOverridden :: bool
  ss_guiAddressUsed :: string
  ss_lastDialStatus :: "(string \<times> dialStatus) list"
  ss_myID :: string

record totalStats =
  ts_at :: string
  ts_inBytesTotal :: int
  ts_outBytesTotal :: int

record connectionStats = totalStats +
  cs_connected :: bool
  cs_paused :: bool
  cs_at :: string
  cs_startedAt :: string
  cs_clientVersion :: string
  cs_address :: string
  cs_type :: string

text \<open>The map of connections is a list in the order Go happens to iterate over it.\<close>

record systemConnections =
  sc_total :: totalStats
  sc_connections :: "(string \<times> connectionStats) list"

record syncthing =
  st_configuration :: stConfiguration
  st_systemConnections :: systemConnections
  st_systemStatus :: systemStatus

record tlsConfig =
  tc_minVersion :: string
  tc_rootCAs :: "string option" \<comment> \<open>PEM\<close>

record httpClient =
  hc_tls :: tlsConfig
  hc_timeout :: duration

record apiConfig =
  ac_APIURL :: string
  ac_APIKey :: string
  ac_TLSConfig :: "tlsConfig option"
  ac_Client :: "httpClient option"

record httpRequest =
  hr_method :: string
  hr_url :: string
  hr_headers :: strmap
  hr_body :: string

text \<open>The body is what reading it to the end gives; closing it may fail.\<close>

record httpResponse =
  rsp_statusCode :: int
  rsp_status :: string
  rsp_body :: "gerror + string"
  rsp_close :: "gerror option"

datatype extKeyUsage = ExtKeyUsageClientAuth | ExtKeyUsageServerAuth
datatype keyUsage = KeyUsageDigitalSignature | KeyUsageCertSign

record x509Certificate =
  xc_serialNumber :: nat
  xc_notBefore :: gtime
  xc_notAfter :: gtime
  xc_organization :: "string list"
  xc_organizationalUnit :: "string list"
  xc_extKeyUsage :: "extKeyUsage list"
  xc_keyUsage :: "keyUsage list"
  xc_isCA :: bool
  xc_basicConstraintsValid :: bool
  xc_dnsNames :: "string list"

text \<open>
  \<open>newRequestErr\<close> is the error of \<open>http.NewRequest\<close> (method, URL), \<open>httpDo\<close> is \<open>Client.Do\<close>;
  \<open>json\<close> conversions of the three documents of the API; \<open>deviceIDFromString\<close> gives the string form of the
  ID it reads; \<open>rsaGenerateKey\<close> and \<open>createCertificate\<close> (template, parent, public key, signing key) use random
  numbers, \<open>marshalPKCS1\<close> is the DER form of a key.
\<close>

record stEnv =
  newRequestErr :: "string \<Rightarrow> string \<Rightarrow> gerror option"
  httpDo :: "trace \<Rightarrow> httpClient \<Rightarrow> httpRequest \<Rightarrow> gerror + httpResponse"
  marshalConfig :: "stConfiguration \<Rightarrow> gerror + string"
  unmarshalConfig :: "string \<Rightarrow> gerror + stConfiguration"
  unmarshalConnections :: "string \<Rightarrow> gerror + systemConnections"
  unmarshalStatus :: "string \<Rightarrow> gerror + systemStatus"
  deviceIDFromString :: "string \<Rightarrow> gerror + string"
  rsaGenerateKey :: "trace \<Rightarrow> gerror + string"
  rsaPublicKey :: "string \<Rightarrow> string"
  marshalPKCS1 :: "string \<Rightarrow> string"
  createCertificate :: "trace \<Rightarrow> x509Certificate \<Rightarrow> x509Certificate \<Rightarrow> string \<Rightarrow> string \<Rightarrow> gerror + string"

section \<open>The connection\<close>

definition SystemStatusEndpoint :: string where "SystemStatusEndpoint = ''/rest/system/status''"
definition SystemConnectionsEndpoint :: string where "SystemConnectionsEndpoint = ''/rest/system/connections''"
definition ConfigEndpoint :: string where "ConfigEndpoint = ''/rest/config''"

definition versionTLS12 :: string where "versionTLS12 = ''1.2''"

definition TLSClient :: "apiConfig \<Rightarrow> httpClient" where
  "TLSClient api =
     (case ac_Client api of
        Some client \<Rightarrow> client
      | None \<Rightarrow>
          \<lparr>hc_tls = orElse (ac_TLSConfig api) \<lparr>tc_minVersion = versionTLS12, tc_rootCAs = None\<rparr>,
           hc_timeout = 5 * second\<rparr>)"

text \<open>
  A connection is its configuration. The mover sets the client before it makes the connection, so
  \<open>TLSClient\<close> is the client the connection has (see \<open>configured_client\<close>).
\<close>

definition apiHeaders :: "apiConfig \<Rightarrow> strmap" where
  "apiHeaders api = [(''X-API-Key'', ac_APIKey api), (''Content-Type'', ''application/json'')]"

definition responseToBArray :: "httpResponse \<Rightarrow> gerror + string" where
  "responseToBArray r =
     (case rsp_body r of
        Inl err \<Rightarrow> Inl err
      | Inr bytes \<Rightarrow> (case rsp_close r of Some err \<Rightarrow> Inl err | None \<Rightarrow> Inr bytes))"

definition checkResponse :: "httpResponse \<Rightarrow> gerror option" where
  "checkResponse r =
     (if rsp_statusCode r = 404 then Some (Errorf ''invalid endpoint or API call'')
      else if rsp_statusCode r = 401 then Some (Errorf ''invalid API key'')
      else if rsp_statusCode r \<noteq> 200 then
        (case responseToBArray r of
           Inl err \<Rightarrow> Some err
         | Inr data \<Rightarrow> Some (Errorf (''unexpected HTTP status returned: '' @ rsp_status r @ [CHR 0x0A] @ TrimSpace data)))
      else None)"

text \<open>The body is the result of \<open>json.Marshal\<close>.\<close>

definition jsonRequest ::
  "stEnv \<Rightarrow> apiConfig \<Rightarrow> string \<Rightarrow> string \<Rightarrow> gerror + string \<Rightarrow> (gerror + string) kube" where
  "jsonRequest env api endpoint method requestBody =
     (case requestBody of
        Inl err \<Rightarrow> ret (Inl err)
      | Inr body \<Rightarrow>
          (let url = ac_APIURL api @ endpoint in
           case newRequestErr env method url of
             Some err \<Rightarrow> ret (Inl err)
           | None \<Rightarrow> do {
               r \<leftarrow> ask (\<lambda>tr. httpDo env tr (TLSClient api) \<lparr>hr_method = method, hr_url = url, hr_headers = apiHeaders api,
                    hr_body = body\<rparr>) (CHttp method url (ac_APIKey api) body);
               ret (case r of
                 Inl err \<Rightarrow> Inl err
               | Inr resp \<Rightarrow> (case checkResponse resp of Some err \<Rightarrow> Inl err | None \<Rightarrow> rsp_body resp)) }))"

definition jsonNull :: string where "jsonNull = ''null''"

definition fetchDocument ::
  "stEnv \<Rightarrow> apiConfig \<Rightarrow> string \<Rightarrow> (string \<Rightarrow> gerror + 'a) \<Rightarrow> (gerror + 'a) kube" where
  "fetchDocument env api endpoint unmarshal = do {
     data \<leftarrow> jsonRequest env api endpoint ''GET'' (Inr jsonNull);
     ret (case data of Inl err \<Rightarrow> Inl err | Inr bytes \<Rightarrow> unmarshal bytes) }"

definition fetchConfig :: "stEnv \<Rightarrow> apiConfig \<Rightarrow> (gerror + stConfiguration) kube" where
  "fetchConfig env api = fetchDocument env api ConfigEndpoint (unmarshalConfig env)"

definition fetchSystemStatus :: "stEnv \<Rightarrow> apiConfig \<Rightarrow> (gerror + systemStatus) kube" where
  "fetchSystemStatus env api = fetchDocument env api SystemStatusEndpoint (unmarshalStatus env)"

definition fetchSystemConnections :: "stEnv \<Rightarrow> apiConfig \<Rightarrow> (gerror + systemConnections) kube" where
  "fetchSystemConnections env api = fetchDocument env api SystemConnectionsEndpoint (unmarshalConnections env)"

definition Fetch :: "stEnv \<Rightarrow> apiConfig \<Rightarrow> (gerror + syncthing) kube" where
  "Fetch env api = do {
     c \<leftarrow> fetchConfig env api;
     case c of
       Inl err \<Rightarrow> ret (Inl err)
     | Inr conf \<Rightarrow> do {
         n \<leftarrow> fetchSystemConnections env api;
         case n of
           Inl err \<Rightarrow> ret (Inl err)
         | Inr conns \<Rightarrow> do {
             s \<leftarrow> fetchSystemStatus env api;
             ret (case s of
               Inl err \<Rightarrow> Inl err
             | Inr status \<Rightarrow> Inr \<lparr>st_configuration = conf, st_systemConnections = conns, st_systemStatus = status\<rparr>) } } }"

definition PublishConfig :: "stEnv \<Rightarrow> apiConfig \<Rightarrow> stConfiguration \<Rightarrow> gerror option kube" where
  "PublishConfig env api conf = do {
     r \<leftarrow> jsonRequest env api ConfigEndpoint ''PUT'' (marshalConfig env conf);
     ret (case r of Inl err \<Rightarrow> Some err | Inr _ \<Rightarrow> None) }"

section \<open>Devices and folders\<close>

definition MyID :: "syncthing \<Rightarrow> string" where "MyID s = ss_myID (st_systemStatus s)"

definition GetDeviceFromID :: "syncthing \<Rightarrow> string \<Rightarrow> deviceConfiguration option" where
  "GetDeviceFromID s i = find (\<lambda>d. dv_deviceID d = i) (cf_devices (st_configuration s))"

definition shareWith :: "deviceConfiguration list \<Rightarrow> folderConfiguration \<Rightarrow> folderConfiguration" where
  "shareWith devices folder = folder\<lparr>fo_devices := map (\<lambda>d. \<lparr>fd_deviceID = dv_deviceID d,
     fd_introducedBy = dv_introducedBy d, fd_encryptionPassword = []\<rparr>) devices\<rparr>"

definition ShareFoldersWithDevices :: "stConfiguration \<Rightarrow> stConfiguration" where
  "ShareFoldersWithDevices c = c\<lparr>cf_folders := map (shareWith (cf_devices c)) (cf_folders c)\<rparr>"

text \<open>The devices that are not managed by the list of peers: this one, and those another device introduced.\<close>

definition unmanaged :: "string \<Rightarrow> deviceConfiguration \<Rightarrow> bool" where
  "unmanaged my d \<longleftrightarrow> dv_deviceID d = my \<or> dv_introducedBy d \<noteq> []"

definition peerDevice :: "string \<Rightarrow> syncthingPeer \<Rightarrow> deviceConfiguration" where
  "peerDevice i p = \<lparr>dv_deviceID = i, dv_name = [], dv_addresses = [sy_address p], dv_introducer = sy_introducer p,
     dv_introducedBy = [], dv_rest = []\<rparr>"

fun peerDevices :: "stEnv \<Rightarrow> syncthingPeer list \<Rightarrow> gerror + deviceConfiguration list" where
  "peerDevices env [] = Inr []"
| "peerDevices env (p # ps) =
     (case deviceIDFromString env (sy_ID p) of
        Inl err \<Rightarrow> Inl err
      | Inr i \<Rightarrow> (case peerDevices env ps of Inl err \<Rightarrow> Inl err | Inr ds \<Rightarrow> Inr (peerDevice i p # ds)))"

definition updateSyncthingDevices ::
  "stEnv \<Rightarrow> syncthingPeer list \<Rightarrow> syncthing option \<Rightarrow> gerror + syncthing" where
  "updateSyncthingDevices env peerList st =
     (case st of
        None \<Rightarrow> Inl (Errorf ''syncthing cannot be nil'')
      | Some s \<Rightarrow>
          (let c = st_configuration s in
           case peerDevices env peerList of
             Inl err \<Rightarrow> Inl err
           | Inr added \<Rightarrow> Inr (s\<lparr>st_configuration :=
               ShareFoldersWithDevices (c\<lparr>cf_devices := filter (unmanaged (MyID s)) (cf_devices c) @ added\<rparr>)\<rparr>)))"

definition selfPeer :: "string \<Rightarrow> syncthingPeer" where
  "selfPeer my = \<lparr>sy_address = [], sy_ID = my, sy_introducer = False\<rparr>"

definition desiredDevices :: "string \<Rightarrow> syncthingPeer list \<Rightarrow> (string \<times> syncthingPeer) list" where
  "desiredDevices my nodeList =
     fold (\<lambda>d m. if sy_ID d = my then m else map_put (sy_ID d) d m) nodeList [(my, selfPeer my)]"

text \<open>The first address of a device is read without a check.\<close>

fun currentDevices ::
  "string \<Rightarrow> deviceConfiguration list \<Rightarrow> (string \<times> syncthingPeer) list \<Rightarrow> (string \<times> syncthingPeer) list go" where
  "currentDevices my [] m = Ret m"
| "currentDevices my (d # ds) m =
     (if unmanaged my d then currentDevices my ds m
      else (case dv_addresses d of
          [] \<Rightarrow> Panic
        | a # _ \<Rightarrow> currentDevices my ds
            (map_put (dv_deviceID d) \<lparr>sy_address = a, sy_ID = dv_deviceID d, sy_introducer = False\<rparr> m)))"

definition syncthingNeedsReconfigure :: "syncthingPeer list \<Rightarrow> syncthing \<Rightarrow> bool go" where
  "syncthingNeedsReconfigure nodeList s =
     (let my = MyID s; newDevices = desiredDevices my nodeList in
      case currentDevices my (cf_devices (st_configuration s)) [(my, selfPeer my)] of
        Panic \<Rightarrow> Panic
      | Ret currentDevs \<Rightarrow>
          Ret (list_ex (\<lambda>(_, d). map_of currentDevs (sy_ID d) = None) newDevices \<or>
               list_ex (\<lambda>(_, d). map_of newDevices (sy_ID d) = None) currentDevs))"

section \<open>Addresses\<close>

text \<open>The pattern \<open>^(\w+:\/\/)[^\s]+$\<close>: a word, \<open>://\<close>, and at least one character, none of them a space.\<close>

definition isWordChar :: "char \<Rightarrow> bool" where
  "isWordChar c \<longleftrightarrow> byteIn 48 57 c \<or> byteIn 65 90 c \<or> byteIn 97 122 c \<or> c = CHR ''_''"

definition isPerlSpace :: "char \<Rightarrow> bool" where
  "isPerlSpace c \<longleftrightarrow> c \<in> {CHR 0x09, CHR 0x0A, CHR 0x0C, CHR 0x0D, CHR '' ''}"

definition hasURIPrefix :: "string \<Rightarrow> bool" where
  "hasURIPrefix address =
     (let word = takeWhile isWordChar address; rest = dropWhile isWordChar address in
      word \<noteq> [] \<and> HasPrefix rest ''://'' \<and> drop 3 rest \<noteq> [] \<and> list_all (\<lambda>c. \<not> isPerlSpace c) (drop 3 rest))"

definition asTCPAddress :: "string \<Rightarrow> string" where
  "asTCPAddress address = (if hasURIPrefix address then address else ''tcp://'' @ address)"

section \<open>Random strings\<close>

definition GenerateRandomBytes :: "cluster \<Rightarrow> nat \<Rightarrow> (gerror + string) kube" where
  "GenerateRandomBytes cl len = ask (\<lambda>tr. randRead cl tr len) (CRandom len)"

text \<open>The arithmetic is that of bytes.\<close>

definition acceptableByte :: "8 word \<Rightarrow> 8 word" where
  "acceptableByte b = (let lowerBound = 33; upperBound = 126; acceptableRange = upperBound - lowerBound + 1
     in b mod acceptableRange + lowerBound)"

definition GenerateRandomString :: "cluster \<Rightarrow> nat \<Rightarrow> (gerror + string) kube" where
  "GenerateRandomString cl len = do {
     b \<leftarrow> GenerateRandomBytes cl len;
     ret (case b of
       Inl err \<Rightarrow> Inl err
     | Inr bytes \<Rightarrow> Inr (map (\<lambda>c. char_of (unat (acceptableByte (of_char c)))) bytes)) }"

section \<open>Certificates\<close>

definition OrganizationName :: string where "OrganizationName = ''Backube''"
definition OrganizationUnit :: string where "OrganizationUnit = ''VolSync''"

definition bigIntOfBytes :: "string \<Rightarrow> nat" where
  "bigIntOfBytes bs = foldl (\<lambda>n c. 256 * n + of_char c) 0 bs"

definition createOrganizationCertificate :: "cluster \<Rightarrow> (gerror + x509Certificate) kube" where
  "createOrganizationCertificate cl = do {
     s \<leftarrow> GenerateRandomBytes cl 20;
     case s of
       Inl err \<Rightarrow> ret (Inl err)
     | Inr serialNumber \<Rightarrow> do {
         notBefore \<leftarrow> now cl;
         ret (Inr \<lparr>xc_serialNumber = bigIntOfBytes serialNumber, xc_notBefore = notBefore,
           xc_notAfter = timeAddDate cl notBefore 10 0 0, xc_organization = [OrganizationName],
           xc_organizationalUnit = [OrganizationUnit],
           xc_extKeyUsage = [ExtKeyUsageClientAuth, ExtKeyUsageServerAuth], xc_keyUsage = [],
           xc_isCA = False, xc_basicConstraintsValid = False, xc_dnsNames = []\<rparr>) } }"

definition generateCACertificate :: "cluster \<Rightarrow> (gerror + x509Certificate) kube" where
  "generateCACertificate cl = do {
     c \<leftarrow> createOrganizationCertificate cl;
     ret (case c of
       Inl err \<Rightarrow> Inl err
     | Inr ca \<Rightarrow> Inr (ca\<lparr>xc_isCA := True, xc_keyUsage := [KeyUsageDigitalSignature, KeyUsageCertSign],
         xc_basicConstraintsValid := True\<rparr>)) }"

definition generateSyncthingTLSCertificate :: "cluster \<Rightarrow> string list \<Rightarrow> (gerror + x509Certificate) kube" where
  "generateSyncthingTLSCertificate cl DNSNames = do {
     c \<leftarrow> createOrganizationCertificate cl;
     ret (case c of
       Inl err \<Rightarrow> Inl err
     | Inr cert \<Rightarrow> Inr (cert\<lparr>xc_dnsNames := DNSNames, xc_keyUsage := [KeyUsageDigitalSignature]\<rparr>)) }"

text \<open>\<open>pem.Encode\<close> without headers: base64 in lines of 64 characters between two marker lines.\<close>

definition base64Digit :: "nat \<Rightarrow> char" where
  "base64Digit n = ''ABCDEFGHIJKLMNOPQRSTUVWXYZabcdefghijklmnopqrstuvwxyz0123456789+/'' ! n"

fun base64 :: "string \<Rightarrow> string" where
  "base64 [] = []"
| "base64 [a] = (let n = of_char a in [base64Digit (n div 4), base64Digit (n mod 4 * 16), CHR ''='', CHR ''=''])"
| "base64 [a, b] = (let n = of_char a; m = of_char b in
     [base64Digit (n div 4), base64Digit (n mod 4 * 16 + m div 16), base64Digit (m mod 16 * 4), CHR ''=''])"
| "base64 (a # b # c # cs) = (let n = of_char a; m = of_char b; k = of_char c in
     [base64Digit (n div 4), base64Digit (n mod 4 * 16 + m div 16), base64Digit (m mod 16 * 4 + k div 64),
      base64Digit (k mod 64)] @ base64 cs)"

definition pemEncode :: "string \<Rightarrow> string \<Rightarrow> string" where
  "pemEncode blockType bytes = ''-----BEGIN '' @ blockType @ ''-----'' @ [CHR 0x0A] @
     concat (map (\<lambda>line. line @ [CHR 0x0A]) (chunks 64 (base64 bytes))) @
     ''-----END '' @ blockType @ ''-----'' @ [CHR 0x0A]"

text \<open>\<open>pem.Encode\<close> into a buffer and without headers has no error.\<close>

definition getCertificatePEMs :: "stEnv \<Rightarrow> string option \<Rightarrow> string option \<Rightarrow> gerror + string \<times> string" where
  "getCertificatePEMs env certBytes certPrivKey =
     (case (certPrivKey, certBytes) of
        (Some key, Some bytes) \<Rightarrow>
          Inr (pemEncode ''CERTIFICATE'' bytes, pemEncode ''RSA PRIVATE KEY'' (marshalPKCS1 env key))
      | _ \<Rightarrow> Inl (Errorf ''arguments cannot be nil''))"

definition newRsaKey :: "stEnv \<Rightarrow> (gerror + string) kube" where
  "newRsaKey env = ask (rsaGenerateKey env) CRsaKey"

definition generateTLSCertificatesForSyncthing ::
  "stEnv \<Rightarrow> cluster \<Rightarrow> string \<Rightarrow> (gerror + string \<times> string) kube" where
  "generateTLSCertificatesForSyncthing env cl APIServiceAddress = do {
     c \<leftarrow> generateSyncthingTLSCertificate cl [APIServiceAddress];
     case c of Inl err \<Rightarrow> ret (Inl err) | Inr cert \<Rightarrow> do {
     k \<leftarrow> newRsaKey env;
     case k of Inl err \<Rightarrow> ret (Inl err) | Inr certPrivKey \<Rightarrow> do {
     a \<leftarrow> generateCACertificate cl;
     case a of Inl err \<Rightarrow> ret (Inl err) | Inr ca \<Rightarrow> do {
     ck \<leftarrow> newRsaKey env;
     case ck of Inl err \<Rightarrow> ret (Inl err) | Inr caPrivKey \<Rightarrow> do {
     b \<leftarrow> ask (\<lambda>tr. createCertificate env tr cert ca (rsaPublicKey env certPrivKey) caPrivKey) (CRandom 0);
     ret (case b of
       Inl err \<Rightarrow> Inl err
     | Inr certBytes \<Rightarrow> getCertificatePEMs env (Some certBytes) (Some certPrivKey)) } } } } }"

section \<open>What the functions on devices compute\<close>

lemma dom_desired_aux:
  "dom (map_of (fold (\<lambda>d m. if sy_ID d = my then m else map_put (sy_ID d) d m) ps m0)) =
     dom (map_of m0) \<union> (sy_ID ` set ps - {my})"
  by (induction ps arbitrary: m0) auto

text \<open>Every entry is filed under its own ID.\<close>

definition filed :: "(string \<times> syncthingPeer) list \<Rightarrow> bool" where
  "filed m \<longleftrightarrow> (\<forall>(k, d) \<in> set m. sy_ID d = k)"

lemma filed_put: "filed m \<Longrightarrow> sy_ID d = k \<Longrightarrow> filed (map_put k d m)"
  by (induction m) (auto simp: filed_def map_put_def)

lemma filed_desired: "filed m0 \<Longrightarrow> filed (fold (\<lambda>d m. if sy_ID d = my then m else map_put (sy_ID d) d m) ps m0)"
  by (induction ps arbitrary: m0) (auto intro: filed_put)

lemma currentDevices_spec:
  "filed m \<Longrightarrow> if list_all (\<lambda>d. unmanaged my d \<or> dv_addresses d \<noteq> []) ds
   then \<exists>m'. currentDevices my ds m = Ret m' \<and> filed m' \<and>
     dom (map_of m') = dom (map_of m) \<union> dv_deviceID ` {d \<in> set ds. \<not> unmanaged my d}
   else currentDevices my ds m = Panic"
proof (induction ds arbitrary: m)
  case (Cons d ds)
  show ?case
  proof (cases "unmanaged my d \<or> dv_addresses d = []")
    case True
    then show ?thesis using Cons.IH[OF Cons.prems] by (auto split: if_splits)
  next
    case False
    then obtain a as where a: "dv_addresses d = a # as" by (cases "dv_addresses d") auto
    let ?m = "map_put (dv_deviceID d) \<lparr>sy_address = a, sy_ID = dv_deviceID d, sy_introducer = False\<rparr> m"
    have "filed ?m" by (rule filed_put[OF Cons.prems]) simp
    from Cons.IH[OF this] False a show ?thesis by (auto split: if_splits)
  qed
qed simp

lemma missing_iff:
  "filed m \<Longrightarrow> list_ex (\<lambda>(_, d). map_of m' (sy_ID d) = None) m \<longleftrightarrow> \<not> dom (map_of m) \<subseteq> dom (map_of m')"
proof -
  assume "filed m"
  then have "list_ex (\<lambda>(_, d). map_of m' (sy_ID d) = None) m \<longleftrightarrow> (\<exists>k \<in> fst ` set m. k \<notin> dom (map_of m'))"
    by (induction m) (auto simp: filed_def)
  then show ?thesis by (auto simp: dom_map_of_conv_image_fst)
qed

text \<open>
  The comparison of the list of peers with the devices of Syncthing, as a comparison of sets: it looks
  at the IDs alone, not at addresses or introducer flags.
\<close>

lemma syncthingNeedsReconfigure_iff:
  "syncthingNeedsReconfigure peers s =
     (if list_all (\<lambda>d. unmanaged (MyID s) d \<or> dv_addresses d \<noteq> []) (cf_devices (st_configuration s))
      then Ret (sy_ID ` set peers - {MyID s} \<noteq>
        dv_deviceID ` {d \<in> set (cf_devices (st_configuration s)). \<not> unmanaged (MyID s) d})
      else Panic)"
proof -
  let ?my = "MyID s" and ?ds = "cf_devices (st_configuration s)"
  have self: "filed [(?my, selfPeer ?my)]" by (simp add: filed_def selfPeer_def)
  have new: "filed (desiredDevices ?my peers)" "dom (map_of (desiredDevices ?my peers)) = insert ?my (sy_ID ` set peers - {?my})"
    using filed_desired[OF self] by (auto simp: desiredDevices_def dom_desired_aux)
  define wanted where "wanted = sy_ID ` set peers - {?my}"
  define present where "present = dv_deviceID ` {d \<in> set ?ds. \<not> unmanaged ?my d}"
  have "?my \<notin> wanted" "?my \<notin> present" by (auto simp: wanted_def present_def unmanaged_def)
  then have sets: "\<not> insert ?my wanted \<subseteq> insert ?my present \<or> \<not> insert ?my present \<subseteq> insert ?my wanted \<longleftrightarrow> wanted \<noteq> present"
    by blast
  from new(2) have new2: "dom (map_of (desiredDevices ?my peers)) = insert ?my wanted" by (simp add: wanted_def)
  show ?thesis
  proof (cases "list_all (\<lambda>d. unmanaged ?my d \<or> dv_addresses d \<noteq> []) ?ds")
    case True
    with currentDevices_spec[OF self, of ?my ?ds] obtain m' where
      m': "currentDevices ?my ?ds [(?my, selfPeer ?my)] = Ret m'" "filed m'" "dom (map_of m') = insert ?my present"
      by (auto simp: present_def)
    have "syncthingNeedsReconfigure peers s = Ret (list_ex (\<lambda>(_, d). map_of m' (sy_ID d) = None) (desiredDevices ?my peers) \<or>
        list_ex (\<lambda>(_, d). map_of (desiredDevices ?my peers) (sy_ID d) = None) m')"
      by (simp add: syncthingNeedsReconfigure_def Let_def m'(1))
    also have "\<dots> = Ret (wanted \<noteq> present)"
      unfolding missing_iff[OF new(1)] missing_iff[OF m'(2)] m'(3) new2 sets ..
    finally show ?thesis using True by (simp add: wanted_def present_def)
  next
    case False
    with currentDevices_spec[OF self, of ?my ?ds] show ?thesis
      by (simp add: syncthingNeedsReconfigure_def Let_def)
  qed
qed

text \<open>What an update makes of the devices, and how the next comparison comes out.\<close>

lemma peerDevices_Inr:
  "peerDevices env ps = Inr ds \<Longrightarrow> list_all2 (\<lambda>p d. \<exists>i. deviceIDFromString env (sy_ID p) = Inr i \<and> d = peerDevice i p) ps ds"
  by (induction ps arbitrary: ds) (auto split: sum.splits)

lemma peerDevices_canonical:
  "list_all (\<lambda>p. deviceIDFromString env (sy_ID p) = Inr (sy_ID p)) ps \<Longrightarrow>
   peerDevices env ps = Inr (map (\<lambda>p. peerDevice (sy_ID p) p) ps)"
  by (induction ps) auto

lemma peerDevice_managed: "unmanaged my (peerDevice i p) \<longleftrightarrow> i = my" "dv_deviceID (peerDevice i p) = i"
  "dv_addresses (peerDevice i p) = [sy_address p]"
  by (auto simp: unmanaged_def peerDevice_def)

lemma cf_share [simp]: "cf_devices (ShareFoldersWithDevices c) = cf_devices c"
  "cf_guiUser (ShareFoldersWithDevices c) = cf_guiUser c" "cf_guiPassword (ShareFoldersWithDevices c) = cf_guiPassword c"
  by (simp_all add: ShareFoldersWithDevices_def)

lemma updateSyncthingDevices_canonical:
  assumes "list_all (\<lambda>p. deviceIDFromString env (sy_ID p) = Inr (sy_ID p)) peers"
  obtains s' where "updateSyncthingDevices env peers (Some s) = Inr s'" "MyID s' = MyID s"
    "cf_devices (st_configuration s') = filter (unmanaged (MyID s)) (cf_devices (st_configuration s)) @
       map (\<lambda>p. peerDevice (sy_ID p) p) peers"
    "syncthingNeedsReconfigure peers s' = Ret False"
proof -
  let ?c = "ShareFoldersWithDevices ((st_configuration s)\<lparr>cf_devices := filter (unmanaged (MyID s)) (cf_devices (st_configuration s)) @
    map (\<lambda>p. peerDevice (sy_ID p) p) peers\<rparr>)"
  let ?s = "s\<lparr>st_configuration := ?c\<rparr>"
  have my: "MyID ?s = MyID s" by (simp add: MyID_def)
  have "list_all (\<lambda>d. unmanaged (MyID s) d \<or> dv_addresses d \<noteq> []) (cf_devices ?c)"
    by (auto simp: list_all_iff peerDevice_managed)
  moreover have "{d \<in> set (cf_devices ?c). \<not> unmanaged (MyID s) d} = (\<lambda>p. peerDevice (sy_ID p) p) ` {p \<in> set peers. sy_ID p \<noteq> MyID s}"
    by (auto simp: peerDevice_managed)
  then have "sy_ID ` set peers - {MyID s} = dv_deviceID ` {d \<in> set (cf_devices ?c). \<not> unmanaged (MyID s) d}"
    by (auto simp: image_image peerDevice_managed)
  ultimately have "syncthingNeedsReconfigure peers ?s = Ret False"
    unfolding syncthingNeedsReconfigure_iff my by simp
  with my show thesis
    by (intro that[of ?s]) (auto simp: updateSyncthingDevices_def Let_def peerDevices_canonical[OF assms])
qed

text \<open>
  An ID that Syncthing writes differently (it accepts lower case and IDs without dashes) keeps the
  comparison from ever coming out even.
\<close>

lemma noncanonical_never_settles:
  assumes "updateSyncthingDevices env peers (Some s) = Inr s'" "p \<in> set peers" "sy_ID p \<noteq> MyID s"
    and "\<And>q. q \<in> set peers \<Longrightarrow> deviceIDFromString env (sy_ID q) \<noteq> Inr (sy_ID p)"
  shows "syncthingNeedsReconfigure peers s' = Ret True"
proof -
  from assms(1) obtain ds where ds: "peerDevices env peers = Inr ds"
    and s': "cf_devices (st_configuration s') = filter (unmanaged (MyID s)) (cf_devices (st_configuration s)) @ ds" "MyID s' = MyID s"
    by (auto simp: updateSyncthingDevices_def Let_def MyID_def split: sum.splits)
  have all: "\<exists>q \<in> set peers. \<exists>i. deviceIDFromString env (sy_ID q) = Inr i \<and> d = peerDevice i q" if "d \<in> set ds" for d
    using peerDevices_Inr[OF ds] that unfolding list_all2_conv_all_nth in_set_conv_nth by fastforce
  have addr: "list_all (\<lambda>d. unmanaged (MyID s') d \<or> dv_addresses d \<noteq> []) (cf_devices (st_configuration s'))"
    using all by (fastforce simp: list_all_iff s' peerDevice_managed)
  have "sy_ID p \<notin> dv_deviceID ` {d \<in> set (cf_devices (st_configuration s')). \<not> unmanaged (MyID s') d}"
    using all assms(4) by (fastforce simp: s' peerDevice_managed)
  then have "sy_ID ` set peers - {MyID s'} \<noteq> dv_deviceID ` {d \<in> set (cf_devices (st_configuration s')). \<not> unmanaged (MyID s') d}"
    using assms(2,3) s'(2) by auto
  then show ?thesis unfolding syncthingNeedsReconfigure_iff using addr by simp
qed

section \<open>Random strings are printable\<close>

lemma acceptableByte_range: "33 \<le> unat (acceptableByte b) \<and> unat (acceptableByte b) \<le> 126"
proof -
  have "unat (b mod 94) = unat b mod 94" by (simp add: unat_mod)
  then have m: "unat (b mod 94) < 94" by simp
  then have "unat (b mod 94 + 33) = unat (b mod 94) + 33"
    by (subst unat_add_lem[THEN iffD1]) (simp_all)
  with m show ?thesis by (simp add: acceptableByte_def Let_def)
qed

definition printable :: "string \<Rightarrow> bool" where
  "printable s \<longleftrightarrow> list_all (byteIn 33 126) s"

lemma random_printable: "printable (map (\<lambda>c. char_of (unat (acceptableByte (of_char c)))) bytes)"
proof -
  have "byteIn 33 126 (char_of (unat (acceptableByte b)) :: char)" for b
    using acceptableByte_range[of b] by (simp add: byteIn_def)
  then show ?thesis by (simp add: printable_def list_all_iff)
qed

section \<open>What the requests do\<close>

lemma emits_GenerateRandomString:
  "P (CRandom n) \<Longrightarrow> emits P (GenerateRandomString cl n) (\<lambda>r. \<forall>s. r = Inr s \<longrightarrow> printable s)"
  unfolding GenerateRandomString_def GenerateRandomBytes_def
  by (rule emits_step) (auto intro!: emits_ask emits_rules simp: random_printable split: sum.splits)

lemma emits_certificates:
  assumes "\<And>n. P (CRandom n)" "P CNow" "P CRsaKey"
  shows "emits P (generateTLSCertificatesForSyncthing env cl a) (\<lambda>_. True)"
proof -
  have org: "emits P (createOrganizationCertificate cl) (\<lambda>_. True)"
    unfolding createOrganizationCertificate_def GenerateRandomBytes_def
    by (rule emits_step) (auto intro!: emits_ask emits_rules emits_step[of _ "now _"] assms split: sum.splits)
  have ca: "emits P (generateCACertificate cl) (\<lambda>_. True)" "emits P (generateSyncthingTLSCertificate cl names) (\<lambda>_. True)" for names
    unfolding generateCACertificate_def generateSyncthingTLSCertificate_def
    by (rule emits_step[OF org], auto intro!: emits_rules)+
  have key: "emits P (newRsaKey env) (\<lambda>_. True)"
    unfolding newRsaKey_def by (rule emits_ask) (simp_all add: assms)
  show ?thesis
    unfolding generateTLSCertificatesForSyncthing_def
    by (auto intro!: emits_rules emits_step[OF ca(1)] emits_step[OF ca(2)] emits_step[OF key] emits_ask
        emits_step[of _ "ask _ _"] assms split: sum.splits)
qed

lemma emits_jsonRequest:
  assumes "\<And>body. requestBody = Inr body \<Longrightarrow> P (CHttp method (ac_APIURL api @ endpoint) (ac_APIKey api) body)"
    and "\<And>a. Q a"
  shows "emits P (jsonRequest env api endpoint method requestBody) Q"
  unfolding jsonRequest_def Let_def
  by (auto intro!: emits_rules emits_step[of _ "ask _ _"] emits_ask assms split: sum.splits option.splits)

text \<open>The requests of \<open>Fetch\<close> read; \<open>PublishConfig\<close> writes the configuration.\<close>

definition readsAPI :: "apiConfig \<Rightarrow> call \<Rightarrow> bool" where
  "readsAPI api c \<longleftrightarrow> (\<exists>endpoint \<in> {ConfigEndpoint, SystemConnectionsEndpoint, SystemStatusEndpoint}.
     c = CHttp ''GET'' (ac_APIURL api @ endpoint) (ac_APIKey api) jsonNull)"

definition writesAPI :: "apiConfig \<Rightarrow> call \<Rightarrow> bool" where
  "writesAPI api c \<longleftrightarrow> (\<exists>body. c = CHttp ''PUT'' (ac_APIURL api @ ConfigEndpoint) (ac_APIKey api) body)"

lemma emits_Fetch:
  "emits (readsAPI api) (Fetch env api) (\<lambda>r. \<forall>s. r = Inr s \<longrightarrow> (\<exists>b. unmarshalConfig env b = Inr (st_configuration s)))"
proof -
  have doc: "emits (readsAPI api) (fetchDocument env api endpoint u) (\<lambda>r. \<forall>x. r = Inr x \<longrightarrow> (\<exists>b. u b = Inr x))"
    if "endpoint \<in> {ConfigEndpoint, SystemConnectionsEndpoint, SystemStatusEndpoint}" for endpoint and u :: "string \<Rightarrow> gerror + 'x"
    unfolding fetchDocument_def
    by (rule emits_step[OF emits_jsonRequest]) (use that in \<open>auto simp: readsAPI_def intro!: emits_rules split: sum.splits\<close>)
  show ?thesis
    unfolding Fetch_def fetchConfig_def fetchSystemConnections_def fetchSystemStatus_def
    by (rule emits_bind[OF doc]) (auto intro!: emits_rules emits_bind[OF doc] split: sum.splits, blast)
qed

lemma emits_PublishConfig: "emits (writesAPI api) (PublishConfig env api conf) (\<lambda>_. True)"
  unfolding PublishConfig_def
  by (rule emits_step[OF emits_jsonRequest]) (auto simp: writesAPI_def intro!: emits_rules)

end
