(* ===== verification/Syncthing_Mover.thy ===== *)
theory Syncthing_Mover
  imports Syncthing_Api
begin

text \<open>
  The Syncthing mover (\<open>mover/syncthing/mover.go\<close>, \<open>builder.go\<close>): a Deployment that runs all the time, two
  services, a secret with the credentials, and a conversation with the REST API of the running
  instance. A synchronization never completes; it is repeated after a while.
\<close>

record syncthingMover =
  sym_owner :: objmeta
  sym_saHandler :: saHandler
  sym_configCapacity :: "quantity option"
  sym_configStorageClass :: "string option"
  sym_configAccessModes :: "accessMode list option"
  sym_containerImage :: string
  sym_paused :: bool
  sym_dataPVCName :: string
  sym_peerList :: "syncthingPeer list"
  sym_status :: rsSyncthingStatus
  sym_serviceType :: serviceType
  sym_apiConfig :: apiConfig
  sym_privileged :: bool
  sym_moverConfig :: moverConfig

section \<open>Names\<close>

definition getAPIServiceName :: "syncthingMover \<Rightarrow> string" where
  "getAPIServiceName m =
     (let serviceName = VolSyncPrefix @ om_name (sym_owner m) @ ''-api'' in
      if length serviceName > 63 then VolSyncPrefix @ ''api-'' @ GetHashedName (om_name (sym_owner m))
      else serviceName)"

definition getDataServiceName :: "syncthingMover \<Rightarrow> string" where
  "getDataServiceName m =
     (let serviceName = VolSyncPrefix @ om_name (sym_owner m) @ ''-data'' in
      if length serviceName > 63 then VolSyncPrefix @ ''data-'' @ GetHashedName (om_name (sym_owner m))
      else serviceName)"

definition getAPIServiceDNS :: "syncthingMover \<Rightarrow> string" where
  "getAPIServiceDNS m = getAPIServiceName m @ ''.'' @ om_namespace (sym_owner m)"

definition apiPort :: int where "apiPort = 8384"
definition dataPort :: int where "dataPort = 22000"

definition getAPIServiceAddress :: "syncthingMover \<Rightarrow> string" where
  "getAPIServiceAddress m = ''https://'' @ getAPIServiceDNS m @ '':'' @ itoa apiPort"

definition stServiceSelector :: "syncthingMover \<Rightarrow> strmap" where
  "stServiceSelector m = [
     (''app.kubernetes.io/name'', GetOwnerNameLabelValue [] (om_name (sym_owner m))),
     (''app.kubernetes.io/component'', ''syncthing-mover''),
     (''app.kubernetes.io/part-of'', ''volsync'')]"

section \<open>Volumes and credentials\<close>

definition configCapacity :: quantity where "configCapacity = 1024 * 1024 * 1024"

definition configOptions :: "syncthingMover \<Rightarrow> pvc \<Rightarrow> volumeOptions" where
  "configOptions m dataPVC = \<lparr>vo_copyMethod = CopyMethodDirect,
     vo_capacity = Some (orElse (sym_configCapacity m) configCapacity),
     vo_storageClassName = (case sym_configStorageClass m of Some c \<Rightarrow> Some c | None \<Rightarrow> pvc_storageClassName dataPVC),
     vo_accessModes = (case sym_configAccessModes m of Some am \<Rightarrow> Some am | None \<Rightarrow> pvc_accessModes dataPVC),
     vo_volumeSnapshotClassName = None\<rparr>"

definition ensureConfigPVC :: "cluster \<Rightarrow> syncthingMover \<Rightarrow> pvc \<Rightarrow> (gerror + pvc) kube" where
  "ensureConfigPVC cl m dataPVC =
     (case NewVolumeHandler [WithClient, WithOwner (sym_owner m), WithRecorder,
          FromVolumeOptions (configOptions m dataPVC)] of
        Inl err \<Rightarrow> ret (Inl err)
      | Inr configVh \<Rightarrow> do {
          (r, _) \<leftarrow> EnsureNewPVC cl configVh (VolSyncPrefix @ om_name (sym_owner m) @ ''-config'') False;
          ret r })"

definition stEnsureDataPVC :: "cluster \<Rightarrow> syncthingMover \<Rightarrow> (gerror + pvc) kube" where
  "stEnsureDataPVC cl m = kGet (pvcC cl) (om_namespace (sym_owner m), sym_dataPVCName m)"

definition httpsCertDataKey :: string where "httpsCertDataKey = ''httpsCertPEM''"
definition httpsKeyDataKey :: string where "httpsKeyDataKey = ''httpsKeyPEM''"
definition apiKeyDataKey :: string where "apiKeyDataKey = ''apikey''"
definition usernameDataKey :: string where "usernameDataKey = ''username''"
definition passwordDataKey :: string where "passwordDataKey = ''password''"

definition apiSecret0 :: "syncthingMover \<Rightarrow> secret" where
  "apiSecret0 m = newSecret (om_namespace (sym_owner m)) (VolSyncPrefix @ om_name (sym_owner m))"

definition newAPISecret ::
  "syncthingMover \<Rightarrow> string \<Rightarrow> string \<Rightarrow> string \<times> string \<Rightarrow> ownerref list \<Rightarrow> secret" where
  "newAPISecret m apiKey password pems refs = snd (SetOwnedByVolSync meta_ops ((apiSecret0 m)\<lparr>
     sec_type := ''Opaque'',
     sec_data := Some [(apiKeyDataKey, apiKey), (usernameDataKey, ''syncthing''), (passwordDataKey, password),
       (httpsCertDataKey, fst pems), (httpsKeyDataKey, snd pems)],
     om_ownerRefs := refs\<rparr>))"

definition createSecretAPIKey :: "stEnv \<Rightarrow> cluster \<Rightarrow> syncthingMover \<Rightarrow> (gerror + secret) kube" where
  "createSecretAPIKey env cl m = do {
     k \<leftarrow> GenerateRandomString cl 32;
     case k of Inl err \<Rightarrow> ret (Inl err) | Inr randomAPIKey \<Rightarrow> do {
     p \<leftarrow> GenerateRandomString cl 32;
     case p of Inl err \<Rightarrow> ret (Inl err) | Inr randomPassword \<Rightarrow> do {
     c \<leftarrow> generateTLSCertificatesForSyncthing env cl (getAPIServiceDNS m);
     case c of Inl err \<Rightarrow> ret (Inl err) | Inr pems \<Rightarrow>
       (case setControllerReference cl (sym_owner m) [] of
          Inl err \<Rightarrow> ret (Inl err)
        | Inr refs \<Rightarrow> kCreate (secretC cl) (newAPISecret m randomAPIKey randomPassword pems refs)) } } }"

definition ensureSecretAPIKey :: "stEnv \<Rightarrow> cluster \<Rightarrow> syncthingMover \<Rightarrow> (gerror + secret) kube" where
  "ensureSecretAPIKey env cl m = do {
     r \<leftarrow> kGet (secretC cl) (objKey (apiSecret0 m));
     case r of
       Inr s \<Rightarrow> ret (Inr s)
     | Inl err \<Rightarrow> if \<not> isNotFound err then ret (Inl err) else createSecretAPIKey env cl m }"

section \<open>The Deployment\<close>

definition stEnvVars :: "cluster \<Rightarrow> syncthingMover \<Rightarrow> secret \<Rightarrow> envvar list" where
  "stEnvVars cl m apiSecret = AppendDebugMoverEnvVar (sym_owner m) (AppendEnvVarsForClusterWideProxy cl [
     envVal ''SYNCTHING_CONFIG_DIR'' ''/mover-syncthing/config'',
     envVal ''SYNCTHING_DATA_DIR'' ''/data'',
     envVal ''SYNCTHING_CERT_DIR'' ''/certs'',
     \<lparr>ev_name = ''STGUIAPIKEY'', ev_value = [], ev_secretRef = Some (om_name apiSecret, apiKeyDataKey, False)\<rparr>])"

definition stContainer :: "cluster \<Rightarrow> syncthingMover \<Rightarrow> secret \<Rightarrow> container" where
  "stContainer cl m apiSecret = \<lparr>
     ct_name = ''syncthing'', ct_env = stEnvVars cl m apiSecret, ct_envFrom = [],
     ct_command = [''/mover-syncthing/entry.sh''], ct_args = [''run''], ct_image = sym_containerImage m,
     ct_imagePullPolicy = [], ct_securityContext = Some moverSecurityContext,
     ct_volumeMounts = [mountAt ''syncthing-config'' ''/mover-syncthing/config'', mountAt ''syncthing-data'' ''/data'',
       mountAt ''https-certs'' ''/certs'', mountAt ''tempdir'' ''/tmp''],
     ct_resources = noResources, ct_volumeDevices = [],
     ct_ports = [(''api'', apiPort), (''data'', dataPort)]\<rparr>"

definition stVolumes :: "pvc \<Rightarrow> pvc \<Rightarrow> secret \<Rightarrow> volume list" where
  "stVolumes dataPVC configPVC apiSecret = [
     \<lparr>vol_name = ''syncthing-config'', vol_source = noVolumeSource\<lparr>vs_pvc := Some (om_name configPVC, False)\<rparr>\<rparr>,
     \<lparr>vol_name = ''syncthing-data'', vol_source = noVolumeSource\<lparr>vs_pvc := Some (om_name dataPVC, False)\<rparr>\<rparr>,
     \<lparr>vol_name = ''https-certs'', vol_source = noVolumeSource\<lparr>vs_secret := Some \<lparr>sv_secretName = om_name apiSecret,
        sv_items = [(httpsKeyDataKey, ''https-key.pem'', None), (httpsCertDataKey, ''https-cert.pem'', None)],
        sv_defaultMode = Some 384\<rparr>\<rparr>\<rparr>,
     \<lparr>vol_name = ''tempdir'', vol_source = noVolumeSource\<lparr>vs_emptyDir := Some (''Memory'', None)\<rparr>\<rparr>]"

definition stTemplate ::
  "cluster \<Rightarrow> syncthingMover \<Rightarrow> affinityInfo \<Rightarrow> pvc \<Rightarrow> pvc \<Rightarrow> serviceaccount \<Rightarrow> secret \<Rightarrow> string \<Rightarrow> podtemplate" where
  "stTemplate cl m aff dataPVC configPVC sa apiSecret name =
     (snd (AddAllLabels meta_ops ((snd (SetOwnedByVolSync meta_ops emptyTemplate))\<lparr>om_name := name\<rparr>) (stServiceSelector m)))\<lparr>
       pt_nodeSelector := ai_nodeSelector aff, pt_tolerations := ai_tolerations aff,
       pt_serviceAccountName := om_name sa, pt_restartPolicy := ''Always'',
       pt_terminationGracePeriodSeconds := Some 10,
       pt_containers := [stContainer cl m apiSecret], pt_volumes := stVolumes dataPVC configPVC apiSecret\<rparr>"

definition stResources :: resources where
  "stResources = noResources\<lparr>rq_limits := [(''memory'', 1024 * 1024 * 1024 * 10 ^ 9)]\<rparr>"

definition stCapabilities :: "string list" where
  "stCapabilities = [''DAC_OVERRIDE'', ''CHOWN'', ''FOWNER'']"

definition stFinish :: "bool \<Rightarrow> podtemplate \<Rightarrow> podtemplate" where
  "stFinish privileged t =
     (let t1 = setPrivileges stCapabilities privileged t in
      if privileged
      then onContainer0 (\<lambda>c. c\<lparr>ct_securityContext := map_option (\<lambda>s. s\<lparr>sx_runAsNonRoot := Some False\<rparr>) (ct_securityContext c)\<rparr>) t1
      else t1)"

definition deploymentMutate ::
  "cluster \<Rightarrow> syncthingMover \<Rightarrow> affinityInfo \<Rightarrow> pvc \<Rightarrow> pvc \<Rightarrow> serviceaccount \<Rightarrow> secret \<Rightarrow>
   deployment \<Rightarrow> (gerror option \<times> deployment) kube" where
  "deploymentMutate cl m aff dataPVC configPVC sa apiSecret d =
     (case setControllerReference cl (sym_owner m) (om_ownerRefs d) of
        Inl err \<Rightarrow> ret (Some err, d)
      | Inr refs \<Rightarrow>
          (let d1 = (snd (SetOwnedByVolSync meta_ops (d\<lparr>om_ownerRefs := refs\<rparr>)))\<lparr>dep_replicas := Some 1,
               dep_matchLabels := stServiceSelector m, dep_strategy := ''Recreate''\<rparr>;
               t = UpdatePodTemplateSpecFromMoverConfig (stTemplate cl m aff dataPVC configPVC sa apiSecret (om_name d1))
                 (sym_moverConfig m) stResources
           in do {
             (verr, t1) \<leftarrow> moverVolumesLoop cl (om_namespace (sym_owner m)) (mc_volumes (sym_moverConfig m)) t;
             ret (case verr of
               Some err \<Rightarrow> (Some err, d1\<lparr>dep_template := t1\<rparr>)
             | None \<Rightarrow> (None, d1\<lparr>dep_template := stFinish (sym_privileged m) t1\<rparr>)) }))"

definition deploymentObject :: "syncthingMover \<Rightarrow> deployment" where
  "deploymentObject m = (newDeployment (om_namespace (sym_owner m)) (VolSyncPrefix @ om_name (sym_owner m)))\<lparr>
     om_labels := [(''app'', GetOwnerNameLabelValue [] (om_name (sym_owner m)))]\<rparr>"

definition ensureDeployment ::
  "cluster \<Rightarrow> syncthingMover \<Rightarrow> pvc \<Rightarrow> pvc \<Rightarrow> serviceaccount \<Rightarrow> secret \<Rightarrow> (gerror + deployment) kube" where
  "ensureDeployment cl m dataPVC configPVC sa apiSecret = do {
     a \<leftarrow> AffinityFromVolume cl (Some dataPVC);
     case a of
       Inl err \<Rightarrow> ret (Inl err)
     | Inr aff \<Rightarrow> do {
         (_, err, d) \<leftarrow> CreateOrUpdate (deploymentC cl) (deploymentObject m)
            (deploymentMutate cl m aff dataPVC configPVC sa apiSecret);
         ret (case err of Some e \<Rightarrow> Inl e | None \<Rightarrow> Inr d) } }"

section \<open>The services\<close>

definition stServicePort :: "string \<Rightarrow> int \<Rightarrow> intOrString \<Rightarrow> serviceport" where
  "stServicePort name port target = \<lparr>sport_name = name, sport_protocol = ''TCP'', sport_port = port,
     sport_targetPort = target, sport_nodePort = 0, sport_appProtocol = None\<rparr>"

text \<open>The two services differ in their port, and only the data service sets its type.\<close>

definition stServiceMutate ::
  "cluster \<Rightarrow> syncthingMover \<Rightarrow> serviceType option \<Rightarrow> strmap \<Rightarrow> serviceport \<Rightarrow> service \<Rightarrow> (gerror option \<times> service) kube" where
  "stServiceMutate cl m ty selector port svc =
     (case setControllerReference cl (sym_owner m) (om_ownerRefs svc) of
        Inl err \<Rightarrow> ret (Some err, svc)
      | Inr refs \<Rightarrow>
          (let s = snd (SetOwnedByVolSync meta_ops (svc\<lparr>om_ownerRefs := refs\<rparr>)) in
           ret (None, s\<lparr>svc_type := orElse ty (svc_type s), svc_selector := selector, svc_ports := [port]\<rparr>)))"

definition stService ::
  "cluster \<Rightarrow> syncthingMover \<Rightarrow> string \<Rightarrow> serviceType option \<Rightarrow> strmap \<Rightarrow> serviceport \<Rightarrow> (gerror + service) kube" where
  "stService cl m name ty selector port = do {
     (_, err, svc) \<leftarrow> CreateOrUpdate (serviceC cl) (newService (om_namespace (sym_owner m)) name)
        (stServiceMutate cl m ty selector port);
     ret (case err of Some e \<Rightarrow> Inl e | None \<Rightarrow> Inr svc) }"

definition ensureAPIService :: "cluster \<Rightarrow> syncthingMover \<Rightarrow> deployment \<Rightarrow> (gerror + service) kube" where
  "ensureAPIService cl m d = stService cl m (getAPIServiceName m) None (om_labels (dep_template d))
     (stServicePort ''api'' apiPort (NamedPort ''api''))"

definition ensureDataService :: "cluster \<Rightarrow> syncthingMover \<Rightarrow> deployment \<Rightarrow> (gerror + service) kube" where
  "ensureDataService cl m d = stService cl m (getDataServiceName m) (Some (sym_serviceType m)) (om_labels (dep_template d))
     (stServicePort ''data'' dataPort (IntPort dataPort))"

definition GetDataServiceAddress :: "service \<Rightarrow> gerror + string" where
  "GetDataServiceAddress svc =
     (let address = GetServiceAddress svc in
      if address = [] then Inl (Errorf ''could not get an address for the service'')
      else Inr (asTCPAddress (address @ '':'' @ itoa dataPort)))"

text \<open>The service and the secret, unless a step ended early, with or without an error.\<close>

definition ensureNecessaryResources ::
  "stEnv \<Rightarrow> cluster \<Rightarrow> syncthingMover \<Rightarrow> ((service \<times> secret) option \<times> gerror option) kube" where
  "ensureNecessaryResources env cl m = do {
     r1 \<leftarrow> stEnsureDataPVC cl m;
     case r1 of Inl err \<Rightarrow> ret (None, Some err) | Inr dataPVC \<Rightarrow> do {
     r2 \<leftarrow> ensureConfigPVC cl m dataPVC;
     case r2 of Inl err \<Rightarrow> ret (None, Some err) | Inr configPVC \<Rightarrow> do {
     r3 \<leftarrow> ensureSecretAPIKey env cl m;
     case r3 of Inl err \<Rightarrow> ret (None, Some err) | Inr secretAPIKey \<Rightarrow> do {
     verr \<leftarrow> ValidateMoverVolumes cl (om_namespace (sym_owner m)) (mc_volumes (sym_moverConfig m));
     case verr of Some err \<Rightarrow> ret (None, Some err) | None \<Rightarrow> do {
     (sa, serr) \<leftarrow> saReconcile cl (sym_saHandler m);
     case sa of None \<Rightarrow> ret (None, serr) | Some account \<Rightarrow> if serr \<noteq> None then ret (None, serr) else do {
     r4 \<leftarrow> ensureDeployment cl m dataPVC configPVC account secretAPIKey;
     case r4 of Inl err \<Rightarrow> ret (None, Some err) | Inr d \<Rightarrow> do {
     r5 \<leftarrow> ensureAPIService cl m d;
     case r5 of Inl err \<Rightarrow> ret (None, Some err) | Inr _ \<Rightarrow> do {
     r6 \<leftarrow> ensureDataService cl m d;
     ret (case r6 of
       Inl err \<Rightarrow> (None, Some err)
     | Inr dataService \<Rightarrow> (Some (dataService, secretAPIKey), None)) } } } } } } } }"

section \<open>The conversation with Syncthing\<close>

fun duplicatePeer :: "string list \<Rightarrow> syncthingPeer list \<Rightarrow> gerror option" where
  "duplicatePeer uniquePeers [] = None"
| "duplicatePeer uniquePeers (p # ps) =
     (if sy_ID p \<in> set uniquePeers then Some (Errorf (''duplicate peer found in peer list: '' @ sy_ID p))
      else duplicatePeer (sy_ID p # uniquePeers) ps)"

definition validatePeerList :: "syncthingMover \<Rightarrow> gerror option" where
  "validatePeerList m = duplicatePeer [] (sym_peerList m)"

definition secretField :: "secret \<Rightarrow> string \<Rightarrow> string" where
  "secretField s k = map_get (orElse (sec_data s) []) k"

definition loadTLSConfigFromSecret :: "secret \<Rightarrow> gerror + tlsConfig" where
  "loadTLSConfigFromSecret apiSecret =
     (case map_of (orElse (sec_data apiSecret) []) httpsCertDataKey of
        None \<Rightarrow> Inl (Errorf ''could not find the server cert in the secret'')
      | Some serverCert \<Rightarrow> Inr \<lparr>tc_minVersion = versionTLS12, tc_rootCAs = Some serverCert\<rparr>)"

text \<open>The secret is dereferenced: without one the code panics.\<close>

definition configureSyncthingAPIClient ::
  "secret option \<Rightarrow> syncthingMover \<Rightarrow> (gerror option \<times> syncthingMover) go" where
  "configureSyncthingAPIClient apiSecret m =
     (case apiSecret of
        None \<Rightarrow> Panic
      | Some s \<Rightarrow>
          (let api = sym_apiConfig m;
               url = (if ac_APIURL api = [] then getAPIServiceAddress m else ac_APIURL api);
               api1 = api\<lparr>ac_APIURL := url, ac_APIKey := secretField s apiKeyDataKey\<rparr>
           in Ret (case loadTLSConfigFromSecret s of
                Inl err \<Rightarrow> (Some err, m\<lparr>sym_apiConfig := api1\<rparr>)
              | Inr clientConfig \<Rightarrow>
                  (let api2 = api1\<lparr>ac_TLSConfig := Some clientConfig\<rparr>
                   in (None, m\<lparr>sym_apiConfig := api2\<lparr>ac_Client := Some (TLSClient api2)\<rparr>\<rparr>)))))"

definition setCredentials :: "secret \<Rightarrow> syncthing \<Rightarrow> syncthing option" where
  "setCredentials apiSecret s =
     (let c = st_configuration s in
      if cf_guiUser c \<noteq> secretField apiSecret usernameDataKey \<or> cf_guiPassword c = []
      then Some (s\<lparr>st_configuration := c\<lparr>cf_guiUser := secretField apiSecret usernameDataKey,
        cf_guiPassword := secretField apiSecret passwordDataKey\<rparr>\<rparr>)
      else None)"

definition publishIfChanged ::
  "stEnv \<Rightarrow> syncthingMover \<Rightarrow> secret \<Rightarrow> bool \<Rightarrow> syncthing \<Rightarrow> gerror option kube" where
  "publishIfChanged env m apiSecret hasChanged s =
     (case setCredentials apiSecret s of
        Some s1 \<Rightarrow> PublishConfig env (sym_apiConfig m) (st_configuration s1)
      | None \<Rightarrow> if hasChanged then PublishConfig env (sym_apiConfig m) (st_configuration s) else ret None)"

definition ensureIsConfigured ::
  "stEnv \<Rightarrow> syncthingMover \<Rightarrow> secret option \<Rightarrow> syncthing option \<Rightarrow> gerror option go kube" where
  "ensureIsConfigured env m apiSecret st =
     (case (apiSecret, st) of
        (Some s, Some syn) \<Rightarrow>
          if list_ex (\<lambda>p. sy_ID p = MyID syn) (sym_peerList m)
          then ret (Ret (Some (Errorf ''the peer list contains the node itself'')))
          else (case syncthingNeedsReconfigure (sym_peerList m) syn of
              Panic \<Rightarrow> ret Panic
            | Ret needed \<Rightarrow>
                if needed then
                  (case updateSyncthingDevices env (sym_peerList m) (Some syn) of
                     Inl err \<Rightarrow> ret (Ret (Some err))
                   | Inr syn1 \<Rightarrow> do { e \<leftarrow> publishIfChanged env m s True syn1; ret (Ret e) })
                else do { e \<leftarrow> publishIfChanged env m s False syn; ret (Ret e) })
      | _ \<Rightarrow> ret (Ret (Some (Errorf ''arguments cannot be nil''))))"

definition connectedPeer :: "syncthing \<Rightarrow> string \<times> connectionStats \<Rightarrow> syncthingPeerStatus list" where
  "connectedPeer s = (\<lambda>(deviceID, info).
     if deviceID = MyID s \<or> deviceID = [] then []
     else (case GetDeviceFromID s deviceID of
         None \<Rightarrow> []
       | Some d \<Rightarrow> [\<lparr>syp_address = asTCPAddress (cs_address info), syp_ID = deviceID, syp_connected = cs_connected info,
           syp_introducedBy = dv_introducedBy d, syp_name = dv_name d\<rparr>]))"

definition getConnectedPeers :: "syncthing \<Rightarrow> syncthingPeerStatus list" where
  "getConnectedPeers s = concat (map (connectedPeer s) (sc_connections (st_systemConnections s)))"

definition ensureStatusIsUpdated ::
  "syncthingMover \<Rightarrow> service \<Rightarrow> syncthing \<Rightarrow> (gerror option \<times> syncthingMover) kube" where
  "ensureStatusIsUpdated m dataSVC s =
     (case GetDataServiceAddress dataSVC of
        Inl err \<Rightarrow> ret (Some err, m)
      | Inr addr \<Rightarrow> do {
          (if sys_ID (sym_status m) \<noteq> MyID s \<and> MyID s \<noteq> [] then eventf EventNormal EvRDaemonConnected else ret ());
          ret (None, m\<lparr>sym_status := \<lparr>sys_peers = getConnectedPeers s, sys_ID = MyID s,
            sys_address = asTCPAddress addr\<rparr>\<rparr>) })"

definition talkToSyncthing ::
  "stEnv \<Rightarrow> syncthingMover \<Rightarrow> service \<Rightarrow> secret \<Rightarrow> (gerror option go \<times> syncthingMover) kube" where
  "talkToSyncthing env m dataService apiSecret = do {
     f1 \<leftarrow> Fetch env (sym_apiConfig m);
     case f1 of
       Inl err \<Rightarrow> ret (Ret (Some err), m)
     | Inr state1 \<Rightarrow> do {
         e \<leftarrow> ensureIsConfigured env m (Some apiSecret) (Some state1);
         case e of
           Panic \<Rightarrow> ret (Panic, m)
         | Ret (Some err) \<Rightarrow> ret (Ret (Some err), m)
         | Ret None \<Rightarrow> do {
             f2 \<leftarrow> Fetch env (sym_apiConfig m);
             case f2 of
               Inl err \<Rightarrow> ret (Ret (Some err), m)
             | Inr state2 \<Rightarrow> do {
                 (serr, m1) \<leftarrow> ensureStatusIsUpdated m dataService state2;
                 ret (Ret serr, m1) } } } }"

definition interactWithSyncthing ::
  "stEnv \<Rightarrow> syncthingMover \<Rightarrow> (service \<times> secret) option \<Rightarrow> (gerror option go \<times> syncthingMover) kube" where
  "interactWithSyncthing env m0 res =
     (case validatePeerList m0 of
        Some err \<Rightarrow> ret (Ret (Some err), m0)
      | None \<Rightarrow>
          (case configureSyncthingAPIClient (map_option snd res) m0 of
             Panic \<Rightarrow> ret (Panic, m0)
           | Ret (Some err, m) \<Rightarrow> ret (Ret (Some err), m)
           | Ret (None, m) \<Rightarrow>
               (case res of
                  None \<Rightarrow> ret (Panic, m)
                | Some (dataService, apiSecret) \<Rightarrow> talkToSyncthing env m dataService apiSecret)))"

section \<open>Synchronize and Cleanup\<close>

definition syncthingSynchronize ::
  "stEnv \<Rightarrow> cluster \<Rightarrow> syncthingMover \<Rightarrow> ((mresult \<times> gerror option) go \<times> syncthingMover) kube" where
  "syncthingSynchronize env cl m0 = do {
     (res, err) \<leftarrow> ensureNecessaryResources env cl m0;
     case err of
       Some e \<Rightarrow> ret (Ret (InProgress, Some e), m0)
     | None \<Rightarrow> do {
         (r, m) \<leftarrow> interactWithSyncthing env m0 res;
         ret (case r of
           Panic \<Rightarrow> (Panic, m)
         | Ret (Some e) \<Rightarrow> (Ret (InProgress, Some e), m)
         | Ret None \<Rightarrow> (Ret (RetryAfter (20 * second), None), m)) } }"

definition syncthingCleanup :: "cluster \<Rightarrow> syncthingMover \<Rightarrow> (mresult \<times> gerror option) kube" where
  "syncthingCleanup cl m = do {
     err \<leftarrow> CleanupObjects cl (sym_owner m) [];
     ret (case err of Some e \<Rightarrow> (InProgress, Some e) | None \<Rightarrow> (Complete, None)) }"

section \<open>The builder\<close>

definition syncthingMoverName :: string where "syncthingMoverName = ''syncthing''"

definition syncthingSource ::
  "cluster \<Rightarrow> string \<Rightarrow> replicationsource \<Rightarrow> rsSyncthingSpec \<Rightarrow> bool \<Rightarrow> rsSyncthingStatus \<Rightarrow> syncthingMover" where
  "syncthingSource cl img source spec privileged st = \<lparr>
     sym_owner = objmeta.truncate source,
     sym_saHandler = NewSAHandler cl (objmeta.truncate source) True privileged (mc_serviceAccount (rsy_moverConfig spec)),
     sym_configCapacity = rsy_configCapacity spec, sym_configStorageClass = rsy_configStorageClassName spec,
     sym_configAccessModes = rsy_configAccessModes spec, sym_containerImage = img, sym_paused = rs_paused source,
     sym_dataPVCName = rs_sourcePVC source, sym_peerList = rsy_peers spec, sym_status = st,
     sym_serviceType = orElse (rsy_serviceType spec) ClusterIP,
     sym_apiConfig = \<lparr>ac_APIURL = [], ac_APIKey = [], ac_TLSConfig = None, ac_Client = None\<rparr>,
     sym_privileged = privileged, sym_moverConfig = rsy_moverConfig spec\<rparr>"

definition rsSyncthingMover :: "stEnv \<Rightarrow> cluster \<Rightarrow> (rsSyncthingStatus \<Rightarrow> syncthingMover) \<Rightarrow> rsPart mover" where
  "rsSyncthingMover env cl mk =
     (let load = (\<lambda>p. mk (orElse (rp_syncthingStatus p) emptySyncthingStatus))
      in \<lparr>mo_Name = syncthingMoverName,
          mo_Synchronize = State (\<lambda>(p, tr). case run_state (syncthingSynchronize env cl (load p)) tr of
            ((r, m), tr') \<Rightarrow> (r, p\<lparr>rp_syncthingStatus := map_option (\<lambda>_. sym_status m) (rp_syncthingStatus p)\<rparr>, tr')),
          mo_Cleanup = State (\<lambda>(p, tr). case run_state (syncthingCleanup cl (load p)) tr of
            (r, tr') \<Rightarrow> (Ret r, p, tr'))\<rparr>)"

definition syncthingFromSource ::
  "stEnv \<Rightarrow> cluster \<Rightarrow> string \<Rightarrow> replicationsource \<Rightarrow> bool \<Rightarrow> rsPart \<Rightarrow> (gerror + rsPart mover option) \<times> rsPart" where
  "syncthingFromSource env cl img source privileged p =
     (case rs_syncthing source of
        None \<Rightarrow> (Inr None, p)
      | Some spec \<Rightarrow>
          (let p1 = p\<lparr>rp_syncthingStatus := Some (orElse (rp_syncthingStatus p) emptySyncthingStatus)\<rparr>
           in (Inr (Some (rsSyncthingMover env cl (syncthingSource cl img source spec privileged))), p1)))"

definition syncthingBuilder :: "stEnv \<Rightarrow> cluster \<Rightarrow> string \<Rightarrow> builder" where
  "syncthingBuilder env cl img = \<lparr>bl_Name = syncthingMoverName,
     bl_FromSource = syncthingFromSource env cl img,
     bl_FromDestination = (\<lambda>_ _ p. ret (Inr None, p)),
     bl_VersionInfo = ''Syncthing container: '' @ img\<rparr>"

section \<open>What a synchronization does to the cluster\<close>

definition stContext :: "bool \<Rightarrow> secctx" where
  "stContext privileged = (if privileged then (moverContext stCapabilities True)\<lparr>sx_runAsNonRoot := Some False\<rparr>
     else moverSecurityContext)"

text \<open>One pod at a time, with the privileges of the mover, controlled by the resource.\<close>

definition good_deployment :: "syncthingMover \<Rightarrow> deployment \<Rightarrow> bool" where
  "good_deployment m d \<longleftrightarrow> mine (sym_owner m) False d \<and> dep_replicas d = Some 1 \<and> dep_strategy d = ''Recreate'' \<and>
     dep_matchLabels d = stServiceSelector m \<and> runsWith (stContext (sym_privileged m)) (dep_template d)"

fun st_ok :: "cluster \<Rightarrow> syncthingMover \<Rightarrow> call \<Rightarrow> bool" where
  "st_ok cl m (CCreate (ODeployment d)) = good_deployment m d"
| "st_ok cl m (CUpdate (ODeployment d)) = good_deployment m d"
| "st_ok cl m (CUpdate (OPVC p)) = mine (sym_owner m) False p"
| "st_ok cl m (CCreate (OSnapshot v)) = False"
| "st_ok cl m (CUpdate (OSnapshot v)) = False"
| "st_ok cl m (CDelete x rv) = False"
| "st_ok cl m (CHttp method url key body) =
     (method = ''GET'' \<and> url \<in> (\<lambda>e. getAPIServiceAddress m @ e) ` {ConfigEndpoint, SystemConnectionsEndpoint, SystemStatusEndpoint} \<or>
      method = ''PUT'' \<and> url = getAPIServiceAddress m @ ConfigEndpoint)"
| "st_ok cl m c = sync_ok cl (sym_owner m) (sym_privileged m) (\<lambda>_. False) c"

lemma st_ok_read: "no_write c \<Longrightarrow> st_ok cl m c"
  by (cases "(cl, m, c)" rule: st_ok.cases) (auto intro: no_write_sync_ok)

lemma sa_ok_st_ok:
  "sa_ok cl d c \<Longrightarrow> sav_owner d = sym_owner m \<Longrightarrow> sav_privileged d = sym_privileged m \<Longrightarrow> st_ok cl m c"
  using sa_ok_sync_ok[of cl d c "\<lambda>_. False"] by (cases "(cl, m, c)" rule: st_ok.cases) auto

definition syncthingBuilt :: "cluster \<Rightarrow> syncthingMover \<Rightarrow> bool" where
  "syncthingBuilt cl m \<longleftrightarrow> ac_APIURL (sym_apiConfig m) = [] \<and>
     (\<exists>userSA. sym_saHandler m = NewSAHandler cl (sym_owner m) True (sym_privileged m) userSA)"

lemma syncthingBuilt_built: "syncthingBuilt cl (syncthingSource cl img source spec privileged st)"
  by (auto simp: syncthingBuilt_def syncthingSource_def)

lemma emits_stSA:
  assumes "libs_documented cl" "syncthingBuilt cl m"
  shows "emits (st_ok cl m) (saReconcile cl (sym_saHandler m)) (\<lambda>(sa, err). sa = None \<longleftrightarrow> err \<noteq> None)"
proof -
  obtain userSA where sa: "sym_saHandler m = NewSAHandler cl (sym_owner m) True (sym_privileged m) userSA"
    using assms(2) by (auto simp: syncthingBuilt_def)
  have "emits (st_ok cl m) (saReconcile cl (sym_saHandler m)) (\<lambda>_. True)"
  proof (cases "sym_saHandler m")
    case (SAHandlerVolSync d)
    then have d: "sav_owner d = sym_owner m" "sav_privileged d = sym_privileged m"
      using sa by (auto simp: NewSAHandler_def Let_def split: option.splits)
    show ?thesis
      using emits_weaken[OF emits_reconcileVolSyncSA[OF libs_documentedD(1)[OF assms(1)], of d] sa_ok_st_ok[OF _ d]]
      by (simp add: SAHandlerVolSync)
  next
    case (SAHandlerUserSupplied u)
    then show ?thesis
      by (auto simp: reconcileUserSA_def intro!: emits_rules emits_step st_ok_read)
  qed
  then show ?thesis
    by (rule emits_result) (use saReconcile_answers[of cl "sym_owner m" True "sym_privileged m" userSA] sa in simp)
qed

lemma emits_configPVC:
  assumes "libs_documented cl"
  shows "emits (st_ok cl m) (ensureConfigPVC cl m dataPVC) (\<lambda>_. True)"
proof -
  note doc = libs_documentedD(2)[OF assms] libs_documentedD(6)[OF assms]
  have cou: "emits (st_ok cl m) (CreateOrUpdate (pvcC cl) x (newPVCMutate cl vh1 t capacity)) (\<lambda>_. True)"
    if "vhOwner vh1 = sym_owner m" for vh1 x capacity t
    by (rule emits_owned_cou[OF doc, where vh = vh1 and t = t and g = "\<lambda>p1. (if om_creationTimestamp p1 = 0
          then p1\<lparr>pvc_accessModes := vh_accessModes vh1, pvc_storageClassName := vh_storageClassName vh1,
                 pvc_volumeMode := vh_volumeMode vh1\<rparr> else p1)\<lparr>pvc_requests := [(''storage'', capacity)]\<rparr>"])
      (auto simp: newPVCMutate_def that split: sum.splits dest: mine_weaken,
       simp add: mine_def IsOwnedByVolsync_def ml.has_label_value_iff)
  have new: "emits (st_ok cl m) (EnsureNewPVC cl vh name t) (\<lambda>_. True)" if "vhOwner vh = sym_owner m" for vh name t
    unfolding EnsureNewPVC_def Let_def
    by (auto intro!: emits_rules emits_step[of _ "createdEvent _ _"] emits_step[of _ "unboundWarning _ _"]
        emits_step[of _ "CreateOrUpdate _ _ _"] cou simp: that)
  have "vhOwner vh = sym_owner m" if "NewVolumeHandler [WithClient, WithOwner (sym_owner m), WithRecorder,
      FromVolumeOptions opts] = Inr vh" for vh opts
    using that by (auto simp: NewVolumeHandler_def vhOwner_def emptyVH_def Let_def split: if_splits)
  then show ?thesis
    unfolding ensureConfigPVC_def by (auto intro!: emits_rules emits_step[OF new] split: sum.splits)
qed

lemma emits_apiSecret:
  assumes "libs_documented cl"
  shows "emits (st_ok cl m) (ensureSecretAPIKey env cl m) (\<lambda>_. True)"
proof -
  have new: "\<exists>r \<in> set (om_ownerRefs (newAPISecret m k p pems refs)). or_uid r = om_uid (sym_owner m)"
    if "setControllerReference cl (sym_owner m) [] = Inr refs" for k p pems refs
    using libs_documentedD(6)[OF assms, unfolded controllerRef_documented_def, THEN spec[of _ "sym_owner m"], THEN spec[of _ "[]"]] that
    by (auto simp: newAPISecret_def SetOwnedByVolSync_def AddLabel_meta)
  have r: "emits (st_ok cl m) (GenerateRandomString cl n) (\<lambda>_. True)" for n
    by (rule emits_post[OF emits_GenerateRandomString]) (auto intro: st_ok_read)
  have c: "emits (st_ok cl m) (generateTLSCertificatesForSyncthing env cl a) (\<lambda>_. True)" for a
    by (rule emits_certificates) (auto intro: st_ok_read)
  show ?thesis
    unfolding ensureSecretAPIKey_def createSecretAPIKey_def
    by (auto intro!: emits_rules emits_step[OF r] emits_step[OF c] emits_step[of _ "kGet _ _"] new
        st_ok_read[of "CGet _ _"] split: sum.splits)
qed

lemma stTemplate_plain: "plain (stTemplate cl m aff dataPVC configPVC sa apiSecret name)"
  by (simp add: runsWith_def stTemplate_def stContainer_def)

lemma stFinish_runs: "plain t \<Longrightarrow> runsWith (stContext privileged) (stFinish privileged t)"
  using setPrivileges_runs[of t stCapabilities privileged]
  by (auto simp: stFinish_def stContext_def runsWith_def onContainer0_def moverContext_def Let_def)

lemma owned_meta:
  assumes "controllerRef_documented cl" "setControllerReference cl owner (om_ownerRefs x) = Inr refs"
  shows "mine owner False (snd (SetOwnedByVolSync meta_ops (x\<lparr>om_ownerRefs := refs\<rparr>)))"
  using takeOwnership_mine[OF assms(1), of "emptyVH\<lparr>vh_owner := Some owner\<rparr>" False x] assms(2)
  by (simp add: takeOwnership_def vhOwner_def Let_def)

lemma deployment_template_frame [simp]:
  "om_ownerRefs (d\<lparr>dep_template := x\<rparr>) = om_ownerRefs d" "om_labels (d\<lparr>dep_template := x\<rparr>) = om_labels d"
  for d :: deployment
  by (cases d; simp)+

lemma mine_deployment_frame [simp]:
  "mine owner t (d\<lparr>dep_replicas := r, dep_matchLabels := l, dep_strategy := s\<rparr>) = mine owner t d"
  "mine owner t (d\<lparr>dep_template := x\<rparr>) = mine owner t d"
  "mine owner t (sv\<lparr>svc_type := y, svc_selector := sel, svc_ports := ps\<rparr>) = mine owner t sv"
  for d :: deployment and sv :: service
  by (simp_all add: mine_def IsOwnedByVolsync_def ml.has_label_value_iff)

lemma emits_deploymentMutate:
  assumes "controllerRef_documented cl"
  shows "emits no_write (deploymentMutate cl m aff dataPVC configPVC sa apiSecret d)
    (\<lambda>(err, d'). err = None \<longrightarrow> good_deployment m d')"
proof (cases "setControllerReference cl (sym_owner m) (om_ownerRefs d)")
  case (Inl err)
  then show ?thesis by (auto simp: deploymentMutate_def intro!: emits_rules)
next
  case (Inr refs)
  note own = owned_meta[OF assms Inr]
  have loop: "emits no_write (moverVolumesLoop cl ns mvs (UpdatePodTemplateSpecFromMoverConfig
      (stTemplate cl m aff dataPVC configPVC sa apiSecret name) cfg res)) (\<lambda>(err, t'). plain t')" for ns mvs cfg res name
    by (rule emits_moverVolumesLoop[OF plain_parts(5)[OF stTemplate_plain]])
  show ?thesis
    unfolding deploymentMutate_def Let_def Inr sum.case
    by (rule emits_bind[OF loop])
      (auto intro!: emits_rules stFinish_runs simp: good_deployment_def own split: option.splits)
qed

lemma emits_deployment:
  assumes "libs_documented cl" "cou_documented (deploymentC cl)"
  shows "emits (st_ok cl m) (ensureDeployment cl m dataPVC configPVC sa apiSecret) (\<lambda>_. True)"
proof -
  have "emits (st_ok cl m) (CreateOrUpdate (deploymentC cl) x (deploymentMutate cl m aff dataPVC configPVC sa apiSecret)) (\<lambda>_. True)" for x aff
    by (rule emits_CreateOrUpdate[OF assms(2), where W = "good_deployment m"])
      (auto intro!: emits_weaken[OF emits_deploymentMutate[OF libs_documentedD(6)[OF assms(1)]]] st_ok_read)
  note cou = emits_step[OF this]
  show ?thesis
    unfolding ensureDeployment_def
    by (rule emits_step[OF emits_AffinityFromVolume]) (auto intro!: emits_rules cou st_ok_read split: sum.splits)
qed

lemma emits_stService:
  assumes "libs_documented cl" "cou_documented (serviceC cl)"
  shows "emits (st_ok cl m) (stService cl m name ty selector port) (\<lambda>_. True)"
proof -
  have mut: "emits (st_ok cl m) (stServiceMutate cl m ty selector port y) (\<lambda>(e, z). e = None \<longrightarrow> mine (sym_owner m) False z)" for y
    unfolding stServiceMutate_def Let_def
    by (auto intro!: emits_rules owned_meta[OF libs_documentedD(6)[OF assms(1)]])
  have "emits (st_ok cl m) (CreateOrUpdate (serviceC cl) x (stServiceMutate cl m ty selector port)) (\<lambda>_. True)" for x
    by (rule emits_CreateOrUpdate[OF assms(2) _ mut]) simp_all
  then show ?thesis
    unfolding stService_def by (rule emits_step) (auto intro!: emits_rules)
qed

lemma emits_necessaryResources:
  assumes "libs_documented cl" "cou_documented (deploymentC cl)" "cou_documented (serviceC cl)" "syncthingBuilt cl m"
  shows "emits (st_ok cl m) (ensureNecessaryResources env cl m) (\<lambda>(res, err). res = None \<longleftrightarrow> err \<noteq> None)"
proof -
  have vols: "emits (st_ok cl m) (ValidateMoverVolumes cl ns mvs) (\<lambda>_. True)" for ns mvs
    by (rule emits_weaken[OF emits_validations(4)]) (auto intro: st_ok_read)
  have data: "emits (st_ok cl m) (stEnsureDataPVC cl m) (\<lambda>_. True)"
    unfolding stEnsureDataPVC_def by (auto intro!: emits_rules st_ok_read)
  have svc: "emits (st_ok cl m) (ensureAPIService cl m d) (\<lambda>_. True)" "emits (st_ok cl m) (ensureDataService cl m d) (\<lambda>_. True)" for d
    unfolding ensureAPIService_def ensureDataService_def by (rule emits_stService[OF assms(1,3)])+
  show ?thesis
    unfolding ensureNecessaryResources_def
    by (auto intro!: emits_rules emits_step[OF data] emits_step[OF emits_configPVC[OF assms(1)]]
        emits_step[OF emits_apiSecret[OF assms(1)]] emits_step[OF vols] emits_bind[OF emits_stSA[OF assms(1,4)]]
        emits_step[OF emits_deployment[OF assms(1,2)]] emits_step[OF svc(1)] emits_step[OF svc(2)] split: sum.splits)
qed

section \<open>The conversation\<close>

lemma configured_client:
  "configureSyncthingAPIClient sec m = Ret (None, m') \<Longrightarrow> ac_Client (sym_apiConfig m') = Some (TLSClient (sym_apiConfig m'))"
  by (auto simp: configureSyncthingAPIClient_def TLSClient_def Let_def split: option.splits sum.splits)

text \<open>Syncthing gives every device of its configuration an address (\<open>dynamic\<close> if none is set).\<close>

definition addresses_documented :: "stEnv \<Rightarrow> bool" where
  "addresses_documented env \<longleftrightarrow> (\<forall>b c. unmarshalConfig env b = Inr c \<longrightarrow> list_all (\<lambda>d. dv_addresses d \<noteq> []) (cf_devices c))"

lemma needs_no_panic:
  assumes "addresses_documented env" "unmarshalConfig env b = Inr (st_configuration s)"
  shows "syncthingNeedsReconfigure peers s \<noteq> Panic"
  using assms[unfolded addresses_documented_def] by (auto simp: syncthingNeedsReconfigure_iff list_all_iff)

lemma api_st_ok:
  assumes "ac_APIURL api = getAPIServiceAddress m"
  shows "readsAPI api c \<Longrightarrow> st_ok cl m c" "writesAPI api c \<Longrightarrow> st_ok cl m c"
  using assms by (auto simp: readsAPI_def writesAPI_def)

lemma emits_publishIfChanged: "emits (writesAPI (sym_apiConfig m)) (publishIfChanged env m sec changed s) (\<lambda>_. True)"
  unfolding publishIfChanged_def by (auto intro!: emits_rules emits_PublishConfig)

lemma emits_ensureIsConfigured:
  assumes "syncthingNeedsReconfigure (sym_peerList m) s \<noteq> Panic"
  shows "emits (writesAPI (sym_apiConfig m)) (ensureIsConfigured env m (Some sec) (Some s)) (\<lambda>r. r \<noteq> Panic)"
  unfolding ensureIsConfigured_def prod.case option.case
  by (auto intro!: emits_rules emits_step[OF emits_publishIfChanged] simp: assms split: go.splits sum.splits)

text \<open>After an error the status is as it was; without one it has the address of the data service.\<close>

abbreviation conversed :: "syncthingMover \<Rightarrow> gerror option go \<times> syncthingMover \<Rightarrow> bool" where
  "conversed m \<equiv> \<lambda>(r, m'). r \<noteq> Panic \<and> (\<forall>e. r = Ret (Some e) \<longrightarrow> sym_status m' = sym_status m) \<and>
     (r = Ret None \<longrightarrow> sys_address (sym_status m') \<noteq> [])"

lemma asTCPAddress_nonempty: "asTCPAddress a \<noteq> []"
  by (auto simp: asTCPAddress_def hasURIPrefix_def Let_def)

lemma emits_talk:
  assumes "addresses_documented env" "ac_APIURL (sym_apiConfig m1) = getAPIServiceAddress m" "sym_status m1 = sym_status m"
  shows "emits (st_ok cl m) (talkToSyncthing env m1 svc sec) (conversed m)"
proof -
  have fetch: "emits (st_ok cl m) (Fetch env (sym_apiConfig m1))
      (\<lambda>r. \<forall>s. r = Inr s \<longrightarrow> (\<exists>b. unmarshalConfig env b = Inr (st_configuration s)))"
    by (rule emits_weaken[OF emits_Fetch]) (auto intro: api_st_ok(1)[OF assms(2)])
  have conf: "emits (st_ok cl m) (ensureIsConfigured env m1 (Some sec) (Some s)) (\<lambda>r. r \<noteq> Panic)"
    if "\<exists>b. unmarshalConfig env b = Inr (st_configuration s)" for s
    by (rule emits_weaken[OF emits_ensureIsConfigured])
      (use that needs_no_panic[OF assms(1)] api_st_ok(2)[OF assms(2)] in blast)+
  have st: "emits (st_ok cl m) (ensureStatusIsUpdated m1 svc s)
      (\<lambda>(err, m'). if err = None then sys_address (sym_status m') \<noteq> [] else sym_status m' = sym_status m)" for s
    unfolding ensureStatusIsUpdated_def
    by (auto intro!: emits_rules emits_step[of _ "eventf _ _"] emits_step[of _ "ret _"] st_ok_read
        simp: assms(3) asTCPAddress_nonempty split: sum.splits)
  show ?thesis
    unfolding talkToSyncthing_def
    by (rule emits_bind[OF fetch])
      (auto intro!: emits_rules emits_bind[OF conf] emits_bind[OF fetch] emits_bind[OF st] simp: assms(3)
        split: sum.splits option.splits if_splits)
qed

definition synced :: "syncthingMover \<Rightarrow> (mresult \<times> gerror option) go \<times> syncthingMover \<Rightarrow> bool" where
  "synced m = (\<lambda>(r, m'). \<exists>res err. r = Ret (res, err) \<and> \<not> mr_completed res \<and>
     (if err = None then mr_retryAfter res = Some (20 * second) \<and> sys_address (sym_status m') \<noteq> []
      else sym_status m' = sym_status m))"


definition sampleSyncthingMover :: syncthingMover where
  "sampleSyncthingMover = \<lparr>
     sym_owner = newMeta ''ns'' ''rs'',
     sym_saHandler = NewSAHandler sampleCluster (newMeta ''ns'' ''rs'') True True None,
     sym_configCapacity = None, sym_configStorageClass = None, sym_configAccessModes = None,
     sym_containerImage = ''syncthing:latest'', sym_paused = False, sym_dataPVCName = ''data'',
     sym_peerList = [\<lparr>sy_address = ''tcp://10.0.0.7:22000'', sy_ID = ''PEER'', sy_introducer = False\<rparr>],
     sym_status = emptySyncthingStatus, sym_serviceType = ClusterIP,
     sym_apiConfig = \<lparr>ac_APIURL = [], ac_APIKey = [], ac_TLSConfig = None, ac_Client = None\<rparr>,
     sym_privileged = True, sym_moverConfig = \<lparr>mc_securityContext = None, mc_serviceAccount = None, mc_podLabels = [],
       mc_resources = None, mc_affinity = None, mc_volumes = []\<rparr>\<rparr>"

text \<open>An instance \<open>SELF\<close> with one old device and without credentials.\<close>

definition sampleDevice :: "string \<Rightarrow> deviceConfiguration" where
  "sampleDevice i = \<lparr>dv_deviceID = i, dv_name = i, dv_addresses = [''dynamic''], dv_introducer = False,
     dv_introducedBy = [], dv_rest = []\<rparr>"

definition sampleConfiguration :: stConfiguration where
  "sampleConfiguration = \<lparr>cf_devices = [sampleDevice ''SELF'', sampleDevice ''OLD''],
     cf_folders = [\<lparr>fo_devices = [], fo_rest = []\<rparr>], cf_guiUser = [], cf_guiPassword = [], cf_rest = []\<rparr>"

definition sampleSystemStatus :: systemStatus where
  "sampleSystemStatus = \<lparr>ss_alloc = 0, ss_connectionServiceStatus = [], ss_cpuPercent = 0, ss_goroutines = 1,
     ss_guiAddressOverridden = False, ss_guiAddressUsed = [], ss_lastDialStatus = [], ss_myID = ''SELF''\<rparr>"

definition sampleConnections :: systemConnections where
  "sampleConnections = \<lparr>sc_total = \<lparr>ts_at = [], ts_inBytesTotal = 0, ts_outBytesTotal = 0\<rparr>, sc_connections = []\<rparr>"

definition sampleSyncthing :: syncthing where
  "sampleSyncthing = \<lparr>st_configuration = sampleConfiguration, st_systemConnections = sampleConnections,
     st_systemStatus = sampleSystemStatus\<rparr>"

definition sampleStEnv :: stEnv where
  "sampleStEnv = \<lparr>newRequestErr = (\<lambda>_ _. None),
     httpDo = (\<lambda>_ _ _. Inr \<lparr>rsp_statusCode = 200, rsp_status = ''200 OK'', rsp_body = Inr [], rsp_close = None\<rparr>),
     marshalConfig = (\<lambda>c. Inr (concat (map dv_deviceID (cf_devices c)))), unmarshalConfig = (\<lambda>_. Inr sampleConfiguration),
     unmarshalConnections = (\<lambda>_. Inr sampleConnections), unmarshalStatus = (\<lambda>_. Inr sampleSystemStatus),
     deviceIDFromString = Inr, rsaGenerateKey = (\<lambda>_. Inr ''key''), rsaPublicKey = (\<lambda>k. k), marshalPKCS1 = (\<lambda>k. k),
     createCertificate = (\<lambda>_ _ _ _ _. Inr ''cert'')\<rparr>"


section \<open>The configuration settles\<close>

text \<open>Nothing is left to publish: the devices are those of the list of peers and the credentials are set.\<close>

definition configSettled :: "syncthingPeer list \<Rightarrow> secret \<Rightarrow> syncthing \<Rightarrow> bool" where
  "configSettled peers sec s \<longleftrightarrow> syncthingNeedsReconfigure peers s = Ret False \<and> setCredentials sec s = None"

lemma needs_config_only:
  "cf_devices c = cf_devices (st_configuration s) \<Longrightarrow>
   syncthingNeedsReconfigure peers (s\<lparr>st_configuration := c\<rparr>) = syncthingNeedsReconfigure peers s"
  by (simp add: syncthingNeedsReconfigure_def MyID_def Let_def)

lemma publishIfChanged_settles:
  assumes "secretField sec passwordDataKey \<noteq> []" "syncthingNeedsReconfigure peers s = Ret False"
  obtains (publish) c where "changed \<or> setCredentials sec s \<noteq> None"
      "publishIfChanged env m sec changed s = PublishConfig env (sym_apiConfig m) c" "configSettled peers sec (s\<lparr>st_configuration := c\<rparr>)"
  | (nothing) "\<not> changed" "setCredentials sec s = None" "publishIfChanged env m sec changed s = ret None"
proof (cases "setCredentials sec s")
  case None
  then show thesis using that assms(2)
    by (cases changed) (auto simp: publishIfChanged_def configSettled_def)
next
  case (Some s1)
  then have "configSettled peers sec (s\<lparr>st_configuration := st_configuration s1\<rparr>)"
    using assms needs_config_only[of "st_configuration s1" s peers]
    by (auto simp: configSettled_def setCredentials_def Let_def split: if_splits)
  with Some that(1) show thesis by (auto simp: publishIfChanged_def)
qed



end
