(* ===== verification/Volume_Populator.thy ===== *)
theory Volume_Populator
  imports Movers Utils
begin

text \<open>
  \<open>volumepopulator_controller.go\<close>: the controller that fills a claim whose \<open>dataSourceRef\<close> is a
  ReplicationDestination. It makes a second claim (PVC', \<open>pvcPrime\<close> in the code) from the snapshot
  that is the latest image of the destination, waits for the volume of PVC', moves that volume over
  to the original claim by patching its claim reference, and deletes PVC' once the binder has let
  it go. While it works, the snapshots it uses carry a label for the claim and an owner reference
  to PVC'.
\<close>

section \<open>Constants\<close>

definition populatorPvcPrefix :: string where "populatorPvcPrefix = ''vs-prime''"
definition annotationSelectedNode :: string where
  "annotationSelectedNode = ''volume.kubernetes.io/selected-node''"
definition annotationPopulatedFrom :: string where
  "annotationPopulatedFrom = ''volsync.backube/populated-from''"
definition labelPvcPrime :: string where
  "labelPvcPrime = VolsyncLabelPrefix @ ''/populator-pvc-for''"
definition VolPopPVCToReplicationDestinationIndex :: string where
  "VolPopPVCToReplicationDestinationIndex = ''volPopPvc.spec.dataSourceRef.Name''"
definition VolPopPVCToStorageClassIndex :: string where
  "VolPopPVCToStorageClassIndex = ''volPopPvc.spec.storageClassName''"
definition VolPopCRName :: string where "VolPopCRName = ''volsync-replicationdestination''"
definition volsyncGroup :: string where "volsyncGroup = ''volsync.backube''"

text \<open>\<open>volume.AnnMigratedTo\<close> of k8s.io/component-helpers.\<close>

definition AnnMigratedTo :: string where "AnnMigratedTo = ''pv.kubernetes.io/migrated-to''"

section \<open>Tests on claims\<close>

definition pvcHasReplicationDestinationDataSourceRef :: "pvc \<Rightarrow> bool" where
  "pvcHasReplicationDestinationDataSourceRef p =
     (case pvc_dataSourceRef p of
        None \<Rightarrow> False
      | Some r \<Rightarrow>
          (case tr_apiGroup r of
             None \<Rightarrow> False
           | Some g \<Rightarrow> g = volsyncGroup \<and> tr_kind r = ''ReplicationDestination'' \<and> tr_name r \<noteq> []))"

definition isPVCBoundToVolume :: "pvc \<Rightarrow> bool" where
  "isPVCBoundToVolume p \<longleftrightarrow> pvc_volumeName p \<noteq> []"

definition getPVCPrimeName :: "pvc \<Rightarrow> string" where
  "getPVCPrimeName p = populatorPvcPrefix @ ''-'' @ om_uid p"

definition getSnapshotInUseLabelKey :: "pvc \<Rightarrow> string" where
  "getSnapshotInUseLabelKey p = SnapInUseByVolumePopulatorLabelPrefix @ om_uid p"

definition checkIntreeStorageClass :: "pvc \<Rightarrow> storageclass \<Rightarrow> gerror option" where
  "checkIntreeStorageClass p sc =
     (if \<not> HasPrefix (sc_provisioner sc) ''kubernetes.io/'' then None
      else if map_get (om_annotations p) AnnMigratedTo \<noteq> [] then None
      else Some (Errorf (''in-tree volume volume plugin '' @ sc_provisioner sc @
             '' cannot use volume populator'')))"

section \<open>Registration: indices, the VolumePopulator resource, watches\<close>

definition volPopRDIndexer :: "pvc \<Rightarrow> string list" where
  "volPopRDIndexer p =
     (if \<not> pvcHasReplicationDestinationDataSourceRef p then []
      else [tr_name (the (pvc_dataSourceRef p))])"

definition volPopStorageClassIndexer :: "pvc \<Rightarrow> string list" where
  "volPopStorageClassIndexer p =
     (if \<not> pvcHasReplicationDestinationDataSourceRef p then []
      else case pvc_storageClassName p of None \<Rightarrow> [] | Some n \<Rightarrow> [n])"

definition IndexFieldsForVolumePopulator ::
  "(string \<Rightarrow> (pvc \<Rightarrow> string list) \<Rightarrow> ('s, gerror option) state) \<Rightarrow> ('s, gerror option) state" where
  "IndexFieldsForVolumePopulator indexField = do {
     err \<leftarrow> indexField VolPopPVCToReplicationDestinationIndex volPopRDIndexer;
     case err of
       Some e \<Rightarrow> ret (Some e)
     | None \<Rightarrow> indexField VolPopPVCToStorageClassIndex volPopStorageClassIndexer }"

definition isVolumePopulatorCRDPresent :: "cluster \<Rightarrow> (bool \<times> gerror option) kube" where
  "isVolumePopulatorCRDPresent cl = do {
     r \<leftarrow> kList (volPopC cl) None Everything;
     case r of
       Inl e \<Rightarrow> if IsCRDNotPresentError e then ret (False, None) else ret (False, Some e)
     | Inr _ \<Rightarrow> ret (True, None) }"

definition volPopMutate :: "volumepopulator \<Rightarrow> (gerror option \<times> volumepopulator) kube" where
  "volPopMutate vp = ret (None, snd (SetOwnedByVolSync meta_ops
     (vp\<lparr>vpo_sourceKind := (volsyncGroup, ''ReplicationDestination'')\<rparr>)))"

definition EnsureVolSyncVolumePopulatorCRIfCRDPresent :: "cluster \<Rightarrow> gerror option kube" where
  "EnsureVolSyncVolumePopulatorCRIfCRDPresent cl = do {
     (ok, err) \<leftarrow> isVolumePopulatorCRDPresent cl;
     case err of
       Some e \<Rightarrow> ret (Some e)
     | None \<Rightarrow>
         if \<not> ok then ret None
         else do {
           (op, err', vp) \<leftarrow> CreateOrUpdate (volPopC cl) (newVolumePopulator VolPopCRName) volPopMutate;
           ret err' } }"

datatype 'o watchEvent = CreateEvent 'o | DeleteEvent 'o | UpdateEvent 'o 'o | GenericEvent 'o

fun pvcOwnedByPredicate :: "pvc watchEvent \<Rightarrow> bool" where
  "pvcOwnedByPredicate (CreateEvent p) = HasLabel meta_ops p labelPvcPrime"
| "pvcOwnedByPredicate (DeleteEvent _) = False"
| "pvcOwnedByPredicate (UpdateEvent _ p) = HasLabel meta_ops p labelPvcPrime"
| "pvcOwnedByPredicate (GenericEvent p) = HasLabel meta_ops p labelPvcPrime"

fun pvcForVolumePopulatorFilterPredicate :: "pvc watchEvent \<Rightarrow> bool" where
  "pvcForVolumePopulatorFilterPredicate (CreateEvent p) = pvcHasReplicationDestinationDataSourceRef p"
| "pvcForVolumePopulatorFilterPredicate (DeleteEvent _) = False"
| "pvcForVolumePopulatorFilterPredicate (UpdateEvent _ p) = pvcHasReplicationDestinationDataSourceRef p"
| "pvcForVolumePopulatorFilterPredicate (GenericEvent p) = pvcHasReplicationDestinationDataSourceRef p"

fun replicationDestinationPredicate :: "replicationdestination watchEvent \<Rightarrow> bool" where
  "replicationDestinationPredicate (DeleteEvent _) = False"
| "replicationDestinationPredicate (CreateEvent _) = True"
| "replicationDestinationPredicate (UpdateEvent _ _) = True"
| "replicationDestinationPredicate (GenericEvent _) = True"

fun storageClassPredicate :: "storageclass watchEvent \<Rightarrow> bool" where
  "storageClassPredicate (CreateEvent _) = True"
| "storageClassPredicate (DeleteEvent _) = False"
| "storageClassPredicate (UpdateEvent _ _) = False"
| "storageClassPredicate (GenericEvent _) = False"

fun filterRequestsOnlyUnboundPVCs :: "pvc list \<Rightarrow> key list" where
  "filterRequestsOnlyUnboundPVCs [] = []"
| "filterRequestsOnlyUnboundPVCs (p # ps) =
     (if \<not> isPVCBoundToVolume p then [(om_namespace p, om_name p)] else []) @
     filterRequestsOnlyUnboundPVCs ps"

definition mapFuncReplicationDestinationToVolumePopulatorPVC ::
  "cluster \<Rightarrow> replicationdestination \<Rightarrow> key list kube" where
  "mapFuncReplicationDestinationToVolumePopulatorPVC cl rd = do {
     r \<leftarrow> kList (pvcC cl) (Some (om_namespace rd))
            (ByIndex VolPopPVCToReplicationDestinationIndex (om_name rd));
     case r of Inl _ \<Rightarrow> ret [] | Inr items \<Rightarrow> ret (filterRequestsOnlyUnboundPVCs items) }"

definition mapFuncStorageClassToVolumePopulatorPVC ::
  "cluster \<Rightarrow> storageclass \<Rightarrow> key list kube" where
  "mapFuncStorageClassToVolumePopulatorPVC cl sc = do {
     r \<leftarrow> kList (pvcC cl) None (ByIndex VolPopPVCToStorageClassIndex (om_name sc));
     case r of Inl _ \<Rightarrow> ret [] | Inr items \<Rightarrow> ret (filterRequestsOnlyUnboundPVCs items) }"

text \<open>
  What \<open>SetupWithManager\<close> wires: the requests an event on a watched object puts into the queue. The
  handler of \<open>Owns\<close> belongs to controller-runtime and is the parameter \<open>owner\<close>, the claim that
  controls the one it is given; a map function is run on both objects of an update.
\<close>

datatype vpEvent =
    ForClaim "pvc watchEvent"
  | OwnsClaim "pvc watchEvent"
  | WatchDestination "replicationdestination watchEvent"
  | WatchStorageClass "storageclass watchEvent"

fun eventObjects :: "'o watchEvent \<Rightarrow> 'o list" where
  "eventObjects (CreateEvent x) = [x]"
| "eventObjects (DeleteEvent x) = [x]"
| "eventObjects (UpdateEvent x y) = [x, y]"
| "eventObjects (GenericEvent x) = [x]"

fun concatM :: "('x \<Rightarrow> 'y list kube) \<Rightarrow> 'x list \<Rightarrow> 'y list kube" where
  "concatM f [] = ret []"
| "concatM f (x # xs) = do { ys \<leftarrow> f x; zs \<leftarrow> concatM f xs; ret (ys @ zs) }"

fun vpSetupWithManager :: "cluster \<Rightarrow> (pvc \<Rightarrow> key list) \<Rightarrow> vpEvent \<Rightarrow> key list kube" where
  "vpSetupWithManager cl owner (ForClaim e) =
     ret (if pvcForVolumePopulatorFilterPredicate e then [objKey (last (eventObjects e))] else [])"
| "vpSetupWithManager cl owner (OwnsClaim e) =
     ret (if pvcOwnedByPredicate e then concat (map owner (eventObjects e)) else [])"
| "vpSetupWithManager cl owner (WatchDestination e) =
     (if replicationDestinationPredicate e
      then concatM (mapFuncReplicationDestinationToVolumePopulatorPVC cl) (eventObjects e) else ret [])"
| "vpSetupWithManager cl owner (WatchStorageClass e) =
     (if storageClassPredicate e
      then concatM (mapFuncStorageClassToVolumePopulatorPVC cl) (eventObjects e) else ret [])"

section \<open>Reconciling one claim\<close>

text \<open>A \<open>vpResult\<close> ends the reconciliation with its result; nil (\<open>None\<close>) lets it go on.\<close>

type_synonym vpResult = "ctrlResult \<times> gerror option"

definition checkStorageClass :: "cluster \<Rightarrow> pvc \<Rightarrow> (bool \<times> string \<times> vpResult option) kube" where
  "checkStorageClass cl p =
     (case pvc_storageClassName p of
        None \<Rightarrow> ret (False, [], None)
      | Some storageClassName \<Rightarrow> do {
          r \<leftarrow> kGet (storageClassC cl) ([], storageClassName);
          case r of
            Inl e \<Rightarrow>
              if \<not> isNotFound e then ret (False, [], Some (emptyResult, Some e))
              else ret (False, [], Some (emptyResult, None))
          | Inr storageClass \<Rightarrow>
              if checkIntreeStorageClass p storageClass \<noteq> None
              then ret (False, [], Some (emptyResult, None))
              else if sc_volumeBindingMode storageClass = Some WaitForFirstConsumer then
                (let nodeName = map_get (om_annotations p) annotationSelectedNode in
                 if nodeName = [] then ret (False, [], Some (emptyResult, None))
                 else ret (True, nodeName, None))
              else ret (False, [], None) })"

definition GetVolumePopulatorPVCPrime :: "cluster \<Rightarrow> pvc \<Rightarrow> (gerror + pvc option) kube" where
  "GetVolumePopulatorPVCPrime cl p = do {
     r \<leftarrow> kGet (pvcC cl) (om_namespace p, getPVCPrimeName p);
     case r of
       Inl e \<Rightarrow> if isNotFound e then ret (Inr None) else ret (Inl e)
     | Inr prime \<Rightarrow> ret (Inr (Some prime)) }"

definition getReplicationDestinationFromDataSourceRef ::
  "cluster \<Rightarrow> pvc \<Rightarrow> (gerror + replicationdestination) go kube" where
  "getReplicationDestinationFromDataSourceRef cl p =
     (case pvc_dataSourceRef p of
        None \<Rightarrow> ret Panic
      | Some ref \<Rightarrow> do { r \<leftarrow> kGet (rdC cl) (om_namespace p, tr_name ref); ret (Ret r) })"

definition validateSnapshotAndLabel ::
  "cluster \<Rightarrow> string \<Rightarrow> string \<Rightarrow> pvc \<Rightarrow> (gerror + snapshot) kube" where
  "validateSnapshotAndLabel cl snapshotName ns p = do {
     r \<leftarrow> kGet (snapC cl) (ns, snapshotName);
     case r of
       Inl e \<Rightarrow> ret (Inl e)
     | Inr s \<Rightarrow>
         (case AddLabel meta_ops s (getSnapshotInUseLabelKey p) (om_name p) of
            (updated, s1) \<Rightarrow> if updated then kUpdate (snapC cl) s1 else ret (Inr s1)) }"

definition pvcPrimeObject :: "pvc \<Rightarrow> typedref \<Rightarrow> bool \<Rightarrow> string \<Rightarrow> pvc" where
  "pvcPrimeObject p latestImage waitForFirstConsumer nodeName =
     (newPVC (om_namespace p) (getPVCPrimeName p))\<lparr>
        om_annotations := (if waitForFirstConsumer then [(annotationSelectedNode, nodeName)] else []),
        pvc_accessModes := pvc_accessModes p,
        pvc_requests := pvc_requests p,
        pvc_storageClassName := pvc_storageClassName p,
        pvc_volumeMode := pvc_volumeMode p,
        pvc_dataSourceRef := Some \<lparr>tr_apiGroup = tr_apiGroup latestImage,
          tr_kind = tr_kind latestImage, tr_name = tr_name latestImage\<rparr>\<rparr>"

definition createPVCPrime ::
  "cluster \<Rightarrow> pvc \<Rightarrow> typedref \<Rightarrow> bool \<Rightarrow> string \<Rightarrow> (pvc option \<times> vpResult option) kube" where
  "createPVCPrime cl p latestImage waitForFirstConsumer nodeName =
     (let prime = pvcPrimeObject p latestImage waitForFirstConsumer nodeName in
      case setControllerReference cl (objmeta.truncate p) (om_ownerRefs prime) of
        Inl e \<Rightarrow> ret (None, Some (emptyResult, Some e))
      | Inr refs \<Rightarrow>
          (let prime1 = snd (AddLabel meta_ops (prime\<lparr>om_ownerRefs := refs\<rparr>) labelPvcPrime (om_name p));
               prime2 = snd (SetOwnedByVolSync meta_ops prime1)
           in do {
             w \<leftarrow> kCreate (pvcC cl) prime2;
             case w of
               Inl e \<Rightarrow> do {
                 eventf EventWarning EvRVolPopPVCCreationError;
                 ret (None, Some (emptyResult, Some e)) }
             | Inr prime3 \<Rightarrow> do {
                 eventf EventNormal EvRVolPopPVCCreationSuccess;
                 ret (Some prime3, None) } }))"

definition reconcilePVCPrime ::
  "cluster \<Rightarrow> pvc \<Rightarrow> pvc option \<Rightarrow> bool \<Rightarrow> string \<Rightarrow> (pvc option \<times> vpResult option) go kube" where
  "reconcilePVCPrime cl p pvcPrime waitForFirstConsumer nodeName =
     (case pvcPrime of
        Some prime \<Rightarrow> ret (Ret (Some prime, None))
      | None \<Rightarrow> do {
          g \<leftarrow> getReplicationDestinationFromDataSourceRef cl p;
          case g of
            Panic \<Rightarrow> ret Panic
          | Ret (Inl e) \<Rightarrow>
              if \<not> isNotFound e then ret (Ret (None, Some (emptyResult, Some e)))
              else do {
                eventf EventWarning EvVolPopPVCReplicationDestMissing;
                ret (Ret (None, Some (emptyResult, None))) }
          | Ret (Inr rd) \<Rightarrow>
              (case Option.bind (rd_status rd) rds_latestImage of
                 None \<Rightarrow> do {
                   eventf EventWarning EvRVolPopPVCReplicationDestNoLatestImage;
                   ret (Ret (None, Some (emptyResult, None))) }
               | Some latestImage \<Rightarrow>
                   if \<not> IsSnapshot (Some latestImage) then do {
                     eventf EventWarning EvRVolPopPVCPopulatorError;
                     ret (Ret (None, Some (emptyResult, None))) }
                   else do {
                     v \<leftarrow> validateSnapshotAndLabel cl (tr_name latestImage) (om_namespace rd) p;
                     case v of
                       Inl e \<Rightarrow> ret (Ret (None, Some (emptyResult, Some e)))
                     | Inr _ \<Rightarrow> do {
                         out \<leftarrow> createPVCPrime cl p latestImage waitForFirstConsumer nodeName;
                         ret (Ret out) } }) })"

definition listSnapshotsUsedByVolPopForPVC :: "cluster \<Rightarrow> pvc \<Rightarrow> (gerror + snapshot list) kube" where
  "listSnapshotsUsedByVolPopForPVC cl p =
     (case labelsParse cl (getSnapshotInUseLabelKey p) of
        Inl e \<Rightarrow> ret (Inl e)
      | Inr ls \<Rightarrow> kList (snapC cl) (Some (om_namespace p)) ls)"

definition addOwnerReference :: "cluster \<Rightarrow> snapshot \<Rightarrow> pvc \<Rightarrow> gerror + bool \<times> snapshot" where
  "addOwnerReference cl obj owner =
     (case setOwnerReference cl (objmeta.truncate owner) (om_ownerRefs obj) of
        Inl e \<Rightarrow> Inl e
      | Inr refs \<Rightarrow>
          Inr (refs \<noteq> refsAfterSetOwner cl (objmeta.truncate owner) (om_ownerRefs obj),
               obj\<lparr>om_ownerRefs := refs\<rparr>))"

definition ensureOwnerReferenceOnSnapshot :: "cluster \<Rightarrow> snapshot \<Rightarrow> pvc \<Rightarrow> gerror option kube" where
  "ensureOwnerReferenceOnSnapshot cl s owner =
     (case addOwnerReference cl s owner of
        Inl e \<Rightarrow> ret (Some e)
      | Inr (updated, s1) \<Rightarrow>
          if updated then do {
            w \<leftarrow> kUpdate (snapC cl) s1;
            case w of Inl e \<Rightarrow> ret (Some e) | Inr _ \<Rightarrow> ret None }
          else ret None)"

definition ensureOwnerReferenceOnSnapshots :: "cluster \<Rightarrow> pvc \<Rightarrow> pvc \<Rightarrow> gerror option kube" where
  "ensureOwnerReferenceOnSnapshots cl p prime = do {
     r \<leftarrow> listSnapshotsUsedByVolPopForPVC cl p;
     case r of
       Inl e \<Rightarrow> ret (Some e)
     | Inr items \<Rightarrow>
         forEach (\<lambda>s. if \<not> IsMarkedDoNotDelete s then ensureOwnerReferenceOnSnapshot cl s prime
                      else ret None) items }"

definition boundTo :: "pvc \<Rightarrow> pv \<Rightarrow> bool" where
  "boundTo p v =
     (case pv_claimRef v of
        None \<Rightarrow> False
      | Some c \<Rightarrow> cl_name c = om_name p \<and> cl_namespace c = om_namespace p \<and> cl_uid c = om_uid p)"

definition patchPV :: "cluster \<Rightarrow> string \<Rightarrow> strmap \<Rightarrow> claimref \<Rightarrow> gerror option kube" where
  "patchPV cl name ann c = ask (\<lambda>tr. patchClaim cl tr name ann c) (CPatchClaim name ann c)"

definition claimRefOf :: "pvc \<Rightarrow> claimref" where
  "claimRefOf p = \<lparr>cl_namespace = om_namespace p, cl_name = om_name p, cl_uid = om_uid p,
     cl_resourceVersion = om_resourceVersion p\<rparr>"

definition rebindPVClaim :: "cluster \<Rightarrow> pvc \<Rightarrow> pvc \<Rightarrow> vpResult option go kube" where
  "rebindPVClaim cl p prime =
     (if pvc_volumeName prime = [] then ret (Ret (Some (emptyResult, None)))
      else do {
        r \<leftarrow> kGet (pvC cl) ([], pvc_volumeName prime);
        case r of
          Inl e \<Rightarrow>
            if \<not> isNotFound e then ret (Ret (Some (emptyResult, Some e)))
            else ret (Ret (Some (emptyResult, None)))
        | Inr v \<Rightarrow>
            if \<not> boundTo p v then
              (case pvc_dataSourceRef prime of
                 None \<Rightarrow> ret Panic
               | Some ref \<Rightarrow> do {
                   err \<leftarrow> patchPV cl (om_name v)
                     [(annotationPopulatedFrom, om_namespace p @ ''/'' @ tr_name ref)] (claimRefOf p);
                   ret (Ret (Some (emptyResult, err))) })
            else ret (Ret None) })"

definition vpCleanupSnapshot :: "cluster \<Rightarrow> pvc \<Rightarrow> pvc option \<Rightarrow> snapshot \<Rightarrow> gerror option kube" where
  "vpCleanupSnapshot cl p pvcPrime s =
     (case RemoveLabel meta_ops s (getSnapshotInUseLabelKey p) of
        (u1, s1) \<Rightarrow>
          (case (case pvcPrime of
                   Some prime \<Rightarrow>
                     if IsMarkedDoNotDelete s1
                     then (let (u2, s2) = RemoveOwnerReference s1 prime in (u2 \<or> u1, s2))
                     else (u1, s1)
                 | None \<Rightarrow> (u1, s1)) of
             (updated, s2) \<Rightarrow>
               if updated then do {
                 w \<leftarrow> kUpdate (snapC cl) s2;
                 case w of Inl e \<Rightarrow> ret (Some e) | Inr _ \<Rightarrow> ret None }
               else ret None))"

definition vpCleanup :: "cluster \<Rightarrow> pvc \<Rightarrow> pvc option \<Rightarrow> gerror option kube" where
  "vpCleanup cl p pvcPrime = do {
     r \<leftarrow> listSnapshotsUsedByVolPopForPVC cl p;
     case r of
       Inl e \<Rightarrow> ret (Some e)
     | Inr snapsForPVC \<Rightarrow> do {
         err \<leftarrow> forEach (vpCleanupSnapshot cl p pvcPrime) snapsForPVC;
         case err of
           Some e \<Rightarrow> ret (Some e)
         | None \<Rightarrow>
             (case pvcPrime of
                None \<Rightarrow> ret None
              | Some prime \<Rightarrow>
                  if IsZero (om_deletionTimestamp prime) then kDelete (pvcC cl) prime None
                  else ret None) } }"

text \<open>
  The claim returned by \<open>reconcilePVCPrime\<close> is bound to a new variable inside the branch for
  an unbound claim, so the code after the branch works with the PVC' that was looked up before it.
\<close>

definition populate ::
  "cluster \<Rightarrow> pvc \<Rightarrow> pvc option \<Rightarrow> bool \<Rightarrow> string \<Rightarrow> vpResult option go kube" where
  "populate cl p pvcPrime waitForFirstConsumer nodeName = do {
     out \<leftarrow> reconcilePVCPrime cl p pvcPrime waitForFirstConsumer nodeName;
     case out of
       Panic \<Rightarrow> ret Panic
     | Ret (_, Some res) \<Rightarrow> ret (Ret (Some res))
     | Ret (None, None) \<Rightarrow> ret Panic
     | Ret (Some prime, None) \<Rightarrow> do {
         err \<leftarrow> ensureOwnerReferenceOnSnapshots cl p prime;
         case err of
           Some e \<Rightarrow> ret (Ret (Some (emptyResult, Some e)))
         | None \<Rightarrow> rebindPVClaim cl p prime } }"

definition vpFinish :: "cluster \<Rightarrow> pvc \<Rightarrow> pvc option \<Rightarrow> vpResult kube" where
  "vpFinish cl p pvcPrime =
     (if (case pvcPrime of None \<Rightarrow> False | Some prime \<Rightarrow> pvc_phase prime \<noteq> ClaimLost)
      then ret (emptyResult, None)
      else do {
        eventf EventNormal EvRVolPopPVCPopulatorFinished;
        err \<leftarrow> vpCleanup cl p pvcPrime;
        ret (emptyResult, err) })"

definition reconcilePVC :: "cluster \<Rightarrow> pvc \<Rightarrow> vpResult go kube" where
  "reconcilePVC cl p = do {
     (waitForFirstConsumer, nodeName, scResult) \<leftarrow> checkStorageClass cl p;
     case scResult of
       Some res \<Rightarrow> ret (Ret res)
     | None \<Rightarrow> do {
         g \<leftarrow> GetVolumePopulatorPVCPrime cl p;
         case g of
           Inl e \<Rightarrow> ret (Ret (emptyResult, Some e))
         | Inr pvcPrime \<Rightarrow> do {
             r \<leftarrow> (if \<not> isPVCBoundToVolume p
                   then populate cl p pvcPrime waitForFirstConsumer nodeName else ret (Ret None));
             case r of
               Panic \<Rightarrow> ret Panic
             | Ret (Some res) \<Rightarrow> ret (Ret res)
             | Ret None \<Rightarrow> do { res \<leftarrow> vpFinish cl p pvcPrime; ret (Ret res) } } } }"

definition vpReconcile :: "cluster \<Rightarrow> key \<Rightarrow> vpResult go kube" where
  "vpReconcile cl req = do {
     r \<leftarrow> kGet (pvcC cl) req;
     case r of
       Inl e \<Rightarrow> ret (Ret (emptyResult, IgnoreNotFound (Some e)))
     | Inr p \<Rightarrow>
         if \<not> pvcHasReplicationDestinationDataSourceRef p then ret (Ret (emptyResult, None))
         else reconcilePVC cl p }"

section \<open>What the controller writes\<close>

definition isPrime :: "cluster \<Rightarrow> pvc \<Rightarrow> pvc \<Rightarrow> bool" where
  "isPrime cl p q \<longleftrightarrow> (\<exists>tr. k_get (pvcC cl) tr (om_namespace p, getPVCPrimeName p) = Inr q) \<or>
     (\<exists>tr x. k_create (pvcC cl) tr x = Inr q \<and> om_name x = getPVCPrimeName p)"

text \<open>PVC' as the controller creates it.\<close>

definition newPrime :: "pvc \<Rightarrow> pvc \<Rightarrow> bool" where
  "newPrime p q \<longleftrightarrow> om_name q = getPVCPrimeName p \<and> om_namespace q = om_namespace p \<and>
     (\<exists>r \<in> set (om_ownerRefs q). or_uid r = om_uid p \<and> or_controller r) \<and>
     map_of (om_labels q) labelPvcPrime = Some (om_name p) \<and>
     map_of (om_labels q) OwnedByLabelKey = Some OwnedByLabelValue \<and>
     IsSnapshot (pvc_dataSourceRef q) \<and> pvc_requests q = pvc_requests p \<and>
     pvc_accessModes q = pvc_accessModes p \<and> pvc_storageClassName q = pvc_storageClassName p"

text \<open>
  A change of a snapshot: the label for the claim, and owner references to PVC', which are never
  added to a snapshot that is marked do-not-delete.
\<close>

definition volPopChange :: "cluster \<Rightarrow> pvc \<Rightarrow> snapshot \<Rightarrow> snapshot \<Rightarrow> bool" where
  "volPopChange cl p s0 s \<longleftrightarrow>
     s = s0\<lparr>om_labels := om_labels s, om_ownerRefs := om_ownerRefs s\<rparr> \<and>
     (\<exists>l. map_of (om_labels s) = (map_of (om_labels s0))(getSnapshotInUseLabelKey p := l)) \<and>
     (om_ownerRefs s = om_ownerRefs s0 \<or>
      (\<exists>q. isPrime cl p q \<and> (\<forall>r. or_uid r \<noteq> om_uid q \<longrightarrow>
          (r \<in> set (om_ownerRefs s) \<longleftrightarrow> r \<in> set (om_ownerRefs s0))))) \<and>
     (IsMarkedDoNotDelete s \<longrightarrow> set (om_ownerRefs s) \<subseteq> set (om_ownerRefs s0))"

fun vpCall :: "cluster \<Rightarrow> pvc \<Rightarrow> call \<Rightarrow> bool" where
  "vpCall cl p (CCreate (OPVC q)) = newPrime p q"
| "vpCall cl p (CUpdate (OSnapshot s)) = (\<exists>s0. volPopChange cl p s0 s)"
| "vpCall cl p (CDelete (OPVC q) rv) =
     ((\<exists>tr. k_get (pvcC cl) tr (om_namespace p, getPVCPrimeName p) = Inr q) \<and>
      pvc_phase q = ClaimLost \<and> IsZero (om_deletionTimestamp q))"
| "vpCall cl p (CPatchClaim name ann c) =
     (c = claimRefOf p \<and> \<not> isPVCBoundToVolume p \<and>
      (\<exists>q v tr. isPrime cl p q \<and> k_get (pvC cl) tr ([], pvc_volumeName q) = Inr v \<and>
         om_name v = name \<and> \<not> boundTo p v))"
| "vpCall cl p c = (\<not> is_write c)"

lemma snapKey_marks:
  "getSnapshotInUseLabelKey p \<noteq> DoNotDeleteLabelKey"
  by (simp add: getSnapshotInUseLabelKey_def label_keys)

lemma emits_checkStorageClass [emits_rules]:
  "(\<And>x. Q x) \<Longrightarrow> emits (vpCall cl p) (checkStorageClass cl p) Q"
  unfolding checkStorageClass_def Let_def
  by (auto intro!: emits_rules emits_bind[where Q = "\<lambda>_. True"])

lemma emits_GetPrime:
  "emits (vpCall cl p) (GetVolumePopulatorPVCPrime cl p)
     (\<lambda>r. \<forall>q. r = Inr (Some q) \<longrightarrow> (\<exists>tr. k_get (pvcC cl) tr (om_namespace p, getPVCPrimeName p) = Inr q))"
  unfolding GetVolumePopulatorPVCPrime_def
  by (rule emits_bind[OF emits_kGet_answer[where Q =
        "\<lambda>r. \<forall>q. r = Inr q \<longrightarrow> (\<exists>tr. k_get (pvcC cl) tr (om_namespace p, getPVCPrimeName p) = Inr q)"]])
     (auto intro!: emits_rules)

lemma volPopChange_label:
  "\<exists>s0. volPopChange cl p s0 (snd (AddLabel meta_ops s (getSnapshotInUseLabelKey p) v))"
  using ml.add_labels[of s "getSnapshotInUseLabelKey p" v]
  by (intro exI[of _ s]) (auto simp: volPopChange_def AddLabel_meta)

lemma emits_validateSnapshotAndLabel [emits_rules]:
  "(\<And>x. Q x) \<Longrightarrow> emits (vpCall cl p) (validateSnapshotAndLabel cl n ns p) Q"
  unfolding validateSnapshotAndLabel_def case_prod_beta
  by (auto intro!: emits_rules emits_bind[where Q = "\<lambda>_. True"] intro: volPopChange_label)

lemma emits_createPVCPrime:
  assumes "controllerRef_documented cl" "IsSnapshot (Some img)"
  shows "emits (vpCall cl p) (createPVCPrime cl p img w n)
     (\<lambda>r. case r of (None, None) \<Rightarrow> False | (Some q, None) \<Rightarrow> isPrime cl p q | _ \<Rightarrow> True)"
proof -
  let ?prime = "pvcPrimeObject p img w n"
  let ?obj = "\<lambda>refs. snd (SetOwnedByVolSync meta_ops
    (snd (AddLabel meta_ops (?prime\<lparr>om_ownerRefs := refs\<rparr>) labelPvcPrime (om_name p))))"
  have frame: "om_name (?obj refs) = getPVCPrimeName p" for refs
    by (simp add: SetOwnedByVolSync_def AddLabel_meta pvcPrimeObject_def new_defs)
  have "newPrime p (?obj refs)"
    if "setControllerReference cl (objmeta.truncate p) (om_ownerRefs ?prime) = Inr refs" for refs
  proof -
    have "\<exists>r \<in> set refs. or_uid r = om_uid (objmeta.truncate p) \<and> or_controller r"
      using assms(1)[unfolded controllerRef_documented_def, THEN spec[of _ "objmeta.truncate p"],
        THEN spec[of _ "om_ownerRefs ?prime"]] that
      by simp
    then have "\<exists>r \<in> set refs. or_uid r = om_uid p \<and> or_controller r" by (simp add: objmeta.defs)
    moreover have "map_of (om_labels (?obj refs)) = [labelPvcPrime \<mapsto> om_name p, OwnedByLabelKey \<mapsto> OwnedByLabelValue]"
      by (simp add: SetOwnedByVolSync_def AddLabel_meta pvcPrimeObject_def new_defs)
    moreover have "labelPvcPrime \<noteq> OwnedByLabelKey" by (simp add: labelPvcPrime_def label_keys)
    moreover have "om_ownerRefs (?obj refs) = refs" "pvc_dataSourceRef (?obj refs) =
        Some \<lparr>tr_apiGroup = tr_apiGroup img, tr_kind = tr_kind img, tr_name = tr_name img\<rparr>"
      "om_namespace (?obj refs) = om_namespace p" "pvc_requests (?obj refs) = pvc_requests p"
      "pvc_accessModes (?obj refs) = pvc_accessModes p"
      "pvc_storageClassName (?obj refs) = pvc_storageClassName p"
      by (simp_all add: SetOwnedByVolSync_def AddLabel_meta pvcPrimeObject_def new_defs)
    ultimately show ?thesis using assms(2) frame by (simp add: newPrime_def IsSnapshot_def)
  qed
  then show ?thesis
    unfolding createPVCPrime_def Let_def
    by (intro emits_case_sum emits_rules emits_step
        emits_bind[OF emits_kCreate_answer[where Q = "\<lambda>w. \<forall>q. w = Inr q \<longrightarrow> isPrime cl p q"]])
      (auto simp: isPrime_def intro: frame)
qed

lemma emits_list [emits_rules]:
  "(\<And>x. Q x) \<Longrightarrow> emits (vpCall cl p) (listSnapshotsUsedByVolPopForPVC cl p) Q"
  unfolding listSnapshotsUsedByVolPopForPVC_def by (auto intro!: emits_rules)

lemma emits_reconcilePVCPrime:
  assumes "controllerRef_documented cl" "pvc_dataSourceRef p \<noteq> None" "\<forall>q. pr = Some q \<longrightarrow> isPrime cl p q"
  shows "emits (vpCall cl p) (reconcilePVCPrime cl p pr w n)
     (\<lambda>r. case r of Panic \<Rightarrow> False | Ret (None, None) \<Rightarrow> False | Ret (Some q, None) \<Rightarrow> isPrime cl p q | _ \<Rightarrow> True)"
  using assms(2,3)
  unfolding reconcilePVCPrime_def getReplicationDestinationFromDataSourceRef_def
  by (auto intro!: emits_rules emits_step emits_bind[OF emits_createPVCPrime[OF assms(1)]]
      emits_bind[where Q = "\<lambda>r. r \<noteq> Panic"] split: go.splits sum.splits option.splits)

lemma volPopChange_owner:
  assumes "ownerRef_documented cl" "isPrime cl p q" "\<not> IsMarkedDoNotDelete s"
    "addOwnerReference cl s q = Inr (b, s')"
  shows "\<exists>s0. volPopChange cl p s0 s'"
proof -
  obtain refs where refs: "setOwnerReference cl (objmeta.truncate q) (om_ownerRefs s) = Inr refs"
    "s' = s\<lparr>om_ownerRefs := refs\<rparr>"
    using assms(4) by (auto simp: addOwnerReference_def split: sum.splits)
  have "or_uid r \<noteq> om_uid q \<longrightarrow> (r \<in> set refs \<longleftrightarrow> r \<in> set (om_ownerRefs s))" for r
    using assms(1) refs(1) unfolding ownerRef_documented_def
    by (metis objmeta.select_convs(3) objmeta.truncate_def)
  moreover have "\<exists>l. map_of (om_labels s) = (map_of (om_labels s))(k := l)" for k
    by (metis fun_upd_triv)
  moreover have "\<not> IsMarkedDoNotDelete s'" using assms(3) refs(2) by (simp add: marked_iff)
  ultimately show ?thesis using assms(2) refs(2) unfolding volPopChange_def by (intro exI[of _ s]) auto
qed

lemma emits_ensureOwnerReferences:
  assumes "ownerRef_documented cl" "isPrime cl p q"
  shows "emits (vpCall cl p) (ensureOwnerReferenceOnSnapshots cl p q) (\<lambda>_. True)"
proof -
  have "emits (vpCall cl p) (ensureOwnerReferenceOnSnapshot cl s q) (\<lambda>_. True)"
    if "\<not> IsMarkedDoNotDelete s" for s
    unfolding ensureOwnerReferenceOnSnapshot_def
    by (auto intro!: emits_rules emits_step intro: volPopChange_owner[OF assms that] split: sum.splits)
  then show ?thesis
    unfolding ensureOwnerReferenceOnSnapshots_def
    by (auto intro!: emits_rules emits_step emits_forEach)
qed

lemma emits_rebindPVClaim:
  assumes "isPrime cl p q" "\<not> isPVCBoundToVolume p"
  shows "emits (vpCall cl p) (rebindPVClaim cl p q) (\<lambda>r. r = Panic \<longrightarrow> pvc_dataSourceRef q = None)"
proof -
  have "vpCall cl p (CPatchClaim (om_name v) ann (claimRefOf p))"
    if "\<not> boundTo p v" "k_get (pvC cl) tr ([], pvc_volumeName q) = Inr v" for v ann tr
    using assms that by auto
  then show ?thesis
    unfolding rebindPVClaim_def
    by (intro emits_if emits_bind[OF emits_kGet_answer[where
          Q = "\<lambda>r. \<forall>v. r = Inr v \<longrightarrow> (\<exists>tr. k_get (pvC cl) tr ([], pvc_volumeName q) = Inr v)"]])
       (auto intro!: emits_rules emits_step emits_ask simp: patchPV_def simp del: vpCall.simps(4))
qed

lemma RemoveLabel_unlabel:
  "map_of (om_labels (snd (RemoveLabel meta_ops s k))) = (map_of (om_labels s))(k := None)"
  using ml.remove_labels[of s k] by simp

lemma volPopChange_unlabel:
  assumes "s1 = snd (RemoveLabel meta_ops s (getSnapshotInUseLabelKey p))"
  shows "\<exists>s0. volPopChange cl p s0 s1"
    and "isPrime cl p q \<Longrightarrow> \<exists>s0. volPopChange cl p s0 (snd (RemoveOwnerReference s1 q))"
proof -
  have lb: "map_of (om_labels s1) = (map_of (om_labels s))(getSnapshotInUseLabelKey p := None)"
    using assms ml.remove_labels[of s] by simp
  have fr: "s1 = s\<lparr>om_labels := om_labels s1\<rparr>" "om_ownerRefs s1 = om_ownerRefs s"
    using assms by (auto simp: RemoveLabel_meta)
  show "\<exists>s0. volPopChange cl p s0 s1"
    by (intro exI[of _ s]) (use lb fr in \<open>auto simp: volPopChange_def\<close>)
  show "\<exists>s0. volPopChange cl p s0 (snd (RemoveOwnerReference s1 q))" if "isPrime cl p q"
  proof (intro exI[of _ s])
    have "snd (RemoveOwnerReference s1 q) =
        s\<lparr>om_labels := om_labels s1, om_ownerRefs := om_ownerRefs (snd (RemoveOwnerReference s1 q))\<rparr>"
      using fr by (auto simp: RemoveOwnerReference_def Let_def)
    then show "volPopChange cl p s (snd (RemoveOwnerReference s1 q))"
      using that lb fr(2) unfolding volPopChange_def RemoveOwnerReference_refs by auto
  qed
qed

lemma emits_vpCleanupSnapshot:
  assumes "\<forall>q. pr = Some q \<longrightarrow> isPrime cl p q"
  shows "emits (vpCall cl p) (vpCleanupSnapshot cl p pr s) (\<lambda>_. True)"
proof -
  let ?s = "snd (RemoveLabel meta_ops s (getSnapshotInUseLabelKey p))"
  have "vpCall cl p (CUpdate (OSnapshot ?s))"
    using volPopChange_unlabel(1)[of ?s s p cl] by simp
  moreover have "vpCall cl p (CUpdate (OSnapshot (snd (RemoveOwnerReference ?s q))))"
    if "pr = Some q" for q
    using volPopChange_unlabel(2)[of ?s s p cl q] assms that by simp
  ultimately show ?thesis
    unfolding vpCleanupSnapshot_def case_prod_beta Let_def
    by (auto intro!: emits_rules emits_step split: option.splits simp del: vpCall.simps(2))
qed

lemma emits_vpCleanup:
  assumes "\<forall>q. pr = Some q \<longrightarrow> pvc_phase q = ClaimLost \<and>
    (\<exists>tr. k_get (pvcC cl) tr (om_namespace p, getPVCPrimeName p) = Inr q)"
  shows "emits (vpCall cl p) (vpCleanup cl p pr) (\<lambda>_. True)"
proof -
  have "emits (vpCall cl p) (vpCleanupSnapshot cl p pr s) (\<lambda>_. True)" for s
    using assms by (intro emits_vpCleanupSnapshot) (auto simp: isPrime_def)
  then show ?thesis
    using assms unfolding vpCleanup_def
    by (auto intro!: emits_rules emits_step emits_forEach)
qed

lemma emits_populate:
  assumes "controllerRef_documented cl" "ownerRef_documented cl" "pvc_dataSourceRef p \<noteq> None"
    and "\<forall>q. pr = Some q \<longrightarrow> isPrime cl p q" "\<not> isPVCBoundToVolume p"
  shows "emits (vpCall cl p) (populate cl p pr w n)
     (\<lambda>r. r = Panic \<longrightarrow> (\<exists>q. isPrime cl p q \<and> pvc_dataSourceRef q = None))"
  unfolding populate_def
  by (rule emits_bind[OF emits_reconcilePVCPrime[OF assms(1,3,4)]])
     (auto intro!: emits_rules emits_bind[OF emits_ensureOwnerReferences[OF assms(2)]]
        emits_post[OF emits_rebindPVClaim[OF _ assms(5)]] split: go.splits option.splits prod.splits)

lemma emits_reconcilePVC:
  assumes "controllerRef_documented cl" "ownerRef_documented cl" "pvc_dataSourceRef p \<noteq> None"
  shows "emits (vpCall cl p) (reconcilePVC cl p)
     (\<lambda>r. r = Panic \<longrightarrow> (\<exists>q. isPrime cl p q \<and> pvc_dataSourceRef q = None))"
proof -
  have fin: "emits (vpCall cl p) (vpFinish cl p pr) (\<lambda>_. True)"
    if "\<forall>q. pr = Some q \<longrightarrow> (\<exists>tr. k_get (pvcC cl) tr (om_namespace p, getPVCPrimeName p) = Inr q)" for pr
    unfolding vpFinish_def
    by (cases pr) (use that in \<open>auto intro!: emits_rules emits_step emits_vpCleanup\<close>)
  have pop: "emits (vpCall cl p) (if \<not> isPVCBoundToVolume p then populate cl p pr w n else ret (Ret None))
      (\<lambda>r. r = Panic \<longrightarrow> (\<exists>q. isPrime cl p q \<and> pvc_dataSourceRef q = None))"
    if "\<forall>q. pr = Some q \<longrightarrow> (\<exists>tr. k_get (pvcC cl) tr (om_namespace p, getPVCPrimeName p) = Inr q)" for pr w n
  proof (cases "isPVCBoundToVolume p")
    case False
    have "\<forall>q. pr = Some q \<longrightarrow> isPrime cl p q" using that by (auto simp: isPrime_def)
    with False show ?thesis by (simp add: emits_populate[OF assms])
  qed (auto intro: emits_rules)
  show ?thesis
    unfolding reconcilePVC_def
    by (rule emits_step)
       (auto intro!: emits_rules emits_bind[OF emits_GetPrime] emits_bind[OF pop] emits_step[OF fin])
qed
section \<open>A sample claim\<close>

definition vpClaim :: pvc where
  "vpClaim = (newPVC ''ns'' ''data'')\<lparr>om_uid := ''u1'', pvc_dataSourceRef :=
     Some \<lparr>tr_apiGroup = Some volsyncGroup, tr_kind = ''ReplicationDestination'', tr_name = ''rd''\<rparr>\<rparr>"

definition vpPrime :: pvc where
  "vpPrime = (newPVC ''ns'' ''vs-prime-u1'')\<lparr>om_uid := ''u2'', pvc_phase := ClaimLost\<rparr>"

definition vpSnap :: snapshot where
  "vpSnap = (newSnapshot ''ns'' ''snap'')\<lparr>om_labels := [(DoNotDeleteLabelKey, ''true'')]\<rparr>"

definition vpRd :: replicationdestination where
  "vpRd = objmeta.extend (newMeta ''ns'' ''rd'') (replicationdestination.fields None None None None None
     None None False (Some (emptyRDStatus\<lparr>rds_latestImage :=
       Some \<lparr>tr_apiGroup = Some snapshotGroup, tr_kind = ''VolumeSnapshot'', tr_name = ''snap''\<rparr>\<rparr>)))"

definition vpSample :: cluster where
  "vpSample = sampleCluster\<lparr>
     pvcs := (sampleClient KPVC OPVC)\<lparr>
       k_get := (\<lambda>_ k. if snd k = ''data'' then Inr vpClaim else Inl (StatusError NotFound ''not found'')),
       k_list := (\<lambda>_ ns sel. case sel of ByIndex ix v \<Rightarrow>
         Inr (filter (\<lambda>p. (ns = None \<or> ns = Some (om_namespace p)) \<and>
            v \<in> set ((if ix = VolPopPVCToReplicationDestinationIndex then volPopRDIndexer
                    else volPopStorageClassIndexer) p)) [vpClaim]) | _ \<Rightarrow> Inr [])\<rparr>,
     snapshots := (sampleClient KSnapshot OSnapshot)\<lparr>k_get := (\<lambda>_ _. Inr vpSnap),
       k_list := (\<lambda>_ _ _. Inr [snd (AddLabel meta_ops vpSnap (getSnapshotInUseLabelKey vpClaim) ''data'')])\<rparr>,
     replicationdestinations := (sampleClient KReplicationDestination OReplicationDestination)\<lparr>
       k_get := (\<lambda>_ _. Inr vpRd)\<rparr>\<rparr>"

lemma vpSample_documented: "controllerRef_documented vpSample" "ownerRef_documented vpSample"
  using sample_controllerRef sample_ownerRef
  by (simp_all add: controllerRef_documented_def ownerRef_documented_def vpSample_def)

lemma vpSample_answers:
  "k_get (pvcC vpSample) tr k = (if snd k = ''data'' then Inr vpClaim else Inl (StatusError NotFound ''not found''))"
  "k_create (pvcC vpSample) tr p = Inr p" "k_delete (pvcC vpSample) tr p rv = None"
  "k_get (snapC vpSample) tr k = Inr vpSnap" "k_update (snapC vpSample) tr s = Inr s"
  "k_list (snapC vpSample) tr ns sel =
     Inr [snd (AddLabel meta_ops vpSnap (getSnapshotInUseLabelKey vpClaim) ''data'')]"
  "k_get (rdC vpSample) tr k = Inr vpRd"
  "setControllerReference vpSample = sampleSetControllerReference"
  "labelsParse vpSample = (\<lambda>k. if k = [] then Inl (Errorf ''empty key'') else Inr (HasKey k))"
  by (simp_all add: pvcC_def snapC_def rdC_def vpSample_def)

lemmas vpSample_defs = vpSample_answers vpClaim_def vpSnap_def vpRd_def new_defs
  replicationdestination.defs emptyRDStatus_def kube_ops label_keys snapshotGroup_def volsyncGroup_def
  populatorPvcPrefix_def labelPvcPrime_def IsSnapshot_def meta_ops_def AddLabel_def Let_def
  getPVCPrimeName_def getSnapshotInUseLabelKey_def pvcHasReplicationDestinationDataSourceRef_def

section \<open>Safety\<close>



section \<open>The order of labelling and creating\<close>

text \<open>
  A claim is created only after the snapshot it comes from was read and carries the label.
\<close>

definition labelledFirst :: "cluster \<Rightarrow> pvc \<Rightarrow> call \<Rightarrow> trace \<Rightarrow> bool" where
  "labelledFirst cl p c e \<longleftrightarrow> (\<forall>q. c = CCreate (OPVC q) \<longrightarrow>
     (\<exists>img ns s. pvc_dataSourceRef q = Some img \<and> IsSnapshot (Some img) \<and>
        CGet KSnapshot (ns, tr_name img) \<in> set e \<and>
        map_of (om_labels s) (getSnapshotInUseLabelKey p) = Some (om_name p) \<and>
        (CUpdate (OSnapshot s) \<in> set e \<or> (\<exists>tr. k_get (snapC cl) tr (ns, tr_name img) = Inr s))))"

lemma labelledFirst_grows: "grows (labelledFirst cl p)"
  unfolding grows_def labelledFirst_def by fastforce

definition createsNoClaim :: "call \<Rightarrow> bool" where
  "createsNoClaim c = (case c of CCreate (OPVC _) \<Rightarrow> False | _ \<Rightarrow> True)"

lemma createsNoClaim_simps [simp]:
  "createsNoClaim (CGet k n)" "createsNoClaim (CList k nn sel)" "createsNoClaim (CUpdate ob)"
  "createsNoClaim (CDelete ob rv)" "createsNoClaim (CEvent t r)" "createsNoClaim (CPatchClaim v a cr)"
  by (simp_all add: createsNoClaim_def)

lemma preceded_noClaim: "emits createsNoClaim m Q \<Longrightarrow> preceded (labelledFirst cl p) m"
  by (erule preceded_emits) (auto simp: labelledFirst_def createsNoClaim_def split: call.splits kobj.splits)

lemma noClaim_rules [emits_rules]:
  "emits createsNoClaim (checkStorageClass cl p) (\<lambda>_. True)"
  "emits createsNoClaim (GetVolumePopulatorPVCPrime cl p) (\<lambda>_. True)"
  "emits createsNoClaim (getReplicationDestinationFromDataSourceRef cl p) (\<lambda>_. True)"
  "emits createsNoClaim (validateSnapshotAndLabel cl n ns p) (\<lambda>_. True)"
  "emits createsNoClaim (ensureOwnerReferenceOnSnapshots cl p q) (\<lambda>_. True)"
  "emits createsNoClaim (rebindPVClaim cl p q) (\<lambda>_. True)"
  "emits createsNoClaim (vpFinish cl p pr) (\<lambda>_. True)"
  unfolding checkStorageClass_def Let_def GetVolumePopulatorPVCPrime_def
    getReplicationDestinationFromDataSourceRef_def validateSnapshotAndLabel_def case_prod_beta
    ensureOwnerReferenceOnSnapshots_def listSnapshotsUsedByVolPopForPVC_def
    ensureOwnerReferenceOnSnapshot_def rebindPVClaim_def vpFinish_def vpCleanup_def patchPV_def
    vpCleanupSnapshot_def
  by (auto intro!: emits_rules emits_step emits_forEach emits_ask split: sum.splits)


lemma validate_run:
  assumes "run_state (validateSnapshotAndLabel cl nm ns p) tr = (Inr x, n @ tr)"
  shows "CGet KSnapshot (ns, nm) \<in> set n" and
    "\<exists>s. map_of (om_labels s) (getSnapshotInUseLabelKey p) = Some (om_name p) \<and>
       (CUpdate (OSnapshot s) \<in> set n \<or> (\<exists>tr. k_get (snapC cl) tr (ns, nm) = Inr s))"
proof -
  let ?k = "getSnapshotInUseLabelKey p"
  obtain s where s: "k_get (snapC cl) tr (ns, nm) = Inr s"
    using assms by (auto simp: validateSnapshotAndLabel_def kube_ops split: sum.splits)
  have lb: "map_of (om_labels (snd (AddLabel meta_ops s ?k (om_name p)))) ?k = Some (om_name p)"
    using ml.add_labels[of s ?k "om_name p"] by simp
  show "CGet KSnapshot (ns, nm) \<in> set n"
    using assms s by (auto simp: validateSnapshotAndLabel_def kube_ops case_prod_beta append_eq_Cons_conv split: if_splits)
  show "\<exists>s. map_of (om_labels s) ?k = Some (om_name p) \<and>
       (CUpdate (OSnapshot s) \<in> set n \<or> (\<exists>tr. k_get (snapC cl) tr (ns, nm) = Inr s))"
  proof (cases "fst (AddLabel meta_ops s ?k (om_name p))")
    case True
    with assms s have "CUpdate (OSnapshot (snd (AddLabel meta_ops s ?k (om_name p)))) \<in> set n"
      by (auto simp: validateSnapshotAndLabel_def kube_ops case_prod_beta append_eq_Cons_conv Cons_eq_append_conv)
    with lb show ?thesis by blast
  next
    case False
    with ml.add_reports_change[of s ?k "om_name p"] have "map_of (om_labels s) ?k = Some (om_name p)" by simp
    with s show ?thesis by blast
  qed
qed

lemma preceded_create:
  assumes "run_state (validateSnapshotAndLabel cl (tr_name img) ns p) tr = (Inr x, n @ tr)" "IsSnapshot (Some img)"
  shows "preceded (\<lambda>c e. labelledFirst cl p c (e @ n)) (createPVCPrime cl p img w m)"
proof (rule preceded_emits[where Q = "\<lambda>_. True" and P = "\<lambda>c. \<forall>q. c = CCreate (OPVC q) \<longrightarrow>
      (\<exists>i. pvc_dataSourceRef q = Some i \<and> tr_name i = tr_name img \<and> IsSnapshot (Some i))"])
  show "emits (\<lambda>c. \<forall>q. c = CCreate (OPVC q) \<longrightarrow>
      (\<exists>i. pvc_dataSourceRef q = Some i \<and> tr_name i = tr_name img \<and> IsSnapshot (Some i)))
    (createPVCPrime cl p img w m) (\<lambda>_. True)"
    using assms(2) unfolding createPVCPrime_def Let_def
    by (auto intro!: emits_rules emits_step simp: SetOwnedByVolSync_def AddLabel_meta pvcPrimeObject_def IsSnapshot_def)
qed (use validate_run[OF assms(1)] in \<open>auto simp: labelledFirst_def; metis\<close>)

lemma emits_anything:
  "emits (\<lambda>_. True) (createPVCPrime cl p img w m) (\<lambda>_. True)"
  "emits (\<lambda>_. True) (validateSnapshotAndLabel cl nm ns p) (\<lambda>_. True)"
  "emits (\<lambda>_. True) (ensureOwnerReferenceOnSnapshots cl p q) (\<lambda>_. True)"
  "emits (\<lambda>_. True) (rebindPVClaim cl p q) (\<lambda>_. True)"
  "emits (\<lambda>_. True) (getReplicationDestinationFromDataSourceRef cl p) (\<lambda>_. True)"
  "emits (\<lambda>_. True) (vpFinish cl p pr) (\<lambda>_. True)"
  "emits (\<lambda>_. True) (GetVolumePopulatorPVCPrime cl p) (\<lambda>_. True)"
  by (auto intro: emits_weaken[OF noClaim_rules(3)] emits_weaken[OF noClaim_rules(2)] emits_weaken[OF noClaim_rules(4)]
      emits_weaken[OF noClaim_rules(5)] emits_weaken[OF noClaim_rules(6)] emits_weaken[OF noClaim_rules(7)]
      intro!: emits_rules emits_step simp: createPVCPrime_def Let_def)

lemma emits_anything_prime:
  "emits (\<lambda>_. True) (reconcilePVCPrime cl p pr w m) (\<lambda>_. True)"
  "emits (\<lambda>_. True) (populate cl p pr w m) (\<lambda>_. True)"
proof -
  show 1: "emits (\<lambda>_. True) (reconcilePVCPrime cl p pr w m) (\<lambda>_. True)"
    unfolding reconcilePVCPrime_def
    by (auto intro!: emits_anything emits_rules emits_step split: option.splits go.splits sum.splits)
  show "emits (\<lambda>_. True) (populate cl p pr w m) (\<lambda>_. True)"
    unfolding populate_def
    by (rule emits_bind[OF 1])
       (auto intro!: emits_anything emits_rules emits_step split: option.splits go.splits prod.splits)
qed

lemma preceded_label_create:
  assumes "IsSnapshot (Some img)"
  shows "preceded (labelledFirst cl p) (validateSnapshotAndLabel cl (tr_name img) ns p \<bind>
    case_sum (\<lambda>e. ret (Ret (None, Some (emptyResult, Some e))))
      (\<lambda>_. createPVCPrime cl p img w m \<bind> (\<lambda>out. ret (Ret out))))"
proof (rule preceded_bind[OF noClaim_rules(4) preceded_noClaim[OF noClaim_rules(4)],
      where P' = "\<lambda>_. True" and Q' = "\<lambda>_. True"])
  fix a n tr assume v: "run_state (validateSnapshotAndLabel cl (tr_name img) ns p) tr = (a, n @ tr)"
  show "preceded (\<lambda>c e. labelledFirst cl p c (e @ n)) (case_sum (\<lambda>e. ret (Ret (None, Some (emptyResult, Some e))))
      (\<lambda>_. createPVCPrime cl p img w m \<bind> (\<lambda>out. ret (Ret out))) a)"
  proof (cases a)
    case (Inr x)
    from preceded_create[OF v[unfolded Inr] assms] show ?thesis unfolding Inr sum.case
      by (rule preceded_bind[OF emits_anything(1)]) (auto intro: preceded_return emits_rules)
  qed (simp add: preceded_return)
qed (auto intro!: emits_anything emits_rules emits_step split: sum.splits)

lemma preceded_reconcilePVCPrime: "preceded (labelledFirst cl p) (reconcilePVCPrime cl p pr w m)"
proof (cases pr)
  case None
  have go: "preceded (labelledFirst cl p) (eventf t r \<bind> (\<lambda>_. ret x))" for t r and x :: "(pvc option \<times> vpResult option) go"
    by (rule preceded_noClaim[where Q = "\<lambda>_. True"]) (auto intro!: emits_rules emits_step)
  show ?thesis
    unfolding reconcilePVCPrime_def None option.case
    by (rule preceded_bind[OF noClaim_rules(3) preceded_noClaim[OF noClaim_rules(3)],
          where P' = "\<lambda>_. True" and Q' = "\<lambda>_. True"])
       (auto intro!: preceded_more[OF labelledFirst_grows] preceded_return go
          preceded_label_create emits_anything emits_rules emits_step split: go.splits sum.splits option.splits)
qed (simp add: reconcilePVCPrime_def preceded_return)

lemma preceded_seq:
  assumes "emits createsNoClaim m Q" "\<And>a. preceded (labelledFirst cl p) (f a)"
    and "\<And>a. emits (\<lambda>_. True) (f a) (\<lambda>_. True)"
  shows "preceded (labelledFirst cl p) (m \<bind> f)"
  by (rule preceded_bind[OF assms(1) preceded_noClaim[OF assms(1)] preceded_more[OF labelledFirst_grows assms(2)] assms(3)])

lemma preceded_populate: "preceded (labelledFirst cl p) (populate cl p pr w m)"
  unfolding populate_def
proof (rule preceded_bind[OF emits_anything_prime(1) preceded_reconcilePVCPrime,
      where P' = createsNoClaim and Q' = "\<lambda>_. True"])
  show cont: "emits createsNoClaim (case out of Ret (Some prime, None) \<Rightarrow> do {
         err \<leftarrow> ensureOwnerReferenceOnSnapshots cl p prime;
         case err of
           Some e \<Rightarrow> ret (Ret (Some (emptyResult, Some e)))
         | None \<Rightarrow> rebindPVClaim cl p prime }
     | Ret (None, None) \<Rightarrow> ret Panic | Ret (_, Some res) \<Rightarrow> ret (Ret (Some res)) | Panic \<Rightarrow> ret Panic) (\<lambda>_. True)" for out
    by (auto intro!: emits_rules emits_step split: option.splits go.splits prod.splits)
  show "preceded (\<lambda>c e. labelledFirst cl p c (e @ n)) (case out of Ret (Some prime, None) \<Rightarrow> do {
         err \<leftarrow> ensureOwnerReferenceOnSnapshots cl p prime;
         case err of
           Some e \<Rightarrow> ret (Ret (Some (emptyResult, Some e)))
         | None \<Rightarrow> rebindPVClaim cl p prime }
     | Ret (None, None) \<Rightarrow> ret Panic | Ret (_, Some res) \<Rightarrow> ret (Ret (Some res)) | Panic \<Rightarrow> ret Panic)" for out n
    by (rule preceded_more[OF labelledFirst_grows preceded_noClaim[OF cont]])
qed

lemma preceded_reconcilePVC: "preceded (labelledFirst cl p) (reconcilePVC cl p)"
proof -
  have fin: "emits createsNoClaim (case r of Panic \<Rightarrow> ret Panic | Ret (Some res) \<Rightarrow> ret (Ret res)
      | Ret None \<Rightarrow> do { res \<leftarrow> vpFinish cl p pr; ret (Ret res) }) (\<lambda>_. True)" for r pr
    by (auto intro!: emits_rules emits_step split: go.splits option.splits)
  let ?rest = "\<lambda>w m pr. (if \<not> isPVCBoundToVolume p then populate cl p pr w m else ret (Ret None)) \<bind>
      (\<lambda>r. case r of Panic \<Rightarrow> ret Panic | Ret (Some res) \<Rightarrow> ret (Ret res)
      | Ret None \<Rightarrow> do { res \<leftarrow> vpFinish cl p pr; ret (Ret res) })"
  have pop: "preceded (labelledFirst cl p) (?rest w m pr)" for pr w m
    by (rule preceded_bind[OF _ _ preceded_more[OF labelledFirst_grows preceded_noClaim[OF fin]] fin,
          where P = "\<lambda>_. True" and Q = "\<lambda>_. True"])
       (auto intro: emits_anything_prime preceded_populate preceded_return emits_rules)
  have pop': "emits (\<lambda>_. True) (?rest w m pr) (\<lambda>_. True)" for pr w m
    by (rule emits_step, simp_all add: emits_anything_prime emits_return)
       (auto intro: emits_weaken[OF fin])
  show ?thesis
    unfolding reconcilePVC_def
  proof (rule preceded_seq[OF noClaim_rules(1)], goal_cases)
    case (1 a)
    obtain w m sc where a: "a = (w, m, sc)" by (cases a)
    have "preceded (labelledFirst cl p) (GetVolumePopulatorPVCPrime cl p \<bind> (\<lambda>g. case g of
        Inl e \<Rightarrow> ret (Ret (emptyResult, Some e)) | Inr pr \<Rightarrow> ?rest w m pr))"
    proof (rule preceded_seq[OF noClaim_rules(2)], goal_cases)
      case (1 g)
      then show ?case by (cases g) (simp only: sum.case preceded_return, simp only: sum.case pop)
    next
      case (2 g)
      then show ?case by (cases g) (simp only: sum.case emits_return, simp only: sum.case pop')
    qed
    then show ?case by (cases sc) (simp_all add: a preceded_return)
  next
    case (2 a)
    then show ?case
      by (cases a) (auto intro!: emits_anything emits_anything_prime emits_rules emits_step
          split: option.splits sum.splits go.splits)
  qed
qed
text \<open>C11: When a reconciliation creates PVC', its data source is a snapshot that the same reconciliation
  had read before, and by then that snapshot carries the label for the claim: it was read with
  the label or has been updated with it.\<close>

theorem vp_label_before_prime:
  assumes "run_state (reconcilePVC cl p) tr = (out, later @ CCreate (OPVC q) # earlier @ tr)"
  shows "\<exists>img ns s. pvc_dataSourceRef q = Some img \<and> IsSnapshot (Some img) \<and>
        CGet KSnapshot (ns, tr_name img) \<in> set earlier \<and>
        map_of (om_labels s) (getSnapshotInUseLabelKey p) = Some (om_name p) \<and>
        (CUpdate (OSnapshot s) \<in> set earlier \<or> (\<exists>tr. k_get (snapC cl) tr (ns, tr_name img) = Inr s))"
  using preceded_reconcilePVC[of cl p] assms unfolding preceded_def labelledFirst_def by blast

theorem vp_label_before_prime_witness:
  "\<exists>out later q earlier img ns (s :: snapshot).
     run_state (reconcilePVC vpSample vpClaim) [] = (out, later @ CCreate (OPVC q) # earlier @ []) \<and>
     pvc_dataSourceRef q = Some img \<and> CGet KSnapshot (ns, tr_name img) \<in> set earlier \<and>
     map_of (om_labels s) ''volsync.backube/volpop-pvc-u1'' = Some ''data''"
proof -
  let ?run = "run_state (reconcilePVC vpSample vpClaim) []"
  have "\<exists>q. CCreate (OPVC q) \<in> set (snd ?run)"
    by (simp add: reconcilePVC_def checkStorageClass_def GetVolumePopulatorPVCPrime_def
        isPVCBoundToVolume_def populate_def reconcilePVCPrime_def getReplicationDestinationFromDataSourceRef_def
        validateSnapshotAndLabel_def createPVCPrime_def pvcPrimeObject_def SetOwnedByVolSync_def
        sampleSetControllerReference_def ensureOwnerReferenceOnSnapshots_def
        listSnapshotsUsedByVolPopForPVC_def rebindPVClaim_def vpSample_defs marked_iff)
  then obtain q later earlier where "snd ?run = later @ CCreate (OPVC q) # earlier"
    by (meson split_list)
  then have run: "?run = (fst ?run, later @ CCreate (OPVC q) # earlier @ [])" by (metis append_Nil2 prod.collapse)
  have key: "getSnapshotInUseLabelKey vpClaim = ''volsync.backube/volpop-pvc-u1''" "om_name vpClaim = ''data''"
    by (simp_all add: vpSample_defs)
  from vp_label_before_prime[OF run] obtain img ns and s :: snapshot where h: "pvc_dataSourceRef q = Some img"
    "CGet KSnapshot (ns, tr_name img) \<in> set earlier"
    "map_of (om_labels s) ''volsync.backube/volpop-pvc-u1'' = Some ''data''" unfolding key by blast
  show ?thesis by (intro exI conjI) (rule run h)+
qed

section \<open>Cleaning up\<close>

lemma one_call: "c # tr = n @ tr \<longleftrightarrow> n = [c]"
  by (metis append_Cons append_Nil append_same_eq)

lemma RemoveOwnerReference_key [simp]: "objKey (snd (RemoveOwnerReference s q)) = objKey s"
  by (simp add: RemoveOwnerReference_def Let_def objKey_def)

lemma vpCleanupSnapshot_run:
  assumes "run_state (vpCleanupSnapshot cl p pr s) tr = (None, n @ tr)"
    and "HasLabel meta_ops s (getSnapshotInUseLabelKey p)"
  shows "\<exists>s'. CUpdate (OSnapshot s') \<in> set n \<and> objKey s' = objKey s \<and>
    \<not> HasLabel meta_ops s' (getSnapshotInUseLabelKey p) \<and>
    (\<forall>q. pr = Some q \<and> IsMarkedDoNotDelete s \<longrightarrow> (\<forall>r \<in> set (om_ownerRefs s'). or_uid r \<noteq> om_uid q))"
proof -
  let ?k = "getSnapshotInUseLabelKey p"
  let ?s1 = "snd (RemoveLabel meta_ops s ?k)"
  let ?s2 = "case pr of Some q \<Rightarrow> if IsMarkedDoNotDelete ?s1 then snd (RemoveOwnerReference ?s1 q) else ?s1 | None \<Rightarrow> ?s1"
  have lb: "map_of (om_labels ?s1) = (map_of (om_labels s))(?k := None)"
    using ml.remove_labels[of s ?k] by simp
  have mk: "IsMarkedDoNotDelete ?s1 = IsMarkedDoNotDelete s"
    by (simp add: marked_iff lb snapKey_marks[symmetric])
  have k1: "objKey ?s1 = objKey s" by (simp add: RemoveLabel_meta objKey_def)
  have "CUpdate (OSnapshot ?s2) \<in> set n"
    using assms ml.remove_reports_change[of s ?k]
    by (auto simp: vpCleanupSnapshot_def case_prod_beta kube_ops Let_def one_call split: option.splits if_splits sum.splits)
  moreover have "objKey ?s2 = objKey s" "\<not> HasLabel meta_ops ?s2 ?k"
    "\<forall>q. pr = Some q \<and> IsMarkedDoNotDelete s \<longrightarrow> (\<forall>r \<in> set (om_ownerRefs ?s2). or_uid r \<noteq> om_uid q)"
    using k1 by (auto simp: ml.has_label_iff lb mk RemoveOwnerReference_refs split: option.splits)
  ultimately show ?thesis by blast
qed

text \<open>When cleaning up after a populated claim succeeds, every snapshot that was listed with the label
  of the claim has been written without it, and without an owner reference to PVC' if it is marked
  do-not-delete, and PVC' has been deleted unless it already was being deleted.\<close>

theorem vpCleanup_releases:
  assumes "run_state (vpCleanup cl p pr) tr = (None, tr')"
    and "labelsParse cl (getSnapshotInUseLabelKey p) = Inr sel"
    and "k_list (snapC cl) tr (Some (om_namespace p)) sel = Inr items"
  shows "\<exists>new. tr' = new @ tr \<and>
    (\<forall>s \<in> set items. HasLabel meta_ops s (getSnapshotInUseLabelKey p) \<longrightarrow>
       (\<exists>s'. CUpdate (OSnapshot s') \<in> set new \<and> objKey s' = objKey s \<and>
          \<not> HasLabel meta_ops s' (getSnapshotInUseLabelKey p) \<and>
          (\<forall>q. pr = Some q \<and> IsMarkedDoNotDelete s \<longrightarrow> (\<forall>r \<in> set (om_ownerRefs s'). or_uid r \<noteq> om_uid q)))) \<and>
    (\<forall>q. pr = Some q \<and> IsZero (om_deletionTimestamp q) \<longrightarrow> CDelete (OPVC q) None \<in> set new)"
proof -
  let ?list = "CList KSnapshot (Some (om_namespace p)) sel"
  have em: "emits (\<lambda>_. True) (vpCleanupSnapshot cl p pr s) (\<lambda>_. True)" for s
    unfolding vpCleanupSnapshot_def case_prod_beta
    by (auto intro!: emits_rules emits_step split: option.splits sum.splits)
  obtain tr1 where 1: "run_state (forEach (vpCleanupSnapshot cl p pr) items) (?list # tr) = (None, tr1)"
    and 2: "tr' = (case pr of Some q \<Rightarrow> if IsZero (om_deletionTimestamp q) then [CDelete (OPVC q) None] else [] | None \<Rightarrow> []) @ tr1"
    using assms by (auto simp: vpCleanup_def listSnapshotsUsedByVolPopForPVC_def kube_ops
        split: option.splits prod.splits if_splits)
  from forEach_run[OF 1 em] obtain n where n: "tr1 = n @ ?list # tr"
    "\<forall>s \<in> set items. \<exists>tr2 m. run_state (vpCleanupSnapshot cl p pr s) tr2 = (None, m @ tr2) \<and> set m \<subseteq> set n" by auto
  show ?thesis
  proof (rule exI[of _ "(case pr of Some q \<Rightarrow> if IsZero (om_deletionTimestamp q) then [CDelete (OPVC q) None] else [] | None \<Rightarrow> []) @ n @ [?list]"],
      intro conjI ballI impI)
    fix s assume s: "s \<in> set items" "HasLabel meta_ops s (getSnapshotInUseLabelKey p)"
    then obtain tr2 m where "run_state (vpCleanupSnapshot cl p pr s) tr2 = (None, m @ tr2)" "set m \<subseteq> set n"
      using n(2) by blast
    with vpCleanupSnapshot_run[OF this(1) s(2)] show "\<exists>s'. CUpdate (OSnapshot s') \<in> set ((case pr of Some q \<Rightarrow>
        if IsZero (om_deletionTimestamp q) then [CDelete (OPVC q) None] else [] | None \<Rightarrow> []) @ n @ [?list]) \<and> objKey s' = objKey s \<and>
          \<not> HasLabel meta_ops s' (getSnapshotInUseLabelKey p) \<and>
          (\<forall>q. pr = Some q \<and> IsMarkedDoNotDelete s \<longrightarrow> (\<forall>r \<in> set (om_ownerRefs s'). or_uid r \<noteq> om_uid q))" by auto
  qed (auto simp: 2 n(1))
qed

theorem vpCleanup_releases_witness:
  "\<exists>tr'. run_state (vpCleanup vpSample vpClaim (Some vpPrime)) [] = (None, tr') \<and>
     CDelete (OPVC vpPrime) None \<in> set tr' \<and> (\<exists>s'. CUpdate (OSnapshot s') \<in> set tr' \<and>
       \<not> HasLabel meta_ops s' (getSnapshotInUseLabelKey vpClaim))"
proof -
  let ?run = "run_state (vpCleanup vpSample vpClaim (Some vpPrime)) []"
  let ?s = "snd (AddLabel meta_ops vpSnap (getSnapshotInUseLabelKey vpClaim) ''data'')"
  have "fst ?run = None"
    by (simp add: vpCleanup_def listSnapshotsUsedByVolPopForPVC_def vpCleanupSnapshot_def RemoveLabel_def
        vpSample_defs vpPrime_def marked_iff RemoveOwnerReference_def IsMarkedDoNotDelete_def HasLabel_def entries_def)
  then have run: "?run = (None, snd ?run)" by (metis prod.collapse)
  have sel: "labelsParse vpSample (getSnapshotInUseLabelKey vpClaim) = Inr (HasKey (getSnapshotInUseLabelKey vpClaim))"
    by (simp add: vpSample_defs)
  have ls: "k_list (snapC vpSample) [] (Some (om_namespace vpClaim)) (HasKey (getSnapshotInUseLabelKey vpClaim)) = Inr [?s]"
    by (simp add: vpSample_answers)
  have lb: "HasLabel meta_ops ?s (getSnapshotInUseLabelKey vpClaim)"
    using ml.add_labels[of vpSnap "getSnapshotInUseLabelKey vpClaim" "''data''"] by (simp add: ml.has_label_iff)
  have "IsZero (om_deletionTimestamp vpPrime)" by (simp add: vpPrime_def new_defs)
  with vpCleanup_releases[OF run sel ls] lb run show ?thesis by auto
qed

section \<open>Waking up\<close>

text \<open>
  A list by field index, as controller-runtime documents it: the stored objects for which the
  registered function yields the value.
\<close>

definition pvcIndex_documented :: "cluster \<Rightarrow> (string \<Rightarrow> (pvc \<Rightarrow> string list) option) \<Rightarrow> pvc list \<Rightarrow> bool" where
  "pvcIndex_documented cl indexers stored \<longleftrightarrow>
     (\<forall>tr ns ix f v. indexers ix = Some f \<longrightarrow> k_list (pvcC cl) tr ns (ByIndex ix v) =
        Inr (filter (\<lambda>p. (ns = None \<or> ns = Some (om_namespace p)) \<and> v \<in> set (f p)) stored))"

lemma filterRequests_eq:
  "filterRequestsOnlyUnboundPVCs ps = map (\<lambda>p. (om_namespace p, om_name p)) (filter (\<lambda>p. \<not> isPVCBoundToVolume p) ps)"
  by (induction ps) simp_all

text \<open>With the indices the operator registers, an update of a ReplicationDestination puts exactly
  those claims into the queue that are in its namespace, name it as their data source and are
  not bound to a volume.\<close>

theorem rd_update_wakes_claims:
  assumes "run_state (IndexFieldsForVolumePopulator (\<lambda>ix f. State (\<lambda>m. (None, m(ix \<mapsto> f))))) Map.empty = (err, indexers)"
    and "pvcIndex_documented cl indexers stored"
    and "om_name rdOld = om_name rd" "om_namespace rdOld = om_namespace rd"
  shows "set (fst (run_state (vpSetupWithManager cl owner (WatchDestination (UpdateEvent rdOld rd))) tr)) =
    {objKey p | p. p \<in> set stored \<and> om_namespace p = om_namespace rd \<and>
       pvcHasReplicationDestinationDataSourceRef p \<and> tr_name (the (pvc_dataSourceRef p)) = om_name rd \<and>
       \<not> isPVCBoundToVolume p}"
proof -
  have ix: "indexers VolPopPVCToReplicationDestinationIndex = Some volPopRDIndexer"
    using assms(1) by (auto simp: IndexFieldsForVolumePopulator_def VolPopPVCToReplicationDestinationIndex_def
      VolPopPVCToStorageClassIndex_def)
  have "k_list (pvcC cl) tr (Some (om_namespace rd)) (ByIndex VolPopPVCToReplicationDestinationIndex (om_name rd)) =
      Inr (filter (\<lambda>p. om_namespace p = om_namespace rd \<and> om_name rd \<in> set (volPopRDIndexer p)) stored)" for tr
    using assms(2) ix by (auto simp: pvcIndex_documented_def intro!: filter_cong)
  then show ?thesis
    by (simp add: mapFuncReplicationDestinationToVolumePopulatorPVC_def kube_ops assms(3,4) filterRequests_eq
        set_eq_iff image_iff volPopRDIndexer_def objKey_def) (metis (no_types, lifting))
qed
theorem rd_update_wakes_claims_witness:
  "\<exists>indexers. pvcIndex_documented vpSample indexers [vpClaim] \<and>
     set (fst (run_state (vpSetupWithManager vpSample (\<lambda>_. []) (WatchDestination (UpdateEvent vpRd vpRd))) [])) =
       {(''ns'', ''data'')}"
proof -
  let ?ix = "[VolPopPVCToReplicationDestinationIndex \<mapsto> volPopRDIndexer,
    VolPopPVCToStorageClassIndex \<mapsto> volPopStorageClassIndexer]"
  have ix: "run_state (IndexFieldsForVolumePopulator (\<lambda>ix f. State (\<lambda>m. (None, m(ix \<mapsto> f))))) Map.empty = (None, ?ix)"
    by (simp add: IndexFieldsForVolumePopulator_def)
  have doc: "pvcIndex_documented vpSample ?ix [vpClaim]"
    by (auto simp: pvcIndex_documented_def pvcC_def vpSample_def VolPopPVCToReplicationDestinationIndex_def
        VolPopPVCToStorageClassIndex_def split: if_splits)
  have "{objKey p | p. p \<in> set [vpClaim] \<and> om_namespace p = om_namespace vpRd \<and>
       pvcHasReplicationDestinationDataSourceRef p \<and> tr_name (the (pvc_dataSourceRef p)) = om_name vpRd \<and>
       \<not> isPVCBoundToVolume p} = {(''ns'', ''data'')}"
    by (auto simp: vpSample_defs objKey_def isPVCBoundToVolume_def)
  with rd_update_wakes_claims[OF ix doc, of vpRd vpRd "\<lambda>_. []" "[]"] doc show ?thesis by metis
qed

end
