(* ===== verification/Kopia_Logs.thy ===== *)
theory Kopia_Logs
  imports Log_Filter Go_Std "HOL-Library.List_Lexorder" "HOL-Library.Char_ord" "HOL-Library.Multiset"
begin

text \<open>
  What the kopia mover reads in the logs of its jobs: \<open>mover/kopia/logparser.go\<close>. When a restore
  finds no snapshot, the job lists what the repository holds, and the parser turns that into the
  identities the user may have meant. The regular expressions with groups are lists of items
  (\<open>citem\<close>), matched as Go's \<open>regexp\<close> does: the leftmost match, and of those the one a backtracking
  search prefers.
\<close>

section \<open>Regular expressions with groups\<close>

datatype citem =
    CLit string                       \<comment> \<open>a literal\<close>
  | CPlus "char \<Rightarrow> bool"            \<comment> \<open>one or more of a class, greedy\<close>
  | CTimes nat "char \<Rightarrow> bool"       \<comment> \<open>exactly so many of a class\<close>
  | CGroup "citem list"               \<comment> \<open>a group that is captured\<close>

text \<open>
  The ways to match a prefix, in the order of preference: the captures, what was matched and the
  rest of the input.
\<close>

type_synonym cmatch = "string list \<times> string \<times> string"

definition plusMatches :: "(char \<Rightarrow> bool) \<Rightarrow> string \<Rightarrow> cmatch list" where
  "plusMatches p s = map (\<lambda>n. ([], take n s, drop n s)) (rev [1..<Suc (length (takeWhile p s))])"

fun itemMatches :: "citem \<Rightarrow> string \<Rightarrow> cmatch list"
  and seqMatches :: "citem list \<Rightarrow> string \<Rightarrow> cmatch list" where
  "itemMatches (CLit l) s = (if HasPrefix s l then [([], l, drop (length l) s)] else [])"
| "itemMatches (CPlus p) s = plusMatches p s"
| "itemMatches (CTimes n p) s =
     (if n \<le> length s \<and> list_all p (take n s) then [([], take n s, drop n s)] else [])"
| "itemMatches (CGroup is) s = map (\<lambda>(caps, m, rest). (m # caps, m, rest)) (seqMatches is s)"
| "seqMatches [] s = [([], [], s)]"
| "seqMatches (i # is) s =
     concat (map (\<lambda>(caps, m, rest).
       map (\<lambda>(caps', m', rest'). (caps @ caps', m @ m', rest')) (seqMatches is rest)) (itemMatches i s))"

definition firstMatch :: "citem list \<Rightarrow> string \<Rightarrow> string list option" where
  "firstMatch is s = (case seqMatches is s of [] \<Rightarrow> None | (caps, m, rest) # _ \<Rightarrow> Some caps)"

text \<open>\<open>FindStringSubmatch\<close> of a pattern that is not anchored; the captures, without the whole match.\<close>

fun findSubmatch :: "citem list \<Rightarrow> string \<Rightarrow> string list option" where
  "findSubmatch is [] = firstMatch is []"
| "findSubmatch is (c # s) =
     (case firstMatch is (c # s) of Some caps \<Rightarrow> Some caps | None \<Rightarrow> findSubmatch is s)"

definition isDigitChar :: "char \<Rightarrow> bool" where
  "isDigitChar c \<longleftrightarrow> c \<in> set ''0123456789''"

definition isSpaceChar :: "char \<Rightarrow> bool" where
  "isSpaceChar c \<longleftrightarrow> c \<in> set [CHR 0x09, CHR 0x0A, CHR 0x0C, CHR 0x0D, CHR '' '']"

abbreviation anyButNewline :: "char \<Rightarrow> bool" where "anyButNewline c \<equiv> c \<noteq> CHR 0x0A"

definition noSnapshotsRegex :: "citem list" where
  "noSnapshotsRegex = [CLit ''No snapshots found for '', CGroup [CPlus (\<lambda>c. c \<noteq> CHR ''@'')], CLit ''@'',
     CGroup [CPlus (\<lambda>c. c \<noteq> CHR '':'')], CLit '':'', CGroup [CPlus anyButNewline]]"

definition snapshotListingRegex :: "citem list" where
  "snapshotListingRegex = [CGroup [CPlus (\<lambda>c. c \<noteq> CHR ''@'')], CLit ''@'',
     CGroup [CPlus (\<lambda>c. c \<noteq> CHR '':'')], CLit '':'', CGroup [CPlus anyButNewline], CPlus isSpaceChar,
     CGroup [CTimes 4 isDigitChar, CLit ''-'', CTimes 2 isDigitChar, CLit ''-'', CTimes 2 isDigitChar,
       CPlus isSpaceChar, CTimes 2 isDigitChar, CLit '':'', CTimes 2 isDigitChar, CLit '':'', CTimes 2 isDigitChar]]"

definition quote :: char where "quote = CHR 0x22"

definition identityErrorRegex :: "citem list" where
  "identityErrorRegex = [CLit (''unable to find snapshots for source '' @ [quote]),
     CGroup [CPlus (\<lambda>c. c \<noteq> quote)], CLit [quote]]"

definition noneOf :: "string \<Rightarrow> rex" where
  "noneOf s = RSet (filter (\<lambda>c. c \<notin> set s) (map char_of [0..<256::nat]))"

definition digitR :: rex where "digitR = RSet ''0123456789''"

definition seqR :: "rex list \<Rightarrow> rex" where "seqR rs = foldr RSeq rs REps"

definition quoted :: "string \<Rightarrow> string" where "quoted s = quote # s @ [quote]"

definition jsonSnapshotRegex :: pattern where
  "jsonSnapshotRegex = [(True, seqR [lit ''{'', RStar RAny, lit (quoted ''id''), RStar RAny, lit (quoted ''userName''),
     RStar RAny, lit (quoted ''hostName''), RStar RAny, lit ''}''])]"

section \<open>The parser\<close>

type_synonym identityMap = "(string \<times> kopiaIdentityInfo) list"

text \<open>One more snapshot of an identity, with its time if it could be read.\<close>

definition countSnapshot :: "string \<Rightarrow> gtime option \<Rightarrow> identityMap \<Rightarrow> identityMap" where
  "countSnapshot identity stamp m =
     (let info = (case map_of m identity of
            Some i \<Rightarrow> i
          | None \<Rightarrow> \<lparr>ki_identity = identity, ki_snapshotCount = 0, ki_latestSnapshot = None\<rparr>);
          info1 = info\<lparr>ki_snapshotCount := wrap32 (ki_snapshotCount info + 1)\<rparr>
      in map_put identity
           (case stamp of
              None \<Rightarrow> info1
            | Some t \<Rightarrow>
                (case ki_latestSnapshot info1 of
                   None \<Rightarrow> info1\<lparr>ki_latestSnapshot := Some t\<rparr>
                 | Some l \<Rightarrow> if time_After t l then info1\<lparr>ki_latestSnapshot := Some t\<rparr> else info1)) m)"

record parseState =
  ps_requested :: string
  ps_errorMsg :: string
  ps_discovery :: bool
  ps_json :: "string list"
  ps_identities :: identityMap

definition noSnapshotsMsg :: "string \<Rightarrow> string" where
  "noSnapshotsMsg identity = ''No snapshots found for identity '' @ [CHR 0x27] @ identity @ [CHR 0x27]"

definition parseLine :: "cluster \<Rightarrow> string \<Rightarrow> parseState \<Rightarrow> parseState" where
  "parseLine cl raw ps =
     (let line = TrimSpace raw in
      if str_contains line ''=== Discovery Mode: Available Snapshots ==='' then ps\<lparr>ps_discovery := True\<rparr>
      else (case findSubmatch noSnapshotsRegex line of
        Some (user # host # _) \<Rightarrow> ps\<lparr>ps_requested := user @ ''@'' @ host, ps_errorMsg := line\<rparr>
      | _ \<Rightarrow>
      (case findSubmatch identityErrorRegex line of
        Some (src # _) \<Rightarrow>
          (let requested = hd (str_split CHR '':'' src)
           in ps\<lparr>ps_requested := requested, ps_errorMsg := noSnapshotsMsg requested\<rparr>)
      | _ \<Rightarrow>
      if ps_discovery ps \<and> MatchString jsonSnapshotRegex line then ps\<lparr>ps_json := ps_json ps @ [line]\<rparr>
      else (case firstMatch snapshotListingRegex line of
        Some [user, host, path, stamp] \<Rightarrow>
          ps\<lparr>ps_identities := countSnapshot (user @ ''@'' @ host)
            (case timeParse cl ''2006-01-02 15:04:05'' stamp of Inl _ \<Rightarrow> None | Inr t \<Rightarrow> Some t) (ps_identities ps)\<rparr>
      | _ \<Rightarrow> ps))))"

definition processJSONSnapshot :: "cluster \<Rightarrow> string \<Rightarrow> identityMap \<Rightarrow> identityMap" where
  "processJSONSnapshot cl line m =
     (case unmarshalSnapshot cl line of
        Inl _ \<Rightarrow> m
      | Inr (user, host, endTime) \<Rightarrow> countSnapshot (user @ ''@'' @ host) (Some endTime) m)"

definition processJSONSnapshots :: "cluster \<Rightarrow> string list \<Rightarrow> identityMap \<Rightarrow> identityMap" where
  "processJSONSnapshots cl jsonLines m = fold (processJSONSnapshot cl) jsonLines m"

text \<open>
  Go's map yields the identities in any order, and \<open>sort.Slice\<close> sorts them by the identity; the
  identities differ, so the sorted list is the same for every order.
\<close>

definition sortIdentities :: "kopiaIdentityInfo list \<Rightarrow> kopiaIdentityInfo list" where
  "sortIdentities infos = sort_key ki_identity infos"

definition startParse :: parseState where
  "startParse = \<lparr>ps_requested = [], ps_errorMsg = [], ps_discovery = False, ps_json = [], ps_identities = []\<rparr>"

definition parsedIdentities :: "cluster \<Rightarrow> string \<Rightarrow> parseState \<times> identityMap" where
  "parsedIdentities cl logs =
     (let ps = fold (parseLine cl) (str_split CHR 0x0A logs) startParse
      in (ps, processJSONSnapshots cl (ps_json ps) (ps_identities ps)))"

definition ParseKopiaDiscoveryOutput :: "cluster \<Rightarrow> string \<Rightarrow> string \<times> kopiaIdentityInfo list \<times> string" where
  "ParseKopiaDiscoveryOutput cl logs =
     (case parsedIdentities cl logs of (ps, m) \<Rightarrow>
        (let requested = ps_requested ps;
             available = sortIdentities (map snd (entries m));
             errorMsg =
               (if requested \<noteq> [] \<and> available \<noteq> []
                then noSnapshotsMsg requested @ ''. Available identities: '' @
                  strings_Join (map ki_identity available) '', ''
                else if ps_errorMsg ps = [] \<and> requested \<noteq> [] then noSnapshotsMsg requested
                else ps_errorMsg ps)
         in (requested, available, errorMsg)))"

section \<open>The filter for the logs of a restore\<close>

definition listingStart :: pattern where
  "listingStart = [(True, seqR [plus (noneOf ''@''), lit ''@'', plus (noneOf '':''), lit '':'', plus RAny,
     plus anySpace, digitR, digitR, digitR, digitR, lit ''-'', digitR, digitR, lit ''-'', digitR, digitR])]"

definition LogFilter :: lineFilter where
  "LogFilter line =
     (if str_contains (ToLower line) ''error'' \<or> str_contains (ToLower line) ''failed'' \<or>
         str_contains (ToLower line) ''unable to'' \<or>
         str_contains line ''=== Discovery Mode'' \<or> str_contains line ''Available Snapshots'' \<or>
         str_contains line ''No snapshots found'' \<or>
         MatchString listingStart line \<or>
         (str_contains line (quoted ''userName'') \<and> str_contains line (quoted ''hostName'')) \<or>
         str_contains line ''Snapshot created successfully'' \<or> str_contains line ''Snapshot restore completed'' \<or>
         str_contains line ''Repository connected'' \<or> str_contains line ''No eligible snapshots''
      then Some line else None)"

section \<open>What the parser computes\<close>

text \<open>
  The specification: the snapshots a log mentions, in order, first those of the listing (with the
  time, if it can be read), then those of the JSON lines after the header; the available identities
  are these snapshots grouped by identity.
\<close>

definition namesRequest :: "string \<Rightarrow> bool" where
  "namesRequest line \<longleftrightarrow> (\<exists>user host rest. findSubmatch noSnapshotsRegex line = Some (user # host # rest)) \<or>
     (\<exists>src rest. findSubmatch identityErrorRegex line = Some (src # rest))"

fun sightings :: "cluster \<Rightarrow> bool \<Rightarrow> string list \<Rightarrow> (string \<times> gtime option) list \<times> string list" where
  "sightings cl disc [] = ([], [])"
| "sightings cl disc (raw # rest) =
     (let line = TrimSpace raw in
      if str_contains line ''=== Discovery Mode: Available Snapshots ==='' then sightings cl True rest
      else if namesRequest line then sightings cl disc rest
      else if disc \<and> MatchString jsonSnapshotRegex line then apsnd (Cons line) (sightings cl disc rest)
      else (case firstMatch snapshotListingRegex line of
        Some [user, host, path, stamp] \<Rightarrow>
          apfst (Cons (user @ ''@'' @ host,
            case timeParse cl ''2006-01-02 15:04:05'' stamp of Inl _ \<Rightarrow> None | Inr t \<Rightarrow> Some t))
            (sightings cl disc rest)
      | _ \<Rightarrow> sightings cl disc rest))"

fun jsonSightings :: "cluster \<Rightarrow> string list \<Rightarrow> (string \<times> gtime option) list" where
  "jsonSightings cl [] = []"
| "jsonSightings cl (line # rest) =
     (case unmarshalSnapshot cl line of
        Inl _ \<Rightarrow> jsonSightings cl rest
      | Inr (user, host, endTime) \<Rightarrow> (user @ ''@'' @ host, Some endTime) # jsonSightings cl rest)"

definition allSightings :: "cluster \<Rightarrow> string \<Rightarrow> (string \<times> gtime option) list" where
  "allSightings cl logs =
     (case sightings cl False (str_split CHR 0x0A logs) of (listing, json) \<Rightarrow> listing @ jsonSightings cl json)"

definition seenTimes :: "string \<Rightarrow> (string \<times> gtime option) list \<Rightarrow> gtime list" where
  "seenTimes i S = List.map_filter snd (filter (\<lambda>x. fst x = i) S)"

definition groupInfo :: "(string \<times> gtime option) list \<Rightarrow> string \<Rightarrow> kopiaIdentityInfo" where
  "groupInfo S i = \<lparr>ki_identity = i, ki_snapshotCount = wrap32 (int (length (filter (\<lambda>x. fst x = i) S))),
     ki_latestSnapshot = (if seenTimes i S = [] then None else Some (Max (set (seenTimes i S))))\<rparr>"

definition countAll :: "(string \<times> gtime option) list \<Rightarrow> identityMap \<Rightarrow> identityMap" where
  "countAll S m = fold (\<lambda>(i, t). countSnapshot i t) S m"

lemma wrap32_step: "wrap32 (wrap32 a + 1) = wrap32 (a + 1)"
proof -
  have "(wrap32 a + 1 + 2 ^ 31) mod 2 ^ 32 = (a + 1 + 2 ^ 31) mod 2 ^ 32"
    by (simp add: wrap32_def mod_simps algebra_simps)
  then show ?thesis by (simp add: wrap32_def)
qed

lemma parse_sightings:
  "ps_identities (fold (parseLine cl) ls ps) = countAll (fst (sightings cl (ps_discovery ps) ls)) (ps_identities ps) \<and>
   ps_json (fold (parseLine cl) ls ps) = ps_json ps @ snd (sightings cl (ps_discovery ps) ls)"
proof (induction ls arbitrary: ps)
  case Nil
  then show ?case by (simp add: countAll_def)
next
  case (Cons raw ls)
  consider "str_contains (TrimSpace raw) ''=== Discovery Mode: Available Snapshots ===''"
    | "\<not> str_contains (TrimSpace raw) ''=== Discovery Mode: Available Snapshots ===''" "namesRequest (TrimSpace raw)"
    | "\<not> str_contains (TrimSpace raw) ''=== Discovery Mode: Available Snapshots ===''" "\<not> namesRequest (TrimSpace raw)"
    by blast
  then show ?case
  proof cases
    case 1
    then show ?thesis using Cons.IH by (simp add: parseLine_def Let_def)
  next
    case 2
    then have "ps_identities (parseLine cl raw ps) = ps_identities ps" "ps_json (parseLine cl raw ps) = ps_json ps"
      "ps_discovery (parseLine cl raw ps) = ps_discovery ps"
      by (auto simp: parseLine_def Let_def namesRequest_def split: option.splits list.splits)
    with 2 show ?thesis using Cons.IH[of "parseLine cl raw ps"] by (simp add: Let_def)
  next
    case 3
    let ?line = "TrimSpace raw"
    have "parseLine cl raw ps = (if ps_discovery ps \<and> MatchString jsonSnapshotRegex ?line
        then ps\<lparr>ps_json := ps_json ps @ [?line]\<rparr>
        else (case firstMatch snapshotListingRegex ?line of
          Some [user, host, path, stamp] \<Rightarrow>
            ps\<lparr>ps_identities := countSnapshot (user @ ''@'' @ host)
              (case timeParse cl ''2006-01-02 15:04:05'' stamp of Inl _ \<Rightarrow> None | Inr t \<Rightarrow> Some t) (ps_identities ps)\<rparr>
        | _ \<Rightarrow> ps))"
      using 3 by (auto simp: parseLine_def Let_def namesRequest_def split: option.splits list.splits)
    with 3 show ?thesis
      using Cons.IH by (auto simp: Let_def countAll_def apfst_def apsnd_def map_prod_def case_prod_beta split: option.splits list.splits)
  qed
qed

lemma processJSON_sightings: "processJSONSnapshots cl js m = countAll (jsonSightings cl js) m"
  by (induction js arbitrary: m)
    (auto simp: processJSONSnapshots_def processJSONSnapshot_def countAll_def split: sum.splits)

lemma groupInfo_fresh:
  "i \<notin> fst ` set S \<Longrightarrow> groupInfo S i = \<lparr>ki_identity = i, ki_snapshotCount = 0, ki_latestSnapshot = None\<rparr>"
proof -
  assume "i \<notin> fst ` set S"
  then have "filter (\<lambda>x. fst x = i) S = []" by (force simp: filter_empty_conv)
  then show ?thesis by (simp add: groupInfo_def seenTimes_def List.map_filter_def wrap32_def)
qed

lemma groupInfo_snoc:
  "groupInfo (S @ [(i, t)]) i = (groupInfo S i)\<lparr>ki_snapshotCount := wrap32 (ki_snapshotCount (groupInfo S i) + 1),
     ki_latestSnapshot := (case t of
         None \<Rightarrow> ki_latestSnapshot (groupInfo S i)
       | Some v \<Rightarrow> (case ki_latestSnapshot (groupInfo S i) of
           None \<Rightarrow> Some v
         | Some l \<Rightarrow> Some (if time_After v l then v else l)))\<rparr>"
proof -
  have times: "seenTimes i (S @ [(i, t)]) = seenTimes i S @ (case t of None \<Rightarrow> [] | Some v \<Rightarrow> [v])"
    by (simp add: seenTimes_def List.map_filter_def split: option.splits)
  have "Max (insert v (set (seenTimes i S))) = (if time_After v (Max (set (seenTimes i S))) then v else Max (set (seenTimes i S)))"
    if "seenTimes i S \<noteq> []" for v
    using that by (subst Max_insert) (simp_all add: time_After_def max_def del: Max_less_iff Max_gr_iff)
  then show ?thesis
    by (auto simp: groupInfo_def times wrap32_step add.commute[of 1] split: option.splits)
qed

lemma groupInfo_step:
  assumes "map_of m i = (if i \<in> fst ` set S then Some (groupInfo S i) else None)"
  shows "countSnapshot i t m = map_put i (groupInfo (S @ [(i, t)]) i) m"
  unfolding groupInfo_snoc using assms
  by (cases "groupInfo S i"; cases "i \<in> fst ` set S") (auto simp: countSnapshot_def Let_def groupInfo_fresh split: option.splits)

lemma countAll_groups:
  "map_of (countAll S []) i = (if i \<in> fst ` set S then Some (groupInfo S i) else None)"
proof (induction S arbitrary: i rule: rev_induct)
  case Nil
  then show ?case by (simp add: countAll_def)
next
  case (snoc x S)
  obtain j t where x: "x = (j, t)" by (cases x)
  have "groupInfo (S @ [(j, t)]) i = groupInfo S i" if "i \<noteq> j"
    using that by (simp add: groupInfo_def seenTimes_def)
  then show ?case
    using groupInfo_step[of "countAll S []" j S t] snoc.IH by (auto simp: countAll_def x)
qed

lemma sort_key_map: "sort_key f (map g xs) = map g (sort_key (\<lambda>x. f (g x)) xs)"
proof (induction xs)
  case (Cons x xs)
  have "insort_key f (g x) (map g ys) = map g (insort_key (\<lambda>x. f (g x)) x ys)" for ys
    by (induction ys) auto
  with Cons show ?case by simp
qed simp

lemma sorted_entries:
  assumes "\<And>k. map_of m k = (if k \<in> K then Some (g k) else None)" "\<And>k. ki_identity (g k) = k"
  shows "sortIdentities (map snd (entries m)) = map g (sorted_list_of_set K)"
proof -
  have K: "K = set (map fst m)" using assms(1) by (metis map_of_eq_None_iff list.set_map option.distinct(1) subset_antisym subsetI)
  have "map snd (entries m) = map g (remdups (map fst m))"
    using assms(1) by (auto simp: entries_def K)
  then show ?thesis
    using sorted_list_of_set_sort_remdups[of "map fst m"] by (simp add: sortIdentities_def sort_key_map assms(2) K)
qed

text \<open>C40: The identities the parser reports are the snapshots a log mentions, grouped by identity: one entry
  for each identity, in the order of the identities, with the number of its snapshots (as an
  \<open>int32\<close>) and the latest of their times. The order in which Go visits the map does not matter.\<close>

theorem discovery_groups_snapshots:
  "fst (snd (ParseKopiaDiscoveryOutput cl logs)) =
     map (groupInfo (allSightings cl logs)) (sorted_list_of_set (fst ` set (allSightings cl logs)))"
proof -
  obtain ps m where pm: "parsedIdentities cl logs = (ps, m)" by fastforce
  have m: "m = countAll (allSightings cl logs) []"
    using pm parse_sightings[of cl "str_split CHR 0x0A logs" startParse]
    by (auto simp: parsedIdentities_def Let_def processJSON_sightings allSightings_def startParse_def countAll_def
        split: prod.splits)
  have "sortIdentities (map snd (entries m)) =
      map (groupInfo (allSightings cl logs)) (sorted_list_of_set (fst ` set (allSightings cl logs)))"
    by (rule sorted_entries) (simp_all add: m countAll_groups, simp add: groupInfo_def)
  then show ?thesis by (simp add: ParseKopiaDiscoveryOutput_def pm Let_def)
qed

end
