(* ===== verification/Kopia_Identity.thy ===== *)
theory Kopia_Identity
  imports Sample_Cluster
begin

text \<open>
  Whose snapshots are these? A kopia snapshot belongs to a \<open>username@hostname\<close>, and
  \<open>mover/kopia/builder.go\<close> makes one for every replication resource. Here are its functions that
  choose the identity, of a source (\<open>generateUsername\<close>, \<open>generateHostname\<close>) and of a destination, which
  may restore what another resource wrote (\<open>discoverSourceInfo\<close>, \<open>validateDestinationIdentity\<close> and the
  part of \<open>FromDestination\<close> that uses them). Strings are byte strings; a byte that is not ASCII is
  part of a rune that no sanitizer keeps, so the loops over runes are loops over bytes.
\<close>

section \<open>Sanitizing\<close>

definition defaultUsername :: string where "defaultUsername = ''volsync-default''"
definition maxUsernameLength :: nat where "maxUsernameLength = 50"

definition inRange :: "char \<Rightarrow> char \<Rightarrow> char \<Rightarrow> bool" where
  "inRange lo hi c \<longleftrightarrow> (of_char lo :: nat) \<le> of_char c \<and> (of_char c :: nat) \<le> of_char hi"

definition isAlnum :: "char \<Rightarrow> bool" where
  "isAlnum r \<longleftrightarrow> inRange CHR ''a'' CHR ''z'' r \<or> inRange CHR ''A'' CHR ''Z'' r \<or> inRange CHR ''0'' CHR ''9'' r"

text \<open>\<open>strings.Trim\<close>: without the leading and trailing characters of the cutset.\<close>

definition str_Trim :: "string \<Rightarrow> string \<Rightarrow> string" where
  "str_Trim s cutset = rev (dropWhile (\<lambda>c. c \<in> set cutset) (rev (dropWhile (\<lambda>c. c \<in> set cutset) s)))"

definition sanitizeRune :: "bool \<Rightarrow> bool \<Rightarrow> char \<Rightarrow> string" where
  "sanitizeRune allowUnderscore allowDots r =
     (if isAlnum r \<or> r = CHR ''-'' then [r]
      else if allowUnderscore \<and> r = CHR ''_'' then [r]
      else if \<not> allowUnderscore \<and> r = CHR ''_'' then ''-''
      else if allowDots \<and> r = CHR ''.'' then [r]
      else [])"

definition sanitizeForIdentifier :: "string \<Rightarrow> bool \<Rightarrow> bool \<Rightarrow> string" where
  "sanitizeForIdentifier input allowUnderscore allowDots =
     str_Trim (concat (map (sanitizeRune allowUnderscore allowDots) input))
       ((if allowUnderscore then ''-_'' else ''-'') @ (if allowDots then ''.'' else []))"

definition sanitizeForHostname :: "string \<Rightarrow> string" where
  "sanitizeForHostname input = sanitizeForIdentifier input False True"

section \<open>Usernames and hostnames\<close>

definition given :: "string option \<Rightarrow> string option" where
  "given x = (case x of Some v \<Rightarrow> if v = [] then None else Some v | None \<Rightarrow> None)"

definition generateUsername :: "string option \<Rightarrow> string \<Rightarrow> string \<Rightarrow> string" where
  "generateUsername username objectName namespace =
     (case given username of
        Some u \<Rightarrow> u
      | None \<Rightarrow>
          (let validObjectName = sanitizeForIdentifier objectName True False
           in if validObjectName = [] then defaultUsername
              else if length validObjectName > maxUsernameLength then take maxUsernameLength validObjectName
              else validObjectName))"

definition generateHostname :: "string option \<Rightarrow> string option \<Rightarrow> string \<Rightarrow> string \<Rightarrow> string" where
  "generateHostname hostname pvcName namespace name =
     (case given hostname of
        Some h \<Rightarrow> h
      | None \<Rightarrow>
          if sanitizeForHostname namespace \<noteq> [] then sanitizeForHostname namespace
          else if sanitizeForHostname name \<noteq> [] then sanitizeForHostname name
          else defaultUsername)"

section \<open>What a destination learns from the source\<close>

record sourceDiscoveryInfo =
  sd_pvcName :: string
  sd_sourcePathOverride :: "string option"
  sd_repository :: string

definition noDiscovery :: sourceDiscoveryInfo where
  "noDiscovery = \<lparr>sd_pvcName = [], sd_sourcePathOverride = None, sd_repository = []\<rparr>"

definition extractSourceInfo :: "replicationsource \<Rightarrow> rsKopiaSpec \<Rightarrow> sourceDiscoveryInfo" where
  "extractSourceInfo source kopia = \<lparr>sd_pvcName = rs_sourcePVC source,
     sd_sourcePathOverride = ks_sourcePathOverride kopia, sd_repository = ks_repository kopia\<rparr>"

definition fetchReplicationSource :: "cluster \<Rightarrow> string \<Rightarrow> string \<Rightarrow> (gerror + replicationsource) kube" where
  "fetchReplicationSource cl sourceName sourceNamespace = kGet (rsC cl) (sourceNamespace, sourceName)"

definition discoverSourceInfo :: "cluster \<Rightarrow> string \<Rightarrow> string \<Rightarrow> sourceDiscoveryInfo kube" where
  "discoverSourceInfo cl sourceName sourceNamespace =
     (if sourceName = [] \<or> sourceNamespace = [] then ret noDiscovery
      else do {
        r \<leftarrow> fetchReplicationSource cl sourceName sourceNamespace;
        ret (case r of
          Inl _ \<Rightarrow> noDiscovery
        | Inr source \<Rightarrow>
            (case rs_kopia source of
               None \<Rightarrow> noDiscovery
             | Some kopia \<Rightarrow> extractSourceInfo source kopia)) })"

definition discoverSourcePVC :: "cluster \<Rightarrow> string \<Rightarrow> string \<Rightarrow> string kube" where
  "discoverSourcePVC cl sourceName sourceNamespace = do {
     info \<leftarrow> discoverSourceInfo cl sourceName sourceNamespace;
     ret (sd_pvcName info) }"

section \<open>The identity of a destination\<close>

definition bothOrNeither :: string where
  "bothOrNeither = [CHR 0x0A, CHR 0x0A] @
     ''Either provide both 'username' and 'hostname', or omit both to use automatic identity.'' @
     [CHR 0x0A, CHR 0x0A] @
     ''For detailed examples, see: https://volsync.readthedocs.io/en/stable/usage/kopia/index.html''"

definition missingHostnameMsg :: string where
  "missingHostnameMsg = ''kopia ReplicationDestination error: missing 'hostname' '' @
     ''(you provided 'username' but both are required when using explicit identity)'' @ bothOrNeither"
definition missingUsernameMsg :: string where
  "missingUsernameMsg = ''kopia ReplicationDestination error: missing 'username' '' @
     ''(you provided 'hostname' but both are required when using explicit identity)'' @ bothOrNeither"

definition validateDestinationIdentity :: "replicationdestination \<Rightarrow> gerror option" where
  "validateDestinationIdentity destination =
     (case rd_kopia destination of
        None \<Rightarrow> None
      | Some spec \<Rightarrow>
          if given (kd_username spec) \<noteq> None \<and> given (kd_hostname spec) = None then Some (Errorf missingHostnameMsg)
          else if given (kd_username spec) = None \<and> given (kd_hostname spec) \<noteq> None then Some (Errorf missingUsernameMsg)
          else None)"

record kopiaIdentity =
  kid_username :: string
  kid_hostname :: string
  kid_sourcePathOverride :: "string option"
  kid_repository :: string

definition useSourceIdentity :: "rdKopiaSpec \<Rightarrow> kopiaSourceIdentity option" where
  "useSourceIdentity spec =
     (case kd_sourceIdentity spec of
        Some si \<Rightarrow> if si_sourceName si \<noteq> [] then Some si else None
      | None \<Rightarrow> None)"

definition siNamespace :: "'a objmeta_scheme \<Rightarrow> kopiaSourceIdentity \<Rightarrow> string" where
  "siNamespace destination si =
     (if si_sourceNamespace si \<noteq> [] then si_sourceNamespace si else om_namespace destination)"

definition destinationUsername :: "replicationdestination \<Rightarrow> rdKopiaSpec \<Rightarrow> string" where
  "destinationUsername destination spec =
     (case given (kd_username spec) of
        Some u \<Rightarrow> u
      | None \<Rightarrow>
          (case useSourceIdentity spec of
             Some si \<Rightarrow> generateUsername None (si_sourceName si) (siNamespace destination si)
           | None \<Rightarrow> generateUsername None (om_name destination) (om_namespace destination)))"

text \<open>
  The part of \<open>FromDestination\<close> that settles the identity. An explicit hostname ends it: then
  nothing of \<open>sourceIdentity\<close> but the username is used.
\<close>

definition destinationIdentity :: "cluster \<Rightarrow> replicationdestination \<Rightarrow> rdKopiaSpec \<Rightarrow> kopiaIdentity kube" where
  "destinationIdentity cl destination spec = do {
     (hostname, sourcePathOverride, repositoryName) \<leftarrow>
       (case given (kd_hostname spec) of
          Some h \<Rightarrow> ret (h, None, [])
        | None \<Rightarrow>
            (case useSourceIdentity spec of
               None \<Rightarrow> ret (generateHostname None (kd_destinationPVC spec) (om_namespace destination)
                  (om_name destination), None, [])
             | Some si \<Rightarrow>
                 (let sourceNamespace = siNamespace destination si
                  in if si_sourcePVCName si \<noteq> []
                     then ret (generateHostname None (Some (si_sourcePVCName si)) sourceNamespace (si_sourceName si),
                       si_sourcePathOverride si, [])
                     else do {
                       info \<leftarrow> discoverSourceInfo cl (si_sourceName si) sourceNamespace;
                       ret (generateHostname None
                              (if sd_pvcName info \<noteq> [] then Some (sd_pvcName info) else kd_destinationPVC spec)
                              sourceNamespace (si_sourceName si),
                            (if si_sourcePathOverride si = None then sd_sourcePathOverride info
                             else si_sourcePathOverride si),
                            (if kd_repository spec = [] then sd_repository info else [])) })));
     ret \<lparr>kid_username = destinationUsername destination spec, kid_hostname = hostname,
       kid_sourcePathOverride = sourcePathOverride,
       kid_repository = (if kd_repository spec \<noteq> [] then kd_repository spec else repositoryName)\<rparr> }"

text \<open>The identity of a source, from \<open>createSourceMover\<close>.\<close>

definition sourceUsername :: "replicationsource \<Rightarrow> rsKopiaSpec \<Rightarrow> string" where
  "sourceUsername source spec = generateUsername (ks_username spec) (om_name source) (om_namespace source)"

definition sourceHostname :: "replicationsource \<Rightarrow> rsKopiaSpec \<Rightarrow> string" where
  "sourceHostname source spec =
     generateHostname (ks_hostname spec) (Some (rs_sourcePVC source)) (om_namespace source) (om_name source)"

section \<open>What the identities are\<close>

lemma given_simps [simp]:
  "given None = None" "given (Some []) = None" "v \<noteq> [] \<Longrightarrow> given (Some v) = Some v"
  by (simp_all add: given_def)

lemma given_nonempty: "given x = Some v \<Longrightarrow> v \<noteq> []"
  by (auto simp: given_def split: option.splits if_splits)

lemma set_str_Trim: "set (str_Trim s cs) \<subseteq> set s"
  unfolding str_Trim_def by (auto dest!: set_dropWhileD)

lemma str_Trim_id:
  assumes "s \<noteq> []" "hd s \<notin> set cs" "last s \<notin> set cs"
  shows "str_Trim s cs = s"
proof -
  have "dropWhile (\<lambda>c. c \<in> set cs) s = s" "dropWhile (\<lambda>c. c \<in> set cs) (rev s) = rev s"
    using assms by (simp_all add: dropWhile_eq_self_iff hd_rev)
  then show ?thesis by (simp add: str_Trim_def)
qed

text \<open>A label of RFC 1123, which is what Kubernetes requires of the name of a namespace.\<close>

definition isLabel :: "string \<Rightarrow> bool" where
  "isLabel s \<longleftrightarrow> s \<noteq> [] \<and> list_all (\<lambda>c. isAlnum c \<or> c = CHR ''-'') s \<and> isAlnum (hd s) \<and> isAlnum (last s)"

lemma separators_not_alnum: "\<not> isAlnum CHR ''-''" "\<not> isAlnum CHR ''_''" "\<not> isAlnum CHR ''.''"
  by (simp_all add: isAlnum_def inRange_def)

lemma sanitize_label:
  assumes "isLabel s"
  shows "sanitizeForIdentifier s u d = s"
proof -
  have "sanitizeRune u d c = [c]" if "isAlnum c \<or> c = CHR ''-''" for c
    using that by (simp add: sanitizeRune_def)
  then have "map (sanitizeRune u d) s = map (\<lambda>c. [c]) s"
    using assms by (auto simp: isLabel_def list_all_iff)
  then have id: "concat (map (sanitizeRune u d) s) = s" by (simp only: concat_map_singleton map_ident)
  have "hd s \<notin> set cs" "last s \<notin> set cs" if "set cs \<subseteq> {CHR ''-'', CHR ''_'', CHR ''.''}" for cs
    using assms that separators_not_alnum by (auto simp: isLabel_def)
  then show ?thesis
    unfolding sanitizeForIdentifier_def id by (intro str_Trim_id) (use assms separators_not_alnum in \<open>auto simp: isLabel_def\<close>)
qed

lemma generateUsername_label: "isLabel n \<Longrightarrow> length n \<le> 50 \<Longrightarrow> generateUsername None n ns = n"
  by (auto simp: generateUsername_def sanitize_label maxUsernameLength_def isLabel_def)

lemma generateHostname_pvc [simp]: "generateHostname h (Some p) ns n = generateHostname h None ns n"
  by (simp add: generateHostname_def)

lemma generateHostname_label: "isLabel ns \<Longrightarrow> generateHostname None p ns n = ns"
  by (auto simp: generateHostname_def sanitizeForHostname_def sanitize_label isLabel_def)

text \<open>The identity kopia uses for a resource without explicit user and host name is never empty, the
  user name has at most 50 characters, all of them letters, digits, hyphens or underscores, and the
  host name consists of letters, digits, hyphens and dots.\<close>

theorem kopia_identity_wellformed:
  "generateUsername None name ns \<noteq> [] \<and> length (generateUsername None name ns) \<le> 50 \<and>
   list_all (\<lambda>c. isAlnum c \<or> c \<in> set ''-_'') (generateUsername None name ns) \<and>
   generateHostname None pvcName ns name \<noteq> [] \<and>
   list_all (\<lambda>c. isAlnum c \<or> c \<in> set ''-.'') (generateHostname None pvcName ns name)"
proof -
  have runes: "c \<in> set (concat (map (sanitizeRune u d) s)) \<Longrightarrow>
      isAlnum c \<or> c = CHR ''-'' \<or> (u \<and> c = CHR ''_'') \<or> (d \<and> c = CHR ''.'')" for c u d s
    by (auto simp: sanitizeRune_def split: if_splits)
  have user: "\<forall>c \<in> set (sanitizeForIdentifier s True False). isAlnum c \<or> c \<in> set ''-_''" for s
    using set_str_Trim runes[of _ True False s] by (force simp: sanitizeForIdentifier_def)
  have host: "\<forall>c \<in> set (sanitizeForIdentifier s False True). isAlnum c \<or> c \<in> set ''-.''" for s
    using set_str_Trim runes[of _ False True s] by (force simp: sanitizeForIdentifier_def)
  have d: "\<forall>c \<in> set defaultUsername. isAlnum c \<or> c = CHR ''-''" "defaultUsername \<noteq> []" "length defaultUsername \<le> 50"
    by (simp_all add: defaultUsername_def isAlnum_def inRange_def)
  show ?thesis
    using user[of name] host[of name] host[of ns] d
    by (auto simp: generateUsername_def generateHostname_def sanitizeForHostname_def Let_def maxUsernameLength_def
        list_all_iff dest: in_set_takeD)
qed


definition plainVolumeOptions :: volumeOptions where
  "plainVolumeOptions = \<lparr>vo_copyMethod = CopyMethodDirect, vo_capacity = None, vo_storageClassName = None,
     vo_accessModes = None, vo_volumeSnapshotClassName = None\<rparr>"

definition plainMoverConfig :: moverConfig where
  "plainMoverConfig = \<lparr>mc_securityContext = None, mc_serviceAccount = None, mc_podLabels = [],
     mc_resources = None, mc_affinity = None, mc_volumes = []\<rparr>"

definition noCustomCA :: customCASpec where
  "noCustomCA = \<lparr>ca_secretName = [], ca_configMapName = [], ca_key = []\<rparr>"

definition sampleKopiaSpec :: rsKopiaSpec where
  "sampleKopiaSpec = \<lparr>ks_volumeOptions = plainVolumeOptions, ks_repository = ''repo'', ks_customCA = noCustomCA,
     ks_retain = None, ks_compression = [], ks_parallelism = None, ks_cacheCapacity = None,
     ks_cacheStorageClassName = None, ks_cacheAccessModes = None, ks_metadataCacheSizeLimitMB = None,
     ks_contentCacheSizeLimitMB = None, ks_actions = None, ks_policyConfig = None, ks_username = None,
     ks_hostname = None, ks_sourcePathOverride = Some ''/db'', ks_additionalArgs = [],
     ks_moverConfig = plainMoverConfig\<rparr>"

definition sampleKopiaSource :: replicationsource where
  "sampleKopiaSource = objmeta.extend (newMeta ''apps'' ''db-backup'')
     (replicationsource.fields ''db'' None None None None None None (Some sampleKopiaSpec) None False None)"

lemma sampleKopiaSource_sel [simp]:
  "om_name sampleKopiaSource = ''db-backup''" "om_namespace sampleKopiaSource = ''apps''"
  "rs_kopia sampleKopiaSource = Some sampleKopiaSpec" "rs_sourcePVC sampleKopiaSource = ''db''"
  by (simp_all add: sampleKopiaSource_def new_defs replicationsource.defs)

lemma sample_labels: "isLabel ''db-backup''" "isLabel ''apps''"
  by (simp_all add: isLabel_def isAlnum_def inRange_def)


text \<open>Dots are dropped from the name of a resource, and nothing after the fiftieth character counts: two
  different resources of a namespace can have the same identity, and then write the snapshots of
  different volumes under one name.\<close>

theorem kopia_identity_collision:
  "generateUsername None (a @ ''.'' @ b) ns = generateUsername None (a @ b) ns \<and>
   (isLabel (p @ x) \<and> isLabel (p @ y) \<and> length p = 50 \<longrightarrow>
      generateUsername None (p @ x) ns = generateUsername None (p @ y) ns)"
proof -
  have dot: "sanitizeRune True False CHR ''.'' = []" by (simp add: sanitizeRune_def separators_not_alnum)
  have long: "generateUsername None (p @ z) ns = p" if "isLabel (p @ z)" "length p = 50" for z
    using that by (auto simp: generateUsername_def sanitize_label Let_def maxUsernameLength_def)
  show ?thesis
    using long by (simp add: generateUsername_def sanitizeForIdentifier_def dot)
qed

theorem kopia_identity_collision_witness:
  "generateUsername None ''a.b'' ''ns'' = ''ab'' \<and> generateUsername None ''ab'' ''ns'' = ''ab'' \<and>
   generateUsername None (replicate 50 CHR ''a'' @ ''x'') ''ns'' = generateUsername None (replicate 50 CHR ''a'' @ ''y'') ''ns''"
proof -
  have "isLabel (replicate 50 CHR ''a'' @ ''x'')" "isLabel (replicate 50 CHR ''a'' @ ''y'')" "isLabel ''ab''"
    by (simp_all add: isLabel_def isAlnum_def inRange_def list_all_iff)
  then show ?thesis
    using kopia_identity_collision[of "''a''" "''b''" "''ns''" "replicate 50 CHR ''a''" "''x''" "''y''"]
    by (simp add: generateUsername_label)
qed

section \<open>Restoring what a source wrote\<close>


definition sampleKopiaDestSpec :: rdKopiaSpec where
  "sampleKopiaDestSpec = \<lparr>kd_volumeOptions = plainVolumeOptions, kd_destinationPVC = None, kd_cleanupTempPVC = False,
     kd_repository = [], kd_customCA = noCustomCA, kd_cacheCapacity = None, kd_cacheStorageClassName = None,
     kd_cacheAccessModes = None, kd_metadataCacheSizeLimitMB = None, kd_contentCacheSizeLimitMB = None,
     kd_cleanupCachePVC = False, kd_restoreAsOf = None, kd_shallow = None, kd_previous = None,
     kd_policyConfig = None, kd_sourceIdentity = Some \<lparr>si_sourceName = ''db-backup'', si_sourceNamespace = ''apps'',
       si_sourcePVCName = [], si_sourcePathOverride = None\<rparr>, kd_username = None, kd_hostname = None,
     kd_enableFileDeletion = None, kd_additionalArgs = [], kd_moverConfig = plainMoverConfig\<rparr>"

definition sampleKopiaDest :: replicationdestination where
  "sampleKopiaDest = objmeta.extend (newMeta ''restore'' ''db-restore'')
     (replicationdestination.fields None None None None None (Some sampleKopiaDestSpec) None False None)"

definition sourceCluster :: cluster where
  "sourceCluster = sampleCluster\<lparr>replicationsources :=
     (sampleClient KReplicationSource OReplicationSource)\<lparr>k_get := \<lambda>_ _. Inr sampleKopiaSource\<rparr>\<rparr>"


end
