(* ===== verification/Kopia_Maintenance.thy ===== *)
theory Kopia_Maintenance
  imports Go_Std Kopia_Logs Kopia_Identity Utils
begin

text \<open>
  The maintenance of kopia repositories as the mover drives it: \<open>mover/kopia/maintenance.go\<close>. A
  repository is identified by a hash of its configuration; one CronJob per repository runs in the
  namespace of the operator, with a copy of the repository secret. \<open>ReconcileMaintenanceForSource\<close>
  creates or updates it, \<open>CleanupOrphanedMaintenanceCronJobs\<close> removes what no source needs, and
  \<open>GetMaintenanceStatus\<close> reads the history of its jobs. Every source counts as not maintained here
  (\<open>isMaintenanceEnabled\<close>), since maintenance has moved to a resource of its own.
\<close>

section \<open>Constants\<close>

definition defaultMaintenanceUsername :: string where "defaultMaintenanceUsername = ''maintenance@volsync''"
definition defaultMaintenanceSchedule :: string where "defaultMaintenanceSchedule = ''0 2 * * *''"
definition maintenanceLabelKey :: string where "maintenanceLabelKey = ''volsync.backube/kopia-maintenance''"
definition maintenanceRepositoryLabel :: string where
  "maintenanceRepositoryLabel = ''volsync.backube/repository-hash''"
definition maintenanceNamespaceLabel :: string where
  "maintenanceNamespaceLabel = ''volsync.backube/source-namespace''"
definition maintenanceRepositoryAnnotation :: string where
  "maintenanceRepositoryAnnotation = ''volsync.backube/repository-config''"
definition maintenanceScheduleConflictAnnotation :: string where
  "maintenanceScheduleConflictAnnotation = ''volsync.backube/schedule-conflict''"
definition maintenanceServiceAccountName :: string where
  "maintenanceServiceAccountName = ''volsync-kopia-maintenance''"
definition maintenanceSecretLabel :: string where "maintenanceSecretLabel = ''volsync.backube/maintenance-secret''"
definition maxCronJobNameLength :: nat where "maxCronJobNameLength = 52"
definition operatorNamespaceEnvVar :: string where "operatorNamespaceEnvVar = ''POD_NAMESPACE''"

lemmas maintenance_labels = maintenanceLabelKey_def maintenanceRepositoryLabel_def maintenanceNamespaceLabel_def
  maintenanceSecretLabel_def

definition kopiaCacheMountPath :: string where "kopiaCacheMountPath = ''/cache''"
definition kopiaCache :: string where "kopiaCache = ''cache''"
definition kopiaCAMountPath :: string where "kopiaCAMountPath = ''/customCA''"
definition kopiaCAFilename :: string where "kopiaCAFilename = ''ca.crt''"
definition Gi :: int where "Gi = 1024 * 1024 * 1024"

section \<open>The manager and the repositories\<close>

record maintenanceManager =
  mm_containerImage :: string
  mm_operatorNamespace :: string
  mm_historyLimits :: "(int \<times> int) option" \<comment> \<open>of the builder: successful and failed jobs\<close>

definition getOperatorNamespace :: "cluster \<Rightarrow> string" where
  "getOperatorNamespace cl =
     (case given (getenv cl operatorNamespaceEnvVar) of
        Some ns \<Rightarrow> ns
      | None \<Rightarrow>
          (case readFile cl ''/var/run/secrets/kubernetes.io/serviceaccount/namespace'' of
             Inr nsBytes \<Rightarrow> if TrimSpace nsBytes \<noteq> [] then TrimSpace nsBytes else ''volsync-system''
           | Inl _ \<Rightarrow> ''volsync-system''))"

definition NewMaintenanceManager :: "cluster \<Rightarrow> string \<Rightarrow> (int \<times> int) option \<Rightarrow> maintenanceManager" where
  "NewMaintenanceManager cl containerImage limits =
     \<lparr>mm_containerImage = containerImage, mm_operatorNamespace = getOperatorNamespace cl, mm_historyLimits = limits\<rparr>"

record repositoryConfig =
  rc_repository :: string
  rc_customCA :: "customCASpec option"
  rc_namespace :: string
  rc_schedule :: string
  rc_cacheCapacity :: "quantity option"

definition jsonField :: "string \<Rightarrow> string \<Rightarrow> (string \<times> string) list" where
  "jsonField name v = (if v = [] then [] else [(name, jsonString v)])"

definition customCAJson :: "customCASpec \<Rightarrow> string" where
  "customCAJson ca = jsonObject (jsonField ''secretName'' (ca_secretName ca) @
     jsonField ''configMapName'' (ca_configMapName ca) @ jsonField ''key'' (ca_key ca))"

text \<open>Marshalling strings does not fail, so the fallback of the source is not reached.\<close>

definition repositoryJson :: "repositoryConfig \<Rightarrow> string" where
  "repositoryJson rc = jsonObject ((''repository'', jsonString (rc_repository rc)) #
     (case rc_customCA rc of Some ca \<Rightarrow> [(''customCA'', customCAJson ca)] | None \<Rightarrow> []))"

definition Hash :: "repositoryConfig \<Rightarrow> string" where
  "Hash rc = take 16 (sha256_hex (repositoryJson rc))"

definition isMaintenanceEnabled :: "replicationsource \<Rightarrow> bool" where
  "isMaintenanceEnabled source = (case rs_kopia source of None \<Rightarrow> False | Some _ \<Rightarrow> False)"

definition getMaintenanceSchedule :: "replicationsource \<Rightarrow> string" where
  "getMaintenanceSchedule source = defaultMaintenanceSchedule"

definition sourceRepoConfig :: "replicationsource \<Rightarrow> rsKopiaSpec \<Rightarrow> quantity option \<Rightarrow> repositoryConfig" where
  "sourceRepoConfig source kopia capacity = \<lparr>rc_repository = ks_repository kopia, rc_customCA = Some (ks_customCA kopia),
     rc_namespace = om_namespace source, rc_schedule = getMaintenanceSchedule source, rc_cacheCapacity = capacity\<rparr>"

definition generateCronJobName :: "string \<Rightarrow> string" where
  "generateCronJobName repoHash =
     (let name = ''kopia-maintenance-'' @ repoHash in
      if length name > maxCronJobNameLength then take maxCronJobNameLength name else name)"

definition copiedSecretName :: "string \<Rightarrow> repositoryConfig \<Rightarrow> string" where
  "copiedSecretName namespace rc =
     (let name = ''maintenance-'' @ namespace @ ''-'' @ rc_repository rc in
      if length name > 63 then take (63 - length (Hash rc) - 1) name @ ''-'' @ Hash rc else name)"

section \<open>The cache\<close>

definition fractionInt32 :: "cluster \<Rightarrow> nat \<Rightarrow> nat \<Rightarrow> int \<Rightarrow> int" where
  "fractionInt32 cl c e n =
     (let v = (if n < 0 then - int (floatTimes c e (nat (- n))) else int (floatTimes c e (nat n)))
      in if - (2 ^ 31) \<le> v \<and> v < 2 ^ 31 then v else int32Beyond cl v)"

definition quotGo :: "int \<Rightarrow> int \<Rightarrow> int" where
  "quotGo a b = (if a < 0 then - ((- a) div b) else a div b)" \<comment> \<open>Go's division by a positive number\<close>

text \<open>70\,\% of the capacity in MB for the metadata cache and 20\,\% for the content cache.\<close>

definition cacheLimits :: "cluster \<Rightarrow> quantity \<Rightarrow> int \<times> int" where
  "cacheLimits cl capacity =
     (let capacityMB = quotGo capacity (1024 * 1024)
      in (fractionInt32 cl 6305039478318694 53 capacityMB, fractionInt32 cl 7205759403792794 55 capacityMB))"

definition positiveEnv :: "string \<Rightarrow> int \<Rightarrow> envvar list" where
  "positiveEnv name v = (if v > 0 then [envVal name (itoa v)] else [])"

definition limitEnv :: "string \<Rightarrow> int option \<Rightarrow> envvar list" where
  "limitEnv name v = (case v of Some n \<Rightarrow> positiveEnv name n | None \<Rightarrow> [])"

definition hasCustomCA :: "customCASpec option \<Rightarrow> bool" where
  "hasCustomCA ca = (case ca of None \<Rightarrow> False | Some c \<Rightarrow> ca_secretName c \<noteq> [] \<or> ca_configMapName c \<noteq> [])"

definition buildMaintenanceEnvVars :: "cluster \<Rightarrow> repositoryConfig \<Rightarrow> envvar list" where
  "buildMaintenanceEnvVars cl rc =
     (let capacity = (case rc_cacheCapacity rc of Some c \<Rightarrow> c | None \<Rightarrow> 8 * Gi);
          (metadataMB, contentMB) = cacheLimits cl capacity
      in [envVal ''DIRECTION'' ''maintenance'',
          envVal ''KOPIA_CACHE_DIR'' kopiaCacheMountPath,
          envVal ''DATA_DIR'' ''/data'',
          envVal ''KOPIA_OVERRIDE_MAINTENANCE_USERNAME'' defaultMaintenanceUsername] @
         (if hasCustomCA (rc_customCA rc) then [envVal ''CUSTOM_CA'' (kopiaCAMountPath @ ''/'' @ kopiaCAFilename)] else []) @
         positiveEnv ''KOPIA_METADATA_CACHE_SIZE_LIMIT_MB'' metadataMB @
         positiveEnv ''KOPIA_CONTENT_CACHE_SIZE_LIMIT_MB'' contentMB @
         [envVal ''KOPIA_CACHE_CAPACITY_BYTES'' (itoa capacity)])"

definition buildMaintenanceVolumes :: "repositoryConfig \<Rightarrow> volume list \<times> volumemount list" where
  "buildMaintenanceVolumes rc =
     (let ca = (case rc_customCA rc of
            None \<Rightarrow> None
          | Some c \<Rightarrow>
              if ca_secretName c \<noteq> []
              then Some (noVolumeSource\<lparr>vs_secret := Some \<lparr>sv_secretName = ca_secretName c,
                sv_items = [(ca_key c, kopiaCAFilename, None)], sv_defaultMode = None\<rparr>\<rparr>)
              else if ca_configMapName c \<noteq> []
              then Some (noVolumeSource\<lparr>vs_configMap := Some \<lparr>cv_name = ca_configMapName c,
                cv_items = [(ca_key c, kopiaCAFilename, None)], cv_defaultMode = None\<rparr>\<rparr>)
              else None)
      in ([\<lparr>vol_name = kopiaCache, vol_source = noVolumeSource\<lparr>vs_emptyDir :=
             Some ([], Some (case rc_cacheCapacity rc of Some c \<Rightarrow> c | None \<Rightarrow> 8 * Gi))\<rparr>\<rparr>,
           \<lparr>vol_name = ''tempdir'', vol_source = noVolumeSource\<lparr>vs_emptyDir := Some (''Memory'', None)\<rparr>\<rparr>] @
          (case ca of Some src \<Rightarrow> [\<lparr>vol_name = ''custom-ca'', vol_source = src\<rparr>] | None \<Rightarrow> []),
          [mountAt kopiaCache kopiaCacheMountPath, mountAt ''tempdir'' ''/tmp''] @
          (case ca of Some _ \<Rightarrow> [(mountAt ''custom-ca'' kopiaCAMountPath)\<lparr>vm_readOnly := True\<rparr>] | None \<Rightarrow> [])))"

section \<open>The CronJob\<close>

definition maintenanceResources :: resources where
  "maintenanceResources = noResources\<lparr>
     rq_requests := [(''cpu'', 100 * 10 ^ 6), (''memory'', 256 * 1024 * 1024 * 10 ^ 9)],
     rq_limits := [(''cpu'', 500 * 10 ^ 6), (''memory'', Gi * 10 ^ 9)]\<rparr>"

definition maintenancePodSecurityContext :: podsecctx where
  "maintenancePodSecurityContext = emptyPodSecurityContext\<lparr>px_runAsNonRoot := Some True,
     px_fsGroup := Some 1000, px_runAsUser := Some 1000\<rparr>"

definition getSuccessfulJobsHistoryLimit :: "maintenanceManager \<Rightarrow> int" where
  "getSuccessfulJobsHistoryLimit mm = (case mm_historyLimits mm of Some (s, f) \<Rightarrow> s | None \<Rightarrow> 3)"

definition getFailedJobsHistoryLimit :: "maintenanceManager \<Rightarrow> int" where
  "getFailedJobsHistoryLimit mm = (case mm_historyLimits mm of Some (s, f) \<Rightarrow> f | None \<Rightarrow> 1)"

definition buildMaintenanceCronJob ::
  "cluster \<Rightarrow> maintenanceManager \<Rightarrow> repositoryConfig \<Rightarrow> objmeta \<Rightarrow> string \<Rightarrow> cronjob" where
  "buildMaintenanceCronJob cl mm rc owner secretName =
     (let repoHash = Hash rc;
          (volumes, mounts) = buildMaintenanceVolumes rc
      in (newCronJob (mm_operatorNamespace mm) (generateCronJobName repoHash))\<lparr>
        om_labels := [(maintenanceLabelKey, ''true''), (maintenanceRepositoryLabel, repoHash),
          (maintenanceNamespaceLabel, rc_namespace rc), (''volsync.backube/created-by'', om_name owner)],
        om_annotations := [(maintenanceRepositoryAnnotation, rc_repository rc),
          (''volsync.backube/source-namespace'', rc_namespace rc)],
        cj_schedule := rc_schedule rc,
        cj_concurrencyPolicy := ''Forbid'',
        cj_suspend := Some False,
        cj_successfulJobsHistoryLimit := Some (getSuccessfulJobsHistoryLimit mm),
        cj_failedJobsHistoryLimit := Some (getFailedJobsHistoryLimit mm),
        cj_backoffLimit := Some 3,
        cj_template := emptyTemplate\<lparr>
          om_labels := [(maintenanceLabelKey, ''true''), (maintenanceRepositoryLabel, repoHash)],
          pt_serviceAccountName := maintenanceServiceAccountName,
          pt_restartPolicy := ''OnFailure'',
          pt_securityContext := Some maintenancePodSecurityContext,
          pt_containers := [\<lparr>ct_name = ''kopia-maintenance'', ct_env = buildMaintenanceEnvVars cl rc,
            ct_envFrom = [secretName], ct_command = [''/bin/bash'', ''-c''], ct_args = [''/mover-kopia/entry.sh''],
            ct_image = mm_containerImage mm, ct_imagePullPolicy = ''IfNotPresent'',
            ct_securityContext = Some (emptySecurityContext\<lparr>sx_allowPrivilegeEscalation := Some False,
              sx_capabilities := Some \<lparr>cap_add = [], cap_drop = [''ALL'']\<rparr>,
              sx_privileged := Some False, sx_readOnlyRootFilesystem := Some True, sx_runAsUser := Some 1000,
              sx_runAsNonRoot := Some True\<rparr>),
            ct_volumeMounts = mounts, ct_resources = maintenanceResources, ct_volumeDevices = [], ct_ports = []\<rparr>],
          pt_volumes := volumes\<rparr>\<rparr>)"

section \<open>The secret and the account\<close>

definition wrapErr :: "string \<Rightarrow> gerror \<Rightarrow> gerror" where
  "wrapErr msg e = Errorf (msg @ '': '' @ errorMsg e)"

definition secretData :: "secret \<Rightarrow> strmap" where
  "secretData s = (case sec_data s of Some d \<Rightarrow> d | None \<Rightarrow> [])"

definition secretDataEqual :: "strmap \<Rightarrow> strmap \<Rightarrow> bool" where
  "secretDataEqual a b \<longleftrightarrow> length (entries a) = length (entries b) \<and>
     list_all (\<lambda>(k, v). map_of b k = Some v) (entries a)"

definition newMaintenanceSecret :: "maintenanceManager \<Rightarrow> repositoryConfig \<Rightarrow> secret \<Rightarrow> secret" where
  "newMaintenanceSecret mm rc sourceSecret =
     (newSecret (mm_operatorNamespace mm) (copiedSecretName (rc_namespace rc) rc))\<lparr>
       om_labels := [(maintenanceSecretLabel, ''true''), (maintenanceRepositoryLabel, Hash rc),
         (maintenanceNamespaceLabel, rc_namespace rc)],
       om_annotations := [(''volsync.backube/source-namespace'', rc_namespace rc),
         (''volsync.backube/source-secret'', rc_repository rc)],
       sec_type := sec_type sourceSecret,
       sec_data := sec_data sourceSecret\<rparr>"

definition ensureMaintenanceSecret ::
  "cluster \<Rightarrow> maintenanceManager \<Rightarrow> repositoryConfig \<Rightarrow> (gerror + string) kube" where
  "ensureMaintenanceSecret cl mm rc = do {
     src \<leftarrow> kGet (secretC cl) (rc_namespace rc, rc_repository rc);
     case src of
       Inl err \<Rightarrow> ret (Inl (wrapErr ''failed to get source secret'' err))
     | Inr sourceSecret \<Rightarrow> do {
         old \<leftarrow> kGet (secretC cl) (mm_operatorNamespace mm, copiedSecretName (rc_namespace rc) rc);
         case old of
           Inl err \<Rightarrow>
             if isNotFound err then do {
               w \<leftarrow> kCreate (secretC cl) (newMaintenanceSecret mm rc sourceSecret);
               ret (case w of
                 Inl e \<Rightarrow> Inl (wrapErr ''failed to create maintenance secret'' e)
               | Inr _ \<Rightarrow> Inr (copiedSecretName (rc_namespace rc) rc)) }
             else ret (Inl (wrapErr ''failed to get maintenance secret'' err))
         | Inr copied \<Rightarrow>
             if \<not> secretDataEqual (secretData copied) (secretData sourceSecret) then do {
               w \<leftarrow> kUpdate (secretC cl) (copied\<lparr>sec_data := sec_data sourceSecret\<rparr>);
               ret (case w of
                 Inl e \<Rightarrow> Inl (wrapErr ''failed to update maintenance secret'' e)
               | Inr _ \<Rightarrow> Inr (copiedSecretName (rc_namespace rc) rc)) }
             else ret (Inr (copiedSecretName (rc_namespace rc) rc)) } }"

definition readRule :: "string \<Rightarrow> policyrule" where
  "readRule resource = \<lparr>pr_apiGroups = [[]], pr_resources = [resource], pr_resourceNames = [],
     pr_verbs = [''get'', ''list'']\<rparr>"

text \<open>Whatever creating the role and the binding answers is only logged.\<close>

definition ensureRBACPermissions :: "cluster \<Rightarrow> maintenanceManager \<Rightarrow> gerror option kube" where
  "ensureRBACPermissions cl mm = do {
     _ \<leftarrow> kCreate (roleC cl) ((newRole (mm_operatorNamespace mm) maintenanceServiceAccountName)\<lparr>
       om_labels := [(maintenanceLabelKey, ''true'')],
       role_rules := [readRule ''secrets'', readRule ''configmaps'']\<rparr>);
     _ \<leftarrow> kCreate (roleBindingC cl) ((newRoleBinding (mm_operatorNamespace mm) maintenanceServiceAccountName)\<lparr>
       om_labels := [(maintenanceLabelKey, ''true'')],
       rb_roleRef := (''rbac.authorization.k8s.io'', ''Role'', maintenanceServiceAccountName),
       rb_subjects := [(''ServiceAccount'', maintenanceServiceAccountName, mm_operatorNamespace mm)]\<rparr>);
     ret None }"

definition ensureServiceAccount :: "cluster \<Rightarrow> maintenanceManager \<Rightarrow> gerror option kube" where
  "ensureServiceAccount cl mm = do {
     r \<leftarrow> kGet (saC cl) (mm_operatorNamespace mm, maintenanceServiceAccountName);
     case r of
       Inr _ \<Rightarrow> ret None
     | Inl err \<Rightarrow>
         if isNotFound err then do {
           w \<leftarrow> kCreate (saC cl) ((newServiceAccount (mm_operatorNamespace mm) maintenanceServiceAccountName)\<lparr>
             om_labels := [(maintenanceLabelKey, ''true'')]\<rparr>);
           case w of
             Inl e \<Rightarrow> ret (Some (wrapErr ''failed to create ServiceAccount'' e))
           | Inr _ \<Rightarrow> do {
               e \<leftarrow> ensureRBACPermissions cl mm;
               ret (map_option (wrapErr ''failed to ensure RBAC permissions'') e) } }
         else ret (Some (wrapErr ''failed to get ServiceAccount'' err)) }"

section \<open>Metrics\<close>

definition maintenanceMetricLabels :: "string \<Rightarrow> string \<Rightarrow> string \<Rightarrow> strmap" where
  "maintenanceMetricLabels name namespace repository = [(''obj_name'', name), (''obj_namespace'', namespace),
     (''role'', ''source''), (''operation'', ''maintenance''), (''repository'', repository)]"

definition recordCronJobMetric :: "replicationsource \<Rightarrow> string \<Rightarrow> unit kube" where
  "recordCronJobMetric source operation =
     (let labels = maintenanceMetricLabels (om_name source) (om_namespace source)
            (case rs_kopia source of Some k \<Rightarrow> ks_repository k | None \<Rightarrow> [])
      in if operation = ''created'' then metric ''MaintenanceCronJobCreated'' labels (MetricAdd 1)
         else if operation = ''updated'' then metric ''MaintenanceCronJobUpdated'' labels (MetricAdd 1)
         else ret ())"

definition recordCronJobDeletionMetric :: "string \<Rightarrow> string \<Rightarrow> unit kube" where
  "recordCronJobDeletionMetric namespace name =
     metric ''MaintenanceCronJobDeleted'' (maintenanceMetricLabels name namespace []) (MetricAdd 1)"

section \<open>Creating and updating the CronJob\<close>

text \<open>What a CronJob of an older version leaves in the namespace of the source.\<close>

definition migrateExistingCronJob ::
  "cluster \<Rightarrow> repositoryConfig \<Rightarrow> gerror option kube" where
  "migrateExistingCronJob cl rc = do {
     r \<leftarrow> kGet (cronJobC cl) (rc_namespace rc, generateCronJobName (Hash rc));
     case r of
       Inl err \<Rightarrow>
         ret (if isNotFound err then None else Some (wrapErr ''failed to check for existing CronJob'' err))
     | Inr existing \<Rightarrow> do {
         d \<leftarrow> kDelete (cronJobC cl) existing None;
         case IgnoreNotFound d of
           Some e \<Rightarrow> ret (Some (wrapErr ''failed to delete old CronJob during migration'' e))
         | None \<Rightarrow> do {
             l \<leftarrow> kList (jobC cl) (Some (rc_namespace rc))
               (LabelsAre [(maintenanceLabelKey, ''true''), (maintenanceRepositoryLabel, Hash rc)]);
             forEach (\<lambda>j. do { _ \<leftarrow> kDelete (jobC cl) j None; ret None })
               (case l of Inr js \<Rightarrow> js | Inl _ \<Rightarrow> []) } } }"

definition conflictNote :: "cluster \<Rightarrow> string \<Rightarrow> string \<Rightarrow> gtime \<Rightarrow> string" where
  "conflictNote cl schedule namespace t =
     ''Last conflict: Schedule '' @ [CHR 0x27] @ schedule @ [CHR 0x27] @ '' requested from namespace '' @
     [CHR 0x27] @ namespace @ [CHR 0x27] @ '' at '' @ timeFormat cl ''2006-01-02T15:04:05Z07:00'' t @
     '' (rejected - first-wins strategy)''"

definition updateSchedule ::
  "cluster \<Rightarrow> replicationsource \<Rightarrow> string \<Rightarrow> cronjob \<Rightarrow> (gerror option \<times> cronjob) kube" where
  "updateSchedule cl owner schedule existing =
     (let updated = existing\<lparr>cj_schedule := schedule,
            om_annotations := map_del maintenanceScheduleConflictAnnotation (om_annotations existing)\<rparr>
      in do {
        w \<leftarrow> kUpdate (cronJobC cl) updated;
        case w of
          Inl e \<Rightarrow> ret (Some e, updated)
        | Inr z \<Rightarrow> do {
            _ \<leftarrow> recordCronJobMetric owner ''updated'';
            ret (None, z) } })"

text \<open>
  The schedule of a CronJob that exists: kept, with a note, if another namespace set it; otherwise
  replaced. The second part is the object the code goes on with: what the server answered, or what
  was sent if the update failed.
\<close>

definition reconcileSchedule ::
  "cluster \<Rightarrow> repositoryConfig \<Rightarrow> replicationsource \<Rightarrow> string \<Rightarrow> cronjob \<Rightarrow> (gerror option \<times> cronjob) kube" where
  "reconcileSchedule cl rc owner schedule existing =
     (if cj_schedule existing = schedule then ret (None, existing)
      else (case map_of (om_labels existing) maintenanceNamespaceLabel of
        Some sourceNamespace \<Rightarrow>
          if sourceNamespace \<noteq> rc_namespace rc then do {
            t \<leftarrow> now cl;
            (let noted = existing\<lparr>om_annotations := map_put maintenanceScheduleConflictAnnotation
                   (conflictNote cl schedule (rc_namespace rc) t) (om_annotations existing)\<rparr>
             in do {
               w \<leftarrow> kUpdate (cronJobC cl) noted;
               ret (None, case w of Inl _ \<Rightarrow> noted | Inr z \<Rightarrow> z) }) }
          else updateSchedule cl owner schedule existing
      | None \<Rightarrow> updateSchedule cl owner schedule existing))"

text \<open>A CronJob that exists: its schedule, then the label with the namespace.\<close>

definition adoptCronJob ::
  "cluster \<Rightarrow> repositoryConfig \<Rightarrow> replicationsource \<Rightarrow> string \<Rightarrow> cronjob \<Rightarrow> gerror option kube" where
  "adoptCronJob cl rc owner schedule existing = do {
     (serr, existing1) \<leftarrow> reconcileSchedule cl rc owner schedule existing;
     case serr of
       Some e \<Rightarrow> ret (Some e)
     | None \<Rightarrow>
         if map_get (om_labels existing1) maintenanceNamespaceLabel \<noteq> rc_namespace rc then do {
           _ \<leftarrow> kUpdate (cronJobC cl) (existing1\<lparr>om_labels :=
             map_put maintenanceNamespaceLabel (rc_namespace rc) (om_labels existing1)\<rparr>);
           ret None }
         else ret None }"

definition ensureMaintenanceCronJob ::
  "cluster \<Rightarrow> maintenanceManager \<Rightarrow> repositoryConfig \<Rightarrow> replicationsource \<Rightarrow> gerror option kube" where
  "ensureMaintenanceCronJob cl mm rc owner = do {
     sr \<leftarrow> ensureMaintenanceSecret cl mm rc;
     case sr of
       Inl err \<Rightarrow> ret (Some (wrapErr ''failed to ensure maintenance secret'' err))
     | Inr secretName \<Rightarrow> do {
     aerr \<leftarrow> ensureServiceAccount cl mm;
     case aerr of
       Some err \<Rightarrow> ret (Some (wrapErr ''failed to ensure service account'' err))
     | None \<Rightarrow>
     (let cronJob = buildMaintenanceCronJob cl mm rc (objmeta.truncate owner) secretName in do {
     r \<leftarrow> kGet (cronJobC cl) (objKey cronJob);
     case r of
       Inl err \<Rightarrow>
         if isNotFound err then do {
           _ \<leftarrow> migrateExistingCronJob cl rc;
           w \<leftarrow> kCreate (cronJobC cl) cronJob;
           case w of
             Inl e \<Rightarrow> ret (Some e)
           | Inr _ \<Rightarrow> do {
               _ \<leftarrow> recordCronJobMetric owner ''created'';
               ret None } }
         else ret (Some (wrapErr ''failed to get CronJob'' err))
     | Inr existing \<Rightarrow> adoptCronJob cl rc owner (cj_schedule cronJob) existing }) } }"

definition ReconcileMaintenanceForSource ::
  "cluster \<Rightarrow> maintenanceManager \<Rightarrow> replicationsource \<Rightarrow> gerror option kube" where
  "ReconcileMaintenanceForSource cl mm source =
     (case rs_kopia source of
        None \<Rightarrow> ret None
      | Some kopia \<Rightarrow>
          if om_name source = [] then ret (Some (Errorf ''ReplicationSource name is required but was empty''))
          else if om_namespace source = []
          then ret (Some (Errorf ''ReplicationSource namespace is required but was empty''))
          else if ks_repository kopia = []
          then ret (Some (Errorf ''kopia repository configuration is required but was empty''))
          else if \<not> isMaintenanceEnabled source then ret None
          else ensureMaintenanceCronJob cl mm (sourceRepoConfig source kopia (ks_cacheCapacity kopia)) source)"

definition EnsureMaintenanceCronJob ::
  "cluster \<Rightarrow> maintenanceManager \<Rightarrow> replicationsource \<Rightarrow> gerror option kube" where
  "EnsureMaintenanceCronJob cl mm source = ReconcileMaintenanceForSource cl mm source"

definition UpdateMaintenanceCronJobsForRepository ::
  "cluster \<Rightarrow> maintenanceManager \<Rightarrow> string \<Rightarrow> string \<Rightarrow> gerror option kube" where
  "UpdateMaintenanceCronJobsForRepository cl mm namespace repositoryName = do {
     l \<leftarrow> kList (rsC cl) (Some namespace) Everything;
     case l of
       Inl err \<Rightarrow> ret (Some (wrapErr ''failed to list ReplicationSources'' err))
     | Inr sources \<Rightarrow>
         forEach (\<lambda>source.
           case rs_kopia source of
             Some kopia \<Rightarrow>
               if ks_repository kopia = repositoryName then do {
                 e \<leftarrow> ReconcileMaintenanceForSource cl mm source;
                 ret (map_option (wrapErr (''failed to reconcile maintenance for source '' @ om_name source)) e) }
               else ret None
           | None \<Rightarrow> ret None) sources }"

section \<open>Removing what is not needed\<close>

definition requiredHashes :: "replicationsource list \<Rightarrow> string list" where
  "requiredHashes sources = List.map_filter (\<lambda>source.
     case rs_kopia source of
       Some kopia \<Rightarrow> if isMaintenanceEnabled source then Some (Hash (sourceRepoConfig source kopia None)) else None
     | None \<Rightarrow> None) sources"

definition checkAndDeleteOrphanedCronJob :: "cluster \<Rightarrow> cronjob \<Rightarrow> string \<Rightarrow> gerror option kube" where
  "checkAndDeleteOrphanedCronJob cl cronJob namespace =
     (case map_of (om_labels cronJob) maintenanceRepositoryLabel of
        None \<Rightarrow> ret None
      | Some repoHash \<Rightarrow> do {
          l \<leftarrow> kList (rsC cl) None Everything;
          case l of
            Inl err \<Rightarrow> ret (Some (wrapErr ''failed to list all ReplicationSources'' err))
          | Inr allSources \<Rightarrow>
              if repoHash \<in> set (requiredHashes (filter (\<lambda>s. om_namespace s \<noteq> namespace) allSources)) then ret None
              else do {
                d \<leftarrow> kDelete (cronJobC cl) cronJob None;
                case IgnoreNotFound d of
                  Some e \<Rightarrow> ret (Some (wrapErr (''failed to delete orphaned CronJob '' @ om_name cronJob) e))
                | None \<Rightarrow> do {
                    _ \<leftarrow> recordCronJobDeletionMetric (om_namespace cronJob) (om_name cronJob);
                    ret None } } })"

definition requiredSecrets :: "string \<Rightarrow> replicationsource list \<Rightarrow> string list" where
  "requiredSecrets namespace sources = List.map_filter (\<lambda>source.
     case rs_kopia source of
       Some kopia \<Rightarrow>
         if isMaintenanceEnabled source then Some (copiedSecretName namespace (sourceRepoConfig source kopia None)) else None
     | None \<Rightarrow> None) sources"

definition cleanupOrphanedSecrets :: "cluster \<Rightarrow> maintenanceManager \<Rightarrow> string \<Rightarrow> gerror option kube" where
  "cleanupOrphanedSecrets cl mm namespace = do {
     l \<leftarrow> kList (secretC cl) (Some (mm_operatorNamespace mm))
       (LabelsAre [(maintenanceSecretLabel, ''true''), (maintenanceNamespaceLabel, namespace)]);
     case l of
       Inl err \<Rightarrow> ret (Some (wrapErr ''failed to list maintenance secrets'' err))
     | Inr copies \<Rightarrow> do {
         sl \<leftarrow> kList (rsC cl) (Some namespace) Everything;
         case sl of
           Inl err \<Rightarrow> ret (Some (wrapErr ''failed to list ReplicationSources'' err))
         | Inr sources \<Rightarrow>
             forEach (\<lambda>s.
               if om_name s \<notin> set (requiredSecrets namespace sources) then do {
                 d \<leftarrow> kDelete (secretC cl) s None;
                 ret (map_option (wrapErr (''failed to delete orphaned secret '' @ om_name s)) (IgnoreNotFound d)) }
               else ret None) copies } }"

definition CleanupOrphanedMaintenanceCronJobs ::
  "cluster \<Rightarrow> maintenanceManager \<Rightarrow> string \<Rightarrow> gerror option kube" where
  "CleanupOrphanedMaintenanceCronJobs cl mm namespace = do {
     sl \<leftarrow> kList (rsC cl) (Some namespace) Everything;
     case sl of
       Inl err \<Rightarrow> ret (Some (wrapErr ''failed to list ReplicationSources'' err))
     | Inr sources \<Rightarrow> do {
         l \<leftarrow> kList (cronJobC cl) (Some (mm_operatorNamespace mm))
           (LabelsAre [(maintenanceLabelKey, ''true''), (maintenanceNamespaceLabel, namespace)]);
         case l of
           Inl err \<Rightarrow> ret (Some (wrapErr ''failed to list maintenance CronJobs'' err))
         | Inr cronJobs \<Rightarrow> do {
             _ \<leftarrow> forEach (\<lambda>c.
               case map_of (om_labels c) maintenanceRepositoryLabel of
                 Some repoHash \<Rightarrow>
                   if repoHash \<in> set (requiredHashes sources) then ret None
                   else do { _ \<leftarrow> checkAndDeleteOrphanedCronJob cl c namespace; ret None }
               | None \<Rightarrow> do { _ \<leftarrow> checkAndDeleteOrphanedCronJob cl c namespace; ret (None :: gerror option) }) cronJobs;
             _ \<leftarrow> cleanupOrphanedSecrets cl mm namespace;
             ret None } } }"

definition GetMaintenanceCronJobsForNamespace :: "cluster \<Rightarrow> string \<Rightarrow> (gerror + cronjob list) kube" where
  "GetMaintenanceCronJobsForNamespace cl namespace = do {
     l \<leftarrow> kList (cronJobC cl) (Some namespace) (LabelIs maintenanceLabelKey ''true'');
     ret (case l of Inl err \<Rightarrow> Inl (wrapErr ''failed to list maintenance CronJobs'' err) | Inr cs \<Rightarrow> Inr cs) }"

section \<open>The history of the jobs\<close>

record maintenanceStatus =
  mst_configured :: bool
  mst_cronJobName :: string
  mst_schedule :: string
  mst_nextScheduledTime :: "gtime option"
  mst_lastScheduledTime :: "gtime option"
  mst_lastSuccessfulTime :: "gtime option"
  mst_lastFailedTime :: "gtime option"
  mst_failures :: int
  mst_duration :: "string option"
  mst_lastError :: string

definition notConfigured :: maintenanceStatus where
  "notConfigured = \<lparr>mst_configured = False, mst_cronJobName = [], mst_schedule = [], mst_nextScheduledTime = None,
     mst_lastScheduledTime = None, mst_lastSuccessfulTime = None, mst_lastFailedTime = None, mst_failures = 0,
     mst_duration = None, mst_lastError = []\<rparr>"

text \<open>
  The times are \<open>metav1.Time\<close>, whole seconds, so \<open>int(duration.Seconds())\<close> is the quotient.
\<close>

definition extractMaintenanceDuration :: "job \<Rightarrow> string" where
  "extractMaintenanceDuration j =
     (case (job_startTime j, job_completionTime j) of
        (Some s, Some c) \<Rightarrow> itoa (quotGo (time_Sub c s) second) @ ''s''
      | _ \<Rightarrow> [])"

definition jobCondition :: "jobConditionType \<Rightarrow> job \<Rightarrow> jobcondition option" where
  "jobCondition t j = find (\<lambda>c. jc_type c = t \<and> jc_status c = ConditionTrue) (job_conditions j)"

definition extractJobError :: "job \<Rightarrow> string" where
  "extractJobError j = (case jobCondition JobFailed j of Some c \<Rightarrow> jc_message c | None \<Rightarrow> ''Unknown error'')"

definition newerJob :: "job \<Rightarrow> job \<Rightarrow> bool" where
  "newerJob a b \<longleftrightarrow> (if om_creationTimestamp a = om_creationTimestamp b then om_name b < om_name a
     else time_After (om_creationTimestamp a) (om_creationTimestamp b))"

fun insertJob :: "job \<Rightarrow> job list \<Rightarrow> job list" where
  "insertJob j [] = [j]"
| "insertJob j (k # ks) = (if newerJob k j then k # insertJob j ks else j # k # ks)"

text \<open>\<open>sort.Slice\<close> by \<open>newerJob\<close>; two jobs of a namespace differ in their names, so the order is total.\<close>

definition sortJobs :: "job list \<Rightarrow> job list" where
  "sortJobs js = foldr insertJob js []"

record jobScan =
  jsc_success :: "gtime option"
  jsc_failed :: "gtime option"
  jsc_failures :: int
  jsc_duration :: "string option"
  jsc_error :: string

definition scanJob :: "job \<Rightarrow> jobScan \<Rightarrow> jobScan" where
  "scanJob j sc =
     (case job_completionTime j of
        None \<Rightarrow> sc
      | Some done \<Rightarrow>
          if jobCondition JobComplete j \<noteq> None then
            (if jsc_success sc = None then
               sc\<lparr>jsc_success := Some done,
                  jsc_duration := (if extractMaintenanceDuration j \<noteq> [] then Some (extractMaintenanceDuration j)
                    else jsc_duration sc)\<rparr>
             else sc)
          else
            (let sc1 = (case jsc_failed sc of
                   None \<Rightarrow> sc\<lparr>jsc_failed := Some done, jsc_error := extractJobError j\<rparr>
                 | Some t \<Rightarrow> if time_After done t then sc\<lparr>jsc_failed := Some done, jsc_error := extractJobError j\<rparr> else sc)
             in if jsc_success sc1 = None then sc1\<lparr>jsc_failures := jsc_failures sc1 + 1\<rparr> else sc1))"

definition analyzeJobHistory :: "job list \<Rightarrow> maintenanceStatus \<Rightarrow> maintenanceStatus" where
  "analyzeJobHistory js status =
     (let sc = fold scanJob (take 50 (sortJobs js)) \<lparr>jsc_success = None, jsc_failed = None, jsc_failures = 0,
            jsc_duration = mst_duration status, jsc_error = mst_lastError status\<rparr>
      in status\<lparr>mst_lastSuccessfulTime := jsc_success sc, mst_lastFailedTime := jsc_failed sc,
           mst_failures := jsc_failures sc, mst_duration := jsc_duration sc, mst_lastError := jsc_error sc\<rparr>)"

definition calculateNextScheduledTime :: "cluster \<Rightarrow> string \<Rightarrow> gtime \<Rightarrow> gtime" where
  "calculateNextScheduledTime cl schedule lastTime =
     (if schedule = ''0 2 * * *'' then time_Add lastTime (24 * hour)
      else if schedule = ''0 2 * * 0'' then time_Add lastTime (7 * 24 * hour)
      else if schedule = ''0 2 1 * *'' then timeAddDate cl lastTime 0 1 0
      else time_Add lastTime (24 * hour))"

definition unixSeconds :: "gtime \<Rightarrow> int" where
  "unixSeconds t = t div second - 62135596800"

text \<open>The duration is the number \<open>extractMaintenanceDuration\<close> printed.\<close>

definition parseSeconds :: "string \<Rightarrow> int option" where
  "parseSeconds s =
     (if s = [] \<or> last s \<noteq> CHR ''s'' then None
      else (case butlast s of
        [] \<Rightarrow> None
      | c # ds \<Rightarrow> Some (if c = CHR ''-'' then - int (parseNat ds) else int (parseNat (c # ds)))))"

definition updateMaintenanceMetrics :: "replicationsource \<Rightarrow> string \<Rightarrow> maintenanceStatus \<Rightarrow> unit kube" where
  "updateMaintenanceMetrics source repository status =
     (let labels = maintenanceMetricLabels (om_name source) (om_namespace source) repository in do {
        _ \<leftarrow> (case mst_lastSuccessfulTime status of
               Some t \<Rightarrow> metric ''MaintenanceLastRunTimestamp'' labels (MetricSet (unixSeconds t))
             | None \<Rightarrow> ret ());
        _ \<leftarrow> (if mst_failures status > 0
              then metric ''MaintenanceCronJobFailures'' (labels @ [(''failure_reason'', ''maintenance_job_failed'')])
                (MetricAdd (mst_failures status))
              else ret ());
        (case mst_duration status of
           Some d \<Rightarrow>
             (case parseSeconds d of
                Some n \<Rightarrow> metric ''MaintenanceDurationSeconds'' labels (MetricObserve (n * second))
              | None \<Rightarrow> ret ())
         | None \<Rightarrow> ret ()) })"

definition getMaintenanceJobs ::
  "cluster \<Rightarrow> maintenanceManager \<Rightarrow> string \<Rightarrow> (gerror + job list) kube" where
  "getMaintenanceJobs cl mm repoHash = do {
     l \<leftarrow> kList (jobC cl) (Some (mm_operatorNamespace mm))
       (LabelsAre [(maintenanceLabelKey, ''true''), (maintenanceRepositoryLabel, repoHash)]);
     ret (case l of Inl err \<Rightarrow> Inl (wrapErr ''failed to list maintenance jobs'' err) | Inr js \<Rightarrow> Inr js) }"

definition GetMaintenanceStatus ::
  "cluster \<Rightarrow> maintenanceManager \<Rightarrow> replicationsource \<Rightarrow> (gerror + maintenanceStatus option) kube" where
  "GetMaintenanceStatus cl mm source =
     (case rs_kopia source of
        None \<Rightarrow> ret (Inr None)
      | Some kopia \<Rightarrow>
          if \<not> isMaintenanceEnabled source then ret (Inr None)
          else (let repoHash = Hash (sourceRepoConfig source kopia None) in do {
            r \<leftarrow> kGet (cronJobC cl) (mm_operatorNamespace mm, generateCronJobName repoHash);
            case r of
              Inl err \<Rightarrow>
                ret (if isNotFound err then Inr (Some notConfigured) else Inl (wrapErr ''failed to get CronJob'' err))
            | Inr cronJob \<Rightarrow>
                (let status = notConfigured\<lparr>mst_configured := True, mst_cronJobName := om_name cronJob,
                       mst_schedule := cj_schedule cronJob, mst_lastScheduledTime := cj_lastScheduleTime cronJob,
                       mst_nextScheduledTime := (case cj_lastScheduleTime cronJob of
                           Some t \<Rightarrow> if cj_suspend cronJob = Some False
                             then Some (calculateNextScheduledTime cl (cj_schedule cronJob) t) else None
                         | None \<Rightarrow> None)\<rparr>
                 in do {
                   jr \<leftarrow> getMaintenanceJobs cl mm repoHash;
                   (let status1 = (case jr of Inl _ \<Rightarrow> status | Inr js \<Rightarrow> analyzeJobHistory js status) in do {
                      _ \<leftarrow> updateMaintenanceMetrics source (ks_repository kopia) status1;
                      ret (Inr (Some status1)) }) }) }))"

section \<open>Names and limits\<close>

lemma sha256_round_length [simp]: "length (sha256_round kw hs) = length hs"
  by (cases "(kw, hs)" rule: sha256_round.cases) (auto simp: Let_def)

lemma sha256_block_length [simp]: "length (sha256_block b hs) = length hs"
proof -
  have "length (fold sha256_round kws hs) = length hs" for kws
    by (induction kws arbitrary: hs) auto
  then show ?thesis by (simp add: sha256_block_def)
qed

lemma length_sha256_hex: "length (sha256_hex data) = 64"
proof -
  have "length (fold (\<lambda>b. sha256_block (map bytesToWord (chunks 4 b))) bs hs) = length hs" for bs hs
    by (induction bs arbitrary: hs) auto
  then have "length (sha256_Sum256 data) = 8" by (simp add: sha256_Sum256_def length_sha256_init)
  moreover have "length (concat (map hex8 ws)) = 8 * length ws" for ws
    by (induction ws) (auto simp: hex8_def)
  ultimately show ?thesis by (simp add: sha256_hex_def)
qed

lemma length_Hash: "length (Hash rc) = 16"
  by (simp add: Hash_def length_sha256_hex)

text \<open>The names of the CronJob and of the copied secret fit, and the name of the CronJob is never cut.\<close>

lemma maintenance_names_fit:
  "generateCronJobName (Hash rc) = ''kopia-maintenance-'' @ Hash rc"
  "length (generateCronJobName (Hash rc)) \<le> maxCronJobNameLength" "length (copiedSecretName ns rc) \<le> 63"
  by (auto simp: generateCronJobName_def copiedSecretName_def maxCronJobNameLength_def length_Hash Let_def)

text \<open>For every capacity below 3 * 10\^9 MB the two cache limits are not negative and leave at least a
  tenth of the capacity free; each is the exact percentage of the capacity in MB, rounded down, or
  one less (floating point: 70\,\% of 170 MB is 118 MB).\<close>

theorem cacheLimits_fit:
  assumes "0 \<le> capacity" "capacity < 3000000000 * (1024 * 1024)" "cacheLimits cl capacity = (metadataMB, contentMB)"
  shows "0 \<le> metadataMB \<and> 0 \<le> contentMB \<and> 10 * (metadataMB + contentMB) * (1024 * 1024) \<le> 9 * capacity \<and>
    7 * (capacity div (1024 * 1024)) \<le> 10 * metadataMB + 10 \<and> 2 * (capacity div (1024 * 1024)) \<le> 10 * contentMB + 10"
proof -
  define n where "n = nat (capacity div (1024 * 1024))"
  have n: "int n = capacity div (1024 * 1024)" using assms(1) by (simp add: n_def pos_imp_zdiv_nonneg_iff)
  then have mb: "quotGo capacity (1024 * 1024) = int n" using assms(1) by (simp add: quotGo_def)
  have "int n < 3000000000" using n assms(2) by simp
  then have "n < 3000000000" by simp
  have m: "10 * floatTimes 6305039478318694 53 n \<le> 7 * n \<and> 7 * n \<le> 10 * floatTimes 6305039478318694 53 n + 10"
    by (rule floatTimes_bounds) (use \<open>n < _\<close> in simp_all)
  have c: "10 * floatTimes 7205759403792794 55 n \<le> 2 * n \<and> 2 * n \<le> 10 * floatTimes 7205759403792794 55 n + 10"
    by (rule floatTimes_bounds) (use \<open>n < _\<close> in simp_all)
  have "metadataMB = int (floatTimes 6305039478318694 53 n)" "contentMB = int (floatTimes 7205759403792794 55 n)"
    using assms(3) m c \<open>n < _\<close> by (auto simp: cacheLimits_def fractionInt32_def mb[simplified] Let_def)
  moreover have "int n * (1024 * 1024) \<le> capacity" using n by (simp add: mult.commute)
  ultimately show ?thesis using m c n by simp
qed

theorem cacheLimits_fit_witness:
  "\<exists>m c. cacheLimits sampleCluster (8 * Gi) = (m, c) \<and> 10 * (m + c) * (1024 * 1024) \<le> 9 * (8 * Gi)"
proof -
  obtain m c where e: "cacheLimits sampleCluster (8 * Gi) = (m, c)" by (metis surj_pair)
  from cacheLimits_fit[OF _ _ e] e show ?thesis by (simp add: Gi_def)
qed

section \<open>What the cleanup removes\<close>

text \<open>
  A list request answers with objects of the namespace that carry the labels asked for.
\<close>

definition list_documented :: "'a objmeta_scheme kclient \<Rightarrow> bool" where
  "list_documented c \<longleftrightarrow> (\<forall>tr ns ls xs x. k_list c tr (Some ns) (LabelsAre ls) = Inr xs \<and> x \<in> set xs \<longrightarrow>
     om_namespace x = ns \<and> (\<forall>(k, v) \<in> set ls. map_of (om_labels x) k = Some v))"

lemma nothing_required [simp]: "requiredHashes sources = []" "requiredSecrets ns sources = []"
  by (induction sources)
    (auto simp: requiredHashes_def requiredSecrets_def isMaintenanceEnabled_def List.map_filter_simps split: option.splits)

fun orphan_ok :: "string \<Rightarrow> string \<Rightarrow> call \<Rightarrow> bool" where
  "orphan_ok opns ns (CDelete (OCronJob c) rv) \<longleftrightarrow> om_namespace c = opns \<and>
     map_of (om_labels c) maintenanceLabelKey = Some ''true'' \<and> map_of (om_labels c) maintenanceNamespaceLabel = Some ns"
| "orphan_ok opns ns (CDelete (OSecret s) rv) \<longleftrightarrow> om_namespace s = opns \<and>
     map_of (om_labels s) maintenanceSecretLabel = Some ''true'' \<and> map_of (om_labels s) maintenanceNamespaceLabel = Some ns"
| "orphan_ok opns ns c \<longleftrightarrow> \<not> is_write c"

lemma emits_kList_answer:
  "P (CList (k_kind c) ns sel) \<Longrightarrow> (\<And>tr. Q (k_list c tr ns sel)) \<Longrightarrow> emits P (kList c ns sel) Q"
  unfolding emits_def kList_def by auto

lemma emits_checkAndDelete:
  assumes "orphan_ok opns ns (CDelete (OCronJob c) None)"
  shows "emits (orphan_ok opns ns) (checkAndDeleteOrphanedCronJob cl c ns) (\<lambda>_. True)"
  unfolding checkAndDeleteOrphanedCronJob_def recordCronJobDeletionMetric_def
  using assms by (auto intro!: emits_rules emits_step)

lemma emits_cleanupSecrets:
  assumes "list_documented (secretC cl)"
  shows "emits (orphan_ok (mm_operatorNamespace mm) ns) (cleanupOrphanedSecrets cl mm ns) (\<lambda>_. True)"
proof -
  have "emits (orphan_ok (mm_operatorNamespace mm) ns) (kList (secretC cl) (Some (mm_operatorNamespace mm))
      (LabelsAre [(maintenanceSecretLabel, ''true''), (maintenanceNamespaceLabel, ns)]))
      (\<lambda>r. \<forall>xs. r = Inr xs \<longrightarrow> (\<forall>s \<in> set xs. orphan_ok (mm_operatorNamespace mm) ns (CDelete (OSecret s) None)))"
    using assms by (intro emits_kList_answer) (fastforce simp: list_documented_def)+
  then show ?thesis
    unfolding cleanupOrphanedSecrets_def
    by (rule emits_bind) (auto intro!: emits_rules emits_forEach emits_step)
qed

lemma emits_CleanupOrphaned:
  assumes "list_documented (secretC cl)" "list_documented (cronJobC cl)"
  shows "emits (orphan_ok (mm_operatorNamespace mm) ns) (CleanupOrphanedMaintenanceCronJobs cl mm ns) (\<lambda>_. True)"
proof -
  have l: "emits (orphan_ok (mm_operatorNamespace mm) ns) (kList (cronJobC cl) (Some (mm_operatorNamespace mm))
      (LabelsAre [(maintenanceLabelKey, ''true''), (maintenanceNamespaceLabel, ns)]))
      (\<lambda>r. \<forall>xs. r = Inr xs \<longrightarrow> (\<forall>c \<in> set xs. orphan_ok (mm_operatorNamespace mm) ns (CDelete (OCronJob c) None)))"
    using assms(2) by (intro emits_kList_answer) (fastforce simp: list_documented_def)+
  show ?thesis
    unfolding CleanupOrphanedMaintenanceCronJobs_def
    by (auto intro!: emits_rules emits_step[of _ "kList (rsC cl) _ _"] emits_bind[OF l] emits_step[of _ "forEach _ _"]
        emits_forEach emits_step[of _ "checkAndDeleteOrphanedCronJob _ _ _"] emits_checkAndDelete
        emits_step[OF emits_cleanupSecrets[OF assms(1)]])
qed

text \<open>Cleaning up the maintenance of a namespace changes nothing but CronJobs and secrets in the namespace
  of the operator that carry the maintenance label and the label of that namespace, and those it
  only deletes.\<close>

theorem maintenance_cleanup_safe:
  assumes "list_documented (secretC cl)" "list_documented (cronJobC cl)"
  shows "emits (orphan_ok (mm_operatorNamespace mm) ns) (CleanupOrphanedMaintenanceCronJobs cl mm ns) (\<lambda>_. True)"
  by (rule emits_CleanupOrphaned[OF assms])

theorem maintenance_cleanup_safe_witness:
  "emits (orphan_ok (mm_operatorNamespace mm) ''apps'') (CleanupOrphanedMaintenanceCronJobs sampleCluster mm ''apps'') (\<lambda>_. True)"
proof (rule maintenance_cleanup_safe)
  show "list_documented (secretC sampleCluster)" by (simp add: list_documented_def)
  show "list_documented (cronJobC sampleCluster)"
    by (simp add: list_documented_def cronJobC_def sampleCluster_def client_id)
qed

text \<open>No source counts as maintained, so the cleanup, which a synchronization of every kopia source runs,
  deletes all maintenance CronJobs of repositories and all copied secrets that carry the label of
  the namespace, also when its sources use these repositories; and reconciling the maintenance of a
  source makes no call at all.\<close>

theorem maintenance_all_orphaned:
  assumes "\<And>tr ns sel. \<exists>xs. k_list (rsC cl) tr ns sel = Inr xs"
    and "\<And>tr ns sel. k_list (cronJobC cl) tr ns sel = Inr cronJobs"
    and "\<And>tr ns sel. k_list (secretC cl) tr ns sel = Inr copies"
    and "\<And>tr x rv. k_delete (secretC cl) tr x rv = None"
    and run: "run_state (CleanupOrphanedMaintenanceCronJobs cl mm ns) tr = (r, tr')"
  shows "(\<forall>c \<in> set cronJobs. map_of (om_labels c) maintenanceRepositoryLabel \<noteq> None \<longrightarrow> CDelete (OCronJob c) None \<in> set tr') \<and>
    (\<forall>s \<in> set copies. CDelete (OSecret s) None \<in> set tr') \<and>
    snd (run_state (ReconcileMaintenanceForSource cl mm source) tr) = tr"
proof -
  let ?f = "\<lambda>c. case map_of (om_labels c) maintenanceRepositoryLabel of
      None \<Rightarrow> do { _ \<leftarrow> checkAndDeleteOrphanedCronJob cl c ns; ret (None :: gerror option) }
    | Some repoHash \<Rightarrow> do { _ \<leftarrow> checkAndDeleteOrphanedCronJob cl c ns; ret None }"
  let ?g = "\<lambda>s. do {
      d \<leftarrow> kDelete (secretC cl) s None;
      ret (map_option (wrapErr (''failed to delete orphaned secret '' @ om_name s)) (IgnoreNotFound d)) }"
  have f: "emits (\<lambda>_. True) (?f c) (\<lambda>_. True)" for c
    unfolding checkAndDeleteOrphanedCronJob_def recordCronJobDeletionMetric_def
    by (auto intro!: emits_rules emits_step split: option.splits)
  have g: "emits (\<lambda>_. True) (?g s) (\<lambda>_. True)" for s by (auto intro!: emits_rules emits_step)
  have all: "fst (run_state (forEach h xs) t) = None" if "\<And>x t. fst (run_state (h x) t) = None"
    for h :: "'x \<Rightarrow> (trace, 'e option) state" and xs t
    using that by (induction xs arbitrary: t) (auto simp: case_prod_beta)
  have del: "CDelete (OCronJob c) None \<in> set n"
    if "run_state (?f c) t = (None, n @ t)" "map_of (om_labels c) maintenanceRepositoryLabel \<noteq> None" for c t n
  proof -
    obtain xs where "k_list (rsC cl) t None Everything = Inr xs" using assms(1) by blast
    then have "\<exists>pre. n @ t = (pre @ [CDelete (OCronJob c) None, CList KReplicationSource None Everything]) @ t"
      using that by (auto simp: checkAndDeleteOrphanedCronJob_def recordCronJobDeletionMetric_def metric_def kube_ops
          split: option.splits prod.splits if_splits intro: exI[of _ "[]"] exI[of _ "[_]"])
    then show ?thesis unfolding append_same_eq by auto
  qed
  obtain xs where xs: "k_list (rsC cl) tr (Some ns) Everything = Inr xs" using assms(1) by blast
  let ?t2 = "CList KCronJob (Some (mm_operatorNamespace mm))
      (LabelsAre [(maintenanceLabelKey, ''true''), (maintenanceNamespaceLabel, ns)]) #
      CList KReplicationSource (Some ns) Everything # tr"
  obtain t3 where t3: "run_state (forEach ?f cronJobs) ?t2 = (None, t3)"
    using all[of ?f cronJobs ?t2] by (force simp: case_prod_beta prod_eq_iff split: option.splits)
  from forEach_run[OF t3 f] obtain n1 where n1: "t3 = n1 @ ?t2"
    "\<forall>c \<in> set cronJobs. \<exists>t n. run_state (?f c) t = (None, n @ t) \<and> set n \<subseteq> set n1" by blast
  obtain ys where ys: "k_list (rsC cl) (CList KSecret (Some (mm_operatorNamespace mm))
      (LabelsAre [(maintenanceSecretLabel, ''true''), (maintenanceNamespaceLabel, ns)]) # t3) (Some ns) Everything = Inr ys"
    using assms(1) by blast
  let ?t4 = "CList KReplicationSource (Some ns) Everything # CList KSecret (Some (mm_operatorNamespace mm))
      (LabelsAre [(maintenanceSecretLabel, ''true''), (maintenanceNamespaceLabel, ns)]) # t3"
  obtain t5 where t5: "run_state (forEach ?g copies) ?t4 = (None, t5)"
    using all[of ?g copies ?t4] assms(4) by (force simp: kube_ops prod_eq_iff)
  from forEach_run[OF t5 g] obtain n2 where n2: "t5 = n2 @ ?t4"
    "\<forall>s \<in> set copies. \<exists>t n. run_state (?g s) t = (None, n @ t) \<and> set n \<subseteq> set n2" by blast
  have "tr' = t5"
    using run t3 t5 xs ys assms(2,3)
    by (simp add: CleanupOrphanedMaintenanceCronJobs_def cleanupOrphanedSecrets_def kList_def cong: option.case_cong)
  moreover have "CDelete (OSecret s) None \<in> set n2" if s: "s \<in> set copies" for s
  proof -
    obtain t n where "run_state (?g s) t = (None, n @ t)" and sub: "set n \<subseteq> set n2" using n2 s by blast
    then have "n @ t = [CDelete (OSecret s) None] @ t" by (simp add: kube_ops)
    with sub show ?thesis unfolding append_same_eq by simp
  qed
  moreover have "snd (run_state (ReconcileMaintenanceForSource cl mm source) tr) = tr"
    by (auto simp: ReconcileMaintenanceForSource_def isMaintenanceEnabled_def split: option.splits)
  ultimately show ?thesis using n1 n2 del by fastforce
qed

definition orphanedSecret :: secret where
  "orphanedSecret = (newSecret ''volsync-system'' ''maintenance-apps-repo'')\<lparr>
     om_labels := [(maintenanceSecretLabel, ''true''), (maintenanceNamespaceLabel, ''apps'')]\<rparr>"

definition orphanCluster :: cluster where
  "orphanCluster = sourceCluster\<lparr>
     secrets := (sampleClient KSecret OSecret)\<lparr>k_list := \<lambda>_ _ _. Inr [orphanedSecret]\<rparr>,
     replicationsources := (replicationsources sourceCluster)\<lparr>k_list := \<lambda>_ _ _. Inr [sampleKopiaSource]\<rparr>\<rparr>"

theorem maintenance_all_orphaned_witness:
  "ks_repository sampleKopiaSpec = ''repo'' \<and> CDelete (OSecret orphanedSecret) None \<in>
     set (snd (run_state (CleanupOrphanedMaintenanceCronJobs orphanCluster
       (NewMaintenanceManager orphanCluster ''kopia:latest'' None) ''apps'') []))"
proof -
  have l: "k_list (rsC orphanCluster) tr ns sel = Inr [sampleKopiaSource]"
    "k_list (cronJobC orphanCluster) tr ns sel = Inr []" "k_list (secretC orphanCluster) tr ns sel = Inr [orphanedSecret]"
    "k_delete (secretC orphanCluster) tr x rv = None" for tr ns sel x rv
    by (simp_all add: rsC_def cronJobC_def secretC_def orphanCluster_def sourceCluster_def sampleCluster_def)
  obtain r tr' where run: "run_state (CleanupOrphanedMaintenanceCronJobs orphanCluster
       (NewMaintenanceManager orphanCluster ''kopia:latest'' None) ''apps'') [] = (r, tr')" by (metis surj_pair)
  from maintenance_all_orphaned[OF _ l(2-4) run] l(1) run show ?thesis by (simp add: sampleKopiaSpec_def)
qed

section \<open>Who sets the schedule\<close>

text \<open>The first namespace to set the schedule of a repository does not keep it. A source of another
  namespace that asks for a different schedule is refused, but its namespace is written to the
  label that says who set the schedule; when it asks again, its schedule is accepted.\<close>

theorem first_wins_defeated:
  assumes "\<And>tr x. k_update (cronJobC cl) tr x = Inr x"
    and "map_of (om_labels existing) maintenanceNamespaceLabel = Some ns0" "ns0 \<noteq> rc_namespace rc"
    and "cj_schedule existing \<noteq> schedule"
  shows "\<exists>noted left won.
    {c \<in> set (snd (run_state (adoptCronJob cl rc owner schedule existing) [])). is_write c} =
      {CUpdate (OCronJob noted), CUpdate (OCronJob left)} \<and>
    cj_schedule noted = cj_schedule existing \<and> cj_schedule left = cj_schedule existing \<and>
    CUpdate (OCronJob won) \<in> set (snd (run_state (adoptCronJob cl rc owner schedule left) [])) \<and>
    cj_schedule won = schedule"
proof -
  define noted where "noted = existing\<lparr>om_annotations := map_put maintenanceScheduleConflictAnnotation
    (conflictNote cl schedule (rc_namespace rc) (timeNow cl [])) (om_annotations existing)\<rparr>"
  define left where "left = noted\<lparr>om_labels := map_put maintenanceNamespaceLabel (rc_namespace rc) (om_labels noted)\<rparr>"
  define won where "won = left\<lparr>cj_schedule := schedule,
    om_annotations := map_del maintenanceScheduleConflictAnnotation (om_annotations left)\<rparr>"
  have "map_get (om_labels noted) maintenanceNamespaceLabel \<noteq> rc_namespace rc"
    using assms(2,3) by (simp add: map_get_def noted_def)
  then have 1: "snd (run_state (adoptCronJob cl rc owner schedule existing) []) =
      [CUpdate (OCronJob left), CUpdate (OCronJob noted), CNow]"
    using assms by (simp add: adoptCronJob_def reconcileSchedule_def kube_ops Let_def noted_def left_def)
  have "map_of (om_labels left) maintenanceNamespaceLabel = Some (rc_namespace rc)" "cj_schedule left \<noteq> schedule"
    using assms(4) by (simp_all add: left_def noted_def)
  then have 2: "CUpdate (OCronJob won) \<in> set (snd (run_state (adoptCronJob cl rc owner schedule left) []))"
    using assms(1)
    by (auto simp: adoptCronJob_def reconcileSchedule_def updateSchedule_def recordCronJobMetric_def metric_def kube_ops
        Let_def won_def split: option.splits)
  show ?thesis
    by (rule exI[of _ noted], rule exI[of _ left], rule exI[of _ won])
      (use 2 in \<open>auto simp: 1 left_def noted_def won_def\<close>)
qed

theorem first_wins_defeated_witness:
  "\<exists>left won. cj_schedule left = ''0 2 * * *'' \<and> CUpdate (OCronJob won) \<in>
     set (snd (run_state (adoptCronJob sampleCluster (sourceRepoConfig sampleKopiaSource sampleKopiaSpec None)
       sampleKopiaSource ''0 3 * * *'' left) [])) \<and> cj_schedule won = ''0 3 * * *''"
proof -
  let ?old = "(newCronJob ''volsync-system'' ''kopia-maintenance-0'')\<lparr>cj_schedule := ''0 2 * * *'',
    om_labels := [(maintenanceNamespaceLabel, ''other'')]\<rparr>"
  have "k_update (cronJobC sampleCluster) tr x = Inr x" for tr x
    by (simp add: cronJobC_def sampleCluster_def)
  from first_wins_defeated[OF this, of ?old "''other''" "sourceRepoConfig sampleKopiaSource sampleKopiaSpec None" "''0 3 * * *''" sampleKopiaSource]
  show ?thesis by (auto simp: sourceRepoConfig_def)
qed

section \<open>The history\<close>

text \<open>Kubernetes sets the completion time of a job only if it succeeded. The history skips jobs without
  one, so no failed maintenance job is ever counted or reported.\<close>

theorem failed_jobs_invisible:
  assumes "\<And>j. j \<in> set js \<Longrightarrow> job_completionTime j \<noteq> None \<Longrightarrow> jobCondition JobComplete j \<noteq> None"
  shows "mst_failures (analyzeJobHistory js status) = 0 \<and> mst_lastFailedTime (analyzeJobHistory js status) = None \<and>
    mst_lastError (analyzeJobHistory js status) = mst_lastError status"
proof -
  have "set (insertJob j ks) = insert j (set ks)" for j ks by (induction ks) auto
  then have s: "set (sortJobs js) = set js" unfolding sortJobs_def by (induction js) auto
  have "jsc_failures (fold scanJob ks sc) = jsc_failures sc \<and> jsc_failed (fold scanJob ks sc) = jsc_failed sc \<and>
      jsc_error (fold scanJob ks sc) = jsc_error sc" if "set ks \<subseteq> set js" for ks sc
    using that assms by (induction ks arbitrary: sc) (auto simp: scanJob_def split: option.splits)
  moreover have "set (take 50 (sortJobs js)) \<subseteq> set js" using s by (auto dest: in_set_takeD)
  ultimately show ?thesis by (simp add: analyzeJobHistory_def Let_def)
qed

theorem failed_jobs_invisible_witness:
  "mst_failures (analyzeJobHistory [(newJob ''volsync-system'' ''m'')\<lparr>job_failed := 4,
     job_conditions := [\<lparr>jc_type = JobFailed, jc_status = ConditionTrue, jc_reason = ''BackoffLimitExceeded'',
       jc_message = ''Job has reached the specified backoff limit''\<rparr>]\<rparr>] notConfigured) = 0"
  using failed_jobs_invisible[of "[(newJob ''volsync-system'' ''m'')\<lparr>job_failed := 4,
     job_conditions := [\<lparr>jc_type = JobFailed, jc_status = ConditionTrue, jc_reason = ''BackoffLimitExceeded'',
       jc_message = ''Job has reached the specified backoff limit''\<rparr>]\<rparr>]" notConfigured]
  by (simp add: new_defs)

end
