(* ===== verification/Kopia_Mover.thy ===== *)
theory Kopia_Mover
  imports Mover_Jobs Kopia_Maintenance
begin

text \<open>
  The kopia mover: \<open>mover/kopia/mover.go\<close>. It makes the data and the cache volume, checks the
  repository secret, the certificate authority and the policy, runs a backup or a restore as a job
  and decides by the conditions of the job whether it has ended. A failed restore is searched for
  the identities the repository holds (\<open>Kopia_Logs\<close>). Before a backup the maintenance of the
  repository is reconciled (\<open>Kopia_Maintenance\<close>). The statuses the mover holds by pointer are fields
  that are returned updated; its metrics are calls (\<open>CMetric\<close>).
\<close>

section \<open>The mover\<close>

record kopiaMover =
  km_owner :: objmeta
  km_source :: "replicationsource option" \<comment> \<open>the owner, if it is a ReplicationSource\<close>
  km_vh :: volumehandler
  km_saHandler :: saHandler
  km_containerImage :: string
  km_cacheAccessModes :: "accessMode list option"
  km_cacheCapacity :: "quantity option"
  km_cacheStorageClassName :: "string option"
  km_metadataCacheSizeLimitMB :: "int option"
  km_contentCacheSizeLimitMB :: "int option"
  km_repositoryName :: string
  km_isSource :: bool
  km_paused :: bool
  km_mainPVCName :: "string option"
  km_customCASpec :: customCASpec
  km_policyConfig :: "kopiaPolicySpec option"
  km_privileged :: bool
  km_latestMoverStatus :: moverStatus
  km_moverConfig :: moverConfig
  km_historyLimits :: "(int \<times> int) option"
  km_username :: string
  km_hostname :: string
  km_sourcePathOverride :: "string option"
  km_retainPolicy :: "kopiaRetainPolicy option"
  km_compression :: string
  km_parallelism :: "int option"
  km_actions :: "kopiaActions option"
  km_sourceStatus :: "rsKopiaStatus option"
  km_additionalArgs :: "string list"
  km_restoreAsOf :: "string option"
  km_shallow :: "int option"
  km_previous :: "int option"
  km_cleanupTempPVC :: bool
  km_cleanupCachePVC :: bool
  km_enableFileDeletionOnRestore :: bool
  km_destinationStatus :: "rdKopiaStatus option"
  km_calculatedMetadataCacheLimit :: "int option"
  km_calculatedContentCacheLimit :: "int option"

definition sourceMountPath :: string where "sourceMountPath = ''/data''"
definition destinationMountPath :: string where "destinationMountPath = ''/restore/data''"
definition restoreVolumeName :: string where "restoreVolumeName = ''restore''"
definition kopiaPolicyMountPath :: string where "kopiaPolicyMountPath = ''/kopia-config''"
definition kopiaCredentialDir :: string where "kopiaCredentialDir = ''/credentials''"
definition defaultGlobalPolicyFile :: string where "defaultGlobalPolicyFile = ''global-policy.json''"
definition defaultRepoConfigFile :: string where "defaultRepoConfigFile = ''repository.config''"
definition operationBackup :: string where "operationBackup = ''backup''"
definition operationRestore :: string where "operationRestore = ''restore''"

definition kopiaOperation :: "kopiaMover \<Rightarrow> string" where
  "kopiaOperation m = (if km_isSource m then operationBackup else operationRestore)"

section \<open>Metrics\<close>

definition getMetricLabels :: "kopiaMover \<Rightarrow> string \<Rightarrow> strmap" where
  "getMetricLabels m operation = [(''obj_name'', om_name (km_owner m)), (''obj_namespace'', om_namespace (km_owner m)),
     (''role'', if km_isSource m then ''source'' else ''destination''), (''operation'', operation),
     (''repository'', km_repositoryName m)]"

definition recordOperationSuccess :: "kopiaMover \<Rightarrow> string \<Rightarrow> duration \<Rightarrow> unit kube" where
  "recordOperationSuccess m operation d =
     (let labels = getMetricLabels m operation in do {
        _ \<leftarrow> metric ''OperationSuccess'' labels (MetricAdd 1);
        _ \<leftarrow> metric ''OperationDuration'' labels (MetricObserve d);
        if operation = operationBackup then metric ''SnapshotCreationSuccess'' labels (MetricAdd 1) else ret () })"

definition recordOperationFailure :: "kopiaMover \<Rightarrow> string \<Rightarrow> string \<Rightarrow> unit kube" where
  "recordOperationFailure m operation failureReason =
     (let labels = getMetricLabels m operation @ [(''failure_reason'', failureReason)] in do {
        _ \<leftarrow> metric ''OperationFailure'' labels (MetricAdd 1);
        if operation = operationBackup then metric ''SnapshotCreationFailure'' labels (MetricAdd 1) else ret () })"

definition recordJobRetry :: "kopiaMover \<Rightarrow> string \<Rightarrow> string \<Rightarrow> unit kube" where
  "recordJobRetry m operation retryReason =
     metric ''JobRetries'' (getMetricLabels m operation @ [(''retry_reason'', retryReason)]) (MetricAdd 1)"

definition recordConfigurationError :: "kopiaMover \<Rightarrow> string \<Rightarrow> unit kube" where
  "recordConfigurationError m errorType =
     metric ''ConfigurationErrors'' (getMetricLabels m [] @ [(''error_type'', errorType)]) (MetricAdd 1)"

definition hasPVCConfig :: "kopiaMover \<Rightarrow> bool" where
  "hasPVCConfig m \<longleftrightarrow> km_cacheStorageClassName m \<noteq> None \<or> km_cacheAccessModes m \<noteq> None"

definition getCacheCapacityBytes :: "kopiaMover \<Rightarrow> int" where
  "getCacheCapacityBytes m = (case km_cacheCapacity m of Some c \<Rightarrow> c | None \<Rightarrow> 8 * Gi)"

definition recordCacheMetrics :: "kopiaMover \<Rightarrow> unit kube" where
  "recordCacheMetrics m =
     (let labels = getMetricLabels m [];
          typed = (\<lambda>t. labels @ [(''cache_type'', t)])
      in if \<not> hasPVCConfig m then do {
           _ \<leftarrow> metric ''CacheType'' (typed ''emptydir'') (MetricSet 1);
           _ \<leftarrow> metric ''CacheType'' (typed ''pvc'') (MetricSet 0);
           metric ''CacheSize'' labels (MetricSet (getCacheCapacityBytes m)) }
         else do {
           _ \<leftarrow> metric ''CacheType'' (typed ''pvc'') (MetricSet 1);
           _ \<leftarrow> metric ''CacheType'' (typed ''emptydir'') (MetricSet 0);
           case km_cacheCapacity m of
             Some c \<Rightarrow> metric ''CacheSize'' labels (MetricSet c)
           | None \<Rightarrow> ret () })"

definition retentionTypes :: "kopiaRetainPolicy \<Rightarrow> string list" where
  "retentionTypes p = concat (map (\<lambda>(t, v). if v = None then [] else [t])
     [(''hourly'', kr_hourly p), (''daily'', kr_daily p), (''weekly'', kr_weekly p),
      (''monthly'', kr_monthly p), (''yearly'', kr_yearly p), (''latest'', kr_latest p)])"

definition recordPolicyCompliance :: "kopiaMover \<Rightarrow> unit kube" where
  "recordPolicyCompliance m =
     (let labels = getMetricLabels m [] in do {
        _ \<leftarrow> forEach (\<lambda>t. do {
            _ \<leftarrow> metric ''RetentionCompliance'' (labels @ [(''retention_type'', t)]) (MetricSet 1);
            ret (None :: unit option) })
          (case km_retainPolicy m of Some p \<Rightarrow> retentionTypes p | None \<Rightarrow> []);
        if km_policyConfig m \<noteq> None
        then metric ''PolicyCompliance'' (labels @ [(''policy_type'', ''global'')]) (MetricSet 1) else ret () })"

section \<open>The cache volume\<close>

definition kopiaCacheConfig :: "kopiaMover \<Rightarrow> pvc \<Rightarrow> vhOption list" where
  "kopiaCacheConfig m dataPVC =
     [From (km_vh m), Capacity (Some (case km_cacheCapacity m of Some c \<Rightarrow> c | None \<Rightarrow> Gi))] @
     (if km_cacheAccessModes m \<noteq> None then [AccessModes (km_cacheAccessModes m)]
      else if GetAccessModes (km_vh m) = None \<or> GetAccessModes (km_vh m) = Some []
      then [AccessModes (pvc_accessModes dataPVC)]
      else []) @
     (if km_cacheStorageClassName m \<noteq> None then [StorageClassName (km_cacheStorageClassName m)] else [])"

text \<open>Without a storage class or access modes there is no claim: the job uses an empty directory.\<close>

definition kopiaEnsureCache ::
  "cluster \<Rightarrow> kopiaMover \<Rightarrow> pvc \<Rightarrow> bool \<Rightarrow> (gerror + pvc option) kube" where
  "kopiaEnsureCache cl m dataPVC isTemporary =
     (if \<not> hasPVCConfig m then ret (Inr None)
      else (case NewVolumeHandler (kopiaCacheConfig m dataPVC) of
        Inl err \<Rightarrow> ret (Inl err)
      | Inr cacheVh \<Rightarrow> do {
          (r, _) \<leftarrow> EnsureNewPVC cl cacheVh
            (VolSyncPrefix @ moverDir (km_isSource m) @ ''-'' @ om_name (km_owner m) @ ''-cache'') isTemporary;
          ret (case r of Inl e \<Rightarrow> Inl e | Inr p \<Rightarrow> Inr (Some p)) }))"

definition calculateCacheLimits :: "cluster \<Rightarrow> kopiaMover \<Rightarrow> int \<times> int" where
  "calculateCacheLimits cl m = (case km_cacheCapacity m of None \<Rightarrow> (0, 0) | Some c \<Rightarrow> cacheLimits cl c)"

section \<open>Checks before the job\<close>

definition kopiaValidateRepository :: "cluster \<Rightarrow> kopiaMover \<Rightarrow> (gerror + secret) kube" where
  "kopiaValidateRepository cl m = do {
     verr \<leftarrow> ValidateMoverVolumes cl (om_namespace (km_owner m)) (mc_volumes (km_moverConfig m));
     case verr of
       Some err \<Rightarrow> ret (Inl err)
     | None \<Rightarrow> GetAndValidateSecret cl (om_namespace (km_owner m), km_repositoryName m)
         [''KOPIA_REPOSITORY'', ''KOPIA_PASSWORD''] }"

datatype policyConfigObject = PolicyConfigSecret secret | PolicyConfigConfigMap configmap

fun policyVolumeSource :: "policyConfigObject \<Rightarrow> volumesource" where
  "policyVolumeSource (PolicyConfigSecret s) = noVolumeSource\<lparr>vs_secret :=
     Some \<lparr>sv_secretName = om_name s, sv_items = [], sv_defaultMode = None\<rparr>\<rparr>"
| "policyVolumeSource (PolicyConfigConfigMap cm) = noVolumeSource\<lparr>vs_configMap :=
     Some \<lparr>cv_name = om_name cm, cv_items = [], cv_defaultMode = None\<rparr>\<rparr>"

definition maxPolicySize :: nat where "maxPolicySize = 1024 * 1024"

definition validateJSONRepositoryConfig :: "kopiaPolicySpec \<Rightarrow> gerror option" where
  "validateJSONRepositoryConfig pc =
     (case given (kp_repositoryConfig pc) of
        None \<Rightarrow> None
      | Some configStr \<Rightarrow>
          if length configStr > maxPolicySize
          then Some (Errorf (''policy configuration too large ('' @ itoa (int (length configStr)) @ '' bytes, max '' @
            itoa (int maxPolicySize) @ '')''))
          else if \<not> json_Valid configStr then Some (Errorf ''invalid JSON in repositoryConfig'')
          else None)"

definition validatePolicySecret ::
  "cluster \<Rightarrow> string \<Rightarrow> kopiaPolicySpec \<Rightarrow> (gerror + policyConfigObject option) kube" where
  "validatePolicySecret cl ns pc = do {
     r \<leftarrow> kGet (secretC cl) (ns, kp_secretName pc);
     ret (case r of
       Inl err \<Rightarrow> Inl (wrapErr ''failed to get policy configuration secret'' err)
     | Inr s \<Rightarrow> Inr (Some (PolicyConfigSecret s))) }"

definition validatePolicyConfigMap ::
  "cluster \<Rightarrow> string \<Rightarrow> kopiaPolicySpec \<Rightarrow> (gerror + policyConfigObject option) kube" where
  "validatePolicyConfigMap cl ns pc = do {
     r \<leftarrow> kGet (configMapC cl) (ns, kp_configMapName pc);
     ret (case r of
       Inl err \<Rightarrow> Inl (wrapErr ''failed to get policy configuration configmap'' err)
     | Inr cm \<Rightarrow> Inr (Some (PolicyConfigConfigMap cm))) }"

definition validatePolicyConfigSource ::
  "cluster \<Rightarrow> string \<Rightarrow> kopiaPolicySpec \<Rightarrow> (gerror + policyConfigObject option) kube" where
  "validatePolicyConfigSource cl ns pc =
     (if kp_secretName pc \<noteq> [] then validatePolicySecret cl ns pc
      else if kp_configMapName pc \<noteq> [] then validatePolicyConfigMap cl ns pc
      else ret (Inr None))"

definition validateFileBasedPolicyConfig ::
  "cluster \<Rightarrow> string \<Rightarrow> kopiaPolicySpec \<Rightarrow> (gerror + policyConfigObject option) kube" where
  "validateFileBasedPolicyConfig cl ns pc =
     (if kp_secretName pc \<noteq> [] \<and> kp_configMapName pc \<noteq> []
      then ret (Inl (Errorf ''only one of secretName or configMapName can be specified for policy configuration''))
      else validatePolicyConfigSource cl ns pc)"

definition validatePolicyConfig :: "cluster \<Rightarrow> kopiaMover \<Rightarrow> (gerror + policyConfigObject option) kube" where
  "validatePolicyConfig cl m =
     (case km_policyConfig m of
        None \<Rightarrow> ret (Inr None)
      | Some pc \<Rightarrow>
          (case validateJSONRepositoryConfig pc of
             Some err \<Rightarrow> ret (Inl err)
           | None \<Rightarrow>
               if kp_secretName pc \<noteq> [] \<or> kp_configMapName pc \<noteq> []
               then validateFileBasedPolicyConfig cl (om_namespace (km_owner m)) pc
               else ret (Inr None)))"

section \<open>The environment of the job\<close>

definition optEnv :: "string \<Rightarrow> string option \<Rightarrow> envvar list" where
  "optEnv name v = (case v of Some x \<Rightarrow> [envVal name x] | None \<Rightarrow> [])"

definition strEnv :: "string \<Rightarrow> string \<Rightarrow> envvar list" where
  "strEnv name v = (if v = [] then [] else [envVal name v])"

definition buildBasicEnvironmentVariables :: "kopiaMover \<Rightarrow> envvar list" where
  "buildBasicEnvironmentVariables m =
     [envVal ''DATA_DIR'' (if km_isSource m then sourceMountPath else destinationMountPath),
      envVal ''KOPIA_CACHE_DIR'' kopiaCacheMountPath]"

text \<open>The first claim among the mover volumes, if its path is not empty, is the repository.\<close>

definition repositoryPath :: "moverVolume list \<Rightarrow> string" where
  "repositoryPath mvs = foldl (\<lambda>path v.
     if mv_pvc v \<noteq> None \<and> path = [] then ''/mnt/'' @ mv_mountPath v else path) [] mvs"

definition buildRepositoryEnvironmentVariables :: "kopiaMover \<Rightarrow> secret \<Rightarrow> envvar list" where
  "buildRepositoryEnvironmentVariables m repo =
     [EnvFromSecret (om_name repo) ''KOPIA_PASSWORD'' False,
      EnvFromSecret (om_name repo) ''KOPIA_MANUAL_CONFIG'' True,
      (let path = repositoryPath (mc_volumes (km_moverConfig m)) in
       if path \<noteq> [] then envVal ''KOPIA_REPOSITORY'' (''filesystem://'' @ path)
       else EnvFromSecret (om_name repo) ''KOPIA_REPOSITORY'' False)]"

definition buildAWSEnvironmentVariables :: "string list" where
  "buildAWSEnvironmentVariables = [''AWS_ACCESS_KEY_ID'', ''AWS_SECRET_ACCESS_KEY'', ''AWS_SESSION_TOKEN'',
     ''AWS_DEFAULT_REGION'', ''AWS_REGION'', ''AWS_PROFILE'', ''AWS_S3_ENDPOINT'', ''KOPIA_S3_BUCKET'',
     ''KOPIA_S3_ENDPOINT'', ''KOPIA_S3_DISABLE_TLS'', ''AWS_S3_DISABLE_TLS'']"

definition buildAzureEnvironmentVariables :: "string list" where
  "buildAzureEnvironmentVariables = [''AZURE_ACCOUNT_NAME'', ''AZURE_ACCOUNT_KEY'', ''AZURE_ACCOUNT_SAS'',
     ''AZURE_ENDPOINT_SUFFIX'', ''AZURE_STORAGE_ACCOUNT'', ''AZURE_STORAGE_KEY'', ''AZURE_STORAGE_SAS_TOKEN'',
     ''KOPIA_AZURE_CONTAINER'', ''KOPIA_AZURE_STORAGE_ACCOUNT'', ''KOPIA_AZURE_STORAGE_KEY'']"

definition buildGoogleEnvironmentVariables :: "string list" where
  "buildGoogleEnvironmentVariables = [''GOOGLE_PROJECT_ID'', ''GOOGLE_APPLICATION_CREDENTIALS'',
     ''GOOGLE_DRIVE_FOLDER_ID'', ''GOOGLE_DRIVE_CREDENTIALS'', ''KOPIA_GCS_BUCKET'', ''GCS_BUCKET'']"

definition buildB2EnvironmentVariables :: "string list" where
  "buildB2EnvironmentVariables = [''B2_ACCOUNT_ID'', ''B2_APPLICATION_KEY'', ''KOPIA_B2_BUCKET'']"

definition buildWebDAVEnvironmentVariables :: "string list" where
  "buildWebDAVEnvironmentVariables = [''WEBDAV_URL'', ''WEBDAV_USERNAME'', ''WEBDAV_PASSWORD'']"

definition buildSFTPEnvironmentVariables :: "string list" where
  "buildSFTPEnvironmentVariables = [''SFTP_HOST'', ''SFTP_PORT'', ''SFTP_USERNAME'', ''SFTP_PASSWORD'', ''SFTP_PATH'',
     ''SFTP_KEY_FILE'', ''SFTP_KNOWN_HOSTS'', ''SFTP_KNOWN_HOSTS_DATA'']"

definition buildRcloneEnvironmentVariables :: "string list" where
  "buildRcloneEnvironmentVariables = [''RCLONE_REMOTE_PATH'', ''RCLONE_EXE'', ''RCLONE_CONFIG'']"

definition buildBackendEnvironmentVariables :: "secret \<Rightarrow> envvar list" where
  "buildBackendEnvironmentVariables repo = map (\<lambda>v. EnvFromSecret (om_name repo) v True)
     (buildAWSEnvironmentVariables @ buildAzureEnvironmentVariables @ buildGoogleEnvironmentVariables @
      buildB2EnvironmentVariables @ buildWebDAVEnvironmentVariables @ buildSFTPEnvironmentVariables @
      buildRcloneEnvironmentVariables)"

definition retentionPolicyEnvVars :: "kopiaMover \<Rightarrow> envvar list" where
  "retentionPolicyEnvVars m =
     (case km_retainPolicy m of
        None \<Rightarrow> []
      | Some p \<Rightarrow>
          optEnv ''KOPIA_RETAIN_HOURLY'' (map_option itoa (kr_hourly p)) @
          optEnv ''KOPIA_RETAIN_DAILY'' (map_option itoa (kr_daily p)) @
          optEnv ''KOPIA_RETAIN_WEEKLY'' (map_option itoa (kr_weekly p)) @
          optEnv ''KOPIA_RETAIN_MONTHLY'' (map_option itoa (kr_monthly p)) @
          optEnv ''KOPIA_RETAIN_YEARLY'' (map_option itoa (kr_yearly p)) @
          optEnv ''KOPIA_RETAIN_LATEST'' (map_option itoa (kr_latest p)))"

definition actionsEnvVars :: "kopiaMover \<Rightarrow> envvar list" where
  "actionsEnvVars m =
     (case km_actions m of
        None \<Rightarrow> []
      | Some a \<Rightarrow> strEnv ''KOPIA_BEFORE_SNAPSHOT'' (kact_beforeSnapshot a) @
          strEnv ''KOPIA_AFTER_SNAPSHOT'' (kact_afterSnapshot a))"

definition argSep :: string where "argSep = ''|VOLSYNC_ARG_SEP|''"

definition additionalArgsEnvVar :: "kopiaMover \<Rightarrow> envvar list" where
  "additionalArgsEnvVar m =
     (if km_additionalArgs m = [] then []
      else [envVal ''KOPIA_ADDITIONAL_ARGS'' (strings_Join (km_additionalArgs m) argSep)])"

text \<open>The limits of the cache: what the user set, or the automatic limit if there is one.\<close>

definition effectiveLimits :: "cluster \<Rightarrow> kopiaMover \<Rightarrow> int option \<times> int option" where
  "effectiveLimits cl m =
     (let (autoMeta, autoContent) = calculateCacheLimits cl m in
      (if km_metadataCacheSizeLimitMB m = None \<and> autoMeta > 0 then Some autoMeta else km_metadataCacheSizeLimitMB m,
       if km_contentCacheSizeLimitMB m = None \<and> autoContent > 0 then Some autoContent else km_contentCacheSizeLimitMB m))"

definition lastLimits :: "kopiaMover \<Rightarrow> int option \<times> int option" where
  "lastLimits m =
     (if km_isSource m then
        (case km_sourceStatus m of Some st \<Rightarrow> (kss_lastMetadataLimit st, kss_lastContentLimit st) | None \<Rightarrow> (None, None))
      else
        (case km_destinationStatus m of Some st \<Rightarrow> (kds_lastMetadataLimit st, kds_lastContentLimit st) | None \<Rightarrow> (None, None)))"

definition shouldSkipCacheConfig :: "kopiaMover \<Rightarrow> int option \<Rightarrow> int option \<Rightarrow> bool" where
  "shouldSkipCacheConfig m metadataLimit contentLimit =
     (case lastLimits m of (lastMetadata, lastContent) \<Rightarrow>
        if lastMetadata = None \<and> lastContent = None then False
        else metadataLimit = lastMetadata \<and> contentLimit = lastContent)"

definition cacheLimitEnvVars :: "cluster \<Rightarrow> kopiaMover \<Rightarrow> envvar list" where
  "cacheLimitEnvVars cl m =
     (case effectiveLimits cl m of (metadataLimit, contentLimit) \<Rightarrow>
        (if shouldSkipCacheConfig m metadataLimit contentLimit then [envVal ''KOPIA_SKIP_CACHE_CONFIG'' ''true''] else []) @
        limitEnv ''KOPIA_METADATA_CACHE_SIZE_LIMIT_MB'' metadataLimit @
        limitEnv ''KOPIA_CONTENT_CACHE_SIZE_LIMIT_MB'' contentLimit @
        positiveEnv ''KOPIA_CACHE_CAPACITY_BYTES'' (getCacheCapacityBytes m))"

definition addSourceEnvVars :: "cluster \<Rightarrow> kopiaMover \<Rightarrow> envvar list" where
  "addSourceEnvVars cl m =
     strEnv ''KOPIA_COMPRESSION'' (km_compression m) @
     optEnv ''KOPIA_PARALLELISM'' (map_option itoa (km_parallelism m)) @
     optEnv ''KOPIA_SOURCE_PATH_OVERRIDE'' (km_sourcePathOverride m) @
     retentionPolicyEnvVars m @ actionsEnvVars m @ additionalArgsEnvVar m @ cacheLimitEnvVars cl m"

definition addDestinationEnvVars :: "cluster \<Rightarrow> kopiaMover \<Rightarrow> envvar list" where
  "addDestinationEnvVars cl m =
     optEnv ''KOPIA_RESTORE_AS_OF'' (km_restoreAsOf m) @
     optEnv ''KOPIA_SHALLOW'' (map_option itoa (km_shallow m)) @
     optEnv ''KOPIA_PREVIOUS'' (map_option itoa (km_previous m)) @
     optEnv ''KOPIA_SOURCE_PATH_OVERRIDE'' (km_sourcePathOverride m) @
     (if km_enableFileDeletionOnRestore m then [envVal ''KOPIA_ENABLE_FILE_DELETION'' ''true''] else []) @
     additionalArgsEnvVar m @ cacheLimitEnvVars cl m"

definition identityEnvironmentVariables :: "kopiaMover \<Rightarrow> envvar list" where
  "identityEnvironmentVariables m =
     [envVal ''KOPIA_OVERRIDE_USERNAME'' (km_username m), envVal ''KOPIA_OVERRIDE_HOSTNAME'' (km_hostname m)] @
     (if \<not> km_isSource m then [envVal ''KOPIA_DISCOVER_SNAPSHOTS'' ''true''] else [])"

definition buildEnvironmentVariables :: "cluster \<Rightarrow> kopiaMover \<Rightarrow> secret \<Rightarrow> envvar list" where
  "buildEnvironmentVariables cl m repo =
     AppendDebugMoverEnvVar (km_owner m)
       (AppendEnvVarsForClusterWideProxy cl
          (buildBasicEnvironmentVariables m @ buildRepositoryEnvironmentVariables m repo @
           buildBackendEnvironmentVariables repo @
           (if km_isSource m then addSourceEnvVars cl m else addDestinationEnvVars cl m)) @
        identityEnvironmentVariables m)"

section \<open>The job\<close>

definition readOnlyVolume :: "kopiaMover \<Rightarrow> pvc \<Rightarrow> bool" where
  "readOnlyVolume m dataPVC \<longleftrightarrow> km_isSource m \<and> PvcIsReadOnly dataPVC"

definition configureContainer ::
  "cluster \<Rightarrow> kopiaMover \<Rightarrow> pvc \<Rightarrow> serviceaccount \<Rightarrow> secret \<Rightarrow> podtemplate \<Rightarrow> podtemplate" where
  "configureContainer cl m dataPVC sa repo t = t\<lparr>
     pt_containers := [\<lparr>ct_name = ''kopia'', ct_env = buildEnvironmentVariables cl m repo, ct_envFrom = [],
       ct_command = [''/mover-kopia/entry.sh''], ct_args = [kopiaOperation m], ct_image = km_containerImage m,
       ct_imagePullPolicy = [], ct_securityContext = Some moverSecurityContext,
       ct_volumeMounts =
         [(mountAt dataVolumeName (if km_isSource m then sourceMountPath else destinationMountPath))
            \<lparr>vm_readOnly := readOnlyVolume m dataPVC\<rparr>,
          mountAt ''tempdir'' ''/tmp''] @
         (if \<not> km_isSource m then [mountAt restoreVolumeName ''/restore''] else []),
       ct_resources = noResources, ct_volumeDevices = [], ct_ports = []\<rparr>],
     pt_restartPolicy := ''Never'',
     pt_serviceAccountName := om_name sa\<rparr>"

definition configureBasicVolumes :: "kopiaMover \<Rightarrow> pvc \<Rightarrow> podtemplate \<Rightarrow> podtemplate" where
  "configureBasicVolumes m dataPVC t = t\<lparr>pt_volumes :=
     [\<lparr>vol_name = dataVolumeName, vol_source = noVolumeSource\<lparr>vs_pvc := Some (om_name dataPVC, readOnlyVolume m dataPVC)\<rparr>\<rparr>,
      \<lparr>vol_name = ''tempdir'', vol_source = noVolumeSource\<lparr>vs_emptyDir := Some (''Memory'', None)\<rparr>\<rparr>] @
     (if \<not> km_isSource m then [\<lparr>vol_name = restoreVolumeName, vol_source = noVolumeSource\<lparr>vs_emptyDir := Some ([], None)\<rparr>\<rparr>]
      else [])\<rparr>"

definition configureCacheVolume :: "kopiaMover \<Rightarrow> pvc option \<Rightarrow> podtemplate \<Rightarrow> podtemplate" where
  "configureCacheVolume m cachePVC t =
     appendVolume kopiaCache
       (case cachePVC of
          Some c \<Rightarrow> noVolumeSource\<lparr>vs_pvc := Some (om_name c, False)\<rparr>
        | None \<Rightarrow> noVolumeSource\<lparr>vs_emptyDir := Some ([], Some (getCacheCapacityBytes m))\<rparr>)
       (appendMount kopiaCache kopiaCacheMountPath t)"

definition appendReadOnlyMount :: "string \<Rightarrow> string \<Rightarrow> podtemplate \<Rightarrow> podtemplate" where
  "appendReadOnlyMount name path = onContainer0 (\<lambda>c. c\<lparr>ct_volumeMounts := ct_volumeMounts c @
     [(mountAt name path)\<lparr>vm_readOnly := True\<rparr>]\<rparr>)"

text \<open>0644 is 420, 0600 is 384 and 0400 is 256.\<close>

definition withDefaultMode :: "int \<Rightarrow> volumesource \<Rightarrow> volumesource" where
  "withDefaultMode mode src =
     (case vs_configMap src of
        Some cm \<Rightarrow> src\<lparr>vs_configMap := Some (cm\<lparr>cv_defaultMode := Some mode\<rparr>)\<rparr>
      | None \<Rightarrow>
          (case vs_secret src of
             Some s \<Rightarrow> src\<lparr>vs_secret := Some (s\<lparr>sv_defaultMode := Some mode\<rparr>)\<rparr>
           | None \<Rightarrow> src))"

definition configureFilePolicyConfig :: "kopiaMover \<Rightarrow> policyConfigObject \<Rightarrow> podtemplate \<Rightarrow> podtemplate" where
  "configureFilePolicyConfig m obj t =
     (let file = (\<lambda>sel d. case km_policyConfig m of Some pc \<Rightarrow> if sel pc \<noteq> [] then sel pc else d | None \<Rightarrow> d) in
      appendVolume ''kopia-config'' (withDefaultMode 420 (policyVolumeSource obj))
        (appendReadOnlyMount ''kopia-config'' kopiaPolicyMountPath
          (appendEnv (envVal ''KOPIA_REPOSITORY_CONFIG_FILE''
              (path_Join kopiaPolicyMountPath (file kp_repositoryConfigFilename defaultRepoConfigFile)))
            (appendEnv (envVal ''KOPIA_GLOBAL_POLICY_FILE''
                (path_Join kopiaPolicyMountPath (file kp_globalPolicyFilename defaultGlobalPolicyFile)))
              (appendEnv (envVal ''KOPIA_CONFIG_PATH'' kopiaPolicyMountPath) t)))))"

definition configurePolicyConfig :: "kopiaMover \<Rightarrow> policyConfigObject option \<Rightarrow> podtemplate \<Rightarrow> podtemplate" where
  "configurePolicyConfig m policyConfigObj t =
     (let structured = (case km_policyConfig m of Some pc \<Rightarrow> given (kp_repositoryConfig pc) | None \<Rightarrow> None);
          t1 = (case structured of Some c \<Rightarrow> appendEnv (envVal ''KOPIA_STRUCTURED_REPOSITORY_CONFIG'' c) t | None \<Rightarrow> t)
      in (case policyConfigObj of Some obj \<Rightarrow> configureFilePolicyConfig m obj t1 | None \<Rightarrow> t1))"

definition credentialFiles :: "(string \<times> string \<times> int option) list" where
  "credentialFiles = [(''GOOGLE_APPLICATION_CREDENTIALS'', ''gcs.json'', None),
     (''GOOGLE_DRIVE_CREDENTIALS'', ''gdrive.json'', None), (''SFTP_KEY_FILE'', ''sftp_key'', Some 384)]"

definition configureCredentials :: "secret \<Rightarrow> podtemplate \<Rightarrow> podtemplate" where
  "configureCredentials repo t =
     (let items = filter (\<lambda>(k, _). map_of (secretData repo) k \<noteq> None) credentialFiles;
          t1 = fold (\<lambda>(k, file, _). appendEnv (envVal k (path_Join kopiaCredentialDir file))) items t
      in if items = [] then t1
         else appendVolume ''credentials'' (noVolumeSource\<lparr>vs_secret := Some \<lparr>sv_secretName = om_name repo,
             sv_items = items, sv_defaultMode = Some 256\<rparr>\<rparr>)
           (appendReadOnlyMount ''credentials'' kopiaCredentialDir t1))"

definition jobActionsLog :: string where "jobActionsLog = ''job actions''"

definition kopiaFill ::
  "cluster \<Rightarrow> kopiaMover \<Rightarrow> pvc option \<Rightarrow> pvc \<Rightarrow> serviceaccount \<Rightarrow> secret \<Rightarrow> podtemplate \<Rightarrow> podtemplate kube" where
  "kopiaFill cl m cachePVC dataPVC sa repo t = do {
     _ \<leftarrow> logLine jobActionsLog;
     ret (configureCacheVolume m cachePVC (configureBasicVolumes m dataPVC (configureContainer cl m dataPVC sa repo t))) }"

definition kopiaLate ::
  "kopiaMover \<Rightarrow> secret \<Rightarrow> customCAObject option \<Rightarrow> policyConfigObject option \<Rightarrow> podtemplate \<Rightarrow> podtemplate" where
  "kopiaLate m repo customCAObj policyConfigObj t =
     configureCredentials repo (configurePolicyConfig m policyConfigObj
       (mountCustomCA kopiaCAMountPath kopiaCAFilename customCAObj t))"

definition configureJobSpec ::
  "cluster \<Rightarrow> kopiaMover \<Rightarrow> pvc option \<Rightarrow> pvc \<Rightarrow> serviceaccount \<Rightarrow> secret \<Rightarrow> customCAObject option \<Rightarrow>
   policyConfigObject option \<Rightarrow> job \<Rightarrow> (gerror option \<times> job) kube" where
  "configureJobSpec cl m cachePVC dataPVC sa repo customCAObj policyConfigObj =
     jobMutate cl (km_owner m) [] (km_paused m) 8 (km_vh m) dataPVC (km_moverConfig m)
       (kopiaFill cl m cachePVC dataPVC sa repo) (kopiaLate m repo customCAObj policyConfigObj)
       (setPrivileges moverCapabilities (km_privileged m))"

text \<open>
  Building the environment also records, in the mover, the limits of the cache the job is given and,
  in the status of a destination, the identity it asks for. It happens where the actions of the job
  are logged, so \<open>ensureJob\<close> reads off the calls whether it has happened.
\<close>

definition loggedDuring :: "string \<Rightarrow> 'a kube \<Rightarrow> ('a \<times> bool) kube" where
  "loggedDuring s k = State (\<lambda>tr. case run_state k tr of
     (a, tr') \<Rightarrow> ((a, CLog s \<in> set (take (length tr' - length tr) tr')), tr'))"

definition recordConfigured :: "cluster \<Rightarrow> kopiaMover \<Rightarrow> kopiaMover" where
  "recordConfigured cl m =
     (case effectiveLimits cl m of (metadataLimit, contentLimit) \<Rightarrow>
        m\<lparr>km_calculatedMetadataCacheLimit := metadataLimit, km_calculatedContentCacheLimit := contentLimit,
          km_destinationStatus := (if km_isSource m then km_destinationStatus m
            else map_option (\<lambda>st. st\<lparr>kds_requestedIdentity := km_username m @ ''@'' @ km_hostname m\<rparr>)
              (km_destinationStatus m))\<rparr>)"

definition kopiaJobObject :: "kopiaMover \<Rightarrow> job" where
  "kopiaJobObject m = newJob (om_namespace (km_owner m))
     (GetJobName (VolSyncPrefix @ moverDir (km_isSource m) @ ''-'') (om_name (km_owner m)))"

section \<open>The state of the job\<close>

text \<open>A later condition of the same type replaces an earlier one.\<close>

definition terminalStep :: "jobcondition \<Rightarrow> bool \<times> jobcondition option \<Rightarrow> bool \<times> jobcondition option" where
  "terminalStep condition = (\<lambda>(complete, failed).
     if jc_status condition \<noteq> ConditionTrue then (complete, failed)
     else (case jc_type condition of
       JobComplete \<Rightarrow> (True, failed)
     | JobFailed \<Rightarrow> (complete, Some condition)
     | _ \<Rightarrow> (complete, failed)))"

definition jobTerminalState :: "job \<Rightarrow> bool \<times> jobcondition option" where
  "jobTerminalState j = fold terminalStep (job_conditions j) (False, None)"

definition updateDestinationDiscoveryStatus :: "cluster \<Rightarrow> kopiaMover \<Rightarrow> kopiaMover" where
  "updateDestinationDiscoveryStatus cl m =
     (case km_destinationStatus m of
        None \<Rightarrow> m
      | Some st \<Rightarrow>
          (let logs = ms_logs (km_latestMoverStatus m);
               (requestedIdentity, availableIdentities, errMsg) = ParseKopiaDiscoveryOutput cl logs;
               st1 = (if requestedIdentity \<noteq> [] then st\<lparr>kds_requestedIdentity := requestedIdentity\<rparr> else st);
               st2 = (if availableIdentities \<noteq> []
                 then st1\<lparr>kds_availableIdentities := availableIdentities,
                   kds_snapshotsFound := (case find (\<lambda>i. ki_identity i = requestedIdentity) availableIdentities of
                     Some i \<Rightarrow> ki_snapshotCount i | None \<Rightarrow> kds_snapshotsFound st1)\<rparr>
                 else st1);
               logs1 = (if errMsg \<noteq> [] \<and> ms_result (km_latestMoverStatus m) = MoverResultFailed \<and> \<not> str_contains logs errMsg
                 then errMsg @ [CHR 0x0A, CHR 0x0A] @ logs else logs)
           in m\<lparr>km_destinationStatus := Some st2,
                km_latestMoverStatus := (km_latestMoverStatus m)\<lparr>ms_logs := logs1\<rparr>\<rparr>))"

definition kopiaLogFilter :: "kopiaMover \<Rightarrow> lineFilter" where
  "kopiaLogFilter m = (if km_isSource m then AllLines else LogFilter)"

definition handleJobStatus ::
  "cluster \<Rightarrow> kopiaMover \<Rightarrow> job \<Rightarrow> gerror option \<Rightarrow> ((job option \<times> gerror option) \<times> kopiaMover) kube" where
  "handleJobStatus cl m j err =
     (let operation = kopiaOperation m; (jobComplete, failedCondition) = jobTerminalState j in do {
        _ \<leftarrow> (if \<not> jobComplete \<and> job_failed j > 0 then recordJobRetry m operation ''job_pod_failure'' else ret ());
        case failedCondition of
          Some condition \<Rightarrow> do {
            _ \<leftarrow> recordOperationFailure m operation
              (if jc_reason condition \<noteq> [] then jc_reason condition else ''job_failed'');
            st \<leftarrow> UpdateMoverStatusForFailedJob cl (km_latestMoverStatus m) (om_name j) (om_namespace j)
              (Some (kopiaLogFilter m));
            derr \<leftarrow> kDelete (jobC cl) j None;
            ret ((None, derr),
              if km_isSource m then m\<lparr>km_latestMoverStatus := st\<rparr>
              else updateDestinationDiscoveryStatus cl (m\<lparr>km_latestMoverStatus := st\<rparr>)) }
        | None \<Rightarrow>
            (case err of
               Some e \<Rightarrow> ret ((None, Some e), m)
             | None \<Rightarrow>
                 if \<not> jobComplete then ret ((None, None), m)
                 else do {
                   st \<leftarrow> UpdateMoverStatusForSuccessfulJob cl (km_latestMoverStatus m) (om_name j) (om_namespace j)
                     (Some (kopiaLogFilter m));
                   ret ((Some j, None), m\<lparr>km_latestMoverStatus := st\<rparr>) }) })"

definition kopiaEnsureJob ::
  "cluster \<Rightarrow> kopiaMover \<Rightarrow> pvc option \<Rightarrow> pvc \<Rightarrow> serviceaccount \<Rightarrow> secret \<Rightarrow> customCAObject option \<Rightarrow>
   policyConfigObject option \<Rightarrow> ((job option \<times> gerror option) \<times> kopiaMover) kube" where
  "kopiaEnsureJob cl m cachePVC dataPVC sa repo customCAObj policyConfigObj = do {
     ((_, err, j), configured) \<leftarrow> loggedDuring jobActionsLog
       (CreateOrUpdateDeleteOnImmutableErr (jobC cl) (kopiaJobObject m)
         (configureJobSpec cl m cachePVC dataPVC sa repo customCAObj policyConfigObj));
     handleJobStatus cl (if configured then recordConfigured cl m else m) j err }"

definition updateCacheLimitStatus :: "kopiaMover \<Rightarrow> kopiaMover" where
  "updateCacheLimitStatus m =
     (if km_isSource m then
        m\<lparr>km_sourceStatus := map_option (\<lambda>st. st\<lparr>kss_lastMetadataLimit := km_calculatedMetadataCacheLimit m,
          kss_lastContentLimit := km_calculatedContentCacheLimit m\<rparr>) (km_sourceStatus m)\<rparr>
      else
        m\<lparr>km_destinationStatus := map_option (\<lambda>st. st\<lparr>kds_lastMetadataLimit := km_calculatedMetadataCacheLimit m,
          kds_lastContentLimit := km_calculatedContentCacheLimit m\<rparr>) (km_destinationStatus m)\<rparr>)"

definition clearDiscovery :: "kopiaMover \<Rightarrow> kopiaMover" where
  "clearDiscovery m =
     (if km_isSource m then m
      else m\<lparr>km_destinationStatus := map_option (\<lambda>st. st\<lparr>kds_availableIdentities := [], kds_snapshotsFound := 0\<rparr>)
        (km_destinationStatus m)\<rparr>)"

definition handleJobCompletion ::
  "cluster \<Rightarrow> kopiaMover \<Rightarrow> job \<Rightarrow> pvc \<Rightarrow> ((mresult \<times> gerror option) \<times> kopiaMover) kube" where
  "handleJobCompletion cl m j dataPVC =
     (case jobTerminalState j of
        (_, Some _) \<Rightarrow> ret ((InProgress, None), if km_isSource m then m else updateDestinationDiscoveryStatus cl m)
      | (False, None) \<Rightarrow> ret ((InProgress, None), m)
      | (True, None) \<Rightarrow> do {
          r \<leftarrow> moverFinish cl (km_isSource m) (km_vh m) dataPVC;
          ret (r, clearDiscovery (updateCacheLimitStatus m)) })"

section \<open>Maintenance\<close>

definition kopiaMaintenanceManager :: "cluster \<Rightarrow> kopiaMover \<Rightarrow> maintenanceManager" where
  "kopiaMaintenanceManager cl m = NewMaintenanceManager cl (km_containerImage m) (km_historyLimits m)"

definition ReconcileMaintenance :: "cluster \<Rightarrow> kopiaMover \<Rightarrow> gerror option kube" where
  "ReconcileMaintenance cl m =
     (if \<not> km_isSource m then ret None
      else (case km_source m of
        None \<Rightarrow> ret (Some (Errorf ''owner is not a ReplicationSource''))
      | Some source \<Rightarrow> do {
          err \<leftarrow> ReconcileMaintenanceForSource cl (kopiaMaintenanceManager cl m) source;
          case err of
            Some e \<Rightarrow> ret (Some (wrapErr ''failed to reconcile maintenance CronJob'' e))
          | None \<Rightarrow> do {
              _ \<leftarrow> CleanupOrphanedMaintenanceCronJobs cl (kopiaMaintenanceManager cl m) (om_namespace source);
              ret None } }))"

text \<open>The status the mover holds is returned updated; without one, or without a kopia section, it panics.\<close>

definition moverMaintenanceStatus :: "cluster \<Rightarrow> kopiaMover \<Rightarrow> (gerror option go \<times> kopiaMover) kube" where
  "moverMaintenanceStatus cl m =
     (if \<not> km_isSource m then ret (Ret None, m)
      else (case km_source m of
        None \<Rightarrow> ret (Ret (Some (Errorf ''owner is not a ReplicationSource'')), m)
      | Some source \<Rightarrow> do {
          l \<leftarrow> GetMaintenanceCronJobsForNamespace cl (om_namespace source);
          case l of
            Inl err \<Rightarrow> ret (Ret (Some err), m)
          | Inr cronJobs \<Rightarrow>
              (case rs_kopia source of
                 None \<Rightarrow> ret (Panic, m)
               | Some kopia \<Rightarrow>
                   (case find (\<lambda>c. map_get (om_labels c) maintenanceRepositoryLabel =
                        Hash \<lparr>rc_repository = ks_repository kopia, rc_customCA = Some (ks_customCA kopia),
                          rc_namespace = om_namespace source, rc_schedule = defaultMaintenanceSchedule,
                          rc_cacheCapacity = None\<rparr>) cronJobs of
                      None \<Rightarrow> ret (Ret None, m)
                    | Some c \<Rightarrow>
                        (case (cj_lastScheduleTime c, km_sourceStatus m) of
                           (None, _) \<Rightarrow> ret (Ret None, m)
                         | (Some t, None) \<Rightarrow> ret (Panic, m)
                         | (Some t, Some st) \<Rightarrow>
                             ret (Ret None, m\<lparr>km_sourceStatus := Some (st\<lparr>kss_lastMaintenance := Some t\<rparr>)\<rparr>)))) }))"

section \<open>Synchronize and Cleanup\<close>

type_synonym prerequisites =
  "pvc \<times> pvc option \<times> serviceaccount \<times> secret \<times> customCAObject option \<times> policyConfigObject option"

definition checkPrerequisites ::
  "cluster \<Rightarrow> kopiaMover \<Rightarrow> pvc \<Rightarrow> pvc option \<Rightarrow> serviceaccount \<Rightarrow> (gerror + prerequisites) kube" where
  "checkPrerequisites cl m dataPVC cachePVC sa = do {
     rr \<leftarrow> kopiaValidateRepository cl m;
     case rr of
       Inl err \<Rightarrow> do {
         _ \<leftarrow> recordConfigurationError m ''repository_validation_failed'';
         ret (Inl err) }
     | Inr repo \<Rightarrow> do {
     car \<leftarrow> ValidateCustomCA cl (om_namespace (km_owner m)) (km_customCASpec m);
     case car of
       Inl err \<Rightarrow> do {
         _ \<leftarrow> recordConfigurationError m ''custom_ca_validation_failed'';
         ret (Inl err) }
     | Inr customCAObj \<Rightarrow> do {
     pr \<leftarrow> validatePolicyConfig cl m;
     case pr of
       Inl err \<Rightarrow> do {
         _ \<leftarrow> recordConfigurationError m ''policy_config_validation_failed'';
         ret (Inl err) }
     | Inr policyConfigObj \<Rightarrow> ret (Inr (dataPVC, cachePVC, sa, repo, customCAObj, policyConfigObj)) } } }"

text \<open>
  A service account handler always answers with an account or an error (\<open>saReconcile_answers\<close>); if it
  answered with neither, the caller would go on with nil pointers.
\<close>

definition setupPrerequisites ::
  "cluster \<Rightarrow> kopiaMover \<Rightarrow> ((gerror + prerequisites) go \<times> kopiaMover) kube" where
  "setupPrerequisites cl m0 = do {
     _ \<leftarrow> recordCacheMetrics m0;
     _ \<leftarrow> recordPolicyCompliance m0;
     (r, vh, st) \<leftarrow> ensureDataPVC cl ''-dest'' (km_owner m0) (km_isSource m0) (km_mainPVCName m0)
        (km_cleanupTempPVC m0) (km_vh m0) (km_latestMoverStatus m0);
     let m = m0\<lparr>km_vh := vh, km_latestMoverStatus := st\<rparr> in
     (case r of
        Panic \<Rightarrow> ret (Panic, m)
      | Ret (None, None) \<Rightarrow>
          ret (Ret (Inl (Errorf ''data PVC not available (possibly waiting for copy trigger)'')), m)
      | Ret (_, Some err) \<Rightarrow> ret (Ret (Inl err), m)
      | Ret (Some dataPVC, None) \<Rightarrow> do {
          cr \<leftarrow> kopiaEnsureCache cl m dataPVC (km_cleanupCachePVC m);
          case cr of
            Inl err \<Rightarrow> ret (Ret (Inl err), m)
          | Inr cachePVC \<Rightarrow> do {
              (sa, serr) \<leftarrow> saReconcile cl (km_saHandler m);
              case (sa, serr) of
                (_, Some err) \<Rightarrow> ret (Ret (Inl err), m)
              | (None, None) \<Rightarrow> ret (Panic, m)
              | (Some account, None) \<Rightarrow> do {
                  pr \<leftarrow> checkPrerequisites cl m dataPVC cachePVC account;
                  ret (Ret pr, m) } } }) }"

text \<open>What \<open>Synchronize\<close> does once the prerequisites are there.\<close>

definition kopiaComplete ::
  "cluster \<Rightarrow> gtime \<Rightarrow> mresult \<Rightarrow> gerror option \<Rightarrow> kopiaMover \<Rightarrow>
   ((mresult \<times> gerror option) go \<times> kopiaMover) kube" where
  "kopiaComplete cl operationStart result err m =
     (if err \<noteq> None then do {
        _ \<leftarrow> recordOperationFailure m (kopiaOperation m) ''job_execution_failed'';
        ret (Ret (result, err), m) }
      else if mr_completed result then do {
        t \<leftarrow> now cl;
        _ \<leftarrow> recordOperationSuccess m (kopiaOperation m) (time_Sub t operationStart);
        (sr, m1) \<leftarrow> (if km_isSource m then moverMaintenanceStatus cl m else ret (Ret None, m));
        ret (case sr of Panic \<Rightarrow> Panic | Ret _ \<Rightarrow> Ret (result, err), m1) }
      else ret (Ret (result, err), m))"

definition kopiaRun ::
  "cluster \<Rightarrow> kopiaMover \<Rightarrow> gtime \<Rightarrow> prerequisites \<Rightarrow> ((mresult \<times> gerror option) go \<times> kopiaMover) kube" where
  "kopiaRun cl m operationStart p =
     (case p of (dataPVC, cachePVC, sa, repo, customCAObj, policyConfigObj) \<Rightarrow> do {
        ((j, err), m1) \<leftarrow> kopiaEnsureJob cl m cachePVC dataPVC sa repo customCAObj policyConfigObj;
        case (j, err) of
          (_, Some e) \<Rightarrow> do {
            _ \<leftarrow> recordOperationFailure m1 (kopiaOperation m1) ''job_creation_failed'';
            ret (Ret (InProgress, Some e), m1) }
        | (None, None) \<Rightarrow> ret (Ret (InProgress, None), m1)
        | (Some completed, None) \<Rightarrow> do {
            ((result, rerr), m2) \<leftarrow> handleJobCompletion cl m1 completed dataPVC;
            kopiaComplete cl operationStart result rerr m2 } })"

definition kopiaSynchronize ::
  "cluster \<Rightarrow> kopiaMover \<Rightarrow> ((mresult \<times> gerror option) go \<times> kopiaMover) kube" where
  "kopiaSynchronize cl m =
     (if km_paused m then ret (Ret (Complete, None), m)
      else do {
        _ \<leftarrow> (if km_isSource m then ReconcileMaintenance cl m else ret None);
        operationStart \<leftarrow> now cl;
        _ \<leftarrow> metric ''RepositoryConnectivity'' (getMetricLabels m []) (MetricSet 1);
        (pr, m1) \<leftarrow> setupPrerequisites cl m;
        case pr of
          Panic \<Rightarrow> ret (Panic, m1)
        | Ret (Inl err) \<Rightarrow> do {
            _ \<leftarrow> metric ''RepositoryConnectivity'' (getMetricLabels m []) (MetricSet 0);
            _ \<leftarrow> recordOperationFailure m1 (kopiaOperation m1) ''prerequisites_failed'';
            ret (Ret (InProgress, Some err), m1) }
        | Ret (Inr p) \<Rightarrow> kopiaRun cl m1 operationStart p })"

definition kopiaCleanup :: "cluster \<Rightarrow> kopiaMover \<Rightarrow> (mresult \<times> gerror option) kube" where
  "kopiaCleanup cl m = moverCleanup cl ''-dest'' (km_owner m) (km_isSource m) (km_mainPVCName m) (km_vh m)"

section \<open>The jobs of the kopia mover\<close>

lemma plain_appendReadOnlyMount: "plain t \<Longrightarrow> plain (appendReadOnlyMount n p t)"
  by (auto simp: runsWith_def appendReadOnlyMount_def onContainer0_def)

lemma plain_fold: "(\<And>x t. plain t \<Longrightarrow> plain (f x t)) \<Longrightarrow> plain t \<Longrightarrow> plain (fold f xs t)"
  by (induction xs arbitrary: t) auto

interpretation kopia: job_mover "kopiaFill cl m cachePVC dataPVC sa repo" "kopiaLate m repo ca policy"
    "setPrivileges moverCapabilities (km_privileged m)" moverSecurityContext
    "moverContext moverCapabilities (km_privileged m)"
  for cl m cachePVC dataPVC sa repo ca policy
proof
  show "emits no_write (kopiaFill cl m cachePVC dataPVC sa repo t) plain" for t
    unfolding kopiaFill_def
    by (rule emits_step)
      (auto intro!: emits_rules plain_parts simp: configureCacheVolume_def configureBasicVolumes_def configureContainer_def runsWith_def
        appendVolume_def appendMount_def onContainer0_def)
  show "plain t \<Longrightarrow> plain (kopiaLate m repo ca policy t)" for t
    by (auto simp: kopiaLate_def configurePolicyConfig_def configureFilePolicyConfig_def configureCredentials_def Let_def
        intro!: plain_parts plain_appendReadOnlyMount plain_fold split: option.splits)
  show "plain t \<Longrightarrow> runsWith (moverContext moverCapabilities (km_privileged m))
      (setPrivileges moverCapabilities (km_privileged m) t)" for t
    by (rule setPrivileges_runs)
qed

lemma terminalState_complete:
  "fst (fold terminalStep cs (a, f)) \<longleftrightarrow> a \<or> (\<exists>c \<in> set cs. jc_type c = JobComplete \<and> jc_status c = ConditionTrue)"
  by (induction cs arbitrary: a f) (auto simp: terminalStep_def split: jobConditionType.splits)

lemma terminalState_failed:
  "snd (fold terminalStep cs (a, f)) = None \<longleftrightarrow>
     f = None \<and> (\<forall>c \<in> set cs. \<not> (jc_type c = JobFailed \<and> jc_status c = ConditionTrue))"
  by (induction cs arbitrary: a f) (auto simp: terminalStep_def split: jobConditionType.splits)

definition completedJob :: "job \<Rightarrow> bool" where
  "completedJob j \<longleftrightarrow> (\<exists>c \<in> set (job_conditions j). jc_type c = JobComplete \<and> jc_status c = ConditionTrue) \<and>
     (\<forall>c \<in> set (job_conditions j). \<not> (jc_type c = JobFailed \<and> jc_status c = ConditionTrue))"

lemma jobTerminalState_completed: "jobTerminalState j = (True, None) \<longleftrightarrow> completedJob j"
  using terminalState_complete[of "job_conditions j" False None] terminalState_failed[of "job_conditions j" False None]
  by (auto simp: jobTerminalState_def completedJob_def prod_eq_iff)

text \<open>A run that ends with \<open>Q\<close> has logged the line.\<close>

definition says :: "string \<Rightarrow> 'a kube \<Rightarrow> ('a \<Rightarrow> bool) \<Rightarrow> bool" where
  "says s m Q \<longleftrightarrow> (\<forall>tr. \<exists>a new. run_state m tr = (a, new @ tr) \<and> (Q a \<longrightarrow> CLog s \<in> set new))"

lemma says_log: "says s (logLine s) Q"
  unfolding says_def by (simp add: logLine_def)

lemma says_return: "\<not> Q a \<Longrightarrow> says s (ret a) Q"
  unfolding says_def by simp

lemma says_before:
  assumes m: "says s m R" and f: "\<And>a. emits P (f a) (\<lambda>b. Q b \<longrightarrow> R a)"
  shows "says s (m \<bind> f) Q"
  unfolding says_def
proof
  fix tr
  obtain a new where a: "run_state m tr = (a, new @ tr)" "R a \<longrightarrow> CLog s \<in> set new"
    using m unfolding says_def by blast
  obtain b new' where b: "run_state (f a) (new @ tr) = (b, new' @ new @ tr)" "Q b \<longrightarrow> R a"
    using f[of a] unfolding emits_def by blast
  show "\<exists>b new. run_state (m \<bind> f) tr = (b, new @ tr) \<and> (Q b \<longrightarrow> CLog s \<in> set new)"
    using a b by (intro exI[of _ b] exI[of _ "new' @ new"]) auto
qed

lemma says_after:
  assumes m: "emits P m R" and f: "\<And>a. says s (f a) Q"
  shows "says s (m \<bind> f) Q"
  unfolding says_def
proof
  fix tr
  obtain a new where a: "run_state m tr = (a, new @ tr)"
    using m unfolding emits_def by blast
  obtain b new' where b: "run_state (f a) (new @ tr) = (b, new' @ new @ tr)" "Q b \<longrightarrow> CLog s \<in> set new'"
    using f[of a] unfolding says_def by blast
  show "\<exists>b new. run_state (m \<bind> f) tr = (b, new @ tr) \<and> (Q b \<longrightarrow> CLog s \<in> set new)"
    using a b by (intro exI[of _ b] exI[of _ "new' @ new"]) auto
qed

lemma emits_loggedDuring:
  assumes "emits P k Q" "says s k R"
  shows "emits P (loggedDuring s k) (\<lambda>(a, logged). Q a \<and> (R a \<longrightarrow> logged))"
  unfolding emits_def
proof
  fix tr
  obtain a new where a: "run_state k tr = (a, new @ tr)" "\<forall>c \<in> set new. P c" "Q a"
    using assms(1) unfolding emits_def by blast
  moreover have "R a \<longrightarrow> CLog s \<in> set new"
    using assms(2) a(1) unfolding says_def by (metis append_same_eq prod.inject)
  ultimately show "\<exists>b new. run_state (loggedDuring s k) tr = (b, new @ tr) \<and> (\<forall>c \<in> set new. P c) \<and>
      (case b of (a, logged) \<Rightarrow> Q a \<and> (R a \<longrightarrow> logged))"
    by (intro exI[of _ "(a, CLog s \<in> set new)"] exI[of _ new]) (simp add: loggedDuring_def)
qed

lemma says_configureJobSpec:
  "says jobActionsLog (configureJobSpec cl m cache data sa repo ca policy j) (\<lambda>r. fst r = None)"
proof (cases "ownForCleanup cl (km_owner m) j")
  case (Inl e)
  then show ?thesis
    unfolding configureJobSpec_def jobMutate_def by (auto intro!: says_return)
next
  case (Inr j1)
  have aff: "emits (\<lambda>_. True) (directAffinity cl vh p t) (\<lambda>_. True)" for vh p t
    unfolding directAffinity_def by (auto intro!: emits_rules emits_step emits_AffinityFromVolume)
  have vols: "emits (\<lambda>_. True) (moverVolumesLoop cl ns mvs t) (\<lambda>_. True)" for ns mvs t
  proof (induction mvs arbitrary: t)
    case (Cons mv mvs)
    then show ?case
      unfolding moverVolumesLoop.simps moverVolumeAffinity_def
      by (auto intro!: emits_rules emits_step emits_AffinityFromVolume)
  qed (auto intro!: emits_rules)
  have fill: "says jobActionsLog (kopiaFill cl m cache data sa repo t) (\<lambda>_. True)" for t
    unfolding kopiaFill_def by (rule says_before[OF says_log, where P = "\<lambda>_. True"]) (auto intro!: emits_rules)
  show ?thesis
    unfolding configureJobSpec_def jobMutate_def Inr Let_def sum.case
    by (rule says_before[OF fill, where P = "\<lambda>_. True"])
      (auto intro!: emits_rules emits_step[OF aff] emits_step[OF vols])
qed

lemma says_job:
  assumes "cou_documented (jobC cl)"
  shows "says jobActionsLog (CreateOrUpdateDeleteOnImmutableErr (jobC cl) x
      (configureJobSpec cl m cache data sa repo ca policy)) (\<lambda>r. fst (snd r) = None)"
proof -
  have f: "says jobActionsLog (configureJobSpec cl m cache data sa repo ca policy j \<bind> g) (\<lambda>r. fst (snd r) = None)"
    if "\<And>a. emits (\<lambda>_. True) (g a) (\<lambda>r. fst (snd r) = None \<longrightarrow> fst a = None)"
    for j and g :: "_ \<Rightarrow> (opResult \<times> gerror option \<times> job) kube"
    by (rule says_before[OF says_configureJobSpec]) (rule that)
  have "says jobActionsLog (CreateOrUpdate (jobC cl) x (configureJobSpec cl m cache data sa repo ca policy))
      (\<lambda>r. fst (snd r) = None)"
    unfolding cou_documentedD[OF assms] cou_steps_def
  proof (rule says_after[where P = "\<lambda>_. True" and R = "\<lambda>_. True"], goal_cases)
    case (2 r)
    show ?case
      by (cases r) (auto intro!: f emits_rules emits_step says_return)
  qed (auto intro!: emits_rules)
  then show ?thesis
    unfolding CreateOrUpdateDeleteOnImmutableErr_def
    by (rule says_before[where P = "\<lambda>_. True"]) (auto intro!: emits_rules emits_step)
qed

section \<open>What a synchronization of the kopia mover does\<close>

text \<open>
  A synchronization of a source also deletes what it takes for orphaned maintenance objects.
\<close>

definition kopia_ok :: "cluster \<Rightarrow> kopiaMover \<Rightarrow> call \<Rightarrow> bool" where
  "kopia_ok cl m c \<longleftrightarrow>
     sync_ok cl (km_owner m) (km_privileged m) (good_job (km_owner m) (km_paused m) (moverContext moverCapabilities (km_privileged m)) 8) c \<or>
     km_isSource m \<and> orphan_ok (getOperatorNamespace cl) (om_namespace (km_owner m)) c"

text \<open>A mover as the builder makes it.\<close>

definition kopiaBuilt :: "cluster \<Rightarrow> kopiaMover \<Rightarrow> bool" where
  "kopiaBuilt cl m \<longleftrightarrow> vhOwner (km_vh m) = km_owner m \<and>
     (\<exists>userSA. km_saHandler m = NewSAHandler cl (km_owner m) (km_isSource m) (km_privileged m) userSA) \<and>
     (if km_isSource m
      then km_mainPVCName m \<noteq> None \<and> km_sourceStatus m \<noteq> None \<and>
        (\<exists>source. km_source m = Some source \<and> rs_kopia source \<noteq> None \<and> om_namespace source = om_namespace (km_owner m))
      else km_destinationStatus m \<noteq> None)"

lemma kopia_ok_sync:
  "emits (sync_ok cl (km_owner m) (km_privileged m) (good_job (km_owner m) (km_paused m) (moverContext moverCapabilities (km_privileged m)) 8)) k Q \<Longrightarrow>
   emits (kopia_ok cl m) k Q"
  by (erule emits_weaken) (auto simp: kopia_ok_def)

lemma kopia_ok_read: "no_write c \<Longrightarrow> kopia_ok cl m c"
  by (simp add: kopia_ok_def no_write_sync_ok)

lemma kopia_reads: "emits no_write k Q \<Longrightarrow> emits (kopia_ok cl m) k Q"
  by (erule emits_weaken) (auto intro: kopia_ok_read)

lemma emits_recorders [emits_rules]:
  assumes "\<And>c. no_write c \<Longrightarrow> P c" "Q ()"
  shows "emits P (recordOperationSuccess m op d) Q" "emits P (recordOperationFailure m op reason) Q"
    "emits P (recordJobRetry m op reason) Q" "emits P (recordConfigurationError m e) Q"
    "emits P (recordCacheMetrics m) Q" "emits P (recordPolicyCompliance m) Q"
  unfolding recordOperationSuccess_def recordOperationFailure_def recordJobRetry_def recordConfigurationError_def
    recordCacheMetrics_def recordPolicyCompliance_def Let_def
  using assms by (auto intro!: emits_rules emits_step emits_forEach)

lemma recordConfigured_frame [simp]:
  "km_owner (recordConfigured cl m) = km_owner m" "km_isSource (recordConfigured cl m) = km_isSource m"
  "km_vh (recordConfigured cl m) = km_vh m" "km_latestMoverStatus (recordConfigured cl m) = km_latestMoverStatus m"
  "km_source (recordConfigured cl m) = km_source m" "km_sourceStatus (recordConfigured cl m) = km_sourceStatus m"
  "km_destinationStatus (recordConfigured cl m) = None \<longleftrightarrow> km_destinationStatus m = None"
  "km_calculatedMetadataCacheLimit (recordConfigured cl m) = fst (effectiveLimits cl m)"
  "km_calculatedContentCacheLimit (recordConfigured cl m) = snd (effectiveLimits cl m)"
  by (auto simp: recordConfigured_def split: prod.splits)

lemma emits_kopiaEnsureCache:
  assumes "libs_documented cl" "vhOwner (km_vh m) = km_owner m"
  shows "emits (kopia_ok cl m) (kopiaEnsureCache cl m p t) (\<lambda>_. True)"
proof -
  have "emits (kopia_ok cl m) (EnsureNewPVC cl vh name t) (\<lambda>_. True)"
    if "NewVolumeHandler (kopiaCacheConfig m p) = Inr vh" for vh name
  proof -
    have "vhOwner vh = vhOwner (km_vh m)"
      using that by (auto simp: NewVolumeHandler_def kopiaCacheConfig_def Let_def vhOwner_def split: if_splits)
    then show ?thesis
      using emits_post[OF emits_EnsureNewPVC[of cl vh, OF libs_documentedD(2,6)[OF assms(1)]]] assms(2)
      by (auto intro: kopia_ok_sync)
  qed
  then show ?thesis
    unfolding kopiaEnsureCache_def by (auto intro!: emits_rules emits_step)
qed

text \<open>The server answered a create-or-update of the mover's job with \<open>j\<close>, and the job is complete.\<close>

definition answeredKopiaJob :: "cluster \<Rightarrow> kopiaMover \<Rightarrow> job \<Rightarrow> bool" where
  "answeredKopiaJob cl m j \<longleftrightarrow> completedJob j \<and>
     (\<exists>m1 cache data sa repo ca policy op tr tr'. run_state (CreateOrUpdateDeleteOnImmutableErr (jobC cl)
        (kopiaJobObject m) (configureJobSpec cl m1 cache data sa repo ca policy)) tr = ((op, None, j), tr'))"

lemma emits_handleJobStatus:
  "emits (kopia_ok cl m0) (handleJobStatus cl m j err)
     (\<lambda>((r, e), m'). case r of
        Some j' \<Rightarrow> j' = j \<and> err = None \<and> e = None \<and> jobTerminalState j = (True, None) \<and>
          (\<exists>st. ms_result st = MoverResultSuccessful \<and> m' = m\<lparr>km_latestMoverStatus := st\<rparr>)
      | None \<Rightarrow> True)"
proof -
  have f: "emits (kopia_ok cl m0) (UpdateMoverStatusForFailedJob cl st n ns ff) (\<lambda>_. True)" for st n ns ff
    unfolding UpdateMoverStatusForFailedJob_def
    by (rule emits_weaken[OF emits_updateMoverStatusForJob]) (auto intro: kopia_ok_read dest: log_reads_no_write)
  have s: "emits (kopia_ok cl m0) (UpdateMoverStatusForSuccessfulJob cl st n ns ff)
      (\<lambda>st'. ms_result st' = MoverResultSuccessful)" for st n ns ff
    by (rule kopia_ok_sync[OF emits_successStatus])
  have d: "kopia_ok cl m0 (CDelete (OJob j) None)" by (simp add: kopia_ok_def)
  have retry: "emits (kopia_ok cl m0) (if b then recordJobRetry m op r else ret ()) (\<lambda>_. True)" for b op r
    by (auto intro!: emits_rules kopia_ok_read)
  have fl: "emits (kopia_ok cl m0) (recordOperationFailure m op r) (\<lambda>_. True)" for op r
    by (auto intro!: emits_rules kopia_ok_read)
  obtain c fc where ts: "jobTerminalState j = (c, fc)" by (cases "jobTerminalState j")
  show ?thesis
    unfolding handleJobStatus_def Let_def ts prod.case
    by (rule emits_step[OF retry]) (auto intro!: emits_rules emits_step[OF fl] emits_step[OF f] emits_step[of _ "kDelete _ _ _"]
        emits_bind[OF s] d split: option.splits)
qed

lemma emits_kopiaEnsureJob:
  assumes "libs_documented cl"
  shows "emits (kopia_ok cl m) (kopiaEnsureJob cl m cache data sa repo ca policy)
    (\<lambda>((r, e), m'). case r of
       Some j \<Rightarrow> answeredKopiaJob cl m j \<and>
         (\<exists>st. ms_result st = MoverResultSuccessful \<and> m' = (recordConfigured cl m)\<lparr>km_latestMoverStatus := st\<rparr>)
     | None \<Rightarrow> True)"
proof -
  let ?cou = "CreateOrUpdateDeleteOnImmutableErr (jobC cl) (kopiaJobObject m)
      (configureJobSpec cl m cache data sa repo ca policy)"
  have "emits (kopia_ok cl m) ?cou (\<lambda>_. True)"
    unfolding configureJobSpec_def by (rule kopia_ok_sync[OF kopia.ensure_job[OF assms]])
  note job = emits_loggedDuring[OF emits_self[OF this] says_job[OF libs_documentedD(4)[OF assms]]]
  show ?thesis
    unfolding kopiaEnsureJob_def
  proof (rule emits_bind[OF job], clarify, rule emits_post[OF emits_handleJobStatus], goal_cases)
    case (1 op err j logged tr tr' r)
    then show ?case
      unfolding answeredKopiaJob_def by (auto simp: jobTerminalState_completed split: option.splits) blast
  qed
qed

lemma emits_handleJobCompletion:
  assumes "libs_documented cl" "vhOwner (km_vh m) = km_owner m0" "completedJob j"
  shows "emits (kopia_ok cl m0) (handleJobCompletion cl m j data)
    (\<lambda>((res, err), m'). (mr_completed res \<longrightarrow> err = None) \<and> m' = clearDiscovery (updateCacheLimitStatus m))"
proof -
  have "emits (kopia_ok cl m0) (moverFinish cl (km_isSource m) (km_vh m) data) (\<lambda>(res, err). mr_completed res \<longrightarrow> err = None)"
    by (rule kopia_ok_sync[OF emits_moverFinish[OF assms(1,2)]])
  moreover have "jobTerminalState j = (True, None)" using assms(3) by (simp add: jobTerminalState_completed)
  ultimately show ?thesis
    unfolding handleJobCompletion_def by (auto intro!: emits_rules elim!: emits_bind)
qed

lemma emits_checkPrerequisites:
  "emits (kopia_ok cl m0) (checkPrerequisites cl m data cache sa) (\<lambda>_. True)"
proof -
  have repo: "emits (kopia_ok cl m0) (kopiaValidateRepository cl m) (\<lambda>_. True)"
    unfolding kopiaValidateRepository_def
    by (auto intro!: emits_rules kopia_reads[OF emits_validations(1)] emits_step[OF kopia_reads[OF emits_validations(4)]])
  have pol: "emits (kopia_ok cl m0) (validatePolicyConfig cl m) (\<lambda>_. True)"
    unfolding validatePolicyConfig_def validateFileBasedPolicyConfig_def validatePolicyConfigSource_def
      validatePolicySecret_def validatePolicyConfigMap_def
    by (auto intro!: emits_rules emits_step kopia_ok_read)
  have err: "emits (kopia_ok cl m0) (recordConfigurationError m e) (\<lambda>_. True)" for e
    by (auto intro!: emits_rules kopia_ok_read)
  show ?thesis
    unfolding checkPrerequisites_def
    by (auto intro!: emits_rules emits_step[OF repo] emits_step[OF pol] emits_step[OF kopia_reads[OF emits_validations(3)]]
        emits_step[OF err])
qed

lemma ensureDataPVC_no_panic:
  "(isSource \<longrightarrow> main \<noteq> None) \<Longrightarrow> fst (fst (run_state (ensureDataPVC cl tail owner isSource main cleanup vh st) tr)) \<noteq> Panic"
  by (auto simp: ensureDataPVC_def ensureSourcePVC_def ensureDestinationPVC_def case_prod_beta
      split: option.splits sum.splits cong: option.case_cong)

lemma emits_setupPrerequisites:
  assumes "libs_documented cl" "kopiaBuilt cl m"
  shows "emits (kopia_ok cl m) (setupPrerequisites cl m)
    (\<lambda>(r, m'). r \<noteq> Panic \<and> vhOwner (km_vh m') = km_owner m \<and>
       m' = m\<lparr>km_vh := km_vh m', km_latestMoverStatus := km_latestMoverStatus m'\<rparr>)"
proof -
  obtain userSA where sa: "km_saHandler m = NewSAHandler cl (km_owner m) (km_isSource m) (km_privileged m) userSA"
    and vh: "vhOwner (km_vh m) = km_owner m" and main: "km_isSource m \<longrightarrow> km_mainPVCName m \<noteq> None"
    using assms(2) by (auto simp: kopiaBuilt_def split: if_splits)
  have ans: "fst (run_state (saReconcile cl (km_saHandler m)) tr) \<noteq> (None, None)" for tr
    using saReconcile_answers[of cl "km_owner m" "km_isSource m" "km_privileged m" userSA tr] by (auto simp: sa)
  have sar: "emits (kopia_ok cl m) (saReconcile cl (km_saHandler m)) (\<lambda>r. r \<noteq> (None, None))"
  proof (rule emits_result)
    show "emits (kopia_ok cl m) (saReconcile cl (km_saHandler m)) (\<lambda>_. True)"
      unfolding sa by (rule kopia_ok_sync[OF emits_saReconcile[OF assms(1)]])
  qed (rule ans)
  have data: "emits (kopia_ok cl m) (ensureDataPVC cl ''-dest'' (km_owner m) (km_isSource m) (km_mainPVCName m)
      (km_cleanupTempPVC m) (km_vh m) (km_latestMoverStatus m)) (\<lambda>r. vhOwner (fst (snd r)) = km_owner m \<and> fst r \<noteq> Panic)"
  proof -
    note d = kopia_ok_sync[OF emits_ensureDataPVC[OF assms(1) vh]]
    have "emits (kopia_ok cl m) (ensureDataPVC cl ''-dest'' (km_owner m) (km_isSource m) (km_mainPVCName m)
      (km_cleanupTempPVC m) (km_vh m) (km_latestMoverStatus m)) (\<lambda>r. fst r \<noteq> Panic)"
      by (rule emits_result[OF d]) (rule ensureDataPVC_no_panic[OF main])
    from emits_weaken[OF emits_conj[OF d this], of "kopia_ok cl m"] show ?thesis by (auto split: prod.splits)
  qed
  have cache: "emits (kopia_ok cl m) (kopiaEnsureCache cl (m\<lparr>km_vh := vh', km_latestMoverStatus := st\<rparr>) p t) (\<lambda>_. True)"
    if "vhOwner vh' = km_owner m" for vh' st p t
  proof -
    let ?m = "m\<lparr>km_vh := vh', km_latestMoverStatus := st\<rparr>"
    have "kopia_ok cl ?m = kopia_ok cl m" by (simp add: kopia_ok_def fun_eq_iff)
    then show ?thesis using emits_kopiaEnsureCache[OF assms(1), of ?m p t] that by simp
  qed
  have rec: "emits (kopia_ok cl m) (recordCacheMetrics m) (\<lambda>_. True)" "emits (kopia_ok cl m) (recordPolicyCompliance m) (\<lambda>_. True)"
    by (auto intro!: emits_rules kopia_ok_read)
  show ?thesis
    unfolding setupPrerequisites_def Let_def
  proof (rule emits_step[OF rec(1)], rule emits_step[OF rec(2)], rule emits_bind[OF data], goal_cases)
    case (1 _ _ a)
    obtain r vh' st where a: "a = (r, vh', st)" by (cases a)
    with 1 have own: "vhOwner vh' = km_owner m" and np: "r \<noteq> Panic" by auto
    show ?case
      unfolding a using np
      by (cases r) (auto simp: own intro!: emits_rules emits_step[OF cache[OF own]] emits_bind[OF sar]
          emits_step[OF emits_checkPrerequisites] split: option.splits)
  qed
qed

lemma emits_ReconcileMaintenance:
  assumes "list_documented (secretC cl)" "list_documented (cronJobC cl)" "kopiaBuilt cl m"
  shows "emits (kopia_ok cl m) (ReconcileMaintenance cl m) (\<lambda>_. True)"
proof (cases "km_isSource m")
  case True
  then obtain source where src: "km_source m = Some source" "om_namespace source = om_namespace (km_owner m)"
    using assms(3) by (auto simp: kopiaBuilt_def)
  have clean: "emits (kopia_ok cl m) (CleanupOrphanedMaintenanceCronJobs cl (kopiaMaintenanceManager cl m) (om_namespace source))
      (\<lambda>_. True)"
    by (rule emits_weaken[OF emits_CleanupOrphaned[OF assms(1,2)]])
      (auto simp: kopia_ok_def True src kopiaMaintenanceManager_def NewMaintenanceManager_def)
  have "emits (kopia_ok cl m) (ReconcileMaintenanceForSource cl mm source) (\<lambda>_. True)" for mm
    unfolding ReconcileMaintenanceForSource_def by (auto simp: isMaintenanceEnabled_def intro!: emits_rules)
  then show ?thesis
    unfolding ReconcileMaintenance_def src
    by (auto intro!: emits_rules emits_step[OF clean] emits_step[of _ "ReconcileMaintenanceForSource _ _ _"])
qed (auto simp: ReconcileMaintenance_def intro!: emits_rules)

lemma emits_moverMaintenanceStatus:
  assumes "km_isSource m \<longrightarrow> (\<exists>source. km_source m = Some source \<and> rs_kopia source \<noteq> None)"
    "km_isSource m \<longrightarrow> km_sourceStatus m \<noteq> None"
  shows "emits (kopia_ok cl m0) (moverMaintenanceStatus cl m)
    (\<lambda>(r, m'). r \<noteq> Panic \<and> lastLimits m' = lastLimits m \<and> km_latestMoverStatus m' = km_latestMoverStatus m)"
  unfolding moverMaintenanceStatus_def GetMaintenanceCronJobsForNamespace_def
  using assms by (auto simp: lastLimits_def intro!: emits_rules emits_step kopia_ok_read split: option.splits)

lemma finished_frame:
  assumes "m' = clearDiscovery (updateCacheLimitStatus ((recordConfigured cl m)\<lparr>km_latestMoverStatus := st\<rparr>))"
  shows "km_isSource m' = km_isSource m" "km_source m' = km_source m" "km_latestMoverStatus m' = st"
    "km_sourceStatus m' = None \<longleftrightarrow> km_sourceStatus m = None"
    "(if km_isSource m then km_sourceStatus m \<noteq> None else km_destinationStatus m \<noteq> None) \<Longrightarrow>
       lastLimits m' = effectiveLimits cl m"
  using assms by (auto simp: clearDiscovery_def updateCacheLimitStatus_def lastLimits_def recordConfigured_def
      split: option.splits prod.splits if_splits)

lemma emits_kopiaRun:
  assumes "libs_documented cl" "kopiaBuilt cl m"
  shows "emits (kopia_ok cl m) (kopiaRun cl m start p)
    (\<lambda>(r, m'). r \<noteq> Panic \<and> (\<forall>res err. r = Ret (res, err) \<and> mr_completed res \<longrightarrow> err = None \<and>
       ms_result (km_latestMoverStatus m') = MoverResultSuccessful \<and> (\<exists>j. answeredKopiaJob cl m j) \<and>
       lastLimits m' = effectiveLimits cl m))"
proof -
  obtain data cache sa repo ca policy where p: "p = (data, cache, sa, repo, ca, policy)" by (metis prod_cases6)
  have vh: "vhOwner (km_vh m) = km_owner m" using assms(2) by (simp add: kopiaBuilt_def)
  have rec: "emits (kopia_ok cl m) (recordOperationFailure m' op r) (\<lambda>_. True)"
    "emits (kopia_ok cl m) (recordOperationSuccess m' op d) (\<lambda>_. True)" for m' op r d
    by (auto intro!: emits_rules kopia_ok_read)
  have last_step: "emits (kopia_ok cl m) (kopiaComplete cl start res err m')
      (\<lambda>(r, m''). r \<noteq> Panic \<and> (\<forall>res err. r = Ret (res, err) \<and> mr_completed res \<longrightarrow> err = None \<and>
         ms_result (km_latestMoverStatus m'') = MoverResultSuccessful \<and> lastLimits m'' = effectiveLimits cl m))"
    if "mr_completed res \<longrightarrow> err = None" and st: "ms_result st = MoverResultSuccessful"
      and m': "m' = clearDiscovery (updateCacheLimitStatus ((recordConfigured cl m)\<lparr>km_latestMoverStatus := st\<rparr>))" for res err m' st
  proof -
    note f = finished_frame[OF m']
    have "emits (kopia_ok cl m) (moverMaintenanceStatus cl m')
      (\<lambda>(r, m''). r \<noteq> Panic \<and> lastLimits m'' = lastLimits m' \<and> km_latestMoverStatus m'' = km_latestMoverStatus m')"
      by (rule emits_moverMaintenanceStatus) (use assms(2) in \<open>auto simp: f kopiaBuilt_def\<close>)
    note ms = emits_bind[OF this]
    have l: "lastLimits m' = effectiveLimits cl m" by (rule f(5)) (use assms(2) in \<open>auto simp: kopiaBuilt_def split: if_splits\<close>)
    show ?thesis
      unfolding kopiaComplete_def using that(1)
      by (auto intro!: emits_rules emits_step[OF rec(1)] emits_step[of _ "now _"] emits_step[OF rec(2)] ms kopia_ok_read
          simp: f l st split: go.splits)
  qed
  have comp: "emits (kopia_ok cl m) (handleJobCompletion cl ((recordConfigured cl m)\<lparr>km_latestMoverStatus := st\<rparr>) j data)
      (\<lambda>((res, err), m'). (mr_completed res \<longrightarrow> err = None) \<and>
         m' = clearDiscovery (updateCacheLimitStatus ((recordConfigured cl m)\<lparr>km_latestMoverStatus := st\<rparr>)))"
    if "answeredKopiaJob cl m j" for st j
    by (rule emits_handleJobCompletion[OF assms(1)]) (use that vh in \<open>simp_all add: answeredKopiaJob_def\<close>)
  have finish: "emits (kopia_ok cl m) (handleJobCompletion cl ((recordConfigured cl m)\<lparr>km_latestMoverStatus := st\<rparr>) j data \<bind>
        (\<lambda>((result, rerr), m2). kopiaComplete cl start result rerr m2))
      (\<lambda>(r, m'). r \<noteq> Panic \<and> (\<forall>res err. r = Ret (res, err) \<and> mr_completed res \<longrightarrow> err = None \<and>
         ms_result (km_latestMoverStatus m') = MoverResultSuccessful \<and> (\<exists>j. answeredKopiaJob cl m j) \<and>
         lastLimits m' = effectiveLimits cl m))"
    if "answeredKopiaJob cl m j" "ms_result st = MoverResultSuccessful" for st j
    by (rule emits_bind[OF comp[OF that(1)]]) (use that in \<open>auto intro!: emits_post[OF last_step]\<close>)
  show ?thesis
    unfolding kopiaRun_def p prod.case
    by (rule emits_bind[OF emits_kopiaEnsureJob[OF assms(1)]])
      (auto intro!: emits_rules emits_step[OF rec(1)] finish simp: InProgress_def split: option.splits)
qed

lemma emits_kopiaSynchronize:
  assumes "libs_documented cl" "list_documented (secretC cl)" "list_documented (cronJobC cl)" "kopiaBuilt cl m"
  shows "emits (kopia_ok cl m) (kopiaSynchronize cl m)
    (\<lambda>(r, m'). r \<noteq> Panic \<and> (\<forall>res err. r = Ret (res, err) \<and> mr_completed res \<and> \<not> km_paused m \<longrightarrow> err = None \<and>
       ms_result (km_latestMoverStatus m') = MoverResultSuccessful \<and> (\<exists>j. answeredKopiaJob cl m j) \<and>
       lastLimits m' = effectiveLimits cl m))"
proof -
  have maint: "emits (kopia_ok cl m) (if km_isSource m then ReconcileMaintenance cl m else ret None) (\<lambda>_. True)"
    by (auto intro!: emits_rules emits_ReconcileMaintenance[OF assms(2-4)])
  have rec: "emits (kopia_ok cl m) (recordOperationFailure m' op r) (\<lambda>_. True)" for m' op r
    by (auto intro!: emits_rules kopia_ok_read)
  have run: "emits (kopia_ok cl m) (kopiaRun cl (m\<lparr>km_vh := vh, km_latestMoverStatus := st\<rparr>) start p)
      (\<lambda>(r, m'). r \<noteq> Panic \<and> (\<forall>res err. r = Ret (res, err) \<and> mr_completed res \<longrightarrow> err = None \<and>
         ms_result (km_latestMoverStatus m') = MoverResultSuccessful \<and> (\<exists>j. answeredKopiaJob cl m j) \<and>
         lastLimits m' = effectiveLimits cl m))"
    if "vhOwner vh = km_owner m" for vh st start p
  proof -
    let ?m = "m\<lparr>km_vh := vh, km_latestMoverStatus := st\<rparr>"
    have "kopiaBuilt cl ?m" using assms(4) that by (auto simp: kopiaBuilt_def)
    moreover have "kopia_ok cl ?m = kopia_ok cl m" "answeredKopiaJob cl ?m = answeredKopiaJob cl m"
      "effectiveLimits cl ?m = effectiveLimits cl m"
      by (simp_all add: kopia_ok_def answeredKopiaJob_def kopiaJobObject_def effectiveLimits_def calculateCacheLimits_def fun_eq_iff case_prod_beta)
    ultimately show ?thesis using emits_kopiaRun[OF assms(1), of ?m start p] by simp
  qed
  have tick: "emits (kopia_ok cl m) (now cl) (\<lambda>_. True)"
    and up: "emits (kopia_ok cl m) (metric ''RepositoryConnectivity'' (getMetricLabels m []) (MetricSet 1)) (\<lambda>_. True)"
    by (auto intro!: emits_rules kopia_ok_read)
  have go_on: "emits (kopia_ok cl m) (case pr of
          Panic \<Rightarrow> ret (Panic, m1)
        | Ret (Inl err) \<Rightarrow> do {
            _ \<leftarrow> metric ''RepositoryConnectivity'' (getMetricLabels m []) (MetricSet 0);
            _ \<leftarrow> recordOperationFailure m1 (kopiaOperation m1) ''prerequisites_failed'';
            ret (Ret (InProgress, Some err), m1) }
        | Ret (Inr p) \<Rightarrow> kopiaRun cl m1 start p)
      (\<lambda>(r, m'). r \<noteq> Panic \<and> (\<forall>res err. r = Ret (res, err) \<and> mr_completed res \<longrightarrow> err = None \<and>
         ms_result (km_latestMoverStatus m') = MoverResultSuccessful \<and> (\<exists>j. answeredKopiaJob cl m j) \<and>
         lastLimits m' = effectiveLimits cl m))"
    if "pr \<noteq> Panic" "vhOwner (km_vh m1) = km_owner m"
      "m1 = m\<lparr>km_vh := km_vh m1, km_latestMoverStatus := km_latestMoverStatus m1\<rparr>" for pr m1 start
    using that(1) run[OF that(2), of "km_latestMoverStatus m1" start] that(3)
    by (auto intro!: emits_rules emits_step[of _ "metric _ _ _"] emits_step[OF rec] kopia_ok_read simp: InProgress_def split: go.splits sum.splits)
  show ?thesis
    unfolding kopiaSynchronize_def
  proof (rule emits_if, goal_cases)
    case 2
    show ?case
      by (rule emits_step[OF maint], rule emits_step[OF tick], rule emits_step[OF up],
          rule emits_bind[OF emits_setupPrerequisites[OF assms(1,4)]])
        (use go_on in \<open>auto simp: case_prod_beta intro: emits_post\<close>)
  qed (auto intro!: emits_rules)
qed

end
