(* ===== verification/Kopia_Builder.thy ===== *)
theory Kopia_Builder
  imports Kopia_Mover
begin

text \<open>
  The builder of the kopia mover: \<open>FromSource\<close> and \<open>FromDestination\<close> of \<open>mover/kopia/builder.go\<close>. The
  identity of the mover is chosen by the functions of \<open>Kopia_Identity\<close>; for a destination the builder
  may read the source it restores from. The container image and the history limits come from the
  command line.
\<close>

definition kopiaMoverName :: string where "kopiaMoverName = ''kopia''"

record kopiaBuilderConfig =
  kb_containerImage :: string
  kb_successfulJobsHistoryLimit :: int
  kb_failedJobsHistoryLimit :: int

definition kopiaHistoryLimits :: "kopiaBuilderConfig \<Rightarrow> (int \<times> int) option" where
  "kopiaHistoryLimits kb = Some (kb_successfulJobsHistoryLimit kb, kb_failedJobsHistoryLimit kb)"

definition createSourceMover ::
  "cluster \<Rightarrow> kopiaBuilderConfig \<Rightarrow> replicationsource \<Rightarrow> rsKopiaSpec \<Rightarrow> bool \<Rightarrow> volumehandler \<Rightarrow> moverStatus \<Rightarrow>
   rsKopiaStatus \<Rightarrow> kopiaMover" where
  "createSourceMover cl kb source spec privileged vh st sst = \<lparr>
     km_owner = objmeta.truncate source, km_source = Some source, km_vh = vh,
     km_saHandler = NewSAHandler cl (objmeta.truncate source) True privileged
       (mc_serviceAccount (ks_moverConfig spec)),
     km_containerImage = kb_containerImage kb,
     km_cacheAccessModes = ks_cacheAccessModes spec, km_cacheCapacity = ks_cacheCapacity spec,
     km_cacheStorageClassName = ks_cacheStorageClassName spec,
     km_metadataCacheSizeLimitMB = ks_metadataCacheSizeLimitMB spec,
     km_contentCacheSizeLimitMB = ks_contentCacheSizeLimitMB spec,
     km_repositoryName = ks_repository spec, km_isSource = True, km_paused = rs_paused source,
     km_mainPVCName = Some (rs_sourcePVC source), km_customCASpec = ks_customCA spec,
     km_policyConfig = ks_policyConfig spec, km_privileged = privileged, km_latestMoverStatus = st,
     km_moverConfig = ks_moverConfig spec, km_historyLimits = kopiaHistoryLimits kb,
     km_username = sourceUsername source spec, km_hostname = sourceHostname source spec,
     km_sourcePathOverride = ks_sourcePathOverride spec, km_retainPolicy = ks_retain spec,
     km_compression = ks_compression spec, km_parallelism = ks_parallelism spec,
     km_actions = ks_actions spec, km_sourceStatus = Some sst, km_additionalArgs = ks_additionalArgs spec,
     km_restoreAsOf = None, km_shallow = None, km_previous = None,
     km_cleanupTempPVC = False, km_cleanupCachePVC = False, km_enableFileDeletionOnRestore = False,
     km_destinationStatus = None, km_calculatedMetadataCacheLimit = None, km_calculatedContentCacheLimit = None\<rparr>"

definition kopiaDestination ::
  "cluster \<Rightarrow> kopiaBuilderConfig \<Rightarrow> replicationdestination \<Rightarrow> rdKopiaSpec \<Rightarrow> bool \<Rightarrow> volumehandler \<Rightarrow> kopiaIdentity \<Rightarrow>
   moverStatus \<Rightarrow> rdKopiaStatus \<Rightarrow> kopiaMover" where
  "kopiaDestination cl kb destination spec privileged vh ident st dst = \<lparr>
     km_owner = objmeta.truncate destination, km_source = None, km_vh = vh,
     km_saHandler = NewSAHandler cl (objmeta.truncate destination) False privileged
       (mc_serviceAccount (kd_moverConfig spec)),
     km_containerImage = kb_containerImage kb,
     km_cacheAccessModes = kd_cacheAccessModes spec, km_cacheCapacity = kd_cacheCapacity spec,
     km_cacheStorageClassName = kd_cacheStorageClassName spec,
     km_metadataCacheSizeLimitMB = kd_metadataCacheSizeLimitMB spec,
     km_contentCacheSizeLimitMB = kd_contentCacheSizeLimitMB spec,
     km_repositoryName = kid_repository ident, km_isSource = False, km_paused = rd_paused destination,
     km_mainPVCName = kd_destinationPVC spec, km_customCASpec = kd_customCA spec,
     km_policyConfig = kd_policyConfig spec, km_privileged = privileged, km_latestMoverStatus = st,
     km_moverConfig = kd_moverConfig spec, km_historyLimits = kopiaHistoryLimits kb,
     km_username = kid_username ident, km_hostname = kid_hostname ident,
     km_sourcePathOverride = kid_sourcePathOverride ident, km_retainPolicy = None,
     km_compression = [], km_parallelism = None, km_actions = None, km_sourceStatus = None,
     km_additionalArgs = kd_additionalArgs spec,
     km_restoreAsOf = kd_restoreAsOf spec, km_shallow = kd_shallow spec, km_previous = kd_previous spec,
     km_cleanupTempPVC = kd_cleanupTempPVC spec, km_cleanupCachePVC = kd_cleanupCachePVC spec,
     km_enableFileDeletionOnRestore = (kd_enableFileDeletion spec = Some True),
     km_destinationStatus = Some dst, km_calculatedMetadataCacheLimit = None, km_calculatedContentCacheLimit = None\<rparr>"

text \<open>The mover reads the statuses it points to when it runs; what it writes is there afterwards.\<close>

definition rsKopiaMover :: "cluster \<Rightarrow> (moverStatus \<Rightarrow> rsKopiaStatus \<Rightarrow> kopiaMover) \<Rightarrow> rsPart mover" where
  "rsKopiaMover cl mk =
     (let load = (\<lambda>p. mk (orElse (rp_moverStatus p) emptyMoverStatus) (orElse (rp_kopiaStatus p) emptyRsKopiaStatus))
      in \<lparr>mo_Name = kopiaMoverName,
          mo_Synchronize = State (\<lambda>(p, tr). case run_state (kopiaSynchronize cl (load p)) tr of
            ((r, m), tr') \<Rightarrow> (r, p\<lparr>rp_moverStatus := map_option (\<lambda>_. km_latestMoverStatus m) (rp_moverStatus p),
               rp_kopiaStatus := map_option (\<lambda>old. orElse (km_sourceStatus m) old) (rp_kopiaStatus p)\<rparr>, tr')),
          mo_Cleanup = State (\<lambda>(p, tr). case run_state (kopiaCleanup cl (load p)) tr of
            (r, tr') \<Rightarrow> (Ret r, p, tr'))\<rparr>)"

definition rdKopiaMover :: "cluster \<Rightarrow> (moverStatus \<Rightarrow> rdKopiaStatus \<Rightarrow> kopiaMover) \<Rightarrow> rdPart mover" where
  "rdKopiaMover cl mk =
     (let load = (\<lambda>p. mk (orElse (dp_moverStatus p) emptyMoverStatus) (orElse (dp_kopiaStatus p) emptyRdKopiaStatus))
      in \<lparr>mo_Name = kopiaMoverName,
          mo_Synchronize = State (\<lambda>(p, tr). case run_state (kopiaSynchronize cl (load p)) tr of
            ((r, m), tr') \<Rightarrow> (r, p\<lparr>dp_moverStatus := map_option (\<lambda>_. km_latestMoverStatus m) (dp_moverStatus p),
               dp_kopiaStatus := map_option (\<lambda>old. orElse (km_destinationStatus m) old) (dp_kopiaStatus p)\<rparr>, tr')),
          mo_Cleanup = State (\<lambda>(p, tr). case run_state (kopiaCleanup cl (load p)) tr of
            (r, tr') \<Rightarrow> (Ret r, p, tr'))\<rparr>)"

definition kopiaFromSource ::
  "cluster \<Rightarrow> kopiaBuilderConfig \<Rightarrow> replicationsource \<Rightarrow> bool \<Rightarrow> rsPart \<Rightarrow> (gerror + rsPart mover option) \<times> rsPart" where
  "kopiaFromSource cl kb source privileged p =
     (case rs_kopia source of
        None \<Rightarrow> (Inr None, p)
      | Some spec \<Rightarrow>
          (let p1 = p\<lparr>rp_kopiaStatus := Some (orElse (rp_kopiaStatus p) emptyRsKopiaStatus),
               rp_moverStatus := Some (orElse (rp_moverStatus p) emptyMoverStatus)\<rparr>
           in (case moverVH (objmeta.truncate source) (ks_volumeOptions spec) of
                 Inl err \<Rightarrow> (Inl err, p1)
               | Inr vh \<Rightarrow> (Inr (Some (rsKopiaMover cl (createSourceMover cl kb source spec privileged vh))), p1))))"

definition kopiaFromDestination ::
  "cluster \<Rightarrow> kopiaBuilderConfig \<Rightarrow> replicationdestination \<Rightarrow> bool \<Rightarrow> rdPart \<Rightarrow>
   ((gerror + rdPart mover option) \<times> rdPart) kube" where
  "kopiaFromDestination cl kb destination privileged p =
     (case rd_kopia destination of
        None \<Rightarrow> ret (Inr None, p)
      | Some spec \<Rightarrow>
          (case validateDestinationIdentity destination of
             Some err \<Rightarrow> ret (Inl err, p)
           | None \<Rightarrow>
               (let p1 = p\<lparr>dp_moverStatus := Some (orElse (dp_moverStatus p) emptyMoverStatus)\<rparr> in
                (case moverVH (objmeta.truncate destination) (kd_volumeOptions spec) of
                   Inl err \<Rightarrow> ret (Inl err, p1)
                 | Inr vh \<Rightarrow> do {
                     ident \<leftarrow> destinationIdentity cl destination spec;
                     ret (Inr (Some (rdKopiaMover cl (kopiaDestination cl kb destination spec privileged vh ident))),
                       p1\<lparr>dp_kopiaStatus := Some (orElse (dp_kopiaStatus p) emptyRdKopiaStatus)\<rparr>) }))))"

definition kopiaBuilder :: "cluster \<Rightarrow> kopiaBuilderConfig \<Rightarrow> builder" where
  "kopiaBuilder cl kb = \<lparr>bl_Name = kopiaMoverName,
     bl_FromSource = kopiaFromSource cl kb,
     bl_FromDestination = kopiaFromDestination cl kb,
     bl_VersionInfo = ''Kopia container: '' @ kb_containerImage kb\<rparr>"

section \<open>What the movers do\<close>

lemma kopiaBuilt_built:
  "moverVH (objmeta.truncate source) opts = Inr vh \<Longrightarrow> rs_kopia source = Some spec \<Longrightarrow>
     kopiaBuilt cl (createSourceMover cl kb source spec privileged vh st sst)"
  "moverVH (objmeta.truncate destination) opts = Inr vh \<Longrightarrow>
     kopiaBuilt cl (kopiaDestination cl kb destination dspec privileged vh ident st dst)"
  by (auto simp: kopiaBuilt_def createSourceMover_def kopiaDestination_def moverVH_def NewVolumeHandler_def
      vhOwner_def emptyVH_def Let_def objmeta.defs split: if_splits)


text \<open>C36: A mover the kopia builder made never panics while it synchronizes, on either side and
  whatever the server answers. (The restic mover panics when its job cannot be read.)\<close>

theorem kopiaSynchronize_no_panic:
  assumes "libs_documented cl" "list_documented (secretC cl)" "list_documented (cronJobC cl)"
    and "moverVH (objmeta.truncate source) (ks_volumeOptions spec) = Inr vh" "rs_kopia source = Some spec"
    and "moverVH (objmeta.truncate destination) (kd_volumeOptions dspec) = Inr dvh"
  shows "fst (fst (run_state (kopiaSynchronize cl (createSourceMover cl kb source spec privileged vh st sst)) tr)) \<noteq> Panic \<and>
    fst (fst (run_state (kopiaSynchronize cl (kopiaDestination cl kb destination dspec privileged dvh ident st dst)) tr)) \<noteq> Panic"
proof -
  have "fst (fst (run_state (kopiaSynchronize cl m) tr)) \<noteq> Panic" if "kopiaBuilt cl m" for m
  proof -
    obtain r m' tr' where run: "run_state (kopiaSynchronize cl m) tr = ((r, m'), tr')" by (metis surj_pair)
    show ?thesis by (rule emits_run[OF emits_kopiaSynchronize[OF assms(1-3) that] run]) (simp add: run)
  qed
  then show ?thesis using kopiaBuilt_built assms(4-6) by blast
qed

text \<open>C37: A completed synchronization records the limits of the cache its job was configured with, so the
  next job skips the configuration of the cache exactly if its limits are the same and at least one is
  set.\<close>

theorem kopia_cache_limits_recorded:
  assumes "libs_documented cl" "list_documented (secretC cl)" "list_documented (cronJobC cl)" "kopiaBuilt cl m"
    and "run_state (kopiaSynchronize cl m) tr = ((Ret (res, err), m'), tr')" "mr_completed res" "\<not> km_paused m"
  shows "shouldSkipCacheConfig m' metadataLimit contentLimit \<longleftrightarrow>
    (metadataLimit, contentLimit) = effectiveLimits cl m \<and> (metadataLimit, contentLimit) \<noteq> (None, None)"
proof -
  have "lastLimits m' = effectiveLimits cl m"
    by (rule emits_run[OF emits_kopiaSynchronize[OF assms(1-4)] assms(5)]) (use assms(6,7) in auto)
  then show ?thesis by (auto simp: shouldSkipCacheConfig_def split: prod.splits)
qed

text \<open>
  The witnesses: a server that holds the source claim, a service account, the repository secret and the
  job of the mover, which is complete.
\<close>

definition completeCondition :: jobcondition where
  "completeCondition = \<lparr>jc_type = JobComplete, jc_status = ConditionTrue, jc_reason = [], jc_message = []\<rparr>"

definition kopiaCluster :: cluster where
  "kopiaCluster = sampleCluster\<lparr>
     pvcs := withCou ((sampleClient KPVC OPVC)\<lparr>k_get := \<lambda>_ k. Inr (newPVC (fst k) (snd k))\<rparr>),
     serviceaccounts := withCou ((sampleClient KServiceAccount OServiceAccount)
       \<lparr>k_get := \<lambda>_ k. Inr (newServiceAccount (fst k) (snd k))\<rparr>),
     secrets := withCou ((sampleClient KSecret OSecret)\<lparr>k_get := \<lambda>_ k. Inr ((newSecret (fst k) (snd k))
       \<lparr>sec_data := Some [(''KOPIA_REPOSITORY'', ''s3://x''), (''KOPIA_PASSWORD'', ''pw'')]\<rparr>)\<rparr>),
     jobs := withCou ((sampleClient KJob OJob)\<lparr>k_get := \<lambda>_ k. Inr ((newJob (fst k) (snd k))
       \<lparr>job_conditions := [completeCondition]\<rparr>)\<rparr>)\<rparr>"

definition sampleKopiaConfig :: kopiaBuilderConfig where
  "sampleKopiaConfig = \<lparr>kb_containerImage = ''kopia'', kb_successfulJobsHistoryLimit = 3, kb_failedJobsHistoryLimit = 1\<rparr>"

definition directSpec :: rsKopiaSpec where
  "directSpec = sampleKopiaSpec\<lparr>ks_volumeOptions := plainVolumeOptions\<lparr>vo_copyMethod := CopyMethodDirect\<rparr>,
     ks_cacheCapacity := Some Gi, ks_metadataCacheSizeLimitMB := Some 700, ks_contentCacheSizeLimitMB := Some 200,
     ks_moverConfig := plainMoverConfig\<lparr>mc_serviceAccount := Some ''sa''\<rparr>\<rparr>"

definition directSource :: replicationsource where
  "directSource = sampleKopiaSource\<lparr>rs_kopia := Some directSpec\<rparr>"

definition directVH :: volumehandler where
  "directVH = emptyVH\<lparr>vh_hasClient := True, vh_hasRecorder := True, vh_owner := Some (newMeta ''apps'' ''db-backup''),
     vh_copyMethod := CopyMethodDirect\<rparr>"

definition directMover :: kopiaMover where
  "directMover = createSourceMover kopiaCluster sampleKopiaConfig directSource directSpec False directVH
     emptyMoverStatus emptyRsKopiaStatus"

lemma directVH: "moverVH (objmeta.truncate directSource) (ks_volumeOptions directSpec) = Inr directVH"
  by (simp add: moverVH_def NewVolumeHandler_def emptyVH_def directSpec_def directSource_def directVH_def plainVolumeOptions_def
     sampleKopiaSource_def replicationsource.defs new_defs)

lemma kopia_clients [simp]:
  "pvcC kopiaCluster = pvcs kopiaCluster" "saC kopiaCluster = serviceaccounts kopiaCluster"
  "secretC kopiaCluster = secrets kopiaCluster" "jobC kopiaCluster = jobs kopiaCluster"
  "snapC kopiaCluster = sampleClient KSnapshot OSnapshot" "roleC kopiaCluster = sampleClient KRole ORole"
  "roleBindingC kopiaCluster = sampleClient KRoleBinding ORoleBinding" "podC kopiaCluster = sampleClient KPod OPod"
  "cronJobC kopiaCluster = sampleClient KCronJob OCronJob" "rsC kopiaCluster = sampleClient KReplicationSource OReplicationSource"
  by (simp_all add: pvcC_def saC_def secretC_def jobC_def snapC_def roleC_def roleBindingC_def podC_def cronJobC_def rsC_def
      kopiaCluster_def client_id) (simp_all add: sampleCluster_def client_id)

lemma kopia_fields [simp]:
  "setControllerReference kopiaCluster = sampleSetControllerReference"
  "setOwnerReference kopiaCluster = sampleSetOwnerReference" "timeNow kopiaCluster = (\<lambda>_. 1000 * hour)"
  "hasOwnerReference kopiaCluster = hasOwnerReference sampleCluster" "getenv kopiaCluster = (\<lambda>_. None)"
  "cou_documented (pvcs kopiaCluster)" "cou_documented (serviceaccounts kopiaCluster)"
  "cou_documented (secrets kopiaCluster)" "cou_documented (jobs kopiaCluster)"
  "k_get (pvcs kopiaCluster) = (\<lambda>_ k. Inr (newPVC (fst k) (snd k)))"
  "k_get (serviceaccounts kopiaCluster) = (\<lambda>_ k. Inr (newServiceAccount (fst k) (snd k)))"
  "k_get (secrets kopiaCluster) = (\<lambda>_ k. Inr ((newSecret (fst k) (snd k))
       \<lparr>sec_data := Some [(''KOPIA_REPOSITORY'', ''s3://x''), (''KOPIA_PASSWORD'', ''pw'')]\<rparr>))"
  "k_get (jobs kopiaCluster) = (\<lambda>_ k. Inr ((newJob (fst k) (snd k))\<lparr>job_conditions := [completeCondition]\<rparr>))"
  "k_list (secrets kopiaCluster) = (\<lambda>_ _ _. Inr [])" "k_update (jobs kopiaCluster) = (\<lambda>_ x. Inr x)"
  by (simp_all add: kopiaCluster_def) (simp_all add: sampleCluster_def)

lemma kopia_libs: "libs_documented kopiaCluster"
  using sample_libs sample_controllerRef sample_ownerRef
  by (auto simp: libs_documented_def sa_documented_def hasOwnerRef_documented_def controllerRef_documented_def
      ownerRef_documented_def)

lemma kopia_lists: "list_documented (secretC kopiaCluster)" "list_documented (cronJobC kopiaCluster)"
  by (simp_all add: list_documented_def)

lemma directMover_built: "kopiaBuilt kopiaCluster directMover"
  unfolding directMover_def by (rule kopiaBuilt_built(1)[OF directVH]) (simp add: directSource_def)

theorem kopiaSynchronize_no_panic_witness:
  "fst (fst (run_state (kopiaSynchronize kopiaCluster directMover) [])) \<noteq> Panic"
proof -
  have "moverVH (objmeta.truncate sampleKopiaDest) (kd_volumeOptions (sampleKopiaDestSpec
      \<lparr>kd_volumeOptions := plainVolumeOptions\<lparr>vo_copyMethod := CopyMethodDirect\<rparr>\<rparr>)) =
      Inr (directVH\<lparr>vh_owner := Some (newMeta ''restore'' ''db-restore'')\<rparr>)"
    by (simp add: moverVH_def NewVolumeHandler_def emptyVH_def directVH_def plainVolumeOptions_def
     sampleKopiaDest_def replicationdestination.defs new_defs)
  from kopiaSynchronize_no_panic[OF kopia_libs kopia_lists directVH _ this] show ?thesis
    unfolding directMover_def by (simp add: directSource_def)
qed



lemma directMover_sel [simp]:
  "km_owner directMover = newMeta ''apps'' ''db-backup''" "km_isSource directMover" "\<not> km_paused directMover"
  "km_mainPVCName directMover = Some ''db''" "km_repositoryName directMover = ''repo''" "km_vh directMover = directVH"
  "km_saHandler directMover = SAHandlerUserSupplied (newServiceAccount ''apps'' ''sa'')"
  "km_customCASpec directMover = noCustomCA" "mc_volumes (km_moverConfig directMover) = []" "km_policyConfig directMover = None"
  "km_cacheStorageClassName directMover = None" "km_cacheAccessModes directMover = None"
  "om_namespace (newMeta ''apps'' ''db-backup'') = ''apps''"
  by (simp_all add: directMover_def createSourceMover_def directSource_def directSpec_def sampleKopiaSource_def sampleKopiaSpec_def
      plainMoverConfig_def replicationsource.defs objmeta.defs NewSAHandler_def new_defs)

lemma direct_owned:
  "om_ownerRefs x = [] \<Longrightarrow> \<exists>y. ownForCleanup kopiaCluster owner x = Inr y \<and> objmeta.more y = objmeta.more x"
  by (auto simp: ownForCleanup_def sampleSetControllerReference_def SetOwnedByVolSync_def MarkForCleanup_def AddLabel_meta Let_def)

lemma direct_mutate:
  assumes "mc_volumes (km_moverConfig m) = []"
  shows "\<exists>y tr'. run_state (configureJobSpec kopiaCluster m cache data sa repo ca policy
      ((newJob ns n)\<lparr>job_conditions := [completeCondition]\<rparr>)) tr = ((None, y), tr') \<and> job_conditions y = [completeCondition]"
proof -
  let ?j = "(newJob ns n)\<lparr>job_conditions := [completeCondition]\<rparr>"
  obtain j1 where o: "ownForCleanup kopiaCluster (km_owner m) ?j = Inr j1" and "objmeta.more j1 = objmeta.more ?j"
    using direct_owned[of ?j] by (auto simp: new_defs)
  then have j1: "job_conditions j1 = [completeCondition]" by (cases j1, simp add: new_defs)
  obtain t1 tr1 where 1: "run_state (kopiaFill kopiaCluster m cache data sa repo
      (job_template (jobSkeleton [] (km_paused m) 8 j1))) tr = (t1, tr1)" by (metis surj_pair)
  have "\<exists>t2 tr2. run_state (directAffinity kopiaCluster (km_vh m) data t1) tr1 = ((None, t2), tr2)"
    by (simp add: directAffinity_def AffinityFromVolume_def podsUsingPVC_def podsUsing_def kube_ops split: prod.splits)
  then obtain t2 tr2 where 2: "run_state (directAffinity kopiaCluster (km_vh m) data t1) tr1 = ((None, t2), tr2)" by blast
  show ?thesis
    using 1 2 j1 by (simp add: configureJobSpec_def jobMutate_def o Let_def assms) (simp add: jobSkeleton_def)
qed

lemma direct_job:
  assumes "mc_volumes (km_moverConfig m) = []"
  shows "\<exists>j m' tr'. run_state (kopiaEnsureJob kopiaCluster m cache data sa repo ca policy) tr = (((Some j, None), m'), tr') \<and>
     completedJob j \<and> km_isSource m' = km_isSource m"
proof -
  let ?x = "kopiaJobObject m" and ?f = "configureJobSpec kopiaCluster m cache data sa repo ca policy"
  let ?old = "(newJob (fst (objKey ?x)) (snd (objKey ?x)))\<lparr>job_conditions := [completeCondition]\<rparr>"
  obtain y tr1 where y: "run_state (?f ?old) (CGet (k_kind (jobs kopiaCluster)) (objKey ?x) # tr) = ((None, y), tr1)"
    "job_conditions y = [completeCondition]" using direct_mutate[OF assms] by blast
  obtain op tr2 where "run_state (CreateOrUpdate (jobs kopiaCluster) ?x ?f) tr = ((op, None, y), tr2)"
    using y(1) by (cases "y = ?old") (simp_all add: cou_documentedD cou_steps_def kube_ops)
  moreover have "completedJob y" by (simp add: completedJob_def y(2) completeCondition_def)
  ultimately show ?thesis
    using jobTerminalState_completed[of y]
    by (simp add: kopiaEnsureJob_def loggedDuring_def CreateOrUpdateDeleteOnImmutableErr_def handleJobStatus_def
        kopiaOperation_def case_prod_beta recordConfigured_def)
qed

lemma direct_run:
  "\<exists>m' tr'. run_state (kopiaSynchronize kopiaCluster directMover) tr = ((Ret (Complete, None), m'), tr')"
proof -
  let ?vh = "directVH\<lparr>vh_volumeMode := Some Filesystem\<rparr>"
  let ?st = "km_latestMoverStatus directMover"
  let ?m = "directMover\<lparr>km_vh := ?vh, km_latestMoverStatus := ?st\<rparr>"
  let ?d = "newPVC ''apps'' ''db''"
  have data: "\<exists>tr'. run_state (ensureDataPVC kopiaCluster ''-dest'' (newMeta ''apps'' ''db-backup'') True (Some ''db'') b directVH st) tr =
      ((Ret (Some ?d, None), ?vh, st), tr')" for b st tr
    by (simp add: ensureDataPVC_def ensureSourcePVC_def kube_ops EnsurePVCFromSrc_def withSourceMode_def directVH_def new_defs)
  have check: "\<exists>repo tr'. run_state (checkPrerequisites kopiaCluster ?m ?d None sa) tr =
      (Inr (?d, None, sa, repo, None, None), tr')" for sa tr
    by (simp add: checkPrerequisites_def kopiaValidateRepository_def ValidateMoverVolumes_def GetAndValidateSecret_def
        SecretHasFields_def kube_ops entries_def ValidateCustomCA_def noCustomCA_def validatePolicyConfig_def)
  have pre: "\<exists>sa repo tr'. run_state (setupPrerequisites kopiaCluster directMover) tr =
      ((Ret (Inr (?d, None, sa, repo, None, None)), ?m), tr')" for tr
  proof -
    obtain tr1 where 1: "run_state (recordCacheMetrics directMover) tr = ((), tr1)" by (metis (full_types) old.unit.exhaust surj_pair)
    obtain tr2 where 2: "run_state (recordPolicyCompliance directMover) tr1 = ((), tr2)"
      by (metis (full_types) old.unit.exhaust surj_pair)
    obtain tr3 where 3: "run_state (ensureDataPVC kopiaCluster ''-dest'' (newMeta ''apps'' ''db-backup'') True (Some ''db'')
        (km_cleanupTempPVC directMover) directVH ?st) tr2 = ((Ret (Some ?d, None), ?vh, ?st), tr3)"
      using data by blast
    obtain sa tr4 where 4: "run_state (saReconcile kopiaCluster (km_saHandler ?m)) tr3 = ((Some sa, None), tr4)"
      by (simp add: reconcileUserSA_def kube_ops)
    obtain repo tr5 where 5: "run_state (checkPrerequisites kopiaCluster ?m ?d None sa) tr4 =
        (Inr (?d, None, sa, repo, None, None), tr5)" using check by blast
    have "kopiaEnsureCache kopiaCluster ?m ?d b = ret (Inr None)" for b by (simp add: kopiaEnsureCache_def hasPVCConfig_def)
    with 1 2 3 4 5 show ?thesis by (simp add: setupPrerequisites_def Let_def)
  qed
  obtain e tr1 where 1: "run_state (ReconcileMaintenance kopiaCluster directMover) tr = (e, tr1)" by (metis surj_pair)
  let ?tr2 = "CMetric ''RepositoryConnectivity'' (getMetricLabels directMover []) (MetricSet 1) # CNow # tr1"
  obtain sa repo tr3 where 3: "run_state (setupPrerequisites kopiaCluster directMover) ?tr2 =
      ((Ret (Inr (?d, None, sa, repo, None, None)), ?m), tr3)" using pre by blast
  obtain j m1 tr4 where 4: "run_state (kopiaEnsureJob kopiaCluster ?m None ?d sa repo None None) tr3 = (((Some j, None), m1), tr4)"
    "completedJob j" "km_isSource m1"
    using direct_job[of ?m None ?d sa repo None None tr3] by auto
  then have ts: "jobTerminalState j = (True, None)" by (simp add: jobTerminalState_completed)
  have run: "run_state (kopiaRun kopiaCluster ?m start (?d, None, sa, repo, None, None)) tr3 =
      run_state (kopiaComplete kopiaCluster start Complete None (clearDiscovery (updateCacheLimitStatus m1))) tr4" for start
    using 4 by (simp add: kopiaRun_def handleJobCompletion_def ts moverFinish_def)
  define m2 where "m2 = clearDiscovery (updateCacheLimitStatus m1)"
  have src: "km_isSource m2" using 4(3) by (simp add: m2_def clearDiscovery_def updateCacheLimitStatus_def)
  have "\<exists>m' tr'. run_state (kopiaComplete kopiaCluster start Complete None m2) tr4 = ((r, m'), tr') \<Longrightarrow> r \<noteq> Panic \<Longrightarrow>
     r = Ret (Complete, None)" for start r
    by (auto simp: kopiaComplete_def Complete_def split: prod.splits go.splits)
  moreover obtain r m' tr' where c: "run_state (kopiaComplete kopiaCluster (1000 * hour) Complete None m2) tr4 = ((r, m'), tr')"
    by (metis surj_pair)
  moreover have sync: "run_state (kopiaSynchronize kopiaCluster directMover) tr = ((r, m'), tr')"
    using 1 3 run[of "1000 * hour"] c by (simp add: kopiaSynchronize_def metric_def now_def m2_def)
  moreover have "r \<noteq> Panic"
    by (rule emits_run[OF emits_kopiaSynchronize[OF kopia_libs kopia_lists directMover_built] sync]) simp
  ultimately show ?thesis by (metis fst_conv)
qed

theorem kopia_cache_limits_recorded_witness:
  "\<exists>m' tr'. run_state (kopiaSynchronize kopiaCluster directMover) [] = ((Ret (Complete, None), m'), tr') \<and>
     shouldSkipCacheConfig m' (Some 700) (Some 200) \<and> \<not> shouldSkipCacheConfig m' (Some 701) (Some 200)"
proof -
  obtain m' tr' where run: "run_state (kopiaSynchronize kopiaCluster directMover) [] = ((Ret (Complete, None), m'), tr')"
    using direct_run by blast
  have "effectiveLimits kopiaCluster directMover = (Some 700, Some 200)"
    by (simp add: effectiveLimits_def case_prod_beta directMover_def createSourceMover_def directSpec_def)
  with kopia_cache_limits_recorded[OF kopia_libs kopia_lists directMover_built run] show ?thesis
    using run by (auto simp: Complete_def)
qed

end
