(* ===== verification/Km_Types.thy ===== *)
theory Km_Types
  imports Kopia_Maintenance
begin

text \<open>
  The methods of the \<open>KopiaMaintenance\<close> resource (\<open>api/v1alpha1/kopiamaintenance_types.go\<close>): defaults,
  triggers and validation; and the comparisons its controller makes between what a CronJob has and
  what it should have (\<open>kopiamaintenance_controller.go\<close>). The comparisons are shown to decide equality
  of what they look at, and the validation to accept exactly the sound configurations.
\<close>

section \<open>Defaults and triggers\<close>

definition GetEnabled :: "kopiamaintenance \<Rightarrow> bool" where
  "GetEnabled km = (case km_enabled (km_spec km) of None \<Rightarrow> True | Some b \<Rightarrow> b)"

definition defaultSchedule :: string where "defaultSchedule = ''0 2 * * *''"

definition GetSchedule :: "kopiamaintenance \<Rightarrow> string" where
  "GetSchedule km =
     (let sp = km_spec km in
      case Option.bind (km_trigger sp) kmt_schedule of
        Some s \<Rightarrow> s
      | None \<Rightarrow> if km_schedule sp \<noteq> [] then km_schedule sp else defaultSchedule)"

definition GetManualTrigger :: "kopiamaintenance \<Rightarrow> string" where
  "GetManualTrigger km = (case km_trigger (km_spec km) of Some t \<Rightarrow> kmt_manual t | None \<Rightarrow> [])"

definition HasScheduleTrigger :: "kopiamaintenance \<Rightarrow> bool" where
  "HasScheduleTrigger km \<longleftrightarrow>
     Option.bind (km_trigger (km_spec km)) kmt_schedule \<noteq> None \<or> km_schedule (km_spec km) \<noteq> []"

definition HasManualTrigger :: "kopiamaintenance \<Rightarrow> bool" where
  "HasManualTrigger km \<longleftrightarrow>
     (case km_trigger (km_spec km) of Some t \<Rightarrow> kmt_manual t \<noteq> [] | None \<Rightarrow> False)"

definition GetRepositorySecret :: "kopiamaintenance \<Rightarrow> string" where
  "GetRepositorySecret km = kmr_repository (km_repository (km_spec km))"

definition GetActiveDeadlineSeconds :: "kopiamaintenance \<Rightarrow> int" where
  "GetActiveDeadlineSeconds km =
     (case km_activeDeadlineSeconds (km_spec km) of Some n \<Rightarrow> n | None \<Rightarrow> 10800)"

section \<open>Validation\<close>

definition firstError :: "gerror option list \<Rightarrow> gerror option" where
  "firstError es = (case filter (\<lambda>e. e \<noteq> None) es of [] \<Rightarrow> None | e # _ \<Rightarrow> e)"

definition isStandardResourceName :: "string \<Rightarrow> bool" where
  "isStandardResourceName name \<longleftrightarrow>
     name \<in> set [''cpu'', ''memory'', ''ephemeral-storage''] \<or> HasPrefix name ''hugepages-''"

text \<open>The check of one limit; \<open>label\<close> is how the messages name the resource.\<close>

definition limitError :: "string \<Rightarrow> string \<Rightarrow> quantity \<Rightarrow> string \<Rightarrow> resourceList \<Rightarrow> gerror option" where
  "limitError label name maxQ maxText limits =
     (case map_of limits name of
        None \<Rightarrow> None
      | Some q \<Rightarrow>
          if q \<le> 0 then Some (Errorf (label @ '' limit must be positive''))
          else if q > maxQ then Some (Errorf (label @ '' limit exceeds maximum allowed ('' @ maxText @ '')''))
          else None)"

definition requestError :: "string \<Rightarrow> string \<Rightarrow> resourceList \<Rightarrow> resourceList \<Rightarrow> gerror option" where
  "requestError label name limits requests =
     (case map_of requests name of
        None \<Rightarrow> None
      | Some q \<Rightarrow>
          if q \<le> 0 then Some (Errorf (label @ '' request must be positive''))
          else (case map_of limits name of
             None \<Rightarrow> None
           | Some l \<Rightarrow> if q > l then Some (Errorf (label @ '' request exceeds '' @ label @ '' limit'')) else None))"

definition unsupported :: "string \<Rightarrow> resourceList \<Rightarrow> gerror option" where
  "unsupported what rl =
     map_option (\<lambda>(k, _). Errorf (''unsupported resource '' @ what @ '': '' @ k))
       (find (\<lambda>(k, _). \<not> isStandardResourceName k) (entries rl))"

definition maxMemory :: quantity where "maxMemory = 100 * Gi * 10 ^ 9"
definition maxCPU :: quantity where "maxCPU = 32 * 10 ^ 9"

definition validateResourceRequirements :: "resources \<Rightarrow> gerror option" where
  "validateResourceRequirements r = firstError
     [limitError ''memory'' ''memory'' maxMemory ''100Gi'' (rq_limits r),
      limitError ''CPU'' ''cpu'' maxCPU ''32 cores'' (rq_limits r),
      requestError ''memory'' ''memory'' (rq_limits r) (rq_requests r),
      requestError ''CPU'' ''cpu'' (rq_limits r) (rq_requests r),
      unsupported ''limit'' (rq_limits r),
      unsupported ''request'' (rq_requests r)]"

definition scheduleError :: "cluster \<Rightarrow> string \<Rightarrow> string \<Rightarrow> gerror option" where
  "scheduleError cl msg schedule =
     (case cronParseFields cl schedule of Inl err \<Rightarrow> Some (wrapErr msg err) | Inr _ \<Rightarrow> None)"

definition triggerError :: "cluster \<Rightarrow> kmTriggerSpec \<Rightarrow> gerror option" where
  "triggerError cl t =
     (if kmt_schedule t \<noteq> None \<and> kmt_manual t \<noteq> []
      then Some (Errorf ''cannot specify both schedule and manual triggers'')
      else (case kmt_schedule t of
         Some s \<Rightarrow> if s \<noteq> [] then scheduleError cl ''invalid cron schedule format in trigger'' s else None
       | None \<Rightarrow> None))"

definition Validate :: "cluster \<Rightarrow> kopiamaintenance \<Rightarrow> gerror option" where
  "Validate cl km =
     (let sp = km_spec km in
      if kmr_repository (km_repository sp) = [] then Some (Errorf ''repository.repository field is required'')
      else firstError
        [case km_trigger sp of Some t \<Rightarrow> triggerError cl t | None \<Rightarrow> None,
         if km_schedule sp \<noteq> [] then scheduleError cl ''invalid cron schedule format'' (km_schedule sp) else None,
         case km_resources sp of
           Some r \<Rightarrow> map_option (wrapErr ''invalid resource requirements'') (validateResourceRequirements r)
         | None \<Rightarrow> None])"

section \<open>Comparisons\<close>

text \<open>Two Go pointers are equal when both are nil or both point to equal values; two slices when they agree
  in length and at every index; two maps when they have as many entries and every entry of one is in
  the other.\<close>

definition ptrEqual :: "('a \<Rightarrow> 'a \<Rightarrow> bool) \<Rightarrow> 'a option \<Rightarrow> 'a option \<Rightarrow> bool" where
  "ptrEqual eq a b \<longleftrightarrow>
     (a = None) = (b = None) \<and> (case (a, b) of (Some x, Some y) \<Rightarrow> eq x y | _ \<Rightarrow> True)"

definition sliceEqual :: "'a list \<Rightarrow> 'a list \<Rightarrow> bool" where
  "sliceEqual a b \<longleftrightarrow> length a = length b \<and> list_all (\<lambda>i. a ! i = b ! i) [0..<length a]"

definition mapEqual :: "('k \<times> 'v) list \<Rightarrow> ('k \<times> 'v) list \<Rightarrow> bool" where
  "mapEqual a b \<longleftrightarrow> length (entries a) = length (entries b) \<and>
     list_all (\<lambda>(k, v). case map_of b k of None \<Rightarrow> False | Some w \<Rightarrow> v = w) (entries a)"

definition resourceRequirementsEqual :: "resources \<Rightarrow> resources \<Rightarrow> bool" where
  "resourceRequirementsEqual a b \<longleftrightarrow>
     mapEqual (rq_requests a) (rq_requests b) \<and> mapEqual (rq_limits a) (rq_limits b)"

definition seLinuxEqual :: "seLinuxOptions \<Rightarrow> seLinuxOptions \<Rightarrow> bool" where
  "seLinuxEqual a b \<longleftrightarrow> se_user a = se_user b \<and> se_role a = se_role b \<and> se_type a = se_type b \<and> se_level a = se_level b"

definition seccompEqual :: "seccompProfile \<Rightarrow> seccompProfile \<Rightarrow> bool" where
  "seccompEqual a b \<longleftrightarrow> sp_type a = sp_type b \<and> ptrEqual (=) (sp_localhostProfile a) (sp_localhostProfile b)"

definition windowsEqual :: "windowsOptions \<Rightarrow> windowsOptions \<Rightarrow> bool" where
  "windowsEqual a b \<longleftrightarrow>
     ptrEqual (=) (wo_gmsaCredentialSpecName a) (wo_gmsaCredentialSpecName b) \<and>
     ptrEqual (=) (wo_gmsaCredentialSpec a) (wo_gmsaCredentialSpec b) \<and>
     ptrEqual (=) (wo_runAsUserName a) (wo_runAsUserName b) \<and>
     ptrEqual (=) (wo_hostProcess a) (wo_hostProcess b)"

definition capabilitiesEqual :: "capabilities \<Rightarrow> capabilities \<Rightarrow> bool" where
  "capabilitiesEqual a b \<longleftrightarrow> sliceEqual (cap_add a) (cap_add b) \<and> sliceEqual (cap_drop a) (cap_drop b)"

definition podSecurityContextEqual :: "podsecctx option \<Rightarrow> podsecctx option \<Rightarrow> bool" where
  "podSecurityContextEqual = ptrEqual (\<lambda>a b.
     ptrEqual (=) (px_runAsUser a) (px_runAsUser b) \<and>
     ptrEqual (=) (px_runAsGroup a) (px_runAsGroup b) \<and>
     ptrEqual (=) (px_fsGroup a) (px_fsGroup b) \<and>
     ptrEqual (=) (px_runAsNonRoot a) (px_runAsNonRoot b) \<and>
     ptrEqual (=) (px_fsGroupChangePolicy a) (px_fsGroupChangePolicy b) \<and>
     sliceEqual (px_supplementalGroups a) (px_supplementalGroups b) \<and>
     ptrEqual seLinuxEqual (px_seLinuxOptions a) (px_seLinuxOptions b) \<and>
     ptrEqual seccompEqual (px_seccompProfile a) (px_seccompProfile b) \<and>
     ptrEqual windowsEqual (px_windowsOptions a) (px_windowsOptions b))"

definition containerSecurityContextEqual :: "secctx option \<Rightarrow> secctx option \<Rightarrow> bool" where
  "containerSecurityContextEqual = ptrEqual (\<lambda>a b.
     ptrEqual (=) (sx_runAsUser a) (sx_runAsUser b) \<and>
     ptrEqual (=) (sx_runAsGroup a) (sx_runAsGroup b) \<and>
     ptrEqual (=) (sx_runAsNonRoot a) (sx_runAsNonRoot b) \<and>
     ptrEqual (=) (sx_readOnlyRootFilesystem a) (sx_readOnlyRootFilesystem b) \<and>
     ptrEqual (=) (sx_allowPrivilegeEscalation a) (sx_allowPrivilegeEscalation b) \<and>
     ptrEqual (=) (sx_privileged a) (sx_privileged b) \<and>
     ptrEqual capabilitiesEqual (sx_capabilities a) (sx_capabilities b) \<and>
     ptrEqual seLinuxEqual (sx_seLinuxOptions a) (sx_seLinuxOptions b) \<and>
     ptrEqual seccompEqual (sx_seccompProfile a) (sx_seccompProfile b) \<and>
     ptrEqual windowsEqual (sx_windowsOptions a) (sx_windowsOptions b))"

section \<open>What the comparisons decide\<close>

lemma ptrEqual_iff: "(\<And>x y. eq x y \<longleftrightarrow> f x = f y) \<Longrightarrow> ptrEqual eq a b \<longleftrightarrow> map_option f a = map_option f b"
  by (cases a; cases b) (auto simp: ptrEqual_def)

lemma ptrEqual_eq [simp]: "ptrEqual (=) a b \<longleftrightarrow> a = b"
  by (cases a; cases b) (auto simp: ptrEqual_def)

lemma sliceEqual_eq [simp]: "sliceEqual = (=)"
proof (intro ext)
  show "sliceEqual a b = (a = b)" for a b :: "'a list"
    unfolding sliceEqual_def list_all_iff list_eq_iff_nth_eq by auto
qed

lemma option_comparisons [simp]:
  "seLinuxEqual = (=)" "seccompEqual = (=)" "windowsEqual = (=)"
  "capabilitiesEqual = (=)"
  by (auto intro!: ext simp: seLinuxEqual_def seccompEqual_def windowsEqual_def capabilitiesEqual_def)

lemma mapEqual_iff: "mapEqual a b \<longleftrightarrow> map_of a = map_of b"
proof
  assume eq: "mapEqual a b"
  then have card: "card (dom (map_of a)) = card (dom (map_of b))"
    by (simp add: mapEqual_def length_entries)
  have sub: "map_of b k = Some v" if "map_of a k = Some v" for k v
    using eq that by (force simp: mapEqual_def list_all_iff entries_iff[symmetric] split: option.splits)
  then have "dom (map_of a) \<subseteq> dom (map_of b)" by blast
  with card have "dom (map_of a) = dom (map_of b)"
    by (intro card_subset_eq) (auto simp: finite_dom_map_of)
  then show "map_of a = map_of b"
    using sub by (metis (no_types, opaque_lifting) domIff ext not_Some_eq)
next
  assume "map_of a = map_of b"
  then show "mapEqual a b"
    by (auto simp: mapEqual_def length_entries list_all_iff entries_iff)
qed


lemma podSecurityContextEqual_iff:
  "podSecurityContextEqual a b \<longleftrightarrow> map_option (px_other_update (\<lambda>_. [])) a = map_option (px_other_update (\<lambda>_. [])) b"
  unfolding podSecurityContextEqual_def
proof (rule ptrEqual_iff, goal_cases)
  case (1 x y)
  then show ?case by (cases x; cases y) simp
qed

lemma containerSecurityContextEqual_iff:
  "containerSecurityContextEqual a b \<longleftrightarrow> map_option (sx_other_update (\<lambda>_. [])) a = map_option (sx_other_update (\<lambda>_. [])) b"
  unfolding containerSecurityContextEqual_def
proof (rule ptrEqual_iff, goal_cases)
  case (1 x y)
  then show ?case by (cases x; cases y) (simp, blast)
qed

lemma resourceRequirementsEqual_iff:
  "resourceRequirementsEqual r s \<longleftrightarrow>
     map_of (rq_requests r) = map_of (rq_requests s) \<and> map_of (rq_limits r) = map_of (rq_limits s)"
  by (simp add: resourceRequirementsEqual_def mapEqual_iff)

text \<open>The comparisons decide equality of everything they look at: the fields of a security context
  other than those kept in \<open>px_other\<close> and \<open>sx_other\<close>, and the requests and limits of a container as
  maps, whatever their order.\<close>

theorem km_comparisons_decide:
  "(podSecurityContextEqual a b \<longleftrightarrow> map_option (px_other_update (\<lambda>_. [])) a = map_option (px_other_update (\<lambda>_. [])) b) \<and>
   (containerSecurityContextEqual c d \<longleftrightarrow> map_option (sx_other_update (\<lambda>_. [])) c = map_option (sx_other_update (\<lambda>_. [])) d) \<and>
   (resourceRequirementsEqual r s \<longleftrightarrow>
      map_of (rq_requests r) = map_of (rq_requests s) \<and> map_of (rq_limits r) = map_of (rq_limits s))"
  by (rule conjI, rule podSecurityContextEqual_iff, rule conjI, rule containerSecurityContextEqual_iff,
      rule resourceRequirementsEqual_iff)

section \<open>What the validation accepts\<close>

lemma firstError_Cons [simp]: "firstError [] = None" "firstError (None # es) = firstError es"
  "firstError (Some e # es) = Some e"
  by (simp_all add: firstError_def)

lemma firstError_None: "firstError es = None \<longleftrightarrow> (\<forall>e \<in> set es. e = None)"
proof (induction es)
  case (Cons e es)
  then show ?case by (cases e) simp_all
qed simp

text \<open>Sound requirements: only known resources, positive amounts, bounded limits, and no request above its
  limit.\<close>

definition boundedBy :: "resourceList \<Rightarrow> resourceList \<Rightarrow> string \<Rightarrow> quantity \<Rightarrow> bool" where
  "boundedBy requests limits name maxQ \<longleftrightarrow>
     (\<forall>l. map_of limits name = Some l \<longrightarrow> 0 < l \<and> l \<le> maxQ) \<and>
     (\<forall>q. map_of requests name = Some q \<longrightarrow> 0 < q \<and> (\<forall>l. map_of limits name = Some l \<longrightarrow> q \<le> l))"

definition soundResources :: "resources \<Rightarrow> bool" where
  "soundResources r \<longleftrightarrow>
     (\<forall>k \<in> dom (map_of (rq_limits r)) \<union> dom (map_of (rq_requests r)). isStandardResourceName k) \<and>
     boundedBy (rq_requests r) (rq_limits r) ''memory'' maxMemory \<and>
     boundedBy (rq_requests r) (rq_limits r) ''cpu'' maxCPU"

lemma unsupported_None: "unsupported what rl = None \<longleftrightarrow> (\<forall>k \<in> dom (map_of rl). isStandardResourceName k)"
  by (force simp: unsupported_def find_None_iff entries_iff dom_def)

lemma bounds_None:
  "limitError label name maxQ maxText limits = None \<and> requestError label name limits requests = None \<longleftrightarrow>
   boundedBy requests limits name maxQ"
  by (auto simp: limitError_def requestError_def boundedBy_def not_le not_less split: option.splits if_splits)

lemma validateResourceRequirements_None: "validateResourceRequirements r = None \<longleftrightarrow> soundResources r"
proof -
  have "validateResourceRequirements r = None \<longleftrightarrow>
      (unsupported ''limit'' (rq_limits r) = None \<and> unsupported ''request'' (rq_requests r) = None) \<and>
      (limitError ''memory'' ''memory'' maxMemory ''100Gi'' (rq_limits r) = None \<and>
         requestError ''memory'' ''memory'' (rq_limits r) (rq_requests r) = None) \<and>
      (limitError ''CPU'' ''cpu'' maxCPU ''32 cores'' (rq_limits r) = None \<and>
         requestError ''CPU'' ''cpu'' (rq_limits r) (rq_requests r) = None)"
    by (simp add: validateResourceRequirements_def firstError_None) blast
  then show ?thesis
    unfolding bounds_None unsupported_None soundResources_def by (simp add: ball_Un)
qed

definition parses :: "cluster \<Rightarrow> string \<Rightarrow> bool" where
  "parses cl s \<longleftrightarrow> (\<exists>next. cronParseFields cl s = Inr next)"

lemma scheduleError_None: "scheduleError cl msg s = None \<longleftrightarrow> parses cl s"
  by (auto simp: scheduleError_def parses_def split: sum.splits)

lemma validate_iff:
  "Validate cl km = None \<longleftrightarrow>
     GetRepositorySecret km \<noteq> [] \<and>
     (\<forall>t. km_trigger (km_spec km) = Some t \<longrightarrow>
        (kmt_schedule t = None \<or> kmt_manual t = []) \<and>
        (\<forall>s. kmt_schedule t = Some s \<longrightarrow> s = [] \<or> parses cl s)) \<and>
     (km_schedule (km_spec km) = [] \<or> parses cl (km_schedule (km_spec km))) \<and>
     (\<forall>r. km_resources (km_spec km) = Some r \<longrightarrow> soundResources r)"
proof -
  have trigger: "(case km_trigger sp of Some t \<Rightarrow> triggerError cl t | None \<Rightarrow> None) = None \<longleftrightarrow>
      (\<forall>t. km_trigger sp = Some t \<longrightarrow> (kmt_schedule t = None \<or> kmt_manual t = []) \<and>
        (\<forall>s. kmt_schedule t = Some s \<longrightarrow> s = [] \<or> parses cl s))" for sp
    by (cases "km_trigger sp") (auto simp: triggerError_def scheduleError_None split: option.split)
  have resources: "(case km_resources sp of
        Some r \<Rightarrow> map_option (wrapErr msg) (validateResourceRequirements r) | None \<Rightarrow> None) = None \<longleftrightarrow>
      (\<forall>r. km_resources sp = Some r \<longrightarrow> soundResources r)" for sp msg
    by (cases "km_resources sp") (auto simp: validateResourceRequirements_None)
  show ?thesis
    unfolding Validate_def Let_def GetRepositorySecret_def
    by (simp add: firstError_None trigger resources scheduleError_None)
qed


text \<open>
  The parser the validation uses is made from the five field options only. As documented, it accepts no
  descriptor without the option \<open>cron.Descriptor\<close>.
\<close>

definition noDescriptors_documented :: "cluster \<Rightarrow> bool" where
  "noDescriptors_documented cl \<longleftrightarrow> (\<forall>s. HasPrefix s ''@'' \<longrightarrow> (\<exists>e. cronParseFields cl s = Inl e))"

text \<open>The pattern of the schedule fields admits descriptors such as \<open>@daily\<close>, and no
  KopiaMaintenance with one passes the validation.\<close>

theorem km_descriptor_rejected:
  assumes "noDescriptors_documented cl" "HasPrefix (GetSchedule km) ''@''"
  shows "Validate cl km \<noteq> None"
proof
  assume ok: "Validate cl km = None"
  have no: "\<not> parses cl (GetSchedule km)"
    using assms by (auto simp: noDescriptors_documented_def parses_def)
  have ne: "GetSchedule km \<noteq> []" "GetSchedule km \<noteq> defaultSchedule"
    using assms(2) by (auto simp: HasPrefix_def defaultSchedule_def)
  show False
  proof (cases "Option.bind (km_trigger (km_spec km)) kmt_schedule")
    case None
    then have "GetSchedule km = km_schedule (km_spec km)"
      using ne by (simp add: GetSchedule_def Let_def split: if_splits)
    with no ne ok show False by (simp add: validate_iff)
  next
    case (Some s)
    then obtain t where "km_trigger (km_spec km) = Some t" "kmt_schedule t = Some s"
      by (auto simp: bind_eq_Some_conv)
    moreover have "GetSchedule km = s" using Some by (simp add: GetSchedule_def Let_def)
    ultimately show False using no ne ok by (simp add: validate_iff)
  qed
qed

definition sampleKm :: kopiamaintenance where
  "sampleKm = objmeta.extend (newMeta ''ns'' ''km'') (kopiamaintenance.fields 1 []
     \<lparr>km_repository = \<lparr>kmr_repository = ''repo'', kmr_customCA = None, kmr_repositoryType = []\<rparr>,
       km_trigger = None, km_schedule = [], km_enabled = None, km_suspend = None,
       km_successfulJobsHistoryLimit = None, km_failedJobsHistoryLimit = None, km_resources = None,
       km_activeDeadlineSeconds = None, km_serviceAccountName = None, km_podSecurityContext = None,
       km_containerSecurityContext = None, km_moverPodLabels = [], km_nodeSelector = [], km_tolerations = [],
       km_affinity = None, km_cacheCapacity = None, km_cacheStorageClassName = None, km_cacheAccessModes = None,
       km_metadataCacheSizeLimitMB = None, km_contentCacheSizeLimitMB = None, km_cachePVC = None,
       km_moverVolumes = []\<rparr> None)"

definition withTrigger :: "kmTriggerSpec \<Rightarrow> kopiamaintenance" where
  "withTrigger t = sampleKm\<lparr>km_spec := (km_spec sampleKm)\<lparr>km_trigger := Some t\<rparr>\<rparr>"

lemmas sampleKm_defs = sampleKm_def withTrigger_def new_defs kopiamaintenance.defs


theorem km_descriptor_rejected_witness:
  "Validate sampleCluster (withTrigger \<lparr>kmt_schedule = Some ''@daily'', kmt_manual = []\<rparr>) \<noteq> None"
proof -
  have "noDescriptors_documented sampleCluster"
    by (auto simp: noDescriptors_documented_def sampleCronFields_def HasPrefix_def)
  then show ?thesis
    by (rule km_descriptor_rejected) (simp add: GetSchedule_def HasPrefix_def withTrigger_def)
qed

end
