(* ===== verification/Km_Controller.thy ===== *)
theory Km_Controller
  imports Km_Types Mover_Jobs State_Machine
begin

text \<open>
  The KopiaMaintenance controller (\<open>kopiamaintenance_controller.go\<close>): a CronJob per resource for
  scheduled maintenance, a Job per tag for manual maintenance, the count of failures that suspends the
  first and blocks the second, the finalizer, and the status. The resource the code passes around by
  pointer is returned updated; decoding an answer of the server never makes its \<open>Status\<close> nil. A nil slice or map
  and an empty one are the same value.
\<close>

section \<open>Constants and defaults\<close>

definition kopiaMaintenanceFinalizer :: string where
  "kopiaMaintenanceFinalizer = ''volsync.backube/kopiamaintenance-protection''"

definition maintenanceJobCheckInterval :: duration where "maintenanceJobCheckInterval = 10 * second"
definition maxConsecutiveFailures :: int where "maxConsecutiveFailures = 5"
definition maxScheduledFailures :: int where "maxScheduledFailures = 10"

definition resetFailuresAnnotation :: string where
  "resetFailuresAnnotation = ''volsync.backube/reset-failures''"

definition calculateMaintenanceCacheLimits :: "cluster \<Rightarrow> quantity option \<Rightarrow> int \<times> int" where
  "calculateMaintenanceCacheLimits cl cacheCapacity =
     (case cacheCapacity of None \<Rightarrow> (0, 0) | Some c \<Rightarrow> cacheLimits cl c)"

definition getCacheLimitEnvVars ::
  "cluster \<Rightarrow> int option \<Rightarrow> int option \<Rightarrow> quantity option \<Rightarrow> envvar list" where
  "getCacheLimitEnvVars cl metadataLimit contentLimit cacheCapacity =
     (let (autoMeta, autoContent) = calculateMaintenanceCacheLimits cl cacheCapacity;
          metaMB = (if metadataLimit = None \<and> autoMeta > 0 then Some autoMeta else metadataLimit);
          contentMB = (if contentLimit = None \<and> autoContent > 0 then Some autoContent else contentLimit)
      in limitEnv ''KOPIA_METADATA_CACHE_SIZE_LIMIT_MB'' metaMB @
         limitEnv ''KOPIA_CONTENT_CACHE_SIZE_LIMIT_MB'' contentMB)"

definition GetDefaultKopiaImage :: "cluster \<Rightarrow> string" where
  "GetDefaultKopiaImage cl =
     (case getenv cl ''RELATED_IMAGE_KOPIA_CONTAINER'' of
        Some v \<Rightarrow> if v \<noteq> [] then v else ''quay.io/backube/volsync:latest''
      | None \<Rightarrow> ''quay.io/backube/volsync:latest'')"

definition getContainerImage :: "cluster \<Rightarrow> string \<Rightarrow> string" where
  "getContainerImage cl containerImage =
     (if containerImage = [] then GetDefaultKopiaImage cl else containerImage)"

section \<open>Names\<close>

text \<open>Eight bytes of the SHA-256 sum, in hexadecimal.\<close>

definition shortHash :: "string \<Rightarrow> string" where
  "shortHash s = take 16 (sha256_hex s)"

definition manualJobName :: "kopiamaintenance \<Rightarrow> string" where
  "manualJobName km = ''kopia-maint-manual-'' @
     shortHash (om_namespace km @ ''/'' @ om_name km @ ''/'' @ GetManualTrigger km)"

definition kmCronJobName :: "kopiamaintenance \<Rightarrow> string" where
  "kmCronJobName km = ''kopia-maint-'' @
     (if length (om_name km) > 34 then take 34 (om_name km) else om_name km) @ ''-'' @
     shortHash (om_namespace km @ ''/'' @ om_name km)"

section \<open>The cache\<close>

definition kmCacheName :: "kopiamaintenance \<Rightarrow> string" where
  "kmCacheName km = ''volsync-kopia-maintenance-'' @ om_name km @ ''-cache''"

definition kmNewCache :: "kopiamaintenance \<Rightarrow> pvc" where
  "kmNewCache km = (newPVC (om_namespace km) (kmCacheName km))\<lparr>
     pvc_accessModes := (case km_cacheAccessModes (km_spec km) of
         Some (m # ms) \<Rightarrow> Some (m # ms) | _ \<Rightarrow> Some [ReadWriteOnce]),
     pvc_requests := [(''storage'', case km_cacheCapacity (km_spec km) of Some c \<Rightarrow> c | None \<Rightarrow> Gi)],
     pvc_storageClassName := km_cacheStorageClassName (km_spec km)\<rparr>"

definition kmCreateCache :: "cluster \<Rightarrow> kopiamaintenance \<Rightarrow> (gerror + pvc option) kube" where
  "kmCreateCache cl km =
     (case setControllerReference cl (objmeta.truncate km) [] of
        Inl err \<Rightarrow> ret (Inl err)
      | Inr refs \<Rightarrow> do {
          w \<leftarrow> kCreate (pvcC cl) ((kmNewCache km)\<lparr>om_ownerRefs := refs\<rparr>);
          ret (case w of Inl err \<Rightarrow> Inl err | Inr p \<Rightarrow> Inr (Some p)) })"

definition kmEnsureCache :: "cluster \<Rightarrow> kopiamaintenance \<Rightarrow> (gerror + pvc option) kube" where
  "kmEnsureCache cl km =
     (case km_cachePVC (km_spec km) of
        Some (c # cs) \<Rightarrow> do {
          r \<leftarrow> kGet (pvcC cl) (om_namespace km, c # cs);
          ret (case r of
            Inl err \<Rightarrow> Inl (wrapErr (''failed to get cache PVC '' @ (c # cs)) err)
          | Inr p \<Rightarrow> Inr (Some p)) }
      | _ \<Rightarrow>
          if km_cacheStorageClassName (km_spec km) = None \<and> km_cacheAccessModes (km_spec km) = None
          then ret (Inr None)
          else do {
            r \<leftarrow> kGet (pvcC cl) (om_namespace km, kmCacheName km);
            case r of
              Inr p \<Rightarrow> ret (Inr (Some p))
            | Inl err \<Rightarrow> if isNotFound err then kmCreateCache cl km else ret (Inl err) })"

definition kmConfigureCacheVolume :: "pvc option \<Rightarrow> kopiamaintenance \<Rightarrow> podtemplate \<Rightarrow> podtemplate" where
  "kmConfigureCacheVolume cachePVC km t =
     appendVolume ''kopia-cache''
       (case cachePVC of
          Some p \<Rightarrow> noVolumeSource\<lparr>vs_pvc := Some (om_name p, False)\<rparr>
        | None \<Rightarrow> noVolumeSource\<lparr>vs_emptyDir := Some ([],
            Some (case km_cacheCapacity (km_spec km) of Some c \<Rightarrow> c | None \<Rightarrow> 8 * Gi))\<rparr>)
       (appendMount ''kopia-cache'' ''/cache'' t)"

section \<open>What the pods should be\<close>

definition desiredResources :: "kopiamaintenance \<Rightarrow> resources" where
  "desiredResources km = (case km_resources (km_spec km) of Some r \<Rightarrow> r | None \<Rightarrow> noResources)"

definition desiredPodSecurityContext :: "kopiamaintenance \<Rightarrow> podsecctx" where
  "desiredPodSecurityContext km =
     (case km_podSecurityContext (km_spec km) of
        Some c \<Rightarrow> c
      | None \<Rightarrow> emptyPodSecurityContext\<lparr>px_runAsNonRoot := Some True, px_fsGroup := Some 1000,
          px_runAsUser := Some 1000\<rparr>)"

definition hardenedSecurityContext :: secctx where
  "hardenedSecurityContext = emptySecurityContext\<lparr>sx_allowPrivilegeEscalation := Some False,
     sx_capabilities := Some \<lparr>cap_add = [], cap_drop = [''ALL'']\<rparr>, sx_privileged := Some False,
     sx_readOnlyRootFilesystem := Some True, sx_runAsNonRoot := Some True\<rparr>"

definition desiredContainerSecurityContext :: "kopiamaintenance \<Rightarrow> secctx" where
  "desiredContainerSecurityContext km =
     (case km_containerSecurityContext (km_spec km) of Some c \<Rightarrow> c | None \<Rightarrow> hardenedSecurityContext)"

definition desiredServiceAccountName :: "kopiamaintenance \<Rightarrow> string" where
  "desiredServiceAccountName km =
     (case km_serviceAccountName (km_spec km) of Some n \<Rightarrow> n | None \<Rightarrow> ''default'')"

definition desiredLabels :: "kopiamaintenance \<Rightarrow> strmap" where
  "desiredLabels km = fold (\<lambda>(k, v). map_put k v) (entries (km_moverPodLabels (km_spec km)))
     [(''volsync.backube/kopia-maintenance'', ''true''), (''volsync.backube/maintenance-name'', om_name km)]"

definition tooManyFailures :: "kopiamaintenance \<Rightarrow> bool" where
  "tooManyFailures km \<longleftrightarrow>
     (case km_status km of Some st \<Rightarrow> kms_maintenanceFailures st \<ge> maxConsecutiveFailures | None \<Rightarrow> False)"

definition maintenanceEnv :: "cluster \<Rightarrow> kopiamaintenance \<Rightarrow> envvar list" where
  "maintenanceEnv cl km =
     [envVal ''DIRECTION'' ''maintenance'', envVal ''DATA_DIR'' ''/data'', envVal ''KOPIA_CACHE_DIR'' ''/cache''] @
     getCacheLimitEnvVars cl (km_metadataCacheSizeLimitMB (km_spec km)) (km_contentCacheSizeLimitMB (km_spec km))
       (km_cacheCapacity (km_spec km))"

definition maintenanceContainer :: "cluster \<Rightarrow> string \<Rightarrow> kopiamaintenance \<Rightarrow> secctx \<Rightarrow> container" where
  "maintenanceContainer cl img km ctx = \<lparr>ct_name = ''kopia-maintenance'', ct_env = maintenanceEnv cl km,
     ct_envFrom = [GetRepositorySecret km], ct_command = [''/mover-kopia/entry.sh''], ct_args = [],
     ct_image = getContainerImage cl img, ct_imagePullPolicy = ''IfNotPresent'', ct_securityContext = Some ctx,
     ct_volumeMounts = [], ct_resources = desiredResources km, ct_volumeDevices = [], ct_ports = []\<rparr>"

definition checkRepositorySecret :: "cluster \<Rightarrow> kopiamaintenance \<Rightarrow> gerror option kube" where
  "checkRepositorySecret cl km = do {
     r \<leftarrow> kGet (secretC cl) (om_namespace km, GetRepositorySecret km);
     ret (case r of
       Inr _ \<Rightarrow> None
     | Inl err \<Rightarrow> Some (if isNotFound err
         then Errorf (''repository secret '' @ GetRepositorySecret km @ '' not found in namespace '' @ om_namespace km)
         else wrapErr ''failed to get repository secret'' err)) }"

text \<open>The cache and the additional volumes of a template, which has one container.\<close>

definition addVolumes :: "cluster \<Rightarrow> kopiamaintenance \<Rightarrow> podtemplate \<Rightarrow> (gerror + podtemplate) kube" where
  "addVolumes cl km t = do {
     c \<leftarrow> kmEnsureCache cl km;
     case c of
       Inl err \<Rightarrow> ret (Inl (wrapErr ''failed to ensure cache'' err))
     | Inr cachePVC \<Rightarrow> do {
         (err, t') \<leftarrow> moverVolumesLoop cl (om_namespace km) (km_moverVolumes (km_spec km))
           (kmConfigureCacheVolume cachePVC km t);
         ret (case err of
           Some e \<Rightarrow> Inl (wrapErr ''failed to add mover volumes'' e)
         | None \<Rightarrow> Inr t') } }"


section \<open>The manual job\<close>

definition kmManualLabels :: "kopiamaintenance \<Rightarrow> strmap" where
  "kmManualLabels km = [(''volsync.backube/kopia-maintenance'', ''true''),
     (''volsync.backube/maintenance-type'', ''manual''), (''volsync.backube/maintenance-name'', om_name km)]"

definition manualJob :: "cluster \<Rightarrow> string \<Rightarrow> kopiamaintenance \<Rightarrow> job" where
  "manualJob cl img km = (newJob (om_namespace km) (manualJobName km))\<lparr>
     om_labels := kmManualLabels km,
     job_template := emptyTemplate\<lparr>
       om_labels := km_moverPodLabels (km_spec km),
       pt_restartPolicy := ''Never'',
       pt_securityContext := Some (desiredPodSecurityContext km),
       pt_containers := [maintenanceContainer cl img km (hardenedSecurityContext\<lparr>sx_runAsUser := Some 1000\<rparr>)],
       pt_affinity := km_affinity (km_spec km)\<rparr>,
     job_backoffLimit := Some 5,
     job_activeDeadlineSeconds := Some (GetActiveDeadlineSeconds km),
     job_ttlSecondsAfterFinished := Some 3600\<rparr>"

definition ensureMaintenanceJob :: "cluster \<Rightarrow> string \<Rightarrow> kopiamaintenance \<Rightarrow> (gerror + string) kube" where
  "ensureMaintenanceJob cl img km = do {
     s \<leftarrow> checkRepositorySecret cl km;
     case s of
       Some err \<Rightarrow> ret (Inl err)
     | None \<Rightarrow> do {
         r \<leftarrow> kGet (jobC cl) (om_namespace km, manualJobName km);
         case r of
           Inr _ \<Rightarrow> ret (Inr (manualJobName km))
         | Inl err \<Rightarrow>
             if \<not> isNotFound err then ret (Inl (wrapErr ''failed to check for existing job'' err))
             else do {
               v \<leftarrow> addVolumes cl km (job_template (manualJob cl img km));
               case v of
                 Inl e \<Rightarrow> ret (Inl e)
               | Inr t \<Rightarrow>
                   (case setControllerReference cl (objmeta.truncate km) [] of
                      Inl e \<Rightarrow> ret (Inl (wrapErr ''failed to set owner reference'' e))
                    | Inr refs \<Rightarrow> do {
                        w \<leftarrow> kCreate (jobC cl) ((manualJob cl img km)\<lparr>job_template := t, om_ownerRefs := refs\<rparr>);
                        ret (case w of
                          Inl e \<Rightarrow> Inl (wrapErr ''failed to create job'' e)
                        | Inr _ \<Rightarrow> Inr (manualJobName km)) }) } } }"

definition cleanupOldManualJobs :: "cluster \<Rightarrow> kopiamaintenance \<Rightarrow> gerror option kube" where
  "cleanupOldManualJobs cl km = do {
     l \<leftarrow> kList (jobC cl) (Some (om_namespace km)) (LabelsAre (kmManualLabels km));
     case l of
       Inl err \<Rightarrow> ret (Some err)
     | Inr js \<Rightarrow>
         (let currentJobName = (if HasManualTrigger km then manualJobName km else []) in
          forEach (\<lambda>j. if om_name j = currentJobName then ret None
             else do { _ \<leftarrow> kDelete (jobC cl) j None; ret None }) js) }"

section \<open>The CronJob\<close>

definition caVolume :: "string \<Rightarrow> volumesource \<Rightarrow> podtemplate \<Rightarrow> podtemplate" where
  "caVolume origin src t =
     (let name = ''custom-ca-'' @ origin; dir = ''/etc/ssl/custom-ca-from-'' @ origin in
      appendVolume name src
        (onContainer0 (\<lambda>c. c\<lparr>
           ct_volumeMounts := ct_volumeMounts c @ [(mountAt name dir)\<lparr>vm_readOnly := True\<rparr>],
           ct_env := ct_env c @ [envVal ''KOPIA_CUSTOM_CA'' (dir @ ''/ca-bundle.crt'')]\<rparr>) t))"

definition caVolumes :: "kopiamaintenance \<Rightarrow> podtemplate \<Rightarrow> podtemplate" where
  "caVolumes km t =
     (case kmr_customCA (km_repository (km_spec km)) of
        None \<Rightarrow> t
      | Some ca \<Rightarrow>
          let t1 = (if ca_configMapName ca \<noteq> []
                then caVolume ''configmap'' (noVolumeSource\<lparr>vs_configMap := Some \<lparr>cv_name = ca_configMapName ca,
                  cv_items = [(ca_key ca, ''ca-bundle.crt'', None)], cv_defaultMode = None\<rparr>\<rparr>) t
                else t)
          in if ca_secretName ca \<noteq> []
             then caVolume ''secret'' (noVolumeSource\<lparr>vs_secret := Some \<lparr>sv_secretName = ca_secretName ca,
               sv_items = [(ca_key ca, ''ca-bundle.crt'', None)], sv_defaultMode = None\<rparr>\<rparr>) t1
             else t1)"

definition cronTemplate :: "cluster \<Rightarrow> string \<Rightarrow> kopiamaintenance \<Rightarrow> podtemplate" where
  "cronTemplate cl img km = caVolumes km
     (appendVolume ''tmp'' (noVolumeSource\<lparr>vs_emptyDir := Some ([], None)\<rparr>)
       (appendMount ''tmp'' ''/tmp'' (emptyTemplate\<lparr>
          om_labels := desiredLabels km,
          pt_serviceAccountName := desiredServiceAccountName km,
          pt_restartPolicy := ''OnFailure'',
          pt_securityContext := Some (desiredPodSecurityContext km),
          pt_containers := [maintenanceContainer cl img km (desiredContainerSecurityContext km)],
          pt_affinity := km_affinity (km_spec km),
          pt_nodeSelector := km_nodeSelector (km_spec km),
          pt_tolerations := km_tolerations (km_spec km)\<rparr>)))"

definition kmBuildCronJob ::
  "cluster \<Rightarrow> string \<Rightarrow> kopiamaintenance \<Rightarrow> string \<Rightarrow> (gerror + cronjob) kube" where
  "kmBuildCronJob cl img km cronJobName = do {
     v \<leftarrow> addVolumes cl km (cronTemplate cl img km);
     ret (case v of
       Inl err \<Rightarrow> Inl err
     | Inr t \<Rightarrow> Inr ((newCronJob (om_namespace km) cronJobName)\<lparr>
         om_labels := [(''volsync.backube/kopia-maintenance'', ''true''),
           (''volsync.backube/maintenance-name'', om_name km), (''app.kubernetes.io/name'', ''volsync''),
           (''app.kubernetes.io/component'', ''kopia-maintenance''), (''app.kubernetes.io/managed-by'', ''volsync'')],
         cj_schedule := GetSchedule km,
         cj_concurrencyPolicy := ''Forbid'',
         cj_suspend := Some (km_suspend (km_spec km) = Some True \<or> tooManyFailures km),
         cj_successfulJobsHistoryLimit :=
           (case km_successfulJobsHistoryLimit (km_spec km) of Some n \<Rightarrow> Some n | None \<Rightarrow> Some 3),
         cj_failedJobsHistoryLimit :=
           (case km_failedJobsHistoryLimit (km_spec km) of Some n \<Rightarrow> Some n | None \<Rightarrow> Some 1),
         cj_backoffLimit := Some 5,
         cj_activeDeadlineSeconds := Some (GetActiveDeadlineSeconds km),
         cj_template := t\<rparr>)) }"

text \<open>
  The comparison of the existing CronJob with the specification is a sequence of conditional
  assignments; \<open>setWhen p f\<close> is one of them on the pair of \<open>updateNeeded\<close> and the CronJob.
\<close>

definition setWhen :: "('a \<Rightarrow> bool) \<Rightarrow> ('a \<Rightarrow> 'a) \<Rightarrow> bool \<times> 'a \<Rightarrow> bool \<times> 'a" where
  "setWhen p f = (\<lambda>(needed, x). if p x then (True, f x) else (needed, x))"

definition firstContainer :: "cronjob \<Rightarrow> container option" where
  "firstContainer cj = (case pt_containers (cj_template cj) of [] \<Rightarrow> None | c # _ \<Rightarrow> Some c)"

definition containerIs :: "(container \<Rightarrow> bool) \<Rightarrow> cronjob \<Rightarrow> bool" where
  "containerIs p cj \<longleftrightarrow> (case firstContainer cj of Some c \<Rightarrow> p c | None \<Rightarrow> False)"

definition onTemplate :: "(podtemplate \<Rightarrow> podtemplate) \<Rightarrow> cronjob \<Rightarrow> cronjob" where
  "onTemplate f cj = cj\<lparr>cj_template := f (cj_template cj)\<rparr>"

definition onContainer :: "(container \<Rightarrow> container) \<Rightarrow> cronjob \<Rightarrow> cronjob" where
  "onContainer f = onTemplate (onContainer0 f)"

definition setSuspend :: "kopiamaintenance \<Rightarrow> bool \<times> cronjob \<Rightarrow> bool \<times> cronjob" where
  "setSuspend km =
     (if tooManyFailures km then
        setWhen (\<lambda>cj. cj_suspend cj \<noteq> Some True) (\<lambda>cj. cj\<lparr>cj_suspend := Some True\<rparr>)
      else
        (let suspend = (km_suspend (km_spec km) = Some True) in
         setWhen (\<lambda>cj. case cj_suspend cj of Some b \<Rightarrow> b \<noteq> suspend | None \<Rightarrow> suspend)
           (\<lambda>cj. cj\<lparr>cj_suspend := Some suspend\<rparr>)))"

definition setHistoryLimits :: "kopiamaintenance \<Rightarrow> bool \<times> cronjob \<Rightarrow> bool \<times> cronjob" where
  "setHistoryLimits km x =
     (let s = km_successfulJobsHistoryLimit (km_spec km); f = km_failedJobsHistoryLimit (km_spec km) in
      setWhen (\<lambda>cj. f \<noteq> None \<and> cj_failedJobsHistoryLimit cj \<noteq> f) (\<lambda>cj. cj\<lparr>cj_failedJobsHistoryLimit := f\<rparr>)
        (setWhen (\<lambda>cj. s \<noteq> None \<and> cj_successfulJobsHistoryLimit cj \<noteq> s)
          (\<lambda>cj. cj\<lparr>cj_successfulJobsHistoryLimit := s\<rparr>) x))"

definition setContainer :: "cluster \<Rightarrow> string \<Rightarrow> kopiamaintenance \<Rightarrow> bool \<times> cronjob \<Rightarrow> bool \<times> cronjob" where
  "setContainer cl img km x =
     (let psc = desiredPodSecurityContext km; csc = desiredContainerSecurityContext km in
      setWhen (containerIs (\<lambda>c. ct_image c \<noteq> getContainerImage cl img))
        (onContainer (\<lambda>c. c\<lparr>ct_image := getContainerImage cl img\<rparr>))
      (setWhen (containerIs (\<lambda>c. \<not> containerSecurityContextEqual (ct_securityContext c) (Some csc)))
        (onContainer (\<lambda>c. c\<lparr>ct_securityContext := Some csc\<rparr>))
      (setWhen (\<lambda>cj. \<not> podSecurityContextEqual (pt_securityContext (cj_template cj)) (Some psc))
        (onTemplate (\<lambda>t. t\<lparr>pt_securityContext := Some psc\<rparr>))
      (setWhen (containerIs (\<lambda>c. \<not> resourceRequirementsEqual (ct_resources c) (desiredResources km)))
        (onContainer (\<lambda>c. c\<lparr>ct_resources := desiredResources km\<rparr>)) x))))"

definition setPlacement :: "kopiamaintenance \<Rightarrow> bool \<times> cronjob \<Rightarrow> bool \<times> cronjob" where
  "setPlacement km x =
     (let sp = km_spec km; deadline = Some (GetActiveDeadlineSeconds km) in
      setWhen (\<lambda>cj. pt_tolerations (cj_template cj) \<noteq> km_tolerations sp)
        (onTemplate (\<lambda>t. t\<lparr>pt_tolerations := km_tolerations sp\<rparr>))
      (setWhen (\<lambda>cj. \<not> mapEqual (pt_nodeSelector (cj_template cj)) (km_nodeSelector sp))
        (onTemplate (\<lambda>t. t\<lparr>pt_nodeSelector := km_nodeSelector sp\<rparr>))
      (setWhen (\<lambda>cj. pt_affinity (cj_template cj) \<noteq> km_affinity sp)
        (onTemplate (\<lambda>t. t\<lparr>pt_affinity := km_affinity sp\<rparr>))
      (setWhen (\<lambda>cj. \<not> mapEqual (om_labels (cj_template cj)) (desiredLabels km))
        (onTemplate (\<lambda>t. t\<lparr>om_labels := desiredLabels km\<rparr>))
      (setWhen (\<lambda>cj. pt_serviceAccountName (cj_template cj) \<noteq> desiredServiceAccountName km)
        (onTemplate (\<lambda>t. t\<lparr>pt_serviceAccountName := desiredServiceAccountName km\<rparr>))
      (setWhen (\<lambda>cj. cj_activeDeadlineSeconds cj \<noteq> deadline)
        (\<lambda>cj. cj\<lparr>cj_activeDeadlineSeconds := deadline\<rparr>) x))))))"

definition updateFromSpec ::
  "cluster \<Rightarrow> string \<Rightarrow> kopiamaintenance \<Rightarrow> cronjob \<Rightarrow> bool \<times> cronjob" where
  "updateFromSpec cl img km cj =
     setPlacement km (setContainer cl img km (setHistoryLimits km (setSuspend km
       (setWhen (\<lambda>cj. cj_schedule cj \<noteq> GetSchedule km) (\<lambda>cj. cj\<lparr>cj_schedule := GetSchedule km\<rparr>) (False, cj)))))"

definition templateMounts :: "podtemplate \<Rightarrow> volumemount list" where
  "templateMounts t = (case pt_containers t of [] \<Rightarrow> [] | c # _ \<Rightarrow> ct_volumeMounts c)"

definition updateVolumes :: "cronjob \<Rightarrow> bool \<times> cronjob \<Rightarrow> bool \<times> cronjob" where
  "updateVolumes desired =
     (let vols = pt_volumes (cj_template desired); mounts = templateMounts (cj_template desired) in
      setWhen (\<lambda>cj. pt_volumes (cj_template cj) \<noteq> vols \<or> templateMounts (cj_template cj) \<noteq> mounts)
        (\<lambda>cj. onContainer (\<lambda>c. c\<lparr>ct_volumeMounts := mounts\<rparr>) (onTemplate (\<lambda>t. t\<lparr>pt_volumes := vols\<rparr>) cj)))"

definition updateCronJob ::
  "cluster \<Rightarrow> string \<Rightarrow> kopiamaintenance \<Rightarrow> cronjob \<Rightarrow> (gerror + string) go kube" where
  "updateCronJob cl img km existing = do {
     (if tooManyFailures km \<and> cj_suspend existing \<noteq> Some True
      then eventf EventWarning EvCronJobSuspended else ret ());
     d \<leftarrow> kmBuildCronJob cl img km (kmCronJobName km);
     case d of
       Inl err \<Rightarrow> ret (Ret (Inl (wrapErr ''failed to build desired CronJob for comparison'' err)))
     | Inr desired \<Rightarrow>
         if firstContainer existing = None then ret Panic
         else (case updateVolumes desired (updateFromSpec cl img km existing) of
           (needed, cj) \<Rightarrow>
             if needed then do {
               w \<leftarrow> kUpdate (cronJobC cl) cj;
               ret (Ret (case w of
                 Inl err \<Rightarrow> Inl (wrapErr ''failed to update CronJob'' err)
               | Inr _ \<Rightarrow> Inr (kmCronJobName km))) }
             else ret (Ret (Inr (kmCronJobName km)))) }"

definition createCronJob :: "cluster \<Rightarrow> string \<Rightarrow> kopiamaintenance \<Rightarrow> (gerror + string) kube" where
  "createCronJob cl img km = do {
     d \<leftarrow> kmBuildCronJob cl img km (kmCronJobName km);
     case d of
       Inl err \<Rightarrow> ret (Inl (wrapErr ''failed to build CronJob'' err))
     | Inr cj \<Rightarrow>
         (case setControllerReference cl (objmeta.truncate km) [] of
            Inl err \<Rightarrow> ret (Inl (wrapErr ''failed to set owner reference'' err))
          | Inr refs \<Rightarrow> do {
              w \<leftarrow> kCreate (cronJobC cl) (cj\<lparr>om_ownerRefs := refs\<rparr>);
              case w of
                Inl err \<Rightarrow> ret (Inl (wrapErr ''failed to create CronJob'' err))
              | Inr _ \<Rightarrow> do {
                  eventf EventNormal EvCronJobCreated;
                  ret (Inr (kmCronJobName km)) } }) }"

definition kmEnsureCronJob ::
  "cluster \<Rightarrow> string \<Rightarrow> kopiamaintenance \<Rightarrow> (gerror + string) go kube" where
  "kmEnsureCronJob cl img km = do {
     s \<leftarrow> checkRepositorySecret cl km;
     case s of
       Some err \<Rightarrow> ret (Ret (Inl err))
     | None \<Rightarrow> do {
         r \<leftarrow> kGet (cronJobC cl) (om_namespace km, kmCronJobName km);
         case r of
           Inr existing \<Rightarrow> updateCronJob cl img km existing
         | Inl err \<Rightarrow>
             if \<not> isNotFound err then ret (Ret (Inl (wrapErr ''failed to get CronJob'' err)))
             else do { x \<leftarrow> createCronJob cl img km; ret (Ret x) } } }"

definition cleanupCronJob :: "cluster \<Rightarrow> kopiamaintenance \<Rightarrow> gerror option kube" where
  "cleanupCronJob cl km = do {
     e \<leftarrow> kDelete (cronJobC cl) (newCronJob (om_namespace km) (kmCronJobName km)) None;
     ret (map_option (wrapErr ''failed to delete CronJob'') (IgnoreNotFound e)) }"


section \<open>The status\<close>

definition kmPatchStatus ::
  "cluster \<Rightarrow> kopiamaintenance \<Rightarrow> kopiamaintenance \<Rightarrow> (gerror + kopiamaintenance) kube" where
  "kmPatchStatus cl base km =
     ask (\<lambda>tr. kmStatusPatch cl tr base km) (CStatusPatch (OKopiaMaintenance base) (OKopiaMaintenance km))"

definition kmStatusOf :: "kopiamaintenance \<Rightarrow> kmStatus" where
  "kmStatusOf km = (case km_status km of Some st \<Rightarrow> st | None \<Rightarrow> emptyKmStatus)"

definition onStatus :: "(kmStatus \<Rightarrow> kmStatus) \<Rightarrow> kopiamaintenance \<Rightarrow> kopiamaintenance" where
  "onStatus f km = km\<lparr>km_status := Some (f (kmStatusOf km))\<rparr>"

definition kmCondition :: "kopiamaintenance \<Rightarrow> string \<Rightarrow> conditionStatus \<Rightarrow> string \<Rightarrow> string \<Rightarrow> condition" where
  "kmCondition km ty status reason msg = \<lparr>co_type = ty, co_status = status, co_reason = reason,
     co_message = msg, co_lastTransitionTime = 0, co_observedGeneration = km_generation km\<rparr>"

definition progressingCondition :: "kopiamaintenance \<Rightarrow> string \<Rightarrow> gerror option \<Rightarrow> condition" where
  "progressingCondition km activeCronJob reconcileErr =
     (case reconcileErr of
        Some err \<Rightarrow> kmCondition km ''Progressing'' ConditionTrue ''ReconcileError''
          (''Reconciliation in progress, error: '' @ errorMsg err)
      | None \<Rightarrow>
          if kms_observedGeneration (kmStatusOf km) < km_generation km then
            kmCondition km ''Progressing'' ConditionTrue ''NewGenerationObserved'' ''Processing spec update''
          else if \<not> GetEnabled km then
            kmCondition km ''Progressing'' ConditionFalse ''MaintenanceDisabled'' ''Maintenance is disabled''
          else if activeCronJob \<noteq> [] then
            kmCondition km ''Progressing'' ConditionFalse ''ReconcileComplete'' ''CronJob successfully configured''
          else kmCondition km ''Progressing'' ConditionTrue ''CreatingCronJob'' ''Creating maintenance CronJob'')"

definition readyCondition :: "kopiamaintenance \<Rightarrow> string \<Rightarrow> gerror option \<Rightarrow> condition" where
  "readyCondition km activeCronJob reconcileErr =
     (case reconcileErr of
        Some err \<Rightarrow> kmCondition km ''Ready'' ConditionFalse ''ReconcileFailed'' (''Reconcile failed: '' @ errorMsg err)
      | None \<Rightarrow>
          if \<not> GetEnabled km then
            kmCondition km ''Ready'' ConditionFalse ''MaintenanceDisabled'' ''Maintenance is disabled''
          else if activeCronJob \<noteq> [] then
            kmCondition km ''Ready'' ConditionTrue ''MaintenanceActive''
              (''Maintenance CronJob '' @ activeCronJob @ '' is active for repository '' @ GetRepositorySecret km)
          else kmCondition km ''Ready'' ConditionFalse ''CronJobCreationFailed'' ''Failed to create maintenance CronJob'')"

definition healthyCondition :: "kopiamaintenance \<Rightarrow> condition" where
  "healthyCondition km =
     (if kms_maintenanceFailures (kmStatusOf km) \<ge> 5 then
        kmCondition km ''MaintenanceHealthy'' ConditionFalse ''ExcessiveFailures''
          (''Maintenance has failed '' @ itoa (kms_maintenanceFailures (kmStatusOf km)) @
           '' times. Manual intervention may be required.'')
      else kmCondition km ''MaintenanceHealthy'' ConditionTrue ''OperatingNormally'' ''Maintenance is operating normally'')"

definition updateConditions ::
  "cluster \<Rightarrow> string \<Rightarrow> gerror option \<Rightarrow> kopiamaintenance \<Rightarrow> kopiamaintenance" where
  "updateConditions cl activeCronJob reconcileErr km =
     onStatus (\<lambda>st. st\<lparr>kms_conditions := foldl (setStatusCondition cl) (kms_conditions st)
       [healthyCondition km, progressingCondition km activeCronJob reconcileErr,
        readyCondition km activeCronJob reconcileErr]\<rparr>) km"

definition kmCalculateNextScheduledTime :: "cluster \<Rightarrow> string \<Rightarrow> (gerror + gtime) kube" where
  "kmCalculateNextScheduledTime cl schedule =
     (case cronParseFields cl schedule of
        Inl err \<Rightarrow> ret (Inl (wrapErr ''failed to parse cron schedule'' err))
      | Inr next \<Rightarrow> do { t \<leftarrow> now cl; ret (Inr (next t)) })"

definition recentFailure :: "gtime \<Rightarrow> job \<Rightarrow> bool" where
  "recentFailure cutoffTime j \<longleftrightarrow> cutoffTime < om_creationTimestamp j \<and> job_failed j > 0 \<and>
     list_ex (\<lambda>c. jc_type c = JobFailed \<and> jc_status c = ConditionTrue \<and>
       jc_reason c \<in> set [''BackoffLimitExceeded'', ''DeadlineExceeded'']) (job_conditions j)"

definition kmNextTime :: "cluster \<Rightarrow> kopiamaintenance \<Rightarrow> cronjob \<Rightarrow> kmStatus \<Rightarrow> kmStatus kube" where
  "kmNextTime cl km cj st =
     (if GetSchedule km \<noteq> [] then do {
        n \<leftarrow> kmCalculateNextScheduledTime cl (GetSchedule km);
        ret (case n of
          Inr t \<Rightarrow> st\<lparr>kms_nextScheduledMaintenance := Some t\<rparr>
        | Inl _ \<Rightarrow>
            (case cj_lastScheduleTime cj of
               Some l \<Rightarrow> st\<lparr>kms_nextScheduledMaintenance := Some (l + 24 * hour)\<rparr>
             | None \<Rightarrow> st)) }
      else ret st)"

definition countFailures :: "gtime \<Rightarrow> cronjob \<Rightarrow> job list \<Rightarrow> kmStatus \<Rightarrow> kmStatus" where
  "countFailures cutoffTime cj js st =
     (let recentFailures = wrap32 (int (length (filter (recentFailure cutoffTime) js))) in
      if recentFailures > 0 \<and>
         (case cj_lastSuccessfulTime cj of None \<Rightarrow> True | Some s \<Rightarrow> s < cutoffTime)
      then st\<lparr>kms_maintenanceFailures := recentFailures\<rparr> else st)"

definition lastSuccess :: "cronjob \<Rightarrow> kmStatus \<Rightarrow> kmStatus" where
  "lastSuccess cj st =
     (case cj_lastSuccessfulTime cj of
        Some t \<Rightarrow> st\<lparr>kms_lastMaintenanceTime := Some t, kms_maintenanceFailures := 0\<rparr>
      | None \<Rightarrow> st)"

definition observeCronJob ::
  "cluster \<Rightarrow> kopiamaintenance \<Rightarrow> string \<Rightarrow> kmStatus \<Rightarrow> kmStatus kube" where
  "observeCronJob cl km activeCronJob st = do {
     r \<leftarrow> kGet (cronJobC cl) (om_namespace km, activeCronJob);
     case r of
       Inl _ \<Rightarrow> ret st
     | Inr cj \<Rightarrow> do {
         st1 \<leftarrow> kmNextTime cl km cj st;
         l \<leftarrow> kList (jobC cl) (Some (om_namespace km))
           (LabelsAre [(''volsync.backube/kopia-maintenance'', ''true''),
             (''volsync.backube/maintenance-name'', om_name km)]);
         case l of
           Inl _ \<Rightarrow> ret (lastSuccess cj st1)
         | Inr js \<Rightarrow> do {
             t \<leftarrow> now cl;
             ret (countFailures (t - 24 * hour) cj js (lastSuccess cj st1)) } } }"

definition updateStatusWithError ::
  "cluster \<Rightarrow> kopiamaintenance \<Rightarrow> string \<Rightarrow> gerror option \<Rightarrow> (gerror option \<times> kopiamaintenance) kube" where
  "updateStatusWithError cl km activeCronJob reconcileErr = do {
     g \<leftarrow> kGet (kmC cl) (om_namespace km, om_name km);
     t \<leftarrow> now cl;
     st \<leftarrow> (let st1 = (kmStatusOf km)\<lparr>kms_observedGeneration := km_generation km,
               kms_activeCronJob := activeCronJob, kms_lastReconcileTime := Some t\<rparr>
           in if activeCronJob \<noteq> [] then observeCronJob cl km activeCronJob st1 else ret st1);
     let original = (case g of Inr x \<Rightarrow> x | Inl _ \<Rightarrow> km);
         updated = updateConditions cl activeCronJob reconcileErr (km\<lparr>km_status := Some st\<rparr>)
     in do {
       p \<leftarrow> kmPatchStatus cl original updated;
       ret (case p of
         Inl err \<Rightarrow> (Some (wrapErr ''failed to patch status'' err), updated)
       | Inr answer \<Rightarrow> (None, answer)) } }"

section \<open>Manual maintenance\<close>

definition requeueIn :: "duration \<Rightarrow> ctrlResult" where
  "requeueIn d = \<lparr>cr_requeue = False, cr_requeueAfter = d\<rparr>"

definition recordManualSuccess :: "cluster \<Rightarrow> kopiamaintenance \<Rightarrow> (ctrlResult \<times> gerror option) kube" where
  "recordManualSuccess cl km = do {
     t \<leftarrow> now cl;
     (err, _) \<leftarrow> updateStatusWithError cl
       (onStatus (\<lambda>st. st\<lparr>kms_lastManualSync := GetManualTrigger km, kms_lastMaintenanceTime := Some t,
          kms_maintenanceFailures := 0\<rparr>) km) [] None;
     case err of
       Some e \<Rightarrow> ret (requeueIn maintenanceJobCheckInterval, Some e)
     | None \<Rightarrow> do {
         eventf EventNormal EvManualMaintenanceCompleted;
         ret (emptyResult, None) } }"

definition recordManualFailure :: "cluster \<Rightarrow> kopiamaintenance \<Rightarrow> job \<Rightarrow> (ctrlResult \<times> gerror option) kube" where
  "recordManualFailure cl km j = do {
     (_, km1) \<leftarrow> updateStatusWithError cl
       (onStatus (\<lambda>st. st\<lparr>kms_maintenanceFailures := wrap32 (kms_maintenanceFailures st + 1)\<rparr>) km) []
       (Some (Errorf ''maintenance job failed''));
     eventf EventWarning EvManualMaintenanceFailed;
     _ \<leftarrow> kDelete (jobC cl) j None;
     _ \<leftarrow> updateStatusWithError cl (onStatus (\<lambda>st. st\<lparr>kms_lastManualSync := GetManualTrigger km\<rparr>) km1) [] None;
     ret (requeueIn minute, Some (Errorf ''maintenance job failed'')) }"

definition manualJobState :: "cluster \<Rightarrow> kopiamaintenance \<Rightarrow> job \<Rightarrow> (ctrlResult \<times> gerror option) kube" where
  "manualJobState cl km j =
     (if job_succeeded j > 0 then recordManualSuccess cl km
      else if job_failed j > 0 then recordManualFailure cl km j
      else ret (requeueIn (10 * second), None))"

definition handleManualTrigger ::
  "cluster \<Rightarrow> string \<Rightarrow> kopiamaintenance \<Rightarrow> (ctrlResult \<times> gerror option) kube" where
  "handleManualTrigger cl img km =
     (if km_status km \<noteq> None \<and> kms_lastManualSync (kmStatusOf km) = GetManualTrigger km
      then ret (emptyResult, None)
      else do {
        existing \<leftarrow> kGet (jobC cl) (om_namespace km, manualJobName km);
        if tooManyFailures km then do {
          eventf EventWarning EvMaintenanceBlocked;
          _ \<leftarrow> updateStatusWithError cl (onStatus (\<lambda>st. st\<lparr>kms_lastManualSync := GetManualTrigger km\<rparr>) km) []
            (Some (Errorf (''blocked after '' @ itoa (kms_maintenanceFailures (kmStatusOf km)) @ '' failures'')));
          ret (emptyResult, None) }
        else (case existing of
          Inr j \<Rightarrow> manualJobState cl km j
        | Inl _ \<Rightarrow> do {
            e \<leftarrow> ensureMaintenanceJob cl img km;
            case e of
              Inl err \<Rightarrow> do {
                eventf EventWarning EvJobCreationFailed;
                _ \<leftarrow> updateStatusWithError cl km [] (Some err);
                ret (requeueIn minute, Some err) }
            | Inr jobName \<Rightarrow> do {
                r \<leftarrow> kGet (jobC cl) (om_namespace km, jobName);
                case r of
                  Inl err \<Rightarrow> ret (requeueIn (10 * second), Some err)
                | Inr j \<Rightarrow> manualJobState cl km j } }) })"

section \<open>Reconcile\<close>

text \<open>The annotation that resets the count of failures.\<close>

definition resetFailures :: "cluster \<Rightarrow> kopiamaintenance \<Rightarrow> (gerror + kopiamaintenance) kube" where
  "resetFailures cl km =
     (if map_get (om_annotations km) resetFailuresAnnotation = ''true'' then do {
        u \<leftarrow> kUpdate (kmC cl) ((onStatus (\<lambda>st. st\<lparr>kms_maintenanceFailures := 0\<rparr>) km)
          \<lparr>om_annotations := map_del resetFailuresAnnotation (om_annotations km)\<rparr>);
        case u of
          Inl err \<Rightarrow> ret (Inl err)
        | Inr km1 \<Rightarrow> do { eventf EventNormal EvFailuresReset; ret (Inr km1) } }
      else ret (Inr km))"

definition rejectInvalid :: "cluster \<Rightarrow> kopiamaintenance \<Rightarrow> gerror \<Rightarrow> (ctrlResult \<times> gerror option) kube" where
  "rejectInvalid cl km err = do {
     eventf EventWarning EvValidationFailed;
     _ \<leftarrow> updateStatusWithError cl km [] (Some err);
     ret (emptyResult, Some err) }"

definition finalizeDeleted :: "cluster \<Rightarrow> kopiamaintenance \<Rightarrow> (ctrlResult \<times> gerror option) kube" where
  "finalizeDeleted cl km =
     (if kopiaMaintenanceFinalizer \<in> set (km_finalizers km) then do {
        e \<leftarrow> cleanupCronJob cl km;
        case e of
          Some err \<Rightarrow> ret (requeueIn (30 * second), Some err)
        | None \<Rightarrow> do {
            u \<leftarrow> kUpdate (kmC cl)
              (km\<lparr>km_finalizers := filter (\<lambda>f. f \<noteq> kopiaMaintenanceFinalizer) (km_finalizers km)\<rparr>);
            ret (emptyResult, case u of Inl err \<Rightarrow> Some err | Inr _ \<Rightarrow> None) } }
      else ret (emptyResult, None))"

definition scheduleMaintenance ::
  "cluster \<Rightarrow> string \<Rightarrow> kopiamaintenance \<Rightarrow> (ctrlResult \<times> gerror option) go kube" where
  "scheduleMaintenance cl img km = do {
     e \<leftarrow> kmEnsureCronJob cl img km;
     case e of
       Panic \<Rightarrow> ret Panic
     | Ret (Inl err) \<Rightarrow> do {
         eventf EventWarning EvCronJobFailed;
         _ \<leftarrow> updateStatusWithError cl km [] (Some err);
         ret (Ret (requeueIn minute, Some err)) }
     | Ret (Inr cronJobName) \<Rightarrow> do {
         (err, _) \<leftarrow> updateStatusWithError cl km cronJobName None;
         ret (Ret (requeueIn (5 * minute), err)) } }"

definition runTriggers ::
  "cluster \<Rightarrow> string \<Rightarrow> kopiamaintenance \<Rightarrow> (ctrlResult \<times> gerror option) go kube" where
  "runTriggers cl img km =
     (if HasManualTrigger km then do {
        _ \<leftarrow> cleanupCronJob cl km;
        _ \<leftarrow> cleanupOldManualJobs cl km;
        r \<leftarrow> handleManualTrigger cl img km;
        ret (Ret r) }
      else if HasScheduleTrigger km then do {
        _ \<leftarrow> cleanupOldManualJobs cl km;
        (if km_status km \<noteq> None \<and> kms_maintenanceFailures (kmStatusOf km) \<ge> maxScheduledFailures
         then eventf EventWarning EvExcessiveScheduledFailures else ret ());
        scheduleMaintenance cl img km }
      else scheduleMaintenance cl img km)"

definition reconcileValid ::
  "cluster \<Rightarrow> string \<Rightarrow> kopiamaintenance \<Rightarrow> (ctrlResult \<times> gerror option) go kube" where
  "reconcileValid cl img km =
     (if om_deletionTimestamp km \<noteq> None then do {
        r \<leftarrow> finalizeDeleted cl km; ret (Ret r) }
      else if kopiaMaintenanceFinalizer \<notin> set (km_finalizers km) then do {
        u \<leftarrow> kUpdate (kmC cl) (km\<lparr>km_finalizers := km_finalizers km @ [kopiaMaintenanceFinalizer]\<rparr>);
        ret (Ret (case u of
          Inl err \<Rightarrow> (emptyResult, Some err)
        | Inr _ \<Rightarrow> (\<lparr>cr_requeue = True, cr_requeueAfter = 0\<rparr>, None))) }
      else if \<not> GetEnabled km then do {
        e \<leftarrow> cleanupCronJob cl km;
        case e of
          Some err \<Rightarrow> ret (Ret (requeueIn minute, Some err))
        | None \<Rightarrow> do {
            (err, _) \<leftarrow> updateStatusWithError cl km [] None;
            ret (Ret (emptyResult, err)) } }
      else runTriggers cl img km)"

definition kmReconcile ::
  "cluster \<Rightarrow> string \<Rightarrow> key \<Rightarrow> (ctrlResult \<times> gerror option) go kube" where
  "kmReconcile cl img req = do {
     r \<leftarrow> kGet (kmC cl) req;
     case r of
       Inl err \<Rightarrow> ret (Ret (emptyResult, if isNotFound err then None else Some err))
     | Inr fetched \<Rightarrow> do {
         u \<leftarrow> resetFailures cl fetched;
         case u of
           Inl err \<Rightarrow> ret (Ret (emptyResult, Some err))
         | Inr km \<Rightarrow>
             (case Validate cl km of
                Some err \<Rightarrow> do { x \<leftarrow> rejectInvalid cl km err; ret (Ret x) }
              | None \<Rightarrow> do {
                  v \<leftarrow> ValidateMoverVolumes cl (om_namespace km) (km_moverVolumes (km_spec km));
                  case v of
                    Some err \<Rightarrow> do { x \<leftarrow> rejectInvalid cl km err; ret (Ret x) }
                  | None \<Rightarrow> reconcileValid cl img km }) } }"

end
