(* ===== verification/Km_Laws.thy ===== *)
theory Km_Laws
  imports Km_Controller
begin

text \<open>
  What the KopiaMaintenance controller does: bringing the CronJob in line with the specification settles
  after one round and never touches the environment of the container; what is written and deleted; when a
  manual tag is recorded; the count of failures; the conditions; the finalizer.
\<close>

section \<open>Conditional assignments\<close>

lemma snd_setWhen: "snd (setWhen p f x) = (if p (snd x) then f (snd x) else snd x)"
  by (cases x) (simp add: setWhen_def)

lemma setWhen_keeps: "(\<And>y. g (f y) = g y) \<Longrightarrow> g (snd (setWhen p f x)) = g (snd x)"
  by (simp add: snd_setWhen)

lemma setWhen_settled: "\<not> p x \<Longrightarrow> setWhen p f (u, x) = (u, x)"
  by (simp add: setWhen_def)

lemma firstContainer_on [simp]:
  "firstContainer (onContainer f cj) = map_option f (firstContainer cj)"
  by (simp add: firstContainer_def onContainer_def onTemplate_def onContainer0_def split: list.split)

lemma firstContainer_onTemplate [simp]:
  "(\<And>t. pt_containers (f t) = pt_containers t) \<Longrightarrow> firstContainer (onTemplate f cj) = firstContainer cj"
  by (simp add: firstContainer_def onTemplate_def)

lemma firstContainer_other [simp]:
  "firstContainer (cj\<lparr>cj_schedule := a\<rparr>) = firstContainer cj" "firstContainer (cj\<lparr>cj_suspend := b\<rparr>) = firstContainer cj"
  "firstContainer (cj\<lparr>cj_failedJobsHistoryLimit := c\<rparr>) = firstContainer cj"
  "firstContainer (cj\<lparr>cj_successfulJobsHistoryLimit := c\<rparr>) = firstContainer cj"
  "firstContainer (cj\<lparr>cj_activeDeadlineSeconds := d\<rparr>) = firstContainer cj"
  by (simp_all add: firstContainer_def)

lemma onTemplate_fields [simp]:
  "cj_schedule (onTemplate f cj) = cj_schedule cj" "cj_suspend (onTemplate f cj) = cj_suspend cj"
  "cj_successfulJobsHistoryLimit (onTemplate f cj) = cj_successfulJobsHistoryLimit cj"
  "cj_failedJobsHistoryLimit (onTemplate f cj) = cj_failedJobsHistoryLimit cj"
  "cj_activeDeadlineSeconds (onTemplate f cj) = cj_activeDeadlineSeconds cj"
  "cj_template (onTemplate f cj) = f (cj_template cj)"
  by (simp_all add: onTemplate_def)

lemma onContainer_fields [simp]:
  "cj_schedule (onContainer g cj) = cj_schedule cj" "cj_suspend (onContainer g cj) = cj_suspend cj"
  "cj_successfulJobsHistoryLimit (onContainer g cj) = cj_successfulJobsHistoryLimit cj"
  "cj_failedJobsHistoryLimit (onContainer g cj) = cj_failedJobsHistoryLimit cj"
  "cj_activeDeadlineSeconds (onContainer g cj) = cj_activeDeadlineSeconds cj"
  "pt_volumes (cj_template (onContainer g cj)) = pt_volumes (cj_template cj)"
  "pt_securityContext (cj_template (onContainer g cj)) = pt_securityContext (cj_template cj)"
  "pt_serviceAccountName (cj_template (onContainer g cj)) = pt_serviceAccountName (cj_template cj)"
  "om_labels (cj_template (onContainer g cj)) = om_labels (cj_template cj)"
  "pt_affinity (cj_template (onContainer g cj)) = pt_affinity (cj_template cj)"
  "pt_nodeSelector (cj_template (onContainer g cj)) = pt_nodeSelector (cj_template cj)"
  "pt_tolerations (cj_template (onContainer g cj)) = pt_tolerations (cj_template cj)"
  by (simp_all add: onContainer_def onContainer0_def)

lemma templateMounts_first: "templateMounts (cj_template cj) = (case firstContainer cj of Some c \<Rightarrow> ct_volumeMounts c | None \<Rightarrow> [])"
  by (simp add: templateMounts_def firstContainer_def split: list.split)

text \<open>
  A CronJob is settled for a specification when every assignment of the comparison would be skipped:
  it already is what the specification asks for.
\<close>

definition suspendSettled :: "kopiamaintenance \<Rightarrow> cronjob \<Rightarrow> bool" where
  "suspendSettled km cj \<longleftrightarrow>
     (if tooManyFailures km then cj_suspend cj = Some True
      else (cj_suspend cj = Some True) = (km_suspend (km_spec km) = Some True))"

definition limitsSettled :: "kopiamaintenance \<Rightarrow> cronjob \<Rightarrow> bool" where
  "limitsSettled km cj \<longleftrightarrow>
     (km_successfulJobsHistoryLimit (km_spec km) = None \<or>
        cj_successfulJobsHistoryLimit cj = km_successfulJobsHistoryLimit (km_spec km)) \<and>
     (km_failedJobsHistoryLimit (km_spec km) = None \<or>
        cj_failedJobsHistoryLimit cj = km_failedJobsHistoryLimit (km_spec km))"

definition containerSettled :: "cluster \<Rightarrow> string \<Rightarrow> kopiamaintenance \<Rightarrow> cronjob \<Rightarrow> bool" where
  "containerSettled cl img km cj \<longleftrightarrow>
     (\<forall>c. firstContainer cj = Some c \<longrightarrow>
        resourceRequirementsEqual (ct_resources c) (desiredResources km) \<and>
        containerSecurityContextEqual (ct_securityContext c) (Some (desiredContainerSecurityContext km)) \<and>
        ct_image c = getContainerImage cl img) \<and>
     podSecurityContextEqual (pt_securityContext (cj_template cj)) (Some (desiredPodSecurityContext km))"

definition placementSettled :: "kopiamaintenance \<Rightarrow> cronjob \<Rightarrow> bool" where
  "placementSettled km cj \<longleftrightarrow>
     cj_activeDeadlineSeconds cj = Some (GetActiveDeadlineSeconds km) \<and>
     pt_serviceAccountName (cj_template cj) = desiredServiceAccountName km \<and>
     mapEqual (om_labels (cj_template cj)) (desiredLabels km) \<and>
     pt_affinity (cj_template cj) = km_affinity (km_spec km) \<and>
     mapEqual (pt_nodeSelector (cj_template cj)) (km_nodeSelector (km_spec km)) \<and>
     pt_tolerations (cj_template cj) = km_tolerations (km_spec km)"

definition settled :: "cluster \<Rightarrow> string \<Rightarrow> kopiamaintenance \<Rightarrow> cronjob \<Rightarrow> bool" where
  "settled cl img km cj \<longleftrightarrow> cj_schedule cj = GetSchedule km \<and> suspendSettled km cj \<and> limitsSettled km cj \<and>
     containerSettled cl img km cj \<and> placementSettled km cj"

lemma setSuspend_skips: "suspendSettled km cj \<Longrightarrow> setSuspend km (u, cj) = (u, cj)"
  by (auto simp: suspendSettled_def setSuspend_def setWhen_def split: option.split if_splits)

lemma setHistoryLimits_skips: "limitsSettled km cj \<Longrightarrow> setHistoryLimits km (u, cj) = (u, cj)"
  by (auto simp: limitsSettled_def setHistoryLimits_def setWhen_def)

lemma setContainer_skips: "containerSettled cl img km cj \<Longrightarrow> setContainer cl img km (u, cj) = (u, cj)"
  unfolding setContainer_def Let_def containerSettled_def
  by (cases "firstContainer cj") (simp_all add: setWhen_settled containerIs_def)

lemma setPlacement_skips: "placementSettled km cj \<Longrightarrow> setPlacement km (u, cj) = (u, cj)"
  unfolding setPlacement_def Let_def placementSettled_def by (simp add: setWhen_settled)

lemma settled_no_update: "settled cl img km cj \<Longrightarrow> updateFromSpec cl img km cj = (False, cj)"
  unfolding updateFromSpec_def settled_def
  by (simp add: setWhen_settled setSuspend_skips setHistoryLimits_skips setContainer_skips setPlacement_skips)

text \<open>Each group of assignments settles its own fields and keeps the others.\<close>

lemma comparisons_refl [simp]:
  "resourceRequirementsEqual r r" "containerSecurityContextEqual c c" "podSecurityContextEqual q q" "mapEqual m m"
  by (simp_all add: resourceRequirementsEqual_iff containerSecurityContextEqual_iff podSecurityContextEqual_iff mapEqual_iff)

lemma setSuspend_settles: "suspendSettled km (snd (setSuspend km x))"
  by (auto simp: suspendSettled_def setSuspend_def snd_setWhen Let_def split: option.splits)

lemma setHistoryLimits_settles: "limitsSettled km (snd (setHistoryLimits km x))"
  by (auto simp: limitsSettled_def setHistoryLimits_def snd_setWhen Let_def)

lemma setWhen_sets: "(\<And>y. g (f y) = v) \<Longrightarrow> g (snd (setWhen (\<lambda>y. g y \<noteq> v) f x)) = v"
  by (simp add: snd_setWhen)

lemma setWhen_sets_map: "(\<And>y. g (f y) = v) \<Longrightarrow> mapEqual (g (snd (setWhen (\<lambda>y. \<not> mapEqual (g y) v) f x))) v"
  by (simp add: snd_setWhen)

lemmas field_keeps =
  setWhen_keeps[of cj_schedule] setWhen_keeps[of cj_suspend]
  setWhen_keeps[of cj_successfulJobsHistoryLimit] setWhen_keeps[of cj_failedJobsHistoryLimit]
  setWhen_keeps[of cj_activeDeadlineSeconds] setWhen_keeps[of firstContainer]
  setWhen_keeps[of "\<lambda>cj. pt_securityContext (cj_template cj)"]
  setWhen_keeps[of "\<lambda>cj. pt_serviceAccountName (cj_template cj)"]
  setWhen_keeps[of "\<lambda>cj. om_labels (cj_template cj)"]
  setWhen_keeps[of "\<lambda>cj. pt_affinity (cj_template cj)"]
  setWhen_keeps[of "\<lambda>cj. pt_nodeSelector (cj_template cj)"]
  setWhen_keeps[of "\<lambda>cj. pt_tolerations (cj_template cj)"]
  setWhen_keeps[of "\<lambda>cj. pt_volumes (cj_template cj)"]

lemmas placement_sets =
  setWhen_sets[of cj_activeDeadlineSeconds] setWhen_sets[of "\<lambda>cj. pt_serviceAccountName (cj_template cj)"]
  setWhen_sets[of "\<lambda>cj. pt_affinity (cj_template cj)"] setWhen_sets[of "\<lambda>cj. pt_tolerations (cj_template cj)"]
  setWhen_sets_map[of "\<lambda>cj. om_labels (cj_template cj)"]
  setWhen_sets_map[of "\<lambda>cj. pt_nodeSelector (cj_template cj)"]

lemma setPlacement_settles: "placementSettled km (snd (setPlacement km x))"
  unfolding placementSettled_def setPlacement_def Let_def by (simp add: field_keeps placement_sets)

lemma firstContainer_setWhen:
  "firstContainer (snd (setWhen (containerIs p) (onContainer g) x)) =
   map_option (\<lambda>c. if p c then g c else c) (firstContainer (snd x))"
  by (cases "firstContainer (snd x)") (simp_all add: snd_setWhen containerIs_def)

lemma setContainer_first:
  "firstContainer (snd (setContainer cl img km x)) =
   map_option (\<lambda>c. c\<lparr>ct_image := getContainerImage cl img,
       ct_securityContext := (if containerSecurityContextEqual (ct_securityContext c) (Some (desiredContainerSecurityContext km))
         then ct_securityContext c else Some (desiredContainerSecurityContext km)),
       ct_resources := (if resourceRequirementsEqual (ct_resources c) (desiredResources km) then ct_resources c
         else desiredResources km)\<rparr>) (firstContainer (snd x))"
  unfolding setContainer_def Let_def
  by (cases "firstContainer (snd x)") (simp_all add: firstContainer_setWhen field_keeps)

lemma setContainer_settles: "containerSettled cl img km (snd (setContainer cl img km x))"
proof -
  have "podSecurityContextEqual (pt_securityContext (cj_template (snd (setContainer cl img km x))))
      (Some (desiredPodSecurityContext km))"
    unfolding setContainer_def Let_def by (simp add: field_keeps) (simp add: snd_setWhen)
  then show ?thesis
    unfolding containerSettled_def setContainer_first by (cases "firstContainer (snd x)") simp_all
qed

lemma setPlacement_keeps:
  "cj_schedule (snd (setPlacement km x)) = cj_schedule (snd x)" "cj_suspend (snd (setPlacement km x)) = cj_suspend (snd x)"
  "cj_successfulJobsHistoryLimit (snd (setPlacement km x)) = cj_successfulJobsHistoryLimit (snd x)"
  "cj_failedJobsHistoryLimit (snd (setPlacement km x)) = cj_failedJobsHistoryLimit (snd x)"
  "firstContainer (snd (setPlacement km x)) = firstContainer (snd x)"
  "pt_securityContext (cj_template (snd (setPlacement km x))) = pt_securityContext (cj_template (snd x))"
  "pt_volumes (cj_template (snd (setPlacement km x))) = pt_volumes (cj_template (snd x))"
  unfolding setPlacement_def Let_def by (simp_all add: field_keeps)

lemma setContainer_keeps:
  "cj_schedule (snd (setContainer cl img km x)) = cj_schedule (snd x)"
  "cj_suspend (snd (setContainer cl img km x)) = cj_suspend (snd x)"
  "cj_successfulJobsHistoryLimit (snd (setContainer cl img km x)) = cj_successfulJobsHistoryLimit (snd x)"
  "cj_failedJobsHistoryLimit (snd (setContainer cl img km x)) = cj_failedJobsHistoryLimit (snd x)"
  unfolding setContainer_def Let_def by (simp_all add: field_keeps)

lemma setHistoryLimits_keeps:
  "cj_schedule (snd (setHistoryLimits km x)) = cj_schedule (snd x)"
  "cj_suspend (snd (setHistoryLimits km x)) = cj_suspend (snd x)"
  "firstContainer (snd (setHistoryLimits km x)) = firstContainer (snd x)"
  unfolding setHistoryLimits_def Let_def by (simp_all add: field_keeps)

lemma setSuspend_keeps:
  "cj_schedule (snd (setSuspend km x)) = cj_schedule (snd x)"
  "firstContainer (snd (setSuspend km x)) = firstContainer (snd x)"
  unfolding setSuspend_def Let_def by (simp_all add: field_keeps)

lemma updateFromSpec_settles: "settled cl img km (snd (updateFromSpec cl img km cj))"
  using setPlacement_settles setContainer_settles setHistoryLimits_settles setSuspend_settles
  unfolding settled_def updateFromSpec_def
  by (simp add: suspendSettled_def limitsSettled_def containerSettled_def setPlacement_keeps setContainer_keeps
      setHistoryLimits_keeps setSuspend_keeps snd_setWhen)


section \<open>One round is enough\<close>

lemma updateVolumes_first:
  "firstContainer (snd (updateVolumes d x)) = map_option (\<lambda>c.
     if pt_volumes (cj_template (snd x)) \<noteq> pt_volumes (cj_template d) \<or> ct_volumeMounts c \<noteq> templateMounts (cj_template d)
     then c\<lparr>ct_volumeMounts := templateMounts (cj_template d)\<rparr> else c) (firstContainer (snd x))"
  unfolding updateVolumes_def Let_def snd_setWhen
  by (cases "firstContainer (snd x)") (simp_all add: templateMounts_first)

lemma updateVolumes_keeps:
  "cj_schedule (snd (updateVolumes d x)) = cj_schedule (snd x)" "cj_suspend (snd (updateVolumes d x)) = cj_suspend (snd x)"
  "cj_successfulJobsHistoryLimit (snd (updateVolumes d x)) = cj_successfulJobsHistoryLimit (snd x)"
  "cj_failedJobsHistoryLimit (snd (updateVolumes d x)) = cj_failedJobsHistoryLimit (snd x)"
  "cj_activeDeadlineSeconds (snd (updateVolumes d x)) = cj_activeDeadlineSeconds (snd x)"
  "pt_securityContext (cj_template (snd (updateVolumes d x))) = pt_securityContext (cj_template (snd x))"
  "pt_serviceAccountName (cj_template (snd (updateVolumes d x))) = pt_serviceAccountName (cj_template (snd x))"
  "om_labels (cj_template (snd (updateVolumes d x))) = om_labels (cj_template (snd x))"
  "pt_affinity (cj_template (snd (updateVolumes d x))) = pt_affinity (cj_template (snd x))"
  "pt_nodeSelector (cj_template (snd (updateVolumes d x))) = pt_nodeSelector (cj_template (snd x))"
  "pt_tolerations (cj_template (snd (updateVolumes d x))) = pt_tolerations (cj_template (snd x))"
  unfolding updateVolumes_def Let_def by (simp_all add: field_keeps)

lemma updateVolumes_settled: "settled cl img km (snd (updateVolumes d x)) \<longleftrightarrow> settled cl img km (snd x)"
proof -
  have "containerSettled cl img km (snd (updateVolumes d x)) \<longleftrightarrow> containerSettled cl img km (snd x)"
    unfolding containerSettled_def updateVolumes_keeps updateVolumes_first
    by (cases "firstContainer (snd x)") simp_all
  then show ?thesis
    by (simp add: settled_def suspendSettled_def limitsSettled_def placementSettled_def updateVolumes_keeps)
qed

lemma updateVolumes_sets:
  "firstContainer (snd x) \<noteq> None \<Longrightarrow>
     pt_volumes (cj_template (snd (updateVolumes d x))) = pt_volumes (cj_template d) \<and>
     templateMounts (cj_template (snd (updateVolumes d x))) = templateMounts (cj_template d)"
  by (auto simp: templateMounts_first updateVolumes_first) (simp add: updateVolumes_def Let_def snd_setWhen)

lemma updateVolumes_skips:
  "pt_volumes (cj_template cj) = pt_volumes (cj_template d) \<Longrightarrow>
   templateMounts (cj_template cj) = templateMounts (cj_template d) \<Longrightarrow> updateVolumes d (u, cj) = (u, cj)"
  by (simp add: updateVolumes_def Let_def setWhen_def)

lemma updateFromSpec_first:
  "firstContainer (snd (updateFromSpec cl img km cj)) = firstContainer (snd (setContainer cl img km (False, cj)))"
  unfolding updateFromSpec_def
  by (simp add: setContainer_first setPlacement_keeps setHistoryLimits_keeps setSuspend_keeps field_keeps)



text \<open>The environment of the container of an existing CronJob is never brought up to date: whatever the
  specification says now, the secret of the repository and the cache limits stay those of the creation.\<close>

theorem km_env_never_updated:
  "map_option (\<lambda>c. (ct_env c, ct_envFrom c)) (firstContainer (snd (updateVolumes desired (updateFromSpec cl img km cj)))) =
   map_option (\<lambda>c. (ct_env c, ct_envFrom c)) (firstContainer cj)"
  by (cases "firstContainer cj") (simp_all add: updateVolumes_first updateFromSpec_first setContainer_first)

section \<open>A new CronJob is settled\<close>

lemma moverVolumesLoop_plain:
  "list_all (\<lambda>mv. mv_pvc mv = None) mvs \<Longrightarrow> moverVolumesLoop cl ns mvs t = ret (None, fold addMoverVolume mvs t)"
  by (induction mvs arbitrary: t) (simp_all add: moverVolumeAffinity_def)

text \<open>What the cache and the additional volumes leave of a template.\<close>

definition samePod :: "podtemplate \<Rightarrow> podtemplate \<Rightarrow> bool" where
  "samePod t t' \<longleftrightarrow> om_labels t' = om_labels t \<and> pt_securityContext t' = pt_securityContext t \<and>
     pt_serviceAccountName t' = pt_serviceAccountName t \<and> pt_affinity t' = pt_affinity t \<and>
     pt_nodeSelector t' = pt_nodeSelector t \<and> pt_tolerations t' = pt_tolerations t \<and>
     map (\<lambda>c. (ct_resources c, ct_securityContext c, ct_image c)) (pt_containers t') =
     map (\<lambda>c. (ct_resources c, ct_securityContext c, ct_image c)) (pt_containers t)"

lemma samePod_trans: "samePod t t' \<Longrightarrow> samePod t' t'' \<Longrightarrow> samePod t t''"
  by (simp add: samePod_def)

lemma samePod_steps:
  "samePod t (addMoverVolume mv t)" "samePod t (kmConfigureCacheVolume p km t)" "samePod t (caVolumes km t)"
  "samePod t (appendVolume n src (appendMount n' path t))"
  by (simp_all add: samePod_def addMoverVolume_def kmConfigureCacheVolume_def caVolumes_def caVolume_def appendVolume_def
      appendMount_def onContainer0_def Let_def split: list.split option.split)

lemma samePod_moverVolumes: "samePod t (fold addMoverVolume mvs t)"
proof (induction mvs arbitrary: t)
  case (Cons mv mvs)
  then show ?case using samePod_trans samePod_steps(1) by fastforce
qed (simp add: samePod_def)

lemma samePod_settled:
  assumes "samePod (cronTemplate cl img km) t"
    and "cj_template cj = t" "cj_schedule cj = GetSchedule km" "cj_activeDeadlineSeconds cj = Some (GetActiveDeadlineSeconds km)"
    and "suspendSettled km cj" "limitsSettled km cj"
  shows "settled cl img km cj"
proof -
  let ?t = "emptyTemplate\<lparr>om_labels := desiredLabels km,
          pt_serviceAccountName := desiredServiceAccountName km,
          pt_restartPolicy := ''OnFailure'',
          pt_securityContext := Some (desiredPodSecurityContext km),
          pt_containers := [maintenanceContainer cl img km (desiredContainerSecurityContext km)],
          pt_affinity := km_affinity (km_spec km),
          pt_nodeSelector := km_nodeSelector (km_spec km),
          pt_tolerations := km_tolerations (km_spec km)\<rparr>"
  have "samePod ?t (cronTemplate cl img km)"
    unfolding cronTemplate_def using samePod_trans samePod_steps(3,4) by blast
  with assms(1) have same: "samePod ?t t" by (rule samePod_trans[rotated])
  then obtain c where "pt_containers t = [c]" "ct_resources c = desiredResources km"
    "ct_securityContext c = Some (desiredContainerSecurityContext km)" "ct_image c = getContainerImage cl img"
    by (auto simp: samePod_def maintenanceContainer_def)
  then show ?thesis
    using same assms(2-)
    by (simp add: settled_def containerSettled_def placementSettled_def firstContainer_def samePod_def)
qed


lemma kmBuildCronJob_settled:
  assumes "list_all (\<lambda>mv. mv_pvc mv = None) (km_moverVolumes (km_spec km))"
    and run: "run_state (kmBuildCronJob cl img km name) tr = (Inr cj, tr')"
  shows "settled cl img km cj"
proof -
  obtain cache tr1 where cache: "run_state (kmEnsureCache cl km) tr = (Inr cache, tr1)"
    and cj: "cj_template cj = fold addMoverVolume (km_moverVolumes (km_spec km))
        (kmConfigureCacheVolume cache km (cronTemplate cl img km))"
      "cj_schedule cj = GetSchedule km" "cj_activeDeadlineSeconds cj = Some (GetActiveDeadlineSeconds km)"
      "cj_suspend cj = Some (km_suspend (km_spec km) = Some True \<or> tooManyFailures km)"
      "cj_successfulJobsHistoryLimit cj = (case km_successfulJobsHistoryLimit (km_spec km) of Some n \<Rightarrow> Some n | None \<Rightarrow> Some 3)"
      "cj_failedJobsHistoryLimit cj = (case km_failedJobsHistoryLimit (km_spec km) of Some n \<Rightarrow> Some n | None \<Rightarrow> Some 1)"
    using run assms(1) unfolding kmBuildCronJob_def addVolumes_def
    by (auto simp: moverVolumesLoop_plain split: prod.splits sum.splits)
  have "samePod (cronTemplate cl img km) (cj_template cj)"
    unfolding cj using samePod_trans[OF samePod_steps(2) samePod_moverVolumes] .
  then show ?thesis
    by (rule samePod_settled) (auto simp: cj suspendSettled_def limitsSettled_def split: option.splits)
qed

text \<open>A CronJob as the controller builds it needs no update, as long as no additional volume is a claim:
  creation and update agree on what the specification means.\<close>

theorem km_fresh_settled:
  assumes "list_all (\<lambda>mv. mv_pvc mv = None) (km_moverVolumes (km_spec km))"
    and "run_state (kmBuildCronJob cl img km name) tr = (Inr cj, tr')"
  shows "updateVolumes cj (updateFromSpec cl img km cj) = (False, cj)"
  using settled_no_update[OF kmBuildCronJob_settled[OF assms]] by (simp add: updateVolumes_skips)

theorem km_fresh_settled_witness:
  "\<exists>cj. fst (run_state (kmBuildCronJob sampleCluster ''img'' sampleKm ''c'') []) = Inr cj \<and>
     updateVolumes cj (updateFromSpec sampleCluster ''img'' sampleKm cj) = (False, cj)"
proof -
  have "\<exists>cj. run_state (kmBuildCronJob sampleCluster ''img'' sampleKm ''c'') [] = (Inr cj, [])"
    by (simp add: kmBuildCronJob_def addVolumes_def kmEnsureCache_def sampleKm_defs)
  then obtain cj where r: "run_state (kmBuildCronJob sampleCluster ''img'' sampleKm ''c'') [] = (Inr cj, [])" by blast
  have "updateVolumes cj (updateFromSpec sampleCluster ''img'' sampleKm cj) = (False, cj)"
    by (rule km_fresh_settled[OF _ r]) (simp add: sampleKm_defs)
  with r show ?thesis by simp
qed

section \<open>Names\<close>

text \<open>The name of the CronJob has up to 63 characters. Kubernetes allows 52 for a CronJob (eleven are kept
  for the suffix of its jobs), so a resource whose name is longer than 23 characters never gets one.\<close>

theorem km_cronjob_name_length:
  "length (kmCronJobName km) = 29 + min 34 (length (om_name km)) \<and>
   (length (kmCronJobName km) > maxCronJobNameLength \<longleftrightarrow> length (om_name km) > 23)"
  by (auto simp: kmCronJobName_def shortHash_def length_sha256_hex maxCronJobNameLength_def)

section \<open>The conditions\<close>

lemma setStatusCondition_found:
  assumes "setStatusCondition_documented f"
  shows "map_option co_status (find (\<lambda>d. co_type d = ty) (f cs c)) =
    (if ty = co_type c then Some (co_status c) else map_option co_status (find (\<lambda>d. co_type d = ty) cs))"
proof (cases "ty = co_type c")
  case False
  have same: "find (\<lambda>d. co_type d = ty) xs = find (\<lambda>d. co_type d = ty) (filter (\<lambda>d. co_type d \<noteq> co_type c) xs)" for xs
    using False by (induction xs) auto
  have "filter (\<lambda>d. co_type d \<noteq> co_type c) (f cs c) = filter (\<lambda>d. co_type d \<noteq> co_type c) cs"
    using assms by (auto simp: setStatusCondition_documented_def)
  then show ?thesis using False same[of cs] same[of "f cs c"] by simp
next
  case True
  then show ?thesis using assms by (force simp: setStatusCondition_documented_def)
qed

definition conditionOf :: "string \<Rightarrow> kopiamaintenance \<Rightarrow> conditionStatus option" where
  "conditionOf ty km = map_option co_status (find (\<lambda>d. co_type d = ty) (kms_conditions (kmStatusOf km)))"

lemma conditionOf_updateConditions:
  assumes "setStatusCondition_documented (setStatusCondition cl)"
  shows "conditionOf ''Ready'' (updateConditions cl active err km) = Some (co_status (readyCondition km active err))"
    "conditionOf ''Progressing'' (updateConditions cl active err km) = Some (co_status (progressingCondition km active err))"
    "conditionOf ''MaintenanceHealthy'' (updateConditions cl active err km) = Some (co_status (healthyCondition km))"
proof -
  have types: "co_type (readyCondition km active err) = ''Ready''" "co_type (healthyCondition km) = ''MaintenanceHealthy''"
    "co_type (progressingCondition km active err) = ''Progressing''"
    by (simp_all add: readyCondition_def progressingCondition_def healthyCondition_def kmCondition_def split: option.split)
  have status: "kms_conditions (kmStatusOf (updateConditions cl active err km)) = foldl (setStatusCondition cl)
      (kms_conditions (kmStatusOf km)) [healthyCondition km, progressingCondition km active err, readyCondition km active err]"
    by (simp add: updateConditions_def onStatus_def kmStatusOf_def)
  show "conditionOf ''Ready'' (updateConditions cl active err km) = Some (co_status (readyCondition km active err))"
    "conditionOf ''Progressing'' (updateConditions cl active err km) = Some (co_status (progressingCondition km active err))"
    "conditionOf ''MaintenanceHealthy'' (updateConditions cl active err km) = Some (co_status (healthyCondition km))"
    by (simp_all add: conditionOf_def status setStatusCondition_found[OF assms] types)
qed

text \<open>The conditions tell the truth: a resource is ready exactly when it was reconciled without error, is
  enabled and has a CronJob; it is progressing when there was an error, or when it is enabled and
  has no CronJob; it is healthy exactly when it has failed less than five times.\<close>

theorem km_conditions_truthful:
  assumes "setStatusCondition_documented (setStatusCondition cl)"
    and "kms_observedGeneration (kmStatusOf km) = km_generation km"
    and "km' = updateConditions cl active err km"
  shows "(conditionOf ''Ready'' km' = Some ConditionTrue \<longleftrightarrow> err = None \<and> GetEnabled km \<and> active \<noteq> []) \<and>
    (conditionOf ''Progressing'' km' = Some ConditionTrue \<longleftrightarrow> err \<noteq> None \<or> GetEnabled km \<and> active = []) \<and>
    (conditionOf ''MaintenanceHealthy'' km' = Some ConditionTrue \<longleftrightarrow> kms_maintenanceFailures (kmStatusOf km) < 5)"
  unfolding assms(3) conditionOf_updateConditions[OF assms(1)] using assms(2)
  by (simp add: progressingCondition_def readyCondition_def healthyCondition_def kmCondition_def split: option.split)

theorem km_conditions_truthful_witness:
  "conditionOf ''Ready'' (updateConditions sampleCluster ''cron'' None (onStatus (\<lambda>st. st\<lparr>kms_observedGeneration := 1\<rparr>) sampleKm)) =
     Some ConditionTrue"
  using km_conditions_truthful[OF _ _ refl, of sampleCluster "onStatus (\<lambda>st. st\<lparr>kms_observedGeneration := 1\<rparr>) sampleKm" "''cron''" None]
  by (simp add: sample_setStatusCondition onStatus_def kmStatusOf_def sampleKm_defs GetEnabled_def)


section \<open>The calls of the operations\<close>

text \<open>Each operation, for any property \<open>P\<close> of calls that holds of every read and of what the operation writes.\<close>

lemma emits_reading:
  "emits no_write m Q \<Longrightarrow> (\<And>c. \<not> is_write c \<Longrightarrow> P c) \<Longrightarrow> emits P m Q"
  by (erule emits_weaken) auto

lemma readsD:
  assumes "\<And>c. \<not> is_write c \<Longrightarrow> P c"
  shows "P CNow" "P (CGet k x)" "P (CList k ns sel)" "P (CEvent t r)"
  by (simp_all add: assms)

lemma emits_moverVolumes: "emits no_write (moverVolumesLoop cl ns mvs t) (\<lambda>_. True)"
proof (induction mvs arbitrary: t)
  case (Cons mv mvs)
  have "emits no_write (moverVolumeAffinity cl ns mv t) (\<lambda>_. True)"
    unfolding moverVolumeAffinity_def
    by (auto intro!: emits_rules emits_step emits_post[OF emits_AffinityFromVolume] split: prod.split)
  then show ?case
    unfolding moverVolumesLoop.simps by (rule emits_bind) (auto intro!: emits_rules Cons)
qed (auto intro!: emits_rules)

lemma emits_ValidateMoverVolumes: "emits no_write (ValidateMoverVolumes cl ns mvs) (\<lambda>_. True)"
  unfolding ValidateMoverVolumes_def
  by (rule emits_forEach) (auto simp: validateMoverVolume_def intro!: emits_rules emits_step split: prod.split)

lemma emits_checkRepositorySecret: "emits no_write (checkRepositorySecret cl km) (\<lambda>_. True)"
  unfolding checkRepositorySecret_def by (auto intro!: emits_rules emits_step)

lemma emits_kmEnsureCache:
  assumes reads: "\<And>c. \<not> is_write c \<Longrightarrow> P c"
    and cache: "\<And>p. objKey p = (om_namespace km, kmCacheName km) \<Longrightarrow> P (CCreate (OPVC p))"
  shows "emits P (kmEnsureCache cl km) (\<lambda>_. True)"
proof -
  have key: "objKey ((kmNewCache km)\<lparr>om_ownerRefs := refs\<rparr>) = (om_namespace km, kmCacheName km)" for refs
    by (simp add: objKey_def kmNewCache_def new_defs)
  have new: "emits P (kmCreateCache cl km) (\<lambda>_. True)"
    unfolding kmCreateCache_def by (auto intro!: emits_rules emits_step cache[OF key])
  show ?thesis
    unfolding kmEnsureCache_def by (auto intro!: emits_rules emits_step new reads split: option.split list.split)
qed

lemma emits_addVolumes:
  assumes reads: "\<And>c. \<not> is_write c \<Longrightarrow> P c"
    and cache: "\<And>p. objKey p = (om_namespace km, kmCacheName km) \<Longrightarrow> P (CCreate (OPVC p))"
  shows "emits P (addVolumes cl km t) (\<lambda>_. True)"
  unfolding addVolumes_def
  by (auto intro!: emits_rules emits_step emits_kmEnsureCache emits_reading[OF emits_moverVolumes] assms)

lemma emits_kmBuildCronJob:
  assumes reads: "\<And>c. \<not> is_write c \<Longrightarrow> P c"
    and cache: "\<And>p. objKey p = (om_namespace km, kmCacheName km) \<Longrightarrow> P (CCreate (OPVC p))"
  shows "emits P (kmBuildCronJob cl img km name) (\<lambda>r. \<forall>cj. r = Inr cj \<longrightarrow> objKey cj = (om_namespace km, name))"
  unfolding kmBuildCronJob_def
  by (rule emits_bind[OF emits_addVolumes[where P = P, OF assms]])
     (auto intro!: emits_rules simp: objKey_def new_defs split: sum.splits)

lemma emits_ensureMaintenanceJob:
  assumes reads: "\<And>c. \<not> is_write c \<Longrightarrow> P c"
    and cache: "\<And>p. objKey p = (om_namespace km, kmCacheName km) \<Longrightarrow> P (CCreate (OPVC p))"
    and job: "\<And>j. objKey j = (om_namespace km, manualJobName km) \<Longrightarrow> P (CCreate (OJob j))"
  shows "emits P (ensureMaintenanceJob cl img km) (\<lambda>r. \<forall>n. r = Inr n \<longrightarrow> n = manualJobName km)"
proof -
  have key: "objKey ((manualJob cl img km)\<lparr>job_template := t, om_ownerRefs := refs\<rparr>) = (om_namespace km, manualJobName km)"
    for t refs by (simp add: objKey_def manualJob_def new_defs)
  show ?thesis
    unfolding ensureMaintenanceJob_def
    by (auto intro!: emits_rules emits_step emits_addVolumes[where P = P, OF reads cache]
        emits_reading[OF emits_checkRepositorySecret reads] readsD[where P = P, OF reads] job[OF key] split: sum.splits)
qed

lemma emits_cleanupCronJob:
  assumes "\<And>cj. objKey cj = (om_namespace km, kmCronJobName km) \<Longrightarrow> P (CDelete (OCronJob cj) None)"
  shows "emits P (cleanupCronJob cl km) (\<lambda>_. True)"
  unfolding cleanupCronJob_def by (auto intro!: emits_rules emits_step assms simp: objKey_def new_defs)

lemma emits_cleanupOldManualJobs:
  assumes reads: "\<And>c. \<not> is_write c \<Longrightarrow> P c"
    and doc: "list_documented (jobC cl)"
    and job: "\<And>j. om_namespace j = om_namespace km \<Longrightarrow> \<forall>(k, v) \<in> set (kmManualLabels km). map_of (om_labels j) k = Some v \<Longrightarrow>
      P (CDelete (OJob j) None)"
  shows "emits P (cleanupOldManualJobs cl km) (\<lambda>_. True)"
proof -
  have "emits P (kList (jobC cl) (Some (om_namespace km)) (LabelsAre (kmManualLabels km)))
      (\<lambda>r. \<forall>xs. r = Inr xs \<longrightarrow> (\<forall>j \<in> set xs. P (CDelete (OJob j) None)))"
  proof (rule emits_kList_answer)
    fix tr
    show "\<forall>xs. k_list (jobC cl) tr (Some (om_namespace km)) (LabelsAre (kmManualLabels km)) = Inr xs \<longrightarrow>
        (\<forall>j \<in> set xs. P (CDelete (OJob j) None))"
      using doc job unfolding list_documented_def by blast
  qed (simp add: reads)
  then show ?thesis
    unfolding cleanupOldManualJobs_def
    by (rule emits_bind) (auto intro!: emits_rules emits_forEach emits_step)
qed


text \<open>
  A status that is sent differs from the one given in the fields of an observation. The tag is kept, and the
  count of failures only drops to zero when a CronJob was seen to have succeeded.
\<close>

definition observed :: "cluster \<Rightarrow> kopiamaintenance \<Rightarrow> kmStatus \<Rightarrow> kmStatus \<Rightarrow> bool" where
  "observed cl km st st' \<longleftrightarrow> kms_lastManualSync st' = kms_lastManualSync st \<and>
     (kms_maintenanceFailures st' = kms_maintenanceFailures st \<or> kms_maintenanceFailures st' > 0 \<or>
      (\<exists>tr name cj. k_get (cronJobC cl) tr (om_namespace km, name) = Inr cj \<and> cj_lastSuccessfulTime cj \<noteq> None))"

lemma observed_steps:
  "kms_lastManualSync (lastSuccess cj st) = kms_lastManualSync st"
  "kms_lastManualSync (countFailures t cj js st) = kms_lastManualSync st"
  "cj_lastSuccessfulTime cj = None \<Longrightarrow> lastSuccess cj st = st"
  "kms_maintenanceFailures (countFailures t cj js st) = kms_maintenanceFailures st \<or> kms_maintenanceFailures (countFailures t cj js st) > 0"
  by (simp_all add: lastSuccess_def countFailures_def Let_def split: option.split)

lemma emits_observeCronJob:
  assumes reads: "\<And>c. \<not> is_write c \<Longrightarrow> P c"
  shows "emits P (observeCronJob cl km name st) (observed cl km st)"
proof -
  have seen: "observed cl km st (countFailures t cj js (lastSuccess cj st1))" "observed cl km st (lastSuccess cj st1)"
    if "\<exists>tr. k_get (cronJobC cl) tr (om_namespace km, name) = Inr cj"
      "kms_lastManualSync st1 = kms_lastManualSync st" "kms_maintenanceFailures st1 = kms_maintenanceFailures st" for t cj js st1
  proof -
    show "observed cl km st (countFailures t cj js (lastSuccess cj st1))"
      using that observed_steps(4)[of t cj js st1] observed_steps(3)[of cj st1]
      by (cases "cj_lastSuccessfulTime cj") (auto simp: observed_def observed_steps(1,2))
    show "observed cl km st (lastSuccess cj st1)"
      using that observed_steps(3)[of cj st1]
      by (cases "cj_lastSuccessfulTime cj") (auto simp: observed_def observed_steps(1))
  qed
  have next': "emits P (kmNextTime cl km cj st) (\<lambda>st1. kms_lastManualSync st1 = kms_lastManualSync st \<and>
      kms_maintenanceFailures st1 = kms_maintenanceFailures st)" for cj
    unfolding kmNextTime_def kmCalculateNextScheduledTime_def
    by (auto intro!: emits_rules emits_step readsD[where P = P, OF reads] split: sum.split option.split)
  have "emits P (kGet (cronJobC cl) (om_namespace km, name))
      (\<lambda>r. \<forall>cj. r = Inr cj \<longrightarrow> (\<exists>tr. k_get (cronJobC cl) tr (om_namespace km, name) = Inr cj))"
    by (rule emits_kGet_answer) (auto simp: reads)
  then show ?thesis
    unfolding observeCronJob_def
  proof (rule emits_bind, goal_cases)
    case (1 r)
    then show ?case
    proof (cases r)
      case (Inr cj)
      with 1 have get: "\<exists>tr. k_get (cronJobC cl) tr (om_namespace km, name) = Inr cj" by blast
      show ?thesis unfolding Inr sum.case
        by (rule emits_bind[OF next'])
           (auto intro!: emits_rules emits_step readsD[where P = P, OF reads] seen[OF get])
    qed (auto intro!: emits_rules simp: observed_def)
  qed
qed

definition patched :: "cluster \<Rightarrow> kopiamaintenance \<Rightarrow> kopiamaintenance \<Rightarrow> bool" where
  "patched cl km k \<longleftrightarrow> (\<exists>st. k = km\<lparr>km_status := Some st\<rparr> \<and> observed cl km (kmStatusOf km) st)"

lemma emits_updateStatusWithError:
  assumes reads: "\<And>c. \<not> is_write c \<Longrightarrow> P c"
    and patch: "\<And>base k. patched cl km k \<Longrightarrow> P (CStatusPatch (OKopiaMaintenance base) (OKopiaMaintenance k))"
  shows "emits P (updateStatusWithError cl km active err) (\<lambda>_. True)"
proof -
  have conds: "patched cl km (updateConditions cl active err (km\<lparr>km_status := Some st\<rparr>))"
    if "observed cl km (kmStatusOf km) st" for st
  proof -
    let ?st = "st\<lparr>kms_conditions := kms_conditions (kmStatusOf (updateConditions cl active err (km\<lparr>km_status := Some st\<rparr>)))\<rparr>"
    have "updateConditions cl active err (km\<lparr>km_status := Some st\<rparr>) = km\<lparr>km_status := Some ?st\<rparr>"
      by (simp add: updateConditions_def onStatus_def kmStatusOf_def)
    moreover have "observed cl km (kmStatusOf km) ?st" using that by (simp add: observed_def)
    ultimately show ?thesis unfolding patched_def by blast
  qed
  have obs: "emits P (let st1 = (kmStatusOf km)\<lparr>kms_observedGeneration := km_generation km,
               kms_activeCronJob := active, kms_lastReconcileTime := Some t\<rparr>
           in if active \<noteq> [] then observeCronJob cl km active st1 else ret st1) (observed cl km (kmStatusOf km))" for t
    unfolding Let_def
    by (auto intro!: emits_rules emits_post[OF emits_observeCronJob] reads simp: observed_def)
  show ?thesis
    unfolding updateStatusWithError_def
    by (rule emits_step, auto intro!: emits_rules readsD[where P = P, OF reads], rule emits_step,
        auto intro!: emits_rules readsD[where P = P, OF reads])
       (rule emits_bind[OF obs], auto intro!: emits_rules emits_step emits_ask patch conds simp: kmPatchStatus_def)
qed


definition haveContainers :: "cluster \<Rightarrow> bool" where
  "haveContainers cl \<longleftrightarrow> (\<forall>tr k x. k_get (cronJobC cl) tr k = Inr x \<longrightarrow> firstContainer x \<noteq> None)"

text \<open>The key of a CronJob is not changed by the comparison.\<close>

lemma objKey_assignments:
  "objKey (onContainer f cj) = objKey cj" "objKey (onTemplate g cj) = objKey cj"
  "objKey (cj\<lparr>cj_schedule := a\<rparr>) = objKey cj" "objKey (cj\<lparr>cj_suspend := b\<rparr>) = objKey cj"
  "objKey (cj\<lparr>cj_failedJobsHistoryLimit := c\<rparr>) = objKey cj" "objKey (cj\<lparr>cj_successfulJobsHistoryLimit := c\<rparr>) = objKey cj"
  "objKey (cj\<lparr>cj_activeDeadlineSeconds := d\<rparr>) = objKey cj"
  by (cases cj, simp_all add: objKey_def onContainer_def onTemplate_def)+

lemmas key_keeps = setWhen_keeps[where g = objKey]

lemma objKey_update: "objKey (snd (updateVolumes d (updateFromSpec cl img km cj))) = objKey cj"
  unfolding updateVolumes_def updateFromSpec_def setPlacement_def setContainer_def setHistoryLimits_def setSuspend_def Let_def
  by (simp add: key_keeps objKey_assignments)

lemma emits_updateCronJob:
  assumes reads: "\<And>c. \<not> is_write c \<Longrightarrow> P c"
    and cache: "\<And>p. objKey p = (om_namespace km, kmCacheName km) \<Longrightarrow> P (CCreate (OPVC p))"
    and upd: "\<And>cj. objKey cj = objKey existing \<Longrightarrow> P (CUpdate (OCronJob cj))"
  shows "emits P (updateCronJob cl img km existing)
    (\<lambda>r. (firstContainer existing \<noteq> None \<longrightarrow> r \<noteq> Panic) \<and> (\<forall>n. r = Ret (Inr n) \<longrightarrow> n = kmCronJobName km))"
proof -
  have ev: "emits P (if tooManyFailures km \<and> cj_suspend existing \<noteq> Some True
      then eventf EventWarning EvCronJobSuspended else ret ()) (\<lambda>_. True)"
    by (auto intro!: emits_rules readsD[where P = P, OF reads])
  have key: "objKey cj = objKey existing" if "updateVolumes d (updateFromSpec cl img km existing) = (u, cj)" for d u cj
    using objKey_update[of d cl img km existing] that by simp
  show ?thesis
    unfolding updateCronJob_def
    by (rule emits_bind[OF ev], rule emits_bind[OF emits_kmBuildCronJob[where P = P, OF reads cache]])
       (auto intro!: emits_rules emits_step upd[OF key] split: sum.splits)
qed

lemma emits_createCronJob:
  assumes reads: "\<And>c. \<not> is_write c \<Longrightarrow> P c"
    and cache: "\<And>p. objKey p = (om_namespace km, kmCacheName km) \<Longrightarrow> P (CCreate (OPVC p))"
    and new: "\<And>cj. objKey cj = (om_namespace km, kmCronJobName km) \<Longrightarrow> P (CCreate (OCronJob cj))"
  shows "emits P (createCronJob cl img km) (\<lambda>r. \<forall>n. r = Inr n \<longrightarrow> n = kmCronJobName km)"
proof -
  have key: "P (CCreate (OCronJob (cj\<lparr>om_ownerRefs := refs\<rparr>)))" if "objKey cj = (om_namespace km, kmCronJobName km)" for cj refs
    using that by (intro new) (simp add: objKey_def)
  show ?thesis
    unfolding createCronJob_def
    by (rule emits_bind[OF emits_kmBuildCronJob[where P = P, OF reads cache]])
       (auto intro!: emits_rules emits_step key readsD[where P = P, OF reads] split: sum.splits)
qed

lemma emits_kmEnsureCronJob:
  assumes reads: "\<And>c. \<not> is_write c \<Longrightarrow> P c"
    and cache: "\<And>p. objKey p = (om_namespace km, kmCacheName km) \<Longrightarrow> P (CCreate (OPVC p))"
    and new: "\<And>cj. objKey cj = (om_namespace km, kmCronJobName km) \<Longrightarrow> P (CCreate (OCronJob cj))"
    and upd: "\<And>tr x cj. k_get (cronJobC cl) tr (om_namespace km, kmCronJobName km) = Inr x \<Longrightarrow> objKey cj = objKey x \<Longrightarrow>
      P (CUpdate (OCronJob cj))"
  shows "emits P (kmEnsureCronJob cl img km)
    (\<lambda>r. (\<forall>n. r = Ret (Inr n) \<longrightarrow> n = kmCronJobName km) \<and>
      (haveContainers cl \<longrightarrow> r \<noteq> Panic))"
proof -
  have get: "emits P (kGet (cronJobC cl) (om_namespace km, kmCronJobName km))
      (\<lambda>r. \<forall>x. r = Inr x \<longrightarrow> (\<exists>tr. k_get (cronJobC cl) tr (om_namespace km, kmCronJobName km) = Inr x))"
    by (rule emits_kGet_answer) (auto simp: reads)
  have create: "emits P (do { x \<leftarrow> createCronJob cl img km; ret (Ret x :: (gerror + string) go) })
      (\<lambda>r. (\<forall>n. r = Ret (Inr n) \<longrightarrow> n = kmCronJobName km) \<and> r \<noteq> Panic)"
    by (rule emits_bind[OF emits_createCronJob[where P = P, OF reads cache new]]) (auto intro!: emits_rules)
  have update: "emits P (updateCronJob cl img km x)
      (\<lambda>r. (\<forall>n. r = Ret (Inr n) \<longrightarrow> n = kmCronJobName km) \<and>
      (haveContainers cl \<longrightarrow> r \<noteq> Panic))"
    if "\<exists>tr. k_get (cronJobC cl) tr (om_namespace km, kmCronJobName km) = Inr x" for x
    by (rule emits_post[OF emits_updateCronJob[where P = P, OF reads cache]]) (use that upd in \<open>auto simp: haveContainers_def\<close>)
  show ?thesis
    unfolding kmEnsureCronJob_def
    by (rule emits_step, rule emits_reading[OF emits_checkRepositorySecret reads], simp)
       (auto intro!: emits_rules emits_bind[OF get] update emits_post[OF create])
qed

lemma emits_scheduleMaintenance:
  assumes reads: "\<And>c. \<not> is_write c \<Longrightarrow> P c"
    and cache: "\<And>p. objKey p = (om_namespace km, kmCacheName km) \<Longrightarrow> P (CCreate (OPVC p))"
    and new: "\<And>cj. objKey cj = (om_namespace km, kmCronJobName km) \<Longrightarrow> P (CCreate (OCronJob cj))"
    and upd: "\<And>tr x cj. k_get (cronJobC cl) tr (om_namespace km, kmCronJobName km) = Inr x \<Longrightarrow> objKey cj = objKey x \<Longrightarrow>
      P (CUpdate (OCronJob cj))"
    and patch: "\<And>base k. patched cl km k \<Longrightarrow> P (CStatusPatch (OKopiaMaintenance base) (OKopiaMaintenance k))"
  shows "emits P (scheduleMaintenance cl img km)
    (\<lambda>r. haveContainers cl \<longrightarrow> r \<noteq> Panic)"
  unfolding scheduleMaintenance_def
  by (rule emits_bind[OF emits_kmEnsureCronJob[where P = P, OF reads cache new upd]])
     (auto intro!: emits_rules emits_step emits_updateStatusWithError[where P = P, OF reads patch]
        readsD[where P = P, OF reads] split: go.split sum.split)

lemma kmStatusOf_set [simp]: "kmStatusOf (km\<lparr>km_status := Some st\<rparr>) = st"
  by (simp add: kmStatusOf_def)

text \<open>C31: As long as maintenance has failed and no run of the CronJob has succeeded, scheduled maintenance never
  reports a count of failures of zero.\<close>

theorem km_failures_need_success:
  assumes "kms_maintenanceFailures (kmStatusOf km) \<noteq> 0"
    and "\<And>tr name cj. k_get (cronJobC cl) tr (om_namespace km, name) = Inr cj \<Longrightarrow> cj_lastSuccessfulTime cj = None"
    and "run_state (scheduleMaintenance cl img km) tr = (r, new @ tr)"
    and "CStatusPatch base (OKopiaMaintenance k) \<in> set new"
  shows "kms_maintenanceFailures (kmStatusOf k) \<noteq> 0"
proof -
  let ?P = "\<lambda>c. \<forall>b k. c = CStatusPatch b (OKopiaMaintenance k) \<longrightarrow> kms_maintenanceFailures (kmStatusOf k) \<noteq> 0"
  have "kms_maintenanceFailures (kmStatusOf k) \<noteq> 0" if "patched cl km k" for k
  proof -
    from that obtain st where "k = km\<lparr>km_status := Some st\<rparr>" "observed cl km (kmStatusOf km) st"
      unfolding patched_def by blast
    moreover have "\<not> (\<exists>tr name cj. k_get (cronJobC cl) tr (om_namespace km, name) = Inr cj \<and> cj_lastSuccessfulTime cj \<noteq> None)"
      by (auto dest: assms(2))
    ultimately show ?thesis
      using assms(1) unfolding observed_def by (metis kmStatusOf_set less_irrefl)
  qed
  then have "emits ?P (scheduleMaintenance cl img km) (\<lambda>_. True)"
    by (intro emits_post[OF emits_scheduleMaintenance[where P = ?P]]) auto
  from emits_run[OF this assms(3)] have "\<forall>c \<in> set new. ?P c" by (metis append_same_eq)
  with assms(4) show ?thesis by blast
qed


lemma km_sample [simp]:
  "kmC sampleCluster = sampleClient KKopiaMaintenance OKopiaMaintenance"
  "cronJobC sampleCluster = sampleClient KCronJob OCronJob"
  "kmStatusPatch sampleCluster = (\<lambda>_ _ x. Inr x)"
  by (simp_all add: kmC_def cronJobC_def sampleCluster_def client_id)

definition failingKm :: "int \<Rightarrow> kopiamaintenance" where
  "failingKm n = onStatus (\<lambda>st. st\<lparr>kms_maintenanceFailures := n\<rparr>) sampleKm"

lemma failingKm_simps [simp]:
  "km_status (failingKm n) = Some (emptyKmStatus\<lparr>kms_maintenanceFailures := n\<rparr>)"
  "km_spec (failingKm n) = km_spec sampleKm" "om_name (failingKm n) = ''km''" "om_namespace (failingKm n) = ''ns''"
  "km_generation (failingKm n) = 1" "kmStatusOf (failingKm n) = emptyKmStatus\<lparr>kms_maintenanceFailures := n\<rparr>"
  by (simp_all add: failingKm_def onStatus_def kmStatusOf_def sampleKm_defs)

theorem km_failures_need_success_witness:
  "\<exists>base k. CStatusPatch base (OKopiaMaintenance k) \<in>
      set (snd (run_state (scheduleMaintenance sampleCluster ''img'' (failingKm 2)) [])) \<and>
    kms_maintenanceFailures (kmStatusOf k) \<noteq> 0"
proof -
  let ?m = "scheduleMaintenance sampleCluster ''img'' (failingKm 2)"
  have "\<exists>base k. CStatusPatch base (OKopiaMaintenance k) \<in> set (snd (run_state ?m []))"
    by (simp add: scheduleMaintenance_def kmEnsureCronJob_def checkRepositorySecret_def updateStatusWithError_def
        kmPatchStatus_def kube_ops Let_def)
  then obtain base k where k: "CStatusPatch base (OKopiaMaintenance k) \<in> set (snd (run_state ?m []))" by blast
  obtain r tr where run: "run_state ?m [] = (r, tr @ [])" by (cases "run_state ?m []") auto
  have "kms_maintenanceFailures (kmStatusOf k) \<noteq> 0"
    by (rule km_failures_need_success[OF _ _ run, of base k]) (use k run in \<open>auto simp: emptyKmStatus_def\<close>)
  with k show ?thesis by blast
qed

section \<open>Manual maintenance\<close>

text \<open>What a run of a manual trigger may write, where \<open>patch\<close> says what the status it sends may be.\<close>

lemma emits_manualJobState:
  assumes reads: "\<And>c. \<not> is_write c \<Longrightarrow> P c"
    and del: "P (CDelete (OJob j) None)"
    and patch: "\<And>base k. job_succeeded j > 0 \<or> job_failed j > 0 \<Longrightarrow>
      P (CStatusPatch (OKopiaMaintenance base) (OKopiaMaintenance k))"
  shows "emits P (manualJobState cl km j) (\<lambda>_. True)"
  unfolding manualJobState_def recordManualSuccess_def recordManualFailure_def
  by (auto intro!: emits_rules emits_step emits_updateStatusWithError[where P = P, OF reads] patch del
      readsD[where P = P, OF reads])

lemma emits_handleManualTrigger:
  assumes reads: "\<And>c. \<not> is_write c \<Longrightarrow> P c"
    and cache: "\<And>p. \<not> tooManyFailures km \<Longrightarrow> objKey p = (om_namespace km, kmCacheName km) \<Longrightarrow> P (CCreate (OPVC p))"
    and job: "\<And>j. \<not> tooManyFailures km \<Longrightarrow> objKey j = (om_namespace km, manualJobName km) \<Longrightarrow> P (CCreate (OJob j))"
    and del: "\<And>tr j. k_get (jobC cl) tr (om_namespace km, manualJobName km) = Inr j \<Longrightarrow> P (CDelete (OJob j) None)"
    and blocked: "\<And>base k. tooManyFailures km \<Longrightarrow>
      patched cl (onStatus (\<lambda>st. st\<lparr>kms_lastManualSync := GetManualTrigger km\<rparr>) km) k \<Longrightarrow>
      P (CStatusPatch (OKopiaMaintenance base) (OKopiaMaintenance k))"
    and failed: "\<And>base k. patched cl km k \<Longrightarrow> P (CStatusPatch (OKopiaMaintenance base) (OKopiaMaintenance k))"
    and patch: "\<And>base k tr j. \<not> tooManyFailures km \<Longrightarrow> k_get (jobC cl) tr (om_namespace km, manualJobName km) = Inr j \<Longrightarrow>
      job_succeeded j > 0 \<or> job_failed j > 0 \<Longrightarrow> P (CStatusPatch (OKopiaMaintenance base) (OKopiaMaintenance k))"
  shows "emits P (handleManualTrigger cl img km) (\<lambda>_. True)"
proof -
  let ?got = "\<lambda>r. \<forall>j. r = Inr j \<longrightarrow> (\<exists>tr. k_get (jobC cl) tr (om_namespace km, manualJobName km) = Inr j)"
  have get: "emits P (kGet (jobC cl) (om_namespace km, manualJobName km)) ?got"
    by (rule emits_kGet_answer) (auto simp: reads)
  have state: "emits P (manualJobState cl km j) (\<lambda>_. True)" if "?got (Inr j)" "\<not> tooManyFailures km" for j
    using that del patch by (intro emits_manualJobState[where P = P, OF reads]) blast+
  have block: "emits P (do {
      eventf EventWarning EvMaintenanceBlocked;
      _ \<leftarrow> updateStatusWithError cl (onStatus (\<lambda>st. st\<lparr>kms_lastManualSync := GetManualTrigger km\<rparr>) km) [] e;
      ret (emptyResult, None) }) (\<lambda>_. True)" if "tooManyFailures km" for e
    using that by (auto intro!: emits_rules emits_step emits_updateStatusWithError[where P = P, OF reads] blocked
        readsD[where P = P, OF reads])
  have fail: "emits P (do {
      eventf EventWarning EvJobCreationFailed;
      _ \<leftarrow> updateStatusWithError cl km [] (Some err);
      ret (requeueIn minute, Some err) }) (\<lambda>_. True)" for err
    by (auto intro!: emits_rules emits_step emits_updateStatusWithError[where P = P, OF reads] failed
        readsD[where P = P, OF reads])
  have made: "emits P (do {
      e \<leftarrow> ensureMaintenanceJob cl img km;
      case e of
        Inl err \<Rightarrow> do {
          eventf EventWarning EvJobCreationFailed;
          _ \<leftarrow> updateStatusWithError cl km [] (Some err);
          ret (requeueIn minute, Some err) }
      | Inr jobName \<Rightarrow> do {
          r \<leftarrow> kGet (jobC cl) (om_namespace km, jobName);
          case r of Inl err \<Rightarrow> ret (requeueIn (10 * second), Some err) | Inr j \<Rightarrow> manualJobState cl km j } }) (\<lambda>_. True)"
    if not: "\<not> tooManyFailures km"
    by (rule emits_bind[OF emits_ensureMaintenanceJob[where P = P, OF reads cache[OF not] job[OF not]]])
       (auto intro!: emits_rules fail emits_bind[OF get] state[OF _ not])
  show ?thesis
    unfolding handleManualTrigger_def
    by (auto intro!: emits_rules emits_bind[OF get] block made state)
qed



definition manualKm :: kopiamaintenance where
  "manualKm = withTrigger \<lparr>kmt_schedule = None, kmt_manual = ''t1''\<rparr>"

definition doneCluster :: cluster where
  "doneCluster = sampleCluster\<lparr>jobs := withCou ((sampleClient KJob OJob)
     \<lparr>k_get := \<lambda>_ k. Inr ((newJob (fst k) (snd k))\<lparr>job_succeeded := 1\<rparr>)\<rparr>)\<rparr>"

lemma doneCluster_simps [simp]:
  "kmC doneCluster = sampleClient KKopiaMaintenance OKopiaMaintenance"
  "kmStatusPatch doneCluster = (\<lambda>_ _ x. Inr x)" "jobC doneCluster = jobs doneCluster" "k_kind (jobs doneCluster) = KJob"
  "k_get (jobs doneCluster) = (\<lambda>_ k. Inr ((newJob (fst k) (snd k))\<lparr>job_succeeded := 1\<rparr>))"
  "timeNow doneCluster = (\<lambda>_. 1000 * hour)" "setStatusCondition doneCluster = sampleSetStatusCondition"
  by (simp_all add: kmC_def jobC_def doneCluster_def client_id) (simp_all add: sampleCluster_def client_id)

lemma manualKm_simps [simp]:
  "km_status manualKm = None" "kmStatusOf manualKm = emptyKmStatus" "tooManyFailures manualKm = False"
  "GetManualTrigger manualKm = ''t1''" "HasManualTrigger manualKm"
  by (simp_all add: manualKm_def withTrigger_def kmStatusOf_def tooManyFailures_def GetManualTrigger_def HasManualTrigger_def)
     (simp_all add: sampleKm_defs)


text \<open>After five failures a manual trigger starts no job, whatever the server answers.\<close>

theorem km_blocked_no_job:
  assumes "tooManyFailures km" "run_state (handleManualTrigger cl img km) tr = (r, new @ tr)"
  shows "CCreate (OJob j) \<notin> set new"
proof -
  have "emits (\<lambda>c. c \<noteq> CCreate (OJob j)) (handleManualTrigger cl img km) (\<lambda>_. True)"
    by (rule emits_handleManualTrigger) (use assms(1) in auto)
  from emits_run[OF this assms(2)] show ?thesis by (metis append_same_eq)
qed

theorem km_blocked_no_job_witness:
  "CCreate (OJob (newJob ''ns'' ''j'')) \<notin>
     set (snd (run_state (handleManualTrigger sampleCluster ''img'' (failingKm 5)) []))"
proof -
  let ?m = "handleManualTrigger sampleCluster ''img'' (failingKm 5)"
  obtain r tr where run: "run_state ?m [] = (r, tr @ [])" by (cases "run_state ?m []") auto
  have "tooManyFailures (failingKm 5)" by (simp add: tooManyFailures_def maxConsecutiveFailures_def)
  from km_blocked_no_job[OF this run] run show ?thesis by simp
qed


section \<open>What a reconciliation writes\<close>

fun kmOwn :: "kopiamaintenance \<Rightarrow> call \<Rightarrow> bool" where
  "kmOwn km (CCreate (OPVC p)) \<longleftrightarrow> objKey p = (om_namespace km, kmCacheName km)"
| "kmOwn km (CCreate (OJob j)) \<longleftrightarrow> objKey j = (om_namespace km, manualJobName km)"
| "kmOwn km (CCreate (OCronJob cj)) \<longleftrightarrow> objKey cj = (om_namespace km, kmCronJobName km)"
| "kmOwn km (CUpdate (OCronJob cj)) \<longleftrightarrow> objKey cj = (om_namespace km, kmCronJobName km)"
| "kmOwn km (CUpdate (OKopiaMaintenance k)) \<longleftrightarrow> objKey k = objKey km \<and> km_spec k = km_spec km"
| "kmOwn km (CStatusPatch b (OKopiaMaintenance k)) \<longleftrightarrow> True"
| "kmOwn km (CDelete (OCronJob cj) rv) \<longleftrightarrow> objKey cj = (om_namespace km, kmCronJobName km)"
| "kmOwn km (CDelete (OJob j) rv) \<longleftrightarrow> objKey j = (om_namespace km, manualJobName km) \<or>
     om_namespace j = om_namespace km \<and> (\<forall>(k, v) \<in> set (kmManualLabels km). map_of (om_labels j) k = Some v)"
| "kmOwn km c \<longleftrightarrow> \<not> is_write c"

lemma kmOwn_reads: "\<not> is_write c \<Longrightarrow> kmOwn km c"
  by (cases c rule: is_write.cases) auto

lemma emits_scheduleOwn:
  assumes "get_documented (cronJobC cl)"
  shows "emits (kmOwn km) (scheduleMaintenance cl img km) (\<lambda>r. haveContainers cl \<longrightarrow> r \<noteq> Panic)"
  by (rule emits_scheduleMaintenance[where P = "kmOwn km"])
     (use assms in \<open>auto simp: get_documented_def intro: kmOwn_reads\<close>)

lemma emits_manualOwn:
  assumes "get_documented (jobC cl)"
  shows "emits (kmOwn km) (handleManualTrigger cl img km) (\<lambda>_. True)"
  by (rule emits_handleManualTrigger[where P = "kmOwn km"])
     (use assms in \<open>auto simp: get_documented_def intro: kmOwn_reads\<close>)

lemma emits_runTriggers:
  assumes "get_documented (cronJobC cl)" "get_documented (jobC cl)" "list_documented (jobC cl)"
  shows "emits (kmOwn km) (runTriggers cl img km) (\<lambda>r. haveContainers cl \<longrightarrow> r \<noteq> Panic)"
proof -
  have "emits (kmOwn km) (cleanupCronJob cl km) (\<lambda>_. True)" by (rule emits_cleanupCronJob) simp
  moreover have "emits (kmOwn km) (cleanupOldManualJobs cl km) (\<lambda>_. True)"
    by (rule emits_cleanupOldManualJobs[where P = "kmOwn km", OF kmOwn_reads assms(3)]) auto
  ultimately show ?thesis
    unfolding runTriggers_def
    by (auto intro!: emits_rules emits_step emits_manualOwn emits_scheduleOwn assms)
qed

lemma emits_reconcileValid:
  assumes "get_documented (cronJobC cl)" "get_documented (jobC cl)" "list_documented (jobC cl)"
  shows "emits (kmOwn km) (reconcileValid cl img km) (\<lambda>r. haveContainers cl \<longrightarrow> r \<noteq> Panic)"
proof -
  have clean: "emits (kmOwn km) (cleanupCronJob cl km) (\<lambda>_. True)" by (rule emits_cleanupCronJob) simp
  have status: "emits (kmOwn km) (updateStatusWithError cl km [] None) (\<lambda>_. True)"
    by (rule emits_updateStatusWithError) (auto intro: kmOwn_reads)
  show ?thesis
    unfolding reconcileValid_def finalizeDeleted_def
    by (auto intro!: emits_rules emits_step clean status emits_runTriggers assms simp: objKey_def)
qed

text \<open>C28: Whatever the server answers, reconciling a valid KopiaMaintenance writes only what belongs to it: it
  creates and updates its own CronJob, its own cache claim and the job of its tag, deletes its own CronJob and its own
  manual jobs, and never changes its own specification.\<close>

theorem km_reconcile_writes_own:
  assumes "get_documented (cronJobC cl)" "get_documented (jobC cl)" "list_documented (jobC cl)"
    and "run_state (reconcileValid cl img km) tr = (r, new @ tr)" "c \<in> set new"
  shows "kmOwn km c"
  using emits_run[OF emits_reconcileValid[OF assms(1-3)] assms(4)] assms(5) by (metis append_same_eq)

theorem km_reconcile_writes_own_witness:
  "list_all (kmOwn manualKm) (snd (run_state (reconcileValid sampleCluster ''img'' manualKm) []))"
  unfolding list_all_iff
proof
  fix c assume c: "c \<in> set (snd (run_state (reconcileValid sampleCluster ''img'' manualKm) []))"
  obtain r tr where run: "run_state (reconcileValid sampleCluster ''img'' manualKm) [] = (r, tr @ [])"
    by (cases "run_state (reconcileValid sampleCluster ''img'' manualKm) []") auto
  show "kmOwn manualKm c"
    by (rule km_reconcile_writes_own[OF _ _ _ run]) (use c run in \<open>auto simp: get_documented_def list_documented_def\<close>)
qed

text \<open>Reconciling does not panic, as long as no CronJob the server answers with has lost its containers. (The
  comparison of the volume mounts reads the first container without looking whether there is one.)\<close>

theorem km_reconcile_no_panic:
  assumes "haveContainers cl"
  shows "fst (run_state (kmReconcile cl img req) tr) \<noteq> Panic"
proof -
  have upd: "emits (\<lambda>_. True) (updateStatusWithError cl km a e) (\<lambda>_. True)" for km a e
    by (rule emits_updateStatusWithError) auto
  have sched: "emits (\<lambda>_. True) (scheduleMaintenance cl img km) (\<lambda>r. r \<noteq> Panic)" for km
    using assms by (intro emits_post[OF emits_scheduleMaintenance]) auto
  have reset: "emits (\<lambda>_. True) (resetFailures cl km) (\<lambda>_. True)" for km
    unfolding resetFailures_def by (auto intro!: emits_rules emits_step)
  have vols: "emits (\<lambda>_. True) (ValidateMoverVolumes cl ns mvs) (\<lambda>_. True)" for ns mvs
    by (rule emits_reading[OF emits_ValidateMoverVolumes]) simp
  have rest: "emits (\<lambda>_. True) (cleanupCronJob cl km) (\<lambda>_. True)" "emits (\<lambda>_. True) (handleManualTrigger cl img km) (\<lambda>_. True)"
    "emits (\<lambda>_. True) (cleanupOldManualJobs cl km) (\<lambda>_. True)" for km
    by (auto intro!: emits_cleanupCronJob emits_handleManualTrigger)
       (auto simp: cleanupOldManualJobs_def intro!: emits_rules emits_step emits_forEach)
  have valid: "emits (\<lambda>_. True) (reconcileValid cl img km) (\<lambda>r. r \<noteq> Panic)" for km
    unfolding reconcileValid_def finalizeDeleted_def runTriggers_def
    by (auto intro!: emits_rules emits_step rest upd sched)
  have "emits (\<lambda>_. True) (kmReconcile cl img req) (\<lambda>r. r \<noteq> Panic)"
    unfolding kmReconcile_def rejectInvalid_def
    by (auto intro!: emits_rules emits_step reset upd vols valid)
  then obtain a new where "run_state (kmReconcile cl img req) tr = (a, new @ tr)" "a \<noteq> Panic" by (rule emitsE)
  then show ?thesis by simp
qed

theorem km_reconcile_no_panic_witness: "fst (run_state (kmReconcile sampleCluster ''img'' (''ns'', ''km'')) []) \<noteq> Panic"
  by (rule km_reconcile_no_panic) (simp add: haveContainers_def)


section \<open>The finalizer\<close>

lemma emits_no_update:
  "emits (\<lambda>c. \<forall>k. c \<noteq> CUpdate (OKopiaMaintenance k)) (updateStatusWithError cl km active err) (\<lambda>_. True)"
  "emits (\<lambda>c. \<forall>k. c \<noteq> CUpdate (OKopiaMaintenance k)) (cleanupCronJob cl km) (\<lambda>_. True)"
  "emits (\<lambda>c. \<forall>k. c \<noteq> CUpdate (OKopiaMaintenance k)) (scheduleMaintenance cl img km) (\<lambda>_. True)"
  "emits (\<lambda>c. \<forall>k. c \<noteq> CUpdate (OKopiaMaintenance k)) (handleManualTrigger cl img km) (\<lambda>_. True)"
  "emits (\<lambda>c. \<forall>k. c \<noteq> CUpdate (OKopiaMaintenance k)) (cleanupOldManualJobs cl km) (\<lambda>_. True)"
  by (rule emits_updateStatusWithError, auto)
     (rule emits_cleanupCronJob, auto intro!: emits_post[OF emits_scheduleMaintenance] emits_handleManualTrigger,
      auto simp: cleanupOldManualJobs_def intro!: emits_rules emits_step emits_forEach)

lemma emits_runTriggers_no_update:
  "emits (\<lambda>c. \<forall>k. c \<noteq> CUpdate (OKopiaMaintenance k)) (runTriggers cl img km) (\<lambda>_. True)"
  unfolding runTriggers_def by (auto intro!: emits_rules emits_step emits_no_update)

text \<open>C32: The finalizer is taken off only from a resource that is being deleted, and only after the server has
  answered that its CronJob is deleted or not there.\<close>

theorem km_finalizer_removed_last:
  assumes run: "run_state (reconcileValid cl img km) tr = (r, new @ tr)"
    and upd: "CUpdate (OKopiaMaintenance k) \<in> set new" "kopiaMaintenanceFinalizer \<notin> set (km_finalizers k)"
  shows "om_deletionTimestamp km \<noteq> None \<and>
    CDelete (OCronJob (newCronJob (om_namespace km) (kmCronJobName km))) None \<in> set new \<and>
    (\<exists>tr. IgnoreNotFound (k_delete (cronJobC cl) tr (newCronJob (om_namespace km) (kmCronJobName km)) None) = None)"
proof (cases "om_deletionTimestamp km = None")
  case True
  let ?P = "\<lambda>c. \<forall>k. c = CUpdate (OKopiaMaintenance k) \<longrightarrow> kopiaMaintenanceFinalizer \<in> set (km_finalizers k)"
  have "emits ?P (reconcileValid cl img km) (\<lambda>_. True)"
    unfolding reconcileValid_def using True
    by (auto intro!: emits_rules emits_step emits_weaken[OF emits_runTriggers_no_update] emits_weaken[OF emits_no_update(1)] emits_weaken[OF emits_no_update(2)])
  from emits_run[OF this run] upd show ?thesis by (metis append_same_eq)
next
  case False
  then show ?thesis
    using run upd unfolding reconcileValid_def finalizeDeleted_def cleanupCronJob_def
    by (auto simp: kube_ops split: if_splits option.splits sum.splits)
qed

definition deletedKm :: kopiamaintenance where
  "deletedKm = sampleKm\<lparr>om_deletionTimestamp := Some 1, km_finalizers := [kopiaMaintenanceFinalizer]\<rparr>"

theorem km_finalizer_removed_last_witness:
  "CDelete (OCronJob (newCronJob (om_namespace deletedKm) (kmCronJobName deletedKm))) None \<in>
     set (snd (run_state (reconcileValid sampleCluster ''img'' deletedKm) []))"
proof -
  let ?m = "reconcileValid sampleCluster ''img'' deletedKm"
  have "CUpdate (OKopiaMaintenance (deletedKm\<lparr>km_finalizers := []\<rparr>)) \<in> set (snd (run_state ?m []))"
    by (simp add: reconcileValid_def finalizeDeleted_def cleanupCronJob_def kube_ops deletedKm_def)
  moreover obtain r tr where run: "run_state ?m [] = (r, tr @ [])" by (cases "run_state ?m []") auto
  ultimately have "CUpdate (OKopiaMaintenance (deletedKm\<lparr>km_finalizers := []\<rparr>)) \<in> set tr" by simp
  from km_finalizer_removed_last[OF run this] run show ?thesis by simp
qed


definition keepingCluster :: "kopiamaintenance \<Rightarrow> cluster" where
  "keepingCluster km = sampleCluster\<lparr>kopiamaintenances := withCou ((sampleClient KKopiaMaintenance OKopiaMaintenance)
     \<lparr>k_get := \<lambda>_ _. Inr km, k_update := \<lambda>_ x. Inr (x\<lparr>km_status := km_status km\<rparr>)\<rparr>)\<rparr>"

lemma keepingCluster_simps [simp]:
  "k_get (kmC (keepingCluster km)) = (\<lambda>_ _. Inr km)"
  "k_update (kmC (keepingCluster km)) = (\<lambda>_ x. Inr (x\<lparr>km_status := km_status km\<rparr>))"
  "cronParseFields (keepingCluster km) = sampleCronFields"
  by (simp_all add: keepingCluster_def kmC_def)


section \<open>The reset of the failures\<close>

text \<open>
  The status is a subresource, so the server, as documented, ignores the status in an update of the
  resource and answers with the one it holds.
\<close>

definition status_subresource :: "cluster \<Rightarrow> kmStatus option \<Rightarrow> bool" where
  "status_subresource cl held \<longleftrightarrow> (\<forall>tr x y. k_update (kmC cl) tr x = Inr y \<longrightarrow> km_status y = held)"

text \<open>C34: The annotation that resets the count of failures clears the count in an update of the resource, where it has no
  effect: what the controller goes on with still has every failure, and a manual trigger stays blocked.\<close>

theorem km_reset_has_no_effect:
  assumes "status_subresource cl (km_status km)" "tooManyFailures km"
    and "run_state (resetFailures cl km) tr = (Inr km', tr')"
    and "run_state (handleManualTrigger cl img km') tr2 = (r, new @ tr2)"
  shows "km_status km' = km_status km \<and> tooManyFailures km' \<and> (\<forall>j. CCreate (OJob j) \<notin> set new)"
proof -
  have st: "km_status km' = km_status km"
    using assms(1,3) by (auto simp: resetFailures_def status_subresource_def kube_ops split: if_splits sum.splits)
  then have many: "tooManyFailures km'" using assms(2) by (simp add: tooManyFailures_def)
  have "emits (\<lambda>c. \<forall>j. c \<noteq> CCreate (OJob j)) (handleManualTrigger cl img km') (\<lambda>_. True)"
    by (rule emits_handleManualTrigger) (use many in auto)
  from emits_run[OF this assms(4)] st many show ?thesis by (metis append_same_eq)
qed

definition annotatedKm :: kopiamaintenance where
  "annotatedKm = (failingKm 5)\<lparr>om_annotations := [(resetFailuresAnnotation, ''true'')]\<rparr>"

theorem km_reset_has_no_effect_witness:
  "\<exists>km'. fst (run_state (resetFailures (keepingCluster annotatedKm) annotatedKm) []) = Inr km' \<and> tooManyFailures km'"
proof -
  let ?cl = "keepingCluster annotatedKm"
  have sub: "status_subresource ?cl (km_status annotatedKm)" by (simp add: status_subresource_def)
  have many: "tooManyFailures annotatedKm" by (simp add: annotatedKm_def tooManyFailures_def maxConsecutiveFailures_def)
  have "\<exists>km' tr. run_state (resetFailures ?cl annotatedKm) [] = (Inr km', tr)"
    by (simp add: resetFailures_def annotatedKm_def map_get_def kube_ops)
  then obtain km' tr where run: "run_state (resetFailures ?cl annotatedKm) [] = (Inr km', tr)" by blast
  obtain r tr2 where run2: "run_state (handleManualTrigger ?cl ''img'' km') [] = (r, tr2 @ [])"
    by (cases "run_state (handleManualTrigger ?cl ''img'' km') []") auto
  from km_reset_has_no_effect[OF sub many run run2] run show ?thesis by simp
qed

end
