(* ===== verification/Spec2Isabelle.thy ===== *)
theory Spec2Isabelle
  imports Rd_Controller Restic_Mover Rclone_Mover RsyncTLS_Mover Rsync_Mover Syncthing_Mover Volume_Populator Kopia_Builder Km_Laws
begin

text \<open>
  Verification of the VolSync operator (\<open>src/internal/controller\<close>), a Kubernetes operator that
  replicates persistent volumes. A user creates a ReplicationSource or a ReplicationDestination; the
  operator runs a mover (restic, rclone, kopia, ...) on the volume, on a schedule or when a tag changes.
  A KopiaMaintenance keeps the repository of the kopia movers in order.

  \<^bold>\<open>The program and its model.\<close> The controllers fetch a resource, pick the mover that claims it and
  run a state machine on it; the machine starts synchronizations, lets the mover work and cleans
  up. A mover makes the volume it works on (volume handler), a service account, secrets and a job,
  and reads the result and the logs of the job. What is temporary is labelled and deleted
  afterwards. The volume populator fills claims from the image of a destination.

  The API server, the clock and the libraries of Kubernetes and Go are not code of the repository: they are
  the parameter \<open>cluster\<close> of every definition, a record of functions whose answers may depend on the
  whole history of calls. So a theorem about every \<open>cluster\<close> holds for every behaviour of the
  server, errors and concurrent changes by other clients included. Effects are a state monad over the
  trace of the calls made (newest first); errors are values (\<open>gerror\<close>), a nil dereference is the
  value \<open>Panic\<close> of \<open>'a go\<close>; a Go pointer that may be nil is an option; a method that changes its
  receiver returns the new value.

  \<^item> \<open>Prelude\<close>: times, durations (saturating, wrapping), errors, strings, string maps; the logic of
    traces: \<open>emits P m Q\<close> (all calls satisfy \<open>P\<close>, the result \<open>Q\<close>) and \<open>preceded R m\<close> (every call is in
    relation \<open>R\<close> to the earlier ones).
  \<^item> \<open>Kube_Types\<close>, \<open>Api_Types\<close>: the API objects and the custom resources (\<open>api/v1alpha1\<close>).
  \<^item> \<open>Cluster\<close>, \<open>Sample_Cluster\<close>: the environment and the named hypotheses on it
    (\<open>cou_documented\<close>, \<open>controllerRef_documented\<close>, \<open>ownerRef_documented\<close>, \<open>setStatusCondition_documented\<close>,
    \<open>cron_documented\<close>, ...), and one concrete environment that satisfies them, on which the
    witnesses evaluate the model.
  \<^item> \<open>Labels\<close> (\<open>utils/labels.go\<close>, \<open>utils/copy_trigger_annotations.go\<close>): locale \<open>labelable\<close>, interpreted
    on object metadata.
  \<^item> \<open>Cleanup\<close> (\<open>utils/cleanup.go\<close>): which objects may be deleted. What is deleted, that nothing
    disposable is left, and what protects a snapshot.
  \<^item> \<open>State_Machine\<close> (\<open>statemachine\<close>): the interface \<open>ReplicationMachine\<close> as a record, \<open>Run\<close> with its
    three phases. \<open>Machine_Laws\<close>: the locale \<open>replication_machine\<close> with the laws of the interface
    (every setter is seen by its getter, movers do not touch the schedule) and an abstract view
    of the state; each function of the machine is described on the view, and \<open>phase_step\<close> is the
    abstract life cycle.
  \<^item> \<open>Rs_Controller\<close>, \<open>Rd_Controller\<close> (\<open>replicationsource_controller.go\<close>,
    \<open>replicationdestination_controller.go\<close>): the reconcilers and their machines, which interpret
    \<open>replication_machine\<close> (\<open>rsm\<close>, \<open>rdm\<close>); refinement of the life cycle, what a run records,
    when a synchronization starts, that a first one finishes, that errors are published.
  \<^item> \<open>Movers\<close> (\<open>mover/mover.go\<close>, \<open>mover/builder.go\<close>, \<open>metrics.go\<close>, \<open>utils/namespace.go\<close>): the mover
    interface, the catalog, privileges.
  \<^item> \<open>Volume_Handler\<close> (\<open>volumehandler\<close>): copies of the source volume by clone or snapshot, the copy
    trigger protocol, destination volumes and their images.
  \<^item> \<open>Volume_Populator\<close> (\<open>volumepopulator_controller.go\<close>).
  \<^item> \<open>Names\<close>, \<open>Utils\<close>, \<open>Sa_Handler\<close>, \<open>Pod_Logs\<close>, \<open>Log_Filter\<close> (\<open>utils\<close>, the log filters of the movers):
    generated names, validation, affinity, service accounts (locale \<open>sa_handler\<close>), mover status,
    log lines; the regular expressions of the filters are matched by derivatives.
  \<^item> \<open>Mover_Jobs\<close>: what movers that run a job share, and the locale \<open>job_mover\<close> with the
    contract of such a mover (what it writes, and that it completes only when its job succeeded).
    \<open>Restic_Mover\<close> and \<open>Rclone_Mover\<close> (\<open>mover/restic\<close>, \<open>mover/rclone\<close>) interpret it.
  \<^item> \<open>Rsync_Common\<close>, \<open>Rsync_Mover\<close>, \<open>RsyncTLS_Mover\<close> (\<open>mover/rsync\<close>, \<open>mover/rsynctls\<close>): the movers that connect
    two clusters, over SSH and over TLS, also interpretations of \<open>job_mover\<close>: the service and its
    published address, and the keys. \<open>ssh-keygen\<close> and the random bytes are parameters of the cluster.
  \<^item> \<open>Syncthing_Api\<close>, \<open>Syncthing_Mover\<close> (\<open>mover/syncthing\<close>): the mover that runs all the time in a Deployment and is
    configured over its REST API. What it writes and whom it talks to, that it does not panic, and that
    configuring the list of devices settles. The HTTP transport, the JSON conversions, Syncthing's
    parser of device IDs, RSA keys and X.509 signing are the parameter \<open>stEnv\<close>; that Syncthing gives every
    device an address is the hypothesis \<open>addresses_documented\<close>.
  \<^item> \<open>Go_Std\<close>: what the code uses of Go's library: trimming, SHA-256, JSON, paths, rounding of
    \<open>float64\<close>.
    \<open>Kopia_Identity\<close> (\<open>mover/kopia/builder.go\<close>): the user and host names snapshots are kept under, and
    the identity a destination asks for. \<open>Kopia_Logs\<close> (\<open>logparser.go\<close>): the identities found in the log
    of a discovery. \<open>Kopia_Maintenance\<close> (\<open>maintenance.go\<close>): the older maintenance manager, which the mover
    calls. \<open>Kopia_Mover\<close>, \<open>Kopia_Builder\<close> (\<open>mover.go\<close>, \<open>builder.go\<close>): the mover; what it writes, that a
    mover made by the builder never panics, and the record of its cache limits.
  \<^item> \<open>Km_Types\<close> (\<open>kopiamaintenance_types.go\<close>): defaults and validation of a KopiaMaintenance, and the
    comparisons of its controller. \<open>Km_Controller\<close> (\<open>kopiamaintenance_controller.go\<close>): the reconciler.
    \<open>Km_Laws\<close>: what it writes, that the comparison with an existing CronJob converges, when a manual tag
    and the count of failures are recorded, and the finalizer. Its hypotheses (\<open>get_documented\<close>,
    \<open>list_documented\<close>, \<open>status_subresource\<close>, \<open>noDescriptors_documented\<close>, ...) are documented behaviour of
    the API server and the cron parser.
  \<^item> This theory: the composition of the source controller with a mover.

  \<^bold>\<open>Termination and bounds.\<close> Every loop of the modelled code runs over a finite list, so every
  definition is a total function and no fuel is needed. \<open>time.Duration\<close> and \<open>int64\<close> arithmetic that can
  overflow is written out (\<open>time_Sub\<close> saturates, \<open>wrap64\<close> wraps).

  \<^bold>\<open>Not modelled.\<close> Log output and the texts of events have no effect on the cluster and are left
  out, as are Prometheus registration, command line parsing (\<open>cmd\<close>), the kubectl plugin
  (\<open>kubectl-volsync\<close>, an interactive client), the data movers themselves (shell scripts and the vendored
  restic and minio-go under \<open>mover-restic\<close>) and generated code (\<open>zz_generated.deepcopy.go\<close>).
\<close>

section \<open>The source controller with the restic mover\<close>

text \<open>C17: When the state machine of a ReplicationSource that is served by the restic mover records a
  synchronization, the API server has answered with the job of that mover, and the job had
  succeeded: no backup is reported that did not run to its end.\<close>

theorem rs_restic_sync_means_job:
  assumes "libs_documented cl"
    and vh: "moverVH (objmeta.truncate source) (rr_volumeOptions spec) = Inr vh"
    and mv: "mv = rsResticMover cl (resticSource cl img source spec privileged vh)"
    and "rs_status (sm_rs m) \<noteq> None"
    and run: "run_state (Run (rsEnv cl) (rsMachine mv)) m = (Ret (res, None), m')"
    and moved: "LastSyncTime (rsMachine mv) m' \<noteq> LastSyncTime (rsMachine mv) m"
  shows "\<exists>st sst j. answeredJob cl (resticSource cl img source spec privileged vh st sst) j \<and> job_succeeded j \<noteq> 0"
proof -
  have inv: "rsInv m" using assms(4) by (simp add: rsInv_def)
  have inv': "rsInv m'" using rsm.run_inv[OF inv, of cl mv] run by simp
  have "v_last (rsView m') \<noteq> v_last (rsView m)"
    using moved rsm.get_last[OF inv, of mv] rsm.get_last[OF inv', of mv] by simp
  then obtain mr m1 where sync: "fst (run_state (Synchronize (rsMachine mv)) m1) = Ret (mr, None)" "mr_completed mr"
    using rsm.run_recorded[OF inv run] by blast
  obtain st sst m2 tr tr' where r:
    "run_state (resticSynchronize cl (resticSource cl img source spec privileged vh st sst)) tr = ((Ret (mr, None), m2), tr')"
    using sync(1) by (auto simp: mv rsMachine_def rsMoverOp_def rsResticMover_def Let_def split: prod.splits)
  have wb: "wellBuilt cl (resticSource cl img source spec privileged vh st sst)" by (rule wellBuilt_built(1)[OF vh])
  from emits_run[OF emits_resticSynchronize[OF assms(1) wb] r] sync(2)
  obtain j where j: "answeredJob cl (resticSource cl img source spec privileged vh st sst) j" by auto
  then have "job_succeeded j \<noteq> 0" by (simp add: answeredJob_def)
  with j show ?thesis by blast
qed

text \<open>
  The witness: a server that holds the source claim, a service account, the repository secret and the
  job of the mover, which has succeeded.
\<close>

definition busyCluster :: cluster where
  "busyCluster = sampleCluster\<lparr>
     pvcs := withCou ((sampleClient KPVC OPVC)\<lparr>k_get := \<lambda>_ k. Inr (newPVC (fst k) (snd k))\<rparr>),
     serviceaccounts := withCou ((sampleClient KServiceAccount OServiceAccount)
       \<lparr>k_get := \<lambda>_ k. Inr (newServiceAccount (fst k) (snd k))\<rparr>),
     secrets := withCou ((sampleClient KSecret OSecret)\<lparr>k_get := \<lambda>_ k. Inr ((newSecret (fst k) (snd k))
       \<lparr>sec_data := Some [(''RESTIC_REPOSITORY'', ''s3:x''), (''RESTIC_PASSWORD'', ''pw'')]\<rparr>)\<rparr>),
     jobs := withCou ((sampleClient KJob OJob)\<lparr>k_get := \<lambda>_ k. Inr ((newJob (fst k) (snd k))\<lparr>job_succeeded := 1\<rparr>)\<rparr>)\<rparr>"

definition busySpec :: rsResticSpec where
  "busySpec = \<lparr>rr_volumeOptions = \<lparr>vo_copyMethod = CopyMethodDirect, vo_capacity = None, vo_storageClassName = None,
       vo_accessModes = Some [ReadWriteOnce], vo_volumeSnapshotClassName = None\<rparr>,
     rr_pruneIntervalDays = None, rr_repository = ''repo'',
     rr_customCA = \<lparr>ca_secretName = [], ca_configMapName = [], ca_key = []\<rparr>, rr_retain = None,
     rr_cacheCapacity = None, rr_cacheStorageClassName = None, rr_cacheAccessModes = None, rr_unlock = [],
     rr_moverConfig = \<lparr>mc_securityContext = None, mc_serviceAccount = Some ''sa'', mc_podLabels = [],
       mc_resources = None, mc_affinity = None, mc_volumes = []\<rparr>\<rparr>"

lemma busy_clients [simp]:
  "pvcC busyCluster = pvcs busyCluster" "saC busyCluster = serviceaccounts busyCluster"
  "secretC busyCluster = secrets busyCluster" "jobC busyCluster = jobs busyCluster"
  "snapC busyCluster = sampleClient KSnapshot OSnapshot" "roleC busyCluster = sampleClient KRole ORole"
  "roleBindingC busyCluster = sampleClient KRoleBinding ORoleBinding" "podC busyCluster = sampleClient KPod OPod"
  by (simp_all add: pvcC_def saC_def secretC_def jobC_def snapC_def roleC_def roleBindingC_def podC_def busyCluster_def
      client_id) (simp_all add: sampleCluster_def client_id)

lemma busy_cou [simp]:
  "cou_documented (pvcs busyCluster)" "cou_documented (serviceaccounts busyCluster)"
  "cou_documented (secrets busyCluster)" "cou_documented (jobs busyCluster)"
  by (simp_all add: busyCluster_def)

lemma busy_fields [simp]:
  "setControllerReference busyCluster = sampleSetControllerReference"
  "setOwnerReference busyCluster = sampleSetOwnerReference" "timeNow busyCluster = (\<lambda>_. 1000 * hour)"
  "hasOwnerReference busyCluster = hasOwnerReference sampleCluster"
  "setStatusCondition busyCluster = sampleSetStatusCondition" "cronParse busyCluster = sampleCron"
  by (simp_all add: busyCluster_def)

lemma busy_libs: "libs_documented busyCluster"
  using sample_libs sample_controllerRef sample_ownerRef
  by (auto simp: libs_documented_def sa_documented_def hasOwnerRef_documented_def controllerRef_documented_def
      ownerRef_documented_def)

definition busyMover :: "moverStatus \<Rightarrow> rsResticStatus \<Rightarrow> resticMover" where
  "busyMover = resticSource busyCluster ''restic'' (sampleRS [] None) busySpec False
     (emptyVH\<lparr>vh_hasClient := True, vh_hasRecorder := True, vh_owner := Some (newMeta ''ns'' ''rs''),
        vh_copyMethod := CopyMethodDirect, vh_accessModes := Some [ReadWriteOnce]\<rparr>)"

lemma busyMover_sel [simp]:
  "rm_owner (busyMover st sst) = newMeta ''ns'' ''rs''" "rm_isSource (busyMover st sst)"
  "rm_mainPVCName (busyMover st sst) = Some ''data''" "rm_repositoryName (busyMover st sst) = ''repo''"
  "rm_saHandler (busyMover st sst) = SAHandlerUserSupplied (newServiceAccount ''ns'' ''sa'')"
  "rm_latestMoverStatus (busyMover st sst) = st" "rm_sourceStatus (busyMover st sst) = sst"
  "rm_customCASpec (busyMover st sst) = \<lparr>ca_secretName = [], ca_configMapName = [], ca_key = []\<rparr>"
  "mc_volumes (rm_moverConfig (busyMover st sst)) = []"
  by (simp_all add: busyMover_def resticSource_def sampleRS_def busySpec_def replicationsource.defs objmeta.defs
      NewSAHandler_def new_defs)

lemma busy_gets [simp]:
  "k_get (pvcs busyCluster) = (\<lambda>_ k. Inr (newPVC (fst k) (snd k)))"
  "k_get (serviceaccounts busyCluster) = (\<lambda>_ k. Inr (newServiceAccount (fst k) (snd k)))"
  "k_get (secrets busyCluster) = (\<lambda>_ k. Inr ((newSecret (fst k) (snd k))
       \<lparr>sec_data := Some [(''RESTIC_REPOSITORY'', ''s3:x''), (''RESTIC_PASSWORD'', ''pw'')]\<rparr>))"
  "k_get (jobs busyCluster) = (\<lambda>_ k. Inr ((newJob (fst k) (snd k))\<lparr>job_succeeded := 1\<rparr>))"
  "k_update (pvcs busyCluster) = (\<lambda>_ x. Inr x)" "k_update (jobs busyCluster) = (\<lambda>_ x. Inr x)"
  by (simp_all add: busyCluster_def)

lemma busy_data:
  "\<exists>vh tr'. run_state (ensureDataPVC busyCluster ''-dest'' (newMeta ''ns'' ''rs'') True (Some ''data'') b
      (rm_vh (busyMover st sst)) ms) tr = ((Ret (Some (newPVC ''ns'' ''data''), None), vh, ms), tr') \<and>
     vh = (rm_vh (busyMover st sst))\<lparr>vh_volumeMode := Some Filesystem\<rparr>"
  by (simp add: ensureDataPVC_def ensureSourcePVC_def kube_ops EnsurePVCFromSrc_def withSourceMode_def
      busyMover_def resticSource_def new_defs)

lemma busy_cou_update:
  assumes "cou_documented c" "k_get c = (\<lambda>_ k. Inr (old k))" "k_update c = (\<lambda>_ x. Inr x)"
    and "\<And>tr. \<exists>y tr'. run_state (f (old (objKey x))) tr = ((None, y), tr') \<and> P y"
  shows "\<exists>op y tr'. run_state (CreateOrUpdate c x f) tr = ((op, None, y), tr') \<and> P y"
proof -
  obtain y tr' where "run_state (f (old (objKey x))) (CGet (k_kind c) (objKey x) # tr) = ((None, y), tr')" "P y"
    using assms(4) by blast
  then show ?thesis
    by (cases "y = old (objKey x)") (auto simp: cou_documentedD[OF assms(1)] cou_steps_def kube_ops assms(2,3))
qed

lemma busy_owned: "\<exists>y. takeOwnership busyCluster vh t x = Inr y \<and> objmeta.more y = objmeta.more x" if "om_ownerRefs x = []"
  using that by (auto simp: takeOwnership_def sampleSetControllerReference_def SetOwnedByVolSync_def MarkForCleanup_def
     AddLabel_meta Let_def)

lemma busy_new_pvc:
  assumes "vh_accessModes vh = Some [a]" "vh_capacity vh = Some c"
  shows "\<exists>p vh' tr'. run_state (EnsureNewPVC busyCluster vh name t) tr = ((Inr p, vh'), tr')"
proof -
  let ?vh = "if vh_volumeMode vh = None then vh\<lparr>vh_volumeMode := Some Filesystem\<rparr> else vh"
  let ?x = "newPVC (om_namespace (vhOwner ?vh)) name"
  have "\<exists>y tr'. run_state (newPVCMutate busyCluster ?vh t c (newPVC (fst (objKey ?x)) (snd (objKey ?x)))) tr = ((None, y), tr')" for tr
    using busy_owned[of "newPVC (fst (objKey ?x)) (snd (objKey ?x))" ?vh t] by (auto simp: newPVCMutate_def new_defs)
  then obtain op y tr' where "run_state (CreateOrUpdate (pvcs busyCluster) ?x (newPVCMutate busyCluster ?vh t c)) tr = ((op, None, y), tr')"
    using busy_cou_update[of "pvcs busyCluster" "\<lambda>k. newPVC (fst k) (snd k)" "newPVCMutate busyCluster ?vh t c" ?x "\<lambda>_. True" tr] by auto
  then show ?thesis
    using assms by (cases "vh_volumeMode vh") (simp_all add: EnsureNewPVC_def Let_def case_prod_beta)
qed

lemma busy_cache:
  assumes "GetAccessModes (rm_vh m) = Some [ReadWriteOnce]" "vh_owner (rm_vh m) \<noteq> None" "vh_hasClient (rm_vh m)"
    "rm_cacheAccessModes m = None" "rm_cacheCapacity m = None" "rm_cacheStorageClassName m = None"
  shows "\<exists>p tr'. run_state (ensureCache busyCluster m data t) tr = ((Some p, None), tr')"
proof -
  let ?vh = "(rm_vh m)\<lparr>vh_capacity := Some (1024 * 1024 * 1024), vh_hasRecorder := True\<rparr>"
  have vh: "NewVolumeHandler (cacheConfig m data) = Inr ?vh"
    using assms by (auto simp: NewVolumeHandler_def cacheConfig_def Let_def)
  have mig: "\<exists>tr'. run_state (migrationCleanupObsoleteCachePVC busyCluster m) tr = (None, tr')" for tr
    by (simp add: migrationCleanupObsoleteCachePVC_def kube_ops sampleCluster_def new_defs)
  obtain tr1 where 1: "run_state (migrationCleanupObsoleteCachePVC busyCluster m) tr = (None, tr1)" using mig by blast
  have am: "vh_accessModes ?vh = Some [ReadWriteOnce]" "vh_capacity ?vh = Some (1024 * 1024 * 1024)"
    using assms by (simp_all add: GetAccessModes_def)
  obtain p vh' tr' where "run_state (EnsureNewPVC busyCluster ?vh
      (VolSyncPrefix @ moverDir (rm_isSource m) @ ''-'' @ om_name (rm_owner m) @ ''-cache'') t) tr1 = ((Inr p, vh'), tr')"
    using busy_new_pvc[OF am] by blast
  with 1 show ?thesis by (simp add: ensureCache_def vh)
qed

lemma busy_affinity: "\<exists>t' tr'. run_state (directAffinity busyCluster vh p t) tr = ((None, t'), tr')"
  by (simp add: directAffinity_def AffinityFromVolume_def podsUsingPVC_def podsUsing_def kube_ops split: prod.splits)

lemma busy_mutate:
  assumes "mc_volumes (rm_moverConfig m) = []"
  shows "\<exists>y tr'. run_state (resticMutate busyCluster m cache data sa repo ca
      ((newJob ns n)\<lparr>job_succeeded := 1\<rparr>)) tr = ((None, y), tr') \<and>
     (job_succeeded y = 1 \<and> job_failed y = 0 \<and> job_backoffLimit y = Some 8)"
proof -
  let ?j = "(newJob ns n)\<lparr>job_succeeded := 1\<rparr>"
  obtain j1 where o: "ownForCleanup busyCluster (rm_owner m) ?j = Inr j1" and "objmeta.more j1 = objmeta.more ?j"
    using busy_owned[of ?j] unfolding ownForCleanup_takeOwnership by (auto simp: new_defs)
  then have j1: "job_succeeded j1 = 1" "job_failed j1 = 0" by (cases j1, simp add: new_defs)+
  obtain t1 tr1 where 1: "run_state (resticFill busyCluster m cache data sa repo
      (job_template (jobSkeleton [] (rm_paused m) 8 j1))) tr = (t1, tr1)" by (metis surj_pair)
  obtain t2 tr2 where 2: "run_state (directAffinity busyCluster (rm_vh m) data t1) tr1 = ((None, t2), tr2)"
    using busy_affinity by blast
  show ?thesis
    using 1 2 j1 by (simp add: resticMutate_def jobMutate_def o Let_def assms) (simp add: jobSkeleton_def)
qed

lemma busy_job:
  assumes "mc_volumes (rm_moverConfig m) = []"
  shows "\<exists>j m' tr'. run_state (resticEnsureJob busyCluster m cache data sa repo ca) tr = ((Ret (Some j, None), m'), tr') \<and>
     rm_isSource m' = rm_isSource m \<and> rm_vh m' = rm_vh m"
proof -
  obtain op j tr1 where j: "run_state (CreateOrUpdate (jobs busyCluster) (resticJobObject m)
      (resticMutate busyCluster m cache data sa repo ca)) tr = ((op, None, j), tr1)"
    "job_succeeded j = 1 \<and> job_failed j = 0 \<and> job_backoffLimit j = Some 8"
    using busy_cou_update[of "jobs busyCluster" "\<lambda>k. (newJob (fst k) (snd k))\<lparr>job_succeeded := 1\<rparr>"
      "resticMutate busyCluster m cache data sa repo ca" "resticJobObject m"
      "\<lambda>j. job_succeeded j = 1 \<and> job_failed j = 0 \<and> job_backoffLimit j = Some 8" tr]
      busy_mutate[OF assms] by auto
  show ?thesis
    using j by (simp add: resticEnsureJob_def CreateOrUpdateDeleteOnImmutableErr_def jobOutcome_def case_prod_beta
        recordPrune_def recordUnlock_def)
qed

lemma busy_run:
  "\<exists>m' tr'. run_state (resticSynchronize busyCluster (busyMover st sst)) tr = ((Ret (Complete, None), m'), tr')"
proof -
  let ?vh = "(rm_vh (busyMover st sst))\<lparr>vh_volumeMode := Some Filesystem\<rparr>"
  let ?m = "(busyMover st sst)\<lparr>rm_vh := ?vh, rm_latestMoverStatus := st\<rparr>"
  let ?d = "newPVC ''ns'' ''data''"
  obtain tr1 where 1: "run_state (ensureDataPVC busyCluster ''-dest'' (newMeta ''ns'' ''rs'') True (Some ''data'')
      (rm_cleanupTempPVC (busyMover st sst)) (rm_vh (busyMover st sst)) st) tr = ((Ret (Some ?d, None), ?vh, st), tr1)"
    using busy_data by blast
  obtain cache tr2 where 2: "run_state (ensureCache busyCluster ?m ?d (rm_cleanupCachePVC ?m)) tr1 = ((Some cache, None), tr2)"
    using busy_cache[of ?m ?d "rm_cleanupCachePVC ?m" tr1]
    by (auto simp: busyMover_def resticSource_def busySpec_def GetAccessModes_def)
  have names: "om_namespace (newMeta ''ns'' ''rs'') = ''ns''" by (simp add: new_defs)
  obtain sa tr3 where 3: "run_state (saReconcile busyCluster (rm_saHandler ?m)) tr2 = ((Some sa, None), tr3)"
    by (simp add: reconcileUserSA_def kube_ops)
  obtain repo tr4 where 4: "run_state (validateRepository busyCluster ?m) tr3 = (Inr repo, tr4)"
    by (simp add: validateRepository_def GetAndValidateSecret_def SecretHasFields_def kube_ops entries_def)
  obtain j m' tr5 where 5: "run_state (resticEnsureJob busyCluster ?m cache ?d sa repo None) tr4 = ((Ret (Some j, None), m'), tr5)"
    "rm_isSource m' = rm_isSource ?m"
    using busy_job[of ?m cache ?d sa repo None tr4] by auto
  have "\<exists>m' tr'. run_state (resticRun busyCluster ?m ?d) tr1 = ((Ret (Complete, None), m'), tr')"
    using 2 3 4 5 by (simp add: resticRun_def ValidateCustomCA_def ValidateMoverVolumes_def moverFinish_def)
  with 1 show ?thesis by (simp add: resticSynchronize_def Let_def)
qed

theorem rs_restic_sync_means_job_witness:
  "\<exists>st sst j. answeredJob busyCluster (busyMover st sst) j \<and> job_succeeded j \<noteq> 0"
proof -
  let ?mv = "rsResticMover busyCluster busyMover"
  let ?m = "sampleRsState [] (emptyRSStatus\<lparr>rss_lastSyncStartTime := Some (999 * hour)\<rparr>)"
  have vh: "moverVH (objmeta.truncate (sampleRS [] None)) (rr_volumeOptions busySpec) =
      Inr (emptyVH\<lparr>vh_hasClient := True, vh_hasRecorder := True, vh_owner := Some (newMeta ''ns'' ''rs''),
        vh_copyMethod := CopyMethodDirect, vh_accessModes := Some [ReadWriteOnce]\<rparr>)"
    by (simp add: moverVH_def NewVolumeHandler_def emptyVH_def busySpec_def sampleRS_def replicationsource.defs new_defs)
  have st: "rs_status (sm_rs ?m) \<noteq> None" by (simp add: sample_rs_defs)
  then have inv: "rsInv ?m" by (simp add: rsInv_def)
  have s: "v_start (rsView ?m) = Some (999 * hour)" "(999 :: int) * hour \<noteq> 0" "v_last (rsView ?m) = None"
    by (simp_all add: rsView_def sample_rs_defs)
  have sync: "fst (run_state (Synchronize (rsMachine ?mv)) m) = Ret (Complete, None)" for m
    using busy_run[of "orElse (rp_moverStatus (rsPartOf (rsStatus (sm_rs m)))) emptyMoverStatus"
        "orElse (rp_resticStatus (rsPartOf (rsStatus (sm_rs m)))) \<lparr>rrs_lastPruned = None, rrs_lastUnlocked = []\<rparr>" "sm_trace m"]
    by (auto simp: rsMachine_def rsMoverOp_def rsResticMover_def Let_def)
  have "schedule_ok (rsEnv busyCluster) (rsView ?m)"
    by (auto simp: schedule_ok_def rsView_def sample_rs_defs sampleCron_def getSchedule_def)
  then obtain res m' where run: "run_state (Run (rsEnv busyCluster) (rsMachine ?mv)) ?m = (Ret (res, None), m')"
    using rsm.run_synchronizing_ok[OF inv, of busyCluster ?mv] sync s by (auto simp: phase_def Complete_def)
  have inv': "rsInv m'" using rsm.run_inv[OF inv, of busyCluster ?mv] run by simp
  obtain mr m3 where "fst (run_state (Synchronize (rsMachine ?mv)) m3) = Ret (mr, None)"
    "mr_completed mr \<longrightarrow> (\<exists>t2 n nx. rsView m' = finished (rsEnv busyCluster)
       ((rsView ?m)\<lparr>v_outOfSync := Some False\<rparr>) (999 * hour) t2 n nx)"
    using rsm.run_synchronizing[OF inv s(1,2) run] by (metis (no_types, lifting))
  then have "v_last (rsView m') \<noteq> None" using sync[of m3] by (auto simp: Complete_def finished_def)
  then have moved: "LastSyncTime (rsMachine ?mv) m' \<noteq> LastSyncTime (rsMachine ?mv) ?m"
    using rsm.get_last[OF inv, of ?mv] rsm.get_last[OF inv', of ?mv] s(3) by simp
  from rs_restic_sync_means_job[OF busy_libs vh _ st run moved] show ?thesis by (simp add: busyMover_def)
qed

end
